(* ===== verification/Dap_Prelude.thy ===== *)
theory Dap_Prelude
  imports Main "HOL-Library.Word"
begin

text \<open>
  Vocabulary shared by every component: C strings and \<open>wxString\<close> values as lists of
  8-bit characters, the ranges of the C integer types, the searches that
  \<open>std::string\<close> and \<open>wxString\<close> share (\<open>find\<close>, \<open>substr\<close>), and the generic list lemmas
  and theorem collections of the component proofs.

  A \<open>wxString\<close> and the \<open>char *\<close> it is converted to are the same list here. That is exact
  for ASCII text, and the theorems that cross a conversion assume \<open>ascii_text\<close>.
\<close>

named_theorems wf_simps \<open>well-formedness of JSON trees and messages\<close>
named_theorems json_simps \<open>reading members back from a JSON tree\<close>
named_theorems client_simps \<open>unfolding of the client's helpers\<close>

section \<open>Characters and C strings\<close>

abbreviation code :: "char \<Rightarrow> nat" where
  "code c \<equiv> of_char c"

definition NUL :: char where
  "NUL = CHR 0x00"

definition c_str :: "string \<Rightarrow> string" where
  \<comment> \<open>the characters a reader of the C string sees: those before the first NUL\<close>
  "c_str s = takeWhile (\<lambda>c. c \<noteq> NUL) s"

definition no_nul :: "string \<Rightarrow> bool" where
  "no_nul s \<longleftrightarrow> NUL \<notin> set s"

definition ascii_char :: "char \<Rightarrow> bool" where
  "ascii_char c \<longleftrightarrow> 0 < code c \<and> code c < 128"

definition ascii_text :: "string \<Rightarrow> bool" where
  "ascii_text s \<longleftrightarrow> list_all ascii_char s"

definition peek :: "string \<Rightarrow> char" where
  \<comment> \<open>\<open>*ptr\<close> for a pointer into a C string: the terminator at its end\<close>
  "peek s = (case s of [] \<Rightarrow> NUL | c # _ \<Rightarrow> c)"

definition is_space :: "char \<Rightarrow> bool" where
  \<comment> \<open>\<open>isspace\<close> of the C locale\<close>
  "is_space c \<longleftrightarrow> code c = 32 \<or> (9 \<le> code c \<and> code c \<le> 13)"

definition is_digit :: "char \<Rightarrow> bool" where
  "is_digit c \<longleftrightarrow> 48 \<le> code c \<and> code c \<le> 57"

definition digit_val :: "char \<Rightarrow> int" where
  "digit_val c = int (code c) - 48"

fun starts_with :: "string \<Rightarrow> string \<Rightarrow> bool" where
  "starts_with [] s = True"
| "starts_with (p # ps) [] = False"
| "starts_with (p # ps) (c # cs) = (p = c \<and> starts_with ps cs)"

fun find_char :: "char \<Rightarrow> string \<Rightarrow> nat option" where
  \<comment> \<open>\<open>str.find(ch)\<close>, with \<open>None\<close> for \<open>npos\<close>\<close>
  "find_char ch [] = None"
| "find_char ch (c # cs) = (if c = ch then Some 0 else map_option Suc (find_char ch cs))"

fun find_sub :: "string \<Rightarrow> string \<Rightarrow> nat option" where
  \<comment> \<open>\<open>str.find(pat)\<close> for a string pattern\<close>
  "find_sub pat [] = (if pat = [] then Some 0 else None)"
| "find_sub pat (c # cs) =
     (if starts_with pat (c # cs) then Some 0 else map_option Suc (find_sub pat cs))"

lemma peek_simps [simp]: "peek [] = NUL" "peek (c # cs) = c"
  by (simp_all add: peek_def)

lemma NUL_code [simp]: "code NUL = 0"
  by (simp add: NUL_def)

lemma NUL_eq [simp]:
  "Char b0 b1 b2 b3 b4 b5 b6 b7 = NUL \<longleftrightarrow>
     \<not> b0 \<and> \<not> b1 \<and> \<not> b2 \<and> \<not> b3 \<and> \<not> b4 \<and> \<not> b5 \<and> \<not> b6 \<and> \<not> b7"
  "NUL = Char b0 b1 b2 b3 b4 b5 b6 b7 \<longleftrightarrow>
     \<not> b0 \<and> \<not> b1 \<and> \<not> b2 \<and> \<not> b3 \<and> \<not> b4 \<and> \<not> b5 \<and> \<not> b6 \<and> \<not> b7"
  by (auto simp: NUL_def)

lemma code_pos:
  assumes "c \<noteq> NUL"
  shows "0 < code c"
proof (rule ccontr)
  assume "\<not> 0 < code c"
  then have "char_of (code c) = char_of (code NUL)" by simp
  with assms show False by (simp only: char_of_char)
qed

lemma ascii_not_NUL: "ascii_char c \<Longrightarrow> c \<noteq> NUL"
  by (auto simp: ascii_char_def)

lemma ascii_text_simps [simp]:
  "ascii_text []"
  "ascii_text (c # cs) \<longleftrightarrow> ascii_char c \<and> ascii_text cs"
  "ascii_text (xs @ ys) \<longleftrightarrow> ascii_text xs \<and> ascii_text ys"
  by (simp_all add: ascii_text_def)

lemma ascii_no_nul: "ascii_text s \<Longrightarrow> no_nul s"
  by (induction s) (auto simp: no_nul_def dest: ascii_not_NUL)

lemma no_nul_simps [simp]:
  "no_nul []"
  "no_nul (c # cs) \<longleftrightarrow> c \<noteq> NUL \<and> no_nul cs"
  "no_nul (xs @ ys) \<longleftrightarrow> no_nul xs \<and> no_nul ys"
  by (auto simp: no_nul_def)

lemma c_str_id: "no_nul s \<Longrightarrow> c_str s = s"
  by (induction s) (auto simp: c_str_def)

lemma c_str_Nil: "c_str [] = []"
  and c_str_Cons: "c_str (c # cs) = (if c = NUL then [] else c # c_str cs)"
  by (simp_all add: c_str_def)

lemma no_nul_c_str [simp]: "no_nul (c_str s)"
  by (induction s) (auto simp: c_str_def no_nul_def)

lemma starts_with_append: "starts_with p (p @ s)"
  by (induction p) auto

lemma starts_with_iff: "starts_with p s \<longleftrightarrow> take (length p) s = p"
  by (induction p s rule: starts_with.induct) auto

lemma starts_with_length: "starts_with p s \<Longrightarrow> length p \<le> length s"
  by (induction p s rule: starts_with.induct) auto

lemma find_char_None: "find_char c s = None \<longleftrightarrow> c \<notin> set s"
  by (induction s) auto

lemma find_char_takeWhile:
  "find_char c s = Some n \<Longrightarrow> take n s = takeWhile (\<lambda>x. x \<noteq> c) s
     \<and> drop (Suc n) s = tl (dropWhile (\<lambda>x. x \<noteq> c) s)"
  by (induction s arbitrary: n) (auto split: if_splits)

lemma find_char_append_notin:
  "c \<notin> set xs \<Longrightarrow> find_char c (xs @ c # ys) = Some (length xs)"
  by (induction xs) auto

lemma find_sub_bound: "find_sub pat s = Some n \<Longrightarrow> n + length pat \<le> length s"
  by (induction s arbitrary: n) (auto split: if_splits dest: starts_with_length)

lemma find_sub_starts: "find_sub pat s = Some n \<Longrightarrow> starts_with pat (drop n s)"
  by (induction s arbitrary: n) (auto split: if_splits)

text \<open>
  A match found in a prefix stays the first match when more text is appended: this is what
  makes an incrementally filled buffer readable.
\<close>

lemma starts_with_extend: "starts_with p s \<Longrightarrow> starts_with p (s @ t)"
  by (induction p s rule: starts_with.induct) auto

lemma starts_with_shrink:
  "starts_with p (s @ t) \<Longrightarrow> length p \<le> length s \<Longrightarrow> starts_with p s"
  by (simp add: starts_with_iff)

lemma find_sub_Some_append:
  "find_sub pat s = Some n \<Longrightarrow> find_sub pat (s @ t) = Some n"
proof (induction s arbitrary: n)
  case Nil
  then show ?case by (cases t) (auto split: if_splits)
next
  case (Cons c cs)
  show ?case
  proof (cases "starts_with pat (c # cs)")
    case True
    then have "starts_with pat ((c # cs) @ t)" by (rule starts_with_extend)
    with True Cons.prems show ?thesis by simp
  next
    case False
    with Cons.prems obtain m where m: "find_sub pat cs = Some m" "n = Suc m" by auto
    then have "m + length pat \<le> length cs" by (auto dest: find_sub_bound)
    then have "\<not> starts_with pat ((c # cs) @ t)"
      using False starts_with_shrink [of pat "c # cs" t] by auto
    with m Cons.IH show ?thesis by simp
  qed
qed

lemma find_sub_exists:
  "starts_with pat (drop w s) \<Longrightarrow> w \<le> length s \<Longrightarrow> \<exists>v \<le> w. find_sub pat s = Some v"
proof (induction s arbitrary: w)
  case Nil
  then show ?case by (cases pat) auto
next
  case (Cons c cs)
  show ?case
  proof (cases w)
    case 0
    then show ?thesis using Cons.prems by simp
  next
    case (Suc k)
    then obtain v where "v \<le> k" "find_sub pat cs = Some v" using Cons by auto
    then show ?thesis using Suc by simp
  qed
qed

lemma find_sub_take:
  assumes "find_sub pat s = Some w" "w + length pat \<le> k"
  shows "find_sub pat (take k s) = Some w"
proof -
  have b: "w + length pat \<le> length s" using assms(1) by (rule find_sub_bound)
  have "drop w s = drop w (take k s) @ drop k s"
    using assms(2) by (metis add_leE append_take_drop_id drop_append drop_take
        diff_le_self drop_drop le_add_diff_inverse2 le_add_diff_inverse add.commute
        append.assoc take_drop)
  moreover have "length pat \<le> length (drop w (take k s))" using assms(2) b by simp
  ultimately have "starts_with pat (drop w (take k s))"
    using find_sub_starts [OF assms(1)] starts_with_shrink by metis
  then obtain v where v: "find_sub pat (take k s) = Some v"
    using find_sub_exists [of pat w "take k s"] assms(2) b by auto
  then have "find_sub pat (take k s @ drop k s) = Some v" by (rule find_sub_Some_append)
  with assms(1) v show ?thesis by simp
qed

section \<open>C integer ranges\<close>

definition INT_MAX :: int where "INT_MAX = 2147483647"
definition INT_MIN :: int where "INT_MIN = - 2147483648"
definition LONG_MAX :: int where "LONG_MAX = 9223372036854775807"

definition int32 :: "int \<Rightarrow> bool" where
  "int32 i \<longleftrightarrow> INT_MIN \<le> i \<and> i \<le> INT_MAX"

definition wrap32 :: "int \<Rightarrow> int" where
  \<comment> \<open>two's complement result of a 32-bit \<open>int\<close> operation\<close>
  "wrap32 i = (i + 2147483648) mod 4294967296 - 2147483648"

definition wxNOT_FOUND :: int where "wxNOT_FOUND = - 1"

lemma wrap32_id [simp]: "int32 i \<Longrightarrow> wrap32 i = i"
  by (simp add: int32_def wrap32_def INT_MAX_def INT_MIN_def)

lemma wrap32_range: "int32 (wrap32 i)"
  by (simp add: int32_def wrap32_def INT_MAX_def INT_MIN_def)

lemma int32_numeral [simp]:
  "int32 0" "int32 1" "int32 (- 1)"
  by (simp_all add: int32_def INT_MAX_def INT_MIN_def)

lemma int32_not_found [simp]: "int32 wxNOT_FOUND"
  by (simp add: wxNOT_FOUND_def)

section \<open>Lists\<close>

lemma takeWhile_append_stop:
  "list_all P xs \<Longrightarrow> \<not> P y \<Longrightarrow> takeWhile P (xs @ y # ys) = xs"
  by (induction xs) auto

lemma dropWhile_append_stop:
  "list_all P xs \<Longrightarrow> \<not> P y \<Longrightarrow> dropWhile P (xs @ y # ys) = y # ys"
  by (induction xs) auto

lemma find_append:
  "find P (xs @ ys) = (case find P xs of None \<Rightarrow> find P ys | Some x \<Rightarrow> Some x)"
  by (induction xs) auto

lemma length_dropWhile_le': "length (dropWhile P xs) \<le> length xs"
  by (induction xs) auto

end
