(* ===== verification/Dap_CStd.thy ===== *)
theory Dap_CStd
  imports Dap_Prelude
begin

text \<open>
  The part of the C standard library that the sources use on characters: \<open>sprintf\<close> with
  \<open>%d\<close> and \<open>%04x\<close>, \<open>std::to_string\<close>, \<open>atol\<close>, \<open>sscanf\<close> with \<open>%4x\<close> and \<open>tolower\<close>, and the
  arithmetic on \<open>double\<close> that cJSON uses. The operations on doubles are a record
  parameter \<open>fp\<close>: \<open>fp_ok\<close> says what IEEE 754 guarantees of them on integers that a double
  represents exactly, and \<open>fp_int\<close> is an instance of those laws that computes.
\<close>

section \<open>Printing and reading integers\<close>

definition digit_char :: "nat \<Rightarrow> char" where
  "digit_char n = char_of (48 + n)"

fun show_nat :: "nat \<Rightarrow> string" where
  "show_nat n = (if n < 10 then [digit_char n] else show_nat (n div 10) @ [digit_char (n mod 10)])"

declare show_nat.simps [simp del]

definition show_int :: "int \<Rightarrow> string" where
  \<comment> \<open>\<open>sprintf("%d", i)\<close>\<close>
  "show_int i = (if i < 0 then CHR ''-'' # show_nat (nat (- i)) else show_nat (nat i))"

definition digits_val :: "int \<Rightarrow> string \<Rightarrow> int" where
  "digits_val acc ds = foldl (\<lambda>n c. n * 10 + digit_val c) acc ds"

definition atol :: "string \<Rightarrow> int" where
  \<comment> \<open>\<open>std::atol\<close>: white space, an optional sign, digits; the exact value, so that a caller
      sees whether it exceeds the range of \<open>long\<close>\<close>
  "atol s =
     (let t = dropWhile is_space s in
      if peek t = CHR ''-'' then - digits_val 0 (takeWhile is_digit (tl t))
      else if peek t = CHR ''+'' then digits_val 0 (takeWhile is_digit (tl t))
      else digits_val 0 (takeWhile is_digit t))"

lemma code_digit_char: "n < 10 \<Longrightarrow> code (digit_char n) = 48 + n"
  by (simp add: digit_char_def)

lemma digit_char_props [simp]:
  assumes "n < 10"
  shows "is_digit (digit_char n)" "digit_val (digit_char n) = int n"
    "ascii_char (digit_char n)" "\<not> is_space (digit_char n)"
  using assms by (simp_all add: code_digit_char is_digit_def digit_val_def ascii_char_def is_space_def)

lemma digits_val_append: "digits_val a (xs @ ys) = digits_val (digits_val a xs) ys"
  by (simp add: digits_val_def)

lemma show_nat_nonempty: "show_nat n \<noteq> []"
  by (subst show_nat.simps) simp

lemma show_nat_digits: "list_all is_digit (show_nat n)"
proof (induction n rule: show_nat.induct)
  case (1 n)
  then show ?case by (cases "n < 10") (simp_all add: show_nat.simps [of n])
qed

lemma show_nat_ascii: "ascii_text (show_nat n)"
proof (induction n rule: show_nat.induct)
  case (1 n)
  then show ?case by (cases "n < 10") (simp_all add: show_nat.simps [of n])
qed

lemma digits_val_show_nat: "digits_val 0 (show_nat n) = int n"
proof (induction n rule: show_nat.induct)
  case (1 n)
  show ?case
  proof (cases "n < 10")
    case True
    then show ?thesis by (simp add: show_nat.simps [of n] digits_val_def)
  next
    case False
    with 1 have "digits_val 0 (show_nat (n div 10)) = int (n div 10)" by simp
    with False show ?thesis
      by (simp add: show_nat.simps [of n] digits_val_append) (simp add: digits_val_def, presburger)
  qed
qed

text \<open>The first digit of a positive number is not a zero, so no reader takes it for one.\<close>

lemma show_nat_first:
  "0 < n \<Longrightarrow> show_nat n = d # ds \<Longrightarrow> 49 \<le> code d \<and> code d \<le> 57"
proof (induction n arbitrary: d ds rule: show_nat.induct)
  case (1 n)
  show ?case
  proof (cases "n < 10")
    case True
    with "1.prems" show ?thesis by (auto simp: show_nat.simps [of n] code_digit_char)
  next
    case False
    obtain e es where e: "show_nat (n div 10) = e # es"
      using show_nat_nonempty by (meson neq_Nil_conv)
    from False have "0 < n div 10" by simp
    with 1(1) [OF False this e] e "1.prems" False show ?thesis by (simp add: show_nat.simps [of n])
  qed
qed

lemma show_nat_0: "show_nat 0 = ''0''"
  by code_simp

lemma digit_bounds: "is_digit c \<Longrightarrow> 0 \<le> digit_val c \<and> digit_val c \<le> 9"
  by (auto simp: is_digit_def digit_val_def)

lemma digits_val_mono:
  "list_all is_digit ds \<Longrightarrow> 0 \<le> a \<Longrightarrow> a \<le> digits_val a ds"
proof (induction ds arbitrary: a)
  case Nil
  then show ?case by (simp add: digits_val_def)
next
  case (Cons c cs)
  then have "a \<le> a * 10 + digit_val c" "0 \<le> a * 10 + digit_val c"
    using digit_bounds [of c] by auto
  with Cons.IH [of "a * 10 + digit_val c"] Cons.prems(1) show ?case
    by (simp add: digits_val_def)
qed

lemma atol_show_nat: "atol (show_nat n) = int n"
proof -
  obtain d ds where d: "show_nat n = d # ds"
    using show_nat_nonempty by (meson neq_Nil_conv)
  have "list_all is_digit (d # ds)" using show_nat_digits [of n] d by simp
  then have "is_digit d" and tw: "takeWhile is_digit (d # ds) = d # ds"
    by (auto simp: takeWhile_eq_all_conv list_all_iff)
  then have "\<not> is_space d" "d \<noteq> CHR ''-''" "d \<noteq> CHR ''+''"
    by (auto simp: is_digit_def is_space_def)
  then show ?thesis
    using digits_val_show_nat [of n] d tw by (simp add: atol_def)
qed

section \<open>Hexadecimal\<close>

definition hex_digit :: "nat \<Rightarrow> char" where
  "hex_digit n = (if n < 10 then char_of (48 + n) else char_of (87 + n))"

definition show_04x :: "nat \<Rightarrow> string" where
  \<comment> \<open>\<open>sprintf("%04x", n)\<close> for \<open>n < 65536\<close>\<close>
  "show_04x n = [hex_digit (n div 4096 mod 16), hex_digit (n div 256 mod 16),
                 hex_digit (n div 16 mod 16), hex_digit (n mod 16)]"

definition hex_val :: "char \<Rightarrow> nat option" where
  "hex_val c =
     (if 48 \<le> code c \<and> code c \<le> 57 then Some (code c - 48)
      else if 97 \<le> code c \<and> code c \<le> 102 then Some (code c - 87)
      else if 65 \<le> code c \<and> code c \<le> 70 then Some (code c - 55)
      else None)"

fun hex_digits :: "nat \<Rightarrow> string \<Rightarrow> nat list" where
  \<comment> \<open>the values of the hexadecimal digits at the front, at most \<open>w\<close> of them\<close>
  "hex_digits 0 s = []"
| "hex_digits (Suc w) [] = []"
| "hex_digits (Suc w) (c # cs) =
     (case hex_val c of None \<Rightarrow> [] | Some v \<Rightarrow> v # hex_digits w cs)"

definition sscanf_4x :: "string \<Rightarrow> 32 word option" where
  \<comment> \<open>\<open>sscanf(s, "%4x", &u)\<close>: white space is skipped and not counted; the item has at most
      four characters, an optional sign, an optional \<open>0x\<close> and hexadecimal digits;
      \<open>None\<close> is a matching failure, which leaves \<open>u\<close> as it was\<close>
  "sscanf_4x s =
     (let t = dropWhile is_space s;
          neg = (peek t = CHR ''-'');
          sgn = (neg \<or> peek t = CHR ''+'');
          t1 = (if sgn then tl t else t);
          w1 = (if sgn then 3 else 4 :: nat);
          pre = (peek t1 = CHR ''0'' \<and> (peek (tl t1) = CHR ''x'' \<or> peek (tl t1) = CHR ''X''));
          ds = (if pre then hex_digits (w1 - 2) (tl (tl t1)) else hex_digits w1 t1);
          v = foldl (\<lambda>a d. a * 16 + int d) 0 ds
      in if ds = [] then None else Some (word_of_int (if neg then - v else v)))"

definition tolower :: "char \<Rightarrow> char" where
  "tolower c = (if 65 \<le> code c \<and> code c \<le> 90 then char_of (code c + 32) else c)"

lemma code_hex_digit: "n < 16 \<Longrightarrow> code (hex_digit n) = (if n < 10 then 48 + n else 87 + n)"
  by (simp add: hex_digit_def)

lemma hex_val_hex_digit: "n < 16 \<Longrightarrow> hex_val (hex_digit n) = Some n"
  by (simp add: hex_val_def code_hex_digit)

lemma hex_digit_props:
  assumes "n < 16"
  shows "\<not> is_space (hex_digit n)" "hex_digit n \<noteq> CHR ''-''" "hex_digit n \<noteq> CHR ''+''"
    "hex_digit n \<noteq> CHR ''x''" "hex_digit n \<noteq> CHR ''X''" "ascii_char (hex_digit n)"
    "hex_digit n \<noteq> CHR 0x22" "hex_digit n \<noteq> CHR 0x5C"
  using assms code_hex_digit [OF assms]
  by (auto simp: is_space_def ascii_char_def split: if_splits)

lemma hex_digits_show_04x:
  "hex_digits 4 (show_04x n @ s) = [n div 4096 mod 16, n div 256 mod 16, n div 16 mod 16, n mod 16]"
proof -
  have "(4 :: nat) = Suc (Suc (Suc (Suc 0)))" by simp
  then show ?thesis by (simp only: show_04x_def append.simps hex_digits.simps)
      (simp add: hex_val_hex_digit)
qed

lemma hex4_value:
  fixes n :: nat
  assumes "n < 65536"
  shows "((n div 4096 mod 16 * 16 + n div 256 mod 16) * 16 + n div 16 mod 16) * 16 + n mod 16 = n"
proof -
  have "n div 4096 = n div 256 div 16" "n div 256 = n div 16 div 16"
    by (simp_all add: div_mult2_eq [symmetric])
  moreover have "n div 4096 mod 16 = n div 4096" using assms by simp
  ultimately show ?thesis by (simp only: div_mult_mod_eq)
qed

lemma show_04x_not_prefixed:
  "peek (tl (show_04x n @ s)) \<noteq> CHR ''x''" "peek (tl (show_04x n @ s)) \<noteq> CHR ''X''"
  "peek (show_04x n @ s) \<noteq> CHR ''-''" "peek (show_04x n @ s) \<noteq> CHR ''+''"
  "dropWhile is_space (show_04x n @ s) = show_04x n @ s"
  by (simp_all add: show_04x_def hex_digit_props)

lemma hex_foldl:
  assumes "n < 65536"
  shows "foldl (\<lambda>a d. a * 16 + int d) 0
      [n div 4096 mod 16, n div 256 mod 16, n div 16 mod 16, n mod 16] = int n"
proof -
  have "foldl (\<lambda>a d. a * 16 + int d) 0
      [n div 4096 mod 16, n div 256 mod 16, n div 16 mod 16, n mod 16] =
    int (((n div 4096 mod 16 * 16 + n div 256 mod 16) * 16 + n div 16 mod 16) * 16 + n mod 16)"
    by (simp only: foldl_Cons foldl_Nil of_nat_add of_nat_mult of_nat_numeral mult_zero_left add_0_left)
  then show ?thesis by (simp only: hex4_value [OF assms])
qed

lemma sscanf_4x_show_04x:
  assumes "n < 65536"
  shows "sscanf_4x (show_04x n @ s) = Some (of_nat n)"
  unfolding sscanf_4x_def Let_def
  by (simp only: show_04x_not_prefixed hex_digits_show_04x hex_foldl [OF assms] simp_thms if_False
      list.distinct of_int_of_nat_eq)

section \<open>Doubles\<close>

record 'd fp =
  fp_of_int :: "int \<Rightarrow> 'd"
  fp_add :: "'d \<Rightarrow> 'd \<Rightarrow> 'd"
  fp_sub :: "'d \<Rightarrow> 'd \<Rightarrow> 'd"
  fp_mul :: "'d \<Rightarrow> 'd \<Rightarrow> 'd"
  fp_pow10 :: "'d \<Rightarrow> 'd"   \<comment> \<open>\<open>pow(10.0, x)\<close>\<close>
  fp_abs :: "'d \<Rightarrow> 'd"
  fp_floor :: "'d \<Rightarrow> 'd"
  fp_le :: "'d \<Rightarrow> 'd \<Rightarrow> bool"
  fp_lt :: "'d \<Rightarrow> 'd \<Rightarrow> bool"
  fp_eps :: 'd   \<comment> \<open>\<open>DBL_EPSILON\<close>\<close>
  fp_1e_6 :: 'd   \<comment> \<open>\<open>1.0e-6\<close>\<close>
  fp_1e9 :: 'd   \<comment> \<open>\<open>1.0e9\<close>\<close>
  fp_to_int :: "'d \<Rightarrow> int"   \<comment> \<open>\<open>(int)x\<close>, where the conversion is defined\<close>
  fp_fmt0 :: "'d \<Rightarrow> string"   \<comment> \<open>\<open>%.0f\<close>\<close>
  fp_fmte :: "'d \<Rightarrow> string"   \<comment> \<open>\<open>%e\<close>\<close>
  fp_fmtf :: "'d \<Rightarrow> string"   \<comment> \<open>\<open>%f\<close>\<close>

definition exact_int :: "int \<Rightarrow> bool" where
  \<comment> \<open>the integers of at most 53 bits, which a double represents exactly\<close>
  "exact_int i \<longleftrightarrow> - 9007199254740992 \<le> i \<and> i \<le> 9007199254740992"

definition fp_ok :: "'d fp \<Rightarrow> bool" where
  "fp_ok F \<longleftrightarrow>
     (\<forall>i j. exact_int i \<and> exact_int j \<and> exact_int (i + j) \<longrightarrow>
        fp_add F (fp_of_int F i) (fp_of_int F j) = fp_of_int F (i + j)) \<and>
     (\<forall>i j. exact_int i \<and> exact_int j \<and> exact_int (i - j) \<longrightarrow>
        fp_sub F (fp_of_int F i) (fp_of_int F j) = fp_of_int F (i - j)) \<and>
     (\<forall>i j. exact_int i \<and> exact_int j \<and> exact_int (i * j) \<and> (i * j \<noteq> 0 \<or> (0 \<le> i \<and> 0 \<le> j)) \<longrightarrow>
        fp_mul F (fp_of_int F i) (fp_of_int F j) = fp_of_int F (i * j)) \<and>
     fp_pow10 F (fp_of_int F 0) = fp_of_int F 1 \<and>
     (\<forall>i. exact_int i \<longrightarrow> fp_abs F (fp_of_int F i) = fp_of_int F \<bar>i\<bar>) \<and>
     (\<forall>i j. exact_int i \<and> exact_int j \<longrightarrow> fp_le F (fp_of_int F i) (fp_of_int F j) = (i \<le> j)) \<and>
     fp_le F (fp_of_int F 0) (fp_eps F) \<and>
     (\<forall>i. int32 i \<longrightarrow> fp_to_int F (fp_of_int F i) = i)"

definition fp_int :: "int fp" where
  \<comment> \<open>integers alone: every law of \<open>fp_ok\<close> holds and everything computes\<close>
  "fp_int = \<lparr> fp_of_int = (\<lambda>i. i), fp_add = (+), fp_sub = (-), fp_mul = (*),
     fp_pow10 = (\<lambda>i. if i < 0 then 0 else 10 ^ nat i), fp_abs = abs, fp_floor = (\<lambda>i. i),
     fp_le = (\<le>), fp_lt = (<), fp_eps = 0, fp_1e_6 = 0, fp_1e9 = 1000000000,
     fp_to_int = (\<lambda>i. i), fp_fmt0 = show_int, fp_fmte = show_int, fp_fmtf = show_int \<rparr>"

definition fp_nonzero :: "'d fp \<Rightarrow> 'd \<Rightarrow> bool" where
  \<comment> \<open>the conversion to \<open>bool\<close>: false for a value that compares equal to 0\<close>
  "fp_nonzero F d \<longleftrightarrow> \<not> (fp_le F d (fp_of_int F 0) \<and> fp_le F (fp_of_int F 0) d)"

lemma fp_ok_int: "fp_ok fp_int"
  by (simp add: fp_ok_def fp_int_def)

lemma exact_int32: "int32 i \<Longrightarrow> exact_int i"
  by (simp add: int32_def exact_int_def INT_MAX_def INT_MIN_def)

lemma fp_add_exact: "fp_ok F \<Longrightarrow> exact_int i \<Longrightarrow> exact_int j \<Longrightarrow> exact_int (i + j) \<Longrightarrow>
    fp_add F (fp_of_int F i) (fp_of_int F j) = fp_of_int F (i + j)"
  and fp_sub_exact: "fp_ok F \<Longrightarrow> exact_int i \<Longrightarrow> exact_int j \<Longrightarrow> exact_int (i - j) \<Longrightarrow>
    fp_sub F (fp_of_int F i) (fp_of_int F j) = fp_of_int F (i - j)"
  and fp_mul_exact: "fp_ok F \<Longrightarrow> exact_int i \<Longrightarrow> exact_int j \<Longrightarrow> exact_int (i * j) \<Longrightarrow>
    i * j \<noteq> 0 \<or> (0 \<le> i \<and> 0 \<le> j) \<Longrightarrow>
    fp_mul F (fp_of_int F i) (fp_of_int F j) = fp_of_int F (i * j)"
  and fp_pow10_0: "fp_ok F \<Longrightarrow> fp_pow10 F (fp_of_int F 0) = fp_of_int F 1"
  and fp_abs_exact: "fp_ok F \<Longrightarrow> exact_int i \<Longrightarrow> fp_abs F (fp_of_int F i) = fp_of_int F \<bar>i\<bar>"
  and fp_le_exact: "fp_ok F \<Longrightarrow> exact_int i \<Longrightarrow> exact_int j \<Longrightarrow>
    fp_le F (fp_of_int F i) (fp_of_int F j) \<longleftrightarrow> i \<le> j"
  and fp_eps_nonneg: "fp_ok F \<Longrightarrow> fp_le F (fp_of_int F 0) (fp_eps F)"
  by (simp_all add: fp_ok_def)

lemma fp_to_int_of_int: "fp_ok F \<Longrightarrow> int32 i \<Longrightarrow> fp_to_int F (fp_of_int F i) = i"
  by (simp add: fp_ok_def)

text \<open>
  The digit loop of \<open>parse_number\<close> computes \<open>n * 10.0 + (c - '0')\<close> for each digit: on a
  number that stays exact it computes the value of the digits.
\<close>

definition fp_digits :: "'d fp \<Rightarrow> 'd \<Rightarrow> string \<Rightarrow> 'd" where
  "fp_digits F n ds =
     foldl (\<lambda>n c. fp_add F (fp_mul F n (fp_of_int F 10)) (fp_of_int F (digit_val c))) n ds"

lemma fp_digits_exact:
  assumes "fp_ok F" "list_all is_digit ds" "0 \<le> a" "exact_int (digits_val a ds)"
  shows "fp_digits F (fp_of_int F a) ds = fp_of_int F (digits_val a ds)"
  using assms(2-)
proof (induction ds arbitrary: a)
  case Nil
  then show ?case by (simp add: fp_digits_def digits_val_def)
next
  case (Cons c cs)
  let ?b = "a * 10 + digit_val c"
  have d: "0 \<le> digit_val c" "digit_val c \<le> 9" using Cons.prems digit_bounds [of c] by auto
  have b: "0 \<le> ?b" using d Cons.prems by simp
  have ex: "exact_int (digits_val ?b cs)" using Cons.prems by (simp add: digits_val_def)
  have "?b \<le> digits_val ?b cs" using Cons.prems b by (intro digits_val_mono) auto
  with ex b have bex: "exact_int ?b" by (auto simp: exact_int_def)
  then have e: "exact_int a" "exact_int (a * 10)" "exact_int (digit_val c)" "exact_int 10"
    using d Cons.prems by (auto simp: exact_int_def)
  have "fp_mul F (fp_of_int F a) (fp_of_int F 10) = fp_of_int F (a * 10)"
    using assms(1) e Cons.prems by (simp add: fp_ok_def)
  moreover have "fp_add F (fp_of_int F (a * 10)) (fp_of_int F (digit_val c)) = fp_of_int F ?b"
    using assms(1) e bex by (simp add: fp_ok_def)
  ultimately have step: "fp_digits F (fp_of_int F a) (c # cs) = fp_digits F (fp_of_int F ?b) cs"
    by (simp add: fp_digits_def)
  show ?case
    using Cons.IH [of ?b] Cons.prems b ex by (simp add: step) (simp add: digits_val_def)
qed

end
