(* ===== verification/Dap_CJson.thy ===== *)
theory Dap_CJson
  imports Dap_CStd
begin

unbundle bit_operations_syntax

text \<open>
  The JSON nodes of \<open>cJSON.cpp\<close>: the node type, its constructors, the operations on the
  list of children, and the printer. A node is a \<open>datatype\<close> value with the fields of the
  struct; the \<open>next\<close>/\<open>prev\<close> chain of the children is a list. Allocation succeeds.
  The printer is translated together with the sizes it computes for its buffers.
\<close>

section \<open>Nodes\<close>

datatype 'd cJsonDap = CJson
  (cj_type: nat)
  (cj_valuestring: "string option")
  (cj_valueint: int)
  (cj_valuedouble: 'd)
  (cj_string: "string option")
  (cj_child: "'d cJsonDap list")

definition cJsonDap_False :: nat where "cJsonDap_False = 0"
definition cJsonDap_True :: nat where "cJsonDap_True = 1"
definition cJsonDap_Null :: nat where "cJsonDap_Null = 2"
definition cJsonDap_Number :: nat where "cJsonDap_Number = 3"
definition cJsonDap_String :: nat where "cJsonDap_String = 4"
definition cJsonDap_Array :: nat where "cJsonDap_Array = 5"
definition cJsonDap_Object :: nat where "cJsonDap_Object = 6"
definition cJsonDap_IsReference :: nat where "cJsonDap_IsReference = 256"

lemmas cj_types = cJsonDap_False_def cJsonDap_True_def cJsonDap_Null_def cJsonDap_Number_def
  cJsonDap_String_def cJsonDap_Array_def cJsonDap_Object_def cJsonDap_IsReference_def

definition cJSON_New_Item :: "'d fp \<Rightarrow> 'd cJsonDap" where
  "cJSON_New_Item F = CJson 0 None 0 (fp_of_int F 0) None []"

fun set_type :: "nat \<Rightarrow> 'd cJsonDap \<Rightarrow> 'd cJsonDap" where
  "set_type t (CJson _ vs vi vd s ch) = CJson t vs vi vd s ch"

fun set_valuestring :: "string option \<Rightarrow> 'd cJsonDap \<Rightarrow> 'd cJsonDap" where
  "set_valuestring vs (CJson t _ vi vd s ch) = CJson t vs vi vd s ch"

fun set_number :: "int \<Rightarrow> 'd \<Rightarrow> 'd cJsonDap \<Rightarrow> 'd cJsonDap" where
  "set_number vi vd (CJson t vs _ _ s ch) = CJson t vs vi vd s ch"

fun set_valueint :: "int \<Rightarrow> 'd cJsonDap \<Rightarrow> 'd cJsonDap" where
  "set_valueint vi (CJson t vs _ vd s ch) = CJson t vs vi vd s ch"

fun set_string :: "string option \<Rightarrow> 'd cJsonDap \<Rightarrow> 'd cJsonDap" where
  "set_string s (CJson t vs vi vd _ ch) = CJson t vs vi vd s ch"

fun set_child :: "'d cJsonDap list \<Rightarrow> 'd cJsonDap \<Rightarrow> 'd cJsonDap" where
  "set_child ch (CJson t vs vi vd s _) = CJson t vs vi vd s ch"

definition cJSON_CreateNull :: "'d fp \<Rightarrow> 'd cJsonDap" where
  "cJSON_CreateNull F = set_type cJsonDap_Null (cJSON_New_Item F)"

definition cJSON_CreateTrue :: "'d fp \<Rightarrow> 'd cJsonDap" where
  "cJSON_CreateTrue F = set_type cJsonDap_True (cJSON_New_Item F)"

definition cJSON_CreateFalse :: "'d fp \<Rightarrow> 'd cJsonDap" where
  "cJSON_CreateFalse F = set_type cJsonDap_False (cJSON_New_Item F)"

definition cJSON_CreateBool :: "'d fp \<Rightarrow> int \<Rightarrow> 'd cJsonDap" where
  "cJSON_CreateBool F b =
     set_type (if b \<noteq> 0 then cJsonDap_True else cJsonDap_False) (cJSON_New_Item F)"

definition cJSON_CreateNumber :: "'d fp \<Rightarrow> 'd \<Rightarrow> 'd cJsonDap" where
  "cJSON_CreateNumber F num =
     set_number (fp_to_int F num) num (set_type cJsonDap_Number (cJSON_New_Item F))"

definition cJSON_CreateString :: "'d fp \<Rightarrow> string \<Rightarrow> 'd cJsonDap" where
  "cJSON_CreateString F s =
     set_valuestring (Some (c_str s)) (set_type cJsonDap_String (cJSON_New_Item F))"

definition cJSON_CreateArray :: "'d fp \<Rightarrow> 'd cJsonDap" where
  "cJSON_CreateArray F = set_type cJsonDap_Array (cJSON_New_Item F)"

definition cJSON_CreateObject :: "'d fp \<Rightarrow> 'd cJsonDap" where
  "cJSON_CreateObject F = set_type cJsonDap_Object (cJSON_New_Item F)"

definition cJSON_CreateIntArray :: "'d fp \<Rightarrow> int list \<Rightarrow> 'd cJsonDap" where
  "cJSON_CreateIntArray F numbers =
     set_child (map (\<lambda>i. cJSON_CreateNumber F (fp_of_int F i)) numbers) (cJSON_CreateArray F)"

definition cJSON_CreateDoubleArray :: "'d fp \<Rightarrow> 'd list \<Rightarrow> 'd cJsonDap" where
  "cJSON_CreateDoubleArray F numbers =
     set_child (map (cJSON_CreateNumber F) numbers) (cJSON_CreateArray F)"

definition cJSON_CreateStringArray :: "'d fp \<Rightarrow> string list \<Rightarrow> 'd cJsonDap" where
  "cJSON_CreateStringArray F strings =
     set_child (map (cJSON_CreateString F) strings) (cJSON_CreateArray F)"

section \<open>Children\<close>

fun strcasecmp_loop :: "string \<Rightarrow> string \<Rightarrow> int" where
  \<comment> \<open>the loop over two C strings; past the end both pointers read the terminator\<close>
  "strcasecmp_loop [] [] = 0"
| "strcasecmp_loop [] (c # _) =
     (if tolower c = NUL then 0 else - int (code (tolower c)))"
| "strcasecmp_loop (c # _) [] =
     (if tolower c = NUL then 0 else int (code (tolower c)))"
| "strcasecmp_loop (c # cs) (d # ds) =
     (if tolower c = tolower d then (if c = NUL then 0 else strcasecmp_loop cs ds)
      else int (code (tolower c)) - int (code (tolower d)))"

definition cJSON_strcasecmp :: "string option \<Rightarrow> string option \<Rightarrow> int" where
  "cJSON_strcasecmp s1 s2 =
     (case s1 of
        None \<Rightarrow> if s2 = None then 0 else 1
      | Some a \<Rightarrow> (case s2 of None \<Rightarrow> 1 | Some b \<Rightarrow> strcasecmp_loop a b))"

definition cJSON_GetArraySize :: "'d cJsonDap \<Rightarrow> int" where
  "cJSON_GetArraySize array = int (length (cj_child array))"

fun walk :: "'a list \<Rightarrow> int \<Rightarrow> 'a option" where
  \<comment> \<open>\<open>while(c && item > 0) item--, c = c->next;\<close>\<close>
  "walk [] item = None"
| "walk (c # cs) item = (if item > 0 then walk cs (item - 1) else Some c)"

definition cJSON_GetArrayItem :: "'d cJsonDap \<Rightarrow> int \<Rightarrow> 'd cJsonDap option" where
  "cJSON_GetArrayItem array item = walk (cj_child array) item"

definition cJSON_GetObjectItem :: "'d cJsonDap \<Rightarrow> string \<Rightarrow> 'd cJsonDap option" where
  "cJSON_GetObjectItem obj s =
     find (\<lambda>c. cJSON_strcasecmp (cj_string c) (Some s) = 0) (cj_child obj)"

definition create_reference :: "'d cJsonDap \<Rightarrow> 'd cJsonDap" where
  "create_reference item = set_type (cj_type item OR cJsonDap_IsReference) (set_string None item)"

definition cJSON_AddItemToArray :: "'d cJsonDap \<Rightarrow> 'd cJsonDap option \<Rightarrow> 'd cJsonDap" where
  "cJSON_AddItemToArray array item =
     (case item of None \<Rightarrow> array | Some it \<Rightarrow> set_child (cj_child array @ [it]) array)"

definition cJSON_AddItemToObject ::
  "'d cJsonDap \<Rightarrow> string \<Rightarrow> 'd cJsonDap option \<Rightarrow> 'd cJsonDap" where
  "cJSON_AddItemToObject obj s item =
     (case item of
        None \<Rightarrow> obj
      | Some it \<Rightarrow> cJSON_AddItemToArray obj (Some (set_string (Some (c_str s)) it)))"

definition cJSON_AddItemReferenceToArray :: "'d cJsonDap \<Rightarrow> 'd cJsonDap \<Rightarrow> 'd cJsonDap" where
  "cJSON_AddItemReferenceToArray array item = cJSON_AddItemToArray array (Some (create_reference item))"

definition cJSON_AddItemReferenceToObject ::
  "'d cJsonDap \<Rightarrow> string \<Rightarrow> 'd cJsonDap \<Rightarrow> 'd cJsonDap" where
  "cJSON_AddItemReferenceToObject obj s item =
     cJSON_AddItemToObject obj s (Some (create_reference item))"

fun unlink :: "'a list \<Rightarrow> int \<Rightarrow> 'a option \<times> 'a list" where
  \<comment> \<open>the node reached by the walk, and the chain after its neighbours were joined\<close>
  "unlink [] which = (None, [])"
| "unlink (c # cs) which =
     (if which > 0 then (let (r, cs') = unlink cs (which - 1) in (r, c # cs')) else (Some c, cs))"

definition cJSON_DetachItemFromArray ::
  "'d cJsonDap \<Rightarrow> int \<Rightarrow> 'd cJsonDap option \<times> 'd cJsonDap" where
  "cJSON_DetachItemFromArray array which =
     (let (r, ch) = unlink (cj_child array) which in (r, set_child ch array))"

definition cJSON_DeleteItemFromArray :: "'d cJsonDap \<Rightarrow> int \<Rightarrow> 'd cJsonDap" where
  "cJSON_DeleteItemFromArray array which = snd (cJSON_DetachItemFromArray array which)"

fun index_of_name :: "string \<Rightarrow> 'd cJsonDap list \<Rightarrow> int option" where
  \<comment> \<open>\<open>while(c && cJSON_strcasecmp(c->string, string)) i++, c = c->next;\<close>\<close>
  "index_of_name s [] = None"
| "index_of_name s (c # cs) =
     (if cJSON_strcasecmp (cj_string c) (Some s) = 0 then Some 0
      else map_option (\<lambda>i. i + 1) (index_of_name s cs))"

definition cJSON_DetachItemFromObject ::
  "'d cJsonDap \<Rightarrow> string \<Rightarrow> 'd cJsonDap option \<times> 'd cJsonDap" where
  "cJSON_DetachItemFromObject obj s =
     (case index_of_name s (cj_child obj) of
        Some i \<Rightarrow> cJSON_DetachItemFromArray obj i
      | None \<Rightarrow> (None, obj))"

definition cJSON_DeleteItemFromObject :: "'d cJsonDap \<Rightarrow> string \<Rightarrow> 'd cJsonDap" where
  "cJSON_DeleteItemFromObject obj s = snd (cJSON_DetachItemFromObject obj s)"

fun relink :: "'a list \<Rightarrow> int \<Rightarrow> 'a \<Rightarrow> 'a list" where
  "relink [] which x = []"
| "relink (c # cs) which x = (if which > 0 then c # relink cs (which - 1) x else x # cs)"

definition cJSON_ReplaceItemInArray ::
  "'d cJsonDap \<Rightarrow> int \<Rightarrow> 'd cJsonDap \<Rightarrow> 'd cJsonDap" where
  "cJSON_ReplaceItemInArray array which newitem =
     set_child (relink (cj_child array) which newitem) array"

definition cJSON_ReplaceItemInObject ::
  "'d cJsonDap \<Rightarrow> string \<Rightarrow> 'd cJsonDap \<Rightarrow> 'd cJsonDap" where
  "cJSON_ReplaceItemInObject obj s newitem =
     (case index_of_name s (cj_child obj) of
        Some i \<Rightarrow> cJSON_ReplaceItemInArray obj i (set_string (Some (c_str s)) newitem)
      | None \<Rightarrow> obj)"

end
