(* ===== verification/Dap_CJsonPrint.thy ===== *)
theory Dap_CJsonPrint
  imports Dap_CJson
begin

text \<open>
  The printer of \<open>cJSON.cpp\<close>: \<open>print_string_ptr\<close>, \<open>print_number\<close>, \<open>print_array\<close>,
  \<open>print_object\<close> and \<open>print_value\<close>. The functions that allocate compute the size of the
  buffer first; those sizes are definitions of their own, and the theorems show that what is
  written, its terminator included, fits. \<open>print_array\<close> and \<open>print_object\<close> take what
  \<open>print_value\<close> returned for each child, which is how the code composes them.
\<close>

definition is_escaped :: "char \<Rightarrow> bool" where
  \<comment> \<open>\<open>strchr("\"\\\b\f\n\r\t", token)\<close> for a token that is not the terminator\<close>
  "is_escaped c \<longleftrightarrow> c \<in> {CHR 0x22, CHR 0x5C, CHR 0x08, CHR 0x0C, CHR 0x0A, CHR 0x0D, CHR 0x09}"

fun string_len :: "string \<Rightarrow> nat" where
  \<comment> \<open>the counting loop of \<open>print_string_ptr\<close>\<close>
  "string_len [] = 0"
| "string_len (c # cs) =
     (if is_escaped c then 2 else if code c < 32 then 6 else 1) + string_len cs"

definition print_string_size :: "string \<Rightarrow> nat" where
  "print_string_size str = string_len str + 3"

definition print_char :: "char \<Rightarrow> string" where
  "print_char c =
     (if code c > 31 \<and> c \<noteq> CHR 0x22 \<and> c \<noteq> CHR 0x5C then [c]
      else CHR 0x5C #
        (if c = CHR 0x5C then [CHR 0x5C]
         else if c = CHR 0x22 then [CHR 0x22]
         else if c = CHR 0x08 then ''b''
         else if c = CHR 0x0C then ''f''
         else if c = CHR 0x0A then ''n''
         else if c = CHR 0x0D then ''r''
         else if c = CHR 0x09 then ''t''
         else CHR ''u'' # show_04x (code c)))"

fun print_chars :: "string \<Rightarrow> string" where
  "print_chars [] = []"
| "print_chars (c # cs) = print_char c @ print_chars cs"

definition print_string_ptr :: "string option \<Rightarrow> string" where
  "print_string_ptr str =
     (case str of None \<Rightarrow> []
      | Some s \<Rightarrow> CHR 0x22 # print_chars (c_str s) @ [CHR 0x22])"

definition print_string :: "'d cJsonDap \<Rightarrow> string" where
  "print_string item = print_string_ptr (cj_valuestring item)"

definition print_number :: "'d fp \<Rightarrow> 'd cJsonDap \<Rightarrow> string" where
  "print_number F item =
     (let d = cj_valuedouble item in
      if fp_le F (fp_abs F (fp_sub F (fp_of_int F (cj_valueint item)) d)) (fp_eps F)
         \<and> fp_le F d (fp_of_int F INT_MAX) \<and> fp_le F (fp_of_int F INT_MIN) d
      then show_int (cj_valueint item)
      else if fp_le F (fp_abs F (fp_sub F (fp_floor F d) d)) (fp_eps F) then fp_fmt0 F d
      else if fp_lt F (fp_abs F d) (fp_1e_6 F) \<or> fp_lt F (fp_1e9 F) (fp_abs F d) then fp_fmte F d
      else fp_fmtf F d)"

definition blanks :: "int \<Rightarrow> string" where
  \<comment> \<open>a loop that writes \<open>FMT_WHITESPACE_CHAR\<close> while its counter is below the bound\<close>
  "blanks n = replicate (nat n) (CHR '' '')"

fun join_array :: "bool \<Rightarrow> string list \<Rightarrow> string" where
  "join_array fmt [] = []"
| "join_array fmt [e] = e"
| "join_array fmt (e # es) = e @ (if fmt then '', '' else '','') @ join_array fmt es"

definition print_array_size :: "bool \<Rightarrow> string list \<Rightarrow> nat" where
  "print_array_size fmt entries = 5 + (\<Sum>e\<leftarrow>entries. length e + 2 + (if fmt then 1 else 0))"

definition print_array :: "bool \<Rightarrow> string option list \<Rightarrow> string option" where
  "print_array fmt rets =
     (if None \<in> set rets then None
      else Some (''['' @ join_array fmt (map the rets) @ '']''))"

fun join_object :: "bool \<Rightarrow> int \<Rightarrow> (string \<times> string) list \<Rightarrow> string" where
  "join_object fmt depth [] = []"
| "join_object fmt depth ((n, e) # nes) =
     (if fmt then blanks depth else []) @ n @ '':'' @ (if fmt then '' '' else []) @ e
     @ (if nes \<noteq> [] then '','' else []) @ (if fmt then [CHR 0x0A] else [])
     @ join_object fmt depth nes"

definition print_object_size :: "bool \<Rightarrow> int \<Rightarrow> (string \<times> string) list \<Rightarrow> int" where
  \<comment> \<open>\<open>depth\<close> is the incremented one\<close>
  "print_object_size fmt depth nes =
     7 + (if fmt then depth else 0)
     + (\<Sum>(n, e)\<leftarrow>nes. int (length e) + int (length n) + 2 + (if fmt then 2 + depth else 0))"

definition print_object ::
  "bool \<Rightarrow> int \<Rightarrow> string option list \<Rightarrow> string option list \<Rightarrow> string option" where
  "print_object fmt depth0 names rets =
     (let depth = depth0 + 1 in
      if None \<in> set rets then None
      else Some (''{'' @ (if fmt then [CHR 0x0A] else [])
        @ join_object fmt depth (zip (map print_string_ptr names) (map the rets))
        @ (if fmt then blanks (depth - 1) else []) @ ''}''))"

fun print_value :: "'d fp \<Rightarrow> 'd cJsonDap \<Rightarrow> int \<Rightarrow> bool \<Rightarrow> string option" where
  "print_value F (CJson ty vs vi vd s ch) depth fmt =
     (let t = ty mod 256 in   \<comment> \<open>\<open>type & 255\<close>\<close>
      if t = cJsonDap_Null then Some ''null''
      else if t = cJsonDap_False then Some ''false''
      else if t = cJsonDap_True then Some ''true''
      else if t = cJsonDap_Number then Some (print_number F (CJson ty vs vi vd s ch))
      else if t = cJsonDap_String then Some (print_string (CJson ty vs vi vd s ch))
      else if t = cJsonDap_Array then
        print_array fmt (map (\<lambda>c. print_value F c (depth + 1) fmt) ch)
      else if t = cJsonDap_Object then
        print_object fmt depth (map cj_string ch) (map (\<lambda>c. print_value F c (depth + 1) fmt) ch)
      else None)"

definition cJSON_Print :: "'d fp \<Rightarrow> 'd cJsonDap \<Rightarrow> string option" where
  "cJSON_Print F item = print_value F item 0 True"

definition cJSON_PrintUnformatted :: "'d fp \<Rightarrow> 'd cJsonDap \<Rightarrow> string option" where
  "cJSON_PrintUnformatted F item = print_value F item 0 False"

section \<open>Buffer sizes\<close>

lemma print_char_length:
  "length (print_char c) = (if is_escaped c then 2 else if code c < 32 then 6 else 1)"
  by (auto simp: print_char_def is_escaped_def show_04x_def)

lemma print_chars_length: "length (print_chars s) = string_len s"
  by (induction s) (simp_all add: print_char_length)

lemma print_string_ptr_length:
  "length (print_string_ptr (Some s)) + 1 = print_string_size (c_str s)"
  by (simp add: print_string_ptr_def print_chars_length print_string_size_def)

lemma join_array_length:
  "length (join_array fmt es) \<le> (\<Sum>e\<leftarrow>es. length e + 2 + (if fmt then 1 else 0))"
  by (induction fmt es rule: join_array.induct) auto

lemma join_object_length:
  "0 \<le> depth \<Longrightarrow> int (length (join_object fmt depth nes))
     \<le> (\<Sum>(n, e)\<leftarrow>nes. int (length e) + int (length n) + 2 + (if fmt then 2 + depth else 0))"
  by (induction fmt depth nes rule: join_object.induct) (auto simp: blanks_def)

lemma print_array_fits:
  "print_array fmt rets = Some out \<Longrightarrow> length out + 1 \<le> print_array_size fmt (map the rets)"
  using join_array_length [of fmt "map the rets"]
  by (auto simp: print_array_def print_array_size_def split: if_splits)

lemma print_object_fits:
  assumes "print_object fmt depth names rets = Some out" "0 \<le> depth"
  shows "int (length out) + 1
     \<le> print_object_size fmt (depth + 1) (zip (map print_string_ptr names) (map the rets))"
  using assms join_object_length [of "depth + 1" fmt "zip (map print_string_ptr names) (map the rets)"]
  by (auto simp: print_object_def print_object_size_def Let_def blanks_def split: if_splits)



end
