(* ===== verification/Dap_CJsonParse.thy ===== *)
theory Dap_CJsonParse
  imports Dap_CJsonPrint
begin

text \<open>
  The parser of \<open>cJSON.cpp\<close>. A pointer into the text is the suffix it points to. Every
  parser returns the item and the rest, or a failure with the error pointer \<open>ep\<close>;
  \<open>PUndef\<close> marks inputs on which the C code has undefined behaviour: it reads past the
  terminator, writes past its buffer, overflows an \<open>int\<close> or uses a value it never read.
  The mutual recursion of values, arrays and objects runs on fuel, and \<open>cJSON_Parse\<close>
  gives it twice the length of the text plus two, which \<open>parse_value_fuel\<close> shows is enough.
\<close>

datatype 'a presult = POk 'a string | PFail string | PUndef | PFuel

fun skip :: "string \<Rightarrow> string" where
  "skip [] = []"
| "skip (c # cs) = (if c \<noteq> NUL \<and> code c \<le> 32 then skip cs else c # cs)"

section \<open>Numbers\<close>

definition fp_scale :: "'d fp \<Rightarrow> 'd \<Rightarrow> string \<Rightarrow> 'd" where
  \<comment> \<open>\<open>scale--\<close> for each fractional digit\<close>
  "fp_scale F scale ds = foldl (\<lambda>sc _. fp_sub F sc (fp_of_int F 1)) scale ds"

text \<open>The four parts of \<open>parse_number\<close>, in its order; each returns where it stopped.\<close>

definition number_sign :: "string \<Rightarrow> int \<times> string" where
  "number_sign num = (if peek num = CHR ''-'' then (- 1, tl num) else (1, num))"

definition number_int :: "'d fp \<Rightarrow> string \<Rightarrow> 'd \<times> string" where
  "number_int F num =
     (let num' = (if peek num = CHR ''0'' then tl num else num) in
      if is_digit (peek num') \<and> peek num' \<noteq> CHR ''0''
      then (fp_digits F (fp_of_int F 0) (takeWhile is_digit num'), dropWhile is_digit num')
      else (fp_of_int F 0, num'))"

definition number_frac :: "'d fp \<Rightarrow> 'd \<Rightarrow> string \<Rightarrow> 'd \<times> 'd \<times> string" where
  \<comment> \<open>the number, the scale and the rest\<close>
  "number_frac F n num =
     (if peek num = CHR ''.'' \<and> is_digit (peek (tl num))
      then (fp_digits F n (takeWhile is_digit (tl num)),
            fp_scale F (fp_of_int F 0) (takeWhile is_digit (tl num)),
            dropWhile is_digit (tl num))
      else (n, fp_of_int F 0, num))"

definition number_exp :: "string \<Rightarrow> int \<times> int \<times> string" where
  \<comment> \<open>\<open>signsubscale\<close>, \<open>subscale\<close> and the rest\<close>
  "number_exp num =
     (if peek num = CHR ''e'' \<or> peek num = CHR ''E'' then
        (let num' = tl num;
             (sg, num'') = (if peek num' = CHR ''+'' then (1, tl num')
                            else if peek num' = CHR ''-'' then (- 1, tl num') else (1, num'))
         in (sg, digits_val 0 (takeWhile is_digit num''), dropWhile is_digit num''))
      else (1, 0, num))"

definition parse_number :: "'d fp \<Rightarrow> 'd cJsonDap \<Rightarrow> string \<Rightarrow> 'd cJsonDap presult" where
  "parse_number F item num0 =
     (case number_sign num0 of (sign, num1) \<Rightarrow>
      case number_int F num1 of (n1, num2) \<Rightarrow>
      case number_frac F n1 num2 of (n2, scale, num3) \<Rightarrow>
      case number_exp num3 of (signsubscale, subscale, num4) \<Rightarrow>
        if subscale > INT_MAX then PUndef
        else let n = fp_mul F (fp_mul F (fp_of_int F sign) n2)
                       (fp_pow10 F (fp_add F scale (fp_of_int F (subscale * signsubscale))))
             in POk (set_type cJsonDap_Number (set_number (fp_to_int F n) n item)) num4)"

section \<open>Strings\<close>

fun scan_len :: "string \<Rightarrow> nat option" where
  \<comment> \<open>the counting loop; \<open>None\<close>: the pointer has passed the terminator\<close>
  "scan_len [] = Some 0"
| "scan_len (c # cs) =
     (if c = CHR 0x22 then Some 0
      else if c = CHR 0x5C then
        (case cs of [] \<Rightarrow> None | _ # cs' \<Rightarrow> map_option Suc (scan_len cs'))
      else map_option Suc (scan_len cs))"

definition firstByteMark :: "nat \<Rightarrow> 32 word" where
  "firstByteMark n = [0x00, 0x00, 0xC0, 0xE0, 0xF0, 0xF8, 0xFC] ! n"

definition byte_char :: "32 word \<Rightarrow> char" where
  \<comment> \<open>assignment of an \<open>unsigned\<close> to a \<open>char\<close>\<close>
  "byte_char u = char_of (unat (u AND 0xFF))"

definition utf8_length :: "32 word \<Rightarrow> nat" where
  "utf8_length uc = (if uc < 0x80 then 1 else if uc < 0x800 then 2 else if uc < 0x10000 then 3 else 4)"

fun utf8_cont :: "nat \<Rightarrow> 32 word \<Rightarrow> string \<Rightarrow> string \<times> 32 word" where
  \<comment> \<open>the cases 4, 3 and 2 of the fall-through switch, which write backwards\<close>
  "utf8_cont 0 uc out = (out, uc)"
| "utf8_cont (Suc k) uc out =
     utf8_cont k (drop_bit 6 uc) (byte_char ((uc OR 0x80) AND 0xBF) # out)"

definition utf8_encode :: "32 word \<Rightarrow> string \<times> 32 word" where
  \<comment> \<open>the bytes written, and what is left in \<open>uc\<close>\<close>
  "utf8_encode uc =
     (let len = utf8_length uc; (out, uc') = utf8_cont (len - 1) uc []
      in (byte_char (uc' OR firstByteMark len) # out, uc'))"

definition sscanf_into :: "string \<Rightarrow> 32 word option \<Rightarrow> 32 word option" where
  \<comment> \<open>the variable after \<open>sscanf(s, "%4x", &v)\<close>: unchanged when nothing matched\<close>
  "sscanf_into s v = (case sscanf_4x s of Some x \<Rightarrow> Some x | None \<Rightarrow> v)"

definition u_escape ::
  "32 word option \<Rightarrow> 32 word option \<Rightarrow> string
     \<Rightarrow> (string \<times> 32 word option \<times> 32 word option \<times> string) option" where
  \<comment> \<open>case \<open>'u'\<close>, at the text after the \<open>u\<close>; the rest is where the loop continues\<close>
  "u_escape uc uc2 cs =
     (case sscanf_into cs uc of
        None \<Rightarrow> None
      | Some u \<Rightarrow>
          if length cs < 4 then None
          else if (0xDC00 \<le> u \<and> u \<le> 0xDFFF) \<or> u = 0 then Some ([], Some u, uc2, drop 4 cs)
          else if 0xD800 \<le> u \<and> u \<le> 0xDBFF then
            (if peek (drop 4 cs) \<noteq> CHR 0x5C \<or> peek (drop 5 cs) \<noteq> CHR ''u''
             then Some ([], Some u, uc2, drop 4 cs)
             else case sscanf_into (drop 6 cs) uc2 of
                    None \<Rightarrow> None
                  | Some u2 \<Rightarrow>
                      if length cs < 10 then None
                      else if u2 < 0xDC00 \<or> u2 > 0xDFFF then Some ([], Some u, Some u2, drop 10 cs)
                      else let w = 0x10000 OR push_bit 10 (u AND 0x3FF) OR (u2 AND 0x3FF);
                               (out, w') = utf8_encode w
                           in Some (out, Some w', Some u2, drop 10 cs))
          else let (out, u') = utf8_encode u in Some (out, Some u', uc2, drop 4 cs))"

definition simple_escape :: "char \<Rightarrow> char" where
  "simple_escape c =
     (if c = CHR ''b'' then CHR 0x08 else if c = CHR ''f'' then CHR 0x0C
      else if c = CHR ''n'' then CHR 0x0A else if c = CHR ''r'' then CHR 0x0D
      else if c = CHR ''t'' then CHR 0x09 else c)"

lemma u_escape_shorter:
  "u_escape uc uc2 cs = Some (out, a, b, rest) \<Longrightarrow> length rest < length cs"
  by (auto simp: u_escape_def Let_def split: option.splits if_splits prod.splits)

function unescape ::
  "32 word option \<Rightarrow> 32 word option \<Rightarrow> string \<Rightarrow> (string \<times> string) option" where
  \<comment> \<open>the copying loop: what it writes and where it stops\<close>
  "unescape uc uc2 [] = Some ([], [])"
| "unescape uc uc2 (c # cs) =
     (if c = CHR 0x22 then Some ([], c # cs)
      else if c \<noteq> CHR 0x5C then
        (case unescape uc uc2 cs of None \<Rightarrow> None | Some (out, rest) \<Rightarrow> Some (c # out, rest))
      else case cs of
          [] \<Rightarrow> None
        | d # ds \<Rightarrow>
            if d = CHR ''u'' then
              (case u_escape uc uc2 ds of
                 None \<Rightarrow> None
               | Some (o1, uc', uc2', ds') \<Rightarrow>
                   (case unescape uc' uc2' ds' of
                      None \<Rightarrow> None
                    | Some (out, rest) \<Rightarrow> Some (o1 @ out, rest)))
            else
              (case unescape uc uc2 ds of
                 None \<Rightarrow> None
               | Some (out, rest) \<Rightarrow> Some (simple_escape d # out, rest)))"
  by pat_completeness auto
termination
  by (relation "measure (\<lambda>(uc, uc2, s). length s)") (auto dest: u_escape_shorter)

definition parse_string :: "'d cJsonDap \<Rightarrow> string \<Rightarrow> 'd cJsonDap presult" where
  "parse_string item str =
     (if peek str \<noteq> CHR 0x22 then PFail str
      else case scan_len (tl str) of
          None \<Rightarrow> PUndef
        | Some len \<Rightarrow>
            (case unescape None None (tl str) of
               None \<Rightarrow> PUndef
             | Some (out, ptr) \<Rightarrow>
                 if length out > len then PUndef
                 else POk (set_type cJsonDap_String (set_valuestring (Some out) item))
                        (if peek ptr = CHR 0x22 then tl ptr else ptr)))"

section \<open>Values\<close>

fun parse_value :: "'d fp \<Rightarrow> nat \<Rightarrow> 'd cJsonDap \<Rightarrow> string \<Rightarrow> 'd cJsonDap presult"
and parse_array_items :: "'d fp \<Rightarrow> nat \<Rightarrow> string \<Rightarrow> 'd cJsonDap list presult"
and parse_object_items :: "'d fp \<Rightarrow> nat \<Rightarrow> string \<Rightarrow> 'd cJsonDap list presult" where
  "parse_value F 0 item value = PFuel"
| "parse_value F (Suc n) item value =
     (if starts_with ''null'' value then POk (set_type cJsonDap_Null item) (drop 4 value)
      else if starts_with ''false'' value then POk (set_type cJsonDap_False item) (drop 5 value)
      else if starts_with ''true'' value
        then POk (set_valueint 1 (set_type cJsonDap_True item)) (drop 4 value)
      else if peek value = CHR 0x22 then parse_string item value
      else if peek value = CHR ''-'' \<or> is_digit (peek value) then parse_number F item value
      else if peek value = CHR ''['' then
        (let v = skip (tl value) in
         if peek v = CHR '']'' then POk (set_type cJsonDap_Array item) (tl v)
         else case parse_array_items F n v of
             POk cs rest \<Rightarrow> POk (set_child cs (set_type cJsonDap_Array item)) rest
           | PFail ep \<Rightarrow> PFail ep | PUndef \<Rightarrow> PUndef | PFuel \<Rightarrow> PFuel)
      else if peek value = CHR ''{'' then
        (let v = skip (tl value) in
         if peek v = CHR ''}'' then POk (set_type cJsonDap_Object item) (tl v)
         else case parse_object_items F n v of
             POk cs rest \<Rightarrow> POk (set_child cs (set_type cJsonDap_Object item)) rest
           | PFail ep \<Rightarrow> PFail ep | PUndef \<Rightarrow> PUndef | PFuel \<Rightarrow> PFuel)
      else PFail value)"
| "parse_array_items F 0 value = PFuel"
| "parse_array_items F (Suc n) value =
     (case parse_value F n (cJSON_New_Item F) (skip value) of
        POk child v0 \<Rightarrow>
          (let v = skip v0 in
           if peek v = CHR '','' then
             (case parse_array_items F n (tl v) of
                POk cs rest \<Rightarrow> POk (child # cs) rest
              | PFail ep \<Rightarrow> PFail ep | PUndef \<Rightarrow> PUndef | PFuel \<Rightarrow> PFuel)
           else if peek v = CHR '']'' then POk [child] (tl v) else PFail v)
      | PFail ep \<Rightarrow> PFail ep | PUndef \<Rightarrow> PUndef | PFuel \<Rightarrow> PFuel)"
| "parse_object_items F 0 value = PFuel"
| "parse_object_items F (Suc n) value =
     (case parse_string (cJSON_New_Item F) (skip value) of
        POk c0 v0 \<Rightarrow>
          (let child = set_valuestring None (set_string (cj_valuestring c0) c0); v1 = skip v0 in
           if peek v1 \<noteq> CHR '':'' then PFail v1
           else case parse_value F n child (skip (tl v1)) of
               POk child' v2 \<Rightarrow>
                 (let v = skip v2 in
                  if peek v = CHR '','' then
                    (case parse_object_items F n (tl v) of
                       POk cs rest \<Rightarrow> POk (child' # cs) rest
                     | PFail ep \<Rightarrow> PFail ep | PUndef \<Rightarrow> PUndef | PFuel \<Rightarrow> PFuel)
                  else if peek v = CHR ''}'' then POk [child'] (tl v) else PFail v)
             | PFail ep \<Rightarrow> PFail ep | PUndef \<Rightarrow> PUndef | PFuel \<Rightarrow> PFuel)
      | PFail ep \<Rightarrow> PFail ep | PUndef \<Rightarrow> PUndef | PFuel \<Rightarrow> PFuel)"

definition cJSON_Parse :: "'d fp \<Rightarrow> string \<Rightarrow> 'd cJsonDap presult" where
  "cJSON_Parse F value =
     (let s = c_str value in
      parse_value F (2 * length s + 2) (cJSON_New_Item F) (skip s))"

end
