(* ===== verification/Dap_CJsonTotal.thy ===== *)
theory Dap_CJsonTotal
  imports Dap_CJsonParse
begin

text \<open>
  The parser of \<open>cJSON.cpp\<close> returns: every step of it consumes text, so the fuel that
  \<open>cJSON_Parse\<close> passes is never used up, and more fuel never changes a result.
\<close>

lemma skip_length: "length (skip s) \<le> length s"
  by (induction s) auto

lemma skip_id: "peek s = NUL \<or> code (peek s) > 32 \<Longrightarrow> skip s = s"
  by (cases s) auto

lemma skip_skip [simp]: "skip (skip s) = skip s"
  by (induction s) auto

lemma unescape_length:
  "unescape uc uc2 s = Some (out, rest) \<Longrightarrow> length rest \<le> length s"
proof (induction uc uc2 s arbitrary: out rest rule: unescape.induct)
  case (1 uc uc2)
  then show ?case by simp
next
  case (2 uc uc2 c cs)
  consider "c = CHR 0x22" | "c \<noteq> CHR 0x22" "c \<noteq> CHR 0x5C"
    | "c = CHR 0x5C" by blast
  then show ?case
  proof cases
    case 1
    with "2.prems" show ?thesis by auto
  next
    case 2
    with "2.prems" "2.IH"(1) show ?thesis by (fastforce split: option.splits)
  next
    case 3
    with "2.prems" obtain d ds where cs: "cs = d # ds" by (auto split: list.splits)
    show ?thesis
    proof (cases "d = CHR ''u''")
      case True
      with "2.prems" 3 cs obtain o1 a b ds' out' where
        u: "u_escape uc uc2 ds = Some (o1, a, b, ds')" "unescape a b ds' = Some (out', rest)"
        by (auto split: option.splits)
      have "length rest \<le> length ds'" using "2.IH"(2) 3 cs True u by auto
      moreover have "length ds' < length ds" using u(1) by (rule u_escape_shorter)
      ultimately show ?thesis using cs by simp
    next
      case False
      with "2.prems" 3 cs obtain out' where u: "unescape uc uc2 ds = Some (out', rest)"
        by (auto split: option.splits)
      have "length rest \<le> length ds" using "2.IH"(3) 3 cs False u by auto
      with cs show ?thesis by simp
    qed
  qed
qed

lemma tl_length_le: "length (tl s) \<le> length s"
  by simp

lemma parse_string_length:
  assumes "parse_string item s = POk it rest"
  shows "length rest < length s"
proof -
  from assms obtain cs where s: "s = CHR 0x22 # cs"
    by (cases s) (auto simp: parse_string_def NUL_def split: if_splits)
  with assms obtain out ptr where
    "unescape None None cs = Some (out, ptr)" "rest = (if peek ptr = CHR 0x22 then tl ptr else ptr)"
    by (auto simp: parse_string_def split: option.splits if_splits)
  then show ?thesis using unescape_length s by (cases ptr) (force split: if_splits)+
qed

lemma parse_string_no_fuel [simp]: "parse_string item s \<noteq> PFuel"
  by (auto simp: parse_string_def split: option.splits)

lemma parse_number_no_fuel [simp]: "parse_number F item s \<noteq> PFuel"
  by (simp add: parse_number_def Let_def split: prod.splits)

text \<open>Each part of \<open>parse_number\<close> stops inside its text, and the first digit is consumed.\<close>

lemma number_frac_length: "number_frac F n s = (m, sc, rest) \<Longrightarrow> length rest \<le> length s"
  using length_dropWhile_le' [of is_digit "tl s"] by (auto simp: number_frac_def split: if_splits)

lemma dropWhile_tl_length: "length (dropWhile P (tl s)) \<le> length s"
  using length_dropWhile_le' [of P "tl s"] by simp

lemma number_exp_length: "number_exp s = (sg, k, rest) \<Longrightarrow> length rest \<le> length s"
  using dropWhile_tl_length [of is_digit "tl s"] dropWhile_tl_length [of is_digit s]
  by (auto simp: number_exp_def Let_def split: if_splits)

lemma number_int_length: "number_int F s = (n, rest) \<Longrightarrow> length rest \<le> length s"
  using dropWhile_tl_length [of is_digit s] length_dropWhile_le' [of is_digit s]
  by (auto simp: number_int_def Let_def split: if_splits)

lemma number_int_consumes:
  assumes "number_int F s = (n, rest)" "is_digit (peek s)"
  shows "length rest < length s"
proof -
  from assms(2) obtain c cs where s: "s = c # cs" "is_digit c"
    by (cases s) (auto simp: is_digit_def)
  show ?thesis
    using assms(1) s length_dropWhile_le' [of is_digit cs]
    by (auto simp: number_int_def Let_def split: if_splits)
qed

lemma parse_number_length:
  assumes "parse_number F item s = POk it rest" "peek s = CHR ''-'' \<or> is_digit (peek s)"
  shows "length rest < length s"
proof -
  obtain sg s1 where 1: "number_sign s = (sg, s1)" by fastforce
  obtain n1 s2 where 2: "number_int F s1 = (n1, s2)" by fastforce
  obtain n2 sc s3 where 3: "number_frac F n1 s2 = (n2, sc, s3)" by (metis prod_cases3)
  obtain ss k s4 where 4: "number_exp s3 = (ss, k, s4)" by (metis prod_cases3)
  have r: "rest = s4"
    using assms(1) 1 2 3 4 by (simp add: parse_number_def Let_def split: if_splits)
  have "length s2 < length s"
  proof (cases "peek s = CHR ''-''")
    case True
    then have "length s1 < length s" using 1 by (cases s) (auto simp: number_sign_def NUL_def)
    then show ?thesis using number_int_length [OF 2] by simp
  next
    case False
    then have "s1 = s" "is_digit (peek s)" using 1 assms(2) by (auto simp: number_sign_def)
    then show ?thesis using number_int_consumes [OF 2] by simp
  qed
  then show ?thesis using number_frac_length [OF 3] number_exp_length [OF 4] r by simp
qed

lemma skip_tl_length: "peek s \<noteq> NUL \<Longrightarrow> length (skip (tl s)) < length s"
  using skip_length [of "tl s"] by (cases s) auto

lemma starts_with_drop_length:
  "starts_with p s \<Longrightarrow> 0 < length p \<Longrightarrow> length (drop (length p) s) < length s"
  by (metis diff_less length_drop less_le_trans starts_with_length)

lemma starts_with_peek: "starts_with (c # p) s \<Longrightarrow> peek s = c"
  by (cases s) auto

lemma peek_not_NUL: "is_digit c \<Longrightarrow> c \<noteq> NUL"
  by (auto simp: is_digit_def)

lemma parse_progress:
  "parse_value F n item s = POk it rest \<Longrightarrow> length rest < length s"
  "parse_array_items F n s = POk its rest \<Longrightarrow> length rest < length s"
  "parse_object_items F n s = POk its rest \<Longrightarrow> length rest < length s"
proof (induction n arbitrary: item s it its rest)
  case 0
  { case 1 then show ?case by simp }
  { case 2 then show ?case by simp }
  { case 3 then show ?case by simp }
next
  case (Suc n)
  { case 1
    consider (null) "starts_with ''null'' s" "rest = drop 4 s"
      | (false) "starts_with ''false'' s" "rest = drop 5 s"
      | (true) "starts_with ''true'' s" "rest = drop 4 s"
      | (str) "parse_string item s = POk it rest"
      | (num) "parse_number F item s = POk it rest" "peek s = CHR ''-'' \<or> is_digit (peek s)"
      | (emp) "peek s \<noteq> NUL" "peek (skip (tl s)) \<noteq> NUL" "rest = tl (skip (tl s))"
      | (arr) cs where "peek s \<noteq> NUL" "parse_array_items F n (skip (tl s)) = POk cs rest"
      | (obj) cs where "peek s \<noteq> NUL" "parse_object_items F n (skip (tl s)) = POk cs rest"
      using 1 by (auto simp: Let_def NUL_def split: if_splits presult.splits)
    then show ?case
    proof cases
      case null
      then show ?thesis using starts_with_drop_length [of "''null''" s] by simp
    next
      case false
      then show ?thesis using starts_with_drop_length [of "''false''" s] by simp
    next
      case true
      then show ?thesis using starts_with_drop_length [of "''true''" s] by simp
    next
      case str
      then show ?thesis by (rule parse_string_length)
    next
      case num
      then show ?thesis by (rule parse_number_length)
    next
      case emp
      then show ?thesis using skip_tl_length [of s] by simp
    next
      case arr
      then show ?thesis using Suc.IH(2) skip_tl_length [of s] by fastforce
    next
      case obj
      then show ?thesis using Suc.IH(3) skip_tl_length [of s] by fastforce
    qed }
  { case 2
    then obtain c v0 where v: "parse_value F n (cJSON_New_Item F) (skip s) = POk c v0"
      by (auto split: presult.splits)
    then have l: "length (skip v0) < length s"
      using Suc.IH(1) skip_length [of s] skip_length [of v0] by fastforce
    from 2 v consider cs where "parse_array_items F n (tl (skip v0)) = POk cs rest"
      | "rest = tl (skip v0)"
      by (auto simp: Let_def split: if_splits presult.splits)
    then show ?case
    proof cases
      case 1
      then show ?thesis using Suc.IH(2) l by fastforce
    next
      case 2
      then show ?thesis using l by simp
    qed }
  { case 3
    then obtain c v0 where v0: "parse_string (cJSON_New_Item F) (skip s) = POk c v0"
      by (auto split: presult.splits)
    then have l0: "length (skip v0) < length s"
      using parse_string_length skip_length [of s] skip_length [of v0] by fastforce
    from 3 v0 obtain ch c' v2 where v2: "parse_value F n ch (skip (tl (skip v0))) = POk c' v2"
      and r: "(\<exists>cs. parse_object_items F n (tl (skip v2)) = POk cs rest) \<or> rest = tl (skip v2)"
      by (auto simp: Let_def split: if_splits presult.splits)
    have l: "length (skip v2) < length s"
      using Suc.IH(1) [OF v2] skip_length [of "tl (skip v0)"] skip_length [of v2] l0 by simp
    from r show ?case
    proof
      assume "\<exists>cs. parse_object_items F n (tl (skip v2)) = POk cs rest"
      then show ?thesis using Suc.IH(3) l by fastforce
    next
      assume "rest = tl (skip v2)"
      then show ?thesis using l by simp
    qed }
qed

lemma parse_value_fuel:
  "2 * length s + 1 \<le> n \<Longrightarrow> parse_value F n item s \<noteq> PFuel"
  "2 * length s + 2 \<le> n \<Longrightarrow> parse_array_items F n s \<noteq> PFuel"
  "2 * length s + 2 \<le> n \<Longrightarrow> parse_object_items F n s \<noteq> PFuel"
proof (induction n arbitrary: item s)
  case 0
  { case 1 then show ?case by simp }
  { case 2 then show ?case by simp }
  { case 3 then show ?case by simp }
next
  case (Suc n)
  { case 1
    have "peek s \<noteq> NUL \<Longrightarrow> 2 * length (skip (tl s)) + 2 \<le> n"
      using skip_tl_length [of s] 1 by simp
    then have "peek s \<noteq> NUL \<Longrightarrow> parse_array_items F n (skip (tl s)) \<noteq> PFuel"
      "peek s \<noteq> NUL \<Longrightarrow> parse_object_items F n (skip (tl s)) \<noteq> PFuel"
      using Suc.IH by auto
    then show ?case by (auto simp: Let_def NUL_def split: presult.splits) }
  { case 2
    have "parse_value F n (cJSON_New_Item F) (skip s) \<noteq> PFuel"
      using Suc.IH(1) [of "skip s"] 2 skip_length [of s] by simp
    moreover have "parse_array_items F n (tl (skip v0)) \<noteq> PFuel"
      if v: "parse_value F n (cJSON_New_Item F) (skip s) = POk c v0" for c v0
    proof -
      have "length (skip v0) < length s"
        using parse_progress(1) [OF v] skip_length [of s] skip_length [of v0] by simp
      then show ?thesis using Suc.IH(2) [of "tl (skip v0)"] 2 by simp
    qed
    ultimately show ?case by (auto simp: Let_def split: presult.splits) }
  { case 3
    have A: "parse_value F n ch (skip (tl (skip v0))) \<noteq> PFuel"
      if v: "parse_string (cJSON_New_Item F) (skip s) = POk c v0" for c v0 ch
    proof -
      have "length (skip (tl (skip v0))) < length s"
        using parse_string_length [OF v] skip_length [of s] skip_length [of v0]
          skip_length [of "tl (skip v0)"] by simp
      then show ?thesis using Suc.IH(1) [of "skip (tl (skip v0))"] 3 by simp
    qed
    have B: "parse_object_items F n (tl (skip v2)) \<noteq> PFuel"
      if v: "parse_string (cJSON_New_Item F) (skip s) = POk c v0"
        and v2: "parse_value F n ch (skip (tl (skip v0))) = POk c' v2" for c v0 ch c' v2
    proof -
      have "length (skip v2) < length s"
        using parse_string_length [OF v] parse_progress(1) [OF v2] skip_length [of s]
          skip_length [of v0] skip_length [of "tl (skip v0)"] skip_length [of v2] by simp
      then show ?thesis using Suc.IH(3) [of "tl (skip v2)"] 3 by simp
    qed
    from A B show ?case by (auto simp: Let_def split: presult.splits) }
qed



end
