(* ===== verification/Dap_CJsonRound.thy ===== *)
theory Dap_CJsonRound
  imports Dap_CJsonTotal
begin

text \<open>
  The round trip of \<open>cJSON.cpp\<close>: parsing what the printer wrote, formatted or not, gives the
  tree back. \<open>json_wf\<close> describes the trees that the constructors and the list operations
  build from C strings and 32-bit integers; \<open>norm_json\<close> is the one difference the parser
  makes (it sets \<open>valueint\<close> of a \<open>true\<close>, which \<open>cJSON_CreateTrue\<close> leaves at 0).
\<close>

definition plain_fields :: "'d fp \<Rightarrow> nat \<Rightarrow> string option \<Rightarrow> int \<Rightarrow> 'd \<Rightarrow> 'd cJsonDap list \<Rightarrow> bool" where
  "plain_fields F t vs vi vd ch \<longleftrightarrow>
     (if t = cJsonDap_Number then vs = None \<and> int32 vi \<and> vd = fp_of_int F vi \<and> ch = []
      else vd = fp_of_int F 0 \<and>
       (if t = cJsonDap_String then (\<exists>x. vs = Some x \<and> no_nul x) \<and> vi = 0 \<and> ch = []
        else vs = None \<and>
         (if t = cJsonDap_True then (vi = 0 \<or> vi = 1) \<and> ch = []
          else vi = 0 \<and>
            (t = cJsonDap_Array \<or> t = cJsonDap_Object
             \<or> ((t = cJsonDap_False \<or> t = cJsonDap_Null) \<and> ch = [])))))"

fun json_wf :: "'d fp \<Rightarrow> 'd cJsonDap \<Rightarrow> bool" where
  "json_wf F (CJson t vs vi vd s ch) \<longleftrightarrow>
     plain_fields F t vs vi vd ch
     \<and> (t = cJsonDap_Array \<longrightarrow> (\<forall>c \<in> set ch. cj_string c = None))
     \<and> (t = cJsonDap_Object \<longrightarrow> (\<forall>c \<in> set ch. \<exists>x. cj_string c = Some x \<and> no_nul x))
     \<and> (\<forall>c \<in> set ch. json_wf F c)"

fun norm_json :: "'d cJsonDap \<Rightarrow> 'd cJsonDap" where
  "norm_json (CJson t vs vi vd s ch) =
     CJson t vs (if t = cJsonDap_True then 1 else vi) vd s (map norm_json ch)"

section \<open>Strings\<close>

lemma print_char_cases:
  obtains (plain) "print_char c = [c]" "c \<noteq> CHR 0x22" "c \<noteq> CHR 0x5C"
  | (simple) d where "print_char c = [CHR 0x5C, d]" "d \<noteq> CHR ''u''" "simple_escape d = c"
  | (hex) "print_char c = CHR 0x5C # CHR ''u'' # show_04x (code c)" "code c < 32"
proof -
  consider "code c > 31" "c \<noteq> CHR 0x22" "c \<noteq> CHR 0x5C"
    | "c = CHR 0x5C" | "c = CHR 0x22" | "c = CHR 0x08" | "c = CHR 0x0C" | "c = CHR 0x0A"
    | "c = CHR 0x0D" | "c = CHR 0x09"
    | "code c < 32" "\<not> is_escaped c"
    by (force simp: is_escaped_def)
  then show thesis
  proof cases
    case 1
    then show ?thesis by (intro plain) (simp_all add: print_char_def)
  next
    case 9
    then show ?thesis by (intro hex) (simp_all add: print_char_def is_escaped_def)
  qed (rule simple, simp add: print_char_def, simp, simp add: simple_escape_def)+
qed

lemma byte_char_of_nat:
  assumes "n < 256"
  shows "byte_char (word_of_nat n) = char_of n"
proof -
  have "(word_of_nat n :: 32 word) AND 0xFF = take_bit 8 (word_of_nat n)"
    by (simp add: take_bit_eq_mask mask_eq_exp_minus_1)
  also have "\<dots> = word_of_nat n"
    using take_bit_nat_eq_self [of n 8] assms by (simp add: take_bit_of_nat)
  finally show ?thesis
    using assms by (simp add: byte_char_def unat_of_nat take_bit_nat_eq_self_iff)
qed

lemma utf8_encode_ascii:
  assumes "n < 128"
  shows "utf8_encode (word_of_nat n) = ([char_of n], word_of_nat n)"
proof -
  have "(word_of_nat n :: 32 word) < 0x80"
    using assms by (simp add: word_less_nat_alt unat_of_nat take_bit_nat_eq_self_iff)
  then show ?thesis
    using assms by (simp add: utf8_encode_def utf8_length_def firstByteMark_def byte_char_of_nat Let_def)
qed

lemma length_show_04x [simp]: "length (show_04x n) = 4"
  by (simp add: show_04x_def)

lemma u_escape_hex:
  assumes "0 < n" "n < 128"
  shows "u_escape uc uc2 (show_04x n @ t) = Some ([char_of n], Some (word_of_nat n), uc2, t)"
proof -
  have s: "sscanf_4x (show_04x n @ t) = Some (word_of_nat n)"
    using assms by (intro sscanf_4x_show_04x) simp
  have u: "unat (word_of_nat n :: 32 word) = n"
    using assms by (simp add: unat_of_nat take_bit_nat_eq_self_iff)
  have "\<not> (0xDC00 :: 32 word) \<le> word_of_nat n" "\<not> (0xD800 :: 32 word) \<le> word_of_nat n"
    "(word_of_nat n :: 32 word) \<noteq> 0"
    using assms u by (auto simp: word_le_nat_alt)
  with s show ?thesis
    using assms by (simp add: u_escape_def sscanf_into_def utf8_encode_ascii)
qed

lemma unescape_print_chars:
  "no_nul s \<Longrightarrow> unescape uc uc2 (print_chars s @ CHR 0x22 # rest) = Some (s, CHR 0x22 # rest)"
proof (induction s arbitrary: uc uc2)
  case Nil
  then show ?case by simp
next
  case (Cons c cs)
  show ?case
  proof (cases rule: print_char_cases [of c])
    case plain
    with Cons show ?thesis by simp
  next
    case (simple d)
    with Cons show ?thesis by simp
  next
    case hex
    have "0 < code c" using Cons.prems by (simp add: code_pos)
    with hex Cons show ?thesis by (simp add: u_escape_hex)
  qed
qed

lemma scan_len_mono4:
  assumes "\<forall>x \<in> set h. x \<noteq> CHR 0x22 \<and> x \<noteq> CHR 0x5C"
  shows "scan_len (h @ s) = map_option ((+) (length h)) (scan_len s)"
  using assms by (induction h; cases "scan_len s") auto

lemma scan_len_print_chars:
  "\<exists>k \<ge> length s. scan_len (print_chars s @ CHR 0x22 # rest) = Some k"
proof (induction s)
  case Nil
  then show ?case by simp
next
  case (Cons c cs)
  then obtain k where k: "length cs \<le> k" "scan_len (print_chars cs @ CHR 0x22 # rest) = Some k"
    by blast
  show ?case
  proof (cases rule: print_char_cases [of c])
    case plain
    with k show ?thesis by simp
  next
    case (simple d)
    with k show ?thesis by simp
  next
    case hex
    have "\<forall>x \<in> set (show_04x (code c)). x \<noteq> CHR 0x22 \<and> x \<noteq> CHR 0x5C"
      by (simp add: show_04x_def hex_digit_props)
    from scan_len_mono4 [OF this] k hex show ?thesis by simp
  qed
qed

lemma parse_print_string:
  assumes "no_nul s"
  shows "parse_string item (print_string_ptr (Some s) @ rest) =
    POk (set_type cJsonDap_String (set_valuestring (Some s) item)) rest"
proof -
  obtain k where "length s \<le> k" "scan_len (print_chars s @ CHR 0x22 # rest) = Some k"
    using scan_len_print_chars by blast
  then show ?thesis
    using assms unescape_print_chars [OF assms, of None None rest]
    by (simp add: parse_string_def print_string_ptr_def c_str_id)
qed

section \<open>Numbers\<close>

definition stops :: "string \<Rightarrow> bool" where
  \<comment> \<open>the text after a number does not continue it\<close>
  "stops rest \<longleftrightarrow> \<not> is_digit (peek rest) \<and> peek rest \<notin> {CHR ''.'', CHR ''e'', CHR ''E''}"

lemma stops_not_digit: "stops rest \<Longrightarrow> takeWhile is_digit (xs @ rest) = takeWhile is_digit xs
    \<and> dropWhile is_digit (xs @ rest) = dropWhile is_digit xs @ rest"
  by (induction xs; cases rest) (auto simp: stops_def)

lemma number_int_show_nat:
  assumes "fp_ok F" "exact_int (int n)" "stops rest"
  shows "number_int F (show_nat n @ rest) = (fp_of_int F (int n), rest)"
proof (cases "n = 0")
  case True
  with assms show ?thesis by (auto simp: show_nat_0 number_int_def Let_def stops_def)
next
  case False
  obtain d ds where d: "show_nat n = d # ds" using show_nat_nonempty by (meson neq_Nil_conv)
  with False have r: "49 \<le> code d" "code d \<le> 57" using show_nat_first [of n d ds] by auto
  then have "is_digit d" "d \<noteq> CHR ''0''" by (auto simp: is_digit_def)
  moreover have "takeWhile is_digit (show_nat n @ rest) = show_nat n"
    "dropWhile is_digit (show_nat n @ rest) = rest"
    using show_nat_digits [of n] stops_not_digit [OF assms(3), of "show_nat n"]
    by (auto simp: list_all_iff takeWhile_eq_all_conv dropWhile_eq_Nil_conv)
  moreover have "fp_digits F (fp_of_int F 0) (show_nat n) = fp_of_int F (int n)"
    using fp_digits_exact [OF assms(1) show_nat_digits, of 0] assms(2) by (simp add: digits_val_show_nat)
  ultimately show ?thesis using d by (simp add: number_int_def Let_def)
qed

lemma parse_show_int:
  assumes "fp_ok F" "int32 i" "stops rest"
  shows "parse_number F item (show_int i @ rest) =
    POk (set_type cJsonDap_Number (set_number i (fp_of_int F i) item)) rest"
proof -
  define sg where "sg = (if i < 0 then - 1 else 1 :: int)"
  define n where "n = nat \<bar>i\<bar>"
  have i: "i = sg * int n" by (simp add: sg_def n_def)
  have ex: "exact_int (int n)" "exact_int sg" "exact_int i" "exact_int 1" "exact_int 0"
    using exact_int32 [OF assms(2)] by (auto simp: n_def sg_def exact_int_def)
  obtain d ds where d: "show_nat n = d # ds" using show_nat_nonempty by (meson neq_Nil_conv)
  then have "d \<noteq> CHR ''-''" using show_nat_digits [of n] by (auto simp: is_digit_def)
  moreover have "show_int i = (if i < 0 then CHR ''-'' # show_nat n else show_nat n)"
    by (simp add: show_int_def n_def)
  ultimately have "number_sign (show_int i @ rest) = (sg, show_nat n @ rest)"
    using d by (simp add: number_sign_def sg_def)
  moreover have "number_frac F (fp_of_int F (int n)) rest = (fp_of_int F (int n), fp_of_int F 0, rest)"
    "number_exp rest = (1, 0, rest)"
    using assms(3) by (auto simp: number_frac_def number_exp_def stops_def)
  moreover have "fp_mul F (fp_of_int F sg) (fp_of_int F (int n)) = fp_of_int F i"
  proof -
    have "sg * int n \<noteq> 0 \<or> (0 \<le> sg \<and> 0 \<le> int n)" by (auto simp: sg_def n_def)
    moreover have "exact_int (sg * int n)" using ex(3) i by simp
    ultimately show ?thesis using fp_mul_exact [OF assms(1) ex(2) ex(1)] i by metis
  qed
  moreover have "fp_add F (fp_of_int F 0) (fp_of_int F 0) = fp_of_int F 0"
    using fp_add_exact [OF assms(1) ex(5) ex(5)] ex(5) by simp
  moreover have "fp_mul F (fp_of_int F i) (fp_of_int F 1) = fp_of_int F i"
    using fp_mul_exact [OF assms(1) ex(3) ex(4)] ex(3) by auto
  moreover note fp_pow10_0 [OF assms(1)]
  ultimately show ?thesis
    using number_int_show_nat [OF assms(1) ex(1) assms(3)] fp_to_int_of_int [OF assms(1,2)]
    by (simp add: parse_number_def Let_def INT_MAX_def)
qed

lemma print_number_int:
  assumes "fp_ok F" "int32 i"
  shows "print_number F (CJson t vs i (fp_of_int F i) s ch) = show_int i"
proof -
  have ex: "exact_int i" "exact_int 0" "exact_int INT_MAX" "exact_int INT_MIN"
    using exact_int32 [OF assms(2)] by (simp_all add: exact_int_def INT_MAX_def INT_MIN_def)
  have "fp_sub F (fp_of_int F i) (fp_of_int F i) = fp_of_int F 0"
    "fp_abs F (fp_of_int F 0) = fp_of_int F 0"
    using fp_sub_exact [OF assms(1) ex(1) ex(1)] fp_abs_exact [OF assms(1) ex(2)] ex(2) by simp_all
  moreover have "fp_le F (fp_of_int F i) (fp_of_int F INT_MAX)"
    "fp_le F (fp_of_int F INT_MIN) (fp_of_int F i)"
    using assms ex by (auto simp: fp_le_exact int32_def)
  moreover note fp_eps_nonneg [OF assms(1)]
  ultimately show ?thesis by (simp add: print_number_def Let_def)
qed

section \<open>More fuel never changes a result\<close>

lemma parse_fuel_mono1:
  "parse_value F n item s \<noteq> PFuel \<Longrightarrow> parse_value F (Suc n) item s = parse_value F n item s"
  "parse_array_items F n s \<noteq> PFuel \<Longrightarrow> parse_array_items F (Suc n) s = parse_array_items F n s"
  "parse_object_items F n s \<noteq> PFuel \<Longrightarrow> parse_object_items F (Suc n) s = parse_object_items F n s"
proof (induction n arbitrary: item s)
  case 0
  { case 1 then show ?case by simp }
  { case 2 then show ?case by simp }
  { case 3 then show ?case by simp }
next
  case (Suc n)
  { case 1
    show ?case
    proof (cases "parse_value F (Suc n) item s = parse_value F (Suc (Suc n)) item s")
      case False
      then have "(parse_array_items F (Suc n) (skip (tl s)) \<noteq> parse_array_items F n (skip (tl s))
            \<and> parse_array_items F n (skip (tl s)) \<noteq> PFuel)
        \<or> (parse_object_items F (Suc n) (skip (tl s)) \<noteq> parse_object_items F n (skip (tl s))
            \<and> parse_object_items F n (skip (tl s)) \<noteq> PFuel)"
        using 1
        unfolding parse_value.simps(2) [of F n] parse_value.simps(2) [of F "Suc n"] Let_def
        by (auto simp del: parse_array_items.simps parse_object_items.simps
            split: if_split_asm presult.splits)
      then show ?thesis using Suc.IH(2,3) by blast
    qed simp }
  { case 2
    then have v: "parse_value F n (cJSON_New_Item F) (skip s) \<noteq> PFuel"
      by (auto split: presult.splits)
    show ?case
    proof (cases "parse_value F n (cJSON_New_Item F) (skip s)")
      case (POk c v0)
      then have "peek (skip v0) = CHR '','' \<Longrightarrow> parse_array_items F n (tl (skip v0)) \<noteq> PFuel"
        using 2 by (auto simp: Let_def)
      then show ?thesis
        unfolding parse_array_items.simps(2) [of F n] parse_array_items.simps(2) [of F "Suc n"]
        using Suc.IH(1) [OF v] Suc.IH(2) [of "tl (skip v0)"] POk by (simp add: Let_def)
    qed (use Suc.IH(1) [OF v] v in
        \<open>simp_all add: parse_array_items.simps(2) [of F n] parse_array_items.simps(2) [of F "Suc n"]
          del: parse_value.simps parse_array_items.simps\<close>) }
  { case 3
    show ?case
    proof (cases "parse_string (cJSON_New_Item F) (skip s)")
      case (POk c0 v0)
      define ch where "ch = set_valuestring None (set_string (cj_valuestring c0) c0)"
      define v1 where "v1 = skip v0"
      show ?thesis
      proof (cases "peek v1 = CHR '':''")
        case True
        then have v: "parse_value F n ch (skip (tl v1)) \<noteq> PFuel"
          using 3 POk by (auto simp: Let_def ch_def v1_def split: presult.splits)
        show ?thesis
        proof (cases "parse_value F n ch (skip (tl v1))")
          case (POk c' v2)
          then have "peek (skip v2) = CHR '','' \<Longrightarrow> parse_object_items F n (tl (skip v2)) \<noteq> PFuel"
            using 3 True \<open>parse_string _ _ = POk c0 v0\<close> by (auto simp: Let_def ch_def v1_def)
          then show ?thesis
            unfolding parse_object_items.simps(2) [of F n] parse_object_items.simps(2) [of F "Suc n"]
            using Suc.IH(1) [OF v] Suc.IH(3) [of "tl (skip v2)"] POk True
              \<open>parse_string _ _ = POk c0 v0\<close>
            by (simp add: Let_def ch_def [symmetric] v1_def [symmetric] del: parse_value.simps)
        qed (use Suc.IH(1) [OF v] v POk True in
            \<open>simp_all add: parse_object_items.simps(2) [of F n] parse_object_items.simps(2) [of F "Suc n"]
              Let_def ch_def [symmetric] v1_def [symmetric] del: parse_value.simps parse_object_items.simps\<close>)
      next
        case False
        then show ?thesis using POk
          by (simp add: parse_object_items.simps(2) [of F n] parse_object_items.simps(2) [of F "Suc n"]
              Let_def v1_def [symmetric] del: parse_object_items.simps)
      qed
    qed simp_all }
qed

lemma parse_fuel_mono:
  "parse_value F n item s \<noteq> PFuel \<Longrightarrow> n \<le> m \<Longrightarrow> parse_value F m item s = parse_value F n item s"
proof (induction m)
  case 0
  then show ?case by simp
next
  case (Suc m)
  show ?case
  proof (cases "n \<le> m")
    case True
    with Suc have "parse_value F m item s = parse_value F n item s" by blast
    with Suc.prems(1) parse_fuel_mono1(1) [of F m item s] show ?thesis by metis
  next
    case False
    with Suc.prems show ?thesis by (simp only: not_le le_Suc_eq) auto
  qed
qed

lemma cJSON_Parse_eq:
  assumes "no_nul s" "parse_value F n (cJSON_New_Item F) (skip s) = r" "r \<noteq> PFuel"
  shows "cJSON_Parse F s = r"
proof -
  let ?B = "2 * length s + 2"
  have B: "parse_value F ?B (cJSON_New_Item F) (skip s) \<noteq> PFuel"
    by (rule parse_value_fuel(1)) (use skip_length [of s] in simp)
  have "parse_value F ?B (cJSON_New_Item F) (skip s) = parse_value F (max n ?B) (cJSON_New_Item F) (skip s)"
    using parse_fuel_mono [OF B, of "max n ?B"] by simp
  also have "\<dots> = r"
    using parse_fuel_mono [of F n _ "skip s" "max n ?B"] assms(2,3) by simp
  finally show ?thesis using assms(1) by (simp add: cJSON_Parse_def c_str_id Let_def)
qed

section \<open>Trees\<close>

lemma skip_blanks: "skip (blanks n @ s) = skip s"
proof -
  have "skip (replicate k (CHR '' '') @ s) = skip s" for k by (induction k) (simp_all add: NUL_def)
  then show ?thesis by (simp add: blanks_def)
qed

lemma skip_newline [simp]: "skip (CHR 0x0A # s) = skip s" "skip (CHR '' '' # s) = skip s"
  by (simp_all add: NUL_def)

text \<open>The first character of a printed value is not white space and closes nothing.\<close>

definition value_start :: "string \<Rightarrow> bool" where
  "value_start s \<longleftrightarrow> s \<noteq> [] \<and> code (hd s) > 32 \<and> hd s \<notin> {CHR '']'', CHR ''}''}"

lemma value_start_skip: "value_start s \<Longrightarrow> skip (s @ t) = s @ t"
  by (cases s) (auto simp: value_start_def)

lemma show_int_start: "value_start (show_int i) \<and> hd (show_int i) \<noteq> CHR 0x22
    \<and> (hd (show_int i) = CHR ''-'' \<or> is_digit (hd (show_int i)))"
proof (cases "i < 0")
  case True
  then show ?thesis by (simp add: show_int_def value_start_def)
next
  case False
  obtain d ds where d: "show_nat (nat i) = d # ds" using show_nat_nonempty by (meson neq_Nil_conv)
  then have "is_digit d" using show_nat_digits [of "nat i"] by simp
  then show ?thesis using False d by (auto simp: show_int_def value_start_def is_digit_def)
qed

lemma print_value_start:
  assumes "fp_ok F" "json_wf F j" "print_value F j depth fmt = Some out"
  shows "value_start out"
proof (cases j)
  case (CJson t vs vi vd s ch)
  then show ?thesis
    using assms show_int_start
    by (auto simp: cj_types plain_fields_def print_string_def print_string_ptr_def print_array_def
        print_object_def print_number_int value_start_def Let_def split: if_splits)
qed

lemma print_value_exists: "json_wf F j \<Longrightarrow> \<exists>out. print_value F j depth fmt = Some out"
proof (induction j arbitrary: depth)
  case (CJson t vs vi vd s ch)
  have "t < 256" using CJson.prems by (auto simp: plain_fields_def cj_types split: if_splits)
  moreover have "None \<notin> set (map (\<lambda>c. print_value F c (depth + 1) fmt) ch)"
  proof -
    have "print_value F c (depth + 1) fmt \<noteq> None" if "c \<in> set ch" for c
      using CJson.IH [OF that] CJson.prems that by fastforce
    then show ?thesis by force
  qed
  moreover have "t \<le> 6" using CJson.prems by (auto simp: plain_fields_def cj_types split: if_splits)
  ultimately show ?case
    by (auto simp: cj_types print_array_def print_object_def Let_def)
qed

definition reads :: "'d fp \<Rightarrow> 'd cJsonDap \<Rightarrow> string \<Rightarrow> bool" where
  \<comment> \<open>a fresh item with the name of \<open>j\<close> becomes \<open>j\<close> when \<open>s\<close> is parsed into it\<close>
  "reads F j s \<longleftrightarrow> (\<forall>t0 rest. stops rest \<longrightarrow>
     (\<exists>n0. \<forall>n \<ge> n0. parse_value F n (CJson t0 None 0 (fp_of_int F 0) (cj_string j) []) (s @ rest)
        = POk (norm_json j) rest))"

lemma readsD:
  assumes "reads F j s" "stops rest"
  obtains n0 where "\<And>n. n0 \<le> n \<Longrightarrow>
    parse_value F n (CJson t0 None 0 (fp_of_int F 0) (cj_string j) []) (s @ rest)
      = POk (norm_json j) rest"
proof -
  have "\<exists>n0. \<forall>n \<ge> n0. parse_value F n (CJson t0 None 0 (fp_of_int F 0) (cj_string j) []) (s @ rest)
      = POk (norm_json j) rest"
    using assms unfolding reads_def by blast
  then show thesis using that by blast
qed

lemma array_items_skip: "parse_array_items F n (skip s) = parse_array_items F n s"
  by (cases n) simp_all

lemma object_items_skip: "parse_object_items F n (skip s) = parse_object_items F n s"
  by (cases n) simp_all

lemma stops_punct: "stops (CHR '','' # s)" "stops (CHR '']'' # s)" "stops (CHR ''}'' # s)"
  "stops (CHR 0x0A # s)" "stops []"
  by (simp_all add: stops_def is_digit_def NUL_def)

lemma parse_join_array:
  assumes "ces \<noteq> []"
    "\<forall>(c, e) \<in> set ces. reads F c e \<and> value_start e \<and> cj_string c = None"
  shows "\<exists>n0. \<forall>n \<ge> n0. parse_array_items F n (join_array fmt (map snd ces) @ CHR '']'' # rest)
    = POk (map (norm_json \<circ> fst) ces) rest"
  using assms
proof (induction ces)
  case Nil
  then show ?case by simp
next
  case (Cons ce ces)
  obtain c e where ce: "ce = (c, e)" by fastforce
  with Cons.prems have c: "reads F c e" "value_start e" "cj_string c = None" by auto
  show ?case
  proof (cases "ces = []")
    case True
    obtain n0 where n0: "\<And>n. n0 \<le> n \<Longrightarrow>
        parse_value F n (CJson 0 None 0 (fp_of_int F 0) (cj_string c) []) (e @ CHR '']'' # rest)
          = POk (norm_json c) (CHR '']'' # rest)"
      using readsD [OF c(1) stops_punct(2)] by metis
    have "parse_array_items F n (e @ CHR '']'' # rest) = POk [norm_json c] rest" if "Suc n0 \<le> n" for n
      using n0 that c by (cases n) (auto simp: value_start_skip cJSON_New_Item_def)
    then show ?thesis using ce True by auto
  next
    case False
    define more where "more = (if fmt then '' '' else []) @ join_array fmt (map snd ces) @ CHR '']'' # rest"
    obtain n0 where n0: "\<And>n. n0 \<le> n \<Longrightarrow>
        parse_value F n (CJson 0 None 0 (fp_of_int F 0) (cj_string c) []) (e @ CHR '','' # more)
          = POk (norm_json c) (CHR '','' # more)"
      using readsD [OF c(1) stops_punct(1)] by metis
    have "\<forall>(c, e) \<in> set ces. reads F c e \<and> value_start e \<and> cj_string c = None"
      using Cons.prems by simp
    from Cons.IH [OF False this] obtain n1 where n1: "\<And>n. n1 \<le> n \<Longrightarrow>
        parse_array_items F n (join_array fmt (map snd ces) @ CHR '']'' # rest)
          = POk (map (norm_json \<circ> fst) ces) rest"
      by blast
    have "skip more = skip (join_array fmt (map snd ces) @ CHR '']'' # rest)"
      by (simp add: more_def NUL_def)
    then have more: "parse_array_items F n more = POk (map (norm_json \<circ> fst) ces) rest" if "n1 \<le> n" for n
      using n1 [OF that] array_items_skip by metis
    have "parse_array_items F n (e @ CHR '','' # more) = POk (map (norm_json \<circ> fst) (ce # ces)) rest"
      if "Suc (max n0 n1) \<le> n" for n
      using n0 more that c ce by (cases n) (auto simp: value_start_skip cJSON_New_Item_def)
    moreover have "join_array fmt (map snd (ce # ces)) @ CHR '']'' # rest = e @ CHR '','' # more"
      using ce False by (cases "map snd ces") (auto simp: more_def)
    ultimately show ?thesis by metis
  qed
qed

lemma print_string_start: "no_nul x \<Longrightarrow> skip (print_string_ptr (Some x) @ t) = print_string_ptr (Some x) @ t"
  by (simp add: print_string_ptr_def)

lemma parse_join_object:
  assumes "ces \<noteq> []"
    "\<forall>(c, e) \<in> set ces. reads F c e \<and> value_start e \<and> (\<exists>x. cj_string c = Some x \<and> no_nul x)"
    "skip tail = CHR ''}'' # rest" "stops tail"
  shows "\<exists>n0. \<forall>n \<ge> n0. parse_object_items F n
      (join_object fmt d (map (\<lambda>(c, e). (print_string_ptr (cj_string c), e)) ces) @ tail)
    = POk (map (norm_json \<circ> fst) ces) rest"
  using assms(1,2)
proof (induction ces)
  case Nil
  then show ?case by simp
next
  case (Cons ce ces)
  obtain c e where ce: "ce = (c, e)" by fastforce
  with Cons.prems obtain x where c: "reads F c e" "value_start e" "cj_string c = Some x" "no_nul x"
    by auto
  define jo where "jo = join_object fmt d (map (\<lambda>(c, e). (print_string_ptr (cj_string c), e)) ces)"
  define more where "more = (if ces \<noteq> [] then '','' else []) @ (if fmt then [CHR 0x0A] else []) @ jo @ tail"
  have "stops more" using assms(4) by (auto simp: more_def stops_punct jo_def)
  then obtain n0 where n0: "\<And>n. n0 \<le> n \<Longrightarrow>
      parse_value F n (CJson 4 None 0 (fp_of_int F 0) (cj_string c) []) (e @ more)
        = POk (norm_json c) more"
    using readsD [OF c(1)] by metis
  define tx where "tx = print_string_ptr (Some x) @ '':'' @ (if fmt then '' '' else []) @ e @ more"
  have all: "skip (join_object fmt d (map (\<lambda>(c, e). (print_string_ptr (cj_string c), e)) (ce # ces)) @ tail)
      = tx"
    using ce c(3,4) by (auto simp: tx_def more_def jo_def skip_blanks print_string_start)
  have colon: "skip ((if fmt then '' '' else []) @ e @ more) = e @ more"
    using c(2) value_start_skip [of e more] by (simp add: NUL_def)
  have step: "parse_object_items F (Suc n) tx =
      (let v = skip more in
       if peek v = CHR '','' then
         (case parse_object_items F n (tl v) of
            POk cs rest \<Rightarrow> POk (norm_json c # cs) rest
          | PFail ep \<Rightarrow> PFail ep | PUndef \<Rightarrow> PUndef | PFuel \<Rightarrow> PFuel)
       else if peek v = CHR ''}'' then POk [norm_json c] (tl v) else PFail v)" if "n0 \<le> n" for n
    using n0 [OF that] c(3,4) colon
    by (simp add: tx_def parse_print_string print_string_start cJSON_New_Item_def cj_types
        NUL_def del: parse_value.simps)
  show ?case
  proof (cases "ces = []")
    case True
    then have "skip more = CHR ''}'' # rest" using assms(3) by (auto simp: more_def jo_def)
    then have "parse_object_items F n tx = POk [norm_json c] rest" if "Suc n0 \<le> n" for n
      using step that by (cases n) auto
    then show ?thesis using True ce all object_items_skip by (metis (no_types, lifting) comp_apply fst_conv list.simps(8) list.simps(9))
  next
    case False
    have "\<forall>(c, e) \<in> set ces. reads F c e \<and> value_start e \<and> (\<exists>x. cj_string c = Some x \<and> no_nul x)"
      using Cons.prems by simp
    from Cons.IH [OF False this] obtain n1 where n1: "\<And>n. n1 \<le> n \<Longrightarrow>
        parse_object_items F n (jo @ tail) = POk (map (norm_json \<circ> fst) ces) rest"
      unfolding jo_def by blast
    have sk: "skip more = CHR '','' # (if fmt then [CHR 0x0A] else []) @ jo @ tail"
      using False by (simp add: more_def NUL_def)
    have "parse_object_items F n ((if fmt then [CHR 0x0A] else []) @ jo @ tail)
        = POk (map (norm_json \<circ> fst) ces) rest" if "n1 \<le> n" for n
      using n1 [OF that] object_items_skip [of F n "(if fmt then [CHR 0x0A] else []) @ jo @ tail"]
        object_items_skip [of F n "jo @ tail"] by (auto split: if_splits)
    then have "parse_object_items F n tx = POk (map (norm_json \<circ> fst) (ce # ces)) rest"
      if "Suc (max n0 n1) \<le> n" for n
      using step sk that ce by (cases n) auto
    then show ?thesis using all object_items_skip by metis
  qed
qed

lemma peek_value_start:
  assumes "value_start e"
  shows "peek (e @ t) \<noteq> CHR '']''" "peek (e @ t) \<noteq> CHR ''}''" "peek (e @ t) \<noteq> NUL"
  using assms by (cases e; auto simp: value_start_def)+

lemma read_array:
  assumes "\<forall>(c, e) \<in> set ces. reads F c e \<and> value_start e \<and> cj_string c = None"
    "cj_child item = []"
  shows "\<exists>n0. \<forall>n \<ge> n0. parse_value F n item (''['' @ join_array fmt (map snd ces) @ '']'' @ rest)
    = POk (set_child (map (norm_json \<circ> fst) ces) (set_type cJsonDap_Array item)) rest"
proof (cases "ces = []")
  case True
  then have "parse_value F n item (''['' @ join_array fmt (map snd ces) @ '']'' @ rest)
    = POk (set_child (map (norm_json \<circ> fst) ces) (set_type cJsonDap_Array item)) rest"
    if "Suc 0 \<le> n" for n
    using that assms(2) by (cases n; cases item) (simp_all add: is_digit_def)
  then show ?thesis by blast
next
  case False
  then obtain n0 where n0: "\<And>n. n0 \<le> n \<Longrightarrow>
      parse_array_items F n (join_array fmt (map snd ces) @ CHR '']'' # rest)
        = POk (map (norm_json \<circ> fst) ces) rest"
    using parse_join_array [OF False assms(1)] by blast
  obtain c e ces' where ces: "ces = (c, e) # ces'" using False by (cases ces) auto
  have e: "value_start e" using assms ces by simp
  have st: "value_start (join_array fmt (map snd ces))"
    using e ces by (cases "map snd ces'") (auto simp: value_start_def)
  have "parse_value F n item (''['' @ join_array fmt (map snd ces) @ '']'' @ rest)
    = POk (set_child (map (norm_json \<circ> fst) ces) (set_type cJsonDap_Array item)) rest"
    if "Suc n0 \<le> n" for n
    using n0 that value_start_skip [OF st] peek_value_start [OF st]
    by (cases n) (simp_all add: is_digit_def)
  then show ?thesis by blast
qed

lemma read_object:
  assumes "\<forall>(c, e) \<in> set ces. reads F c e \<and> value_start e \<and> (\<exists>x. cj_string c = Some x \<and> no_nul x)"
    "cj_child item = []"
  shows "\<exists>n0. \<forall>n \<ge> n0. parse_value F n item (''{'' @ (if fmt then [CHR 0x0A] else [])
      @ join_object fmt d (map (\<lambda>(c, e). (print_string_ptr (cj_string c), e)) ces)
      @ (if fmt then blanks k else []) @ ''}'' @ rest)
    = POk (set_child (map (norm_json \<circ> fst) ces) (set_type cJsonDap_Object item)) rest"
proof -
  define jo where "jo = join_object fmt d (map (\<lambda>(c, e). (print_string_ptr (cj_string c), e)) ces)"
  define tail where "tail = (if fmt then blanks k else []) @ ''}'' @ rest"
  define nl where "nl = (if fmt then [CHR 0x0A] else [])"
  have nl: "skip (nl @ t) = skip t" for t by (simp add: nl_def)
  have tl: "skip tail = CHR ''}'' # rest" by (simp add: tail_def skip_blanks)
  have st: "stops tail"
    by (cases "nat k") (auto simp: tail_def blanks_def stops_def is_digit_def)
  show ?thesis
  proof (cases "ces = []")
    case True
    then have "skip (nl @ jo @ tail) = CHR ''}'' # rest" by (simp add: nl tl jo_def)
    then have "parse_value F n item (''{'' @ nl @ jo @ tail)
      = POk (set_child (map (norm_json \<circ> fst) ces) (set_type cJsonDap_Object item)) rest"
      if "Suc 0 \<le> n" for n
      using that assms(2) True by (cases n; cases item) (simp_all add: is_digit_def)
    then show ?thesis unfolding jo_def tail_def nl_def by blast
  next
    case False
    then obtain n0 where n0: "\<And>n. n0 \<le> n \<Longrightarrow>
        parse_object_items F n (jo @ tail) = POk (map (norm_json \<circ> fst) ces) rest"
      using parse_join_object [OF False assms(1) tl st] unfolding jo_def by blast
    have it: "parse_object_items F n (skip (jo @ tail)) = POk (map (norm_json \<circ> fst) ces) rest"
      if "n0 \<le> n" for n using n0 that by (simp add: object_items_skip)
    obtain c e ces' x where ces: "ces = (c, e) # ces'" "cj_string c = Some x"
      using False assms(1) by (cases ces) auto
    then have "peek (skip (jo @ tail)) = CHR 0x22"
      by (auto simp: jo_def skip_blanks print_string_ptr_def)
    then have "parse_value F n item (''{'' @ nl @ jo @ tail)
      = POk (set_child (map (norm_json \<circ> fst) ces) (set_type cJsonDap_Object item)) rest"
      if "Suc n0 \<le> n" for n
      using it that by (cases n) (simp_all add: is_digit_def nl)
    then show ?thesis unfolding jo_def tail_def nl_def by blast
  qed
qed

lemma read_literal:
  assumes "t = cJsonDap_Null \<or> t = cJsonDap_False \<or> t = cJsonDap_True"
  shows "parse_value F (Suc n) (CJson t0 None 0 z s [])
     ((if t = cJsonDap_Null then ''null'' else if t = cJsonDap_False then ''false'' else ''true'') @ rest)
   = POk (CJson t None (if t = cJsonDap_True then 1 else 0) z s []) rest"
  using assms by (auto simp: cj_types)

lemma read_number:
  assumes "fp_ok F" "int32 i" "stops rest"
  shows "parse_value F (Suc n) (CJson t0 None 0 z s []) (show_int i @ rest)
    = POk (CJson cJsonDap_Number None i (fp_of_int F i) s []) rest"
proof -
  obtain c cs where c: "show_int i = c # cs" "c \<noteq> CHR 0x22" "c = CHR ''-'' \<or> is_digit c"
    using show_int_start [of i] by (cases "show_int i") (auto simp: value_start_def)
  then have "c \<noteq> CHR ''n''" "c \<noteq> CHR ''f''" "c \<noteq> CHR ''t''" by (auto simp: is_digit_def)
  with c parse_show_int [OF assms, of "CJson t0 None 0 z s []"] show ?thesis by (simp add: cj_types)
qed

lemma read_string:
  assumes "no_nul x"
  shows "parse_value F (Suc n) (CJson t0 None 0 z s []) (print_string_ptr (Some x) @ rest)
    = POk (CJson cJsonDap_String (Some x) 0 z s []) rest"
  using parse_print_string [OF assms, of "CJson t0 None 0 z s []" rest]
  by (simp add: print_string_ptr_def)

lemma print_reads:
  assumes "fp_ok F" "json_wf F j" "print_value F j depth fmt = Some out"
  shows "reads F j out"
  using assms(2,3)
proof (induction j arbitrary: depth out)
  case (CJson t vs vi vd s ch)
  let ?d = "depth + 1"
  define ces where "ces = map (\<lambda>c. (c, the (print_value F c ?d fmt))) ch"
  have fst_ces: "map (norm_json \<circ> fst) ces = map norm_json ch" by (simp add: ces_def)
  have ch: "reads F c e \<and> value_start e" if "(c, e) \<in> set ces" for c e
  proof -
    from that have c: "c \<in> set ch" "e = the (print_value F c ?d fmt)" by (auto simp: ces_def)
    then have w: "json_wf F c" using CJson.prems(1) by simp
    then have p: "print_value F c ?d fmt = Some e" using print_value_exists [OF w, of ?d fmt] c(2) by auto
    show ?thesis using CJson.IH [OF c(1) w p] print_value_start [OF assms(1) w p] by simp
  qed
  consider (lit) "t = cJsonDap_Null \<or> t = cJsonDap_False \<or> t = cJsonDap_True"
    | (num) "t = cJsonDap_Number" | (str) "t = cJsonDap_String"
    | (arr) "t = cJsonDap_Array" | (obj) "t = cJsonDap_Object"
    using CJson.prems(1) by (auto simp: plain_fields_def split: if_splits)
  then show ?case
  proof cases
    case lit
    then have out: "out = (if t = cJsonDap_Null then ''null'' else if t = cJsonDap_False then ''false''
        else ''true'')" and n: "norm_json (CJson t vs vi vd s ch) =
          CJson t None (if t = cJsonDap_True then 1 else 0) (fp_of_int F 0) s []"
      using CJson.prems by (auto simp: plain_fields_def cj_types)
    show ?thesis unfolding reads_def out n
      using read_literal [OF lit] by (metis (no_types, lifting) Suc_le_D cJsonDap.sel(5))
  next
    case num
    then have out: "out = show_int vi" and n: "norm_json (CJson t vs vi vd s ch) =
          CJson cJsonDap_Number None vi (fp_of_int F vi) s []" and vi: "int32 vi"
      using CJson.prems print_number_int [OF assms(1)] by (auto simp: plain_fields_def cj_types)
    show ?thesis unfolding reads_def out n
      using read_number [OF assms(1) vi] by (metis (no_types, lifting) Suc_le_D cJsonDap.sel(5))
  next
    case str
    then obtain x where out: "out = print_string_ptr (Some x)" and n: "norm_json (CJson t vs vi vd s ch) =
          CJson cJsonDap_String (Some x) 0 (fp_of_int F 0) s []" and x: "no_nul x"
      using CJson.prems by (auto simp: plain_fields_def cj_types print_string_def)
    show ?thesis unfolding reads_def out n
      using read_string [OF x] by (metis (no_types, lifting) Suc_le_D cJsonDap.sel(5))
  next
    case arr
    then have out: "out = ''['' @ join_array fmt (map snd ces) @ '']''"
      and f: "vs = None" "vi = 0" "vd = fp_of_int F 0" "\<forall>c \<in> set ch. cj_string c = None"
      using CJson.prems by (auto simp: plain_fields_def cj_types print_array_def ces_def comp_def split: if_splits)
    have "\<forall>(c, e) \<in> set ces. reads F c e \<and> value_start e \<and> cj_string c = None"
      using ch f(4) by (auto simp: ces_def)
    from read_array [OF this, of "CJson t0 None 0 (fp_of_int F 0) s []" fmt rest for t0 rest]
    show ?thesis unfolding reads_def out fst_ces using arr f by (auto simp: cj_types)
  next
    case obj
    have zip: "zip (map print_string_ptr (map cj_string ch)) (map (\<lambda>c. the (print_value F c ?d fmt)) ch)
        = map (\<lambda>(c, e). (print_string_ptr (cj_string c), e)) ces"
      by (simp add: ces_def zip_map_map zip_same_conv_map comp_def)
    from obj have out: "out = ''{'' @ (if fmt then [CHR 0x0A] else [])
        @ join_object fmt ?d (map (\<lambda>(c, e). (print_string_ptr (cj_string c), e)) ces)
        @ (if fmt then blanks depth else []) @ ''}''"
      using CJson.prems(2) unfolding zip [symmetric]
      by (auto simp: cj_types print_object_def Let_def comp_def split: if_splits)
    from obj have f: "vs = None" "vi = 0" "vd = fp_of_int F 0"
        "\<forall>c \<in> set ch. \<exists>x. cj_string c = Some x \<and> no_nul x"
      using CJson.prems(1) by (auto simp: plain_fields_def cj_types)
    have "\<forall>(c, e) \<in> set ces. reads F c e \<and> value_start e \<and> (\<exists>x. cj_string c = Some x \<and> no_nul x)"
      using ch f(4) by (auto simp: ces_def)
    from read_object [OF this, of "CJson t0 None 0 (fp_of_int F 0) s []" fmt ?d depth rest for t0 rest]
    show ?thesis unfolding reads_def out fst_ces using obj f by (auto simp: cj_types)
  qed
qed

section \<open>Whole texts\<close>

lemma show_04x_no_nul: "no_nul (show_04x n)"
  by (simp add: show_04x_def hex_digit_props ascii_not_NUL)

lemma print_char_no_nul:
  assumes "c \<noteq> NUL"
  shows "no_nul (print_char c)"
proof (cases rule: print_char_cases [of c])
  case (simple d)
  have "d \<noteq> NUL" using assms simple by (auto simp: simple_escape_def)
  with simple show ?thesis by simp
qed (use assms show_04x_no_nul in simp_all)

lemma print_chars_no_nul: "no_nul s \<Longrightarrow> no_nul (print_chars s)"
  by (induction s) (simp_all add: print_char_no_nul)

lemma print_string_ptr_no_nul: "no_nul (print_string_ptr s)"
  by (auto simp: print_string_ptr_def print_chars_no_nul split: option.splits)

lemma show_int_no_nul: "no_nul (show_int i)"
  using show_nat_ascii [of "nat i"] show_nat_ascii [of "nat (- i)"]
  by (simp add: show_int_def ascii_no_nul)

lemma join_array_no_nul: "\<forall>e \<in> set es. no_nul e \<Longrightarrow> no_nul (join_array fmt es)"
  by (induction fmt es rule: join_array.induct) auto

lemma blanks_no_nul: "no_nul (blanks n)"
  by (simp add: blanks_def no_nul_def)

lemma join_object_no_nul:
  "\<forall>(n, e) \<in> set nes. no_nul n \<and> no_nul e \<Longrightarrow> no_nul (join_object fmt d nes)"
  by (induction fmt d nes rule: join_object.induct) (auto simp: blanks_no_nul)

lemma print_value_no_nul:
  assumes "fp_ok F" "json_wf F j" "print_value F j depth fmt = Some out"
  shows "no_nul out"
  using assms(2,3)
proof (induction j arbitrary: depth out)
  case (CJson t vs vi vd s ch)
  have ch: "no_nul (the (print_value F c (depth + 1) fmt))" if "c \<in> set ch" for c
    using CJson.IH [OF that] CJson.prems(1) that print_value_exists [of F c "depth + 1" fmt] by fastforce
  consider (arr) "t = cJsonDap_Array" | (obj) "t = cJsonDap_Object"
    | (num) "t = cJsonDap_Number"
    | (leaf) "t \<noteq> cJsonDap_Array" "t \<noteq> cJsonDap_Object" "t \<noteq> cJsonDap_Number" by blast
  then show ?case
  proof cases
    case arr
    then show ?thesis
      using CJson.prems(2) ch
      by (auto simp: cj_types print_array_def comp_def intro!: join_array_no_nul split: if_splits)
  next
    case obj
    have "\<forall>(n, e) \<in> set (zip (map print_string_ptr (map cj_string ch))
        (map the (map (\<lambda>c. print_value F c (depth + 1) fmt) ch))). no_nul n \<and> no_nul e"
      using ch by (fastforce simp: print_string_ptr_no_nul dest: set_zip_leftD set_zip_rightD)
    note no = join_object_no_nul [OF this]
    show ?thesis
      using CJson.prems(2) obj no
      by (auto simp: cj_types print_object_def Let_def blanks_no_nul split: if_splits)
  next
    case num
    then show ?thesis
      using CJson.prems print_number_int [OF assms(1)]
      by (auto simp: cj_types plain_fields_def show_int_no_nul)
  next
    case leaf
    then show ?thesis
      using CJson.prems
      by (auto simp: cj_types plain_fields_def print_string_def print_string_ptr_no_nul split: if_splits)
  qed
qed

lemma cJSON_roundtrip_fmt:
  assumes "fp_ok F" "json_wf F j" "cj_string j = None"
  obtains out where "print_value F j 0 fmt = Some out" "no_nul out"
    "cJSON_Parse F out = POk (norm_json j) []"
proof -
  obtain out where out: "print_value F j 0 fmt = Some out" using print_value_exists [OF assms(2)] by blast
  have no: "no_nul out" by (rule print_value_no_nul [OF assms(1,2) out])
  have sk: "skip out = out"
    using value_start_skip [OF print_value_start [OF assms(1,2) out], of "[]"] by simp
  obtain n0 where "\<And>n. n0 \<le> n \<Longrightarrow>
      parse_value F n (CJson 0 None 0 (fp_of_int F 0) (cj_string j) []) (out @ []) = POk (norm_json j) []"
    using readsD [OF print_reads [OF assms(1,2) out] stops_punct(5)] by metis
  then have "parse_value F n0 (cJSON_New_Item F) (skip out) = POk (norm_json j) []"
    using assms(3) sk by (simp add: cJSON_New_Item_def)
  from cJSON_Parse_eq [OF no this] out no that show ?thesis by simp
qed

text \<open>C4: the round trip of the JSON library. Every well-formed tree (C strings, 32-bit
  integers, names exactly on the members of objects) prints, formatted and unformatted, and
  parsing either text gives the tree back and leaves nothing over.\<close>

theorem cJSON_print_parse:
  assumes "fp_ok F" "json_wf F j" "cj_string j = None"
  shows "\<exists>out out'. cJSON_Print F j = Some out \<and> cJSON_Parse F out = POk (norm_json j) []
    \<and> cJSON_PrintUnformatted F j = Some out' \<and> cJSON_Parse F out' = POk (norm_json j) []"
  using cJSON_roundtrip_fmt [OF assms, of True] cJSON_roundtrip_fmt [OF assms, of False]
  unfolding cJSON_Print_def cJSON_PrintUnformatted_def by metis

text \<open>Witness: an object holding a string with a quote and a control character, a negative
  number, \<open>true\<close> and an empty array.\<close>

definition sample_tree :: "int cJsonDap" where
  "sample_tree = CJson 6 None 0 0 None
     [CJson 4 (Some [CHR ''a'', CHR 0x22, CHR 0x01]) 0 0 (Some ''k'') [],
      CJson 3 None (- 42) (- 42) (Some ''n'') [],
      CJson 5 None 0 0 (Some ''l'') [CJson 1 None 0 0 None [], CJson 5 None 0 0 None []]]"

lemma sample_tree_wf: "json_wf fp_int sample_tree" "cj_string sample_tree = None"
  by (simp_all add: sample_tree_def plain_fields_def cj_types fp_int_def int32_def
      INT_MAX_def INT_MIN_def)

theorem cJSON_print_parse_witness:
  "\<exists>out out'. cJSON_Print fp_int sample_tree = Some out
     \<and> cJSON_Parse fp_int out = POk (norm_json sample_tree) []
     \<and> cJSON_PrintUnformatted fp_int sample_tree = Some out'
     \<and> cJSON_Parse fp_int out' = POk (norm_json sample_tree) []"
  by (rule cJSON_print_parse [OF fp_ok_int sample_tree_wf])

end
