(* ===== verification/Dap_Json.thy ===== *)
theory Dap_Json
  imports Dap_CJsonRound
begin

text \<open>
  \<open>JSON.cpp\<close>: the handle \<open>Json\<close> around a cJSON node. A handle is the node it points to, or
  \<open>None\<close> for the null pointer. The operations that add to a container return the receiver's
  node after the call; a member that is filled after it was added (\<open>AddArray\<close>, \<open>AddObject\<close>)
  is added when it is finished, which gives the same tree because the receiver is not
  touched in between. Reference counts are not part of this model.
\<close>

type_synonym 'd Json = "'d cJsonDap option"

section \<open>Reading\<close>

definition Json_IsOK :: "'d Json \<Rightarrow> bool" where
  "Json_IsOK j \<longleftrightarrow> j \<noteq> None"

definition Json_IsArray :: "'d Json \<Rightarrow> bool" where
  "Json_IsArray j \<longleftrightarrow> (case j of None \<Rightarrow> False | Some c \<Rightarrow> cj_type c = cJsonDap_Array)"

definition Json_IsObject :: "'d Json \<Rightarrow> bool" where
  "Json_IsObject j \<longleftrightarrow> (case j of None \<Rightarrow> False | Some c \<Rightarrow> cj_type c = cJsonDap_Object)"

definition Json_GetName :: "'d Json \<Rightarrow> string" where
  "Json_GetName j = (case j of None \<Rightarrow> [] | Some c \<Rightarrow>
     (case cj_string c of None \<Rightarrow> [] | Some s \<Rightarrow> s))"

definition Json_member :: "'d Json \<Rightarrow> string \<Rightarrow> 'd Json" where
  \<comment> \<open>\<open>operator[](const wxString&)\<close>\<close>
  "Json_member j index =
     (case j of None \<Rightarrow> None | Some c \<Rightarrow>
        find (\<lambda>child. cj_string child = Some (c_str index)) (cj_child c))"

definition Json_GetCount :: "'d Json \<Rightarrow> nat" where
  "Json_GetCount j = (case j of None \<Rightarrow> 0 | Some c \<Rightarrow> length (cj_child c))"

definition Json_at :: "'d Json \<Rightarrow> nat \<Rightarrow> 'd Json" where
  \<comment> \<open>\<open>operator[](size_t)\<close>\<close>
  "Json_at j index =
     (if index \<ge> Json_GetCount j then None
      else case j of None \<Rightarrow> None | Some c \<Rightarrow> Some (cj_child c ! index))"

definition Json_GetString :: "string \<Rightarrow> 'd Json \<Rightarrow> string" where
  "Json_GetString dflt j =
     (case j of None \<Rightarrow> dflt | Some c \<Rightarrow>
        if cj_type c \<noteq> cJsonDap_String then dflt
        else (case cj_valuestring c of None \<Rightarrow> [] | Some s \<Rightarrow> s))"

definition Json_GetNumber :: "'d \<Rightarrow> 'd Json \<Rightarrow> 'd" where
  "Json_GetNumber dflt j =
     (case j of None \<Rightarrow> dflt | Some c \<Rightarrow>
        if cj_type c \<noteq> cJsonDap_Number then dflt else cj_valuedouble c)"

definition Json_GetInteger :: "int \<Rightarrow> 'd Json \<Rightarrow> int" where
  "Json_GetInteger dflt j =
     (case j of None \<Rightarrow> dflt | Some c \<Rightarrow>
        if cj_type c \<noteq> cJsonDap_Number then dflt else cj_valueint c)"

definition Json_GetBool :: "bool \<Rightarrow> 'd Json \<Rightarrow> bool" where
  \<comment> \<open>the second comparison of the code is \<open>m_cjson != cJsonDap_False\<close>: it compares the
      pointer, which is not null here, with 0\<close>
  "Json_GetBool dflt j =
     (case j of None \<Rightarrow> dflt | Some c \<Rightarrow>
        let m_cjson_differs_from_0 = True in
        if cj_type c \<noteq> cJsonDap_True \<and> m_cjson_differs_from_0 then dflt
        else cj_type c = cJsonDap_True)"

definition Json_GetStringArray :: "'d Json \<Rightarrow> string list" where
  "Json_GetStringArray j =
     (if Json_IsArray j then map (\<lambda>i. Json_GetString [] (Json_at j i)) [0..<Json_GetCount j] else [])"

definition Json_ToString :: "'d fp \<Rightarrow> bool \<Rightarrow> 'd Json \<Rightarrow> string" where
  \<comment> \<open>\<open>wxString(nullptr)\<close> is the empty string\<close>
  "Json_ToString F pretty j =
     (case j of None \<Rightarrow> [] | Some c \<Rightarrow>
        (case (if pretty then cJSON_Print F c else cJSON_PrintUnformatted F c) of
           None \<Rightarrow> [] | Some s \<Rightarrow> s))"

definition Json_Parse :: "'d fp \<Rightarrow> string \<Rightarrow> 'd Json option" where
  \<comment> \<open>\<open>None\<close>: undefined behaviour of the parser\<close>
  "Json_Parse F source =
     (case cJSON_Parse F source of
        POk c _ \<Rightarrow> Some (Some c) | PFail _ \<Rightarrow> Some None | PUndef \<Rightarrow> None | PFuel \<Rightarrow> None)"

section \<open>Building\<close>

definition Json_CreateArray :: "'d fp \<Rightarrow> 'd Json" where
  "Json_CreateArray F = Some (cJSON_CreateArray F)"

definition Json_CreateObject :: "'d fp \<Rightarrow> 'd Json" where
  "Json_CreateObject F = Some (cJSON_CreateObject F)"

definition Json_AddItem :: "string \<Rightarrow> 'd Json \<Rightarrow> 'd Json \<Rightarrow> 'd Json" where
  "Json_AddItem name item j =
     (case j of None \<Rightarrow> None | Some c \<Rightarrow>
        if cj_type c \<noteq> cJsonDap_Array \<and> cj_type c \<noteq> cJsonDap_Object then Some c
        else if cj_type c = cJsonDap_Array then Some (cJSON_AddItemToArray c item)
        else Some (cJSON_AddItemToObject c name item))"

definition Json_Add_value :: "string \<Rightarrow> 'd cJsonDap \<Rightarrow> 'd Json \<Rightarrow> 'd Json" where
  \<comment> \<open>what the overloads of \<open>Add\<close> share after \<open>CHECK_IS_CONTAINER()\<close>\<close>
  "Json_Add_value name item j =
     (if j = None then None
      else if \<not> Json_IsArray j \<and> \<not> Json_IsObject j then j
      else if Json_IsObject j then map_option (\<lambda>c. cJSON_AddItemToObject c name (Some item)) j
      else map_option (\<lambda>c. cJSON_AddItemToArray c (Some item)) j)"

definition Json_Add_string :: "'d fp \<Rightarrow> string \<Rightarrow> string \<Rightarrow> 'd Json \<Rightarrow> 'd Json" where
  "Json_Add_string F name value = Json_Add_value name (cJSON_CreateString F value)"

definition Json_Add_number :: "'d fp \<Rightarrow> string \<Rightarrow> 'd \<Rightarrow> 'd Json \<Rightarrow> 'd Json" where
  "Json_Add_number F name value = Json_Add_value name (cJSON_CreateNumber F value)"

definition Json_Add_int :: "'d fp \<Rightarrow> string \<Rightarrow> int \<Rightarrow> 'd Json \<Rightarrow> 'd Json" where
  \<comment> \<open>an \<open>int\<close> argument converts to \<open>double\<close>\<close>
  "Json_Add_int F name value = Json_Add_number F name (fp_of_int F value)"

definition Json_Add_bool :: "'d fp \<Rightarrow> string \<Rightarrow> bool \<Rightarrow> 'd Json \<Rightarrow> 'd Json" where
  "Json_Add_bool F name value = Json_Add_value name (cJSON_CreateBool F (if value then 1 else 0))"

definition Json_AddObject :: "string \<Rightarrow> 'd Json \<Rightarrow> 'd Json \<Rightarrow> 'd Json" where
  \<comment> \<open>\<open>AddObject(const char*, const Json&)\<close>: no test of the receiver's type\<close>
  "Json_AddObject name obj j =
     (case j of None \<Rightarrow> None | Some c \<Rightarrow> Some (cJSON_AddItemToObject c name obj))"

definition Json_Add_json :: "string \<Rightarrow> 'd Json \<Rightarrow> 'd Json \<Rightarrow> 'd Json" where
  "Json_Add_json name value j =
     (if j = None then None
      else if \<not> Json_IsArray j \<and> \<not> Json_IsObject j then j
      else if Json_IsObject j then Json_AddObject name value j
      else map_option (\<lambda>c. cJSON_AddItemToArray c value) j)"

definition string_array :: "'d fp \<Rightarrow> string list \<Rightarrow> 'd Json" where
  "string_array F value = fold (Json_Add_string F []) value (Json_CreateArray F)"

definition Json_Add_strings :: "'d fp \<Rightarrow> string \<Rightarrow> string list \<Rightarrow> 'd Json \<Rightarrow> 'd Json" where
  "Json_Add_strings F name value j = Json_AddItem name (string_array F value) j"

definition json_array :: "'d fp \<Rightarrow> 'd Json list \<Rightarrow> 'd Json" where
  \<comment> \<open>the loops \<open>for(const auto& x : xs) arr.Add(x.To());\<close>\<close>
  "json_array F values = fold (Json_Add_json []) values (Json_CreateArray F)"

definition json_elements :: "('d Json \<Rightarrow> 'a) \<Rightarrow> 'd Json \<Rightarrow> 'a list" where
  \<comment> \<open>the loops \<open>for(i = 0; i < arr.GetCount(); ++i) { X x; x.From(arr[i]); xs.push_back(x); }\<close>\<close>
  "json_elements from arr = map (\<lambda>i. from (Json_at arr i)) [0..<Json_GetCount arr]"

section \<open>What an object holds after additions\<close>

definition obj_ok :: "'d fp \<Rightarrow> 'd Json \<Rightarrow> bool" where
  \<comment> \<open>a finished top-level object\<close>
  "obj_ok F j \<longleftrightarrow> Json_IsObject j \<and> json_wf F (the j) \<and> cj_string (the j) = None"

definition val_ok :: "'d fp \<Rightarrow> 'd Json \<Rightarrow> bool" where
  \<comment> \<open>a finished top-level value\<close>
  "val_ok F j \<longleftrightarrow> j \<noteq> None \<and> json_wf F (the j) \<and> cj_string (the j) = None"

definition arr_ok :: "'d fp \<Rightarrow> 'd Json \<Rightarrow> bool" where
  "arr_ok F j \<longleftrightarrow> Json_IsArray j \<and> json_wf F (the j) \<and> cj_string (the j) = None"

lemma obj_val: "obj_ok F j \<Longrightarrow> val_ok F j" "arr_ok F j \<Longrightarrow> val_ok F j"
  by (auto simp: obj_ok_def arr_ok_def val_ok_def Json_IsObject_def Json_IsArray_def
      split: option.splits)

lemma json_wf_set_string: "json_wf F (set_string s c) \<longleftrightarrow> json_wf F c"
  by (cases c) simp

lemma cj_set_simps [simp]:
  "cj_type (set_string s c) = cj_type c" "cj_string (set_string s c) = s"
  "cj_child (set_string s c) = cj_child c" "cj_valueint (set_string s c) = cj_valueint c"
  "cj_valuestring (set_string s c) = cj_valuestring c"
  "cj_valuedouble (set_string s c) = cj_valuedouble c"
  "set_string s (set_string s' c) = set_string s c"
  "cj_type (set_child ch c) = cj_type c" "cj_string (set_child ch c) = cj_string c"
  "cj_child (set_child ch c) = ch"
  by (cases c; simp)+

lemma json_wf_add_obj:
  "json_wf F c \<Longrightarrow> cj_type c = cJsonDap_Object \<Longrightarrow> json_wf F it \<Longrightarrow> no_nul n \<Longrightarrow>
    json_wf F (set_child (cj_child c @ [set_string (Some n) it]) c)"
  by (cases c) (auto simp: plain_fields_def cj_types json_wf_set_string)

lemma json_wf_add_arr:
  "json_wf F c \<Longrightarrow> cj_type c = cJsonDap_Array \<Longrightarrow> json_wf F it \<Longrightarrow> cj_string it = None \<Longrightarrow>
    json_wf F (set_child (cj_child c @ [it]) c)"
  by (cases c) (auto simp: plain_fields_def cj_types)

lemma create_wf [simp]:
  "json_wf F (cJSON_CreateString F s)" "cj_string (cJSON_CreateString F s) = None"
  "json_wf F (cJSON_CreateBool F b)" "cj_string (cJSON_CreateBool F b) = None"
  "json_wf F (cJSON_CreateObject F)" "cj_string (cJSON_CreateObject F) = None"
  "json_wf F (cJSON_CreateArray F)" "cj_string (cJSON_CreateArray F) = None"
  "cj_string (cJSON_CreateNumber F d) = None"
  by (auto simp: cJSON_CreateString_def cJSON_CreateBool_def cJSON_CreateObject_def
      cJSON_CreateArray_def cJSON_CreateNumber_def cJSON_New_Item_def plain_fields_def cj_types)

lemma create_number_wf:
  "fp_ok F \<Longrightarrow> int32 i \<Longrightarrow> json_wf F (cJSON_CreateNumber F (fp_of_int F i))"
  by (simp add: cJSON_CreateNumber_def cJSON_New_Item_def plain_fields_def cj_types fp_to_int_of_int)

lemma is_object_add [json_simps]:
  "Json_IsObject j \<Longrightarrow> Json_IsObject (Json_Add_value n it j)"
  "Json_IsObject j \<Longrightarrow> Json_IsObject (Json_Add_string F n s j)"
  "Json_IsObject j \<Longrightarrow> Json_IsObject (Json_Add_int F n i j)"
  "Json_IsObject j \<Longrightarrow> Json_IsObject (Json_Add_bool F n b j)"
  "Json_IsObject j \<Longrightarrow> Json_IsObject (Json_AddItem n v j)"
  "Json_IsObject j \<Longrightarrow> Json_IsObject (Json_AddObject n v j)"
  "Json_IsObject j \<Longrightarrow> Json_IsObject (Json_Add_json n v j)"
  "Json_IsObject j \<Longrightarrow> Json_IsObject (Json_Add_strings F n ss j)"
  "Json_IsObject (Json_CreateObject F)"
  by (auto simp: Json_IsObject_def Json_Add_value_def Json_Add_string_def Json_Add_int_def
      Json_Add_number_def Json_Add_bool_def Json_AddItem_def Json_AddObject_def Json_Add_json_def
      Json_Add_strings_def Json_CreateObject_def cJSON_CreateObject_def cJSON_New_Item_def
      cJSON_AddItemToObject_def cJSON_AddItemToArray_def cj_types
      split: option.splits)

text \<open>Every addition to an object appends one named member.\<close>

definition named :: "string option \<Rightarrow> 'd Json \<Rightarrow> 'd Json" where
  \<comment> \<open>the same value under another name\<close>
  "named s j = map_option (set_string s) j"

definition with_member :: "string \<Rightarrow> 'd Json \<Rightarrow> 'd Json \<Rightarrow> 'd Json" where
  "with_member n v j =
     (case v of None \<Rightarrow> j
      | Some it \<Rightarrow> map_option (\<lambda>c. set_child (cj_child c @ [set_string (Some n) it]) c) j)"

definition obj_member :: "'d Json \<Rightarrow> string \<Rightarrow> 'd Json" where
  \<comment> \<open>the member of that exact name\<close>
  "obj_member j n =
     (case j of None \<Rightarrow> None | Some c \<Rightarrow> find (\<lambda>child. cj_string child = Some n) (cj_child c))"

lemma Json_member_obj [json_simps]: "Json_member j m = obj_member j (c_str m)"
  by (simp add: Json_member_def obj_member_def)

lemma set_child_id [simp]: "set_child (cj_child c) c = c"
  by (cases c) simp

lemma add_as_member:
  assumes "Json_IsObject j"
  shows "Json_Add_value n it j = with_member (c_str n) (Some it) j"
    "Json_AddItem n v j = with_member (c_str n) v j"
    "Json_AddObject n v j = with_member (c_str n) v j"
    "Json_Add_json n v j = with_member (c_str n) v j"
  using assms
  by (auto simp: Json_IsObject_def Json_Add_value_def Json_AddItem_def Json_AddObject_def
      Json_Add_json_def with_member_def cJSON_AddItemToObject_def cJSON_AddItemToArray_def
      Json_IsArray_def cj_types split: option.splits)

lemma add_kinds:
  assumes "Json_IsObject j"
  shows "Json_Add_string F n s j = with_member (c_str n) (Some (cJSON_CreateString F s)) j"
    "Json_Add_int F n i j = with_member (c_str n) (Some (cJSON_CreateNumber F (fp_of_int F i))) j"
    "Json_Add_bool F n b j = with_member (c_str n) (Some (cJSON_CreateBool F (of_bool b))) j"
    "Json_Add_strings F n ss j = with_member (c_str n) (string_array F ss) j"
  using add_as_member [OF assms]
  by (simp_all add: Json_Add_string_def Json_Add_int_def Json_Add_number_def Json_Add_bool_def
      Json_Add_strings_def)

lemma is_object_member: "Json_IsObject (with_member n v j) \<longleftrightarrow> Json_IsObject j"
  by (auto simp: with_member_def Json_IsObject_def split: option.splits)

lemma member_with_member:
  "Json_IsObject j \<Longrightarrow>
    obj_member (with_member n v j) m =
      (case obj_member j m of Some c \<Rightarrow> Some c
       | None \<Rightarrow> if m = n then named (Some n) v else None)"
  by (auto simp: obj_member_def with_member_def Json_IsObject_def find_append named_def
      split: option.splits)

lemma member_create [json_simps]: "obj_member (Json_CreateObject F) m = None"
  by (simp add: obj_member_def Json_CreateObject_def cJSON_CreateObject_def cJSON_New_Item_def)

lemma obj_ok_create [wf_simps]: "obj_ok F (Json_CreateObject F)"
  by (simp add: obj_ok_def json_simps) (simp add: Json_CreateObject_def)

lemma obj_ok_member:
  "obj_ok F j \<Longrightarrow> (\<And>it. v = Some it \<Longrightarrow> json_wf F it) \<Longrightarrow> obj_ok F (with_member (c_str n) v j)"
  by (auto simp: obj_ok_def is_object_member)
    (auto simp: with_member_def Json_IsObject_def json_wf_add_obj split: option.splits)

lemmas json_build = add_kinds add_as_member is_object_member

lemma find_arr: "set_child (cj_child c @ [it]) c = set_child ch c \<longleftrightarrow> ch = cj_child c @ [it]"
  by (cases c) auto

lemma set_child_set_child [simp]: "set_child a (set_child b c) = set_child a c"
  by (cases c) simp

text \<open>An array that is filled one element at a time holds the elements in order.\<close>

lemma fold_add_value_array:
  "cj_type c = cJsonDap_Array \<Longrightarrow>
    fold (\<lambda>x. Json_Add_value n (g x)) xs (Some c) = Some (set_child (cj_child c @ map g xs) c)"
proof (induction xs arbitrary: c)
  case Nil
  then show ?case by simp
next
  case (Cons x xs)
  have "Json_Add_value n (g x) (Some c) = Some (set_child (cj_child c @ [g x]) c)"
    using Cons.prems
    by (simp add: Json_Add_value_def Json_IsArray_def Json_IsObject_def cJSON_AddItemToArray_def cj_types)
  with Cons show ?case by simp
qed

lemma fold_add_json_array:
  "cj_type c = cJsonDap_Array \<Longrightarrow>
    fold (\<lambda>x. Json_Add_json n (Some (g x))) xs (Some c) = Some (set_child (cj_child c @ map g xs) c)"
proof (induction xs arbitrary: c)
  case Nil
  then show ?case by simp
next
  case (Cons x xs)
  have "Json_Add_json n (Some (g x)) (Some c) = Some (set_child (cj_child c @ [g x]) c)"
    using Cons.prems
    by (simp add: Json_Add_json_def Json_IsArray_def Json_IsObject_def cJSON_AddItemToArray_def cj_types)
  with Cons show ?case by simp
qed

definition array_node :: "'d fp \<Rightarrow> 'd cJsonDap list \<Rightarrow> 'd cJsonDap" where
  "array_node F cs = set_child cs (cJSON_CreateArray F)"

lemma create_array_type [simp]: "cj_type (cJSON_CreateArray F) = cJsonDap_Array"
  "cj_child (cJSON_CreateArray F) = []"
  by (simp_all add: cJSON_CreateArray_def cJSON_New_Item_def)

lemma string_array_node: "string_array F ss = Some (array_node F (map (cJSON_CreateString F) ss))"
  unfolding string_array_def Json_CreateArray_def Json_Add_string_def array_node_def
  by (simp add: fold_add_value_array)

lemma array_node_wf:
  "\<forall>c \<in> set cs. json_wf F c \<and> cj_string c = None \<Longrightarrow> json_wf F (array_node F cs)"
  by (auto simp: array_node_def cJSON_CreateArray_def cJSON_New_Item_def plain_fields_def cj_types)

lemma strings_node_wf: "json_wf F (array_node F (map (cJSON_CreateString F) ss))"
  by (rule array_node_wf) auto

section \<open>Reading what was added\<close>

lemma named_simps [json_simps]:
  "obj_member (named s j) m = obj_member j m"
  "Json_IsObject (named s j) = Json_IsObject j" "Json_IsArray (named s j) = Json_IsArray j"
  "Json_IsOK (named s j) = Json_IsOK j"
  "Json_GetCount (named s j) = Json_GetCount j" "Json_at (named s j) i = Json_at j i"
  "Json_GetString d (named s j) = Json_GetString d j"
  "Json_GetInteger k (named s j) = Json_GetInteger k j"
  "Json_GetBool b (named s j) = Json_GetBool b j"
  "Json_GetNumber x (named s j) = Json_GetNumber x j"
  by (auto simp: named_def obj_member_def Json_IsObject_def Json_IsArray_def Json_IsOK_def
      Json_GetCount_def Json_at_def Json_GetString_def Json_GetInteger_def Json_GetBool_def
      Json_GetNumber_def split: option.splits)

lemma named_named [json_simps]: "named s (named s' j) = named s j"
  by (cases j) (simp_all add: named_def)

lemma named_strings [json_simps]: "Json_GetStringArray (named s j) = Json_GetStringArray j"
  by (simp add: Json_GetStringArray_def json_simps)

lemma read_string_node [json_simps]:
  "Json_GetString d (Some (cJSON_CreateString F s)) = c_str s"
  "Json_IsOK (Some c)"
  by (simp_all add: Json_GetString_def cJSON_CreateString_def cJSON_New_Item_def Json_IsOK_def)

lemma read_number_node [json_simps]:
  "Json_GetInteger d (Some (cJSON_CreateNumber F x)) = fp_to_int F x"
  "Json_GetNumber e (Some (cJSON_CreateNumber F x)) = x"
  by (simp_all add: Json_GetInteger_def Json_GetNumber_def cJSON_CreateNumber_def cJSON_New_Item_def)

lemma read_bool_node [json_simps]:
  "Json_GetBool d (Some (cJSON_CreateBool F (of_bool b))) = (b \<or> d)"
  by (simp add: Json_GetBool_def cJSON_CreateBool_def cJSON_New_Item_def cj_types)

lemma read_other_type [json_simps]:
  "Json_GetNumber e (Some (cJSON_CreateString F s)) = e"
  "Json_GetNumber e (Some (cJSON_CreateBool F b)) = e"
  "Json_IsObject j \<Longrightarrow> Json_GetInteger d j = d"
  by (auto simp: Json_GetNumber_def Json_GetInteger_def Json_IsObject_def cJSON_CreateString_def
      cJSON_CreateBool_def cJSON_New_Item_def cj_types split: option.splits)

lemma read_bool_literal [json_simps]:
  "Json_GetBool d (Some (cJSON_CreateBool F 1)) = True"
  "Json_GetBool d (Some (cJSON_CreateBool F 0)) = d"
  by (simp_all add: Json_GetBool_def cJSON_CreateBool_def cJSON_New_Item_def cj_types)

lemma read_array_node [json_simps]:
  "Json_IsArray (Some (array_node F cs))"
  "Json_GetCount (Some (array_node F cs)) = length cs"
  "i < length cs \<Longrightarrow> Json_at (Some (array_node F cs)) i = Some (cs ! i)"
  by (simp_all add: Json_IsArray_def Json_GetCount_def Json_at_def array_node_def)

lemma map_at_upt: "map (\<lambda>i. f (xs ! i)) [0..<length xs] = map f xs"
proof -
  have "map (\<lambda>i. f (xs ! i)) [0..<length xs] = map f (map (\<lambda>i. xs ! i) [0..<length xs])"
    by simp
  then show ?thesis by (simp only: map_nth)
qed

lemma read_strings [json_simps]:
  "Json_GetStringArray (string_array F ss) = map c_str ss"
proof -
  let ?j = "Some (array_node F (map (cJSON_CreateString F) ss))"
  have "map (\<lambda>i. Json_GetString [] (Json_at ?j i)) [0..<length ss]
      = map (\<lambda>i. c_str (ss ! i)) [0..<length ss]"
    by (rule map_cong) (simp_all add: json_simps)
  then show ?thesis
    by (simp add: Json_GetStringArray_def json_simps map_at_upt string_array_node)
qed

lemma json_array_node:
  "\<forall>v \<in> set vs. v \<noteq> None \<Longrightarrow> json_array F vs = Some (array_node F (map the vs))"
proof -
  assume "\<forall>v \<in> set vs. v \<noteq> None"
  then have "fold (Json_Add_json []) vs c = fold (\<lambda>v. Json_Add_json [] (Some (the v))) vs c" for c
    by (intro fold_cong) auto
  then show ?thesis
    by (simp add: json_array_def Json_CreateArray_def fold_add_json_array array_node_def)
qed

lemma read_absent [json_simps]:
  "Json_GetString d None = d" "Json_GetInteger i None = i" "Json_GetBool b None = b"
  "Json_GetNumber x None = x" "Json_GetStringArray None = []" "Json_GetCount None = 0"
  "obj_member None m = None" "\<not> Json_IsArray None" "\<not> Json_IsObject None"
  "\<not> Json_IsOK None"
  by (simp_all add: Json_GetString_def Json_GetInteger_def Json_GetBool_def Json_GetNumber_def
      Json_GetStringArray_def Json_GetCount_def obj_member_def Json_IsArray_def Json_IsObject_def
      Json_IsOK_def)

section \<open>What the parser normalises is not observable\<close>

definition norm_j :: "'d Json \<Rightarrow> 'd Json" where
  "norm_j j = map_option norm_json j"

lemma norm_json_sel [simp]:
  "cj_type (norm_json c) = cj_type c" "cj_string (norm_json c) = cj_string c"
  "cj_valuestring (norm_json c) = cj_valuestring c"
  "cj_valuedouble (norm_json c) = cj_valuedouble c"
  "cj_child (norm_json c) = map norm_json (cj_child c)"
  by (cases c; simp)+

lemma norm_json_valueint: "cj_type c = cJsonDap_Number \<Longrightarrow> cj_valueint (norm_json c) = cj_valueint c"
  by (cases c) (simp add: cj_types)

lemma find_map_norm: "find P (map f xs) = map_option f (find (P \<circ> f) xs)"
  by (induction xs) auto

lemma norm_member [json_simps]: "obj_member (norm_j j) m = norm_j (obj_member j m)"
  by (cases j) (simp_all add: obj_member_def norm_j_def find_map_norm comp_def)

lemma norm_at [json_simps]: "Json_at (norm_j j) i = norm_j (Json_at j i)"
  by (cases j) (simp_all add: Json_at_def norm_j_def Json_GetCount_def)

lemma norm_read [json_simps]:
  "Json_GetString s (norm_j j) = Json_GetString s j"
  "Json_GetInteger i (norm_j j) = Json_GetInteger i j"
  "Json_GetBool b (norm_j j) = Json_GetBool b j"
  "Json_GetNumber x (norm_j j) = Json_GetNumber x j"
  "Json_GetCount (norm_j j) = Json_GetCount j"
  "Json_IsArray (norm_j j) = Json_IsArray j"
  "Json_IsObject (norm_j j) = Json_IsObject j"
  by (auto simp: Json_GetString_def Json_GetInteger_def Json_GetBool_def Json_GetNumber_def
      Json_GetCount_def Json_IsArray_def Json_IsObject_def norm_j_def norm_json_valueint
      split: option.splits)

lemma norm_named [json_simps]:
  "norm_j (named s j) = named s (norm_j j)" "Json_IsOK (norm_j j) = Json_IsOK j"
  "norm_j None = None"
proof -
  have "norm_json (set_string s c) = set_string s (norm_json c)" for c :: "'a cJsonDap"
    by (cases c) simp
  then show "norm_j (named s j) = named s (norm_j j)"
    by (cases j) (simp_all add: norm_j_def named_def)
qed (simp_all add: norm_j_def Json_IsOK_def)

lemma norm_read_strings [json_simps]: "Json_GetStringArray (norm_j j) = Json_GetStringArray j"
  by (simp add: Json_GetStringArray_def json_simps)

lemma print_value_norm: "print_value F (norm_json c) d fmt = print_value F c d fmt"
proof (induction c arbitrary: d)
  case (CJson t vs vi vd s ch)
  have ch: "map ((\<lambda>c. print_value F c (d + 1) fmt) \<circ> norm_json) ch
      = map (\<lambda>c. print_value F c (d + 1) fmt) ch"
    using CJson.IH by simp
  have st: "map (cj_string \<circ> norm_json) ch = map cj_string ch" by simp
  show ?case
    by (simp add: Let_def ch st print_number_def print_string_def cj_types)
qed

text \<open>Finished objects survive the wire: printing and parsing gives the same object, up to
  the normalisation that no reader sees.\<close>

lemma wire_roundtrip:
  assumes "fp_ok F" "val_ok F j"
  shows "Json_Parse F (Json_ToString F pretty j) = Some (norm_j j)"
proof -
  from assms(2) obtain c where c: "j = Some c" "json_wf F c" "cj_string c = None"
    by (auto simp: val_ok_def)
  obtain out where "print_value F c 0 pretty = Some out" "cJSON_Parse F out = POk (norm_json c) []"
    using cJSON_roundtrip_fmt [OF assms(1) c(2,3)] by blast
  then show ?thesis
    by (cases pretty)
      (simp_all add: Json_Parse_def Json_ToString_def c(1) cJSON_Print_def cJSON_PrintUnformatted_def
        norm_j_def)
qed

text \<open>\<open>Json::GetBool\<close> of a member that was added as \<open>false\<close> returns its default, because the
  code compares the node pointer, not the node's type, with \<open>cJsonDap_False\<close>; with the
  default \<open>true\<close> a stored \<open>false\<close> reads as \<open>true\<close>.\<close>

lemma GetBool_of_false:
  "Json_GetBool dflt (Json_member (Json_Add_bool F ''b'' b (Json_CreateObject F)) ''b'') \<longleftrightarrow> b \<or> dflt"
  by (simp add: json_build is_object_add json_simps member_with_member c_str_Nil c_str_Cons)

section \<open>Serialisable classes\<close>

text \<open>
  The contract that the structs of \<open>dap.hpp\<close> share through \<open>Any\<close>: \<open>To\<close> makes a JSON object,
  and \<open>From\<close> on a fresh object reads the same value back, under whatever name the object has
  in its parent and after the parser's normalisation. \<open>ok\<close> are the field values for which
  that holds: C strings, 32-bit integers, defaults in the fields that are not sent.
\<close>

locale serialisable =
  fixes To :: "'d fp \<Rightarrow> 'a \<Rightarrow> 'd Json"
    and From :: "'d fp \<Rightarrow> 'd Json \<Rightarrow> 'a \<Rightarrow> 'a"
    and ok :: "'a \<Rightarrow> bool"
    and new :: 'a
  assumes To_ok: "fp_ok F \<Longrightarrow> ok x \<Longrightarrow> obj_ok F (To F x)"
    and From_To: "fp_ok F \<Longrightarrow> ok x \<Longrightarrow> From F (named s (norm_j (To F x))) new = x"
begin

lemma To_some: "fp_ok F \<Longrightarrow> ok x \<Longrightarrow> To F x \<noteq> None"
  using To_ok obj_val(1) by (fastforce simp: val_ok_def)

lemma To_wf: "fp_ok F \<Longrightarrow> ok x \<Longrightarrow> To F x = Some c \<Longrightarrow> json_wf F c"
  using To_ok by (fastforce simp: obj_ok_def)

text \<open>A message survives being printed, sent and parsed.\<close>

lemma wire:
  assumes "fp_ok F" "ok x"
  shows "\<exists>j. Json_Parse F (Json_ToString F pretty (To F x)) = Some j \<and> From F j new = x"
proof -
  have v: "val_ok F (To F x)" using To_ok [OF assms] by (rule obj_val(1))
  then obtain c where c: "To F x = Some c" "cj_string c = None" by (auto simp: val_ok_def)
  then have "named None (norm_j (To F x)) = norm_j (To F x)"
    by (cases c) (simp add: named_def norm_j_def)
  then show ?thesis
    using wire_roundtrip [OF assms(1) v] From_To [OF assms, of None] by auto
qed

text \<open>So does an array of them, in order.\<close>

lemma array_wf:
  assumes "fp_ok F" "list_all ok xs" "json_array F (map (To F) xs) = Some c"
  shows "json_wf F c"
proof -
  have "\<forall>v \<in> set (map (To F) xs). v \<noteq> None"
    using To_some [OF assms(1)] assms(2) by (auto simp: list_all_iff)
  then have "c = array_node F (map the (map (To F) xs))"
    using assms(3) by (simp add: json_array_node)
  moreover have "json_wf F (the (To F x)) \<and> cj_string (the (To F x)) = None" if "x \<in> set xs" for x
    using To_ok [OF assms(1)] assms(2) that by (auto simp: list_all_iff obj_ok_def)
  ultimately show ?thesis by (auto intro!: array_node_wf)
qed

lemma elements:
  assumes "fp_ok F" "list_all ok xs"
  shows "json_elements (\<lambda>j. From F j new) (norm_j (json_array F (map (To F) xs))) = xs"
proof -
  have some: "\<forall>v \<in> set (map (To F) xs). v \<noteq> None"
    using To_some [OF assms(1)] assms(2) by (auto simp: list_all_iff)
  let ?cs = "map the (map (To F) xs)"
  have el: "From F (norm_j (Json_at (Some (array_node F ?cs)) i)) new = xs ! i" if "i < length xs" for i
  proof -
    have x: "ok (xs ! i)" using assms(2) that by (simp add: list_all_length)
    obtain c where c: "To F (xs ! i) = Some c" "cj_string c = None"
      using To_ok [OF assms(1) x] by (auto simp: obj_ok_def Json_IsObject_def split: option.splits)
    then have "named None (norm_j (To F (xs ! i))) = norm_j (To F (xs ! i))"
      by (cases c) (simp add: named_def norm_j_def)
    with From_To [OF assms(1) x, of None] c show ?thesis using that by (simp add: json_simps)
  qed
  have "map (\<lambda>i. From F (norm_j (Json_at (Some (array_node F ?cs)) i)) new) [0..<length xs]
      = map (\<lambda>i. xs ! i) [0..<length xs]"
    using el by (intro map_cong) auto
  then show ?thesis
    by (simp add: json_elements_def json_array_node [OF some] json_simps map_nth)
qed

end

lemma elements_named [json_simps]: "json_elements f (named s j) = json_elements f j"
  by (simp add: json_elements_def json_simps)

text \<open>The rules that carry the proofs of the message classes.\<close>

lemma is_object_create [json_simps]: "Json_IsObject (Json_CreateObject F)"
  by (rule is_object_add)

lemmas msg_build = add_kinds add_as_member is_object_member is_object_create

lemma msg_wf_strings: "string_array F ss = Some it \<Longrightarrow> json_wf F it"
  by (auto simp: string_array_node strings_node_wf)

lemma case_option_id: "(case v of None \<Rightarrow> None | Some x \<Rightarrow> Some x) = v"
  by (cases v) auto

lemma obj_ok_wf: "j = Some it \<Longrightarrow> obj_ok F j \<Longrightarrow> json_wf F it"
  by (auto simp: obj_ok_def)

lemma obj_ok_is_object: "obj_ok F j \<Longrightarrow> Json_IsObject j"
  by (simp add: obj_ok_def)

lemmas msg_wf = obj_ok_member obj_ok_create
lemmas msg_wf_leaf = msg_wf_strings create_number_wf obj_ok_wf

lemma map_c_str: "list_all no_nul ss \<Longrightarrow> map c_str ss = ss"
  by (induction ss) (auto simp: c_str_id)

lemmas msg_read = json_simps member_with_member case_option_id fp_to_int_of_int c_str_id map_c_str
  c_str_Nil c_str_Cons

end
