(* ===== verification/Dap_MsgBase.thy ===== *)
theory Dap_MsgBase
  imports Dap_Json
begin

text \<open>
  The headers of the messages and the data structs of \<open>dap.hpp\<close> and \<open>dap.cpp\<close> that messages
  carry. A struct is a record, inheritance is record extension, \<open>X_new\<close> is the object its
  constructor makes, \<open>X_To\<close> and \<open>X_From\<close> are the methods; \<open>From\<close> takes the object it is called
  on. Each class whose \<open>From\<close> reads what its \<open>To\<close> writes is an instance of \<open>serialisable\<close>.
\<close>

section \<open>Headers\<close>

record ProtocolMessage =
  pm_seq :: int
  pm_type :: string

definition ProtocolMessage_new :: "ProtocolMessage" where
  "ProtocolMessage_new = \<lparr> pm_seq = - 1, pm_type = [] \<rparr>"

definition ProtocolMessage_To :: "'d fp \<Rightarrow> 'a ProtocolMessage_scheme \<Rightarrow> 'd Json" where
  "ProtocolMessage_To F x =
     (let json = Json_CreateObject F;
          json = Json_Add_int F ''seq'' (pm_seq x) json;
          json = Json_Add_string F ''type'' (pm_type x) json
      in json)"

definition ProtocolMessage_From :: "'d fp \<Rightarrow> 'd Json \<Rightarrow> 'a ProtocolMessage_scheme \<Rightarrow> 'a ProtocolMessage_scheme" where
  "ProtocolMessage_From F json x =
     x\<lparr> pm_seq := fp_to_int F (Json_GetNumber (fp_of_int F (- 1)) (Json_member json ''seq'')),
       pm_type := Json_GetString [] (Json_member json ''type'') \<rparr>"

definition ProtocolMessage_ok :: "'a ProtocolMessage_scheme \<Rightarrow> bool" where
  "ProtocolMessage_ok x \<longleftrightarrow> int32 (pm_seq x) \<and> no_nul (pm_type x)"

record Request = ProtocolMessage +
  rq_command :: string

definition Request_To :: "'d fp \<Rightarrow> 'a Request_scheme \<Rightarrow> 'd Json" where
  "Request_To F x =
     (let json = ProtocolMessage_To F x;
          json = Json_Add_string F ''command'' (rq_command x) json
      in json)"

definition Request_From :: "'d fp \<Rightarrow> 'd Json \<Rightarrow> 'a Request_scheme \<Rightarrow> 'a Request_scheme" where
  "Request_From F json x =
     (ProtocolMessage_From F json x)\<lparr>
       rq_command := Json_GetString [] (Json_member json ''command'') \<rparr>"

definition Request_ok :: "'a Request_scheme \<Rightarrow> bool" where
  "Request_ok x \<longleftrightarrow> ProtocolMessage_ok x \<and> no_nul (rq_command x)"

record Event = ProtocolMessage +
  ev_event :: string

definition Event_To :: "'d fp \<Rightarrow> 'a Event_scheme \<Rightarrow> 'd Json" where
  "Event_To F x =
     (let json = ProtocolMessage_To F x;
          json = Json_Add_string F ''event'' (ev_event x) json
      in json)"

definition Event_From :: "'d fp \<Rightarrow> 'd Json \<Rightarrow> 'a Event_scheme \<Rightarrow> 'a Event_scheme" where
  "Event_From F json x =
     (ProtocolMessage_From F json x)\<lparr>
       ev_event := Json_GetString [] (Json_member json ''event'') \<rparr>"

definition Event_ok :: "'a Event_scheme \<Rightarrow> bool" where
  "Event_ok x \<longleftrightarrow> ProtocolMessage_ok x \<and> no_nul (ev_event x)"

record Response = ProtocolMessage +
  rs_request_seq :: int
  rs_success :: bool
  rs_command :: string
  rs_message :: string

definition Response_To :: "'d fp \<Rightarrow> 'a Response_scheme \<Rightarrow> 'd Json" where
  "Response_To F x =
     (let json = ProtocolMessage_To F x;
          json = Json_Add_int F ''request_seq'' (rs_request_seq x) json;
          json = Json_Add_bool F ''success'' (rs_success x) json;
          json = Json_Add_string F ''message'' (rs_message x) json;
          json = Json_Add_string F ''command'' (rs_command x) json
      in json)"

definition Response_From :: "'d fp \<Rightarrow> 'd Json \<Rightarrow> 'a Response_scheme \<Rightarrow> 'a Response_scheme" where
  "Response_From F json x =
     (ProtocolMessage_From F json x)\<lparr>
       rs_request_seq := Json_GetInteger (- 1) (Json_member json ''request_seq''),
       rs_success := Json_GetBool False (Json_member json ''success''),
       rs_message := Json_GetString [] (Json_member json ''message''),
       rs_command := Json_GetString [] (Json_member json ''command'') \<rparr>"

definition Response_ok :: "'a Response_scheme \<Rightarrow> bool" where
  "Response_ok x \<longleftrightarrow> ProtocolMessage_ok x \<and> int32 (rs_request_seq x) \<and> no_nul (rs_command x)
     \<and> no_nul (rs_message x)"

section \<open>Data\<close>

record Source =
  src_name :: string
  src_path :: string
  src_sourceReference :: int

definition Source_new :: "Source" where
  "Source_new = \<lparr> src_name = [], src_path = [], src_sourceReference = 0 \<rparr>"

definition Source_To :: "'d fp \<Rightarrow> Source \<Rightarrow> 'd Json" where
  "Source_To F x =
     (let json = Json_CreateObject F;
          json = Json_Add_string F ''name'' (src_name x) json;
          json = (if src_path x \<noteq> [] then Json_Add_string F ''path'' (src_path x) json else json);
          json = (if src_sourceReference x > 0 then Json_Add_int F ''sourceReference'' (src_sourceReference x) json else json)
      in json)"

definition Source_From :: "'d fp \<Rightarrow> 'd Json \<Rightarrow> Source \<Rightarrow> Source" where
  "Source_From F json x =
     x\<lparr> src_name := Json_GetString [] (Json_member json ''name''),
       src_path := Json_GetString [] (Json_member json ''path''),
       src_sourceReference := fp_to_int F (Json_GetNumber (fp_of_int F 0) (Json_member json ''sourceReference'')) \<rparr>"

definition Source_ok :: "Source \<Rightarrow> bool" where
  "Source_ok x \<longleftrightarrow> no_nul (src_name x) \<and> no_nul (src_path x) \<and> int32 (src_sourceReference x) \<and> 0 \<le> src_sourceReference x"

lemma Source_To_ok: "fp_ok F \<Longrightarrow> Source_ok x \<Longrightarrow> obj_ok F (Source_To F x)"
  by (auto simp: Source_To_def
        Source_ok_def Let_def msg_build
      intro!: msg_wf intro: msg_wf_leaf)

lemma Source_From_To:
  "fp_ok F \<Longrightarrow> Source_ok x \<Longrightarrow> Source_From F (named s (norm_j (Source_To F x))) Source_new = x"
  by (cases x) (simp add: Source_To_def
      Source_From_def
      Source_ok_def Source_new_def Let_def msg_build msg_read)

interpretation ser_Source: serialisable Source_To Source_From Source_ok Source_new
  by unfold_locales (rule Source_To_ok Source_From_To; assumption)+

record StackFrame =
  sf_id :: int
  sf_name :: string
  sf_source :: Source
  sf_line :: int
  sf_instructionPointerReference :: string

definition StackFrame_new :: "StackFrame" where
  "StackFrame_new = \<lparr> sf_id = - 1, sf_name = [], sf_source = Source_new,
     sf_line = 0, sf_instructionPointerReference = [] \<rparr>"

definition StackFrame_To :: "'d fp \<Rightarrow> StackFrame \<Rightarrow> 'd Json" where
  "StackFrame_To F x =
     (let json = Json_CreateObject F;
          json = Json_Add_string F ''name'' (sf_name x) json;
          json = Json_Add_int F ''id'' (sf_id x) json;
          json = Json_Add_int F ''line'' (sf_line x) json;
          json = Json_Add_string F ''instructionPointerReference'' (sf_instructionPointerReference x) json;
          json = Json_AddObject ''source'' (Source_To F (sf_source x)) json
      in json)"

definition StackFrame_From :: "'d fp \<Rightarrow> 'd Json \<Rightarrow> StackFrame \<Rightarrow> StackFrame" where
  "StackFrame_From F json x =
     x\<lparr> sf_name := Json_GetString [] (Json_member json ''name''),
       sf_id := Json_GetInteger (- 1) (Json_member json ''id''),
       sf_line := Json_GetInteger (- 1) (Json_member json ''line''),
       sf_instructionPointerReference := Json_GetString [] (Json_member json ''instructionPointerReference''),
       sf_source := Source_From F (Json_member json ''source'') (sf_source x) \<rparr>"

definition StackFrame_ok :: "StackFrame \<Rightarrow> bool" where
  "StackFrame_ok x \<longleftrightarrow> int32 (sf_id x) \<and> no_nul (sf_name x) \<and> Source_ok (sf_source x)
     \<and> int32 (sf_line x) \<and> no_nul (sf_instructionPointerReference x)"

lemma StackFrame_To_ok: "fp_ok F \<Longrightarrow> StackFrame_ok x \<Longrightarrow> obj_ok F (StackFrame_To F x)"
  by (auto simp: StackFrame_To_def
        StackFrame_ok_def Let_def msg_build
      intro!: msg_wf intro: msg_wf_leaf ser_Source.To_wf ser_Source.array_wf)

lemma StackFrame_From_To:
  "fp_ok F \<Longrightarrow> StackFrame_ok x \<Longrightarrow> StackFrame_From F (named s (norm_j (StackFrame_To F x))) StackFrame_new = x"
  by (cases x) (simp add: StackFrame_To_def
      StackFrame_From_def
      StackFrame_ok_def StackFrame_new_def Let_def msg_build msg_read ser_Source.From_To ser_Source.elements)

interpretation ser_StackFrame: serialisable StackFrame_To StackFrame_From StackFrame_ok StackFrame_new
  by unfold_locales (rule StackFrame_To_ok StackFrame_From_To; assumption)+

record Breakpoint =
  bp_id :: int
  bp_verified :: bool
  bp_message :: string
  bp_source :: Source
  bp_line :: int
  bp_column :: int
  bp_endLine :: int
  bp_endColumn :: int

definition Breakpoint_new :: "Breakpoint" where
  "Breakpoint_new = \<lparr> bp_id = - 1, bp_verified = False, bp_message = [],
     bp_source = Source_new, bp_line = - 1, bp_column = - 1,
     bp_endLine = - 1, bp_endColumn = - 1 \<rparr>"

definition Breakpoint_To :: "'d fp \<Rightarrow> Breakpoint \<Rightarrow> 'd Json" where
  "Breakpoint_To F x =
     (let json = Json_CreateObject F;
          json = Json_Add_int F ''id'' (bp_id x) json;
          json = Json_Add_bool F ''verified'' (bp_verified x) json;
          json = Json_Add_string F ''message'' (bp_message x) json;
          json = Json_Add_int F ''line'' (bp_line x) json;
          json = Json_Add_int F ''column'' (bp_column x) json;
          json = Json_Add_int F ''endLine'' (bp_endLine x) json;
          json = Json_Add_int F ''endColumn'' (bp_endColumn x) json;
          json = Json_AddObject ''source'' (Source_To F (bp_source x)) json
      in json)"

definition Breakpoint_From :: "'d fp \<Rightarrow> 'd Json \<Rightarrow> Breakpoint \<Rightarrow> Breakpoint" where
  "Breakpoint_From F json x =
     x\<lparr> bp_id := Json_GetInteger (- 1) (Json_member json ''id''),
       bp_verified := Json_GetBool False (Json_member json ''verified''),
       bp_message := Json_GetString [] (Json_member json ''message''),
       bp_line := Json_GetInteger (- 1) (Json_member json ''line''),
       bp_column := Json_GetInteger (- 1) (Json_member json ''column''),
       bp_endLine := Json_GetInteger (- 1) (Json_member json ''endLine''),
       bp_endColumn := Json_GetInteger (- 1) (Json_member json ''endColumn''),
       bp_source := Source_From F (Json_member json ''source'') (bp_source x) \<rparr>"

definition Breakpoint_ok :: "Breakpoint \<Rightarrow> bool" where
  "Breakpoint_ok x \<longleftrightarrow> int32 (bp_id x) \<and> no_nul (bp_message x) \<and> Source_ok (bp_source x)
     \<and> int32 (bp_line x) \<and> int32 (bp_column x) \<and> int32 (bp_endLine x)
     \<and> int32 (bp_endColumn x)"

lemma Breakpoint_To_ok: "fp_ok F \<Longrightarrow> Breakpoint_ok x \<Longrightarrow> obj_ok F (Breakpoint_To F x)"
  by (auto simp: Breakpoint_To_def
        Breakpoint_ok_def Let_def msg_build
      intro!: msg_wf intro: msg_wf_leaf ser_Source.To_wf ser_Source.array_wf)

lemma Breakpoint_From_To:
  "fp_ok F \<Longrightarrow> Breakpoint_ok x \<Longrightarrow> Breakpoint_From F (named s (norm_j (Breakpoint_To F x))) Breakpoint_new = x"
  by (cases x) (simp add: Breakpoint_To_def
      Breakpoint_From_def
      Breakpoint_ok_def Breakpoint_new_def Let_def msg_build msg_read ser_Source.From_To ser_Source.elements)

interpretation ser_Breakpoint: serialisable Breakpoint_To Breakpoint_From Breakpoint_ok Breakpoint_new
  by unfold_locales (rule Breakpoint_To_ok Breakpoint_From_To; assumption)+

definition Breakpoint_eq :: "Breakpoint \<Rightarrow> Breakpoint \<Rightarrow> bool" where
  \<comment> \<open>\<open>operator==\<close>\<close>
  "Breakpoint_eq a b \<longleftrightarrow>
     (src_path (bp_source a) \<noteq> [] \<and> src_path (bp_source a) = src_path (bp_source b) \<and> bp_line a = bp_line b)
     \<or> (src_name (bp_source a) \<noteq> [] \<and> src_name (bp_source a) = src_name (bp_source b))
     \<or> src_sourceReference (bp_source a) = src_sourceReference (bp_source b)"

record Module =
  md_id :: string
  md_name :: string
  md_path :: string
  md_isOptimized :: bool
  md_isUserCode :: bool
  md_version :: string
  md_symbolStatus :: string
  md_symbolFilePath :: string
  md_dateTimeStamp :: string
  md_addressRange :: string

definition Module_new :: "Module" where
  "Module_new = \<lparr> md_id = [], md_name = [], md_path = [],
     md_isOptimized = False, md_isUserCode = False, md_version = [],
     md_symbolStatus = [], md_symbolFilePath = [], md_dateTimeStamp = [],
     md_addressRange = [] \<rparr>"

definition Module_To :: "'d fp \<Rightarrow> Module \<Rightarrow> 'd Json" where
  "Module_To F x =
     (let json = Json_CreateObject F;
          json = Json_Add_string F ''id'' (md_id x) json;
          json = Json_Add_string F ''name'' (md_name x) json;
          json = Json_Add_string F ''path'' (md_path x) json;
          json = Json_Add_string F ''version'' (md_version x) json;
          json = Json_Add_string F ''symbolStatus'' (md_symbolStatus x) json;
          json = Json_Add_string F ''symbolFilePath'' (md_symbolFilePath x) json;
          json = Json_Add_string F ''dateTimeStamp'' (md_dateTimeStamp x) json;
          json = Json_Add_string F ''addressRange'' (md_addressRange x) json;
          json = Json_Add_bool F ''isOptimized'' (md_isOptimized x) json;
          json = Json_Add_bool F ''isUserCode'' (md_isUserCode x) json
      in json)"

definition Module_From :: "'d fp \<Rightarrow> 'd Json \<Rightarrow> Module \<Rightarrow> Module" where
  "Module_From F json x =
     x\<lparr> md_id := (let nId = fp_to_int F (Json_GetNumber (fp_of_int F wxNOT_FOUND) (Json_member json ''id'')) in
         if nId = wxNOT_FOUND then Json_GetString [] (Json_member json ''id'') else md_id x @ show_int nId),
       md_name := Json_GetString [] (Json_member json ''name''),
       md_path := Json_GetString [] (Json_member json ''path''),
       md_version := Json_GetString [] (Json_member json ''version''),
       md_symbolStatus := Json_GetString [] (Json_member json ''symbolStatus''),
       md_symbolFilePath := Json_GetString [] (Json_member json ''symbolFilePath''),
       md_dateTimeStamp := Json_GetString [] (Json_member json ''dateTimeStamp''),
       md_addressRange := Json_GetString [] (Json_member json ''addressRange''),
       md_isOptimized := Json_GetBool False (Json_member json ''isOptimized''),
       md_isUserCode := Json_GetBool False (Json_member json ''isUserCode'') \<rparr>"

definition Module_ok :: "Module \<Rightarrow> bool" where
  "Module_ok x \<longleftrightarrow> no_nul (md_id x) \<and> no_nul (md_name x) \<and> no_nul (md_path x)
     \<and> no_nul (md_version x) \<and> no_nul (md_symbolStatus x) \<and> no_nul (md_symbolFilePath x)
     \<and> no_nul (md_dateTimeStamp x) \<and> no_nul (md_addressRange x)"

lemma Module_To_ok: "fp_ok F \<Longrightarrow> Module_ok x \<Longrightarrow> obj_ok F (Module_To F x)"
  by (auto simp: Module_To_def
        Module_ok_def Let_def msg_build
      intro!: msg_wf intro: msg_wf_leaf)

lemma Module_From_To:
  "fp_ok F \<Longrightarrow> Module_ok x \<Longrightarrow> Module_From F (named s (norm_j (Module_To F x))) Module_new = x"
  by (cases x) (simp add: Module_To_def
      Module_From_def
      Module_ok_def Module_new_def Let_def msg_build msg_read)

interpretation ser_Module: serialisable Module_To Module_From Module_ok Module_new
  by unfold_locales (rule Module_To_ok Module_From_To; assumption)+

record BreakpointLocation =
  bl_line :: int
  bl_column :: int
  bl_endLine :: int
  bl_endColumn :: int

definition BreakpointLocation_new :: "BreakpointLocation" where
  "BreakpointLocation_new = \<lparr> bl_line = - 1, bl_column = - 1, bl_endLine = - 1,
     bl_endColumn = - 1 \<rparr>"

definition BreakpointLocation_To :: "'d fp \<Rightarrow> BreakpointLocation \<Rightarrow> 'd Json" where
  "BreakpointLocation_To F x =
     (let json = Json_CreateObject F;
          json = Json_Add_int F ''line'' (bl_line x) json;
          json = Json_Add_int F ''column'' (bl_column x) json;
          json = Json_Add_int F ''endLine'' (bl_endLine x) json;
          json = Json_Add_int F ''endColumn'' (bl_endColumn x) json
      in json)"

definition BreakpointLocation_From :: "'d fp \<Rightarrow> 'd Json \<Rightarrow> BreakpointLocation \<Rightarrow> BreakpointLocation" where
  "BreakpointLocation_From F json x =
     x\<lparr> bl_line := Json_GetInteger (bl_line x) (Json_member json ''restart''),
       bl_column := Json_GetInteger (bl_column x) (Json_member json ''column''),
       bl_endColumn := Json_GetInteger (bl_endColumn x) (Json_member json ''endColumn'') \<rparr>"

definition BreakpointLocation_ok :: "BreakpointLocation \<Rightarrow> bool" where
  "BreakpointLocation_ok x \<longleftrightarrow> bl_line x = - 1 \<and> int32 (bl_column x) \<and> bl_endLine x = - 1
     \<and> int32 (bl_endColumn x)"

lemma BreakpointLocation_To_ok: "fp_ok F \<Longrightarrow> BreakpointLocation_ok x \<Longrightarrow> obj_ok F (BreakpointLocation_To F x)"
  by (auto simp: BreakpointLocation_To_def
        BreakpointLocation_ok_def Let_def msg_build
      intro!: msg_wf intro: msg_wf_leaf)

lemma BreakpointLocation_From_To:
  "fp_ok F \<Longrightarrow> BreakpointLocation_ok x \<Longrightarrow> BreakpointLocation_From F (named s (norm_j (BreakpointLocation_To F x))) BreakpointLocation_new = x"
  by (cases x) (simp add: BreakpointLocation_To_def
      BreakpointLocation_From_def
      BreakpointLocation_ok_def BreakpointLocation_new_def Let_def msg_build msg_read)

interpretation ser_BreakpointLocation: serialisable BreakpointLocation_To BreakpointLocation_From BreakpointLocation_ok BreakpointLocation_new
  by unfold_locales (rule BreakpointLocation_To_ok BreakpointLocation_From_To; assumption)+

record ExceptionBreakpointsFilter =
  ef_filter :: string
  ef_label :: string
  ef_description :: "string option"
  ef_default_value :: "bool option"
  ef_supportsCondition :: "bool option"
  ef_conditionDescription :: "string option"

definition ExceptionBreakpointsFilter_new :: "ExceptionBreakpointsFilter" where
  "ExceptionBreakpointsFilter_new = \<lparr> ef_filter = [], ef_label = [], ef_description = None,
     ef_default_value = None, ef_supportsCondition = None, ef_conditionDescription = None \<rparr>"

definition ExceptionBreakpointsFilter_To :: "'d fp \<Rightarrow> ExceptionBreakpointsFilter \<Rightarrow> 'd Json" where
  "ExceptionBreakpointsFilter_To F x =
     (let json = Json_CreateObject F;
          json = Json_Add_string F ''filter'' (ef_filter x) json;
          json = Json_Add_string F ''label'' (ef_label x) json
      in json)"

definition ExceptionBreakpointsFilter_From :: "'d fp \<Rightarrow> 'd Json \<Rightarrow> ExceptionBreakpointsFilter \<Rightarrow> ExceptionBreakpointsFilter" where
  "ExceptionBreakpointsFilter_From F json x =
     x\<lparr> ef_filter := Json_GetString [] (Json_member json ''filter''),
       ef_label := Json_GetString [] (Json_member json ''label''),
       ef_description := (if Json_IsOK (Json_member json ''description'')
         then Some (Json_GetString [] (Json_member json ''description'')) else ef_description x),
       ef_default_value := (if Json_IsOK (Json_member json ''default'')
         then Some (Json_GetBool False (Json_member json ''default'')) else Some False),
       ef_supportsCondition := (if Json_IsOK (Json_member json ''supportsCondition'')
         then Some (Json_GetBool False (Json_member json ''supportsCondition'')) else ef_supportsCondition x),
       ef_conditionDescription := (if Json_IsOK (Json_member json ''conditionDescription'')
         then Some (Json_GetString [] (Json_member json ''conditionDescription''))
         else ef_conditionDescription x) \<rparr>"

definition ExceptionBreakpointsFilter_ok :: "ExceptionBreakpointsFilter \<Rightarrow> bool" where
  "ExceptionBreakpointsFilter_ok x \<longleftrightarrow> no_nul (ef_filter x) \<and> no_nul (ef_label x) \<and> ef_description x = None
     \<and> ef_default_value x = Some False \<and> ef_supportsCondition x = None \<and> ef_conditionDescription x = None"

lemma ExceptionBreakpointsFilter_To_ok: "fp_ok F \<Longrightarrow> ExceptionBreakpointsFilter_ok x \<Longrightarrow> obj_ok F (ExceptionBreakpointsFilter_To F x)"
  by (auto simp: ExceptionBreakpointsFilter_To_def
        ExceptionBreakpointsFilter_ok_def Let_def msg_build
      intro!: msg_wf intro: msg_wf_leaf)

lemma ExceptionBreakpointsFilter_From_To:
  "fp_ok F \<Longrightarrow> ExceptionBreakpointsFilter_ok x \<Longrightarrow> ExceptionBreakpointsFilter_From F (named s (norm_j (ExceptionBreakpointsFilter_To F x))) ExceptionBreakpointsFilter_new = x"
  by (cases x) (simp add: ExceptionBreakpointsFilter_To_def
      ExceptionBreakpointsFilter_From_def
      ExceptionBreakpointsFilter_ok_def ExceptionBreakpointsFilter_new_def Let_def msg_build msg_read)

interpretation ser_ExceptionBreakpointsFilter: serialisable ExceptionBreakpointsFilter_To ExceptionBreakpointsFilter_From ExceptionBreakpointsFilter_ok ExceptionBreakpointsFilter_new
  by unfold_locales (rule ExceptionBreakpointsFilter_To_ok ExceptionBreakpointsFilter_From_To; assumption)+

record ColumnDescriptor =
  cd_attributeName :: string
  cd_label :: string
  cd_wxformat :: "string option"
  cd_type :: "string option"
  cd_number :: "int option"

definition ColumnDescriptor_new :: "ColumnDescriptor" where
  "ColumnDescriptor_new = \<lparr> cd_attributeName = [], cd_label = [], cd_wxformat = None,
     cd_type = None, cd_number = None \<rparr>"

definition ColumnDescriptor_To :: "'d fp \<Rightarrow> ColumnDescriptor \<Rightarrow> 'd Json" where
  "ColumnDescriptor_To F x =
     (let json = Json_CreateObject F;
          json = Json_Add_string F ''attributeName'' (cd_attributeName x) json;
          json = Json_Add_string F ''label'' (cd_label x) json
      in json)"

definition ColumnDescriptor_From :: "'d fp \<Rightarrow> 'd Json \<Rightarrow> ColumnDescriptor \<Rightarrow> ColumnDescriptor" where
  "ColumnDescriptor_From F json x =
     x\<lparr> cd_attributeName := Json_GetString [] (Json_member json ''attributeName''),
       cd_label := Json_GetString [] (Json_member json ''label'') \<rparr>"

definition ColumnDescriptor_ok :: "ColumnDescriptor \<Rightarrow> bool" where
  "ColumnDescriptor_ok x \<longleftrightarrow> no_nul (cd_attributeName x) \<and> no_nul (cd_label x) \<and> cd_wxformat x = None
     \<and> cd_type x = None \<and> cd_number x = None"

lemma ColumnDescriptor_To_ok: "fp_ok F \<Longrightarrow> ColumnDescriptor_ok x \<Longrightarrow> obj_ok F (ColumnDescriptor_To F x)"
  by (auto simp: ColumnDescriptor_To_def
        ColumnDescriptor_ok_def Let_def msg_build
      intro!: msg_wf intro: msg_wf_leaf)

lemma ColumnDescriptor_From_To:
  "fp_ok F \<Longrightarrow> ColumnDescriptor_ok x \<Longrightarrow> ColumnDescriptor_From F (named s (norm_j (ColumnDescriptor_To F x))) ColumnDescriptor_new = x"
  by (cases x) (simp add: ColumnDescriptor_To_def
      ColumnDescriptor_From_def
      ColumnDescriptor_ok_def ColumnDescriptor_new_def Let_def msg_build msg_read)

interpretation ser_ColumnDescriptor: serialisable ColumnDescriptor_To ColumnDescriptor_From ColumnDescriptor_ok ColumnDescriptor_new
  by unfold_locales (rule ColumnDescriptor_To_ok ColumnDescriptor_From_To; assumption)+

record Thread =
  th_id :: int
  th_name :: string

definition Thread_new :: "Thread" where
  "Thread_new = \<lparr> th_id = - 1, th_name = [] \<rparr>"

definition Thread_To :: "'d fp \<Rightarrow> Thread \<Rightarrow> 'd Json" where
  "Thread_To F x =
     (let json = Json_CreateObject F;
          json = Json_Add_int F ''id'' (th_id x) json;
          json = Json_Add_string F ''name'' (th_name x) json
      in json)"

definition Thread_From :: "'d fp \<Rightarrow> 'd Json \<Rightarrow> Thread \<Rightarrow> Thread" where
  "Thread_From F json x =
     x\<lparr> th_id := Json_GetInteger (th_id x) (Json_member json ''id''),
       th_name := Json_GetString [] (Json_member json ''name'') \<rparr>"

definition Thread_ok :: "Thread \<Rightarrow> bool" where
  "Thread_ok x \<longleftrightarrow> int32 (th_id x) \<and> no_nul (th_name x)"

lemma Thread_To_ok: "fp_ok F \<Longrightarrow> Thread_ok x \<Longrightarrow> obj_ok F (Thread_To F x)"
  by (auto simp: Thread_To_def
        Thread_ok_def Let_def msg_build
      intro!: msg_wf intro: msg_wf_leaf)

lemma Thread_From_To:
  "fp_ok F \<Longrightarrow> Thread_ok x \<Longrightarrow> Thread_From F (named s (norm_j (Thread_To F x))) Thread_new = x"
  by (cases x) (simp add: Thread_To_def
      Thread_From_def
      Thread_ok_def Thread_new_def Let_def msg_build msg_read)

interpretation ser_Thread: serialisable Thread_To Thread_From Thread_ok Thread_new
  by unfold_locales (rule Thread_To_ok Thread_From_To; assumption)+

record SourceBreakpoint =
  sb_line :: int
  sb_condition :: string

definition SourceBreakpoint_new :: "SourceBreakpoint" where
  "SourceBreakpoint_new = \<lparr> sb_line = - 1, sb_condition = [] \<rparr>"

definition SourceBreakpoint_To :: "'d fp \<Rightarrow> SourceBreakpoint \<Rightarrow> 'd Json" where
  "SourceBreakpoint_To F x =
     (let json = Json_CreateObject F;
          json = Json_Add_int F ''line'' (sb_line x) json;
          json = Json_Add_string F ''condition'' (sb_condition x) json
      in json)"

definition SourceBreakpoint_From :: "'d fp \<Rightarrow> 'd Json \<Rightarrow> SourceBreakpoint \<Rightarrow> SourceBreakpoint" where
  "SourceBreakpoint_From F json x =
     x\<lparr> sb_line := Json_GetInteger (sb_line x) (Json_member json ''line''),
       sb_condition := Json_GetString (sb_condition x) (Json_member json ''condition'') \<rparr>"

definition SourceBreakpoint_ok :: "SourceBreakpoint \<Rightarrow> bool" where
  "SourceBreakpoint_ok x \<longleftrightarrow> int32 (sb_line x) \<and> no_nul (sb_condition x)"

lemma SourceBreakpoint_To_ok: "fp_ok F \<Longrightarrow> SourceBreakpoint_ok x \<Longrightarrow> obj_ok F (SourceBreakpoint_To F x)"
  by (auto simp: SourceBreakpoint_To_def
        SourceBreakpoint_ok_def Let_def msg_build
      intro!: msg_wf intro: msg_wf_leaf)

lemma SourceBreakpoint_From_To:
  "fp_ok F \<Longrightarrow> SourceBreakpoint_ok x \<Longrightarrow> SourceBreakpoint_From F (named s (norm_j (SourceBreakpoint_To F x))) SourceBreakpoint_new = x"
  by (cases x) (simp add: SourceBreakpoint_To_def
      SourceBreakpoint_From_def
      SourceBreakpoint_ok_def SourceBreakpoint_new_def Let_def msg_build msg_read)

interpretation ser_SourceBreakpoint: serialisable SourceBreakpoint_To SourceBreakpoint_From SourceBreakpoint_ok SourceBreakpoint_new
  by unfold_locales (rule SourceBreakpoint_To_ok SourceBreakpoint_From_To; assumption)+

record FunctionBreakpoint =
  fb_name :: string
  fb_condition :: string

definition FunctionBreakpoint_new :: "FunctionBreakpoint" where
  "FunctionBreakpoint_new = \<lparr> fb_name = [], fb_condition = [] \<rparr>"

definition FunctionBreakpoint_To :: "'d fp \<Rightarrow> FunctionBreakpoint \<Rightarrow> 'd Json" where
  "FunctionBreakpoint_To F x =
     (let json = Json_CreateObject F;
          json = Json_Add_string F ''name'' (fb_name x) json;
          json = Json_Add_string F ''condition'' (fb_condition x) json
      in json)"

definition FunctionBreakpoint_From :: "'d fp \<Rightarrow> 'd Json \<Rightarrow> FunctionBreakpoint \<Rightarrow> FunctionBreakpoint" where
  "FunctionBreakpoint_From F json x =
     x\<lparr> fb_name := Json_GetString (fb_name x) (Json_member json ''name''),
       fb_condition := Json_GetString (fb_condition x) (Json_member json ''condition'') \<rparr>"

definition FunctionBreakpoint_ok :: "FunctionBreakpoint \<Rightarrow> bool" where
  "FunctionBreakpoint_ok x \<longleftrightarrow> no_nul (fb_name x) \<and> no_nul (fb_condition x)"

lemma FunctionBreakpoint_To_ok: "fp_ok F \<Longrightarrow> FunctionBreakpoint_ok x \<Longrightarrow> obj_ok F (FunctionBreakpoint_To F x)"
  by (auto simp: FunctionBreakpoint_To_def
        FunctionBreakpoint_ok_def Let_def msg_build
      intro!: msg_wf intro: msg_wf_leaf)

lemma FunctionBreakpoint_From_To:
  "fp_ok F \<Longrightarrow> FunctionBreakpoint_ok x \<Longrightarrow> FunctionBreakpoint_From F (named s (norm_j (FunctionBreakpoint_To F x))) FunctionBreakpoint_new = x"
  by (cases x) (simp add: FunctionBreakpoint_To_def
      FunctionBreakpoint_From_def
      FunctionBreakpoint_ok_def FunctionBreakpoint_new_def Let_def msg_build msg_read)

interpretation ser_FunctionBreakpoint: serialisable FunctionBreakpoint_To FunctionBreakpoint_From FunctionBreakpoint_ok FunctionBreakpoint_new
  by unfold_locales (rule FunctionBreakpoint_To_ok FunctionBreakpoint_From_To; assumption)+

record VariablePresentationHint =
  vh_kind :: string
  vh_attributes :: "string list"
  vh_visibility :: string

definition VariablePresentationHint_new :: "VariablePresentationHint" where
  "VariablePresentationHint_new = \<lparr> vh_kind = [], vh_attributes = [], vh_visibility = [] \<rparr>"

definition VariablePresentationHint_To :: "'d fp \<Rightarrow> VariablePresentationHint \<Rightarrow> 'd Json" where
  "VariablePresentationHint_To F x =
     (let json = Json_CreateObject F;
          json = Json_Add_string F ''kind'' (vh_kind x) json;
          json = Json_Add_string F ''visibility'' (vh_visibility x) json;
          json = Json_Add_strings F ''attributes'' (vh_attributes x) json
      in json)"

definition VariablePresentationHint_From :: "'d fp \<Rightarrow> 'd Json \<Rightarrow> VariablePresentationHint \<Rightarrow> VariablePresentationHint" where
  "VariablePresentationHint_From F json x =
     x\<lparr> vh_kind := Json_GetString [] (Json_member json ''kind''),
       vh_visibility := Json_GetString [] (Json_member json ''visibility''),
       vh_attributes := Json_GetStringArray (Json_member json ''attributes'') \<rparr>"

definition VariablePresentationHint_ok :: "VariablePresentationHint \<Rightarrow> bool" where
  "VariablePresentationHint_ok x \<longleftrightarrow> no_nul (vh_kind x) \<and> list_all no_nul (vh_attributes x) \<and> no_nul (vh_visibility x)"

lemma VariablePresentationHint_To_ok: "fp_ok F \<Longrightarrow> VariablePresentationHint_ok x \<Longrightarrow> obj_ok F (VariablePresentationHint_To F x)"
  by (auto simp: VariablePresentationHint_To_def
        VariablePresentationHint_ok_def Let_def msg_build
      intro!: msg_wf intro: msg_wf_leaf)

lemma VariablePresentationHint_From_To:
  "fp_ok F \<Longrightarrow> VariablePresentationHint_ok x \<Longrightarrow> VariablePresentationHint_From F (named s (norm_j (VariablePresentationHint_To F x))) VariablePresentationHint_new = x"
  by (cases x) (simp add: VariablePresentationHint_To_def
      VariablePresentationHint_From_def
      VariablePresentationHint_ok_def VariablePresentationHint_new_def Let_def msg_build msg_read)

interpretation ser_VariablePresentationHint: serialisable VariablePresentationHint_To VariablePresentationHint_From VariablePresentationHint_ok VariablePresentationHint_new
  by unfold_locales (rule VariablePresentationHint_To_ok VariablePresentationHint_From_To; assumption)+

record Variable =
  vr_name :: string
  vr_value :: string
  vr_type :: string
  vr_variablesReference :: int
  vr_presentationHint :: VariablePresentationHint

definition Variable_new :: "Variable" where
  "Variable_new = \<lparr> vr_name = [], vr_value = [], vr_type = [],
     vr_variablesReference = 0, vr_presentationHint = VariablePresentationHint_new \<rparr>"

definition Variable_To :: "'d fp \<Rightarrow> Variable \<Rightarrow> 'd Json" where
  "Variable_To F x =
     (let json = Json_CreateObject F;
          json = Json_Add_string F ''name'' (vr_name x) json;
          json = Json_Add_string F ''value'' (vr_value x) json;
          json = Json_Add_string F ''type'' (vr_type x) json;
          json = Json_Add_int F ''variablesReference'' (vr_variablesReference x) json;
          json = Json_Add_json ''presentationHint'' (VariablePresentationHint_To F (vr_presentationHint x)) json
      in json)"

definition Variable_From :: "'d fp \<Rightarrow> 'd Json \<Rightarrow> Variable \<Rightarrow> Variable" where
  "Variable_From F json x =
     x\<lparr> vr_name := Json_GetString [] (Json_member json ''name''),
       vr_value := Json_GetString [] (Json_member json ''value''),
       vr_type := Json_GetString [] (Json_member json ''type''),
       vr_variablesReference := Json_GetInteger (- 1) (Json_member json ''variablesReference''),
       vr_presentationHint := VariablePresentationHint_From F (Json_member json ''presentationHint'') (vr_presentationHint x) \<rparr>"

definition Variable_ok :: "Variable \<Rightarrow> bool" where
  "Variable_ok x \<longleftrightarrow> no_nul (vr_name x) \<and> no_nul (vr_value x) \<and> no_nul (vr_type x)
     \<and> int32 (vr_variablesReference x) \<and> VariablePresentationHint_ok (vr_presentationHint x)"

lemma Variable_To_ok: "fp_ok F \<Longrightarrow> Variable_ok x \<Longrightarrow> obj_ok F (Variable_To F x)"
  by (auto simp: Variable_To_def
        Variable_ok_def Let_def msg_build
      intro!: msg_wf intro: msg_wf_leaf ser_VariablePresentationHint.To_wf ser_VariablePresentationHint.array_wf)

lemma Variable_From_To:
  "fp_ok F \<Longrightarrow> Variable_ok x \<Longrightarrow> Variable_From F (named s (norm_j (Variable_To F x))) Variable_new = x"
  by (cases x) (simp add: Variable_To_def
      Variable_From_def
      Variable_ok_def Variable_new_def Let_def msg_build msg_read ser_VariablePresentationHint.From_To ser_VariablePresentationHint.elements)

interpretation ser_Variable: serialisable Variable_To Variable_From Variable_ok Variable_new
  by unfold_locales (rule Variable_To_ok Variable_From_To; assumption)+

record Scope =
  sc_name :: string
  sc_variablesReference :: int
  sc_expensive :: bool

definition Scope_new :: "Scope" where
  "Scope_new = \<lparr> sc_name = [], sc_variablesReference = 0, sc_expensive = False \<rparr>"

definition Scope_To :: "'d fp \<Rightarrow> Scope \<Rightarrow> 'd Json" where
  "Scope_To F x =
     (let json = Json_CreateObject F;
          json = Json_Add_string F ''name'' (sc_name x) json;
          json = Json_Add_int F ''variablesReference'' (sc_variablesReference x) json;
          json = Json_Add_bool F ''expensive'' (sc_expensive x) json
      in json)"

definition Scope_From :: "'d fp \<Rightarrow> 'd Json \<Rightarrow> Scope \<Rightarrow> Scope" where
  "Scope_From F json x =
     x\<lparr> sc_name := Json_GetString [] (Json_member json ''name''),
       sc_variablesReference := Json_GetInteger (- 1) (Json_member json ''variablesReference''),
       sc_expensive := Json_GetBool False (Json_member json ''expensive'') \<rparr>"

definition Scope_ok :: "Scope \<Rightarrow> bool" where
  "Scope_ok x \<longleftrightarrow> no_nul (sc_name x) \<and> int32 (sc_variablesReference x)"

lemma Scope_To_ok: "fp_ok F \<Longrightarrow> Scope_ok x \<Longrightarrow> obj_ok F (Scope_To F x)"
  by (auto simp: Scope_To_def
        Scope_ok_def Let_def msg_build
      intro!: msg_wf intro: msg_wf_leaf)

lemma Scope_From_To:
  "fp_ok F \<Longrightarrow> Scope_ok x \<Longrightarrow> Scope_From F (named s (norm_j (Scope_To F x))) Scope_new = x"
  by (cases x) (simp add: Scope_To_def
      Scope_From_def
      Scope_ok_def Scope_new_def Let_def msg_build msg_read)

interpretation ser_Scope: serialisable Scope_To Scope_From Scope_ok Scope_new
  by unfold_locales (rule Scope_To_ok Scope_From_To; assumption)+

record ValueFormat =
  vf_hex :: bool

definition ValueFormat_new :: "ValueFormat" where
  "ValueFormat_new = \<lparr> vf_hex = False \<rparr>"

definition ValueFormat_To :: "'d fp \<Rightarrow> ValueFormat \<Rightarrow> 'd Json" where
  "ValueFormat_To F x =
     (let json = Json_CreateObject F;
          json = Json_Add_bool F ''hex'' (vf_hex x) json
      in json)"

definition ValueFormat_From :: "'d fp \<Rightarrow> 'd Json \<Rightarrow> ValueFormat \<Rightarrow> ValueFormat" where
  "ValueFormat_From F json x =
     x\<lparr> vf_hex := Json_GetBool False (Json_member json ''hex'') \<rparr>"

definition ValueFormat_ok :: "ValueFormat \<Rightarrow> bool" where
  "ValueFormat_ok x \<longleftrightarrow> True"

lemma ValueFormat_To_ok: "fp_ok F \<Longrightarrow> ValueFormat_ok x \<Longrightarrow> obj_ok F (ValueFormat_To F x)"
  by (auto simp: ValueFormat_To_def
        ValueFormat_ok_def Let_def msg_build
      intro!: msg_wf intro: msg_wf_leaf)

lemma ValueFormat_From_To:
  "fp_ok F \<Longrightarrow> ValueFormat_ok x \<Longrightarrow> ValueFormat_From F (named s (norm_j (ValueFormat_To F x))) ValueFormat_new = x"
  by (cases x) (simp add: ValueFormat_To_def
      ValueFormat_From_def
      ValueFormat_ok_def ValueFormat_new_def Let_def msg_build msg_read)

interpretation ser_ValueFormat: serialisable ValueFormat_To ValueFormat_From ValueFormat_ok ValueFormat_new
  by unfold_locales (rule ValueFormat_To_ok ValueFormat_From_To; assumption)+

record GotoTargetsInfo =
  gi_id :: int
  gi_label :: string
  gi_line :: int
  gi_column :: int
  gi_endLine :: int
  gi_endColumn :: int
  gi_instructionPointerReference :: string

definition GotoTargetsInfo_new :: "GotoTargetsInfo" where
  "GotoTargetsInfo_new = \<lparr> gi_id = - 1, gi_label = [], gi_line = - 1,
     gi_column = - 1, gi_endLine = - 1, gi_endColumn = - 1,
     gi_instructionPointerReference = [] \<rparr>"

definition GotoTargetsInfo_To :: "'d fp \<Rightarrow> GotoTargetsInfo \<Rightarrow> 'd Json" where
  "GotoTargetsInfo_To F x =
     (let json = Json_CreateObject F;
          json = Json_Add_int F ''id'' (gi_id x) json;
          json = Json_Add_string F ''label'' (gi_label x) json;
          json = Json_Add_int F ''line'' (gi_line x) json;
          json = Json_Add_int F ''column'' (gi_column x) json;
          json = Json_Add_int F ''endLine'' (gi_endLine x) json;
          json = Json_Add_int F ''endColumn'' (gi_endColumn x) json;
          json = Json_Add_string F ''instructionPointerReference'' (gi_instructionPointerReference x) json
      in json)"

definition GotoTargetsInfo_From :: "'d fp \<Rightarrow> 'd Json \<Rightarrow> GotoTargetsInfo \<Rightarrow> GotoTargetsInfo" where
  "GotoTargetsInfo_From F json x =
     x\<lparr> gi_id := Json_GetInteger (- 1) (Json_member json ''id''),
       gi_label := Json_GetString [] (Json_member json ''label''),
       gi_line := Json_GetInteger (- 1) (Json_member json ''line''),
       gi_column := Json_GetInteger (- 1) (Json_member json ''column''),
       gi_endLine := Json_GetInteger (- 1) (Json_member json ''endLine''),
       gi_endColumn := Json_GetInteger (- 1) (Json_member json ''endColumn''),
       gi_instructionPointerReference := Json_GetString [] (Json_member json ''instructionPointerReference'') \<rparr>"

definition GotoTargetsInfo_ok :: "GotoTargetsInfo \<Rightarrow> bool" where
  "GotoTargetsInfo_ok x \<longleftrightarrow> int32 (gi_id x) \<and> no_nul (gi_label x) \<and> int32 (gi_line x)
     \<and> int32 (gi_column x) \<and> int32 (gi_endLine x) \<and> int32 (gi_endColumn x)
     \<and> no_nul (gi_instructionPointerReference x)"

lemma GotoTargetsInfo_To_ok: "fp_ok F \<Longrightarrow> GotoTargetsInfo_ok x \<Longrightarrow> obj_ok F (GotoTargetsInfo_To F x)"
  by (auto simp: GotoTargetsInfo_To_def
        GotoTargetsInfo_ok_def Let_def msg_build
      intro!: msg_wf intro: msg_wf_leaf)

lemma GotoTargetsInfo_From_To:
  "fp_ok F \<Longrightarrow> GotoTargetsInfo_ok x \<Longrightarrow> GotoTargetsInfo_From F (named s (norm_j (GotoTargetsInfo_To F x))) GotoTargetsInfo_new = x"
  by (cases x) (simp add: GotoTargetsInfo_To_def
      GotoTargetsInfo_From_def
      GotoTargetsInfo_ok_def GotoTargetsInfo_new_def Let_def msg_build msg_read)

interpretation ser_GotoTargetsInfo: serialisable GotoTargetsInfo_To GotoTargetsInfo_From GotoTargetsInfo_ok GotoTargetsInfo_new
  by unfold_locales (rule GotoTargetsInfo_To_ok GotoTargetsInfo_From_To; assumption)+

record DisassembleInfo =
  di_address :: string
  di_column :: int
  di_instruction :: string
  di_instructionBytes :: string
  di_line :: int
  di_name :: string
  di_path :: string

definition DisassembleInfo_new :: "int \<Rightarrow> DisassembleInfo" where
  "DisassembleInfo_new uninit_line = \<lparr> di_address = [], di_column = - 1, di_instruction = [],
     di_instructionBytes = [], di_line = uninit_line, di_name = [],
     di_path = [] \<rparr>"

definition DisassembleInfo_To :: "'d fp \<Rightarrow> DisassembleInfo \<Rightarrow> 'd Json" where
  "DisassembleInfo_To F x =
     (let json = Json_CreateObject F;
          json = Json_Add_string F ''address'' (di_address x) json;
          json = Json_Add_int F ''column'' (di_column x) json;
          json = Json_Add_string F ''name'' (di_name x) json;
          json = Json_Add_string F ''path'' (di_path x) json
      in json)"

definition DisassembleInfo_From :: "'d fp \<Rightarrow> 'd Json \<Rightarrow> DisassembleInfo \<Rightarrow> DisassembleInfo" where
  "DisassembleInfo_From F json x =
     (let location = Json_member json ''location'' in
      x\<lparr> di_address := Json_GetString [] (Json_member json ''address''),
       di_column := Json_GetInteger (- 1) (Json_member json ''column''),
       di_instruction := Json_GetString [] (Json_member json ''instruction''),
       di_instructionBytes := Json_GetString [] (Json_member json ''instructionBytes''),
       di_line := Json_GetInteger (- 1) (Json_member json ''line''),
       di_name := Json_GetString [] (Json_member location ''name''),
       di_path := Json_GetString [] (Json_member location ''path'') \<rparr>)"

end
