(* ===== verification/Dap_MsgArgs.thy ===== *)
theory Dap_MsgArgs
  imports Dap_MsgBase
begin

text \<open>
  The environment of a debuggee and the \<open>arguments\<close> structs of the requests. Structs whose
  \<open>From\<close> does not read what \<open>To\<close> writes (\<open>SetExceptionBreakpointsArguments\<close>,
  \<open>DisassembleArguments\<close>, \<open>GotoArguments\<close>, \<open>GotoTargetsArguments\<close>) are not instances of
  \<open>serialisable\<close>. \<open>uninit_pid\<close> is what an uninitialised field holds.
\<close>

section \<open>Environment\<close>

datatype EnvFormat = DICTIONARY | LIST | NONE

record Environment =
  env_format :: EnvFormat
  env_vars :: "(string \<times> string) list"
    \<comment> \<open>the \<open>unordered_map\<close> as its entries in iteration order\<close>

definition Environment_new :: Environment where
  "Environment_new = \<lparr> env_format = DICTIONARY, env_vars = [] \<rparr>"

definition Environment_To :: "'d fp \<Rightarrow> Environment \<Rightarrow> 'd Json" where
  "Environment_To F x =
     (case env_format x of
        DICTIONARY \<Rightarrow>
          fold (\<lambda>vt. Json_Add_string F (fst vt) (snd vt)) (env_vars x) (Json_CreateObject F)
      | LIST \<Rightarrow>
          fold (\<lambda>vt. Json_Add_string F [] (fst vt @ ''='' @ snd vt)) (env_vars x) (Json_CreateArray F)
      | NONE \<Rightarrow> None)"

definition vars_insert :: "string \<Rightarrow> string \<Rightarrow> (string \<times> string) list \<Rightarrow> (string \<times> string) list" where
  \<comment> \<open>\<open>insert\<close> keeps an existing entry; where a new one goes in the iteration is unspecified\<close>
  "vars_insert k v vs = (if k \<in> fst ` set vs then vs else vs @ [(k, v)])"

definition Environment_From :: "'d Json \<Rightarrow> Environment \<Rightarrow> Environment" where
  "Environment_From json x =
     (if \<not> Json_IsOK json \<or> \<not> Json_IsArray json then x\<lparr> env_vars := [] \<rparr>
      else x\<lparr> env_vars := fold (\<lambda>i vs.
          (let str = Json_GetString [] (Json_at json i) in
           case find_char (CHR ''='') str of
             None \<Rightarrow> vs
           | Some n \<Rightarrow> vars_insert (take n str) (drop (Suc n) str) vs)) [0..<Json_GetCount json] [] \<rparr>)"

definition Environment_ok :: "Environment \<Rightarrow> bool" where
  "Environment_ok x \<longleftrightarrow> env_format x \<noteq> LIST \<and> env_vars x = []"

section \<open>Arguments\<close>

record InitializeRequestArguments =
  ia_clientID :: string
  ia_clientName :: string
  ia_adapterID :: string
  ia_locale :: string
  ia_linesStartAt1 :: bool
  ia_columnsStartAt1 :: bool
  ia_pathFormat :: string
  ia_supportsVariableType :: bool
  ia_supportsVariablePaging :: bool
  ia_supportsRunInTerminalRequest :: bool
  ia_supportsMemoryReferences :: bool
  ia_supportsProgressReporting :: bool
  ia_supportsInvalidatedEvent :: bool
  ia_supportsMemoryEvent :: bool
  ia_supportsArgsCanBeInterpretedByShell :: bool

definition InitializeRequestArguments_new :: "InitializeRequestArguments" where
  "InitializeRequestArguments_new = \<lparr> ia_clientID = [], ia_clientName = [], ia_adapterID = [],
     ia_locale = ''en-US'', ia_linesStartAt1 = False, ia_columnsStartAt1 = False,
     ia_pathFormat = ''path'', ia_supportsVariableType = False, ia_supportsVariablePaging = False,
     ia_supportsRunInTerminalRequest = False, ia_supportsMemoryReferences = False, ia_supportsProgressReporting = False,
     ia_supportsInvalidatedEvent = False, ia_supportsMemoryEvent = False, ia_supportsArgsCanBeInterpretedByShell = False \<rparr>"

definition InitializeRequestArguments_To :: "'d fp \<Rightarrow> InitializeRequestArguments \<Rightarrow> 'd Json" where
  "InitializeRequestArguments_To F x =
     (let json = Json_CreateObject F;
          json = Json_Add_string F ''clientID'' (ia_clientID x) json;
          json = Json_Add_string F ''clientName'' (ia_clientName x) json;
          json = Json_Add_string F ''adapterID'' (ia_adapterID x) json;
          json = Json_Add_string F ''locale'' (ia_locale x) json;
          json = Json_Add_bool F ''linesStartAt1'' (ia_linesStartAt1 x) json;
          json = Json_Add_bool F ''columnsStartAt1'' (ia_columnsStartAt1 x) json;
          json = Json_Add_string F ''pathFormat'' (ia_pathFormat x) json;
          json = Json_Add_bool F ''supportsVariableType'' (ia_supportsVariableType x) json;
          json = Json_Add_bool F ''supportsVariablePaging'' (ia_supportsVariablePaging x) json;
          json = Json_Add_bool F ''supportsRunInTerminalRequest'' (ia_supportsRunInTerminalRequest x) json;
          json = Json_Add_bool F ''supportsMemoryReferences'' (ia_supportsMemoryReferences x) json;
          json = Json_Add_bool F ''supportsProgressReporting'' (ia_supportsProgressReporting x) json;
          json = Json_Add_bool F ''supportsInvalidatedEvent'' (ia_supportsInvalidatedEvent x) json;
          json = Json_Add_bool F ''supportsMemoryEvent'' (ia_supportsMemoryEvent x) json;
          json = Json_Add_bool F ''supportsArgsCanBeInterpretedByShell'' (ia_supportsArgsCanBeInterpretedByShell x) json
      in json)"

definition InitializeRequestArguments_From :: "'d fp \<Rightarrow> 'd Json \<Rightarrow> InitializeRequestArguments \<Rightarrow> InitializeRequestArguments" where
  "InitializeRequestArguments_From F json x =
     x\<lparr> ia_clientID := Json_GetString [] (Json_member json ''clientID''),
       ia_clientName := Json_GetString [] (Json_member json ''clientName''),
       ia_adapterID := Json_GetString [] (Json_member json ''adapterID''),
       ia_locale := Json_GetString [] (Json_member json ''locale''),
       ia_linesStartAt1 := Json_GetBool False (Json_member json ''linesStartAt1''),
       ia_columnsStartAt1 := Json_GetBool False (Json_member json ''columnsStartAt1''),
       ia_pathFormat := Json_GetString [] (Json_member json ''pathFormat''),
       ia_supportsVariableType := Json_GetBool False (Json_member json ''supportsVariableType''),
       ia_supportsVariablePaging := Json_GetBool False (Json_member json ''supportsVariablePaging''),
       ia_supportsRunInTerminalRequest := Json_GetBool False (Json_member json ''supportsRunInTerminalRequest''),
       ia_supportsMemoryReferences := Json_GetBool False (Json_member json ''supportsMemoryReferences''),
       ia_supportsProgressReporting := Json_GetBool False (Json_member json ''supportsProgressReporting''),
       ia_supportsInvalidatedEvent := Json_GetBool False (Json_member json ''supportsInvalidatedEvent''),
       ia_supportsMemoryEvent := Json_GetBool False (Json_member json ''supportsMemoryEvent''),
       ia_supportsArgsCanBeInterpretedByShell := Json_GetBool False (Json_member json ''supportsArgsCanBeInterpretedByShell'') \<rparr>"

definition InitializeRequestArguments_ok :: "InitializeRequestArguments \<Rightarrow> bool" where
  "InitializeRequestArguments_ok x \<longleftrightarrow> no_nul (ia_clientID x) \<and> no_nul (ia_clientName x) \<and> no_nul (ia_adapterID x)
     \<and> no_nul (ia_locale x) \<and> no_nul (ia_pathFormat x)"

lemma InitializeRequestArguments_To_ok: "fp_ok F \<Longrightarrow> InitializeRequestArguments_ok x \<Longrightarrow> obj_ok F (InitializeRequestArguments_To F x)"
  unfolding InitializeRequestArguments_To_def Let_def
  by (simp only: msg_build, intro msg_wf)
    (auto simp: InitializeRequestArguments_ok_def
      intro: msg_wf_leaf)

record LaunchRequestArguments =
  la_noDebug :: bool
  la_program :: string
  la_args :: "string list"
  la_cwd :: string
  la_env :: Environment

definition LaunchRequestArguments_new :: "LaunchRequestArguments" where
  "LaunchRequestArguments_new = \<lparr> la_noDebug = False, la_program = [], la_args = [],
     la_cwd = [], la_env = Environment_new \<rparr>"

definition LaunchRequestArguments_To :: "'d fp \<Rightarrow> LaunchRequestArguments \<Rightarrow> 'd Json" where
  "LaunchRequestArguments_To F x =
     (let json = Json_CreateObject F;
          json = Json_Add_bool F ''noDebug'' (la_noDebug x) json;
          json = Json_Add_string F ''program'' (la_program x) json;
          json = Json_Add_strings F ''args'' (la_args x) json;
          json = Json_Add_string F ''cwd'' (la_cwd x) json;
          env_obj = Environment_To F (la_env x)
      in if Json_IsOK env_obj then Json_Add_json ''env'' (Environment_To F (la_env x)) json else json)"

definition LaunchRequestArguments_From ::
  "'d fp \<Rightarrow> 'd Json \<Rightarrow> LaunchRequestArguments \<Rightarrow> LaunchRequestArguments" where
  "LaunchRequestArguments_From F json x =
     x\<lparr> la_noDebug := Json_GetBool False (Json_member json ''noDebug''),
       la_program := Json_GetString [] (Json_member json ''program''),
       la_args := Json_GetStringArray (Json_member json ''args''),
       la_cwd := Json_GetString [] (Json_member json ''cwd''),
       la_env := Environment_From (Json_member json ''env'') (la_env x) \<rparr>"

record AttachRequestArguments =
  aa_pid :: int

definition AttachRequestArguments_new :: "int \<Rightarrow> AttachRequestArguments" where
  "AttachRequestArguments_new uninit_pid = \<lparr> aa_pid = uninit_pid \<rparr>"

definition AttachRequestArguments_To :: "'d fp \<Rightarrow> AttachRequestArguments \<Rightarrow> 'd Json" where
  "AttachRequestArguments_To F x =
     (let json = Json_CreateObject F;
          json = Json_Add_int F ''pid'' (aa_pid x) json
      in json)"

definition AttachRequestArguments_From :: "'d fp \<Rightarrow> 'd Json \<Rightarrow> AttachRequestArguments \<Rightarrow> AttachRequestArguments" where
  "AttachRequestArguments_From F json x =
     x\<lparr> aa_pid := Json_GetInteger (- 1) (Json_member json ''pid'') \<rparr>"

record TerminateArguments =
  ta_restart :: bool

definition TerminateArguments_new :: "TerminateArguments" where
  "TerminateArguments_new = \<lparr> ta_restart = False \<rparr>"

definition TerminateArguments_To :: "'d fp \<Rightarrow> TerminateArguments \<Rightarrow> 'd Json" where
  "TerminateArguments_To F x =
     (let json = Json_CreateObject F;
          json = Json_Add_bool F ''restart'' (ta_restart x) json
      in json)"

definition TerminateArguments_From :: "'d fp \<Rightarrow> 'd Json \<Rightarrow> TerminateArguments \<Rightarrow> TerminateArguments" where
  "TerminateArguments_From F json x =
     x\<lparr> ta_restart := Json_GetBool False (Json_member json ''restart'') \<rparr>"

definition TerminateArguments_ok :: "TerminateArguments \<Rightarrow> bool" where
  "TerminateArguments_ok x \<longleftrightarrow> True"

lemma TerminateArguments_To_ok: "fp_ok F \<Longrightarrow> TerminateArguments_ok x \<Longrightarrow> obj_ok F (TerminateArguments_To F x)"
  by (auto simp: TerminateArguments_To_def
        TerminateArguments_ok_def Let_def msg_build
      intro!: msg_wf intro: msg_wf_leaf)

lemma TerminateArguments_From_To:
  "fp_ok F \<Longrightarrow> TerminateArguments_ok x \<Longrightarrow> TerminateArguments_From F (named s (norm_j (TerminateArguments_To F x))) TerminateArguments_new = x"
  by (cases x) (simp add: TerminateArguments_To_def
      TerminateArguments_From_def
      TerminateArguments_ok_def TerminateArguments_new_def Let_def msg_build msg_read)

interpretation ser_TerminateArguments: serialisable TerminateArguments_To TerminateArguments_From TerminateArguments_ok TerminateArguments_new
  by unfold_locales (rule TerminateArguments_To_ok TerminateArguments_From_To; assumption)+

record BreakpointLocationsArguments =
  ba_source :: Source
  ba_line :: int
  ba_column :: int
  ba_endLine :: int
  ba_endColumn :: int

definition BreakpointLocationsArguments_new :: "BreakpointLocationsArguments" where
  "BreakpointLocationsArguments_new = \<lparr> ba_source = Source_new, ba_line = - 1, ba_column = - 1,
     ba_endLine = - 1, ba_endColumn = - 1 \<rparr>"

definition BreakpointLocationsArguments_To :: "'d fp \<Rightarrow> BreakpointLocationsArguments \<Rightarrow> 'd Json" where
  "BreakpointLocationsArguments_To F x =
     (let json = Json_CreateObject F;
          json = Json_Add_json ''source'' (Source_To F (ba_source x)) json;
          json = Json_Add_int F ''line'' (ba_line x) json;
          json = Json_Add_int F ''column'' (ba_column x) json;
          json = Json_Add_int F ''endLine'' (ba_endLine x) json;
          json = Json_Add_int F ''endColumn'' (ba_endColumn x) json
      in json)"

definition BreakpointLocationsArguments_From :: "'d fp \<Rightarrow> 'd Json \<Rightarrow> BreakpointLocationsArguments \<Rightarrow> BreakpointLocationsArguments" where
  "BreakpointLocationsArguments_From F json x =
     x\<lparr> ba_source := Source_From F (Json_member json ''source'') (ba_source x),
       ba_line := Json_GetInteger (ba_line x) (Json_member json ''restart''),
       ba_column := Json_GetInteger (ba_column x) (Json_member json ''column''),
       ba_endColumn := Json_GetInteger (ba_endColumn x) (Json_member json ''endColumn'') \<rparr>"

definition BreakpointLocationsArguments_ok :: "BreakpointLocationsArguments \<Rightarrow> bool" where
  "BreakpointLocationsArguments_ok x \<longleftrightarrow> Source_ok (ba_source x) \<and> ba_line x = - 1 \<and> int32 (ba_column x)
     \<and> ba_endLine x = - 1 \<and> int32 (ba_endColumn x)"

lemma BreakpointLocationsArguments_To_ok: "fp_ok F \<Longrightarrow> BreakpointLocationsArguments_ok x \<Longrightarrow> obj_ok F (BreakpointLocationsArguments_To F x)"
  by (auto simp: BreakpointLocationsArguments_To_def
        BreakpointLocationsArguments_ok_def Let_def msg_build
      intro!: msg_wf intro: msg_wf_leaf ser_Source.To_wf ser_Source.array_wf)

lemma BreakpointLocationsArguments_From_To:
  "fp_ok F \<Longrightarrow> BreakpointLocationsArguments_ok x \<Longrightarrow> BreakpointLocationsArguments_From F (named s (norm_j (BreakpointLocationsArguments_To F x))) BreakpointLocationsArguments_new = x"
  by (cases x) (simp add: BreakpointLocationsArguments_To_def
      BreakpointLocationsArguments_From_def
      BreakpointLocationsArguments_ok_def BreakpointLocationsArguments_new_def Let_def msg_build msg_read ser_Source.From_To ser_Source.elements)

interpretation ser_BreakpointLocationsArguments: serialisable BreakpointLocationsArguments_To BreakpointLocationsArguments_From BreakpointLocationsArguments_ok BreakpointLocationsArguments_new
  by unfold_locales (rule BreakpointLocationsArguments_To_ok BreakpointLocationsArguments_From_To; assumption)+

record StepArguments =
  sa_threadId :: int
  sa_singleThread :: bool
  sa_granularity :: string

definition StepArguments_new :: "StepArguments" where
  "StepArguments_new = \<lparr> sa_threadId = wxNOT_FOUND, sa_singleThread = True, sa_granularity = ''line'' \<rparr>"

definition StepArguments_To :: "'d fp \<Rightarrow> StepArguments \<Rightarrow> 'd Json" where
  "StepArguments_To F x =
     (let json = Json_CreateObject F;
          json = Json_Add_int F ''threadId'' (sa_threadId x) json;
          json = Json_Add_bool F ''singleThread'' (sa_singleThread x) json;
          json = Json_Add_string F ''granularity'' (sa_granularity x) json
      in json)"

definition StepArguments_From :: "'d fp \<Rightarrow> 'd Json \<Rightarrow> StepArguments \<Rightarrow> StepArguments" where
  "StepArguments_From F json x =
     x\<lparr> sa_threadId := Json_GetInteger wxNOT_FOUND (Json_member json ''threadId''),
       sa_singleThread := Json_GetBool (sa_singleThread x) (Json_member json ''singleThread''),
       sa_granularity := Json_GetString (sa_granularity x) (Json_member json ''granularity'') \<rparr>"

definition StepArguments_ok :: "StepArguments \<Rightarrow> bool" where
  "StepArguments_ok x \<longleftrightarrow> int32 (sa_threadId x) \<and> sa_singleThread x \<and> no_nul (sa_granularity x)"

lemma StepArguments_To_ok: "fp_ok F \<Longrightarrow> StepArguments_ok x \<Longrightarrow> obj_ok F (StepArguments_To F x)"
  by (auto simp: StepArguments_To_def
        StepArguments_ok_def Let_def msg_build
      intro!: msg_wf intro: msg_wf_leaf)

lemma StepArguments_From_To:
  "fp_ok F \<Longrightarrow> StepArguments_ok x \<Longrightarrow> StepArguments_From F (named s (norm_j (StepArguments_To F x))) StepArguments_new = x"
  by (cases x) (simp add: StepArguments_To_def
      StepArguments_From_def
      StepArguments_ok_def StepArguments_new_def Let_def msg_build msg_read)

interpretation ser_StepArguments: serialisable StepArguments_To StepArguments_From StepArguments_ok StepArguments_new
  by unfold_locales (rule StepArguments_To_ok StepArguments_From_To; assumption)+

record SetBreakpointsArguments =
  ga_source :: Source
  ga_breakpoints :: "SourceBreakpoint list"

definition SetBreakpointsArguments_new :: "SetBreakpointsArguments" where
  "SetBreakpointsArguments_new = \<lparr> ga_source = Source_new, ga_breakpoints = [] \<rparr>"

definition SetBreakpointsArguments_To :: "'d fp \<Rightarrow> SetBreakpointsArguments \<Rightarrow> 'd Json" where
  "SetBreakpointsArguments_To F x =
     (let json = Json_CreateObject F;
          json = Json_Add_json ''source'' (Source_To F (ga_source x)) json;
          json = Json_AddItem ''breakpoints'' (json_array F (map (SourceBreakpoint_To F) (ga_breakpoints x))) json
      in json)"

definition SetBreakpointsArguments_From :: "'d fp \<Rightarrow> 'd Json \<Rightarrow> SetBreakpointsArguments \<Rightarrow> SetBreakpointsArguments" where
  "SetBreakpointsArguments_From F json x =
     x\<lparr> ga_source := Source_From F (Json_member json ''source'') (ga_source x),
       ga_breakpoints := json_elements (\<lambda>e. SourceBreakpoint_From F e SourceBreakpoint_new) (Json_member json ''breakpoints'') \<rparr>"

definition SetBreakpointsArguments_ok :: "SetBreakpointsArguments \<Rightarrow> bool" where
  "SetBreakpointsArguments_ok x \<longleftrightarrow> Source_ok (ga_source x) \<and> list_all SourceBreakpoint_ok (ga_breakpoints x)"

lemma SetBreakpointsArguments_To_ok: "fp_ok F \<Longrightarrow> SetBreakpointsArguments_ok x \<Longrightarrow> obj_ok F (SetBreakpointsArguments_To F x)"
  by (auto simp: SetBreakpointsArguments_To_def
        SetBreakpointsArguments_ok_def Let_def msg_build
      intro!: msg_wf intro: msg_wf_leaf ser_Source.To_wf ser_Source.array_wf ser_SourceBreakpoint.To_wf ser_SourceBreakpoint.array_wf)

lemma SetBreakpointsArguments_From_To:
  "fp_ok F \<Longrightarrow> SetBreakpointsArguments_ok x \<Longrightarrow> SetBreakpointsArguments_From F (named s (norm_j (SetBreakpointsArguments_To F x))) SetBreakpointsArguments_new = x"
  by (cases x) (simp add: SetBreakpointsArguments_To_def
      SetBreakpointsArguments_From_def
      SetBreakpointsArguments_ok_def SetBreakpointsArguments_new_def Let_def msg_build msg_read ser_Source.From_To ser_Source.elements ser_SourceBreakpoint.From_To ser_SourceBreakpoint.elements)

interpretation ser_SetBreakpointsArguments: serialisable SetBreakpointsArguments_To SetBreakpointsArguments_From SetBreakpointsArguments_ok SetBreakpointsArguments_new
  by unfold_locales (rule SetBreakpointsArguments_To_ok SetBreakpointsArguments_From_To; assumption)+

record SetFunctionBreakpointsArguments =
  fa_breakpoints :: "FunctionBreakpoint list"

definition SetFunctionBreakpointsArguments_new :: "SetFunctionBreakpointsArguments" where
  "SetFunctionBreakpointsArguments_new = \<lparr> fa_breakpoints = [] \<rparr>"

definition SetFunctionBreakpointsArguments_To :: "'d fp \<Rightarrow> SetFunctionBreakpointsArguments \<Rightarrow> 'd Json" where
  "SetFunctionBreakpointsArguments_To F x =
     (let json = Json_CreateObject F;
          json = Json_AddItem ''breakpoints'' (json_array F (map (FunctionBreakpoint_To F) (fa_breakpoints x))) json
      in json)"

definition SetFunctionBreakpointsArguments_From :: "'d fp \<Rightarrow> 'd Json \<Rightarrow> SetFunctionBreakpointsArguments \<Rightarrow> SetFunctionBreakpointsArguments" where
  "SetFunctionBreakpointsArguments_From F json x =
     x\<lparr> fa_breakpoints := json_elements (\<lambda>e. FunctionBreakpoint_From F e FunctionBreakpoint_new) (Json_member json ''breakpoints'') \<rparr>"

definition SetFunctionBreakpointsArguments_ok :: "SetFunctionBreakpointsArguments \<Rightarrow> bool" where
  "SetFunctionBreakpointsArguments_ok x \<longleftrightarrow> list_all FunctionBreakpoint_ok (fa_breakpoints x)"

lemma SetFunctionBreakpointsArguments_To_ok: "fp_ok F \<Longrightarrow> SetFunctionBreakpointsArguments_ok x \<Longrightarrow> obj_ok F (SetFunctionBreakpointsArguments_To F x)"
  by (auto simp: SetFunctionBreakpointsArguments_To_def
        SetFunctionBreakpointsArguments_ok_def Let_def msg_build
      intro!: msg_wf intro: msg_wf_leaf ser_FunctionBreakpoint.To_wf ser_FunctionBreakpoint.array_wf)

lemma SetFunctionBreakpointsArguments_From_To:
  "fp_ok F \<Longrightarrow> SetFunctionBreakpointsArguments_ok x \<Longrightarrow> SetFunctionBreakpointsArguments_From F (named s (norm_j (SetFunctionBreakpointsArguments_To F x))) SetFunctionBreakpointsArguments_new = x"
  by (cases x) (simp add: SetFunctionBreakpointsArguments_To_def
      SetFunctionBreakpointsArguments_From_def
      SetFunctionBreakpointsArguments_ok_def SetFunctionBreakpointsArguments_new_def Let_def msg_build msg_read ser_FunctionBreakpoint.From_To ser_FunctionBreakpoint.elements)

interpretation ser_SetFunctionBreakpointsArguments: serialisable SetFunctionBreakpointsArguments_To SetFunctionBreakpointsArguments_From SetFunctionBreakpointsArguments_ok SetFunctionBreakpointsArguments_new
  by unfold_locales (rule SetFunctionBreakpointsArguments_To_ok SetFunctionBreakpointsArguments_From_To; assumption)+

record SetExceptionBreakpointsArguments =
  xa_filters :: "string list"

definition SetExceptionBreakpointsArguments_new :: "SetExceptionBreakpointsArguments" where
  "SetExceptionBreakpointsArguments_new = \<lparr> xa_filters = [] \<rparr>"

definition SetExceptionBreakpointsArguments_To ::
  "'d fp \<Rightarrow> SetExceptionBreakpointsArguments \<Rightarrow> 'd Json" where
  "SetExceptionBreakpointsArguments_To F x =
     Json_AddItem ''filters'' (string_array F (xa_filters x)) (Json_CreateObject F)"

definition SetExceptionBreakpointsArguments_From ::
  "'d fp \<Rightarrow> 'd Json \<Rightarrow> SetExceptionBreakpointsArguments \<Rightarrow> SetExceptionBreakpointsArguments" where
  "SetExceptionBreakpointsArguments_From F json x =
     x\<lparr> xa_filters := json_elements (Json_ToString F True) (Json_member json ''filters'') \<rparr>"

record ContinueArguments =
  ca_threadId :: int
  ca_singleThread :: bool

definition ContinueArguments_new :: "ContinueArguments" where
  "ContinueArguments_new = \<lparr> ca_threadId = - 1, ca_singleThread = False \<rparr>"

definition ContinueArguments_To :: "'d fp \<Rightarrow> ContinueArguments \<Rightarrow> 'd Json" where
  "ContinueArguments_To F x =
     (let json = Json_CreateObject F;
          json = Json_Add_int F ''threadId'' (ca_threadId x) json;
          json = Json_Add_bool F ''singleThread'' (ca_singleThread x) json
      in json)"

definition ContinueArguments_From :: "'d fp \<Rightarrow> 'd Json \<Rightarrow> ContinueArguments \<Rightarrow> ContinueArguments" where
  "ContinueArguments_From F json x =
     x\<lparr> ca_threadId := Json_GetInteger (- 1) (Json_member json ''threadId''),
       ca_singleThread := Json_GetBool False (Json_member json ''singleThread'') \<rparr>"

definition ContinueArguments_ok :: "ContinueArguments \<Rightarrow> bool" where
  "ContinueArguments_ok x \<longleftrightarrow> int32 (ca_threadId x)"

lemma ContinueArguments_To_ok: "fp_ok F \<Longrightarrow> ContinueArguments_ok x \<Longrightarrow> obj_ok F (ContinueArguments_To F x)"
  by (auto simp: ContinueArguments_To_def
        ContinueArguments_ok_def Let_def msg_build
      intro!: msg_wf intro: msg_wf_leaf)

lemma ContinueArguments_From_To:
  "fp_ok F \<Longrightarrow> ContinueArguments_ok x \<Longrightarrow> ContinueArguments_From F (named s (norm_j (ContinueArguments_To F x))) ContinueArguments_new = x"
  by (cases x) (simp add: ContinueArguments_To_def
      ContinueArguments_From_def
      ContinueArguments_ok_def ContinueArguments_new_def Let_def msg_build msg_read)

interpretation ser_ContinueArguments: serialisable ContinueArguments_To ContinueArguments_From ContinueArguments_ok ContinueArguments_new
  by unfold_locales (rule ContinueArguments_To_ok ContinueArguments_From_To; assumption)+

record NextArguments =
  na_threadId :: int
  na_granularity :: string
  na_singleThread :: bool

definition NextArguments_new :: "NextArguments" where
  "NextArguments_new = \<lparr> na_threadId = - 1, na_granularity = ''line'', na_singleThread = True \<rparr>"

definition NextArguments_To :: "'d fp \<Rightarrow> NextArguments \<Rightarrow> 'd Json" where
  "NextArguments_To F x =
     (let json = Json_CreateObject F;
          json = Json_Add_int F ''threadId'' (na_threadId x) json;
          json = Json_Add_string F ''granularity'' (na_granularity x) json;
          json = Json_Add_bool F ''singleThread'' (na_singleThread x) json
      in json)"

definition NextArguments_From :: "'d fp \<Rightarrow> 'd Json \<Rightarrow> NextArguments \<Rightarrow> NextArguments" where
  "NextArguments_From F json x =
     x\<lparr> na_threadId := Json_GetInteger (- 1) (Json_member json ''threadId''),
       na_granularity := Json_GetString [] (Json_member json ''granularity''),
       na_singleThread := Json_GetBool False (Json_member json ''singleThread'') \<rparr>"

definition NextArguments_ok :: "NextArguments \<Rightarrow> bool" where
  "NextArguments_ok x \<longleftrightarrow> int32 (na_threadId x) \<and> no_nul (na_granularity x)"

lemma NextArguments_To_ok: "fp_ok F \<Longrightarrow> NextArguments_ok x \<Longrightarrow> obj_ok F (NextArguments_To F x)"
  by (auto simp: NextArguments_To_def
        NextArguments_ok_def Let_def msg_build
      intro!: msg_wf intro: msg_wf_leaf)

lemma NextArguments_From_To:
  "fp_ok F \<Longrightarrow> NextArguments_ok x \<Longrightarrow> NextArguments_From F (named s (norm_j (NextArguments_To F x))) NextArguments_new = x"
  by (cases x) (simp add: NextArguments_To_def
      NextArguments_From_def
      NextArguments_ok_def NextArguments_new_def Let_def msg_build msg_read)

interpretation ser_NextArguments: serialisable NextArguments_To NextArguments_From NextArguments_ok NextArguments_new
  by unfold_locales (rule NextArguments_To_ok NextArguments_From_To; assumption)+

record ScopesArguments =
  pa_frameId :: int

definition ScopesArguments_new :: "ScopesArguments" where
  "ScopesArguments_new = \<lparr> pa_frameId = 0 \<rparr>"

definition ScopesArguments_To :: "'d fp \<Rightarrow> ScopesArguments \<Rightarrow> 'd Json" where
  "ScopesArguments_To F x =
     (let json = Json_CreateObject F;
          json = Json_Add_int F ''frameId'' (pa_frameId x) json
      in json)"

definition ScopesArguments_From :: "'d fp \<Rightarrow> 'd Json \<Rightarrow> ScopesArguments \<Rightarrow> ScopesArguments" where
  "ScopesArguments_From F json x =
     x\<lparr> pa_frameId := fp_to_int F (Json_GetNumber (fp_of_int F (- 1)) (Json_member json ''frameId'')) \<rparr>"

definition ScopesArguments_ok :: "ScopesArguments \<Rightarrow> bool" where
  "ScopesArguments_ok x \<longleftrightarrow> int32 (pa_frameId x)"

lemma ScopesArguments_To_ok: "fp_ok F \<Longrightarrow> ScopesArguments_ok x \<Longrightarrow> obj_ok F (ScopesArguments_To F x)"
  by (auto simp: ScopesArguments_To_def
        ScopesArguments_ok_def Let_def msg_build
      intro!: msg_wf intro: msg_wf_leaf)

lemma ScopesArguments_From_To:
  "fp_ok F \<Longrightarrow> ScopesArguments_ok x \<Longrightarrow> ScopesArguments_From F (named s (norm_j (ScopesArguments_To F x))) ScopesArguments_new = x"
  by (cases x) (simp add: ScopesArguments_To_def
      ScopesArguments_From_def
      ScopesArguments_ok_def ScopesArguments_new_def Let_def msg_build msg_read)

interpretation ser_ScopesArguments: serialisable ScopesArguments_To ScopesArguments_From ScopesArguments_ok ScopesArguments_new
  by unfold_locales (rule ScopesArguments_To_ok ScopesArguments_From_To; assumption)+

record StackTraceArguments =
  ka_threadId :: int
  ka_startFrame :: int
  ka_levels :: int

definition StackTraceArguments_new :: "StackTraceArguments" where
  "StackTraceArguments_new = \<lparr> ka_threadId = 0, ka_startFrame = 0, ka_levels = 0 \<rparr>"

definition StackTraceArguments_To :: "'d fp \<Rightarrow> StackTraceArguments \<Rightarrow> 'd Json" where
  "StackTraceArguments_To F x =
     (let json = Json_CreateObject F;
          json = Json_Add_int F ''threadId'' (ka_threadId x) json
      in json)"

definition StackTraceArguments_From :: "'d fp \<Rightarrow> 'd Json \<Rightarrow> StackTraceArguments \<Rightarrow> StackTraceArguments" where
  "StackTraceArguments_From F json x =
     x\<lparr> ka_threadId := Json_GetInteger (- 1) (Json_member json ''threadId'') \<rparr>"

definition StackTraceArguments_ok :: "StackTraceArguments \<Rightarrow> bool" where
  "StackTraceArguments_ok x \<longleftrightarrow> int32 (ka_threadId x) \<and> ka_startFrame x = 0 \<and> ka_levels x = 0"

lemma StackTraceArguments_To_ok: "fp_ok F \<Longrightarrow> StackTraceArguments_ok x \<Longrightarrow> obj_ok F (StackTraceArguments_To F x)"
  by (auto simp: StackTraceArguments_To_def
        StackTraceArguments_ok_def Let_def msg_build
      intro!: msg_wf intro: msg_wf_leaf)

lemma StackTraceArguments_From_To:
  "fp_ok F \<Longrightarrow> StackTraceArguments_ok x \<Longrightarrow> StackTraceArguments_From F (named s (norm_j (StackTraceArguments_To F x))) StackTraceArguments_new = x"
  by (cases x) (simp add: StackTraceArguments_To_def
      StackTraceArguments_From_def
      StackTraceArguments_ok_def StackTraceArguments_new_def Let_def msg_build msg_read)

interpretation ser_StackTraceArguments: serialisable StackTraceArguments_To StackTraceArguments_From StackTraceArguments_ok StackTraceArguments_new
  by unfold_locales (rule StackTraceArguments_To_ok StackTraceArguments_From_To; assumption)+

record VariablesArguments =
  va_variablesReference :: int
  va_format :: ValueFormat
  va_start :: int
  va_count :: int
  va_filter :: string

definition VariablesArguments_new :: "VariablesArguments" where
  "VariablesArguments_new = \<lparr> va_variablesReference = 0, va_format = ValueFormat_new, va_start = 0,
     va_count = 0, va_filter = [] \<rparr>"

definition VariablesArguments_To :: "'d fp \<Rightarrow> VariablesArguments \<Rightarrow> 'd Json" where
  "VariablesArguments_To F x =
     (let json = Json_CreateObject F;
          json = Json_Add_int F ''variablesReference'' (va_variablesReference x) json;
          json = Json_Add_int F ''count'' (va_count x) json;
          json = Json_Add_json ''format'' (ValueFormat_To F (va_format x)) json
      in json)"

definition VariablesArguments_From :: "'d fp \<Rightarrow> 'd Json \<Rightarrow> VariablesArguments \<Rightarrow> VariablesArguments" where
  "VariablesArguments_From F json x =
     x\<lparr> va_variablesReference := Json_GetInteger (- 1) (Json_member json ''variablesReference''),
       va_count := Json_GetInteger 0 (Json_member json ''count''),
       va_format := ValueFormat_From F (Json_member json ''format'') (va_format x) \<rparr>"

definition VariablesArguments_ok :: "VariablesArguments \<Rightarrow> bool" where
  "VariablesArguments_ok x \<longleftrightarrow> int32 (va_variablesReference x) \<and> ValueFormat_ok (va_format x) \<and> va_start x = 0
     \<and> int32 (va_count x) \<and> va_filter x = []"

lemma VariablesArguments_To_ok: "fp_ok F \<Longrightarrow> VariablesArguments_ok x \<Longrightarrow> obj_ok F (VariablesArguments_To F x)"
  by (auto simp: VariablesArguments_To_def
        VariablesArguments_ok_def Let_def msg_build
      intro!: msg_wf intro: msg_wf_leaf ser_ValueFormat.To_wf ser_ValueFormat.array_wf)

lemma VariablesArguments_From_To:
  "fp_ok F \<Longrightarrow> VariablesArguments_ok x \<Longrightarrow> VariablesArguments_From F (named s (norm_j (VariablesArguments_To F x))) VariablesArguments_new = x"
  by (cases x) (simp add: VariablesArguments_To_def
      VariablesArguments_From_def
      VariablesArguments_ok_def VariablesArguments_new_def Let_def msg_build msg_read ser_ValueFormat.From_To ser_ValueFormat.elements)

interpretation ser_VariablesArguments: serialisable VariablesArguments_To VariablesArguments_From VariablesArguments_ok VariablesArguments_new
  by unfold_locales (rule VariablesArguments_To_ok VariablesArguments_From_To; assumption)+

record PauseArguments =
  ua_threadId :: int

definition PauseArguments_new :: "PauseArguments" where
  "PauseArguments_new = \<lparr> ua_threadId = 0 \<rparr>"

definition PauseArguments_To :: "'d fp \<Rightarrow> PauseArguments \<Rightarrow> 'd Json" where
  "PauseArguments_To F x =
     (let json = Json_CreateObject F;
          json = Json_Add_int F ''threadId'' (ua_threadId x) json
      in json)"

definition PauseArguments_From :: "'d fp \<Rightarrow> 'd Json \<Rightarrow> PauseArguments \<Rightarrow> PauseArguments" where
  "PauseArguments_From F json x =
     x\<lparr> ua_threadId := Json_GetInteger (ua_threadId x) (Json_member json ''threadId'') \<rparr>"

definition PauseArguments_ok :: "PauseArguments \<Rightarrow> bool" where
  "PauseArguments_ok x \<longleftrightarrow> int32 (ua_threadId x)"

lemma PauseArguments_To_ok: "fp_ok F \<Longrightarrow> PauseArguments_ok x \<Longrightarrow> obj_ok F (PauseArguments_To F x)"
  by (auto simp: PauseArguments_To_def
        PauseArguments_ok_def Let_def msg_build
      intro!: msg_wf intro: msg_wf_leaf)

lemma PauseArguments_From_To:
  "fp_ok F \<Longrightarrow> PauseArguments_ok x \<Longrightarrow> PauseArguments_From F (named s (norm_j (PauseArguments_To F x))) PauseArguments_new = x"
  by (cases x) (simp add: PauseArguments_To_def
      PauseArguments_From_def
      PauseArguments_ok_def PauseArguments_new_def Let_def msg_build msg_read)

interpretation ser_PauseArguments: serialisable PauseArguments_To PauseArguments_From PauseArguments_ok PauseArguments_new
  by unfold_locales (rule PauseArguments_To_ok PauseArguments_From_To; assumption)+

record RunInTerminalRequestArguments =
  ra_kind :: string
  ra_title :: string
  ra_args :: "string list"

definition RunInTerminalRequestArguments_new :: "RunInTerminalRequestArguments" where
  "RunInTerminalRequestArguments_new = \<lparr> ra_kind = [], ra_title = [], ra_args = [] \<rparr>"

definition RunInTerminalRequestArguments_To :: "'d fp \<Rightarrow> RunInTerminalRequestArguments \<Rightarrow> 'd Json" where
  "RunInTerminalRequestArguments_To F x =
     (let json = Json_CreateObject F;
          json = Json_Add_string F ''kind'' (ra_kind x) json;
          json = Json_Add_string F ''title'' (ra_title x) json;
          json = Json_Add_strings F ''args'' (ra_args x) json
      in json)"

definition RunInTerminalRequestArguments_From :: "'d fp \<Rightarrow> 'd Json \<Rightarrow> RunInTerminalRequestArguments \<Rightarrow> RunInTerminalRequestArguments" where
  "RunInTerminalRequestArguments_From F json x =
     x\<lparr> ra_kind := Json_GetString (ra_kind x) (Json_member json ''kind''),
       ra_title := Json_GetString (ra_title x) (Json_member json ''title''),
       ra_args := Json_GetStringArray (Json_member json ''args'') \<rparr>"

definition RunInTerminalRequestArguments_ok :: "RunInTerminalRequestArguments \<Rightarrow> bool" where
  "RunInTerminalRequestArguments_ok x \<longleftrightarrow> no_nul (ra_kind x) \<and> no_nul (ra_title x) \<and> list_all no_nul (ra_args x)"

lemma RunInTerminalRequestArguments_To_ok: "fp_ok F \<Longrightarrow> RunInTerminalRequestArguments_ok x \<Longrightarrow> obj_ok F (RunInTerminalRequestArguments_To F x)"
  by (auto simp: RunInTerminalRequestArguments_To_def
        RunInTerminalRequestArguments_ok_def Let_def msg_build
      intro!: msg_wf intro: msg_wf_leaf)

lemma RunInTerminalRequestArguments_From_To:
  "fp_ok F \<Longrightarrow> RunInTerminalRequestArguments_ok x \<Longrightarrow> RunInTerminalRequestArguments_From F (named s (norm_j (RunInTerminalRequestArguments_To F x))) RunInTerminalRequestArguments_new = x"
  by (cases x) (simp add: RunInTerminalRequestArguments_To_def
      RunInTerminalRequestArguments_From_def
      RunInTerminalRequestArguments_ok_def RunInTerminalRequestArguments_new_def Let_def msg_build msg_read)

interpretation ser_RunInTerminalRequestArguments: serialisable RunInTerminalRequestArguments_To RunInTerminalRequestArguments_From RunInTerminalRequestArguments_ok RunInTerminalRequestArguments_new
  by unfold_locales (rule RunInTerminalRequestArguments_To_ok RunInTerminalRequestArguments_From_To; assumption)+

record SourceArguments =
  oa_source :: Source
  oa_sourceReference :: int

definition SourceArguments_new :: "SourceArguments" where
  "SourceArguments_new = \<lparr> oa_source = Source_new, oa_sourceReference = 0 \<rparr>"

definition SourceArguments_To :: "'d fp \<Rightarrow> SourceArguments \<Rightarrow> 'd Json" where
  "SourceArguments_To F x =
     (let json = Json_CreateObject F;
          json = Json_Add_json ''source'' (Source_To F (oa_source x)) json;
          json = (if oa_sourceReference x > 0 then Json_Add_int F ''sourceReference'' (oa_sourceReference x) json else json)
      in json)"

definition SourceArguments_From :: "'d fp \<Rightarrow> 'd Json \<Rightarrow> SourceArguments \<Rightarrow> SourceArguments" where
  "SourceArguments_From F json x =
     x\<lparr> oa_source := Source_From F (Json_member json ''source'') (oa_source x),
       oa_sourceReference := Json_GetInteger 0 (Json_member json ''sourceReference'') \<rparr>"

definition SourceArguments_ok :: "SourceArguments \<Rightarrow> bool" where
  "SourceArguments_ok x \<longleftrightarrow> Source_ok (oa_source x) \<and> int32 (oa_sourceReference x) \<and> 0 \<le> oa_sourceReference x"

lemma SourceArguments_To_ok: "fp_ok F \<Longrightarrow> SourceArguments_ok x \<Longrightarrow> obj_ok F (SourceArguments_To F x)"
  by (auto simp: SourceArguments_To_def
        SourceArguments_ok_def Let_def msg_build
      intro!: msg_wf intro: msg_wf_leaf ser_Source.To_wf ser_Source.array_wf)

lemma SourceArguments_From_To:
  "fp_ok F \<Longrightarrow> SourceArguments_ok x \<Longrightarrow> SourceArguments_From F (named s (norm_j (SourceArguments_To F x))) SourceArguments_new = x"
  by (cases x) (simp add: SourceArguments_To_def
      SourceArguments_From_def
      SourceArguments_ok_def SourceArguments_new_def Let_def msg_build msg_read ser_Source.From_To ser_Source.elements)

interpretation ser_SourceArguments: serialisable SourceArguments_To SourceArguments_From SourceArguments_ok SourceArguments_new
  by unfold_locales (rule SourceArguments_To_ok SourceArguments_From_To; assumption)+

record EvaluateArguments =
  ea_expression :: string
  ea_frameId :: int
  ea_context :: string
  ea_format :: ValueFormat

definition EvaluateArguments_new :: "EvaluateArguments" where
  "EvaluateArguments_new = \<lparr> ea_expression = [], ea_frameId = wxNOT_FOUND, ea_context = ''hover'',
     ea_format = ValueFormat_new \<rparr>"

definition EvaluateArguments_To :: "'d fp \<Rightarrow> EvaluateArguments \<Rightarrow> 'd Json" where
  "EvaluateArguments_To F x =
     (let json = Json_CreateObject F;
          json = Json_Add_string F ''expression'' (ea_expression x) json;
          json = (if ea_frameId x > 0 then Json_Add_int F ''frameId'' (ea_frameId x) json else json);
          json = Json_Add_string F ''context'' (ea_context x) json;
          json = Json_Add_json ''format'' (ValueFormat_To F (ea_format x)) json
      in json)"

definition EvaluateArguments_From :: "'d fp \<Rightarrow> 'd Json \<Rightarrow> EvaluateArguments \<Rightarrow> EvaluateArguments" where
  "EvaluateArguments_From F json x =
     x\<lparr> ea_expression := Json_GetString (ea_expression x) (Json_member json ''expression''),
       ea_frameId := Json_GetInteger wxNOT_FOUND (Json_member json ''frameId''),
       ea_context := Json_GetString (ea_context x) (Json_member json ''context''),
       ea_format := ValueFormat_From F (Json_member json ''format'') (ea_format x) \<rparr>"

definition EvaluateArguments_ok :: "EvaluateArguments \<Rightarrow> bool" where
  "EvaluateArguments_ok x \<longleftrightarrow> no_nul (ea_expression x) \<and> int32 (ea_frameId x) \<and> (0 < ea_frameId x \<or> ea_frameId x = wxNOT_FOUND) \<and> no_nul (ea_context x)
     \<and> ValueFormat_ok (ea_format x)"

lemma EvaluateArguments_To_ok: "fp_ok F \<Longrightarrow> EvaluateArguments_ok x \<Longrightarrow> obj_ok F (EvaluateArguments_To F x)"
  by (auto simp: EvaluateArguments_To_def
        EvaluateArguments_ok_def Let_def msg_build
      intro!: msg_wf intro: msg_wf_leaf ser_ValueFormat.To_wf ser_ValueFormat.array_wf)

lemma EvaluateArguments_From_To:
  "fp_ok F \<Longrightarrow> EvaluateArguments_ok x \<Longrightarrow> EvaluateArguments_From F (named s (norm_j (EvaluateArguments_To F x))) EvaluateArguments_new = x"
  by (cases x) (auto simp: EvaluateArguments_To_def
      EvaluateArguments_From_def
      EvaluateArguments_ok_def EvaluateArguments_new_def Let_def msg_build msg_read ser_ValueFormat.From_To ser_ValueFormat.elements)

interpretation ser_EvaluateArguments: serialisable EvaluateArguments_To EvaluateArguments_From EvaluateArguments_ok EvaluateArguments_new
  by unfold_locales (rule EvaluateArguments_To_ok EvaluateArguments_From_To; assumption)+

record DisassembleArguments =
  da_memoryReference :: string
  da_offset :: int
  da_instructionOffset :: int
  da_instructionCount :: int
  da_resolveSymbols :: bool

definition DisassembleArguments_new :: "DisassembleArguments" where
  "DisassembleArguments_new = \<lparr> da_memoryReference = [], da_offset = 0, da_instructionOffset = 0,
     da_instructionCount = 0, da_resolveSymbols = True \<rparr>"

definition DisassembleArguments_To :: "'d fp \<Rightarrow> DisassembleArguments \<Rightarrow> 'd Json" where
  "DisassembleArguments_To F x =
     (let json = Json_CreateObject F;
          json = Json_Add_string F ''memoryReference'' (da_memoryReference x) json;
          json = Json_Add_int F ''offset'' (da_offset x) json;
          json = Json_Add_int F ''instructionOffset'' (da_instructionOffset x) json;
          json = Json_Add_int F ''instructionCount'' (da_instructionCount x) json;
          json = Json_Add_bool F ''resolveSymbols'' (da_resolveSymbols x) json
      in json)"

definition DisassembleArguments_From :: "'d fp \<Rightarrow> 'd Json \<Rightarrow> DisassembleArguments \<Rightarrow> DisassembleArguments" where
  "DisassembleArguments_From F json x =
     x"

record GotoArguments =
  gn_threadId :: int
  gn_targetId :: int

definition GotoArguments_new :: "GotoArguments" where
  "GotoArguments_new = \<lparr> gn_threadId = - 1, gn_targetId = - 1 \<rparr>"

definition GotoArguments_To :: "'d fp \<Rightarrow> GotoArguments \<Rightarrow> 'd Json" where
  "GotoArguments_To F x =
     (let json = Json_CreateObject F;
          json = Json_Add_int F ''threadId'' (gn_threadId x) json;
          json = Json_Add_int F ''targetId'' (gn_targetId x) json
      in json)"

definition GotoArguments_From :: "'d fp \<Rightarrow> 'd Json \<Rightarrow> GotoArguments \<Rightarrow> GotoArguments" where
  "GotoArguments_From F json x =
     x"

record GotoTargetsArguments =
  tg_source :: Source
  tg_line :: int
  tg_column :: int
  tg_threadId :: int

definition GotoTargetsArguments_new :: "GotoTargetsArguments" where
  "GotoTargetsArguments_new = \<lparr> tg_source = Source_new, tg_line = - 1, tg_column = 1,
     tg_threadId = 0 \<rparr>"

definition GotoTargetsArguments_To :: "'d fp \<Rightarrow> GotoTargetsArguments \<Rightarrow> 'd Json" where
  "GotoTargetsArguments_To F x =
     (let json = Json_CreateObject F;
          json = Json_AddObject ''source'' (Source_To F (tg_source x)) json;
          json = Json_Add_int F ''line'' (tg_line x) json;
          json = Json_Add_int F ''column'' (tg_column x) json
      in json)"

definition GotoTargetsArguments_From :: "'d fp \<Rightarrow> 'd Json \<Rightarrow> GotoTargetsArguments \<Rightarrow> GotoTargetsArguments" where
  "GotoTargetsArguments_From F json x =
     x"

record ReadMemoryArguments =
  ma_memoryReference :: string
  ma_offset :: int
  ma_count :: int

definition ReadMemoryArguments_new :: "ReadMemoryArguments" where
  "ReadMemoryArguments_new = \<lparr> ma_memoryReference = [], ma_offset = 0, ma_count = 0 \<rparr>"

definition ReadMemoryArguments_To :: "'d fp \<Rightarrow> ReadMemoryArguments \<Rightarrow> 'd Json" where
  "ReadMemoryArguments_To F x =
     (let json = Json_CreateObject F;
          json = Json_Add_string F ''memoryReference'' (ma_memoryReference x) json;
          json = Json_Add_int F ''offset'' (ma_offset x) json;
          json = Json_Add_int F ''count'' (ma_count x) json
      in json)"

definition ReadMemoryArguments_From :: "'d fp \<Rightarrow> 'd Json \<Rightarrow> ReadMemoryArguments \<Rightarrow> ReadMemoryArguments" where
  "ReadMemoryArguments_From F json x =
     x\<lparr> ma_memoryReference := Json_GetString [] (Json_member json ''memoryReference''),
       ma_offset := Json_GetInteger (- 1) (Json_member json ''offset''),
       ma_count := Json_GetInteger (- 1) (Json_member json ''count'') \<rparr>"

definition ReadMemoryArguments_ok :: "ReadMemoryArguments \<Rightarrow> bool" where
  "ReadMemoryArguments_ok x \<longleftrightarrow> no_nul (ma_memoryReference x) \<and> int32 (ma_offset x) \<and> int32 (ma_count x)"

lemma ReadMemoryArguments_To_ok: "fp_ok F \<Longrightarrow> ReadMemoryArguments_ok x \<Longrightarrow> obj_ok F (ReadMemoryArguments_To F x)"
  by (auto simp: ReadMemoryArguments_To_def
        ReadMemoryArguments_ok_def Let_def msg_build
      intro!: msg_wf intro: msg_wf_leaf)

lemma ReadMemoryArguments_From_To:
  "fp_ok F \<Longrightarrow> ReadMemoryArguments_ok x \<Longrightarrow> ReadMemoryArguments_From F (named s (norm_j (ReadMemoryArguments_To F x))) ReadMemoryArguments_new = x"
  by (cases x) (simp add: ReadMemoryArguments_To_def
      ReadMemoryArguments_From_def
      ReadMemoryArguments_ok_def ReadMemoryArguments_new_def Let_def msg_build msg_read)

interpretation ser_ReadMemoryArguments: serialisable ReadMemoryArguments_To ReadMemoryArguments_From ReadMemoryArguments_ok ReadMemoryArguments_new
  by unfold_locales (rule ReadMemoryArguments_To_ok ReadMemoryArguments_From_To; assumption)+

end
