(* ===== verification/Dap_MsgRequests.thy ===== *)
theory Dap_MsgRequests
  imports Dap_MsgArgs
begin

text \<open>
  The requests of the protocol: the header of \<open>Request\<close> and an \<open>arguments\<close> struct. A request
  class that only changes the command of its parent is a synonym with its own \<open>_new\<close>.
\<close>

record CancelRequest = Request +
  cr_requestId :: int

definition CancelRequest_new :: "CancelRequest" where
  "CancelRequest_new = \<lparr> pm_seq = - 1, pm_type = ''request'', rq_command = ''cancel'',
     cr_requestId = - 1 \<rparr>"

definition CancelRequest_To :: "'d fp \<Rightarrow> CancelRequest \<Rightarrow> 'd Json" where
  "CancelRequest_To F x =
     (let arguments = Json_CreateObject F;
          arguments = Json_Add_int F ''requestId'' (cr_requestId x) arguments;
          json = Request_To F x;
          json = Json_AddItem ''arguments'' arguments json
      in json)"

definition CancelRequest_From :: "'d fp \<Rightarrow> 'd Json \<Rightarrow> CancelRequest \<Rightarrow> CancelRequest" where
  "CancelRequest_From F json x =
     (let x' = Request_From F json x in
      if Json_IsOK (Json_member json ''arguments'')
      then x'\<lparr> cr_requestId := Json_GetInteger (- 1) (Json_member json ''arguments'') \<rparr>
      else x')"

record InitializeRequest = Request +
  ir_arguments :: InitializeRequestArguments

definition InitializeRequest_new :: "InitializeRequest" where
  "InitializeRequest_new = \<lparr> pm_seq = - 1, pm_type = ''request'', rq_command = ''initialize'',
     ir_arguments = InitializeRequestArguments_new \<rparr>"

definition InitializeRequest_To :: "'d fp \<Rightarrow> InitializeRequest \<Rightarrow> 'd Json" where
  "InitializeRequest_To F x =
     (let json = Request_To F x;
          json = Json_AddObject ''arguments'' (InitializeRequestArguments_To F (ir_arguments x)) json
      in json)"

definition InitializeRequest_From :: "'d fp \<Rightarrow> 'd Json \<Rightarrow> InitializeRequest \<Rightarrow> InitializeRequest" where
  "InitializeRequest_From F json x =
     (Request_From F json x)\<lparr>
       ir_arguments := InitializeRequestArguments_From F (Json_member json ''arguments'') (ir_arguments x) \<rparr>"

definition InitializeRequest_ok :: "InitializeRequest \<Rightarrow> bool" where
  "InitializeRequest_ok x \<longleftrightarrow> Request_ok x \<and> InitializeRequestArguments_ok (ir_arguments x)"

lemma InitializeRequest_To_ok: "fp_ok F \<Longrightarrow> InitializeRequest_ok x \<Longrightarrow> obj_ok F (InitializeRequest_To F x)"
  unfolding InitializeRequest_To_def Request_To_def ProtocolMessage_To_def Let_def
  by (simp only: msg_build, intro msg_wf)
    (auto simp: InitializeRequest_ok_def Request_ok_def ProtocolMessage_ok_def
      intro: msg_wf_leaf obj_ok_wf [OF _ InitializeRequestArguments_To_ok])

type_synonym ConfigurationDoneRequest = Request

definition ConfigurationDoneRequest_new :: "ConfigurationDoneRequest" where
  "ConfigurationDoneRequest_new = \<lparr> pm_seq = - 1, pm_type = ''request'', rq_command = ''configurationDone'' \<rparr>"

definition ConfigurationDoneRequest_To :: "'d fp \<Rightarrow> ConfigurationDoneRequest \<Rightarrow> 'd Json" where
  "ConfigurationDoneRequest_To F x =
     (let json = Request_To F x
      in json)"

definition ConfigurationDoneRequest_From :: "'d fp \<Rightarrow> 'd Json \<Rightarrow> ConfigurationDoneRequest \<Rightarrow> ConfigurationDoneRequest" where
  "ConfigurationDoneRequest_From F json x =
     (Request_From F json x)"

definition ConfigurationDoneRequest_ok :: "ConfigurationDoneRequest \<Rightarrow> bool" where
  "ConfigurationDoneRequest_ok x \<longleftrightarrow> Request_ok x"

lemma ConfigurationDoneRequest_To_ok: "fp_ok F \<Longrightarrow> ConfigurationDoneRequest_ok x \<Longrightarrow> obj_ok F (ConfigurationDoneRequest_To F x)"
  by (auto simp: ConfigurationDoneRequest_To_def Request_To_def ProtocolMessage_To_def
        ConfigurationDoneRequest_ok_def Request_ok_def ProtocolMessage_ok_def Let_def msg_build
      intro!: msg_wf intro: msg_wf_leaf)

lemma ConfigurationDoneRequest_From_To:
  "fp_ok F \<Longrightarrow> ConfigurationDoneRequest_ok x \<Longrightarrow> ConfigurationDoneRequest_From F (named s (norm_j (ConfigurationDoneRequest_To F x))) ConfigurationDoneRequest_new = x"
  by (cases x) (simp add: ConfigurationDoneRequest_To_def Request_To_def ProtocolMessage_To_def
      ConfigurationDoneRequest_From_def Request_From_def ProtocolMessage_From_def
      ConfigurationDoneRequest_ok_def Request_ok_def ProtocolMessage_ok_def ConfigurationDoneRequest_new_def Let_def msg_build msg_read)

interpretation ser_ConfigurationDoneRequest: serialisable ConfigurationDoneRequest_To ConfigurationDoneRequest_From ConfigurationDoneRequest_ok ConfigurationDoneRequest_new
  by unfold_locales (rule ConfigurationDoneRequest_To_ok ConfigurationDoneRequest_From_To; assumption)+

record LaunchRequest = Request +
  lr_arguments :: LaunchRequestArguments

definition LaunchRequest_new :: "LaunchRequest" where
  "LaunchRequest_new = \<lparr> pm_seq = - 1, pm_type = ''request'', rq_command = ''launch'',
     lr_arguments = LaunchRequestArguments_new \<rparr>"

definition LaunchRequest_To :: "'d fp \<Rightarrow> LaunchRequest \<Rightarrow> 'd Json" where
  "LaunchRequest_To F x =
     (let json = Request_To F x;
          json = Json_AddObject ''arguments'' (LaunchRequestArguments_To F (lr_arguments x)) json
      in json)"

definition LaunchRequest_From :: "'d fp \<Rightarrow> 'd Json \<Rightarrow> LaunchRequest \<Rightarrow> LaunchRequest" where
  "LaunchRequest_From F json x =
     (Request_From F json x)\<lparr>
       lr_arguments := LaunchRequestArguments_From F (Json_member json ''arguments'') (lr_arguments x) \<rparr>"

record AttachRequest = Request +
  ar_arguments :: AttachRequestArguments

definition AttachRequest_new :: "int \<Rightarrow> AttachRequest" where
  "AttachRequest_new uninit_pid = \<lparr> pm_seq = - 1, pm_type = ''request'', rq_command = ''attach'',
     ar_arguments = AttachRequestArguments_new uninit_pid \<rparr>"

definition AttachRequest_To :: "'d fp \<Rightarrow> AttachRequest \<Rightarrow> 'd Json" where
  "AttachRequest_To F x =
     (let json = Request_To F x;
          json = Json_AddObject ''arguments'' (AttachRequestArguments_To F (ar_arguments x)) json
      in json)"

definition AttachRequest_From :: "'d fp \<Rightarrow> 'd Json \<Rightarrow> AttachRequest \<Rightarrow> AttachRequest" where
  "AttachRequest_From F json x =
     (Request_From F json x)\<lparr>
       ar_arguments := AttachRequestArguments_From F (Json_member json ''arguments'') (ar_arguments x) \<rparr>"

record DisconnectRequest = Request +
  dr_restart :: bool
  dr_terminateDebuggee :: bool

definition DisconnectRequest_new :: "DisconnectRequest" where
  "DisconnectRequest_new = \<lparr> pm_seq = - 1, pm_type = ''request'', rq_command = ''disconnect'',
     dr_restart = False, dr_terminateDebuggee = True \<rparr>"

definition DisconnectRequest_To :: "'d fp \<Rightarrow> DisconnectRequest \<Rightarrow> 'd Json" where
  "DisconnectRequest_To F x =
     (let body = Json_CreateObject F;
          body = Json_Add_bool F ''restart'' (dr_restart x) body;
          body = Json_Add_bool F ''terminateDebuggee'' (dr_terminateDebuggee x) body;
          json = Request_To F x;
          json = Json_AddItem ''arguments'' body json
      in json)"

definition DisconnectRequest_From :: "'d fp \<Rightarrow> 'd Json \<Rightarrow> DisconnectRequest \<Rightarrow> DisconnectRequest" where
  "DisconnectRequest_From F json x =
     (let body = Json_member json ''arguments'' in
      (Request_From F json x)\<lparr>
       dr_restart := Json_GetBool False (Json_member body ''restart''),
       dr_terminateDebuggee := Json_GetBool (dr_terminateDebuggee x) (Json_member body ''terminateDebuggee'') \<rparr>)"

definition DisconnectRequest_ok :: "DisconnectRequest \<Rightarrow> bool" where
  "DisconnectRequest_ok x \<longleftrightarrow> Request_ok x \<and> dr_terminateDebuggee x"

lemma DisconnectRequest_To_ok: "fp_ok F \<Longrightarrow> DisconnectRequest_ok x \<Longrightarrow> obj_ok F (DisconnectRequest_To F x)"
  by (auto simp: DisconnectRequest_To_def Request_To_def ProtocolMessage_To_def
        DisconnectRequest_ok_def Request_ok_def ProtocolMessage_ok_def Let_def msg_build
      intro!: msg_wf intro: msg_wf_leaf)

lemma DisconnectRequest_From_To:
  "fp_ok F \<Longrightarrow> DisconnectRequest_ok x \<Longrightarrow> DisconnectRequest_From F (named s (norm_j (DisconnectRequest_To F x))) DisconnectRequest_new = x"
  by (cases x) (simp add: DisconnectRequest_To_def Request_To_def ProtocolMessage_To_def
      DisconnectRequest_From_def Request_From_def ProtocolMessage_From_def
      DisconnectRequest_ok_def Request_ok_def ProtocolMessage_ok_def DisconnectRequest_new_def Let_def msg_build msg_read)

interpretation ser_DisconnectRequest: serialisable DisconnectRequest_To DisconnectRequest_From DisconnectRequest_ok DisconnectRequest_new
  by unfold_locales (rule DisconnectRequest_To_ok DisconnectRequest_From_To; assumption)+

record TerminateRequest = Request +
  tr_arguments :: TerminateArguments

definition TerminateRequest_new :: "TerminateRequest" where
  "TerminateRequest_new = \<lparr> pm_seq = - 1, pm_type = ''request'', rq_command = ''terminate'',
     tr_arguments = TerminateArguments_new \<rparr>"

definition TerminateRequest_To :: "'d fp \<Rightarrow> TerminateRequest \<Rightarrow> 'd Json" where
  "TerminateRequest_To F x =
     (let json = Request_To F x;
          json = Json_AddObject ''arguments'' (TerminateArguments_To F (tr_arguments x)) json
      in json)"

definition TerminateRequest_From :: "'d fp \<Rightarrow> 'd Json \<Rightarrow> TerminateRequest \<Rightarrow> TerminateRequest" where
  "TerminateRequest_From F json x =
     (Request_From F json x)\<lparr>
       tr_arguments := TerminateArguments_From F (Json_member json ''arguments'') (tr_arguments x) \<rparr>"

definition TerminateRequest_ok :: "TerminateRequest \<Rightarrow> bool" where
  "TerminateRequest_ok x \<longleftrightarrow> Request_ok x \<and> TerminateArguments_ok (tr_arguments x)"

lemma TerminateRequest_To_ok: "fp_ok F \<Longrightarrow> TerminateRequest_ok x \<Longrightarrow> obj_ok F (TerminateRequest_To F x)"
  by (auto simp: TerminateRequest_To_def Request_To_def ProtocolMessage_To_def
        TerminateRequest_ok_def Request_ok_def ProtocolMessage_ok_def Let_def msg_build
      intro!: msg_wf intro: msg_wf_leaf ser_TerminateArguments.To_wf ser_TerminateArguments.array_wf)

lemma TerminateRequest_From_To:
  "fp_ok F \<Longrightarrow> TerminateRequest_ok x \<Longrightarrow> TerminateRequest_From F (named s (norm_j (TerminateRequest_To F x))) TerminateRequest_new = x"
  by (cases x) (simp add: TerminateRequest_To_def Request_To_def ProtocolMessage_To_def
      TerminateRequest_From_def Request_From_def ProtocolMessage_From_def
      TerminateRequest_ok_def Request_ok_def ProtocolMessage_ok_def TerminateRequest_new_def Let_def msg_build msg_read ser_TerminateArguments.From_To ser_TerminateArguments.elements)

interpretation ser_TerminateRequest: serialisable TerminateRequest_To TerminateRequest_From TerminateRequest_ok TerminateRequest_new
  by unfold_locales (rule TerminateRequest_To_ok TerminateRequest_From_To; assumption)+

record BreakpointLocationsRequest = Request +
  br_arguments :: BreakpointLocationsArguments

definition BreakpointLocationsRequest_new :: "BreakpointLocationsRequest" where
  "BreakpointLocationsRequest_new = \<lparr> pm_seq = - 1, pm_type = ''request'', rq_command = ''breakpointLocations'',
     br_arguments = BreakpointLocationsArguments_new \<rparr>"

definition BreakpointLocationsRequest_To :: "'d fp \<Rightarrow> BreakpointLocationsRequest \<Rightarrow> 'd Json" where
  "BreakpointLocationsRequest_To F x =
     (let json = Request_To F x;
          json = Json_AddObject ''arguments'' (BreakpointLocationsArguments_To F (br_arguments x)) json
      in json)"

definition BreakpointLocationsRequest_From :: "'d fp \<Rightarrow> 'd Json \<Rightarrow> BreakpointLocationsRequest \<Rightarrow> BreakpointLocationsRequest" where
  "BreakpointLocationsRequest_From F json x =
     (Request_From F json x)\<lparr>
       br_arguments := BreakpointLocationsArguments_From F (Json_member json ''arguments'') (br_arguments x) \<rparr>"

definition BreakpointLocationsRequest_ok :: "BreakpointLocationsRequest \<Rightarrow> bool" where
  "BreakpointLocationsRequest_ok x \<longleftrightarrow> Request_ok x \<and> BreakpointLocationsArguments_ok (br_arguments x)"

lemma BreakpointLocationsRequest_To_ok: "fp_ok F \<Longrightarrow> BreakpointLocationsRequest_ok x \<Longrightarrow> obj_ok F (BreakpointLocationsRequest_To F x)"
  by (auto simp: BreakpointLocationsRequest_To_def Request_To_def ProtocolMessage_To_def
        BreakpointLocationsRequest_ok_def Request_ok_def ProtocolMessage_ok_def Let_def msg_build
      intro!: msg_wf intro: msg_wf_leaf ser_BreakpointLocationsArguments.To_wf ser_BreakpointLocationsArguments.array_wf)

lemma BreakpointLocationsRequest_From_To:
  "fp_ok F \<Longrightarrow> BreakpointLocationsRequest_ok x \<Longrightarrow> BreakpointLocationsRequest_From F (named s (norm_j (BreakpointLocationsRequest_To F x))) BreakpointLocationsRequest_new = x"
  by (cases x) (simp add: BreakpointLocationsRequest_To_def Request_To_def ProtocolMessage_To_def
      BreakpointLocationsRequest_From_def Request_From_def ProtocolMessage_From_def
      BreakpointLocationsRequest_ok_def Request_ok_def ProtocolMessage_ok_def BreakpointLocationsRequest_new_def Let_def msg_build msg_read ser_BreakpointLocationsArguments.From_To ser_BreakpointLocationsArguments.elements)

interpretation ser_BreakpointLocationsRequest: serialisable BreakpointLocationsRequest_To BreakpointLocationsRequest_From BreakpointLocationsRequest_ok BreakpointLocationsRequest_new
  by unfold_locales (rule BreakpointLocationsRequest_To_ok BreakpointLocationsRequest_From_To; assumption)+

record SetBreakpointsRequest = Request +
  gr_arguments :: SetBreakpointsArguments

definition SetBreakpointsRequest_new :: "SetBreakpointsRequest" where
  "SetBreakpointsRequest_new = \<lparr> pm_seq = - 1, pm_type = ''request'', rq_command = ''setBreakpoints'',
     gr_arguments = SetBreakpointsArguments_new \<rparr>"

definition SetBreakpointsRequest_To :: "'d fp \<Rightarrow> SetBreakpointsRequest \<Rightarrow> 'd Json" where
  "SetBreakpointsRequest_To F x =
     (let json = Request_To F x;
          json = Json_AddObject ''arguments'' (SetBreakpointsArguments_To F (gr_arguments x)) json
      in json)"

definition SetBreakpointsRequest_From :: "'d fp \<Rightarrow> 'd Json \<Rightarrow> SetBreakpointsRequest \<Rightarrow> SetBreakpointsRequest" where
  "SetBreakpointsRequest_From F json x =
     (Request_From F json x)\<lparr>
       gr_arguments := SetBreakpointsArguments_From F (Json_member json ''arguments'') (gr_arguments x) \<rparr>"

definition SetBreakpointsRequest_ok :: "SetBreakpointsRequest \<Rightarrow> bool" where
  "SetBreakpointsRequest_ok x \<longleftrightarrow> Request_ok x \<and> SetBreakpointsArguments_ok (gr_arguments x)"

lemma SetBreakpointsRequest_To_ok: "fp_ok F \<Longrightarrow> SetBreakpointsRequest_ok x \<Longrightarrow> obj_ok F (SetBreakpointsRequest_To F x)"
  by (auto simp: SetBreakpointsRequest_To_def Request_To_def ProtocolMessage_To_def
        SetBreakpointsRequest_ok_def Request_ok_def ProtocolMessage_ok_def Let_def msg_build
      intro!: msg_wf intro: msg_wf_leaf ser_SetBreakpointsArguments.To_wf ser_SetBreakpointsArguments.array_wf)

lemma SetBreakpointsRequest_From_To:
  "fp_ok F \<Longrightarrow> SetBreakpointsRequest_ok x \<Longrightarrow> SetBreakpointsRequest_From F (named s (norm_j (SetBreakpointsRequest_To F x))) SetBreakpointsRequest_new = x"
  by (cases x) (simp add: SetBreakpointsRequest_To_def Request_To_def ProtocolMessage_To_def
      SetBreakpointsRequest_From_def Request_From_def ProtocolMessage_From_def
      SetBreakpointsRequest_ok_def Request_ok_def ProtocolMessage_ok_def SetBreakpointsRequest_new_def Let_def msg_build msg_read ser_SetBreakpointsArguments.From_To ser_SetBreakpointsArguments.elements)

interpretation ser_SetBreakpointsRequest: serialisable SetBreakpointsRequest_To SetBreakpointsRequest_From SetBreakpointsRequest_ok SetBreakpointsRequest_new
  by unfold_locales (rule SetBreakpointsRequest_To_ok SetBreakpointsRequest_From_To; assumption)+

record SetExceptionBreakpointsRequest = Request +
  xr_arguments :: SetExceptionBreakpointsArguments

definition SetExceptionBreakpointsRequest_new :: "SetExceptionBreakpointsRequest" where
  "SetExceptionBreakpointsRequest_new = \<lparr> pm_seq = - 1, pm_type = ''request'', rq_command = ''setExceptionBreakpoints'',
     xr_arguments = SetExceptionBreakpointsArguments_new \<rparr>"

definition SetExceptionBreakpointsRequest_To :: "'d fp \<Rightarrow> SetExceptionBreakpointsRequest \<Rightarrow> 'd Json" where
  "SetExceptionBreakpointsRequest_To F x =
     (let json = Request_To F x;
          json = Json_AddObject ''arguments'' (SetExceptionBreakpointsArguments_To F (xr_arguments x)) json
      in json)"

definition SetExceptionBreakpointsRequest_From :: "'d fp \<Rightarrow> 'd Json \<Rightarrow> SetExceptionBreakpointsRequest \<Rightarrow> SetExceptionBreakpointsRequest" where
  "SetExceptionBreakpointsRequest_From F json x =
     (Request_From F json x)\<lparr>
       xr_arguments := SetExceptionBreakpointsArguments_From F (Json_member json ''arguments'') (xr_arguments x) \<rparr>"

record SetFunctionBreakpointsRequest = Request +
  fr_arguments :: SetFunctionBreakpointsArguments

definition SetFunctionBreakpointsRequest_new :: "SetFunctionBreakpointsRequest" where
  "SetFunctionBreakpointsRequest_new = \<lparr> pm_seq = - 1, pm_type = ''request'', rq_command = ''setFunctionBreakpoints'',
     fr_arguments = SetFunctionBreakpointsArguments_new \<rparr>"

definition SetFunctionBreakpointsRequest_To :: "'d fp \<Rightarrow> SetFunctionBreakpointsRequest \<Rightarrow> 'd Json" where
  "SetFunctionBreakpointsRequest_To F x =
     (let json = Request_To F x;
          json = Json_AddObject ''arguments'' (SetFunctionBreakpointsArguments_To F (fr_arguments x)) json
      in json)"

definition SetFunctionBreakpointsRequest_From :: "'d fp \<Rightarrow> 'd Json \<Rightarrow> SetFunctionBreakpointsRequest \<Rightarrow> SetFunctionBreakpointsRequest" where
  "SetFunctionBreakpointsRequest_From F json x =
     (Request_From F json x)\<lparr>
       fr_arguments := SetFunctionBreakpointsArguments_From F (Json_member json ''arguments'') (fr_arguments x) \<rparr>"

definition SetFunctionBreakpointsRequest_ok :: "SetFunctionBreakpointsRequest \<Rightarrow> bool" where
  "SetFunctionBreakpointsRequest_ok x \<longleftrightarrow> Request_ok x \<and> SetFunctionBreakpointsArguments_ok (fr_arguments x)"

lemma SetFunctionBreakpointsRequest_To_ok: "fp_ok F \<Longrightarrow> SetFunctionBreakpointsRequest_ok x \<Longrightarrow> obj_ok F (SetFunctionBreakpointsRequest_To F x)"
  by (auto simp: SetFunctionBreakpointsRequest_To_def Request_To_def ProtocolMessage_To_def
        SetFunctionBreakpointsRequest_ok_def Request_ok_def ProtocolMessage_ok_def Let_def msg_build
      intro!: msg_wf intro: msg_wf_leaf ser_SetFunctionBreakpointsArguments.To_wf ser_SetFunctionBreakpointsArguments.array_wf)

lemma SetFunctionBreakpointsRequest_From_To:
  "fp_ok F \<Longrightarrow> SetFunctionBreakpointsRequest_ok x \<Longrightarrow> SetFunctionBreakpointsRequest_From F (named s (norm_j (SetFunctionBreakpointsRequest_To F x))) SetFunctionBreakpointsRequest_new = x"
  by (cases x) (simp add: SetFunctionBreakpointsRequest_To_def Request_To_def ProtocolMessage_To_def
      SetFunctionBreakpointsRequest_From_def Request_From_def ProtocolMessage_From_def
      SetFunctionBreakpointsRequest_ok_def Request_ok_def ProtocolMessage_ok_def SetFunctionBreakpointsRequest_new_def Let_def msg_build msg_read ser_SetFunctionBreakpointsArguments.From_To ser_SetFunctionBreakpointsArguments.elements)

interpretation ser_SetFunctionBreakpointsRequest: serialisable SetFunctionBreakpointsRequest_To SetFunctionBreakpointsRequest_From SetFunctionBreakpointsRequest_ok SetFunctionBreakpointsRequest_new
  by unfold_locales (rule SetFunctionBreakpointsRequest_To_ok SetFunctionBreakpointsRequest_From_To; assumption)+

record ContinueRequest = Request +
  co_arguments :: ContinueArguments

definition ContinueRequest_new :: "ContinueRequest" where
  "ContinueRequest_new = \<lparr> pm_seq = - 1, pm_type = ''request'', rq_command = ''continue'',
     co_arguments = ContinueArguments_new \<rparr>"

definition ContinueRequest_To :: "'d fp \<Rightarrow> ContinueRequest \<Rightarrow> 'd Json" where
  "ContinueRequest_To F x =
     (let json = Request_To F x;
          json = Json_AddObject ''arguments'' (ContinueArguments_To F (co_arguments x)) json
      in json)"

definition ContinueRequest_From :: "'d fp \<Rightarrow> 'd Json \<Rightarrow> ContinueRequest \<Rightarrow> ContinueRequest" where
  "ContinueRequest_From F json x =
     (Request_From F json x)\<lparr>
       co_arguments := ContinueArguments_From F (Json_member json ''arguments'') (co_arguments x) \<rparr>"

definition ContinueRequest_ok :: "ContinueRequest \<Rightarrow> bool" where
  "ContinueRequest_ok x \<longleftrightarrow> Request_ok x \<and> ContinueArguments_ok (co_arguments x)"

lemma ContinueRequest_To_ok: "fp_ok F \<Longrightarrow> ContinueRequest_ok x \<Longrightarrow> obj_ok F (ContinueRequest_To F x)"
  by (auto simp: ContinueRequest_To_def Request_To_def ProtocolMessage_To_def
        ContinueRequest_ok_def Request_ok_def ProtocolMessage_ok_def Let_def msg_build
      intro!: msg_wf intro: msg_wf_leaf ser_ContinueArguments.To_wf ser_ContinueArguments.array_wf)

lemma ContinueRequest_From_To:
  "fp_ok F \<Longrightarrow> ContinueRequest_ok x \<Longrightarrow> ContinueRequest_From F (named s (norm_j (ContinueRequest_To F x))) ContinueRequest_new = x"
  by (cases x) (simp add: ContinueRequest_To_def Request_To_def ProtocolMessage_To_def
      ContinueRequest_From_def Request_From_def ProtocolMessage_From_def
      ContinueRequest_ok_def Request_ok_def ProtocolMessage_ok_def ContinueRequest_new_def Let_def msg_build msg_read ser_ContinueArguments.From_To ser_ContinueArguments.elements)

interpretation ser_ContinueRequest: serialisable ContinueRequest_To ContinueRequest_From ContinueRequest_ok ContinueRequest_new
  by unfold_locales (rule ContinueRequest_To_ok ContinueRequest_From_To; assumption)+

record NextRequest = Request +
  nr_arguments :: NextArguments

definition NextRequest_new :: "NextRequest" where
  "NextRequest_new = \<lparr> pm_seq = - 1, pm_type = ''request'', rq_command = ''next'',
     nr_arguments = NextArguments_new \<rparr>"

definition NextRequest_To :: "'d fp \<Rightarrow> NextRequest \<Rightarrow> 'd Json" where
  "NextRequest_To F x =
     (let json = Request_To F x;
          json = Json_AddObject ''arguments'' (NextArguments_To F (nr_arguments x)) json
      in json)"

definition NextRequest_From :: "'d fp \<Rightarrow> 'd Json \<Rightarrow> NextRequest \<Rightarrow> NextRequest" where
  "NextRequest_From F json x =
     (Request_From F json x)\<lparr>
       nr_arguments := NextArguments_From F (Json_member json ''arguments'') (nr_arguments x) \<rparr>"

definition NextRequest_ok :: "NextRequest \<Rightarrow> bool" where
  "NextRequest_ok x \<longleftrightarrow> Request_ok x \<and> NextArguments_ok (nr_arguments x)"

lemma NextRequest_To_ok: "fp_ok F \<Longrightarrow> NextRequest_ok x \<Longrightarrow> obj_ok F (NextRequest_To F x)"
  by (auto simp: NextRequest_To_def Request_To_def ProtocolMessage_To_def
        NextRequest_ok_def Request_ok_def ProtocolMessage_ok_def Let_def msg_build
      intro!: msg_wf intro: msg_wf_leaf ser_NextArguments.To_wf ser_NextArguments.array_wf)

lemma NextRequest_From_To:
  "fp_ok F \<Longrightarrow> NextRequest_ok x \<Longrightarrow> NextRequest_From F (named s (norm_j (NextRequest_To F x))) NextRequest_new = x"
  by (cases x) (simp add: NextRequest_To_def Request_To_def ProtocolMessage_To_def
      NextRequest_From_def Request_From_def ProtocolMessage_From_def
      NextRequest_ok_def Request_ok_def ProtocolMessage_ok_def NextRequest_new_def Let_def msg_build msg_read ser_NextArguments.From_To ser_NextArguments.elements)

interpretation ser_NextRequest: serialisable NextRequest_To NextRequest_From NextRequest_ok NextRequest_new
  by unfold_locales (rule NextRequest_To_ok NextRequest_From_To; assumption)+

record StepRequest = Request +
  sr_arguments :: StepArguments

definition StepRequest_new :: "StepRequest" where
  "StepRequest_new = \<lparr> pm_seq = - 1, pm_type = ''request'', rq_command = ''step'',
     sr_arguments = StepArguments_new \<rparr>"

definition StepRequest_To :: "'d fp \<Rightarrow> StepRequest \<Rightarrow> 'd Json" where
  "StepRequest_To F x =
     (let json = Request_To F x;
          json = Json_AddObject ''arguments'' (StepArguments_To F (sr_arguments x)) json
      in json)"

definition StepRequest_From :: "'d fp \<Rightarrow> 'd Json \<Rightarrow> StepRequest \<Rightarrow> StepRequest" where
  "StepRequest_From F json x =
     (Request_From F json x)\<lparr>
       sr_arguments := StepArguments_From F (Json_member json ''arguments'') (sr_arguments x) \<rparr>"

definition StepRequest_ok :: "StepRequest \<Rightarrow> bool" where
  "StepRequest_ok x \<longleftrightarrow> Request_ok x \<and> StepArguments_ok (sr_arguments x)"

lemma StepRequest_To_ok: "fp_ok F \<Longrightarrow> StepRequest_ok x \<Longrightarrow> obj_ok F (StepRequest_To F x)"
  by (auto simp: StepRequest_To_def Request_To_def ProtocolMessage_To_def
        StepRequest_ok_def Request_ok_def ProtocolMessage_ok_def Let_def msg_build
      intro!: msg_wf intro: msg_wf_leaf ser_StepArguments.To_wf ser_StepArguments.array_wf)

lemma StepRequest_From_To:
  "fp_ok F \<Longrightarrow> StepRequest_ok x \<Longrightarrow> StepRequest_From F (named s (norm_j (StepRequest_To F x))) StepRequest_new = x"
  by (cases x) (simp add: StepRequest_To_def Request_To_def ProtocolMessage_To_def
      StepRequest_From_def Request_From_def ProtocolMessage_From_def
      StepRequest_ok_def Request_ok_def ProtocolMessage_ok_def StepRequest_new_def Let_def msg_build msg_read ser_StepArguments.From_To ser_StepArguments.elements)

interpretation ser_StepRequest: serialisable StepRequest_To StepRequest_From StepRequest_ok StepRequest_new
  by unfold_locales (rule StepRequest_To_ok StepRequest_From_To; assumption)+

type_synonym StepInRequest = StepRequest

definition StepInRequest_new :: StepInRequest where
  "StepInRequest_new = StepRequest_new\<lparr> rq_command := ''stepIn'' \<rparr>"

type_synonym StepOutRequest = StepRequest

definition StepOutRequest_new :: StepOutRequest where
  "StepOutRequest_new = StepRequest_new\<lparr> rq_command := ''stepOut'' \<rparr>"

type_synonym ThreadsRequest = Request

definition ThreadsRequest_new :: "ThreadsRequest" where
  "ThreadsRequest_new = \<lparr> pm_seq = - 1, pm_type = ''request'', rq_command = ''threads'' \<rparr>"

definition ThreadsRequest_To :: "'d fp \<Rightarrow> ThreadsRequest \<Rightarrow> 'd Json" where
  "ThreadsRequest_To F x =
     (let json = Request_To F x
      in json)"

definition ThreadsRequest_From :: "'d fp \<Rightarrow> 'd Json \<Rightarrow> ThreadsRequest \<Rightarrow> ThreadsRequest" where
  "ThreadsRequest_From F json x =
     (Request_From F json x)"

definition ThreadsRequest_ok :: "ThreadsRequest \<Rightarrow> bool" where
  "ThreadsRequest_ok x \<longleftrightarrow> Request_ok x"

lemma ThreadsRequest_To_ok: "fp_ok F \<Longrightarrow> ThreadsRequest_ok x \<Longrightarrow> obj_ok F (ThreadsRequest_To F x)"
  by (auto simp: ThreadsRequest_To_def Request_To_def ProtocolMessage_To_def
        ThreadsRequest_ok_def Request_ok_def ProtocolMessage_ok_def Let_def msg_build
      intro!: msg_wf intro: msg_wf_leaf)

lemma ThreadsRequest_From_To:
  "fp_ok F \<Longrightarrow> ThreadsRequest_ok x \<Longrightarrow> ThreadsRequest_From F (named s (norm_j (ThreadsRequest_To F x))) ThreadsRequest_new = x"
  by (cases x) (simp add: ThreadsRequest_To_def Request_To_def ProtocolMessage_To_def
      ThreadsRequest_From_def Request_From_def ProtocolMessage_From_def
      ThreadsRequest_ok_def Request_ok_def ProtocolMessage_ok_def ThreadsRequest_new_def Let_def msg_build msg_read)

interpretation ser_ThreadsRequest: serialisable ThreadsRequest_To ThreadsRequest_From ThreadsRequest_ok ThreadsRequest_new
  by unfold_locales (rule ThreadsRequest_To_ok ThreadsRequest_From_To; assumption)+

record ScopesRequest = Request +
  cq_arguments :: ScopesArguments

definition ScopesRequest_new :: "ScopesRequest" where
  "ScopesRequest_new = \<lparr> pm_seq = - 1, pm_type = ''request'', rq_command = ''scopes'',
     cq_arguments = ScopesArguments_new \<rparr>"

definition ScopesRequest_To :: "'d fp \<Rightarrow> ScopesRequest \<Rightarrow> 'd Json" where
  "ScopesRequest_To F x =
     (let json = Request_To F x;
          json = Json_Add_json ''arguments'' (ScopesArguments_To F (cq_arguments x)) json
      in json)"

definition ScopesRequest_From :: "'d fp \<Rightarrow> 'd Json \<Rightarrow> ScopesRequest \<Rightarrow> ScopesRequest" where
  "ScopesRequest_From F json x =
     (Request_From F json x)\<lparr>
       cq_arguments := ScopesArguments_From F (Json_member json ''arguments'') (cq_arguments x) \<rparr>"

definition ScopesRequest_ok :: "ScopesRequest \<Rightarrow> bool" where
  "ScopesRequest_ok x \<longleftrightarrow> Request_ok x \<and> ScopesArguments_ok (cq_arguments x)"

lemma ScopesRequest_To_ok: "fp_ok F \<Longrightarrow> ScopesRequest_ok x \<Longrightarrow> obj_ok F (ScopesRequest_To F x)"
  by (auto simp: ScopesRequest_To_def Request_To_def ProtocolMessage_To_def
        ScopesRequest_ok_def Request_ok_def ProtocolMessage_ok_def Let_def msg_build
      intro!: msg_wf intro: msg_wf_leaf ser_ScopesArguments.To_wf ser_ScopesArguments.array_wf)

lemma ScopesRequest_From_To:
  "fp_ok F \<Longrightarrow> ScopesRequest_ok x \<Longrightarrow> ScopesRequest_From F (named s (norm_j (ScopesRequest_To F x))) ScopesRequest_new = x"
  by (cases x) (simp add: ScopesRequest_To_def Request_To_def ProtocolMessage_To_def
      ScopesRequest_From_def Request_From_def ProtocolMessage_From_def
      ScopesRequest_ok_def Request_ok_def ProtocolMessage_ok_def ScopesRequest_new_def Let_def msg_build msg_read ser_ScopesArguments.From_To ser_ScopesArguments.elements)

interpretation ser_ScopesRequest: serialisable ScopesRequest_To ScopesRequest_From ScopesRequest_ok ScopesRequest_new
  by unfold_locales (rule ScopesRequest_To_ok ScopesRequest_From_To; assumption)+

record StackTraceRequest = Request +
  kq_arguments :: StackTraceArguments

definition StackTraceRequest_new :: "StackTraceRequest" where
  "StackTraceRequest_new = \<lparr> pm_seq = - 1, pm_type = ''request'', rq_command = ''stackTrace'',
     kq_arguments = StackTraceArguments_new \<rparr>"

definition StackTraceRequest_To :: "'d fp \<Rightarrow> StackTraceRequest \<Rightarrow> 'd Json" where
  "StackTraceRequest_To F x =
     (let json = Request_To F x;
          json = Json_Add_json ''arguments'' (StackTraceArguments_To F (kq_arguments x)) json
      in json)"

definition StackTraceRequest_From :: "'d fp \<Rightarrow> 'd Json \<Rightarrow> StackTraceRequest \<Rightarrow> StackTraceRequest" where
  "StackTraceRequest_From F json x =
     (Request_From F json x)\<lparr>
       kq_arguments := StackTraceArguments_From F (Json_member json ''arguments'') (kq_arguments x) \<rparr>"

definition StackTraceRequest_ok :: "StackTraceRequest \<Rightarrow> bool" where
  "StackTraceRequest_ok x \<longleftrightarrow> Request_ok x \<and> StackTraceArguments_ok (kq_arguments x)"

lemma StackTraceRequest_To_ok: "fp_ok F \<Longrightarrow> StackTraceRequest_ok x \<Longrightarrow> obj_ok F (StackTraceRequest_To F x)"
  by (auto simp: StackTraceRequest_To_def Request_To_def ProtocolMessage_To_def
        StackTraceRequest_ok_def Request_ok_def ProtocolMessage_ok_def Let_def msg_build
      intro!: msg_wf intro: msg_wf_leaf ser_StackTraceArguments.To_wf ser_StackTraceArguments.array_wf)

lemma StackTraceRequest_From_To:
  "fp_ok F \<Longrightarrow> StackTraceRequest_ok x \<Longrightarrow> StackTraceRequest_From F (named s (norm_j (StackTraceRequest_To F x))) StackTraceRequest_new = x"
  by (cases x) (simp add: StackTraceRequest_To_def Request_To_def ProtocolMessage_To_def
      StackTraceRequest_From_def Request_From_def ProtocolMessage_From_def
      StackTraceRequest_ok_def Request_ok_def ProtocolMessage_ok_def StackTraceRequest_new_def Let_def msg_build msg_read ser_StackTraceArguments.From_To ser_StackTraceArguments.elements)

interpretation ser_StackTraceRequest: serialisable StackTraceRequest_To StackTraceRequest_From StackTraceRequest_ok StackTraceRequest_new
  by unfold_locales (rule StackTraceRequest_To_ok StackTraceRequest_From_To; assumption)+

record VariablesRequest = Request +
  vq_arguments :: VariablesArguments

definition VariablesRequest_new :: "VariablesRequest" where
  "VariablesRequest_new = \<lparr> pm_seq = - 1, pm_type = ''request'', rq_command = ''variables'',
     vq_arguments = VariablesArguments_new \<rparr>"

definition VariablesRequest_To :: "'d fp \<Rightarrow> VariablesRequest \<Rightarrow> 'd Json" where
  "VariablesRequest_To F x =
     (let json = Request_To F x;
          json = Json_Add_json ''arguments'' (VariablesArguments_To F (vq_arguments x)) json
      in json)"

definition VariablesRequest_From :: "'d fp \<Rightarrow> 'd Json \<Rightarrow> VariablesRequest \<Rightarrow> VariablesRequest" where
  "VariablesRequest_From F json x =
     (Request_From F json x)\<lparr>
       vq_arguments := VariablesArguments_From F (Json_member json ''arguments'') (vq_arguments x) \<rparr>"

definition VariablesRequest_ok :: "VariablesRequest \<Rightarrow> bool" where
  "VariablesRequest_ok x \<longleftrightarrow> Request_ok x \<and> VariablesArguments_ok (vq_arguments x)"

lemma VariablesRequest_To_ok: "fp_ok F \<Longrightarrow> VariablesRequest_ok x \<Longrightarrow> obj_ok F (VariablesRequest_To F x)"
  by (auto simp: VariablesRequest_To_def Request_To_def ProtocolMessage_To_def
        VariablesRequest_ok_def Request_ok_def ProtocolMessage_ok_def Let_def msg_build
      intro!: msg_wf intro: msg_wf_leaf ser_VariablesArguments.To_wf ser_VariablesArguments.array_wf)

lemma VariablesRequest_From_To:
  "fp_ok F \<Longrightarrow> VariablesRequest_ok x \<Longrightarrow> VariablesRequest_From F (named s (norm_j (VariablesRequest_To F x))) VariablesRequest_new = x"
  by (cases x) (simp add: VariablesRequest_To_def Request_To_def ProtocolMessage_To_def
      VariablesRequest_From_def Request_From_def ProtocolMessage_From_def
      VariablesRequest_ok_def Request_ok_def ProtocolMessage_ok_def VariablesRequest_new_def Let_def msg_build msg_read ser_VariablesArguments.From_To ser_VariablesArguments.elements)

interpretation ser_VariablesRequest: serialisable VariablesRequest_To VariablesRequest_From VariablesRequest_ok VariablesRequest_new
  by unfold_locales (rule VariablesRequest_To_ok VariablesRequest_From_To; assumption)+

record PauseRequest = Request +
  uq_arguments :: PauseArguments

definition PauseRequest_new :: "PauseRequest" where
  "PauseRequest_new = \<lparr> pm_seq = - 1, pm_type = ''request'', rq_command = ''pause'',
     uq_arguments = PauseArguments_new \<rparr>"

definition PauseRequest_To :: "'d fp \<Rightarrow> PauseRequest \<Rightarrow> 'd Json" where
  "PauseRequest_To F x =
     (let json = Request_To F x;
          json = Json_Add_json ''arguments'' (PauseArguments_To F (uq_arguments x)) json
      in json)"

definition PauseRequest_From :: "'d fp \<Rightarrow> 'd Json \<Rightarrow> PauseRequest \<Rightarrow> PauseRequest" where
  "PauseRequest_From F json x =
     (Request_From F json x)\<lparr>
       uq_arguments := PauseArguments_From F (Json_member json ''arguments'') (uq_arguments x) \<rparr>"

definition PauseRequest_ok :: "PauseRequest \<Rightarrow> bool" where
  "PauseRequest_ok x \<longleftrightarrow> Request_ok x \<and> PauseArguments_ok (uq_arguments x)"

lemma PauseRequest_To_ok: "fp_ok F \<Longrightarrow> PauseRequest_ok x \<Longrightarrow> obj_ok F (PauseRequest_To F x)"
  by (auto simp: PauseRequest_To_def Request_To_def ProtocolMessage_To_def
        PauseRequest_ok_def Request_ok_def ProtocolMessage_ok_def Let_def msg_build
      intro!: msg_wf intro: msg_wf_leaf ser_PauseArguments.To_wf ser_PauseArguments.array_wf)

lemma PauseRequest_From_To:
  "fp_ok F \<Longrightarrow> PauseRequest_ok x \<Longrightarrow> PauseRequest_From F (named s (norm_j (PauseRequest_To F x))) PauseRequest_new = x"
  by (cases x) (simp add: PauseRequest_To_def Request_To_def ProtocolMessage_To_def
      PauseRequest_From_def Request_From_def ProtocolMessage_From_def
      PauseRequest_ok_def Request_ok_def ProtocolMessage_ok_def PauseRequest_new_def Let_def msg_build msg_read ser_PauseArguments.From_To ser_PauseArguments.elements)

interpretation ser_PauseRequest: serialisable PauseRequest_To PauseRequest_From PauseRequest_ok PauseRequest_new
  by unfold_locales (rule PauseRequest_To_ok PauseRequest_From_To; assumption)+

record RunInTerminalRequest = Request +
  ri_arguments :: RunInTerminalRequestArguments

definition RunInTerminalRequest_new :: "RunInTerminalRequest" where
  "RunInTerminalRequest_new = \<lparr> pm_seq = - 1, pm_type = ''request'', rq_command = ''runInTerminal'',
     ri_arguments = RunInTerminalRequestArguments_new \<rparr>"

definition RunInTerminalRequest_To :: "'d fp \<Rightarrow> RunInTerminalRequest \<Rightarrow> 'd Json" where
  "RunInTerminalRequest_To F x =
     (let json = Request_To F x;
          json = Json_Add_json ''arguments'' (RunInTerminalRequestArguments_To F (ri_arguments x)) json
      in json)"

definition RunInTerminalRequest_From :: "'d fp \<Rightarrow> 'd Json \<Rightarrow> RunInTerminalRequest \<Rightarrow> RunInTerminalRequest" where
  "RunInTerminalRequest_From F json x =
     (Request_From F json x)\<lparr>
       ri_arguments := RunInTerminalRequestArguments_From F (Json_member json ''arguments'') (ri_arguments x) \<rparr>"

definition RunInTerminalRequest_ok :: "RunInTerminalRequest \<Rightarrow> bool" where
  "RunInTerminalRequest_ok x \<longleftrightarrow> Request_ok x \<and> RunInTerminalRequestArguments_ok (ri_arguments x)"

lemma RunInTerminalRequest_To_ok: "fp_ok F \<Longrightarrow> RunInTerminalRequest_ok x \<Longrightarrow> obj_ok F (RunInTerminalRequest_To F x)"
  by (auto simp: RunInTerminalRequest_To_def Request_To_def ProtocolMessage_To_def
        RunInTerminalRequest_ok_def Request_ok_def ProtocolMessage_ok_def Let_def msg_build
      intro!: msg_wf intro: msg_wf_leaf ser_RunInTerminalRequestArguments.To_wf ser_RunInTerminalRequestArguments.array_wf)

lemma RunInTerminalRequest_From_To:
  "fp_ok F \<Longrightarrow> RunInTerminalRequest_ok x \<Longrightarrow> RunInTerminalRequest_From F (named s (norm_j (RunInTerminalRequest_To F x))) RunInTerminalRequest_new = x"
  by (cases x) (simp add: RunInTerminalRequest_To_def Request_To_def ProtocolMessage_To_def
      RunInTerminalRequest_From_def Request_From_def ProtocolMessage_From_def
      RunInTerminalRequest_ok_def Request_ok_def ProtocolMessage_ok_def RunInTerminalRequest_new_def Let_def msg_build msg_read ser_RunInTerminalRequestArguments.From_To ser_RunInTerminalRequestArguments.elements)

interpretation ser_RunInTerminalRequest: serialisable RunInTerminalRequest_To RunInTerminalRequest_From RunInTerminalRequest_ok RunInTerminalRequest_new
  by unfold_locales (rule RunInTerminalRequest_To_ok RunInTerminalRequest_From_To; assumption)+

record SourceRequest = Request +
  oq_arguments :: SourceArguments

definition SourceRequest_new :: "SourceRequest" where
  "SourceRequest_new = \<lparr> pm_seq = - 1, pm_type = ''request'', rq_command = ''source'',
     oq_arguments = SourceArguments_new \<rparr>"

definition SourceRequest_To :: "'d fp \<Rightarrow> SourceRequest \<Rightarrow> 'd Json" where
  "SourceRequest_To F x =
     (let json = Request_To F x;
          json = Json_AddObject ''arguments'' (SourceArguments_To F (oq_arguments x)) json
      in json)"

definition SourceRequest_From :: "'d fp \<Rightarrow> 'd Json \<Rightarrow> SourceRequest \<Rightarrow> SourceRequest" where
  "SourceRequest_From F json x =
     (Request_From F json x)\<lparr>
       oq_arguments := SourceArguments_From F (Json_member json ''arguments'') (oq_arguments x) \<rparr>"

definition SourceRequest_ok :: "SourceRequest \<Rightarrow> bool" where
  "SourceRequest_ok x \<longleftrightarrow> Request_ok x \<and> SourceArguments_ok (oq_arguments x)"

lemma SourceRequest_To_ok: "fp_ok F \<Longrightarrow> SourceRequest_ok x \<Longrightarrow> obj_ok F (SourceRequest_To F x)"
  by (auto simp: SourceRequest_To_def Request_To_def ProtocolMessage_To_def
        SourceRequest_ok_def Request_ok_def ProtocolMessage_ok_def Let_def msg_build
      intro!: msg_wf intro: msg_wf_leaf ser_SourceArguments.To_wf ser_SourceArguments.array_wf)

lemma SourceRequest_From_To:
  "fp_ok F \<Longrightarrow> SourceRequest_ok x \<Longrightarrow> SourceRequest_From F (named s (norm_j (SourceRequest_To F x))) SourceRequest_new = x"
  by (cases x) (simp add: SourceRequest_To_def Request_To_def ProtocolMessage_To_def
      SourceRequest_From_def Request_From_def ProtocolMessage_From_def
      SourceRequest_ok_def Request_ok_def ProtocolMessage_ok_def SourceRequest_new_def Let_def msg_build msg_read ser_SourceArguments.From_To ser_SourceArguments.elements)

interpretation ser_SourceRequest: serialisable SourceRequest_To SourceRequest_From SourceRequest_ok SourceRequest_new
  by unfold_locales (rule SourceRequest_To_ok SourceRequest_From_To; assumption)+

record EvaluateRequest = Request +
  eq_arguments :: EvaluateArguments

definition EvaluateRequest_new :: "EvaluateRequest" where
  "EvaluateRequest_new = \<lparr> pm_seq = - 1, pm_type = ''request'', rq_command = ''evaluate'',
     eq_arguments = EvaluateArguments_new \<rparr>"

definition EvaluateRequest_To :: "'d fp \<Rightarrow> EvaluateRequest \<Rightarrow> 'd Json" where
  "EvaluateRequest_To F x =
     (let json = Request_To F x;
          json = Json_AddObject ''arguments'' (EvaluateArguments_To F (eq_arguments x)) json
      in json)"

definition EvaluateRequest_From :: "'d fp \<Rightarrow> 'd Json \<Rightarrow> EvaluateRequest \<Rightarrow> EvaluateRequest" where
  "EvaluateRequest_From F json x =
     (Request_From F json x)\<lparr>
       eq_arguments := EvaluateArguments_From F (Json_member json ''arguments'') (eq_arguments x) \<rparr>"

definition EvaluateRequest_ok :: "EvaluateRequest \<Rightarrow> bool" where
  "EvaluateRequest_ok x \<longleftrightarrow> Request_ok x \<and> EvaluateArguments_ok (eq_arguments x)"

lemma EvaluateRequest_To_ok: "fp_ok F \<Longrightarrow> EvaluateRequest_ok x \<Longrightarrow> obj_ok F (EvaluateRequest_To F x)"
  by (auto simp: EvaluateRequest_To_def Request_To_def ProtocolMessage_To_def
        EvaluateRequest_ok_def Request_ok_def ProtocolMessage_ok_def Let_def msg_build
      intro!: msg_wf intro: msg_wf_leaf ser_EvaluateArguments.To_wf ser_EvaluateArguments.array_wf)

lemma EvaluateRequest_From_To:
  "fp_ok F \<Longrightarrow> EvaluateRequest_ok x \<Longrightarrow> EvaluateRequest_From F (named s (norm_j (EvaluateRequest_To F x))) EvaluateRequest_new = x"
  by (cases x) (simp add: EvaluateRequest_To_def Request_To_def ProtocolMessage_To_def
      EvaluateRequest_From_def Request_From_def ProtocolMessage_From_def
      EvaluateRequest_ok_def Request_ok_def ProtocolMessage_ok_def EvaluateRequest_new_def Let_def msg_build msg_read ser_EvaluateArguments.From_To ser_EvaluateArguments.elements)

interpretation ser_EvaluateRequest: serialisable EvaluateRequest_To EvaluateRequest_From EvaluateRequest_ok EvaluateRequest_new
  by unfold_locales (rule EvaluateRequest_To_ok EvaluateRequest_From_To; assumption)+

record DisassembleRequest = Request +
  dq_arguments :: DisassembleArguments

definition DisassembleRequest_new :: "DisassembleRequest" where
  "DisassembleRequest_new = \<lparr> pm_seq = - 1, pm_type = ''request'', rq_command = ''disassemble'',
     dq_arguments = DisassembleArguments_new \<rparr>"

definition DisassembleRequest_To :: "'d fp \<Rightarrow> DisassembleRequest \<Rightarrow> 'd Json" where
  "DisassembleRequest_To F x =
     (let json = Request_To F x;
          json = Json_AddObject ''arguments'' (DisassembleArguments_To F (dq_arguments x)) json
      in json)"

definition DisassembleRequest_From :: "'d fp \<Rightarrow> 'd Json \<Rightarrow> DisassembleRequest \<Rightarrow> DisassembleRequest" where
  "DisassembleRequest_From F json x =
     (Request_From F json x)\<lparr>
       dq_arguments := DisassembleArguments_From F (Json_member json ''arguments'') (dq_arguments x) \<rparr>"

record GotoRequest = Request +
  gq_arguments :: GotoArguments

definition GotoRequest_new :: "GotoRequest" where
  "GotoRequest_new = \<lparr> pm_seq = - 1, pm_type = ''request'', rq_command = ''goto'',
     gq_arguments = GotoArguments_new \<rparr>"

definition GotoRequest_To :: "'d fp \<Rightarrow> GotoRequest \<Rightarrow> 'd Json" where
  "GotoRequest_To F x =
     (let json = Request_To F x;
          json = Json_AddObject ''arguments'' (GotoArguments_To F (gq_arguments x)) json
      in json)"

definition GotoRequest_From :: "'d fp \<Rightarrow> 'd Json \<Rightarrow> GotoRequest \<Rightarrow> GotoRequest" where
  "GotoRequest_From F json x =
     (Request_From F json x)\<lparr>
       gq_arguments := GotoArguments_From F (Json_member json ''arguments'') (gq_arguments x) \<rparr>"

record GotoTargetsRequest = Request +
  tt_arguments :: GotoTargetsArguments

definition GotoTargetsRequest_new :: "GotoTargetsRequest" where
  "GotoTargetsRequest_new = \<lparr> pm_seq = - 1, pm_type = ''request'', rq_command = ''gotoTargets'',
     tt_arguments = GotoTargetsArguments_new \<rparr>"

definition GotoTargetsRequest_To :: "'d fp \<Rightarrow> GotoTargetsRequest \<Rightarrow> 'd Json" where
  "GotoTargetsRequest_To F x =
     (let json = Request_To F x;
          json = Json_AddObject ''arguments'' (GotoTargetsArguments_To F (tt_arguments x)) json
      in json)"

definition GotoTargetsRequest_From :: "'d fp \<Rightarrow> 'd Json \<Rightarrow> GotoTargetsRequest \<Rightarrow> GotoTargetsRequest" where
  "GotoTargetsRequest_From F json x =
     (Request_From F json x)\<lparr>
       tt_arguments := GotoTargetsArguments_From F (Json_member json ''arguments'') (tt_arguments x) \<rparr>"

record ReadMemoryRequest = Request +
  mq_arguments :: ReadMemoryArguments

definition ReadMemoryRequest_new :: "ReadMemoryRequest" where
  "ReadMemoryRequest_new = \<lparr> pm_seq = - 1, pm_type = ''request'', rq_command = ''readMemory'',
     mq_arguments = ReadMemoryArguments_new \<rparr>"

definition ReadMemoryRequest_To :: "'d fp \<Rightarrow> ReadMemoryRequest \<Rightarrow> 'd Json" where
  "ReadMemoryRequest_To F x =
     (let json = Request_To F x;
          json = Json_AddObject ''arguments'' (ReadMemoryArguments_To F (mq_arguments x)) json
      in json)"

definition ReadMemoryRequest_From :: "'d fp \<Rightarrow> 'd Json \<Rightarrow> ReadMemoryRequest \<Rightarrow> ReadMemoryRequest" where
  "ReadMemoryRequest_From F json x =
     (Request_From F json x)\<lparr>
       mq_arguments := ReadMemoryArguments_From F (Json_member json ''arguments'') (mq_arguments x) \<rparr>"

definition ReadMemoryRequest_ok :: "ReadMemoryRequest \<Rightarrow> bool" where
  "ReadMemoryRequest_ok x \<longleftrightarrow> Request_ok x \<and> ReadMemoryArguments_ok (mq_arguments x)"

lemma ReadMemoryRequest_To_ok: "fp_ok F \<Longrightarrow> ReadMemoryRequest_ok x \<Longrightarrow> obj_ok F (ReadMemoryRequest_To F x)"
  by (auto simp: ReadMemoryRequest_To_def Request_To_def ProtocolMessage_To_def
        ReadMemoryRequest_ok_def Request_ok_def ProtocolMessage_ok_def Let_def msg_build
      intro!: msg_wf intro: msg_wf_leaf ser_ReadMemoryArguments.To_wf ser_ReadMemoryArguments.array_wf)

lemma ReadMemoryRequest_From_To:
  "fp_ok F \<Longrightarrow> ReadMemoryRequest_ok x \<Longrightarrow> ReadMemoryRequest_From F (named s (norm_j (ReadMemoryRequest_To F x))) ReadMemoryRequest_new = x"
  by (cases x) (simp add: ReadMemoryRequest_To_def Request_To_def ProtocolMessage_To_def
      ReadMemoryRequest_From_def Request_From_def ProtocolMessage_From_def
      ReadMemoryRequest_ok_def Request_ok_def ProtocolMessage_ok_def ReadMemoryRequest_new_def Let_def msg_build msg_read ser_ReadMemoryArguments.From_To ser_ReadMemoryArguments.elements)

interpretation ser_ReadMemoryRequest: serialisable ReadMemoryRequest_To ReadMemoryRequest_From ReadMemoryRequest_ok ReadMemoryRequest_new
  by unfold_locales (rule ReadMemoryRequest_To_ok ReadMemoryRequest_From_To; assumption)+

end
