(* ===== verification/Dap_MsgResponses.thy ===== *)
theory Dap_MsgResponses
  imports Dap_MsgBase
begin

text \<open>
  The responses of the protocol. A response class that only changes the command of its parent
  is a synonym with its own \<open>_new\<close>. \<open>Capabilities\<close> has one optional \<open>bool\<close> member per name;
  the record keeps them as a function from the name. \<open>DisassembleInfo_From\<close> overwrites every
  field, so the uninitialised line it starts from does not matter (0 here).
\<close>

type_synonym EmptyAckResponse = Response

definition EmptyAckResponse_new :: "EmptyAckResponse" where
  "EmptyAckResponse_new = \<lparr> pm_seq = - 1, pm_type = ''response'', rs_request_seq = - 1,
     rs_success = True, rs_command = '''', rs_message = [] \<rparr>"

definition EmptyAckResponse_To :: "'d fp \<Rightarrow> EmptyAckResponse \<Rightarrow> 'd Json" where
  "EmptyAckResponse_To F x =
     (let json = Response_To F x
      in json)"

definition EmptyAckResponse_From :: "'d fp \<Rightarrow> 'd Json \<Rightarrow> EmptyAckResponse \<Rightarrow> EmptyAckResponse" where
  "EmptyAckResponse_From F json x =
     (Response_From F json x)"

definition EmptyAckResponse_ok :: "EmptyAckResponse \<Rightarrow> bool" where
  "EmptyAckResponse_ok x \<longleftrightarrow> Response_ok x"

lemma EmptyAckResponse_To_ok: "fp_ok F \<Longrightarrow> EmptyAckResponse_ok x \<Longrightarrow> obj_ok F (EmptyAckResponse_To F x)"
  by (auto simp: EmptyAckResponse_To_def Response_To_def ProtocolMessage_To_def
        EmptyAckResponse_ok_def Response_ok_def ProtocolMessage_ok_def Let_def msg_build
      intro!: msg_wf intro: msg_wf_leaf)

lemma EmptyAckResponse_From_To:
  "fp_ok F \<Longrightarrow> EmptyAckResponse_ok x \<Longrightarrow> EmptyAckResponse_From F (named s (norm_j (EmptyAckResponse_To F x))) EmptyAckResponse_new = x"
  by (cases x) (simp add: EmptyAckResponse_To_def Response_To_def ProtocolMessage_To_def
      EmptyAckResponse_From_def Response_From_def ProtocolMessage_From_def
      EmptyAckResponse_ok_def Response_ok_def ProtocolMessage_ok_def EmptyAckResponse_new_def Let_def msg_build msg_read)

interpretation ser_EmptyAckResponse: serialisable EmptyAckResponse_To EmptyAckResponse_From EmptyAckResponse_ok EmptyAckResponse_new
  by unfold_locales (rule EmptyAckResponse_To_ok EmptyAckResponse_From_To; assumption)+

type_synonym CancelResponse = Response

definition CancelResponse_new :: "CancelResponse" where
  "CancelResponse_new = \<lparr> pm_seq = - 1, pm_type = ''response'', rs_request_seq = - 1,
     rs_success = True, rs_command = ''cancel'', rs_message = [] \<rparr>"

definition CancelResponse_To :: "'d fp \<Rightarrow> CancelResponse \<Rightarrow> 'd Json" where
  "CancelResponse_To F x =
     (let json = Response_To F x
      in json)"

definition CancelResponse_From :: "'d fp \<Rightarrow> 'd Json \<Rightarrow> CancelResponse \<Rightarrow> CancelResponse" where
  "CancelResponse_From F json x =
     (Response_From F json x)"

definition CancelResponse_ok :: "CancelResponse \<Rightarrow> bool" where
  "CancelResponse_ok x \<longleftrightarrow> Response_ok x"

lemma CancelResponse_To_ok: "fp_ok F \<Longrightarrow> CancelResponse_ok x \<Longrightarrow> obj_ok F (CancelResponse_To F x)"
  by (auto simp: CancelResponse_To_def Response_To_def ProtocolMessage_To_def
        CancelResponse_ok_def Response_ok_def ProtocolMessage_ok_def Let_def msg_build
      intro!: msg_wf intro: msg_wf_leaf)

lemma CancelResponse_From_To:
  "fp_ok F \<Longrightarrow> CancelResponse_ok x \<Longrightarrow> CancelResponse_From F (named s (norm_j (CancelResponse_To F x))) CancelResponse_new = x"
  by (cases x) (simp add: CancelResponse_To_def Response_To_def ProtocolMessage_To_def
      CancelResponse_From_def Response_From_def ProtocolMessage_From_def
      CancelResponse_ok_def Response_ok_def ProtocolMessage_ok_def CancelResponse_new_def Let_def msg_build msg_read)

interpretation ser_CancelResponse: serialisable CancelResponse_To CancelResponse_From CancelResponse_ok CancelResponse_new
  by unfold_locales (rule CancelResponse_To_ok CancelResponse_From_To; assumption)+

type_synonym ConfigurationDoneResponse = EmptyAckResponse

definition ConfigurationDoneResponse_new :: ConfigurationDoneResponse where
  "ConfigurationDoneResponse_new = EmptyAckResponse_new\<lparr> rs_command := ''configurationDone'' \<rparr>"

type_synonym LaunchResponse = EmptyAckResponse

definition LaunchResponse_new :: LaunchResponse where
  "LaunchResponse_new = EmptyAckResponse_new\<lparr> rs_command := ''launch'' \<rparr>"

type_synonym DisconnectResponse = EmptyAckResponse

definition DisconnectResponse_new :: DisconnectResponse where
  "DisconnectResponse_new = EmptyAckResponse_new\<lparr> rs_command := ''disconnect'' \<rparr>"

type_synonym TerminateResponse = EmptyAckResponse

definition TerminateResponse_new :: TerminateResponse where
  "TerminateResponse_new = EmptyAckResponse_new\<lparr> rs_command := ''terminate'' \<rparr>"

type_synonym NextResponse = EmptyAckResponse

definition NextResponse_new :: NextResponse where
  "NextResponse_new = EmptyAckResponse_new\<lparr> rs_command := ''next'' \<rparr>"

type_synonym PauseResponse = EmptyAckResponse

definition PauseResponse_new :: PauseResponse where
  "PauseResponse_new = EmptyAckResponse_new\<lparr> rs_command := ''pause'' \<rparr>"

record AttachResponse = Response +
  ak_jsonDump :: string

definition AttachResponse_new :: AttachResponse where
  "AttachResponse_new = \<lparr> pm_seq = - 1, pm_type = ''response'', rs_request_seq = - 1,
     rs_success = True, rs_command = ''attach'', rs_message = [],
     ak_jsonDump = [] \<rparr>"

type_synonym SetExceptionBreakpointsResponse = Response

definition SetExceptionBreakpointsResponse_new :: SetExceptionBreakpointsResponse where
  "SetExceptionBreakpointsResponse_new = EmptyAckResponse_new\<lparr> rs_command := ''setExceptionBreakpoints'' \<rparr>"

type_synonym StepResponse = Response

definition StepResponse_new :: StepResponse where
  "StepResponse_new = EmptyAckResponse_new\<lparr> rs_command := ''step'' \<rparr>"

type_synonym StepInResponse = Response

definition StepInResponse_new :: StepInResponse where
  "StepInResponse_new = EmptyAckResponse_new\<lparr> rs_command := ''stepIn'' \<rparr>"

type_synonym StepOutResponse = Response

definition StepOutResponse_new :: StepOutResponse where
  "StepOutResponse_new = EmptyAckResponse_new\<lparr> rs_command := ''stepOut'' \<rparr>"

section \<open>Initialize\<close>

record Capabilities =
  cp_flags :: "string \<Rightarrow> bool option"
    \<comment> \<open>the \<open>wxAny\<close> members that hold a \<open>bool\<close>, by their name\<close>
  cp_exceptionBreakpointFilters :: "ExceptionBreakpointsFilter list option"
  cp_completionTriggerCharacters :: "string list option"
  cp_additionalModuleColumns :: "ColumnDescriptor list option"

definition Capabilities_new :: Capabilities where
  "Capabilities_new = \<lparr> cp_flags = (\<lambda>_. None), cp_exceptionBreakpointFilters = None,
     cp_completionTriggerCharacters = None, cp_additionalModuleColumns = None \<rparr>"

definition capability_names :: "string list" where
  \<comment> \<open>the uses of \<open>CAPABILITIES_BODY_PROCESS\<close>, in order; each names a member and the equal key\<close>
  "capability_names = [''supportsBreakpointLocationsRequest'', ''supportsCancelRequest'', ''supportsClipboardContext'',
     ''supportsCompletionsRequest'', ''supportsConditionalBreakpoints'', ''supportsConfigurationDoneRequest'',
     ''supportsDataBreakpoints'', ''supportsDelayedStackTraceLoading'', ''supportsDisassembleRequest'',
     ''supportsGotoTargetsRequest'', ''supportsEvaluateForHovers'', ''supportsExceptionFilterOptions'',
     ''supportsExceptionInfoRequest'', ''supportsExceptionOptions'', ''supportsFunctionBreakpoints'',
     ''supportsHitConditionalBreakpoints'', ''supportsInstructionBreakpoints'', ''supportsLoadedSourcesRequest'',
     ''supportsLogPoints'', ''supportsModulesRequest'', ''supportsRestartFrame'',
     ''supportsRestartRequest'', ''supportsSetExpression'', ''supportsSetVariable'',
     ''supportsSingleThreadExecutionRequests'', ''supportsStepBack'', ''supportsStepInTargetsRequest'',
     ''supportsSteppingGranularity'', ''supportsTerminateRequest'', ''supportsTerminateThreadsRequest'',
     ''supportSuspendDebuggee'', ''supportsValueFormattingOptions'', ''supportsWriteMemoryRequest'',
     ''supportsReadMemoryRequest'', ''supportTerminateDebuggee'']"

record InitializeResponse = Response +
  ip_capabilities :: Capabilities

definition InitializeResponse_new :: InitializeResponse where
  "InitializeResponse_new = \<lparr> pm_seq = - 1, pm_type = ''response'', rs_request_seq = - 1,
     rs_success = True, rs_command = ''initialize'', rs_message = [],
     ip_capabilities = Capabilities_new \<rparr>"

definition InitializeResponse_To :: "'d fp \<Rightarrow> InitializeResponse \<Rightarrow> 'd Json" where
  "InitializeResponse_To F x = Json_AddItem ''body'' (Json_CreateObject F) (Response_To F x)"

definition Capabilities_read :: "'d fp \<Rightarrow> 'd Json \<Rightarrow> Capabilities \<Rightarrow> Capabilities" where
  "Capabilities_read F body c =
     (let c = c\<lparr> cp_flags := fold (\<lambda>n fl.
                 if Json_IsOK (Json_member body n)
                 then fl(n := Some (Json_GetBool False (Json_member body n))) else fl)
               capability_names (cp_flags c) \<rparr>;
          arr = Json_member body ''exceptionBreakpointFilters'';
          c = (if Json_IsOK arr
               then c\<lparr> cp_exceptionBreakpointFilters := Some (json_elements
                      (\<lambda>e. ExceptionBreakpointsFilter_From F e ExceptionBreakpointsFilter_new) arr) \<rparr>
               else c);
          arr = Json_member body ''completionTriggerCharacters'';
          c = (if Json_IsOK arr
               then c\<lparr> cp_completionTriggerCharacters := Some (json_elements (Json_GetString []) arr) \<rparr>
               else c);
          arr = Json_member body ''additionalModuleColumns'';
          c = (if Json_IsOK arr
               then c\<lparr> cp_additionalModuleColumns := Some (json_elements
                      (\<lambda>e. ColumnDescriptor_From F e ColumnDescriptor_new) arr) \<rparr>
               else c)
      in c)"

definition InitializeResponse_From ::
  "'d fp \<Rightarrow> 'd Json \<Rightarrow> InitializeResponse \<Rightarrow> InitializeResponse" where
  "InitializeResponse_From F json x =
     (let x' = Response_From F json x in
      if Json_IsOK (Json_member json ''body'')
      then x'\<lparr> ip_capabilities := Capabilities_read F (Json_member json ''body'') (ip_capabilities x') \<rparr>
      else x')"

section \<open>Other responses\<close>

record BreakpointLocationsResponse = Response +
  bk_filepath :: string
  bk_breakpoints :: "BreakpointLocation list"

definition BreakpointLocationsResponse_new :: "BreakpointLocationsResponse" where
  "BreakpointLocationsResponse_new = \<lparr> pm_seq = - 1, pm_type = ''response'', rs_request_seq = - 1,
     rs_success = True, rs_command = ''breakpointLocations'', rs_message = [],
     bk_filepath = [], bk_breakpoints = [] \<rparr>"

definition BreakpointLocationsResponse_To :: "'d fp \<Rightarrow> BreakpointLocationsResponse \<Rightarrow> 'd Json" where
  "BreakpointLocationsResponse_To F x =
     (let body = Json_CreateObject F;
          body = Json_AddItem ''breakpoints'' (json_array F (map (BreakpointLocation_To F) (bk_breakpoints x))) body;
          json = Response_To F x;
          json = Json_AddItem ''body'' body json
      in json)"

definition BreakpointLocationsResponse_From :: "'d fp \<Rightarrow> 'd Json \<Rightarrow> BreakpointLocationsResponse \<Rightarrow> BreakpointLocationsResponse" where
  "BreakpointLocationsResponse_From F json x =
     (let body = Json_member json ''body'' in
      (Response_From F json x)\<lparr>
       bk_breakpoints := json_elements (\<lambda>e. BreakpointLocation_From F e BreakpointLocation_new) (Json_member body ''breakpoints'') \<rparr>)"

definition BreakpointLocationsResponse_ok :: "BreakpointLocationsResponse \<Rightarrow> bool" where
  "BreakpointLocationsResponse_ok x \<longleftrightarrow> Response_ok x \<and> bk_filepath x = [] \<and> list_all BreakpointLocation_ok (bk_breakpoints x)"

lemma BreakpointLocationsResponse_To_ok: "fp_ok F \<Longrightarrow> BreakpointLocationsResponse_ok x \<Longrightarrow> obj_ok F (BreakpointLocationsResponse_To F x)"
  by (auto simp: BreakpointLocationsResponse_To_def Response_To_def ProtocolMessage_To_def
        BreakpointLocationsResponse_ok_def Response_ok_def ProtocolMessage_ok_def Let_def msg_build
      intro!: msg_wf intro: msg_wf_leaf ser_BreakpointLocation.To_wf ser_BreakpointLocation.array_wf)

lemma BreakpointLocationsResponse_From_To:
  "fp_ok F \<Longrightarrow> BreakpointLocationsResponse_ok x \<Longrightarrow> BreakpointLocationsResponse_From F (named s (norm_j (BreakpointLocationsResponse_To F x))) BreakpointLocationsResponse_new = x"
  by (cases x) (simp add: BreakpointLocationsResponse_To_def Response_To_def ProtocolMessage_To_def
      BreakpointLocationsResponse_From_def Response_From_def ProtocolMessage_From_def
      BreakpointLocationsResponse_ok_def Response_ok_def ProtocolMessage_ok_def BreakpointLocationsResponse_new_def Let_def msg_build msg_read ser_BreakpointLocation.From_To ser_BreakpointLocation.elements)

interpretation ser_BreakpointLocationsResponse: serialisable BreakpointLocationsResponse_To BreakpointLocationsResponse_From BreakpointLocationsResponse_ok BreakpointLocationsResponse_new
  by unfold_locales (rule BreakpointLocationsResponse_To_ok BreakpointLocationsResponse_From_To; assumption)+

record ContinueResponse = Response +
  cs_allThreadsContinued :: bool

definition ContinueResponse_new :: "ContinueResponse" where
  "ContinueResponse_new = \<lparr> pm_seq = - 1, pm_type = ''response'', rs_request_seq = - 1,
     rs_success = True, rs_command = ''continue'', rs_message = [],
     cs_allThreadsContinued = True \<rparr>"

definition ContinueResponse_To :: "'d fp \<Rightarrow> ContinueResponse \<Rightarrow> 'd Json" where
  "ContinueResponse_To F x =
     (let body = Json_CreateObject F;
          body = Json_Add_bool F ''allThreadsContinued'' (cs_allThreadsContinued x) body;
          json = Response_To F x;
          json = Json_AddItem ''body'' body json
      in json)"

definition ContinueResponse_From :: "'d fp \<Rightarrow> 'd Json \<Rightarrow> ContinueResponse \<Rightarrow> ContinueResponse" where
  "ContinueResponse_From F json x =
     (let body = Json_member json ''body'' in
      (Response_From F json x)\<lparr>
       cs_allThreadsContinued := fp_nonzero F (Json_GetNumber (fp_of_int F (- 1)) (Json_member body ''allThreadsContinued'')) \<rparr>)"

record SetBreakpointsResponse = Response +
  gs_breakpoints :: "Breakpoint list"
  gs_originSource :: string

definition SetBreakpointsResponse_new :: "SetBreakpointsResponse" where
  "SetBreakpointsResponse_new = \<lparr> pm_seq = - 1, pm_type = ''response'', rs_request_seq = - 1,
     rs_success = True, rs_command = ''setBreakpoints'', rs_message = [],
     gs_breakpoints = [], gs_originSource = [] \<rparr>"

definition SetBreakpointsResponse_To :: "'d fp \<Rightarrow> SetBreakpointsResponse \<Rightarrow> 'd Json" where
  "SetBreakpointsResponse_To F x =
     (let body = Json_CreateObject F;
          body = Json_AddItem ''breakpoints'' (json_array F (map (Breakpoint_To F) (gs_breakpoints x))) body;
          json = Response_To F x;
          json = Json_AddItem ''body'' body json
      in json)"

definition SetBreakpointsResponse_From :: "'d fp \<Rightarrow> 'd Json \<Rightarrow> SetBreakpointsResponse \<Rightarrow> SetBreakpointsResponse" where
  "SetBreakpointsResponse_From F json x =
     (let body = Json_member json ''body'' in
      (Response_From F json x)\<lparr>
       gs_breakpoints := json_elements (\<lambda>e. Breakpoint_From F e Breakpoint_new) (Json_member body ''breakpoints'') \<rparr>)"

definition SetBreakpointsResponse_ok :: "SetBreakpointsResponse \<Rightarrow> bool" where
  "SetBreakpointsResponse_ok x \<longleftrightarrow> Response_ok x \<and> list_all Breakpoint_ok (gs_breakpoints x) \<and> gs_originSource x = []"

lemma SetBreakpointsResponse_To_ok: "fp_ok F \<Longrightarrow> SetBreakpointsResponse_ok x \<Longrightarrow> obj_ok F (SetBreakpointsResponse_To F x)"
  by (auto simp: SetBreakpointsResponse_To_def Response_To_def ProtocolMessage_To_def
        SetBreakpointsResponse_ok_def Response_ok_def ProtocolMessage_ok_def Let_def msg_build
      intro!: msg_wf intro: msg_wf_leaf ser_Breakpoint.To_wf ser_Breakpoint.array_wf)

lemma SetBreakpointsResponse_From_To:
  "fp_ok F \<Longrightarrow> SetBreakpointsResponse_ok x \<Longrightarrow> SetBreakpointsResponse_From F (named s (norm_j (SetBreakpointsResponse_To F x))) SetBreakpointsResponse_new = x"
  by (cases x) (simp add: SetBreakpointsResponse_To_def Response_To_def ProtocolMessage_To_def
      SetBreakpointsResponse_From_def Response_From_def ProtocolMessage_From_def
      SetBreakpointsResponse_ok_def Response_ok_def ProtocolMessage_ok_def SetBreakpointsResponse_new_def Let_def msg_build msg_read ser_Breakpoint.From_To ser_Breakpoint.elements)

interpretation ser_SetBreakpointsResponse: serialisable SetBreakpointsResponse_To SetBreakpointsResponse_From SetBreakpointsResponse_ok SetBreakpointsResponse_new
  by unfold_locales (rule SetBreakpointsResponse_To_ok SetBreakpointsResponse_From_To; assumption)+

type_synonym SetFunctionBreakpointsResponse = SetBreakpointsResponse

definition SetFunctionBreakpointsResponse_new :: SetFunctionBreakpointsResponse where
  "SetFunctionBreakpointsResponse_new = SetBreakpointsResponse_new\<lparr> rs_command := ''setFunctionBreakpoints'' \<rparr>"

record ThreadsResponse = Response +
  ts_threads :: "Thread list"

definition ThreadsResponse_new :: "ThreadsResponse" where
  "ThreadsResponse_new = \<lparr> pm_seq = - 1, pm_type = ''response'', rs_request_seq = - 1,
     rs_success = True, rs_command = ''threads'', rs_message = [],
     ts_threads = [] \<rparr>"

definition ThreadsResponse_To :: "'d fp \<Rightarrow> ThreadsResponse \<Rightarrow> 'd Json" where
  "ThreadsResponse_To F x =
     (let body = Json_CreateObject F;
          body = Json_AddItem ''threads'' (json_array F (map (Thread_To F) (ts_threads x))) body;
          json = Response_To F x;
          json = Json_AddItem ''body'' body json
      in json)"

definition ThreadsResponse_From :: "'d fp \<Rightarrow> 'd Json \<Rightarrow> ThreadsResponse \<Rightarrow> ThreadsResponse" where
  "ThreadsResponse_From F json x =
     (let body = Json_member json ''body'' in
      (Response_From F json x)\<lparr>
       ts_threads := json_elements (\<lambda>e. Thread_From F e Thread_new) (Json_member body ''threads'') \<rparr>)"

definition ThreadsResponse_ok :: "ThreadsResponse \<Rightarrow> bool" where
  "ThreadsResponse_ok x \<longleftrightarrow> Response_ok x \<and> list_all Thread_ok (ts_threads x)"

lemma ThreadsResponse_To_ok: "fp_ok F \<Longrightarrow> ThreadsResponse_ok x \<Longrightarrow> obj_ok F (ThreadsResponse_To F x)"
  by (auto simp: ThreadsResponse_To_def Response_To_def ProtocolMessage_To_def
        ThreadsResponse_ok_def Response_ok_def ProtocolMessage_ok_def Let_def msg_build
      intro!: msg_wf intro: msg_wf_leaf ser_Thread.To_wf ser_Thread.array_wf)

lemma ThreadsResponse_From_To:
  "fp_ok F \<Longrightarrow> ThreadsResponse_ok x \<Longrightarrow> ThreadsResponse_From F (named s (norm_j (ThreadsResponse_To F x))) ThreadsResponse_new = x"
  by (cases x) (simp add: ThreadsResponse_To_def Response_To_def ProtocolMessage_To_def
      ThreadsResponse_From_def Response_From_def ProtocolMessage_From_def
      ThreadsResponse_ok_def Response_ok_def ProtocolMessage_ok_def ThreadsResponse_new_def Let_def msg_build msg_read ser_Thread.From_To ser_Thread.elements)

interpretation ser_ThreadsResponse: serialisable ThreadsResponse_To ThreadsResponse_From ThreadsResponse_ok ThreadsResponse_new
  by unfold_locales (rule ThreadsResponse_To_ok ThreadsResponse_From_To; assumption)+

record ScopesResponse = Response +
  ps_scopes :: "Scope list"
  ps_refId :: int

definition ScopesResponse_new :: "ScopesResponse" where
  "ScopesResponse_new = \<lparr> pm_seq = - 1, pm_type = ''response'', rs_request_seq = - 1,
     rs_success = True, rs_command = ''scopes'', rs_message = [],
     ps_scopes = [], ps_refId = wxNOT_FOUND \<rparr>"

definition ScopesResponse_To :: "'d fp \<Rightarrow> ScopesResponse \<Rightarrow> 'd Json" where
  "ScopesResponse_To F x =
     (let body = Json_CreateObject F;
          body = Json_AddItem ''scopes'' (json_array F (map (Scope_To F) (ps_scopes x))) body;
          json = Response_To F x;
          json = Json_AddItem ''body'' body json
      in json)"

definition ScopesResponse_From :: "'d fp \<Rightarrow> 'd Json \<Rightarrow> ScopesResponse \<Rightarrow> ScopesResponse" where
  "ScopesResponse_From F json x =
     (let body = Json_member json ''body'' in
      (Response_From F json x)\<lparr>
       ps_scopes := ps_scopes x @ json_elements (\<lambda>e. Scope_From F e Scope_new) (Json_member body ''scopes'') \<rparr>)"

definition ScopesResponse_ok :: "ScopesResponse \<Rightarrow> bool" where
  "ScopesResponse_ok x \<longleftrightarrow> Response_ok x \<and> list_all Scope_ok (ps_scopes x) \<and> ps_refId x = wxNOT_FOUND"

lemma ScopesResponse_To_ok: "fp_ok F \<Longrightarrow> ScopesResponse_ok x \<Longrightarrow> obj_ok F (ScopesResponse_To F x)"
  by (auto simp: ScopesResponse_To_def Response_To_def ProtocolMessage_To_def
        ScopesResponse_ok_def Response_ok_def ProtocolMessage_ok_def Let_def msg_build
      intro!: msg_wf intro: msg_wf_leaf ser_Scope.To_wf ser_Scope.array_wf)

lemma ScopesResponse_From_To:
  "fp_ok F \<Longrightarrow> ScopesResponse_ok x \<Longrightarrow> ScopesResponse_From F (named s (norm_j (ScopesResponse_To F x))) ScopesResponse_new = x"
  by (cases x) (simp add: ScopesResponse_To_def Response_To_def ProtocolMessage_To_def
      ScopesResponse_From_def Response_From_def ProtocolMessage_From_def
      ScopesResponse_ok_def Response_ok_def ProtocolMessage_ok_def ScopesResponse_new_def Let_def msg_build msg_read ser_Scope.From_To ser_Scope.elements)

interpretation ser_ScopesResponse: serialisable ScopesResponse_To ScopesResponse_From ScopesResponse_ok ScopesResponse_new
  by unfold_locales (rule ScopesResponse_To_ok ScopesResponse_From_To; assumption)+

record StackTraceResponse = Response +
  ks_stackFrames :: "StackFrame list"
  ks_refId :: int

definition StackTraceResponse_new :: "StackTraceResponse" where
  "StackTraceResponse_new = \<lparr> pm_seq = - 1, pm_type = ''response'', rs_request_seq = - 1,
     rs_success = True, rs_command = ''stackTrace'', rs_message = [],
     ks_stackFrames = [], ks_refId = wxNOT_FOUND \<rparr>"

definition StackTraceResponse_To :: "'d fp \<Rightarrow> StackTraceResponse \<Rightarrow> 'd Json" where
  "StackTraceResponse_To F x =
     (let body = Json_CreateObject F;
          body = Json_AddItem ''stackFrames'' (json_array F (map (StackFrame_To F) (ks_stackFrames x))) body;
          json = Response_To F x;
          json = Json_AddItem ''body'' body json
      in json)"

definition StackTraceResponse_From :: "'d fp \<Rightarrow> 'd Json \<Rightarrow> StackTraceResponse \<Rightarrow> StackTraceResponse" where
  "StackTraceResponse_From F json x =
     (let body = Json_member json ''body'' in
      (Response_From F json x)\<lparr>
       ks_stackFrames := json_elements (\<lambda>e. StackFrame_From F e StackFrame_new) (Json_member body ''stackFrames'') \<rparr>)"

definition StackTraceResponse_ok :: "StackTraceResponse \<Rightarrow> bool" where
  "StackTraceResponse_ok x \<longleftrightarrow> Response_ok x \<and> list_all StackFrame_ok (ks_stackFrames x) \<and> ks_refId x = wxNOT_FOUND"

lemma StackTraceResponse_To_ok: "fp_ok F \<Longrightarrow> StackTraceResponse_ok x \<Longrightarrow> obj_ok F (StackTraceResponse_To F x)"
  by (auto simp: StackTraceResponse_To_def Response_To_def ProtocolMessage_To_def
        StackTraceResponse_ok_def Response_ok_def ProtocolMessage_ok_def Let_def msg_build
      intro!: msg_wf intro: msg_wf_leaf ser_StackFrame.To_wf ser_StackFrame.array_wf)

lemma StackTraceResponse_From_To:
  "fp_ok F \<Longrightarrow> StackTraceResponse_ok x \<Longrightarrow> StackTraceResponse_From F (named s (norm_j (StackTraceResponse_To F x))) StackTraceResponse_new = x"
  by (cases x) (simp add: StackTraceResponse_To_def Response_To_def ProtocolMessage_To_def
      StackTraceResponse_From_def Response_From_def ProtocolMessage_From_def
      StackTraceResponse_ok_def Response_ok_def ProtocolMessage_ok_def StackTraceResponse_new_def Let_def msg_build msg_read ser_StackFrame.From_To ser_StackFrame.elements)

interpretation ser_StackTraceResponse: serialisable StackTraceResponse_To StackTraceResponse_From StackTraceResponse_ok StackTraceResponse_new
  by unfold_locales (rule StackTraceResponse_To_ok StackTraceResponse_From_To; assumption)+

datatype EvaluateContext = VARIABLES | WATCH | REPL | HOVER | CLIPBOARD

record VariablesResponse = Response +
  vs_variables :: "Variable list"
  vs_refId :: int
  vs_context :: EvaluateContext

definition VariablesResponse_new :: "VariablesResponse" where
  "VariablesResponse_new = \<lparr> pm_seq = - 1, pm_type = ''response'', rs_request_seq = - 1,
     rs_success = True, rs_command = ''variables'', rs_message = [],
     vs_variables = [], vs_refId = wxNOT_FOUND, vs_context = VARIABLES \<rparr>"

definition VariablesResponse_To :: "'d fp \<Rightarrow> VariablesResponse \<Rightarrow> 'd Json" where
  "VariablesResponse_To F x =
     (let body = Json_CreateObject F;
          body = Json_AddItem ''variables'' (json_array F (map (Variable_To F) (vs_variables x))) body;
          json = Response_To F x;
          json = Json_AddItem ''body'' body json
      in json)"

definition VariablesResponse_From :: "'d fp \<Rightarrow> 'd Json \<Rightarrow> VariablesResponse \<Rightarrow> VariablesResponse" where
  "VariablesResponse_From F json x =
     (let body = Json_member json ''body'' in
      (Response_From F json x)\<lparr>
       vs_variables := vs_variables x @ json_elements (\<lambda>e. Variable_From F e Variable_new) (Json_member body ''variables'') \<rparr>)"

definition VariablesResponse_ok :: "VariablesResponse \<Rightarrow> bool" where
  "VariablesResponse_ok x \<longleftrightarrow> Response_ok x \<and> list_all Variable_ok (vs_variables x) \<and> vs_refId x = wxNOT_FOUND
     \<and> vs_context x = VARIABLES"

lemma VariablesResponse_To_ok: "fp_ok F \<Longrightarrow> VariablesResponse_ok x \<Longrightarrow> obj_ok F (VariablesResponse_To F x)"
  by (auto simp: VariablesResponse_To_def Response_To_def ProtocolMessage_To_def
        VariablesResponse_ok_def Response_ok_def ProtocolMessage_ok_def Let_def msg_build
      intro!: msg_wf intro: msg_wf_leaf ser_Variable.To_wf ser_Variable.array_wf)

lemma VariablesResponse_From_To:
  "fp_ok F \<Longrightarrow> VariablesResponse_ok x \<Longrightarrow> VariablesResponse_From F (named s (norm_j (VariablesResponse_To F x))) VariablesResponse_new = x"
  by (cases x) (simp add: VariablesResponse_To_def Response_To_def ProtocolMessage_To_def
      VariablesResponse_From_def Response_From_def ProtocolMessage_From_def
      VariablesResponse_ok_def Response_ok_def ProtocolMessage_ok_def VariablesResponse_new_def Let_def msg_build msg_read ser_Variable.From_To ser_Variable.elements)

interpretation ser_VariablesResponse: serialisable VariablesResponse_To VariablesResponse_From VariablesResponse_ok VariablesResponse_new
  by unfold_locales (rule VariablesResponse_To_ok VariablesResponse_From_To; assumption)+

record RunInTerminalResponse = Response +
  rt_processId :: int

definition RunInTerminalResponse_new :: "RunInTerminalResponse" where
  "RunInTerminalResponse_new = \<lparr> pm_seq = - 1, pm_type = ''response'', rs_request_seq = - 1,
     rs_success = True, rs_command = ''runInTerminal'', rs_message = [],
     rt_processId = wxNOT_FOUND \<rparr>"

definition RunInTerminalResponse_To :: "'d fp \<Rightarrow> RunInTerminalResponse \<Rightarrow> 'd Json" where
  "RunInTerminalResponse_To F x =
     (let body = Json_CreateObject F;
          body = Json_Add_int F ''processId'' (rt_processId x) body;
          json = Response_To F x;
          json = Json_AddItem ''body'' body json
      in json)"

definition RunInTerminalResponse_From :: "'d fp \<Rightarrow> 'd Json \<Rightarrow> RunInTerminalResponse \<Rightarrow> RunInTerminalResponse" where
  "RunInTerminalResponse_From F json x =
     (let body = Json_member json ''body'' in
      (Response_From F json x)\<lparr>
       rt_processId := fp_to_int F (Json_GetNumber (fp_of_int F (- 1)) (Json_member body ''processId'')) \<rparr>)"

definition RunInTerminalResponse_ok :: "RunInTerminalResponse \<Rightarrow> bool" where
  "RunInTerminalResponse_ok x \<longleftrightarrow> Response_ok x \<and> int32 (rt_processId x)"

lemma RunInTerminalResponse_To_ok: "fp_ok F \<Longrightarrow> RunInTerminalResponse_ok x \<Longrightarrow> obj_ok F (RunInTerminalResponse_To F x)"
  by (auto simp: RunInTerminalResponse_To_def Response_To_def ProtocolMessage_To_def
        RunInTerminalResponse_ok_def Response_ok_def ProtocolMessage_ok_def Let_def msg_build
      intro!: msg_wf intro: msg_wf_leaf)

lemma RunInTerminalResponse_From_To:
  "fp_ok F \<Longrightarrow> RunInTerminalResponse_ok x \<Longrightarrow> RunInTerminalResponse_From F (named s (norm_j (RunInTerminalResponse_To F x))) RunInTerminalResponse_new = x"
  by (cases x) (simp add: RunInTerminalResponse_To_def Response_To_def ProtocolMessage_To_def
      RunInTerminalResponse_From_def Response_From_def ProtocolMessage_From_def
      RunInTerminalResponse_ok_def Response_ok_def ProtocolMessage_ok_def RunInTerminalResponse_new_def Let_def msg_build msg_read)

interpretation ser_RunInTerminalResponse: serialisable RunInTerminalResponse_To RunInTerminalResponse_From RunInTerminalResponse_ok RunInTerminalResponse_new
  by unfold_locales (rule RunInTerminalResponse_To_ok RunInTerminalResponse_From_To; assumption)+

record SourceResponse = Response +
  os_content :: string
  os_mimeType :: string

definition SourceResponse_new :: "SourceResponse" where
  "SourceResponse_new = \<lparr> pm_seq = - 1, pm_type = ''response'', rs_request_seq = - 1,
     rs_success = True, rs_command = ''source'', rs_message = [],
     os_content = [], os_mimeType = [] \<rparr>"

definition SourceResponse_To :: "'d fp \<Rightarrow> SourceResponse \<Rightarrow> 'd Json" where
  "SourceResponse_To F x =
     (let body = Json_CreateObject F;
          body = Json_Add_string F ''content'' (os_content x) body;
          body = Json_Add_string F ''mimeType'' (os_mimeType x) body;
          json = Response_To F x;
          json = Json_AddItem ''body'' body json
      in json)"

definition SourceResponse_From :: "'d fp \<Rightarrow> 'd Json \<Rightarrow> SourceResponse \<Rightarrow> SourceResponse" where
  "SourceResponse_From F json x =
     (let body = Json_member json ''body'' in
      (Response_From F json x)\<lparr>
       os_content := Json_GetString [] (Json_member body ''content''),
       os_mimeType := Json_GetString [] (Json_member body ''mimeType'') \<rparr>)"

definition SourceResponse_ok :: "SourceResponse \<Rightarrow> bool" where
  "SourceResponse_ok x \<longleftrightarrow> Response_ok x \<and> no_nul (os_content x) \<and> no_nul (os_mimeType x)"

lemma SourceResponse_To_ok: "fp_ok F \<Longrightarrow> SourceResponse_ok x \<Longrightarrow> obj_ok F (SourceResponse_To F x)"
  by (auto simp: SourceResponse_To_def Response_To_def ProtocolMessage_To_def
        SourceResponse_ok_def Response_ok_def ProtocolMessage_ok_def Let_def msg_build
      intro!: msg_wf intro: msg_wf_leaf)

lemma SourceResponse_From_To:
  "fp_ok F \<Longrightarrow> SourceResponse_ok x \<Longrightarrow> SourceResponse_From F (named s (norm_j (SourceResponse_To F x))) SourceResponse_new = x"
  by (cases x) (simp add: SourceResponse_To_def Response_To_def ProtocolMessage_To_def
      SourceResponse_From_def Response_From_def ProtocolMessage_From_def
      SourceResponse_ok_def Response_ok_def ProtocolMessage_ok_def SourceResponse_new_def Let_def msg_build msg_read)

interpretation ser_SourceResponse: serialisable SourceResponse_To SourceResponse_From SourceResponse_ok SourceResponse_new
  by unfold_locales (rule SourceResponse_To_ok SourceResponse_From_To; assumption)+

record EvaluateResponse = Response +
  es_result :: string
  es_type :: string
  es_variablesReference :: int

definition EvaluateResponse_new :: "EvaluateResponse" where
  "EvaluateResponse_new = \<lparr> pm_seq = - 1, pm_type = ''response'', rs_request_seq = - 1,
     rs_success = True, rs_command = ''evaluate'', rs_message = [],
     es_result = [], es_type = [], es_variablesReference = 0 \<rparr>"

definition EvaluateResponse_To :: "'d fp \<Rightarrow> EvaluateResponse \<Rightarrow> 'd Json" where
  "EvaluateResponse_To F x =
     (let body = Json_CreateObject F;
          body = Json_Add_string F ''result'' (es_result x) body;
          body = Json_Add_string F ''type'' (es_type x) body;
          body = Json_Add_int F ''variablesReference'' (es_variablesReference x) body;
          json = Response_To F x;
          json = Json_AddItem ''body'' body json
      in json)"

definition EvaluateResponse_From :: "'d fp \<Rightarrow> 'd Json \<Rightarrow> EvaluateResponse \<Rightarrow> EvaluateResponse" where
  "EvaluateResponse_From F json x =
     (let body = Json_member json ''body'' in
      (Response_From F json x)\<lparr>
       es_result := Json_GetString [] (Json_member body ''result''),
       es_type := Json_GetString [] (Json_member body ''type''),
       es_variablesReference := fp_to_int F (Json_GetNumber (fp_of_int F (- 1)) (Json_member body ''variablesReference'')) \<rparr>)"

definition EvaluateResponse_ok :: "EvaluateResponse \<Rightarrow> bool" where
  "EvaluateResponse_ok x \<longleftrightarrow> Response_ok x \<and> no_nul (es_result x) \<and> no_nul (es_type x)
     \<and> int32 (es_variablesReference x)"

lemma EvaluateResponse_To_ok: "fp_ok F \<Longrightarrow> EvaluateResponse_ok x \<Longrightarrow> obj_ok F (EvaluateResponse_To F x)"
  by (auto simp: EvaluateResponse_To_def Response_To_def ProtocolMessage_To_def
        EvaluateResponse_ok_def Response_ok_def ProtocolMessage_ok_def Let_def msg_build
      intro!: msg_wf intro: msg_wf_leaf)

lemma EvaluateResponse_From_To:
  "fp_ok F \<Longrightarrow> EvaluateResponse_ok x \<Longrightarrow> EvaluateResponse_From F (named s (norm_j (EvaluateResponse_To F x))) EvaluateResponse_new = x"
  by (cases x) (simp add: EvaluateResponse_To_def Response_To_def ProtocolMessage_To_def
      EvaluateResponse_From_def Response_From_def ProtocolMessage_From_def
      EvaluateResponse_ok_def Response_ok_def ProtocolMessage_ok_def EvaluateResponse_new_def Let_def msg_build msg_read)

interpretation ser_EvaluateResponse: serialisable EvaluateResponse_To EvaluateResponse_From EvaluateResponse_ok EvaluateResponse_new
  by unfold_locales (rule EvaluateResponse_To_ok EvaluateResponse_From_To; assumption)+

record DisassembleResponse = Response +
  ds_result :: string
  ds_type :: string
  ds_disassembleInfo :: "DisassembleInfo list"

definition DisassembleResponse_new :: "DisassembleResponse" where
  "DisassembleResponse_new = \<lparr> pm_seq = - 1, pm_type = ''response'', rs_request_seq = - 1,
     rs_success = True, rs_command = ''disassemble'', rs_message = [],
     ds_result = [], ds_type = [], ds_disassembleInfo = [] \<rparr>"

definition DisassembleResponse_To :: "'d fp \<Rightarrow> DisassembleResponse \<Rightarrow> 'd Json" where
  "DisassembleResponse_To F x =
     (let body = Json_CreateObject F;
          body = Json_AddItem ''instructions'' (json_array F (map (DisassembleInfo_To F) (ds_disassembleInfo x))) body;
          json = Response_To F x;
          json = Json_AddItem ''body'' body json
      in json)"

definition DisassembleResponse_From :: "'d fp \<Rightarrow> 'd Json \<Rightarrow> DisassembleResponse \<Rightarrow> DisassembleResponse" where
  "DisassembleResponse_From F json x =
     (let body = Json_member json ''body'' in
      (Response_From F json x)\<lparr>
       ds_disassembleInfo := json_elements (\<lambda>e. DisassembleInfo_From F e (DisassembleInfo_new 0)) (Json_member body ''instructions'') \<rparr>)"

type_synonym GotoResponse = Response

definition GotoResponse_new :: "GotoResponse" where
  "GotoResponse_new = \<lparr> pm_seq = - 1, pm_type = ''response'', rs_request_seq = - 1,
     rs_success = True, rs_command = ''goto'', rs_message = [] \<rparr>"

definition GotoResponse_To :: "'d fp \<Rightarrow> GotoResponse \<Rightarrow> 'd Json" where
  "GotoResponse_To F x =
     (let json = Response_To F x
      in json)"

definition GotoResponse_From :: "'d fp \<Rightarrow> 'd Json \<Rightarrow> GotoResponse \<Rightarrow> GotoResponse" where
  "GotoResponse_From F json x =
     (Response_From F json x)"

definition GotoResponse_ok :: "GotoResponse \<Rightarrow> bool" where
  "GotoResponse_ok x \<longleftrightarrow> Response_ok x"

lemma GotoResponse_To_ok: "fp_ok F \<Longrightarrow> GotoResponse_ok x \<Longrightarrow> obj_ok F (GotoResponse_To F x)"
  by (auto simp: GotoResponse_To_def Response_To_def ProtocolMessage_To_def
        GotoResponse_ok_def Response_ok_def ProtocolMessage_ok_def Let_def msg_build
      intro!: msg_wf intro: msg_wf_leaf)

lemma GotoResponse_From_To:
  "fp_ok F \<Longrightarrow> GotoResponse_ok x \<Longrightarrow> GotoResponse_From F (named s (norm_j (GotoResponse_To F x))) GotoResponse_new = x"
  by (cases x) (simp add: GotoResponse_To_def Response_To_def ProtocolMessage_To_def
      GotoResponse_From_def Response_From_def ProtocolMessage_From_def
      GotoResponse_ok_def Response_ok_def ProtocolMessage_ok_def GotoResponse_new_def Let_def msg_build msg_read)

interpretation ser_GotoResponse: serialisable GotoResponse_To GotoResponse_From GotoResponse_ok GotoResponse_new
  by unfold_locales (rule GotoResponse_To_ok GotoResponse_From_To; assumption)+

record GotoTargetsResponse = Response +
  tz_result :: string
  tz_type :: string
  tz_gotoTargetsInfo :: "GotoTargetsInfo list"

definition GotoTargetsResponse_new :: "GotoTargetsResponse" where
  "GotoTargetsResponse_new = \<lparr> pm_seq = - 1, pm_type = ''response'', rs_request_seq = - 1,
     rs_success = True, rs_command = ''gotoTargets'', rs_message = [],
     tz_result = [], tz_type = [], tz_gotoTargetsInfo = [] \<rparr>"

definition GotoTargetsResponse_To :: "'d fp \<Rightarrow> GotoTargetsResponse \<Rightarrow> 'd Json" where
  "GotoTargetsResponse_To F x =
     (let body = Json_CreateObject F;
          body = Json_AddItem ''gotoTargets'' (json_array F (map (GotoTargetsInfo_To F) (tz_gotoTargetsInfo x))) body;
          json = Response_To F x;
          json = Json_AddItem ''body'' body json
      in json)"

definition GotoTargetsResponse_From :: "'d fp \<Rightarrow> 'd Json \<Rightarrow> GotoTargetsResponse \<Rightarrow> GotoTargetsResponse" where
  "GotoTargetsResponse_From F json x =
     (let body = Json_member json ''body'' in
      (Response_From F json x)\<lparr>
       tz_gotoTargetsInfo := json_elements (\<lambda>e. GotoTargetsInfo_From F e GotoTargetsInfo_new) (Json_member body ''targets'') \<rparr>)"

record ReadMemoryResponse = Response +
  ms_address :: string
  ms_unreadableBytes :: int
  ms_data :: string

definition ReadMemoryResponse_new :: "ReadMemoryResponse" where
  "ReadMemoryResponse_new = \<lparr> pm_seq = - 1, pm_type = ''response'', rs_request_seq = - 1,
     rs_success = True, rs_command = ''readMemory'', rs_message = [],
     ms_address = [], ms_unreadableBytes = 0, ms_data = [] \<rparr>"

definition ReadMemoryResponse_To :: "'d fp \<Rightarrow> ReadMemoryResponse \<Rightarrow> 'd Json" where
  "ReadMemoryResponse_To F x =
     (let body = Json_CreateObject F;
          body = Json_Add_string F ''address'' (ms_address x) body;
          body = Json_Add_int F ''unreadableBytes'' (ms_unreadableBytes x) body;
          body = Json_Add_string F ''data'' (ms_data x) body;
          json = Response_To F x;
          json = Json_AddItem ''body'' body json
      in json)"

definition ReadMemoryResponse_From :: "'d fp \<Rightarrow> 'd Json \<Rightarrow> ReadMemoryResponse \<Rightarrow> ReadMemoryResponse" where
  "ReadMemoryResponse_From F json x =
     (let body = Json_member json ''body'' in
      (Response_From F json x)\<lparr>
       ms_address := Json_GetString [] (Json_member body ''address''),
       ms_unreadableBytes := Json_GetInteger (- 1) (Json_member body ''unreadableBytes''),
       ms_data := Json_GetString [] (Json_member body ''data'') \<rparr>)"

definition ReadMemoryResponse_ok :: "ReadMemoryResponse \<Rightarrow> bool" where
  "ReadMemoryResponse_ok x \<longleftrightarrow> Response_ok x \<and> no_nul (ms_address x) \<and> int32 (ms_unreadableBytes x)
     \<and> no_nul (ms_data x)"

lemma ReadMemoryResponse_To_ok: "fp_ok F \<Longrightarrow> ReadMemoryResponse_ok x \<Longrightarrow> obj_ok F (ReadMemoryResponse_To F x)"
  by (auto simp: ReadMemoryResponse_To_def Response_To_def ProtocolMessage_To_def
        ReadMemoryResponse_ok_def Response_ok_def ProtocolMessage_ok_def Let_def msg_build
      intro!: msg_wf intro: msg_wf_leaf)

lemma ReadMemoryResponse_From_To:
  "fp_ok F \<Longrightarrow> ReadMemoryResponse_ok x \<Longrightarrow> ReadMemoryResponse_From F (named s (norm_j (ReadMemoryResponse_To F x))) ReadMemoryResponse_new = x"
  by (cases x) (simp add: ReadMemoryResponse_To_def Response_To_def ProtocolMessage_To_def
      ReadMemoryResponse_From_def Response_From_def ProtocolMessage_From_def
      ReadMemoryResponse_ok_def Response_ok_def ProtocolMessage_ok_def ReadMemoryResponse_new_def Let_def msg_build msg_read)

interpretation ser_ReadMemoryResponse: serialisable ReadMemoryResponse_To ReadMemoryResponse_From ReadMemoryResponse_ok ReadMemoryResponse_new
  by unfold_locales (rule ReadMemoryResponse_To_ok ReadMemoryResponse_From_To; assumption)+

end
