(* ===== verification/Dap_MsgEvents.thy ===== *)
theory Dap_MsgEvents
  imports Dap_MsgBase
begin

text \<open>
  The events of the protocol. \<open>StoppedEvent\<close> without a text takes the printed message as its
  text; \<open>pointerSize\<close> starts at the pointer size of a 64-bit build. \<open>uninit_port\<close> is what an
  uninitialised field holds.
\<close>

type_synonym InitializedEvent = Event

definition InitializedEvent_new :: "InitializedEvent" where
  "InitializedEvent_new = \<lparr> pm_seq = - 1, pm_type = ''event'', ev_event = ''initialized'' \<rparr>"

definition InitializedEvent_To :: "'d fp \<Rightarrow> InitializedEvent \<Rightarrow> 'd Json" where
  "InitializedEvent_To F x =
     (let json = Event_To F x
      in json)"

definition InitializedEvent_From :: "'d fp \<Rightarrow> 'd Json \<Rightarrow> InitializedEvent \<Rightarrow> InitializedEvent" where
  "InitializedEvent_From F json x =
     (Event_From F json x)"

definition InitializedEvent_ok :: "InitializedEvent \<Rightarrow> bool" where
  "InitializedEvent_ok x \<longleftrightarrow> Event_ok x"

lemma InitializedEvent_To_ok: "fp_ok F \<Longrightarrow> InitializedEvent_ok x \<Longrightarrow> obj_ok F (InitializedEvent_To F x)"
  by (auto simp: InitializedEvent_To_def Event_To_def ProtocolMessage_To_def
        InitializedEvent_ok_def Event_ok_def ProtocolMessage_ok_def Let_def msg_build
      intro!: msg_wf intro: msg_wf_leaf)

lemma InitializedEvent_From_To:
  "fp_ok F \<Longrightarrow> InitializedEvent_ok x \<Longrightarrow> InitializedEvent_From F (named s (norm_j (InitializedEvent_To F x))) InitializedEvent_new = x"
  by (cases x) (simp add: InitializedEvent_To_def Event_To_def ProtocolMessage_To_def
      InitializedEvent_From_def Event_From_def ProtocolMessage_From_def
      InitializedEvent_ok_def Event_ok_def ProtocolMessage_ok_def InitializedEvent_new_def Let_def msg_build msg_read)

interpretation ser_InitializedEvent: serialisable InitializedEvent_To InitializedEvent_From InitializedEvent_ok InitializedEvent_new
  by unfold_locales (rule InitializedEvent_To_ok InitializedEvent_From_To; assumption)+

record StoppedEvent = Event +
  se_reason :: string
  se_text :: string
  se_description :: string
  se_allThreadsStopped :: bool
  se_threadId :: int

definition StoppedEvent_new :: "StoppedEvent" where
  "StoppedEvent_new = \<lparr> pm_seq = - 1, pm_type = ''event'', ev_event = ''stopped'',
     se_reason = [], se_text = [], se_description = [],
     se_allThreadsStopped = False, se_threadId = wxNOT_FOUND \<rparr>"

definition StoppedEvent_To :: "'d fp \<Rightarrow> StoppedEvent \<Rightarrow> 'd Json" where
  "StoppedEvent_To F x =
     (let body = Json_CreateObject F;
          body = Json_Add_string F ''reason'' (se_reason x) body;
          body = Json_Add_string F ''text'' (se_text x) body;
          body = Json_Add_string F ''description'' (se_description x) body;
          body = Json_Add_bool F ''allThreadsStopped'' (se_allThreadsStopped x) body;
          body = Json_Add_int F ''threadId'' (se_threadId x) body;
          json = Event_To F x;
          json = Json_AddItem ''body'' body json
      in json)"

definition StoppedEvent_From :: "'d fp \<Rightarrow> 'd Json \<Rightarrow> StoppedEvent \<Rightarrow> StoppedEvent" where
  "StoppedEvent_From F json x =
     (let body = Json_member json ''body'' in
      (Event_From F json x)\<lparr>
       se_reason := Json_GetString [] (Json_member body ''reason''),
       se_text := (let text = Json_GetString [] (Json_member body ''text'') in
         if text = [] then Json_ToString F True json else text),
       se_description := Json_GetString [] (Json_member body ''description''),
       se_allThreadsStopped := Json_GetBool False (Json_member body ''allThreadsStopped''),
       se_threadId := Json_GetInteger wxNOT_FOUND (Json_member body ''threadId'') \<rparr>)"

definition StoppedEvent_ok :: "StoppedEvent \<Rightarrow> bool" where
  "StoppedEvent_ok x \<longleftrightarrow> Event_ok x \<and> no_nul (se_reason x) \<and> no_nul (se_text x) \<and> se_text x \<noteq> []
     \<and> no_nul (se_description x) \<and> int32 (se_threadId x)"

lemma StoppedEvent_To_ok: "fp_ok F \<Longrightarrow> StoppedEvent_ok x \<Longrightarrow> obj_ok F (StoppedEvent_To F x)"
  by (auto simp: StoppedEvent_To_def Event_To_def ProtocolMessage_To_def
        StoppedEvent_ok_def Event_ok_def ProtocolMessage_ok_def Let_def msg_build
      intro!: msg_wf intro: msg_wf_leaf)

lemma StoppedEvent_From_To:
  "fp_ok F \<Longrightarrow> StoppedEvent_ok x \<Longrightarrow> StoppedEvent_From F (named s (norm_j (StoppedEvent_To F x))) StoppedEvent_new = x"
  by (cases x) (simp add: StoppedEvent_To_def Event_To_def ProtocolMessage_To_def
      StoppedEvent_From_def Event_From_def ProtocolMessage_From_def
      StoppedEvent_ok_def Event_ok_def ProtocolMessage_ok_def StoppedEvent_new_def Let_def msg_build msg_read)

interpretation ser_StoppedEvent: serialisable StoppedEvent_To StoppedEvent_From StoppedEvent_ok StoppedEvent_new
  by unfold_locales (rule StoppedEvent_To_ok StoppedEvent_From_To; assumption)+

record ContinuedEvent = Event +
  ce_threadId :: int
  ce_allThreadsContinued :: bool

definition ContinuedEvent_new :: "ContinuedEvent" where
  "ContinuedEvent_new = \<lparr> pm_seq = - 1, pm_type = ''event'', ev_event = ''continued'',
     ce_threadId = - 1, ce_allThreadsContinued = True \<rparr>"

definition ContinuedEvent_To :: "'d fp \<Rightarrow> ContinuedEvent \<Rightarrow> 'd Json" where
  "ContinuedEvent_To F x =
     (let body = Json_CreateObject F;
          body = Json_Add_int F ''threadId'' (ce_threadId x) body;
          body = Json_Add_bool F ''allThreadsContinued'' (ce_allThreadsContinued x) body;
          json = Event_To F x;
          json = Json_AddItem ''body'' body json
      in json)"

definition ContinuedEvent_From :: "'d fp \<Rightarrow> 'd Json \<Rightarrow> ContinuedEvent \<Rightarrow> ContinuedEvent" where
  "ContinuedEvent_From F json x =
     (let body = Json_member json ''body'' in
      (Event_From F json x)\<lparr>
       ce_threadId := Json_GetInteger (- 1) (Json_member body ''threadId''),
       ce_allThreadsContinued := Json_GetBool False (Json_member body ''allThreadsContinued'') \<rparr>)"

definition ContinuedEvent_ok :: "ContinuedEvent \<Rightarrow> bool" where
  "ContinuedEvent_ok x \<longleftrightarrow> Event_ok x \<and> int32 (ce_threadId x)"

lemma ContinuedEvent_To_ok: "fp_ok F \<Longrightarrow> ContinuedEvent_ok x \<Longrightarrow> obj_ok F (ContinuedEvent_To F x)"
  by (auto simp: ContinuedEvent_To_def Event_To_def ProtocolMessage_To_def
        ContinuedEvent_ok_def Event_ok_def ProtocolMessage_ok_def Let_def msg_build
      intro!: msg_wf intro: msg_wf_leaf)

lemma ContinuedEvent_From_To:
  "fp_ok F \<Longrightarrow> ContinuedEvent_ok x \<Longrightarrow> ContinuedEvent_From F (named s (norm_j (ContinuedEvent_To F x))) ContinuedEvent_new = x"
  by (cases x) (simp add: ContinuedEvent_To_def Event_To_def ProtocolMessage_To_def
      ContinuedEvent_From_def Event_From_def ProtocolMessage_From_def
      ContinuedEvent_ok_def Event_ok_def ProtocolMessage_ok_def ContinuedEvent_new_def Let_def msg_build msg_read)

interpretation ser_ContinuedEvent: serialisable ContinuedEvent_To ContinuedEvent_From ContinuedEvent_ok ContinuedEvent_new
  by unfold_locales (rule ContinuedEvent_To_ok ContinuedEvent_From_To; assumption)+

record ExitedEvent = Event +
  xe_exitCode :: int

definition ExitedEvent_new :: "ExitedEvent" where
  "ExitedEvent_new = \<lparr> pm_seq = - 1, pm_type = ''event'', ev_event = ''exited'',
     xe_exitCode = 0 \<rparr>"

definition ExitedEvent_To :: "'d fp \<Rightarrow> ExitedEvent \<Rightarrow> 'd Json" where
  "ExitedEvent_To F x =
     (let body = Json_CreateObject F;
          body = Json_Add_int F ''exitCode'' (xe_exitCode x) body;
          json = Event_To F x;
          json = Json_AddItem ''body'' body json
      in json)"

definition ExitedEvent_From :: "'d fp \<Rightarrow> 'd Json \<Rightarrow> ExitedEvent \<Rightarrow> ExitedEvent" where
  "ExitedEvent_From F json x =
     (let body = Json_member json ''body'' in
      (Event_From F json x)\<lparr>
       xe_exitCode := Json_GetInteger (- 1) (Json_member body ''exitCode'') \<rparr>)"

definition ExitedEvent_ok :: "ExitedEvent \<Rightarrow> bool" where
  "ExitedEvent_ok x \<longleftrightarrow> Event_ok x \<and> int32 (xe_exitCode x)"

lemma ExitedEvent_To_ok: "fp_ok F \<Longrightarrow> ExitedEvent_ok x \<Longrightarrow> obj_ok F (ExitedEvent_To F x)"
  by (auto simp: ExitedEvent_To_def Event_To_def ProtocolMessage_To_def
        ExitedEvent_ok_def Event_ok_def ProtocolMessage_ok_def Let_def msg_build
      intro!: msg_wf intro: msg_wf_leaf)

lemma ExitedEvent_From_To:
  "fp_ok F \<Longrightarrow> ExitedEvent_ok x \<Longrightarrow> ExitedEvent_From F (named s (norm_j (ExitedEvent_To F x))) ExitedEvent_new = x"
  by (cases x) (simp add: ExitedEvent_To_def Event_To_def ProtocolMessage_To_def
      ExitedEvent_From_def Event_From_def ProtocolMessage_From_def
      ExitedEvent_ok_def Event_ok_def ProtocolMessage_ok_def ExitedEvent_new_def Let_def msg_build msg_read)

interpretation ser_ExitedEvent: serialisable ExitedEvent_To ExitedEvent_From ExitedEvent_ok ExitedEvent_new
  by unfold_locales (rule ExitedEvent_To_ok ExitedEvent_From_To; assumption)+

type_synonym TerminatedEvent = Event

definition TerminatedEvent_new :: "TerminatedEvent" where
  "TerminatedEvent_new = \<lparr> pm_seq = - 1, pm_type = ''event'', ev_event = ''terminated'' \<rparr>"

definition TerminatedEvent_To :: "'d fp \<Rightarrow> TerminatedEvent \<Rightarrow> 'd Json" where
  "TerminatedEvent_To F x =
     (let json = Event_To F x
      in json)"

definition TerminatedEvent_From :: "'d fp \<Rightarrow> 'd Json \<Rightarrow> TerminatedEvent \<Rightarrow> TerminatedEvent" where
  "TerminatedEvent_From F json x =
     (Event_From F json x)"

definition TerminatedEvent_ok :: "TerminatedEvent \<Rightarrow> bool" where
  "TerminatedEvent_ok x \<longleftrightarrow> Event_ok x"

lemma TerminatedEvent_To_ok: "fp_ok F \<Longrightarrow> TerminatedEvent_ok x \<Longrightarrow> obj_ok F (TerminatedEvent_To F x)"
  by (auto simp: TerminatedEvent_To_def Event_To_def ProtocolMessage_To_def
        TerminatedEvent_ok_def Event_ok_def ProtocolMessage_ok_def Let_def msg_build
      intro!: msg_wf intro: msg_wf_leaf)

lemma TerminatedEvent_From_To:
  "fp_ok F \<Longrightarrow> TerminatedEvent_ok x \<Longrightarrow> TerminatedEvent_From F (named s (norm_j (TerminatedEvent_To F x))) TerminatedEvent_new = x"
  by (cases x) (simp add: TerminatedEvent_To_def Event_To_def ProtocolMessage_To_def
      TerminatedEvent_From_def Event_From_def ProtocolMessage_From_def
      TerminatedEvent_ok_def Event_ok_def ProtocolMessage_ok_def TerminatedEvent_new_def Let_def msg_build msg_read)

interpretation ser_TerminatedEvent: serialisable TerminatedEvent_To TerminatedEvent_From TerminatedEvent_ok TerminatedEvent_new
  by unfold_locales (rule TerminatedEvent_To_ok TerminatedEvent_From_To; assumption)+

record ThreadEvent = Event +
  he_reason :: string
  he_threadId :: int

definition ThreadEvent_new :: "ThreadEvent" where
  "ThreadEvent_new = \<lparr> pm_seq = - 1, pm_type = ''event'', ev_event = ''thread'',
     he_reason = [], he_threadId = 0 \<rparr>"

definition ThreadEvent_To :: "'d fp \<Rightarrow> ThreadEvent \<Rightarrow> 'd Json" where
  "ThreadEvent_To F x =
     (let body = Json_CreateObject F;
          body = Json_Add_string F ''reason'' (he_reason x) body;
          body = Json_Add_int F ''threadId'' (he_threadId x) body;
          json = Event_To F x;
          json = Json_AddItem ''body'' body json
      in json)"

definition ThreadEvent_From :: "'d fp \<Rightarrow> 'd Json \<Rightarrow> ThreadEvent \<Rightarrow> ThreadEvent" where
  "ThreadEvent_From F json x =
     (let body = Json_member json ''body'' in
      (Event_From F json x)\<lparr>
       he_reason := Json_GetString [] (Json_member body ''reason''),
       he_threadId := Json_GetInteger (- 1) (Json_member body ''threadId'') \<rparr>)"

definition ThreadEvent_ok :: "ThreadEvent \<Rightarrow> bool" where
  "ThreadEvent_ok x \<longleftrightarrow> Event_ok x \<and> no_nul (he_reason x) \<and> int32 (he_threadId x)"

lemma ThreadEvent_To_ok: "fp_ok F \<Longrightarrow> ThreadEvent_ok x \<Longrightarrow> obj_ok F (ThreadEvent_To F x)"
  by (auto simp: ThreadEvent_To_def Event_To_def ProtocolMessage_To_def
        ThreadEvent_ok_def Event_ok_def ProtocolMessage_ok_def Let_def msg_build
      intro!: msg_wf intro: msg_wf_leaf)

lemma ThreadEvent_From_To:
  "fp_ok F \<Longrightarrow> ThreadEvent_ok x \<Longrightarrow> ThreadEvent_From F (named s (norm_j (ThreadEvent_To F x))) ThreadEvent_new = x"
  by (cases x) (simp add: ThreadEvent_To_def Event_To_def ProtocolMessage_To_def
      ThreadEvent_From_def Event_From_def ProtocolMessage_From_def
      ThreadEvent_ok_def Event_ok_def ProtocolMessage_ok_def ThreadEvent_new_def Let_def msg_build msg_read)

interpretation ser_ThreadEvent: serialisable ThreadEvent_To ThreadEvent_From ThreadEvent_ok ThreadEvent_new
  by unfold_locales (rule ThreadEvent_To_ok ThreadEvent_From_To; assumption)+

record OutputEvent = Event +
  oe_category :: string
  oe_output :: string

definition OutputEvent_new :: "OutputEvent" where
  "OutputEvent_new = \<lparr> pm_seq = - 1, pm_type = ''event'', ev_event = ''output'',
     oe_category = [], oe_output = [] \<rparr>"

definition OutputEvent_To :: "'d fp \<Rightarrow> OutputEvent \<Rightarrow> 'd Json" where
  "OutputEvent_To F x =
     (let body = Json_CreateObject F;
          body = Json_Add_string F ''category'' (oe_category x) body;
          body = Json_Add_string F ''output'' (oe_output x) body;
          json = Event_To F x;
          json = Json_AddItem ''body'' body json
      in json)"

definition OutputEvent_From :: "'d fp \<Rightarrow> 'd Json \<Rightarrow> OutputEvent \<Rightarrow> OutputEvent" where
  "OutputEvent_From F json x =
     (let body = Json_member json ''body'' in
      (Event_From F json x)\<lparr>
       oe_category := Json_GetString [] (Json_member body ''category''),
       oe_output := Json_GetString [] (Json_member body ''output'') \<rparr>)"

definition OutputEvent_ok :: "OutputEvent \<Rightarrow> bool" where
  "OutputEvent_ok x \<longleftrightarrow> Event_ok x \<and> no_nul (oe_category x) \<and> no_nul (oe_output x)"

lemma OutputEvent_To_ok: "fp_ok F \<Longrightarrow> OutputEvent_ok x \<Longrightarrow> obj_ok F (OutputEvent_To F x)"
  by (auto simp: OutputEvent_To_def Event_To_def ProtocolMessage_To_def
        OutputEvent_ok_def Event_ok_def ProtocolMessage_ok_def Let_def msg_build
      intro!: msg_wf intro: msg_wf_leaf)

lemma OutputEvent_From_To:
  "fp_ok F \<Longrightarrow> OutputEvent_ok x \<Longrightarrow> OutputEvent_From F (named s (norm_j (OutputEvent_To F x))) OutputEvent_new = x"
  by (cases x) (simp add: OutputEvent_To_def Event_To_def ProtocolMessage_To_def
      OutputEvent_From_def Event_From_def ProtocolMessage_From_def
      OutputEvent_ok_def Event_ok_def ProtocolMessage_ok_def OutputEvent_new_def Let_def msg_build msg_read)

interpretation ser_OutputEvent: serialisable OutputEvent_To OutputEvent_From OutputEvent_ok OutputEvent_new
  by unfold_locales (rule OutputEvent_To_ok OutputEvent_From_To; assumption)+

record BreakpointEvent = Event +
  be_reason :: string
  be_breakpoint :: Breakpoint

definition BreakpointEvent_new :: "BreakpointEvent" where
  "BreakpointEvent_new = \<lparr> pm_seq = - 1, pm_type = ''event'', ev_event = ''breakpoint'',
     be_reason = [], be_breakpoint = Breakpoint_new \<rparr>"

definition BreakpointEvent_To :: "'d fp \<Rightarrow> BreakpointEvent \<Rightarrow> 'd Json" where
  "BreakpointEvent_To F x =
     (let body = Json_CreateObject F;
          body = Json_Add_string F ''reason'' (be_reason x) body;
          body = Json_AddObject ''breakpoint'' (Breakpoint_To F (be_breakpoint x)) body;
          json = Event_To F x;
          json = Json_AddItem ''body'' body json
      in json)"

definition BreakpointEvent_From :: "'d fp \<Rightarrow> 'd Json \<Rightarrow> BreakpointEvent \<Rightarrow> BreakpointEvent" where
  "BreakpointEvent_From F json x =
     (let body = Json_member json ''body'' in
      (Event_From F json x)\<lparr>
       be_reason := Json_GetString [] (Json_member body ''reason''),
       be_breakpoint := Breakpoint_From F (Json_member body ''breakpoint'') (be_breakpoint x) \<rparr>)"

definition BreakpointEvent_ok :: "BreakpointEvent \<Rightarrow> bool" where
  "BreakpointEvent_ok x \<longleftrightarrow> Event_ok x \<and> no_nul (be_reason x) \<and> Breakpoint_ok (be_breakpoint x)"

lemma BreakpointEvent_To_ok: "fp_ok F \<Longrightarrow> BreakpointEvent_ok x \<Longrightarrow> obj_ok F (BreakpointEvent_To F x)"
  by (auto simp: BreakpointEvent_To_def Event_To_def ProtocolMessage_To_def
        BreakpointEvent_ok_def Event_ok_def ProtocolMessage_ok_def Let_def msg_build
      intro!: msg_wf intro: msg_wf_leaf ser_Breakpoint.To_wf ser_Breakpoint.array_wf)

lemma BreakpointEvent_From_To:
  "fp_ok F \<Longrightarrow> BreakpointEvent_ok x \<Longrightarrow> BreakpointEvent_From F (named s (norm_j (BreakpointEvent_To F x))) BreakpointEvent_new = x"
  by (cases x) (simp add: BreakpointEvent_To_def Event_To_def ProtocolMessage_To_def
      BreakpointEvent_From_def Event_From_def ProtocolMessage_From_def
      BreakpointEvent_ok_def Event_ok_def ProtocolMessage_ok_def BreakpointEvent_new_def Let_def msg_build msg_read ser_Breakpoint.From_To ser_Breakpoint.elements)

interpretation ser_BreakpointEvent: serialisable BreakpointEvent_To BreakpointEvent_From BreakpointEvent_ok BreakpointEvent_new
  by unfold_locales (rule BreakpointEvent_To_ok BreakpointEvent_From_To; assumption)+

record ProcessEvent = Event +
  pe_name :: string
  pe_systemProcessId :: int
  pe_isLocalProcess :: bool
  pe_startMethod :: string
  pe_pointerSize :: int

definition ProcessEvent_new :: "ProcessEvent" where
  "ProcessEvent_new = \<lparr> pm_seq = - 1, pm_type = ''event'', ev_event = ''process'',
     pe_name = [], pe_systemProcessId = - 1, pe_isLocalProcess = True,
     pe_startMethod = [], pe_pointerSize = 8 \<rparr>"

definition ProcessEvent_To :: "'d fp \<Rightarrow> ProcessEvent \<Rightarrow> 'd Json" where
  "ProcessEvent_To F x =
     (let body = Json_CreateObject F;
          body = Json_Add_string F ''name'' (pe_name x) body;
          body = Json_Add_int F ''systemProcessId'' (pe_systemProcessId x) body;
          body = Json_Add_bool F ''isLocalProcess'' (pe_isLocalProcess x) body;
          body = Json_Add_string F ''startMethod'' (pe_startMethod x) body;
          body = Json_Add_int F ''pointerSize'' (pe_pointerSize x) body;
          json = Event_To F x;
          json = Json_AddItem ''body'' body json
      in json)"

definition ProcessEvent_From :: "'d fp \<Rightarrow> 'd Json \<Rightarrow> ProcessEvent \<Rightarrow> ProcessEvent" where
  "ProcessEvent_From F json x =
     (let body = Json_member json ''body'' in
      (Event_From F json x)\<lparr>
       pe_name := Json_GetString [] (Json_member body ''name''),
       pe_systemProcessId := Json_GetInteger (- 1) (Json_member body ''systemProcessId''),
       pe_isLocalProcess := Json_GetBool True (Json_member body ''isLocalProcess''),
       pe_startMethod := Json_GetString [] (Json_member body ''startMethod''),
       pe_pointerSize := Json_GetInteger (- 1) (Json_member body ''pointerSize'') \<rparr>)"

definition ProcessEvent_ok :: "ProcessEvent \<Rightarrow> bool" where
  "ProcessEvent_ok x \<longleftrightarrow> Event_ok x \<and> no_nul (pe_name x) \<and> int32 (pe_systemProcessId x)
     \<and> pe_isLocalProcess x \<and> no_nul (pe_startMethod x) \<and> int32 (pe_pointerSize x)"

lemma ProcessEvent_To_ok: "fp_ok F \<Longrightarrow> ProcessEvent_ok x \<Longrightarrow> obj_ok F (ProcessEvent_To F x)"
  by (auto simp: ProcessEvent_To_def Event_To_def ProtocolMessage_To_def
        ProcessEvent_ok_def Event_ok_def ProtocolMessage_ok_def Let_def msg_build
      intro!: msg_wf intro: msg_wf_leaf)

lemma ProcessEvent_From_To:
  "fp_ok F \<Longrightarrow> ProcessEvent_ok x \<Longrightarrow> ProcessEvent_From F (named s (norm_j (ProcessEvent_To F x))) ProcessEvent_new = x"
  by (cases x) (simp add: ProcessEvent_To_def Event_To_def ProtocolMessage_To_def
      ProcessEvent_From_def Event_From_def ProtocolMessage_From_def
      ProcessEvent_ok_def Event_ok_def ProtocolMessage_ok_def ProcessEvent_new_def Let_def msg_build msg_read)

interpretation ser_ProcessEvent: serialisable ProcessEvent_To ProcessEvent_From ProcessEvent_ok ProcessEvent_new
  by unfold_locales (rule ProcessEvent_To_ok ProcessEvent_From_To; assumption)+

record ModuleEvent = Event +
  me_reason :: string
  me_module :: Module

definition ModuleEvent_new :: "ModuleEvent" where
  "ModuleEvent_new = \<lparr> pm_seq = - 1, pm_type = ''event'', ev_event = ''module'',
     me_reason = [], me_module = Module_new \<rparr>"

definition ModuleEvent_To :: "'d fp \<Rightarrow> ModuleEvent \<Rightarrow> 'd Json" where
  "ModuleEvent_To F x =
     (let body = Json_CreateObject F;
          body = Json_Add_string F ''reason'' (me_reason x) body;
          body = Json_AddObject ''module'' (Module_To F (me_module x)) body;
          json = Event_To F x;
          json = Json_AddItem ''body'' body json
      in json)"

definition ModuleEvent_From :: "'d fp \<Rightarrow> 'd Json \<Rightarrow> ModuleEvent \<Rightarrow> ModuleEvent" where
  "ModuleEvent_From F json x =
     (let body = Json_member json ''body'' in
      (Event_From F json x)\<lparr>
       me_reason := Json_GetString [] (Json_member body ''reason''),
       me_module := Module_From F (Json_member body ''module'') (me_module x) \<rparr>)"

definition ModuleEvent_ok :: "ModuleEvent \<Rightarrow> bool" where
  "ModuleEvent_ok x \<longleftrightarrow> Event_ok x \<and> no_nul (me_reason x) \<and> Module_ok (me_module x)"

lemma ModuleEvent_To_ok: "fp_ok F \<Longrightarrow> ModuleEvent_ok x \<Longrightarrow> obj_ok F (ModuleEvent_To F x)"
  by (auto simp: ModuleEvent_To_def Event_To_def ProtocolMessage_To_def
        ModuleEvent_ok_def Event_ok_def ProtocolMessage_ok_def Let_def msg_build
      intro!: msg_wf intro: msg_wf_leaf ser_Module.To_wf ser_Module.array_wf)

lemma ModuleEvent_From_To:
  "fp_ok F \<Longrightarrow> ModuleEvent_ok x \<Longrightarrow> ModuleEvent_From F (named s (norm_j (ModuleEvent_To F x))) ModuleEvent_new = x"
  by (cases x) (simp add: ModuleEvent_To_def Event_To_def ProtocolMessage_To_def
      ModuleEvent_From_def Event_From_def ProtocolMessage_From_def
      ModuleEvent_ok_def Event_ok_def ProtocolMessage_ok_def ModuleEvent_new_def Let_def msg_build msg_read ser_Module.From_To ser_Module.elements)

interpretation ser_ModuleEvent: serialisable ModuleEvent_To ModuleEvent_From ModuleEvent_ok ModuleEvent_new
  by unfold_locales (rule ModuleEvent_To_ok ModuleEvent_From_To; assumption)+

record DebugpyWaitingForServerEvent = Event +
  dw_host :: string
  dw_port :: int

definition DebugpyWaitingForServerEvent_new :: "int \<Rightarrow> DebugpyWaitingForServerEvent" where
  "DebugpyWaitingForServerEvent_new uninit_port = \<lparr> pm_seq = - 1, pm_type = ''event'', ev_event = '''',
     dw_host = [], dw_port = uninit_port \<rparr>"

definition DebugpyWaitingForServerEvent_To :: "'d fp \<Rightarrow> DebugpyWaitingForServerEvent \<Rightarrow> 'd Json" where
  "DebugpyWaitingForServerEvent_To F x =
     (let body = Json_CreateObject F;
          body = Json_Add_string F ''host'' (dw_host x) body;
          body = Json_Add_int F ''port'' (dw_port x) body;
          json = Event_To F x;
          json = Json_AddItem ''body'' body json
      in json)"

definition DebugpyWaitingForServerEvent_From :: "'d fp \<Rightarrow> 'd Json \<Rightarrow> DebugpyWaitingForServerEvent \<Rightarrow> DebugpyWaitingForServerEvent" where
  "DebugpyWaitingForServerEvent_From F json x =
     (let body = Json_member json ''body'' in
      (Event_From F json x)\<lparr>
       dw_host := Json_GetString [] (Json_member body ''host''),
       dw_port := Json_GetInteger (- 1) (Json_member body ''port'') \<rparr>)"

end
