(* ===== verification/Dap_ObjGen.thy ===== *)
theory Dap_ObjGen
  imports Dap_MsgRequests Dap_MsgResponses Dap_MsgEvents
begin

text \<open>
  The registry of message classes (\<open>ObjGenerator\<close>) and the dispatch of a JSON text to the
  class it names. A message is a value of one of three datatypes, one constructor per class;
  the virtual methods \<open>To\<close> and \<open>From\<close> are their case distinctions. A registered factory is
  the object it makes.
\<close>

datatype DapRequest =
    Rq_Cancel CancelRequest
  | Rq_Initialize InitializeRequest
  | Rq_BreakpointLocations BreakpointLocationsRequest
  | Rq_ConfigurationDone ConfigurationDoneRequest
  | Rq_Launch LaunchRequest
  | Rq_Disconnect DisconnectRequest
  | Rq_Terminate TerminateRequest
  | Rq_SetBreakpoints SetBreakpointsRequest
  | Rq_SetExceptionBreakpoints SetExceptionBreakpointsRequest
  | Rq_SetFunctionBreakpoints SetFunctionBreakpointsRequest
  | Rq_Continue ContinueRequest
  | Rq_Next NextRequest
  | Rq_Step StepRequest
  | Rq_StepIn StepInRequest
  | Rq_StepOut StepOutRequest
  | Rq_Threads ThreadsRequest
  | Rq_Scopes ScopesRequest
  | Rq_StackTrace StackTraceRequest
  | Rq_Pause PauseRequest
  | Rq_RunInTerminal RunInTerminalRequest
  | Rq_Source SourceRequest
  | Rq_Evaluate EvaluateRequest
  | Rq_Attach AttachRequest
  | Rq_Disassemble DisassembleRequest
  | Rq_Goto GotoRequest
  | Rq_GotoTargets GotoTargetsRequest
  | Rq_ReadMemory ReadMemoryRequest
  | Rq_Variables VariablesRequest

primrec DapRequest_To :: "'d fp \<Rightarrow> DapRequest \<Rightarrow> 'd Json" where
  "DapRequest_To F (Rq_Cancel x) = CancelRequest_To F x"
| "DapRequest_To F (Rq_Initialize x) = InitializeRequest_To F x"
| "DapRequest_To F (Rq_BreakpointLocations x) = BreakpointLocationsRequest_To F x"
| "DapRequest_To F (Rq_ConfigurationDone x) = ConfigurationDoneRequest_To F x"
| "DapRequest_To F (Rq_Launch x) = LaunchRequest_To F x"
| "DapRequest_To F (Rq_Disconnect x) = DisconnectRequest_To F x"
| "DapRequest_To F (Rq_Terminate x) = TerminateRequest_To F x"
| "DapRequest_To F (Rq_SetBreakpoints x) = SetBreakpointsRequest_To F x"
| "DapRequest_To F (Rq_SetExceptionBreakpoints x) = SetExceptionBreakpointsRequest_To F x"
| "DapRequest_To F (Rq_SetFunctionBreakpoints x) = SetFunctionBreakpointsRequest_To F x"
| "DapRequest_To F (Rq_Continue x) = ContinueRequest_To F x"
| "DapRequest_To F (Rq_Next x) = NextRequest_To F x"
| "DapRequest_To F (Rq_Step x) = StepRequest_To F x"
| "DapRequest_To F (Rq_StepIn x) = StepRequest_To F x"
| "DapRequest_To F (Rq_StepOut x) = StepRequest_To F x"
| "DapRequest_To F (Rq_Threads x) = ThreadsRequest_To F x"
| "DapRequest_To F (Rq_Scopes x) = ScopesRequest_To F x"
| "DapRequest_To F (Rq_StackTrace x) = StackTraceRequest_To F x"
| "DapRequest_To F (Rq_Pause x) = PauseRequest_To F x"
| "DapRequest_To F (Rq_RunInTerminal x) = RunInTerminalRequest_To F x"
| "DapRequest_To F (Rq_Source x) = SourceRequest_To F x"
| "DapRequest_To F (Rq_Evaluate x) = EvaluateRequest_To F x"
| "DapRequest_To F (Rq_Attach x) = AttachRequest_To F x"
| "DapRequest_To F (Rq_Disassemble x) = DisassembleRequest_To F x"
| "DapRequest_To F (Rq_Goto x) = GotoRequest_To F x"
| "DapRequest_To F (Rq_GotoTargets x) = GotoTargetsRequest_To F x"
| "DapRequest_To F (Rq_ReadMemory x) = ReadMemoryRequest_To F x"
| "DapRequest_To F (Rq_Variables x) = VariablesRequest_To F x"

primrec DapRequest_From :: "'d fp \<Rightarrow> 'd Json \<Rightarrow> DapRequest \<Rightarrow> DapRequest" where
  "DapRequest_From F json (Rq_Cancel x) = Rq_Cancel (CancelRequest_From F json x)"
| "DapRequest_From F json (Rq_Initialize x) = Rq_Initialize (InitializeRequest_From F json x)"
| "DapRequest_From F json (Rq_BreakpointLocations x) = Rq_BreakpointLocations (BreakpointLocationsRequest_From F json x)"
| "DapRequest_From F json (Rq_ConfigurationDone x) = Rq_ConfigurationDone (ConfigurationDoneRequest_From F json x)"
| "DapRequest_From F json (Rq_Launch x) = Rq_Launch (LaunchRequest_From F json x)"
| "DapRequest_From F json (Rq_Disconnect x) = Rq_Disconnect (DisconnectRequest_From F json x)"
| "DapRequest_From F json (Rq_Terminate x) = Rq_Terminate (TerminateRequest_From F json x)"
| "DapRequest_From F json (Rq_SetBreakpoints x) = Rq_SetBreakpoints (SetBreakpointsRequest_From F json x)"
| "DapRequest_From F json (Rq_SetExceptionBreakpoints x) = Rq_SetExceptionBreakpoints (SetExceptionBreakpointsRequest_From F json x)"
| "DapRequest_From F json (Rq_SetFunctionBreakpoints x) = Rq_SetFunctionBreakpoints (SetFunctionBreakpointsRequest_From F json x)"
| "DapRequest_From F json (Rq_Continue x) = Rq_Continue (ContinueRequest_From F json x)"
| "DapRequest_From F json (Rq_Next x) = Rq_Next (NextRequest_From F json x)"
| "DapRequest_From F json (Rq_Step x) = Rq_Step (StepRequest_From F json x)"
| "DapRequest_From F json (Rq_StepIn x) = Rq_StepIn (StepRequest_From F json x)"
| "DapRequest_From F json (Rq_StepOut x) = Rq_StepOut (StepRequest_From F json x)"
| "DapRequest_From F json (Rq_Threads x) = Rq_Threads (ThreadsRequest_From F json x)"
| "DapRequest_From F json (Rq_Scopes x) = Rq_Scopes (ScopesRequest_From F json x)"
| "DapRequest_From F json (Rq_StackTrace x) = Rq_StackTrace (StackTraceRequest_From F json x)"
| "DapRequest_From F json (Rq_Pause x) = Rq_Pause (PauseRequest_From F json x)"
| "DapRequest_From F json (Rq_RunInTerminal x) = Rq_RunInTerminal (RunInTerminalRequest_From F json x)"
| "DapRequest_From F json (Rq_Source x) = Rq_Source (SourceRequest_From F json x)"
| "DapRequest_From F json (Rq_Evaluate x) = Rq_Evaluate (EvaluateRequest_From F json x)"
| "DapRequest_From F json (Rq_Attach x) = Rq_Attach (AttachRequest_From F json x)"
| "DapRequest_From F json (Rq_Disassemble x) = Rq_Disassemble (DisassembleRequest_From F json x)"
| "DapRequest_From F json (Rq_Goto x) = Rq_Goto (GotoRequest_From F json x)"
| "DapRequest_From F json (Rq_GotoTargets x) = Rq_GotoTargets (GotoTargetsRequest_From F json x)"
| "DapRequest_From F json (Rq_ReadMemory x) = Rq_ReadMemory (ReadMemoryRequest_From F json x)"
| "DapRequest_From F json (Rq_Variables x) = Rq_Variables (VariablesRequest_From F json x)"

datatype DapResponse =
    Rs_Initialize InitializeResponse
  | Rs_Cancel CancelResponse
  | Rs_EmptyAck EmptyAckResponse
  | Rs_ConfigurationDone ConfigurationDoneResponse
  | Rs_Launch LaunchResponse
  | Rs_Disconnect DisconnectResponse
  | Rs_Terminate TerminateResponse
  | Rs_BreakpointLocations BreakpointLocationsResponse
  | Rs_SetBreakpoints SetBreakpointsResponse
  | Rs_SetExceptionBreakpoints SetExceptionBreakpointsResponse
  | Rs_SetFunctionBreakpoints SetFunctionBreakpointsResponse
  | Rs_Continue ContinueResponse
  | Rs_Next NextResponse
  | Rs_StepIn StepInResponse
  | Rs_StepOut StepOutResponse
  | Rs_Threads ThreadsResponse
  | Rs_Scopes ScopesResponse
  | Rs_StackTrace StackTraceResponse
  | Rs_Variables VariablesResponse
  | Rs_Pause PauseResponse
  | Rs_RunInTerminal RunInTerminalResponse
  | Rs_Source SourceResponse
  | Rs_Evaluate EvaluateResponse
  | Rs_Attach AttachResponse
  | Rs_Disassemble DisassembleResponse
  | Rs_Goto GotoResponse
  | Rs_GotoTargets GotoTargetsResponse
  | Rs_ReadMemory ReadMemoryResponse
  | Rs_Step StepResponse

primrec DapResponse_To :: "'d fp \<Rightarrow> DapResponse \<Rightarrow> 'd Json" where
  "DapResponse_To F (Rs_Initialize x) = InitializeResponse_To F x"
| "DapResponse_To F (Rs_Cancel x) = CancelResponse_To F x"
| "DapResponse_To F (Rs_EmptyAck x) = EmptyAckResponse_To F x"
| "DapResponse_To F (Rs_ConfigurationDone x) = EmptyAckResponse_To F x"
| "DapResponse_To F (Rs_Launch x) = EmptyAckResponse_To F x"
| "DapResponse_To F (Rs_Disconnect x) = EmptyAckResponse_To F x"
| "DapResponse_To F (Rs_Terminate x) = EmptyAckResponse_To F x"
| "DapResponse_To F (Rs_BreakpointLocations x) = BreakpointLocationsResponse_To F x"
| "DapResponse_To F (Rs_SetBreakpoints x) = SetBreakpointsResponse_To F x"
| "DapResponse_To F (Rs_SetExceptionBreakpoints x) = Response_To F x"
| "DapResponse_To F (Rs_SetFunctionBreakpoints x) = SetBreakpointsResponse_To F x"
| "DapResponse_To F (Rs_Continue x) = ContinueResponse_To F x"
| "DapResponse_To F (Rs_Next x) = EmptyAckResponse_To F x"
| "DapResponse_To F (Rs_StepIn x) = Response_To F x"
| "DapResponse_To F (Rs_StepOut x) = Response_To F x"
| "DapResponse_To F (Rs_Threads x) = ThreadsResponse_To F x"
| "DapResponse_To F (Rs_Scopes x) = ScopesResponse_To F x"
| "DapResponse_To F (Rs_StackTrace x) = StackTraceResponse_To F x"
| "DapResponse_To F (Rs_Variables x) = VariablesResponse_To F x"
| "DapResponse_To F (Rs_Pause x) = EmptyAckResponse_To F x"
| "DapResponse_To F (Rs_RunInTerminal x) = RunInTerminalResponse_To F x"
| "DapResponse_To F (Rs_Source x) = SourceResponse_To F x"
| "DapResponse_To F (Rs_Evaluate x) = EvaluateResponse_To F x"
| "DapResponse_To F (Rs_Attach x) = Response_To F x"
| "DapResponse_To F (Rs_Disassemble x) = DisassembleResponse_To F x"
| "DapResponse_To F (Rs_Goto x) = GotoResponse_To F x"
| "DapResponse_To F (Rs_GotoTargets x) = GotoTargetsResponse_To F x"
| "DapResponse_To F (Rs_ReadMemory x) = ReadMemoryResponse_To F x"
| "DapResponse_To F (Rs_Step x) = Response_To F x"

primrec DapResponse_From :: "'d fp \<Rightarrow> 'd Json \<Rightarrow> DapResponse \<Rightarrow> DapResponse" where
  "DapResponse_From F json (Rs_Initialize x) = Rs_Initialize (InitializeResponse_From F json x)"
| "DapResponse_From F json (Rs_Cancel x) = Rs_Cancel (CancelResponse_From F json x)"
| "DapResponse_From F json (Rs_EmptyAck x) = Rs_EmptyAck (EmptyAckResponse_From F json x)"
| "DapResponse_From F json (Rs_ConfigurationDone x) = Rs_ConfigurationDone (EmptyAckResponse_From F json x)"
| "DapResponse_From F json (Rs_Launch x) = Rs_Launch (EmptyAckResponse_From F json x)"
| "DapResponse_From F json (Rs_Disconnect x) = Rs_Disconnect (EmptyAckResponse_From F json x)"
| "DapResponse_From F json (Rs_Terminate x) = Rs_Terminate (EmptyAckResponse_From F json x)"
| "DapResponse_From F json (Rs_BreakpointLocations x) = Rs_BreakpointLocations (BreakpointLocationsResponse_From F json x)"
| "DapResponse_From F json (Rs_SetBreakpoints x) = Rs_SetBreakpoints (SetBreakpointsResponse_From F json x)"
| "DapResponse_From F json (Rs_SetExceptionBreakpoints x) = Rs_SetExceptionBreakpoints (Response_From F json x)"
| "DapResponse_From F json (Rs_SetFunctionBreakpoints x) = Rs_SetFunctionBreakpoints (SetBreakpointsResponse_From F json x)"
| "DapResponse_From F json (Rs_Continue x) = Rs_Continue (ContinueResponse_From F json x)"
| "DapResponse_From F json (Rs_Next x) = Rs_Next (EmptyAckResponse_From F json x)"
| "DapResponse_From F json (Rs_StepIn x) = Rs_StepIn (Response_From F json x)"
| "DapResponse_From F json (Rs_StepOut x) = Rs_StepOut (Response_From F json x)"
| "DapResponse_From F json (Rs_Threads x) = Rs_Threads (ThreadsResponse_From F json x)"
| "DapResponse_From F json (Rs_Scopes x) = Rs_Scopes (ScopesResponse_From F json x)"
| "DapResponse_From F json (Rs_StackTrace x) = Rs_StackTrace (StackTraceResponse_From F json x)"
| "DapResponse_From F json (Rs_Variables x) = Rs_Variables (VariablesResponse_From F json x)"
| "DapResponse_From F json (Rs_Pause x) = Rs_Pause (EmptyAckResponse_From F json x)"
| "DapResponse_From F json (Rs_RunInTerminal x) = Rs_RunInTerminal (RunInTerminalResponse_From F json x)"
| "DapResponse_From F json (Rs_Source x) = Rs_Source (SourceResponse_From F json x)"
| "DapResponse_From F json (Rs_Evaluate x) = Rs_Evaluate (EvaluateResponse_From F json x)"
| "DapResponse_From F json (Rs_Attach x) = Rs_Attach (Response_From F json x)"
| "DapResponse_From F json (Rs_Disassemble x) = Rs_Disassemble (DisassembleResponse_From F json x)"
| "DapResponse_From F json (Rs_Goto x) = Rs_Goto (GotoResponse_From F json x)"
| "DapResponse_From F json (Rs_GotoTargets x) = Rs_GotoTargets (GotoTargetsResponse_From F json x)"
| "DapResponse_From F json (Rs_ReadMemory x) = Rs_ReadMemory (ReadMemoryResponse_From F json x)"
| "DapResponse_From F json (Rs_Step x) = Rs_Step (Response_From F json x)"

datatype DapEvent =
    Ev_Initialized InitializedEvent
  | Ev_Stopped StoppedEvent
  | Ev_Continued ContinuedEvent
  | Ev_Exited ExitedEvent
  | Ev_Terminated TerminatedEvent
  | Ev_Thread ThreadEvent
  | Ev_Output OutputEvent
  | Ev_Breakpoint BreakpointEvent
  | Ev_Process ProcessEvent
  | Ev_Module ModuleEvent
  | Ev_DebugpyWaitingForServer DebugpyWaitingForServerEvent

primrec DapEvent_To :: "'d fp \<Rightarrow> DapEvent \<Rightarrow> 'd Json" where
  "DapEvent_To F (Ev_Initialized x) = InitializedEvent_To F x"
| "DapEvent_To F (Ev_Stopped x) = StoppedEvent_To F x"
| "DapEvent_To F (Ev_Continued x) = ContinuedEvent_To F x"
| "DapEvent_To F (Ev_Exited x) = ExitedEvent_To F x"
| "DapEvent_To F (Ev_Terminated x) = TerminatedEvent_To F x"
| "DapEvent_To F (Ev_Thread x) = ThreadEvent_To F x"
| "DapEvent_To F (Ev_Output x) = OutputEvent_To F x"
| "DapEvent_To F (Ev_Breakpoint x) = BreakpointEvent_To F x"
| "DapEvent_To F (Ev_Process x) = ProcessEvent_To F x"
| "DapEvent_To F (Ev_Module x) = ModuleEvent_To F x"
| "DapEvent_To F (Ev_DebugpyWaitingForServer x) = DebugpyWaitingForServerEvent_To F x"

primrec DapEvent_From :: "'d fp \<Rightarrow> 'd Json \<Rightarrow> DapEvent \<Rightarrow> DapEvent" where
  "DapEvent_From F json (Ev_Initialized x) = Ev_Initialized (InitializedEvent_From F json x)"
| "DapEvent_From F json (Ev_Stopped x) = Ev_Stopped (StoppedEvent_From F json x)"
| "DapEvent_From F json (Ev_Continued x) = Ev_Continued (ContinuedEvent_From F json x)"
| "DapEvent_From F json (Ev_Exited x) = Ev_Exited (ExitedEvent_From F json x)"
| "DapEvent_From F json (Ev_Terminated x) = Ev_Terminated (TerminatedEvent_From F json x)"
| "DapEvent_From F json (Ev_Thread x) = Ev_Thread (ThreadEvent_From F json x)"
| "DapEvent_From F json (Ev_Output x) = Ev_Output (OutputEvent_From F json x)"
| "DapEvent_From F json (Ev_Breakpoint x) = Ev_Breakpoint (BreakpointEvent_From F json x)"
| "DapEvent_From F json (Ev_Process x) = Ev_Process (ProcessEvent_From F json x)"
| "DapEvent_From F json (Ev_Module x) = Ev_Module (ModuleEvent_From F json x)"
| "DapEvent_From F json (Ev_DebugpyWaitingForServer x) = Ev_DebugpyWaitingForServer (DebugpyWaitingForServerEvent_From F json x)"

definition request_classes :: "int \<Rightarrow> (string \<times> DapRequest) list" where
  \<comment> \<open>what the constructors that \<open>Initialize\<close> runs register, base constructors first\<close>
  "request_classes uninit = [
     (''cancel'', Rq_Cancel CancelRequest_new),
     (''initialize'', Rq_Initialize InitializeRequest_new),
     (''breakpointLocations'', Rq_BreakpointLocations BreakpointLocationsRequest_new),
     (''configurationDone'', Rq_ConfigurationDone ConfigurationDoneRequest_new),
     (''launch'', Rq_Launch LaunchRequest_new),
     (''disconnect'', Rq_Disconnect DisconnectRequest_new),
     (''terminate'', Rq_Terminate TerminateRequest_new),
     (''setBreakpoints'', Rq_SetBreakpoints SetBreakpointsRequest_new),
     (''setExceptionBreakpoints'', Rq_SetExceptionBreakpoints SetExceptionBreakpointsRequest_new),
     (''setFunctionBreakpoints'', Rq_SetFunctionBreakpoints SetFunctionBreakpointsRequest_new),
     (''continue'', Rq_Continue ContinueRequest_new),
     (''next'', Rq_Next NextRequest_new),
     (''step'', Rq_Step StepRequest_new),
     (''stepIn'', Rq_StepIn StepInRequest_new),
     (''step'', Rq_Step StepRequest_new),
     (''stepOut'', Rq_StepOut StepOutRequest_new),
     (''threads'', Rq_Threads ThreadsRequest_new),
     (''scopes'', Rq_Scopes ScopesRequest_new),
     (''stackTrace'', Rq_StackTrace StackTraceRequest_new),
     (''pause'', Rq_Pause PauseRequest_new),
     (''runInTerminal'', Rq_RunInTerminal RunInTerminalRequest_new),
     (''source'', Rq_Source SourceRequest_new),
     (''evaluate'', Rq_Evaluate EvaluateRequest_new),
     (''attach'', Rq_Attach (AttachRequest_new uninit)),
     (''disassemble'', Rq_Disassemble DisassembleRequest_new),
     (''goto'', Rq_Goto GotoRequest_new),
     (''gotoTargets'', Rq_GotoTargets GotoTargetsRequest_new),
     (''readMemory'', Rq_ReadMemory ReadMemoryRequest_new)]"

definition response_classes :: "(string \<times> DapResponse) list" where
  \<comment> \<open>what the constructors that \<open>Initialize\<close> runs register, base constructors first\<close>
  "response_classes = [
     (''initialize'', Rs_Initialize InitializeResponse_new),
     (''cancel'', Rs_Cancel CancelResponse_new),
     ('''', Rs_EmptyAck EmptyAckResponse_new),
     (''configurationDone'', Rs_ConfigurationDone ConfigurationDoneResponse_new),
     ('''', Rs_EmptyAck EmptyAckResponse_new),
     (''launch'', Rs_Launch LaunchResponse_new),
     ('''', Rs_EmptyAck EmptyAckResponse_new),
     (''disconnect'', Rs_Disconnect DisconnectResponse_new),
     ('''', Rs_EmptyAck EmptyAckResponse_new),
     (''terminate'', Rs_Terminate TerminateResponse_new),
     (''breakpointLocations'', Rs_BreakpointLocations BreakpointLocationsResponse_new),
     (''setBreakpoints'', Rs_SetBreakpoints SetBreakpointsResponse_new),
     (''setExceptionBreakpoints'', Rs_SetExceptionBreakpoints SetExceptionBreakpointsResponse_new),
     (''setBreakpoints'', Rs_SetBreakpoints SetBreakpointsResponse_new),
     (''setFunctionBreakpoints'', Rs_SetFunctionBreakpoints SetFunctionBreakpointsResponse_new),
     (''continue'', Rs_Continue ContinueResponse_new),
     ('''', Rs_EmptyAck EmptyAckResponse_new),
     (''next'', Rs_Next NextResponse_new),
     (''stepIn'', Rs_StepIn StepInResponse_new),
     (''stepOut'', Rs_StepOut StepOutResponse_new),
     (''threads'', Rs_Threads ThreadsResponse_new),
     (''scopes'', Rs_Scopes ScopesResponse_new),
     (''stackTrace'', Rs_StackTrace StackTraceResponse_new),
     (''variables'', Rs_Variables VariablesResponse_new),
     ('''', Rs_EmptyAck EmptyAckResponse_new),
     (''pause'', Rs_Pause PauseResponse_new),
     (''runInTerminal'', Rs_RunInTerminal RunInTerminalResponse_new),
     (''source'', Rs_Source SourceResponse_new),
     (''evaluate'', Rs_Evaluate EvaluateResponse_new),
     ('''', Rs_EmptyAck EmptyAckResponse_new),
     (''attach'', Rs_Attach AttachResponse_new),
     (''disassemble'', Rs_Disassemble DisassembleResponse_new),
     (''goto'', Rs_Goto GotoResponse_new),
     (''gotoTargets'', Rs_GotoTargets GotoTargetsResponse_new),
     (''readMemory'', Rs_ReadMemory ReadMemoryResponse_new)]"

definition event_classes :: "int \<Rightarrow> (string \<times> DapEvent) list" where
  \<comment> \<open>what the constructors that \<open>Initialize\<close> runs register, base constructors first\<close>
  "event_classes uninit = [
     (''initialized'', Ev_Initialized InitializedEvent_new),
     (''stopped'', Ev_Stopped StoppedEvent_new),
     (''continued'', Ev_Continued ContinuedEvent_new),
     (''exited'', Ev_Exited ExitedEvent_new),
     (''terminated'', Ev_Terminated TerminatedEvent_new),
     (''thread'', Ev_Thread ThreadEvent_new),
     (''output'', Ev_Output OutputEvent_new),
     (''breakpoint'', Ev_Breakpoint BreakpointEvent_new),
     (''process'', Ev_Process ProcessEvent_new),
     (''module'', Ev_Module ModuleEvent_new),
     ('''', Ev_DebugpyWaitingForServer (DebugpyWaitingForServerEvent_new uninit))]"

section \<open>The generator\<close>

datatype DapMessage = MRequest DapRequest | MResponse DapResponse | MEvent DapEvent

record ObjGenerator =
  og_responses :: "string \<Rightarrow> DapResponse option"
  og_events :: "string \<Rightarrow> DapEvent option"
  og_requests :: "string \<Rightarrow> DapRequest option"

definition pool_insert :: "string \<Rightarrow> 'c \<Rightarrow> (string \<Rightarrow> 'c option) \<Rightarrow> string \<Rightarrow> 'c option" where
  \<comment> \<open>\<open>unordered_map::insert\<close> keeps an entry that is there\<close>
  "pool_insert n c pool = (if pool n = None then pool(n := Some c) else pool)"

definition RegisterResponse :: "string \<Rightarrow> DapResponse \<Rightarrow> ObjGenerator \<Rightarrow> ObjGenerator" where
  "RegisterResponse n c g = g\<lparr> og_responses := pool_insert n c (og_responses g) \<rparr>"

definition RegisterEvent :: "string \<Rightarrow> DapEvent \<Rightarrow> ObjGenerator \<Rightarrow> ObjGenerator" where
  "RegisterEvent n c g = g\<lparr> og_events := pool_insert n c (og_events g) \<rparr>"

definition RegisterRequest :: "string \<Rightarrow> DapRequest \<Rightarrow> ObjGenerator \<Rightarrow> ObjGenerator" where
  "RegisterRequest n c g = g\<lparr> og_requests := pool_insert n c (og_requests g) \<rparr>"

definition ObjGenerator_empty :: ObjGenerator where
  "ObjGenerator_empty = \<lparr> og_responses = (\<lambda>_. None), og_events = (\<lambda>_. None), og_requests = (\<lambda>_. None) \<rparr>"

definition Initialize :: "int \<Rightarrow> ObjGenerator \<Rightarrow> ObjGenerator" where
  \<comment> \<open>without the set-up of the socket library\<close>
  "Initialize uninit g =
     fold (\<lambda>(n, c). RegisterResponse n c) response_classes
      (fold (\<lambda>(n, c). RegisterEvent n c) (event_classes uninit)
        (fold (\<lambda>(n, c). RegisterRequest n c) (request_classes uninit) g))"

definition ObjGenerator_New :: "ObjGenerator \<Rightarrow> string \<Rightarrow> string \<Rightarrow> DapMessage option" where
  "ObjGenerator_New g type name =
     (if type = ''response'' then map_option MResponse (og_responses g name)
      else if type = ''request'' then map_option MRequest (og_requests g name)
      else if type = ''event'' then map_option MEvent (og_events g name)
      else None)"

primrec DapMessage_From :: "'d fp \<Rightarrow> 'd Json \<Rightarrow> DapMessage \<Rightarrow> DapMessage" where
  "DapMessage_From F json (MRequest x) = MRequest (DapRequest_From F json x)"
| "DapMessage_From F json (MResponse x) = MResponse (DapResponse_From F json x)"
| "DapMessage_From F json (MEvent x) = MEvent (DapEvent_From F json x)"

definition ObjGenerator_FromJSON :: "'d fp \<Rightarrow> ObjGenerator \<Rightarrow> 'd Json \<Rightarrow> DapMessage option" where
  "ObjGenerator_FromJSON F g json =
     (if \<not> Json_IsOK json then None
      else
        let type = Json_GetString [] (Json_member json ''type'');
            command = (if type = ''event'' then Json_GetString [] (Json_member json ''event'')
                       else Json_GetString [] (Json_member json ''command''))
        in map_option (DapMessage_From F json) (ObjGenerator_New g type command))"

section \<open>What is registered after \<open>Initialize\<close>\<close>

lemma fold_pool:
  "fold (\<lambda>(n, c). pool_insert n c) xs p = (\<lambda>n. case p n of Some c \<Rightarrow> Some c | None \<Rightarrow> map_of xs n)"
proof (induction xs arbitrary: p)
  case Nil
  show ?case by (rule ext) (simp split: option.split)
next
  case (Cons x xs)
  obtain k d where x: "x = (k, d)" by fastforce
  show ?case
  proof (rule ext)
    fix n
    show "fold (\<lambda>(n, c). pool_insert n c) (x # xs) p n
        = (case p n of Some c \<Rightarrow> Some c | None \<Rightarrow> map_of (x # xs) n)"
      by (cases "p k"; cases "p n"; cases "n = k") (auto simp: x Cons.IH pool_insert_def)
  qed
qed

lemma fold_RegisterResponse:
  "og_responses (fold (\<lambda>(n, c). RegisterResponse n c) xs g) = fold (\<lambda>(n, c). pool_insert n c) xs (og_responses g)"
  "og_events (fold (\<lambda>(n, c). RegisterResponse n c) xs g) = og_events g"
  "og_requests (fold (\<lambda>(n, c). RegisterResponse n c) xs g) = og_requests g"
  by (induction xs arbitrary: g) (auto simp: RegisterResponse_def)

lemma fold_RegisterEvent:
  "og_events (fold (\<lambda>(n, c). RegisterEvent n c) xs g) = fold (\<lambda>(n, c). pool_insert n c) xs (og_events g)"
  "og_responses (fold (\<lambda>(n, c). RegisterEvent n c) xs g) = og_responses g"
  "og_requests (fold (\<lambda>(n, c). RegisterEvent n c) xs g) = og_requests g"
  by (induction xs arbitrary: g) (auto simp: RegisterEvent_def)

lemma fold_RegisterRequest:
  "og_requests (fold (\<lambda>(n, c). RegisterRequest n c) xs g) = fold (\<lambda>(n, c). pool_insert n c) xs (og_requests g)"
  "og_responses (fold (\<lambda>(n, c). RegisterRequest n c) xs g) = og_responses g"
  "og_events (fold (\<lambda>(n, c). RegisterRequest n c) xs g) = og_events g"
  by (induction xs arbitrary: g) (auto simp: RegisterRequest_def)

lemma Initialize_pools:
  "og_responses (Initialize u ObjGenerator_empty) = map_of response_classes"
  "og_events (Initialize u ObjGenerator_empty) = map_of (event_classes u)"
  "og_requests (Initialize u ObjGenerator_empty) = map_of (request_classes u)"
  by (simp_all add: Initialize_def fold_RegisterResponse fold_RegisterEvent fold_RegisterRequest
      fold_pool ObjGenerator_empty_def)

text \<open>What the registry cannot make after \<open>Initialize\<close>. The debugpy event is registered
  under the empty name, so \<open>debugpyWaitingForServer\<close> itself makes nothing, and a message with
  type \<open>event\<close> and no \<open>event\<close> member makes a \<open>DebugpyWaitingForServerEvent\<close>; a response with
  no command makes an \<open>EmptyAckResponse\<close>; the \<open>variables\<close> request is not registered.\<close>

lemma registry_gaps:
  "ObjGenerator_New (Initialize u ObjGenerator_empty) ''event'' ''debugpyWaitingForServer'' = None
   \<and> ObjGenerator_New (Initialize u ObjGenerator_empty) ''event'' []
       = Some (MEvent (Ev_DebugpyWaitingForServer (DebugpyWaitingForServerEvent_new u)))
   \<and> ObjGenerator_New (Initialize u ObjGenerator_empty) ''response'' []
       = Some (MResponse (Rs_EmptyAck EmptyAckResponse_new))
   \<and> ObjGenerator_New (Initialize u ObjGenerator_empty) ''request'' ''variables'' = None"
  by (simp add: ObjGenerator_New_def Initialize_pools event_classes_def response_classes_def
      request_classes_def)

section \<open>From the wire to the message\<close>

lemma named_None_obj: "obj_ok F j \<Longrightarrow> named None (norm_j j) = norm_j j"
  by (cases j; cases "the j") (auto simp: obj_ok_def named_def norm_j_def)

lemma dispatch_wire:
  assumes "fp_ok F" "obj_ok F j"
    "Json_GetString [] (Json_member j ''type'') = ty"
    "Json_GetString [] (Json_member j (if ty = ''event'' then ''event'' else ''command'')) = c"
    "ObjGenerator_New (Initialize u ObjGenerator_empty) ty c = Some p"
    "DapMessage_From F (norm_j j) p = y"
  shows "\<exists>j'. Json_Parse F (Json_ToString F pretty j) = Some j'
    \<and> ObjGenerator_FromJSON F (Initialize u ObjGenerator_empty) j' = Some y"
proof -
  have v: "val_ok F j" using assms(2) by (rule obj_val)
  have ok: "Json_IsOK (norm_j j)" using v by (simp add: val_ok_def Json_IsOK_def norm_j_def)
  have "ObjGenerator_FromJSON F (Initialize u ObjGenerator_empty) (norm_j j) = Some y"
    using assms(3-6) ok by (auto simp: ObjGenerator_FromJSON_def Let_def json_simps split: if_splits)
  with wire_roundtrip [OF assms(1) v] show ?thesis by blast
qed

text \<open>A \<open>stopped\<close> event that an adapter prints with \<open>StoppedEvent::To\<close> and sends is read by the
  client as the same event: parsing the text, choosing the class and reading the members gives
  it back, for either print format.\<close>

lemma StoppedEvent_wire:
  assumes "fp_ok F" "StoppedEvent_ok x" "pm_type x = ''event''" "ev_event x = ''stopped''"
  shows "\<exists>j. Json_Parse F (Json_ToString F pretty (StoppedEvent_To F x)) = Some j
    \<and> ObjGenerator_FromJSON F (Initialize u ObjGenerator_empty) j = Some (MEvent (Ev_Stopped x))"
proof (rule dispatch_wire [OF assms(1) ser_StoppedEvent.To_ok [OF assms(1,2)] refl refl])
  show "ObjGenerator_New (Initialize u ObjGenerator_empty)
      (Json_GetString [] (Json_member (StoppedEvent_To F x) ''type''))
      (Json_GetString [] (Json_member (StoppedEvent_To F x)
        (if Json_GetString [] (Json_member (StoppedEvent_To F x) ''type'') = ''event''
         then ''event'' else ''command''))) = Some (MEvent (Ev_Stopped StoppedEvent_new))"
    using assms(3,4)
    by (simp add: StoppedEvent_To_def Event_To_def ProtocolMessage_To_def Let_def msg_build msg_read
        ObjGenerator_New_def Initialize_pools event_classes_def)
  show "DapMessage_From F (norm_j (StoppedEvent_To F x)) (MEvent (Ev_Stopped StoppedEvent_new))
      = MEvent (Ev_Stopped x)"
    using ser_StoppedEvent.From_To [OF assms(1,2), of None]
      named_None_obj [OF ser_StoppedEvent.To_ok [OF assms(1,2)]] by simp
qed

definition sample_StoppedEvent :: StoppedEvent where
  "sample_StoppedEvent = StoppedEvent_new\<lparr> pm_seq := 3, se_reason := ''breakpoint'',
     se_text := ''hit'', se_allThreadsStopped := True, se_threadId := 1 \<rparr>"

text \<open>a stack trace response survives the wire: the frames, their sources and the header come back
  in order.\<close>

lemma StackTraceResponse_wire:
  assumes "fp_ok F" "StackTraceResponse_ok x" "pm_type x = ''response''" "rs_command x = ''stackTrace''"
  shows "\<exists>j. Json_Parse F (Json_ToString F pretty (StackTraceResponse_To F x)) = Some j
    \<and> ObjGenerator_FromJSON F (Initialize u ObjGenerator_empty) j = Some (MResponse (Rs_StackTrace x))"
proof (rule dispatch_wire [OF assms(1) ser_StackTraceResponse.To_ok [OF assms(1,2)] refl refl])
  show "ObjGenerator_New (Initialize u ObjGenerator_empty)
      (Json_GetString [] (Json_member (StackTraceResponse_To F x) ''type''))
      (Json_GetString [] (Json_member (StackTraceResponse_To F x)
        (if Json_GetString [] (Json_member (StackTraceResponse_To F x) ''type'') = ''event''
         then ''event'' else ''command''))) = Some (MResponse (Rs_StackTrace StackTraceResponse_new))"
    using assms(3,4)
    by (simp add: StackTraceResponse_To_def Response_To_def ProtocolMessage_To_def Let_def msg_build msg_read
        ObjGenerator_New_def Initialize_pools response_classes_def)
  show "DapMessage_From F (norm_j (StackTraceResponse_To F x)) (MResponse (Rs_StackTrace StackTraceResponse_new))
      = MResponse (Rs_StackTrace x)"
    using ser_StackTraceResponse.From_To [OF assms(1,2), of None]
      named_None_obj [OF ser_StackTraceResponse.To_ok [OF assms(1,2)]] by simp
qed

definition sample_StackTraceResponse :: StackTraceResponse where
  "sample_StackTraceResponse = StackTraceResponse_new\<lparr> pm_seq := 7, rs_request_seq := 3,
     ks_stackFrames := [StackFrame_new\<lparr> sf_id := 1, sf_name := ''main'', sf_line := 12 \<rparr>,
       StackFrame_new\<lparr> sf_id := 2, sf_source := Source_new\<lparr> src_path := ''/a.cpp'' \<rparr> \<rparr>] \<rparr>"

text \<open>A response to \<open>variables\<close> survives the wire with the name, value, type, reference and
  presentation hint of every variable.\<close>

lemma VariablesResponse_wire:
  assumes "fp_ok F" "VariablesResponse_ok x" "pm_type x = ''response''" "rs_command x = ''variables''"
  shows "\<exists>j. Json_Parse F (Json_ToString F pretty (VariablesResponse_To F x)) = Some j
    \<and> ObjGenerator_FromJSON F (Initialize u ObjGenerator_empty) j = Some (MResponse (Rs_Variables x))"
proof (rule dispatch_wire [OF assms(1) ser_VariablesResponse.To_ok [OF assms(1,2)] refl refl])
  show "ObjGenerator_New (Initialize u ObjGenerator_empty)
      (Json_GetString [] (Json_member (VariablesResponse_To F x) ''type''))
      (Json_GetString [] (Json_member (VariablesResponse_To F x)
        (if Json_GetString [] (Json_member (VariablesResponse_To F x) ''type'') = ''event''
         then ''event'' else ''command''))) = Some (MResponse (Rs_Variables VariablesResponse_new))"
    using assms(3,4)
    by (simp add: VariablesResponse_To_def Response_To_def ProtocolMessage_To_def Let_def msg_build msg_read
        ObjGenerator_New_def Initialize_pools response_classes_def)
  show "DapMessage_From F (norm_j (VariablesResponse_To F x)) (MResponse (Rs_Variables VariablesResponse_new))
      = MResponse (Rs_Variables x)"
    using ser_VariablesResponse.From_To [OF assms(1,2), of None]
      named_None_obj [OF ser_VariablesResponse.To_ok [OF assms(1,2)]] by simp
qed

definition sample_VariablesResponse :: VariablesResponse where
  "sample_VariablesResponse = VariablesResponse_new\<lparr> pm_seq := 5, rs_request_seq := 8,
     vs_variables := [Variable_new\<lparr> vr_name := ''i'', vr_value := ''0'', vr_type := ''int'' \<rparr>] \<rparr>"

end
