(* ===== verification/Dap_StringUtils.thy ===== *)
theory Dap_StringUtils
  imports Dap_Prelude
begin

text \<open>
  \<open>StringUtils.cpp\<close>: searching and cutting strings, the command line splitter \<open>BuildArgv\<close>,
  the path normaliser \<open>ConvertSlashes\<close> and \<open>WrapWithQuotes\<close>. \<open>wxString::Trim\<close> and
  \<open>wxStringTokenize\<close> belong to wxWidgets: they are the parameter \<open>wx\<close>, and \<open>wx_ok\<close> states the
  documented behaviour the code relies on.
\<close>

section \<open>wxWidgets\<close>

record wx =
  wx_Trim :: "bool \<Rightarrow> string \<Rightarrow> string"
    \<comment> \<open>\<open>Trim(fromRight)\<close>\<close>
  wx_Tokenize :: "string \<Rightarrow> char \<Rightarrow> string list"
    \<comment> \<open>\<open>wxStringTokenize(str, ch, wxTOKEN_STRTOK)\<close>\<close>

definition wx_ok :: "wx \<Rightarrow> bool" where
  "wx_ok W \<longleftrightarrow>
     (\<forall>s sp. list_all is_space sp \<and> (s = [] \<or> \<not> is_space (last s)) \<longrightarrow> wx_Trim W True (s @ sp) = s) \<and>
     (\<forall>s sp. list_all is_space sp \<and> (s = [] \<or> \<not> is_space (hd s)) \<longrightarrow> wx_Trim W False (sp @ s) = s) \<and>
     (\<forall>s ch. s \<noteq> [] \<and> ch \<notin> set s \<longrightarrow> wx_Tokenize W s ch = [s]) \<and>
     (\<forall>s t ch. s \<noteq> [] \<and> ch \<notin> set s \<longrightarrow> wx_Tokenize W (s @ ch # t) ch = s # wx_Tokenize W t ch)"

fun strtok :: "string \<Rightarrow> char \<Rightarrow> string \<Rightarrow> string list" where
  "strtok cur ch [] = (if cur = [] then [] else [cur])"
| "strtok cur ch (c # cs) =
     (if c = ch then (if cur = [] then [] else [cur]) @ strtok [] ch cs else strtok (cur @ [c]) ch cs)"

definition wx_std :: wx where
  \<comment> \<open>an instance that computes\<close>
  "wx_std = \<lparr> wx_Trim = (\<lambda>right s. if right then rev (dropWhile is_space (rev s)) else dropWhile is_space s),
     wx_Tokenize = (\<lambda>s ch. strtok [] ch s) \<rparr>"

lemma strtok_plain: "ch \<notin> set s \<Longrightarrow> strtok cur ch (s @ t) = strtok (cur @ s) ch t"
  by (induction s arbitrary: cur) auto

lemma dropWhile_all: "list_all P xs \<Longrightarrow> dropWhile P (xs @ ys) = dropWhile P ys"
  by (induction xs) auto

lemma dropWhile_stop: "xs = [] \<or> \<not> P (hd xs) \<Longrightarrow> dropWhile P xs = xs"
  by (cases xs) auto

lemma wx_ok_std: "wx_ok wx_std"
  using strtok_plain [of _ _ "[]" "[]"] strtok_plain [of _ _ "[]"]
  by (auto simp: wx_ok_def wx_std_def dropWhile_all dropWhile_stop hd_rev list_all_rev)

section \<open>Cutting strings\<close>

definition su_Trim :: "wx \<Rightarrow> string \<Rightarrow> string" where
  "su_Trim W str = wx_Trim W False (wx_Trim W True str)"

definition BeforeFirst :: "string \<Rightarrow> char \<Rightarrow> string" where
  "BeforeFirst str ch = (case find_char ch str of None \<Rightarrow> str | Some n \<Rightarrow> take n str)"

definition AfterFirst :: "string \<Rightarrow> char \<Rightarrow> string" where
  "AfterFirst str ch = (case find_char ch str of None \<Rightarrow> [] | Some n \<Rightarrow> drop (n + 1) str)"

definition su_Split :: "wx \<Rightarrow> string \<Rightarrow> char \<Rightarrow> string list" where
  "su_Split W str ch = wx_Tokenize W str ch"

fun startsWith_loop :: "string \<Rightarrow> string \<Rightarrow> nat \<Rightarrow> nat \<Rightarrow> bool" where
  \<comment> \<open>the loop over \<open>i < prefix.length()\<close>, \<open>k\<close> rounds left\<close>
  "startsWith_loop str prefix i 0 = True"
| "startsWith_loop str prefix i (Suc k) =
     (if str ! i \<noteq> prefix ! i then False else startsWith_loop str prefix (i + 1) k)"

definition StartsWith :: "string \<Rightarrow> string \<Rightarrow> bool" where
  "StartsWith str prefix =
     (if length str < length prefix then False
      else startsWith_loop str prefix 0 (length prefix))"

definition WrapWithQuotes :: "string \<Rightarrow> string" where
  "WrapWithQuotes str =
     (if str = [] then str
      else if find_char (CHR '' '') str = None then str
      else CHR 0x22 # str @ [CHR 0x22])"

lemma su_Trim_pad:
  assumes "wx_ok W" "list_all is_space l" "list_all is_space r"
    "s \<noteq> []" "\<not> is_space (hd s)" "\<not> is_space (last s)"
  shows "su_Trim W (l @ s @ r) = s"
proof -
  have r: "wx_Trim W True ((l @ s) @ r) = l @ s"
    using assms(1,3,4,6) unfolding wx_ok_def by (metis append_is_Nil_conv last_appendR)
  have l: "wx_Trim W False (l @ s) = s"
    using assms(1,2,4,5) unfolding wx_ok_def by blast
  show ?thesis unfolding su_Trim_def using l r by simp
qed

lemma before_after:
  assumes "ch \<in> set str"
  shows "str = BeforeFirst str ch @ ch # AfterFirst str ch" "ch \<notin> set (BeforeFirst str ch)"
proof -
  obtain n where n: "find_char ch str = Some n" using assms find_char_None by fastforce
  then have t: "take n str = takeWhile (\<lambda>x. x \<noteq> ch) str"
      "drop (Suc n) str = tl (dropWhile (\<lambda>x. x \<noteq> ch) str)"
    using find_char_takeWhile by blast+
  have "dropWhile (\<lambda>x. x \<noteq> ch) str \<noteq> []" using assms by (simp add: dropWhile_eq_Nil_conv)
  moreover have "hd (dropWhile (\<lambda>x. x \<noteq> ch) str) = ch"
    using hd_dropWhile [of "\<lambda>x. x \<noteq> ch" str] calculation by blast
  ultimately have d: "dropWhile (\<lambda>x. x \<noteq> ch) str = ch # drop (Suc n) str"
    using t(2) by (metis list.collapse)
  have "str = takeWhile (\<lambda>x. x \<noteq> ch) str @ dropWhile (\<lambda>x. x \<noteq> ch) str" by simp
  with d t n show "str = BeforeFirst str ch @ ch # AfterFirst str ch"
    by (simp add: BeforeFirst_def AfterFirst_def)
  show "ch \<notin> set (BeforeFirst str ch)"
    using n t by (auto simp: BeforeFirst_def dest: set_takeWhileD)
qed

lemma before_after_sep:
  assumes "ch \<notin> set k"
  shows "BeforeFirst (k @ ch # v) ch = k" "AfterFirst (k @ ch # v) ch = v"
  using assms by (simp_all add: BeforeFirst_def AfterFirst_def find_char_append_notin)

lemma startsWith_loop_iff:
  "i + k \<le> length prefix \<Longrightarrow> length prefix \<le> length str \<Longrightarrow>
    startsWith_loop str prefix i k \<longleftrightarrow> take k (drop i str) = take k (drop i prefix)"
  by (induction str prefix i k rule: startsWith_loop.induct)
    (auto simp: take_Suc_conv_app_nth take_Suc Cons_nth_drop_Suc [symmetric])

text \<open>\<open>DapStringUtils::StartsWith\<close> decides that the prefix is the front of the string.\<close>

lemma StartsWith_iff: "StartsWith str prefix \<longleftrightarrow> (\<exists>rest. str = prefix @ rest)"
proof (cases "length str < length prefix")
  case True
  then show ?thesis by (auto simp: StartsWith_def)
next
  case False
  then have "StartsWith str prefix \<longleftrightarrow> take (length prefix) str = prefix"
    using startsWith_loop_iff [of 0 "length prefix" prefix str] by (simp add: StartsWith_def)
  also have "\<dots> \<longleftrightarrow> (\<exists>rest. str = prefix @ rest)"
    by (metis append_eq_conv_conj append_take_drop_id)
  finally show ?thesis .
qed

section \<open>Paths\<close>

fun ConvertSlashes_loop :: "char \<Rightarrow> char \<Rightarrow> char \<Rightarrow> string \<Rightarrow> string" where
  \<comment> \<open>the loop with \<open>last_char\<close>; what it appends to \<open>tmp\<close>\<close>
  "ConvertSlashes_loop source target last_char [] = []"
| "ConvertSlashes_loop source target last_char (c # cs) =
     (let ch = (if c = source then target else c) in
      (if ch = target \<and> last_char = target then [] else [ch])
      @ ConvertSlashes_loop source target ch cs)"

definition ConvertSlashes :: "string \<Rightarrow> char \<Rightarrow> char \<Rightarrow> string" where
  "ConvertSlashes path source target = ConvertSlashes_loop source target NUL path"

definition ToUnixPath :: "string \<Rightarrow> string" where
  "ToUnixPath path = ConvertSlashes path (CHR 0x5C) (CHR ''/'')"

definition ToNativePath :: "string \<Rightarrow> string" where
  \<comment> \<open>not \<open>__WIN32\<close>: \<open>SOURCE_SEP\<close> is the backslash and \<open>PATH_SEP\<close> the slash\<close>
  "ToNativePath path = ConvertSlashes path (CHR 0x5C) (CHR ''/'')"

fun no_double :: "char \<Rightarrow> char \<Rightarrow> string \<Rightarrow> bool" where
  \<comment> \<open>after a character \<open>l\<close>, no two adjacent characters are both \<open>t\<close>\<close>
  "no_double t l [] = True"
| "no_double t l (c # cs) \<longleftrightarrow> \<not> (c = t \<and> l = t) \<and> no_double t c cs"

lemma convert_no_source:
  "s \<noteq> t \<Longrightarrow> s \<notin> set (ConvertSlashes_loop s t l p)"
  by (induction s t l p rule: ConvertSlashes_loop.induct) (auto simp: Let_def)

lemma convert_no_double: "no_double t l (ConvertSlashes_loop s t l p)"
  by (induction s t l p rule: ConvertSlashes_loop.induct) (auto simp: Let_def)

lemma convert_fixed:
  "s \<notin> set p \<Longrightarrow> no_double t l p \<Longrightarrow> ConvertSlashes_loop s t l p = p"
  by (induction s t l p rule: ConvertSlashes_loop.induct) (auto simp: Let_def)

lemma convert_filter:
  "filter (\<lambda>c. c \<noteq> t) (ConvertSlashes_loop s t l p) = filter (\<lambda>c. c \<noteq> t \<and> c \<noteq> s) p"
  by (induction s t l p rule: ConvertSlashes_loop.induct) (auto simp: Let_def)

text \<open>\<open>ToUnixPath\<close> leaves no backslash and no doubled slash, keeps every other character in
  order, and changes nothing when it is applied again.\<close>

lemma ToUnixPath_normal:
  "CHR 0x5C \<notin> set (ToUnixPath p)
   \<and> no_double (CHR ''/'') NUL (ToUnixPath p)
   \<and> filter (\<lambda>c. c \<noteq> CHR ''/'') (ToUnixPath p) = filter (\<lambda>c. c \<noteq> CHR ''/'' \<and> c \<noteq> CHR 0x5C) p
   \<and> ToUnixPath (ToUnixPath p) = ToUnixPath p"
proof -
  have ns: "CHR 0x5C \<notin> set (ToUnixPath p)"
    unfolding ToUnixPath_def ConvertSlashes_def by (rule convert_no_source) simp
  have nd: "no_double (CHR ''/'') NUL (ToUnixPath p)"
    unfolding ToUnixPath_def ConvertSlashes_def by (rule convert_no_double)
  have "ToUnixPath (ToUnixPath p) = ToUnixPath p"
    using convert_fixed [OF ns nd] by (simp add: ToUnixPath_def ConvertSlashes_def)
  with ns nd show ?thesis
    by (simp add: ToUnixPath_def ConvertSlashes_def convert_filter)
qed

section \<open>Command lines\<close>

datatype argv_state = ARGV_NORMAL | ARGV_DQUOTE | ARGV_SQUOTE | ARGV_ESCAPE | ARGV_BACKTICK

record argv =
  av_A :: "string list"
  av_state :: argv_state
  av_prev_state :: argv_state
  av_curstr :: string

definition PUSH_CURTOKEN :: "argv \<Rightarrow> argv" where
  "PUSH_CURTOKEN v =
     (if av_curstr v \<noteq> [] then v\<lparr> av_A := av_A v @ [av_curstr v], av_curstr := [] \<rparr> else v)"

definition CHANGE_STATE :: "argv_state \<Rightarrow> argv \<Rightarrow> argv" where
  "CHANGE_STATE new_state v = v\<lparr> av_prev_state := av_state v, av_state := new_state \<rparr>"

definition RESTORE_STATE :: "argv \<Rightarrow> argv" where
  "RESTORE_STATE v = v\<lparr> av_state := av_prev_state v, av_prev_state := ARGV_NORMAL \<rparr>"

definition argv_add :: "string \<Rightarrow> argv \<Rightarrow> argv" where
  "argv_add s v = v\<lparr> av_curstr := av_curstr v @ s \<rparr>"

definition argv_escape :: "char \<Rightarrow> char \<Rightarrow> argv \<Rightarrow> argv" where
  \<comment> \<open>one of the three switches of \<open>ARGV_STATE_ESCAPE\<close>, for the quote \<open>q\<close>\<close>
  "argv_escape q ch v =
     (if ch = q then RESTORE_STATE (argv_add [q] v)
      else RESTORE_STATE (argv_add [CHR 0x5C, ch] v))"

definition argv_quoted :: "char \<Rightarrow> char \<Rightarrow> argv \<Rightarrow> argv" where
  \<comment> \<open>the switch inside a quotation that the quote \<open>q\<close> ends\<close>
  "argv_quoted q ch v =
     (if ch = CHR 0x5C then CHANGE_STATE ARGV_ESCAPE v
      else if ch = q then RESTORE_STATE (argv_add [ch] v)
      else argv_add [ch] v)"

definition argv_step :: "char \<Rightarrow> argv \<Rightarrow> argv" where
  "argv_step ch v =
     (case av_state v of
        ARGV_NORMAL \<Rightarrow>
          if ch = CHR '' '' \<or> ch = CHR 0x09 then PUSH_CURTOKEN v
          else if ch = CHR 0x27 then argv_add [ch] (CHANGE_STATE ARGV_SQUOTE v)
          else if ch = CHR 0x22 then argv_add [ch] (CHANGE_STATE ARGV_DQUOTE v)
          else if ch = CHR 0x60 then argv_add [ch] (CHANGE_STATE ARGV_BACKTICK v)
          else argv_add [ch] v
      | ARGV_ESCAPE \<Rightarrow>
          if av_prev_state v = ARGV_DQUOTE then argv_escape (CHR 0x22) ch v
          else if av_prev_state v = ARGV_BACKTICK then argv_escape (CHR 0x60) ch v
          else argv_escape (CHR 0x27) ch v
      | ARGV_DQUOTE \<Rightarrow> argv_quoted (CHR 0x22) ch v
      | ARGV_SQUOTE \<Rightarrow> argv_quoted (CHR 0x27) ch v
      | ARGV_BACKTICK \<Rightarrow> argv_quoted (CHR 0x60) ch v)"

definition argv_start :: argv where
  "argv_start = \<lparr> av_A = [], av_state = ARGV_NORMAL, av_prev_state = ARGV_NORMAL, av_curstr = [] \<rparr>"

definition BuildArgv_c :: "string \<Rightarrow> string list option" where
  \<comment> \<open>the overload that allocates: \<open>None\<close> is the null pointer, \<open>argc\<close> is the length\<close>
  "BuildArgv_c str =
     (let v = PUSH_CURTOKEN (fold argv_step str argv_start) in
      if av_A v = [] then None else Some (map c_str (av_A v)))"

definition strip_quotes :: "string \<Rightarrow> string" where
  "strip_quotes s =
     (if length s > 1 \<and> s ! 0 = CHR 0x22 \<and> last s = CHR 0x22 then tl (butlast s) else s)"

definition BuildArgv :: "string \<Rightarrow> string list" where
  "BuildArgv str =
     map strip_quotes (case BuildArgv_c str of None \<Rightarrow> [] | Some argv \<Rightarrow> argv)"

lemmas argv_defs = argv_step_def argv_add_def argv_escape_def argv_quoted_def PUSH_CURTOKEN_def
  CHANGE_STATE_def RESTORE_STATE_def

definition arg_ok :: "string \<Rightarrow> bool" where
  \<comment> \<open>an argument that quoting protects: not empty, and without quotes, backslashes, tabs\<close>
  "arg_ok a \<longleftrightarrow> a \<noteq> [] \<and> NUL \<notin> set a
     \<and> set a \<inter> {CHR 0x22, CHR 0x27, CHR 0x60, CHR 0x5C, CHR 0x09} = {}"

definition command_line :: "string list \<Rightarrow> string" where
  "command_line args = concat (map (\<lambda>a. WrapWithQuotes a @ '' '') args)"

lemma argv_plain:
  "set a \<inter> {CHR '' '', CHR 0x22, CHR 0x27, CHR 0x60, CHR 0x09} = {} \<Longrightarrow> av_state v = ARGV_NORMAL \<Longrightarrow>
    fold argv_step a v = v\<lparr> av_curstr := av_curstr v @ a \<rparr>"
  by (induction a arbitrary: v) (auto simp: argv_defs)

lemma argv_inside:
  "set a \<inter> {CHR 0x22, CHR 0x5C} = {} \<Longrightarrow> av_state v = ARGV_DQUOTE \<Longrightarrow>
    fold argv_step a v = v\<lparr> av_curstr := av_curstr v @ a \<rparr>"
  by (induction a arbitrary: v) (auto simp: argv_defs)

lemma argv_wrapped:
  assumes "arg_ok a" "av_state v = ARGV_NORMAL" "av_prev_state v = ARGV_NORMAL" "av_curstr v = []"
  shows "fold argv_step (WrapWithQuotes a @ '' '') v = v\<lparr> av_A := av_A v @ [WrapWithQuotes a] \<rparr>"
proof (cases "CHR '' '' \<in> set a")
  case True
  define v1 where "v1 = argv_step (CHR 0x22) v"
  have v1: "v1 = v\<lparr> av_state := ARGV_DQUOTE, av_curstr := [CHR 0x22] \<rparr>"
    using assms by (simp add: v1_def argv_defs)
  have "fold argv_step a v1 = v1\<lparr> av_curstr := CHR 0x22 # a \<rparr>"
    using assms(1) argv_inside [of a v1] v1 by (auto simp: arg_ok_def)
  then have "fold argv_step (CHR 0x22 # a @ [CHR 0x22, CHR '' '']) v
      = v\<lparr> av_A := av_A v @ [CHR 0x22 # a @ [CHR 0x22]] \<rparr>"
    using v1 assms by (simp add: v1_def [symmetric]) (simp add: argv_defs)
  moreover have "WrapWithQuotes a = CHR 0x22 # a @ [CHR 0x22]"
    using True assms(1) find_char_None [of "CHR '' ''" a] by (auto simp: WrapWithQuotes_def arg_ok_def)
  ultimately show ?thesis by simp
next
  case False
  then have w: "WrapWithQuotes a = a" using find_char_None [of "CHR '' ''" a] by (simp add: WrapWithQuotes_def)
  have "fold argv_step a v = v\<lparr> av_curstr := a \<rparr>"
    using assms False argv_plain [of a v] by (auto simp: arg_ok_def)
  then show ?thesis using assms w by (simp add: argv_defs arg_ok_def)
qed

lemma argv_command_line:
  "list_all arg_ok args \<Longrightarrow> av_state v = ARGV_NORMAL \<Longrightarrow> av_prev_state v = ARGV_NORMAL \<Longrightarrow>
    av_curstr v = [] \<Longrightarrow>
    fold argv_step (command_line args) v = v\<lparr> av_A := av_A v @ map WrapWithQuotes args \<rparr>"
proof (induction args arbitrary: v)
  case Nil
  then show ?case by (simp add: command_line_def)
next
  case (Cons a args)
  have c: "command_line (a # args) = (WrapWithQuotes a @ '' '') @ command_line args"
    by (simp add: command_line_def)
  have "fold argv_step (WrapWithQuotes a @ '' '') v = v\<lparr> av_A := av_A v @ [WrapWithQuotes a] \<rparr>"
    using Cons.prems by (intro argv_wrapped) simp_all
  then have "fold argv_step (command_line (a # args)) v
      = fold argv_step (command_line args) (v\<lparr> av_A := av_A v @ [WrapWithQuotes a] \<rparr>)"
    unfolding c by (simp only: fold_append comp_apply)
  also have "\<dots> = v\<lparr> av_A := av_A v @ map WrapWithQuotes (a # args) \<rparr>"
    using Cons.prems by (subst Cons.IH) simp_all
  finally show ?case .
qed

lemma strip_wrapped: "arg_ok a \<Longrightarrow> strip_quotes (WrapWithQuotes a) = a"
proof (cases "find_char (CHR '' '') a = None")
  case True
  assume a: "arg_ok a"
  then have "a ! 0 \<noteq> CHR 0x22" by (cases a) (auto simp: arg_ok_def)
  with a True show ?thesis by (simp add: WrapWithQuotes_def strip_quotes_def)
next
  case False
  assume "arg_ok a"
  with False show ?thesis
    by (auto simp: WrapWithQuotes_def strip_quotes_def arg_ok_def butlast_append)
qed

text \<open>C39: splitting a command line gives back the arguments it was built from: each argument is
  passed through \<open>WrapWithQuotes\<close> and followed by a blank, and \<open>BuildArgv\<close> returns them in order
  without the added quotes. The arguments are not empty and contain blanks at will, but no
  quotes, backslashes or tabs.\<close>

theorem BuildArgv_command_line:
  assumes "list_all arg_ok args"
  shows "BuildArgv (command_line args) = args"
proof -
  have f: "fold argv_step (command_line args) argv_start
      = argv_start\<lparr> av_A := map WrapWithQuotes args \<rparr>"
    using argv_command_line [OF assms, of argv_start] by (simp add: argv_start_def)
  have n: "c_str (WrapWithQuotes a) = WrapWithQuotes a" if "a \<in> set args" for a
    using assms that by (intro c_str_id) (auto simp: list_all_iff arg_ok_def WrapWithQuotes_def no_nul_def)
  have "map (\<lambda>a. strip_quotes (c_str (WrapWithQuotes a))) args = args"
    using assms n by (intro map_idI) (auto simp: list_all_iff strip_wrapped)
  then show ?thesis
    unfolding BuildArgv_def BuildArgv_c_def f
    by (simp add: PUSH_CURTOKEN_def argv_start_def comp_def Let_def)
qed

theorem BuildArgv_command_line_witness:
  "BuildArgv (command_line [''gdb'', ''my prog'', ''-x'']) = [''gdb'', ''my prog'', ''-x'']"
  by (rule BuildArgv_command_line) (simp add: arg_ok_def)

end
