(* ===== verification/Dap_JsonRPC.thy ===== *)
theory Dap_JsonRPC
  imports Dap_Json Dap_StringUtils
begin

text \<open>
  \<open>JsonRPC.cpp\<close>: framing of messages on the byte stream. \<open>m_buffer\<close> is the string a step takes
  and returns. \<open>DoProcessBuffer\<close> returns the message it read, if any, and the new buffer;
  \<open>None\<close> is undefined behaviour (of the JSON parser, or an overflow of \<open>long\<close>). The locale
  \<open>framing\<close> states what a framed stream promises its reader, and proves that the way a
  stream is cut into reads does not matter. Buffers stay below 2 GB, so that
  \<open>headerSize\<close> fits its \<open>int\<close>.
\<close>

section \<open>Reading\<close>

definition CRLF2 :: string where
  "CRLF2 = [CHR 0x0D, CHR 0x0A, CHR 0x0D, CHR 0x0A]"

definition headers_insert :: "string \<Rightarrow> string \<Rightarrow> (string \<Rightarrow> string option) \<Rightarrow> string \<Rightarrow> string option" where
  "headers_insert n v m = (if m n = None then m(n := Some v) else m)"

definition read_header :: "wx \<Rightarrow> string \<Rightarrow> (string \<Rightarrow> string option) \<Rightarrow> string \<Rightarrow> string option" where
  \<comment> \<open>the body of the loop over the lines\<close>
  "read_header W line headers =
     (let header = su_Trim W line;
          name = BeforeFirst header (CHR '':'');
          value = AfterFirst header (CHR '':'')
      in headers_insert (su_Trim W name) (su_Trim W value) headers)"

definition ReadHeaders :: "wx \<Rightarrow> string \<Rightarrow> ((string \<Rightarrow> string option) \<times> nat) option" where
  "ReadHeaders W m_buffer =
     (case find_sub CRLF2 m_buffer of
        None \<Rightarrow> None
      | Some w \<Rightarrow>
          (let headerSection = take w m_buffer;
               lines = su_Split W headerSection (CHR 0x0A)
           in Some (fold (read_header W) lines (\<lambda>_. None), w + 4)))"

definition DoProcessBuffer :: "'d fp \<Rightarrow> wx \<Rightarrow> string \<Rightarrow> ('d cJsonDap option \<times> string) option" where
  "DoProcessBuffer F W m_buffer =
     (if m_buffer = [] then Some (None, m_buffer)
      else case ReadHeaders W m_buffer of
          None \<Rightarrow> Some (None, m_buffer)
        | Some (headers, headerSize) \<Rightarrow>
            (case headers ''Content-Length'' of
               None \<Rightarrow> Some (None, take headerSize m_buffer)   \<comment> \<open>\<open>erase(headerSize)\<close>\<close>
             | Some contentLength \<Rightarrow>
                 (let msglen = atol contentLength in
                  if \<bar>msglen\<bar> > LONG_MAX then None
                  else if msglen \<le> 0 then Some (None, m_buffer)
                  else if int headerSize + msglen > LONG_MAX then None
                  else if int headerSize + msglen > int (length m_buffer) then Some (None, m_buffer)
                  else
                    (let payload = take (nat msglen) (drop headerSize m_buffer);
                         rest = drop (headerSize + nat msglen) m_buffer
                     in case Json_Parse F payload of
                          None \<Rightarrow> None
                        | Some json \<Rightarrow> Some (json, rest)))))"

lemma DoProcessBuffer_shrinks:
  "DoProcessBuffer F W b = Some (Some j, b') \<Longrightarrow> length b' < length b"
  by (auto simp: DoProcessBuffer_def Let_def split: if_splits option.splits prod.splits)

function ProcessBuffer :: "'d fp \<Rightarrow> wx \<Rightarrow> string \<Rightarrow> ('d cJsonDap list \<times> string) option" where
  \<comment> \<open>the messages passed to the callback, in order, and the buffer that is left\<close>
  "ProcessBuffer F W m_buffer =
     (case DoProcessBuffer F W m_buffer of
        None \<Rightarrow> None
      | Some (None, b) \<Rightarrow> Some ([], b)
      | Some (Some json, b) \<Rightarrow>
          (case ProcessBuffer F W b of
             None \<Rightarrow> None
           | Some (js, b') \<Rightarrow> Some (json # js, b')))"
  by pat_completeness auto
termination
  by (relation "measure (\<lambda>(F, W, b). length b)") (auto dest: DoProcessBuffer_shrinks)

declare ProcessBuffer.simps [simp del]

definition SetBuffer :: "string \<Rightarrow> string \<Rightarrow> string" where
  "SetBuffer m_buffer buffer = buffer"

definition AppendBuffer :: "string \<Rightarrow> string \<Rightarrow> string" where
  "AppendBuffer m_buffer buffer = m_buffer @ buffer"

section \<open>Sending\<close>

definition JsonRPC_frame :: "string \<Rightarrow> string" where
  "JsonRPC_frame payload =
     ''Content-Length: '' @ show_nat (length payload) @ CRLF2 @ payload"

definition JsonRPC_Send :: "string option \<Rightarrow> bool \<Rightarrow> string + string" where
  \<comment> \<open>the two overloads of \<open>Send\<close>: a message (its \<open>ToString()\<close>) or a null pointer, and whether
      there is a connection; \<open>Inl\<close> is the exception, \<open>Inr\<close> what is passed to \<open>conn->Send\<close>\<close>
  "JsonRPC_Send msg conn =
     (case msg of
        None \<Rightarrow> Inl ''Unable to send empty message''
      | Some payload \<Rightarrow>
          if \<not> conn then Inl ''Invalid connection'' else Inr (JsonRPC_frame payload))"

section \<open>Framed streams\<close>

primrec feed :: "(string \<Rightarrow> ('r list \<times> string) option) \<Rightarrow> string list \<Rightarrow> string
    \<Rightarrow> ('r list \<times> string) option" where
  \<comment> \<open>append a chunk, drain the buffer, and so on: everything delivered, and the final buffer\<close>
  "feed drain [] b = Some ([], b)"
| "feed drain (c # cs) b =
     (case drain (AppendBuffer b c) of
        None \<Rightarrow> None
      | Some (rs, b') \<Rightarrow>
          (case feed drain cs b' of None \<Rightarrow> None | Some (rs', b'') \<Rightarrow> Some (rs @ rs', b'')))"

text \<open>
  The contract of a framed stream: a decoder reads exactly one encoded message from the front of
  its buffer and leaves what follows; on an incomplete message it waits and keeps the buffer;
  draining repeats it until no message is left. \<open>None\<close> of the decoder is an undefined run.
\<close>

locale framing =
  fixes enc :: "'m \<Rightarrow> string"
    and recv :: "'m \<Rightarrow> 'r"
    and dec :: "string \<Rightarrow> ('r option \<times> string) option"
    and drain :: "string \<Rightarrow> ('r list \<times> string) option"
    and ok :: "'m \<Rightarrow> bool"
  assumes enc_nonempty: "ok m \<Longrightarrow> enc m \<noteq> []"
    and dec_empty: "dec [] = Some (None, [])"
    and dec_enc: "ok m \<Longrightarrow> dec (enc m @ rest) = Some (Some (recv m), rest)"
    and dec_prefix: "ok m \<Longrightarrow> enc m = p @ q \<Longrightarrow> q \<noteq> [] \<Longrightarrow> dec p = Some (None, p)"
    and drain_dec: "drain b =
      (case dec b of
         None \<Rightarrow> None
       | Some (None, b') \<Rightarrow> Some ([], b')
       | Some (Some r, b') \<Rightarrow>
           (case drain b' of None \<Rightarrow> None | Some (rs, b'') \<Rightarrow> Some (r # rs, b'')))"
begin

text \<open>
  Draining a prefix of a stream delivers the messages it holds completely and keeps the beginning
  of the next one.
\<close>

lemma drain_prefix:
  assumes "list_all ok ms" "x @ y = concat (map enc ms)"
  obtains ms1 ms2 p where "ms = ms1 @ ms2" "drain x = Some (map recv ms1, p)"
    "p @ y = concat (map enc ms2)" "y = [] \<Longrightarrow> ms2 = []"
  using assms
proof (induction ms arbitrary: x thesis)
  case Nil
  then have "drain x = Some ([], [])" by (simp add: drain_dec [of "[]"] dec_empty)
  with Nil show ?case by (auto intro: Nil(1) [of "[]" "[]" "[]"])
next
  case (Cons m ms)
  have ok: "ok m" "list_all ok ms" using Cons.prems(2) by simp_all
  from Cons.prems(3) have "x @ y = enc m @ concat (map enc ms)" by simp
  then obtain us where us: "(x = enc m @ us \<and> us @ y = concat (map enc ms))
      \<or> (x @ us = enc m \<and> y = us @ concat (map enc ms))"
    unfolding append_eq_append_conv2 by metis
  consider (whole) x' where "x = enc m @ x'" "x' @ y = concat (map enc ms)"
    | (part) q where "enc m = x @ q" "q \<noteq> []" "y = q @ concat (map enc ms)"
    using us by (cases "us = []") (metis append_Nil append_Nil2)+
  then show ?case
  proof cases
    case whole
    obtain ms1 ms2 p where IH: "ms = ms1 @ ms2" "drain x' = Some (map recv ms1, p)"
        "p @ y = concat (map enc ms2)" "y = [] \<Longrightarrow> ms2 = []"
      using Cons.IH [OF _ ok(2) whole(2)] by blast
    have "drain x = Some (map recv (m # ms1), p)"
      using IH(2) dec_enc [OF ok(1), of x'] by (subst drain_dec) (simp add: whole(1))
    then show ?thesis using Cons.prems(1) [of "m # ms1" ms2 p] IH by simp
  next
    case part
    have "drain x = Some ([], x)" using dec_prefix [OF ok(1) part(1,2)] by (subst drain_dec) simp
    then show ?thesis using Cons.prems(1) [of "[]" "m # ms" x] Cons.prems(3) part by simp
  qed
qed

text \<open>However a stream of encoded messages is cut into chunks, all of them come out, in order.\<close>

lemma feed_from:
  "list_all ok ms \<Longrightarrow> b @ concat chunks = concat (map enc ms) \<Longrightarrow> chunks \<noteq> [] \<Longrightarrow>
    feed drain chunks b = Some (map recv ms, [])"
proof (induction chunks arbitrary: b ms)
  case Nil
  then show ?case by simp
next
  case (Cons c cs)
  have "(b @ c) @ concat cs = concat (map enc ms)" using Cons.prems(2) by simp
  from drain_prefix [OF Cons.prems(1) this] obtain ms1 ms2 p where
    1: "ms = ms1 @ ms2" "drain (b @ c) = Some (map recv ms1, p)"
      "p @ concat cs = concat (map enc ms2)" "concat cs = [] \<Longrightarrow> ms2 = []" by metis
  show ?case
  proof (cases "cs = []")
    case True
    with 1 have "ms2 = []" "p = []" by auto
    with 1 True show ?thesis by (simp add: AppendBuffer_def)
  next
    case False
    have "feed drain cs p = Some (map recv ms2, [])"
      using Cons.IH [OF _ 1(3) False] Cons.prems(1) 1(1) by simp
    with 1 show ?thesis by (simp add: AppendBuffer_def)
  qed
qed

lemma feed_stream:
  assumes "list_all ok ms" "concat chunks = concat (map enc ms)"
  shows "feed drain chunks [] = Some (map recv ms, [])"
proof (cases "chunks = []")
  case True
  then have "ms = []"
    using assms enc_nonempty by (cases ms) auto
  with True show ?thesis by simp
next
  case False
  with feed_from [of ms "[]" chunks] assms show ?thesis by simp
qed

end

section \<open>The frames of \<open>Send\<close> are such a stream\<close>

lemma digit_not_special: "is_digit c \<Longrightarrow> c \<noteq> CHR 0x0D \<and> c \<noteq> CHR 0x0A \<and> \<not> is_space c \<and> c \<noteq> CHR '':''"
  by (auto simp: is_digit_def is_space_def)

definition frame_head :: "nat \<Rightarrow> string" where
  "frame_head n = ''Content-Length: '' @ show_nat n"

lemma frame_head_plain: "CHR 0x0D \<notin> set (frame_head n)" "CHR 0x0A \<notin> set (frame_head n)"
  using show_nat_digits [of n] digit_not_special by (auto simp: frame_head_def list_all_iff)

lemma frame_head_split: "JsonRPC_frame payload = frame_head (length payload) @ CRLF2 @ payload"
  by (simp add: JsonRPC_frame_def frame_head_def)

lemma find_sub_CRLF2: "CHR 0x0D \<notin> set h \<Longrightarrow> find_sub CRLF2 (h @ CRLF2 @ t) = Some (length h)"
  by (induction h) (auto simp: CRLF2_def)

lemma read_header_frame:
  assumes "wx_ok W"
  shows "fold (read_header W) (su_Split W (frame_head n) (CHR 0x0A)) (\<lambda>_. None)
    = (\<lambda>_. None)(''Content-Length'' := Some (show_nat n))"
proof -
  obtain d ds where d: "show_nat n = d # ds" using show_nat_nonempty by (meson neq_Nil_conv)
  have dig: "list_all is_digit (show_nat n)" by (rule show_nat_digits)
  then have l: "\<not> is_space (last (show_nat n))" "\<not> is_space (hd (show_nat n))"
    using d digit_not_special by (auto simp: list_all_iff)
  have tok: "su_Split W (frame_head n) (CHR 0x0A) = [frame_head n]"
    using assms frame_head_plain(2) [of n] by (auto simp: su_Split_def wx_ok_def frame_head_def)
  have t1: "su_Trim W (frame_head n) = frame_head n"
    using su_Trim_pad [OF assms, of "[]" "[]" "frame_head n"] l(1) show_nat_nonempty [of n]
    by (simp add: frame_head_def is_space_def)
  have sp: "frame_head n = ''Content-Length'' @ CHR '':'' # '' '' @ show_nat n"
    by (simp add: frame_head_def)
  have b: "BeforeFirst (frame_head n) (CHR '':'') = ''Content-Length''"
      "AfterFirst (frame_head n) (CHR '':'') = '' '' @ show_nat n"
    unfolding sp by (rule before_after_sep; simp)+
  have t2: "su_Trim W ''Content-Length'' = ''Content-Length''"
    using su_Trim_pad [OF assms, of "[]" "[]" "''Content-Length''"] by (simp add: is_space_def)
  have t3: "su_Trim W ('' '' @ show_nat n) = show_nat n"
    using su_Trim_pad [OF assms, of "'' ''" "[]" "show_nat n"] l show_nat_nonempty [of n]
    by (simp add: is_space_def)
  show ?thesis
    by (simp add: tok read_header_def t1 b t2 t3 headers_insert_def del: append_Cons)
qed

lemma ReadHeaders_frame:
  assumes "wx_ok W"
  shows "ReadHeaders W (frame_head n @ CRLF2 @ t)
    = Some ((\<lambda>_. None)(''Content-Length'' := Some (show_nat n)), length (frame_head n) + 4)"
  using find_sub_CRLF2 [OF frame_head_plain(1)] read_header_frame [OF assms]
  by (simp add: ReadHeaders_def)

lemma frame_nonempty: "JsonRPC_frame payload @ rest \<noteq> []"
  by (simp add: JsonRPC_frame_def)

lemma frame_length: "length (JsonRPC_frame payload) = length (frame_head (length payload)) + 4 + length payload"
  by (simp add: frame_head_split CRLF2_def)

text \<open>A complete frame at the front of the buffer is removed and its payload is parsed.\<close>

lemma DoProcessBuffer_frame:
  assumes "wx_ok W" "payload \<noteq> []" "int (length (JsonRPC_frame payload)) \<le> LONG_MAX"
  shows "DoProcessBuffer F W (JsonRPC_frame payload @ rest) =
    (case Json_Parse F payload of None \<Rightarrow> None | Some json \<Rightarrow> Some (json, rest))"
proof -
  let ?n = "length payload" and ?h = "frame_head (length payload)"
  have H: "ReadHeaders W (JsonRPC_frame payload @ rest)
    = Some ((\<lambda>_. None)(''Content-Length'' := Some (show_nat ?n)), length ?h + 4)"
    using ReadHeaders_frame [OF assms(1), of ?n "payload @ rest"] by (simp add: frame_head_split)
  have d1: "drop (length ?h + 4) (JsonRPC_frame payload @ rest) = payload @ rest"
    by (simp add: frame_head_split CRLF2_def)
  have "drop (length ?h + 4 + ?n) (JsonRPC_frame payload @ rest)
      = drop ?n (drop (length ?h + 4) (JsonRPC_frame payload @ rest))"
    by (simp only: drop_drop add.commute)
  then have d: "drop (length ?h + 4 + ?n) (JsonRPC_frame payload @ rest) = rest"
    by (simp only: d1) simp
  have L: "int (length ?h + 4) + int ?n \<le> LONG_MAX"
    using assms(3) by (simp add: frame_length)
  have G: "\<not> \<bar>int ?n\<bar> > LONG_MAX" "\<not> int ?n \<le> 0"
    "\<not> int (length ?h + 4) + int ?n > LONG_MAX"
    "\<not> int (length ?h + 4) + int ?n > int (length (JsonRPC_frame payload @ rest))"
    using L assms(2) by (auto simp: frame_length)
  show ?thesis
    unfolding DoProcessBuffer_def H
    using G d d1 by (simp add: atol_show_nat Let_def) (simp add: JsonRPC_frame_def)
qed

text \<open>An incomplete frame is left in the buffer.\<close>

lemma DoProcessBuffer_partial:
  assumes "wx_ok W" "payload \<noteq> []" "int (length (JsonRPC_frame payload)) \<le> LONG_MAX"
    "JsonRPC_frame payload = p @ q" "q \<noteq> []"
  shows "DoProcessBuffer F W p = Some (None, p)"
proof -
  let ?n = "length payload" and ?h = "frame_head (length payload)"
  have full: "find_sub CRLF2 (p @ q) = Some (length ?h)"
    using find_sub_CRLF2 [OF frame_head_plain(1)] assms(4) by (metis frame_head_split)
  show ?thesis
  proof (cases "find_sub CRLF2 p")
    case None
    then show ?thesis by (simp add: DoProcessBuffer_def ReadHeaders_def)
  next
    case (Some w)
    then have w: "w = length ?h" using find_sub_Some_append [OF Some, of q] full by simp
    have le: "length ?h + 4 \<le> length p" using find_sub_bound [OF Some] w by (simp add: CRLF2_def)
    have pq: "p @ q = (?h @ CRLF2) @ payload" using assms(4) by (simp add: frame_head_split)
    then have "take (length ?h + 4) p = take (length ?h + 4) ((?h @ CRLF2) @ payload)"
      using le by (metis append_take_drop_id length_append take_append take_all_iff
          diff_is_0_eq' append_Nil2 take_0)
    also have "\<dots> = ?h @ CRLF2" by (simp add: CRLF2_def)
    finally have "p = ?h @ CRLF2 @ drop (length ?h + 4) p"
      by (metis append_take_drop_id append_assoc)
    then have H: "ReadHeaders W p
      = Some ((\<lambda>_. None)(''Content-Length'' := Some (show_nat ?n)), length ?h + 4)"
      using ReadHeaders_frame [OF assms(1), of ?n "drop (length ?h + 4) p"] by metis
    have "length (p @ q) = length ?h + 4 + ?n" using pq by (simp add: CRLF2_def)
    moreover have "0 < length q" using assms(5) by simp
    ultimately have "length p < length ?h + 4 + ?n" unfolding length_append by linarith
    then have G: "int (length ?h + 4) + int ?n > int (length p)" "\<not> int ?n \<le> 0"
      "\<not> \<bar>int ?n\<bar> > LONG_MAX" "\<not> int (length ?h + 4) + int ?n > LONG_MAX"
      using assms(2,3,5) by (auto simp: frame_length)
    show ?thesis unfolding DoProcessBuffer_def H using G by (simp add: atol_show_nat Let_def)
  qed
qed

section \<open>What the reader promises\<close>

definition payload_of :: "'d fp \<Rightarrow> 'd cJsonDap \<Rightarrow> string" where
  \<comment> \<open>\<open>ProtocolMessage::ToString\<close>, which prints without formatting\<close>
  "payload_of F c = Json_ToString F False (Some c)"

definition sendable :: "'d fp \<Rightarrow> wx \<Rightarrow> 'd cJsonDap \<Rightarrow> bool" where
  "sendable F W c \<longleftrightarrow> fp_ok F \<and> wx_ok W \<and> val_ok F (Some c)
     \<and> int (length (JsonRPC_frame (payload_of F c))) \<le> LONG_MAX"

lemma payload_nonempty: "sendable F W c \<Longrightarrow> payload_of F c \<noteq> []"
proof
  assume a: "sendable F W c" "payload_of F c = []"
  then have "Json_Parse F [] = Some (norm_j (Some c))"
    using wire_roundtrip [of F "Some c" False] by (simp add: sendable_def payload_of_def)
  then show False
    by (simp add: Json_Parse_def cJSON_Parse_def c_str_def norm_j_def is_digit_def numeral_2_eq_2)
qed

interpretation rpc: framing "\<lambda>c. JsonRPC_frame (payload_of F c)" norm_json
  "DoProcessBuffer F W" "ProcessBuffer F W" "sendable F W" for F W
proof unfold_locales
  fix m rest
  assume m: "sendable F W m"
  then have "Json_Parse F (payload_of F m) = Some (Some (norm_json m))"
    using wire_roundtrip [of F "Some m" False] by (simp add: sendable_def payload_of_def norm_j_def)
  then show "DoProcessBuffer F W (JsonRPC_frame (payload_of F m) @ rest) = Some (Some (norm_json m), rest)"
    using DoProcessBuffer_frame [of W "payload_of F m" F rest] m payload_nonempty [OF m]
    by (simp add: sendable_def)
next
  fix m p q
  assume "sendable F W m" "JsonRPC_frame (payload_of F m) = p @ q" "q \<noteq> []"
  then show "DoProcessBuffer F W p = Some (None, p)"
    using DoProcessBuffer_partial [of W "payload_of F m" p q F] payload_nonempty [of F W m]
    by (simp add: sendable_def)
next
  fix b
  show "ProcessBuffer F W b = (case DoProcessBuffer F W b of None \<Rightarrow> None
      | Some (None, b') \<Rightarrow> Some ([], b')
      | Some (Some r, b') \<Rightarrow> (case ProcessBuffer F W b' of None \<Rightarrow> None
          | Some (rs, b'') \<Rightarrow> Some (r # rs, b'')))"
    by (rule ProcessBuffer.simps)
qed (simp_all add: JsonRPC_frame_def DoProcessBuffer_def)

text \<open>C3: the stream. The messages that a peer frames with \<open>JsonRPC::Send\<close> and writes one after
  the other reach the callback completely, unchanged up to the parser's normalisation and in
  order, however the bytes are cut into reads, and leave an empty buffer.\<close>

theorem stream_delivery:
  assumes "list_all (sendable F W) ms"
    "concat chunks = concat (map (\<lambda>c. JsonRPC_frame (payload_of F c)) ms)"
  shows "feed (ProcessBuffer F W) chunks [] = Some (map norm_json ms, [])"
  by (rule rpc.feed_stream [OF assms])

definition sample_node :: "int cJsonDap" where
  "sample_node = the (Json_Add_int fp_int ''seq'' 1 (Json_CreateObject fp_int))"

lemma sample_sendable: "sendable fp_int wx_std sample_node"
proof -
  have v: "val_ok fp_int (Some sample_node)"
    by (simp add: val_ok_def sample_node_def Json_Add_int_def Json_Add_number_def Json_Add_value_def
        Json_CreateObject_def cJSON_CreateObject_def cJSON_New_Item_def Json_IsObject_def
        Json_IsArray_def cJSON_AddItemToObject_def cJSON_AddItemToArray_def cJSON_CreateNumber_def
        cj_types plain_fields_def fp_int_def int32_def INT_MAX_def INT_MIN_def c_str_Cons c_str_Nil)
  have "payload_of fp_int sample_node = [CHR ''{'', CHR 0x22, CHR ''s'', CHR ''e'', CHR ''q'', CHR 0x22,
      CHR '':'', CHR ''1'', CHR ''}'']"
    by code_simp
  then have "length (JsonRPC_frame (payload_of fp_int sample_node)) = 30"
    by (simp add: JsonRPC_frame_def CRLF2_def show_nat.simps)
  with v show ?thesis by (simp add: sendable_def fp_ok_int wx_ok_std LONG_MAX_def)
qed

theorem stream_delivery_witness:
  "feed (ProcessBuffer fp_int wx_std)
      [take 5 (JsonRPC_frame (payload_of fp_int sample_node)),
       drop 5 (JsonRPC_frame (payload_of fp_int sample_node))
         @ take 30 (JsonRPC_frame (payload_of fp_int sample_node)),
       drop 30 (JsonRPC_frame (payload_of fp_int sample_node))] []
    = Some (map norm_json [sample_node, sample_node], [])"
  by (rule stream_delivery) (simp_all add: sample_sendable)

section \<open>Streams that stop\<close>

lemma ReadHeaders_extend:
  assumes "ReadHeaders W b = Some (h, n)"
  shows "ReadHeaders W (b @ t) = Some (h, n)" "ReadHeaders W (take n b) = Some (h, n)"
    "n \<le> length b" "b \<noteq> []"
proof -
  obtain w where w: "find_sub CRLF2 b = Some w" "n = w + 4"
    using assms by (auto simp: ReadHeaders_def Let_def split: option.splits)
  show le: "n \<le> length b" using find_sub_bound [OF w(1)] w(2) by (simp add: CRLF2_def)
  then show "b \<noteq> []" using w(2) by auto
  have tk: "take w (b @ t) = take w b" "take w (take n b) = take w b" using le w(2) by simp_all
  have f: "find_sub CRLF2 (b @ t) = Some w" "find_sub CRLF2 (take n b) = Some w"
    using find_sub_Some_append [OF w(1), of t] find_sub_take [OF w(1), of n] w(2)
    by (simp_all add: CRLF2_def)
  have h: "(fold (read_header W) (su_Split W (take w b) (CHR 0x0A)) (\<lambda>_. None), w + 4) = (h, n)"
    using assms w(1) by (simp add: ReadHeaders_def)
  show "ReadHeaders W (b @ t) = Some (h, n)" "ReadHeaders W (take n b) = Some (h, n)"
    unfolding ReadHeaders_def f using h by (simp_all only: option.case Let_def tk)
qed

lemma ProcessBuffer_waits:
  "DoProcessBuffer F W b = Some (None, b') \<Longrightarrow> ProcessBuffer F W b = Some ([], b')"
  by (subst ProcessBuffer.simps) simp

text \<open>C37: a header section without \<open>Content-Length\<close> stops the reader for good. The code means to
  remove it (``If we restore this section back to the buffer we will simply stuck with it'') but
  \<open>m_buffer.erase(headerSize)\<close> erases what follows the section and keeps the section, so nothing
  is ever delivered again, whatever arrives.\<close>

theorem missing_length_stops_stream:
  assumes "ReadHeaders W b = Some (h, n)" "h ''Content-Length'' = None"
  shows "\<exists>b'. feed (ProcessBuffer F W) chunks b = Some ([], b')"
  using assms
proof (induction chunks arbitrary: b)
  case Nil
  then show ?case by simp
next
  case (Cons c cs)
  note e = ReadHeaders_extend [OF Cons.prems(1)]
  have t: "take n (b @ c) = take n b" using e(3) by simp
  have "DoProcessBuffer F W (b @ c) = Some (None, take n b)"
    using e(1,4) Cons.prems(2) t by (simp add: DoProcessBuffer_def)
  then have "ProcessBuffer F W (b @ c) = Some ([], take n b)" by (rule ProcessBuffer_waits)
  moreover obtain b' where "feed (ProcessBuffer F W) cs (take n b) = Some ([], b')"
    using Cons.IH [OF e(2) Cons.prems(2)] by blast
  ultimately show ?case by (simp add: AppendBuffer_def)
qed

definition no_length_headers :: string where
  "no_length_headers = ''Content-Type: x'' @ CRLF2"

theorem missing_length_stops_stream_witness:
  "\<exists>b'. feed (ProcessBuffer fp_int wx_std) [JsonRPC_frame ''{}'', JsonRPC_frame ''{}''] no_length_headers
     = Some ([], b')"
proof -
  have "ReadHeaders wx_std no_length_headers
      = Some ((\<lambda>_. None)(''Content-Type'' := Some ''x''), 19)"
    by (simp add: ReadHeaders_def no_length_headers_def CRLF2_def read_header_def su_Trim_def
        su_Split_def wx_std_def BeforeFirst_def AfterFirst_def headers_insert_def is_space_def Let_def)
  then show ?thesis by (rule missing_length_stops_stream) simp
qed

text \<open>a \<open>Content-Length\<close> that is not positive also stops the reader for good: the section is
  never removed and the buffer grows with everything that arrives.\<close>

lemma nonpositive_length_stops_stream:
  assumes "ReadHeaders W b = Some (h, n)" "h ''Content-Length'' = Some v"
    "- LONG_MAX \<le> atol v" "atol v \<le> 0"
  shows "feed (ProcessBuffer F W) chunks b = Some ([], b @ concat chunks)"
  using assms(1)
proof (induction chunks arbitrary: b)
  case Nil
  then show ?case by simp
next
  case (Cons c cs)
  note e = ReadHeaders_extend [OF Cons.prems(1)]
  have "\<not> \<bar>atol v\<bar> > LONG_MAX" using assms(3,4) by simp
  then have "DoProcessBuffer F W (b @ c) = Some (None, b @ c)"
    using e(1) [of c] e(4) assms(2,4) by (simp add: DoProcessBuffer_def Let_def)
  then have "ProcessBuffer F W (b @ c) = Some ([], b @ c)" by (rule ProcessBuffer_waits)
  with Cons.IH [OF e(1) [of c]] show ?case by (simp add: AppendBuffer_def)
qed

text \<open>a complete frame whose payload is not JSON ends the call of \<open>ProcessBuffer\<close>: the frame is
  removed, but the messages behind it are not delivered, even when they are complete, until
  more bytes arrive.\<close>

lemma bad_payload_delays_stream:
  assumes "wx_ok W" "payload \<noteq> []" "int (length (JsonRPC_frame payload)) \<le> LONG_MAX"
    "Json_Parse F payload = Some None"
  shows "ProcessBuffer F W (JsonRPC_frame payload @ rest) = Some ([], rest)"
  by (rule ProcessBuffer_waits) (simp add: DoProcessBuffer_frame [OF assms(1-3)] assms(4))

end
