(* ===== verification/Dap_Client.thy ===== *)
theory Dap_Client
  imports Dap_ObjGen Dap_JsonRPC "HOL-Library.Word"
begin

unbundle bit_operations_syntax

text \<open>
  \<open>Client.cpp\<close>: the client side of a debug session. The object is the record \<open>Client\<close>; what it
  does to its environment (events it processes, text it writes to the transport, callbacks it
  calls) is appended to \<open>cl_trace\<close>. Handlers of an event run after the operation that fires it;
  in every operation but the log events and \<open>OnConnectionError\<close> that is the operation's last
  action. \<open>size_t\<close> is \<open>64 word\<close>. A callback is a value of the type variable \<open>'cb\<close>. The calls
  that the reader thread queues with \<open>CallAfter\<close> are \<open>cl_pending\<close>.
\<close>

section \<open>State\<close>

datatype wxEventType =
    wxEVT_DAP_LOG_EVENT | wxEVT_DAP_LOST_CONNECTION | wxEVT_DAP_INITIALIZE_RESPONSE
  | wxEVT_DAP_STOPPED_EVENT | wxEVT_DAP_PROCESS_EVENT | wxEVT_DAP_EXITED_EVENT
  | wxEVT_DAP_TERMINATED_EVENT | wxEVT_DAP_INITIALIZED_EVENT | wxEVT_DAP_OUTPUT_EVENT
  | wxEVT_DAP_BREAKPOINT_EVENT | wxEVT_DAP_CONTINUED_EVENT | wxEVT_DAP_MODULE_EVENT
  | wxEVT_DAP_STACKTRACE_RESPONSE | wxEVT_DAP_SCOPES_RESPONSE | wxEVT_DAP_VARIABLES_RESPONSE
  | wxEVT_DAP_BREAKPOINT_LOCATIONS_RESPONSE | wxEVT_DAP_SET_FUNCTION_BREAKPOINT_RESPONSE
  | wxEVT_DAP_SET_EXCEPTION_BREAKPOINT_RESPONSE | wxEVT_DAP_SET_SOURCE_BREAKPOINT_RESPONSE
  | wxEVT_DAP_CONFIGURARIONE_DONE_RESPONSE | wxEVT_DAP_LAUNCH_RESPONSE | wxEVT_DAP_THREADS_RESPONSE
  | wxEVT_DAP_DISASSEMBLE_RESPONSE | wxEVT_DAP_READ_MEMORY_RESPONSE | wxEVT_DAP_GOTOTARGETS_RESPONSE
  | wxEVT_DAP_ATTACH_RESPONSE_EVENT | wxEVT_DAP_RUN_IN_TERMINAL_REQUEST

record DAPEvent =
  de_type :: wxEventType
  de_object :: "DapMessage option"
  de_string :: string

datatype 'cb client_out =
    Fired DAPEvent
  | Sent string
  | SourceLoaded 'cb bool string string
  | Evaluated 'cb bool string string int

datatype eHandshakeState = kNotPerformed | kInProgress | kCompleted

datatype reader_thread = NoThread | Looping | Exited   \<comment> \<open>\<open>m_readerThread\<close>: null, in its loop, out of it\<close>

datatype pending_call = DataRead string | ConnectionError

record 'cb Client =
  m_transport :: bool   \<comment> \<open>whether the pointer is not null\<close>
  m_rpc :: string
  m_shutdown :: bool
  m_terminated :: bool
  m_readerThread :: reader_thread
  m_requestSeuqnce :: "64 word"
  m_handshake_state :: eHandshakeState
  m_active_thread_id :: int
  m_can_interact :: bool
  m_requestIdToFilepath :: "64 word \<Rightarrow> string option"
  m_features :: "64 word"
  m_wants_log_events :: bool
  m_get_frames_queue :: "int list"
  m_get_scopes_queue :: "int list"
  m_get_variables_queue :: "(int \<times> EvaluateContext) list"
  m_load_sources_queue :: "'cb list"
  m_evaluate_queue :: "'cb list"
  m_source_breakpoints_queue :: "string list"
  cl_pending :: "pending_call list"
  cl_trace :: "'cb client_out list"

definition Client_new :: "'cb Client" where
  "Client_new = \<lparr> m_transport = False, m_rpc = [], m_shutdown = False, m_terminated = False,
     m_readerThread = NoThread, m_requestSeuqnce = 0, m_handshake_state = kNotPerformed,
     m_active_thread_id = wxNOT_FOUND, m_can_interact = False, m_requestIdToFilepath = (\<lambda>_. None),
     m_features = 0, m_wants_log_events = False, m_get_frames_queue = [], m_get_scopes_queue = [],
     m_get_variables_queue = [], m_load_sources_queue = [], m_evaluate_queue = [],
     m_source_breakpoints_queue = [], cl_pending = [], cl_trace = [] \<rparr>"

definition emit :: "'cb client_out \<Rightarrow> 'cb Client \<Rightarrow> 'cb Client" where
  "emit x cl = cl\<lparr> cl_trace := cl_trace cl @ [x] \<rparr>"

definition SetWantsLogEvents :: "bool \<Rightarrow> 'cb Client \<Rightarrow> 'cb Client" where
  "SetWantsLogEvents b cl = cl\<lparr> m_wants_log_events := b \<rparr>"

section \<open>The reader thread and the connection\<close>

definition StopReaderThread :: "'cb Client \<Rightarrow> 'cb Client" where
  "StopReaderThread cl =
     (if m_readerThread cl = NoThread then cl
      else cl\<lparr> m_shutdown := True, m_readerThread := NoThread \<rparr>)"

definition StartReaderThread :: "'cb Client \<Rightarrow> 'cb Client" where
  "StartReaderThread cl =
     (if m_readerThread cl \<noteq> NoThread \<or> \<not> m_transport cl then cl
      else cl\<lparr> m_readerThread := Looping \<rparr>)"

definition reader_loop :: "bool \<Rightarrow> string \<Rightarrow> 'cb Client \<Rightarrow> 'cb Client" where
  \<comment> \<open>one turn of the thread's loop, with what \<open>Read\<close> returned\<close>
  "reader_loop success content cl =
     (if m_readerThread cl \<noteq> Looping then cl
      else if m_shutdown cl then cl\<lparr> m_readerThread := Exited \<rparr>
      else if success \<and> content \<noteq> [] then cl\<lparr> cl_pending := cl_pending cl @ [DataRead content] \<rparr>
      else if \<not> success then
        cl\<lparr> m_terminated := True, cl_pending := cl_pending cl @ [ConnectionError], m_readerThread := Exited \<rparr>
      else cl)"

definition IsConnected :: "'cb Client \<Rightarrow> bool" where
  "IsConnected cl \<longleftrightarrow> m_readerThread cl \<noteq> NoThread \<and> \<not> m_terminated cl"

definition Client_Reset :: "'cb Client \<Rightarrow> 'cb Client" where
  "Client_Reset cl0 =
     (let cl = StopReaderThread cl0;
          cl = cl\<lparr> m_transport := False \<rparr>;
          cl = cl\<lparr> m_shutdown := False \<rparr>;
          cl = cl\<lparr> m_terminated := False \<rparr>;
          cl = cl\<lparr> m_rpc := [] \<rparr>;
          cl = cl\<lparr> m_requestSeuqnce := 0 \<rparr>;
          cl = cl\<lparr> m_handshake_state := kNotPerformed \<rparr>;
          cl = cl\<lparr> m_active_thread_id := wxNOT_FOUND \<rparr>;
          cl = cl\<lparr> m_can_interact := False \<rparr>;
          cl = cl\<lparr> m_requestIdToFilepath := (\<lambda>_. None) \<rparr>;
          cl = cl\<lparr> m_features := 0 \<rparr>;
          cl = cl\<lparr> m_load_sources_queue := [] \<rparr>;
          cl = cl\<lparr> m_get_frames_queue := [] \<rparr>;
          cl = cl\<lparr> m_get_scopes_queue := [] \<rparr>;
          cl = cl\<lparr> m_get_variables_queue := [] \<rparr>;
          cl = cl\<lparr> m_source_breakpoints_queue := [] \<rparr>;
          cl = cl\<lparr> m_evaluate_queue := [] \<rparr>
      in cl)"

definition SetTransport :: "bool \<Rightarrow> 'cb Client \<Rightarrow> 'cb Client" where
  "SetTransport transport cl0 =
     (let cl = Client_Reset cl0;
          cl = cl\<lparr> m_transport := transport \<rparr>
      in StartReaderThread cl)"

definition OnConnectionError :: "'cb Client \<Rightarrow> 'cb Client" where
  "OnConnectionError cl =
     Client_Reset (emit (Fired \<lparr> de_type = wxEVT_DAP_LOST_CONNECTION, de_object = None, de_string = [] \<rparr>) cl)"

definition log_event :: "string \<Rightarrow> 'cb Client \<Rightarrow> 'cb Client" where
  "log_event s cl =
     (if m_wants_log_events cl
      then emit (Fired \<lparr> de_type = wxEVT_DAP_LOG_EVENT, de_object = None, de_string = s \<rparr>) cl
      else cl)"

section \<open>Features\<close>

definition eFeatures :: "(string \<times> nat) list" where
  \<comment> \<open>the enumerators with the number of their bit\<close>
  "eFeatures = [
     (''supportsConfigurationDoneRequest'', 0), (''supportsFunctionBreakpoints'', 1),
     (''supportsConditionalBreakpoints'', 2), (''supportsHitConditionalBreakpoints'', 3),
     (''supportsEvaluateForHovers'', 4), (''supportsStepBack'', 5), (''supportsSetVariable'', 6),
     (''supportsRestartFrame'', 7), (''supportsGotoTargetsRequest'', 8),
     (''supportsStepInTargetsRequest'', 9), (''supportsCompletionsRequest'', 10),
     (''supportsModulesRequest'', 11), (''supportsRestartRequest'', 12),
     (''supportsExceptionOptions'', 13), (''supportsValueFormattingOptions'', 14),
     (''supportsExceptionInfoRequest'', 15), (''supportTerminateDebuggee'', 16),
     (''supportsDelayedStackTraceLoading'', 17), (''supportsLoadedSourcesRequest'', 18),
     (''supportsProgressReporting'', 19), (''supportsRunInTerminalRequest'', 20),
     (''supportsBreakpointLocationsRequest'', 21), (''supportsDisassembleRequest'', 22),
     (''supportsGotoRequest'', 23), (''supportsReadMemoryRequest'', 24)]"

definition feature_bit :: "string \<Rightarrow> 64 word" where
  "feature_bit f = (case map_of eFeatures f of None \<Rightarrow> 0 | Some n \<Rightarrow> push_bit n 1)"

definition ENABLE_FEATURE :: "'d Json \<Rightarrow> string \<Rightarrow> 'cb Client \<Rightarrow> 'cb Client" where
  "ENABLE_FEATURE body f cl =
     (if Json_GetBool False (Json_member body f)
      then cl\<lparr> m_features := m_features cl OR feature_bit f \<rparr> else cl)"

definition enabled_features :: "string list" where
  \<comment> \<open>the uses of \<open>ENABLE_FEATURE\<close>, in order; \<open>supportsGotoRequest\<close> has none\<close>
  "enabled_features = [
     ''supportsConfigurationDoneRequest'', ''supportsFunctionBreakpoints'',
     ''supportsConditionalBreakpoints'', ''supportsHitConditionalBreakpoints'',
     ''supportsEvaluateForHovers'', ''supportsStepBack'', ''supportsSetVariable'',
     ''supportsRestartFrame'', ''supportsGotoTargetsRequest'', ''supportsStepInTargetsRequest'',
     ''supportsCompletionsRequest'', ''supportsModulesRequest'', ''supportsRestartRequest'',
     ''supportsExceptionOptions'', ''supportsValueFormattingOptions'',
     ''supportsExceptionInfoRequest'', ''supportTerminateDebuggee'',
     ''supportsDelayedStackTraceLoading'', ''supportsLoadedSourcesRequest'',
     ''supportsProgressReporting'', ''supportsRunInTerminalRequest'',
     ''supportsBreakpointLocationsRequest'', ''supportsDisassembleRequest'',
     ''supportsReadMemoryRequest'']"

definition IsSupported :: "string \<Rightarrow> 'cb Client \<Rightarrow> bool" where
  "IsSupported feature cl \<longleftrightarrow> m_features cl AND feature_bit feature \<noteq> 0"

section \<open>Sending\<close>

definition GetNextSequence :: "'cb Client \<Rightarrow> 64 word \<times> 'cb Client" where
  "GetNextSequence cl =
     (let cl = cl\<lparr> m_requestSeuqnce := m_requestSeuqnce cl + 1 \<rparr> in (m_requestSeuqnce cl, cl))"

definition MakeRequest :: "'a Request_scheme \<Rightarrow> 'cb Client \<Rightarrow> 'a Request_scheme \<times> 'cb Client" where
  \<comment> \<open>the first argument is the fresh object; \<open>seq\<close> is an \<open>int\<close>\<close>
  "MakeRequest req cl =
     (let (n, cl) = GetNextSequence cl in (req\<lparr> pm_seq := wrap32 (uint n) \<rparr>, cl))"

definition MakeRequest_twice :: "'a Request_scheme \<Rightarrow> 'cb Client \<Rightarrow> 'a Request_scheme \<times> 'cb Client" where
  \<comment> \<open>\<open>MakeRequest<X>() = MakeRequest<X>()\<close>: C++17 evaluates the right operand first, and its
      value overwrites the object that the left call made\<close>
  "MakeRequest_twice req cl =
     (let (right, cl) = MakeRequest req cl; (left, cl) = MakeRequest req cl in (right, cl))"

definition send_message :: "'d fp \<Rightarrow> 'd Json \<Rightarrow> 'cb Client \<Rightarrow> bool \<times> 'cb Client" where
  \<comment> \<open>the common body of \<open>SendRequest\<close> and \<open>SendResponse\<close>; the argument is the message's \<open>To()\<close>\<close>
  "send_message F json cl =
     (case JsonRPC_Send (Some (Json_ToString F False json)) (m_transport cl) of
        Inl _ \<Rightarrow> (False, OnConnectionError cl)
      | Inr network_buffer \<Rightarrow>
          (True, log_event (''--> '' @ Json_ToString F False json) (emit (Sent network_buffer) cl)))"

definition SendRequest :: "'d fp \<Rightarrow> DapRequest \<Rightarrow> 'cb Client \<Rightarrow> bool \<times> 'cb Client" where
  "SendRequest F request cl = send_message F (DapRequest_To F request) cl"

definition SendResponse :: "'d fp \<Rightarrow> DapResponse \<Rightarrow> 'cb Client \<Rightarrow> bool \<times> 'cb Client" where
  "SendResponse F response cl = send_message F (DapResponse_To F response) cl"

section \<open>The requests\<close>

datatype SteppingGranularity = LINE | STATEMENT | INSTRUCTION

datatype ValueDisplayFormat = NATIVE | HEX

primrec granularity_name :: "SteppingGranularity \<Rightarrow> string" where
  "granularity_name LINE = ''line''"
| "granularity_name STATEMENT = ''statement''"
| "granularity_name INSTRUCTION = ''instruction''"

primrec context_name :: "EvaluateContext \<Rightarrow> string" where
  "context_name CLIPBOARD = ''clipboard''"
| "context_name HOVER = ''hover''"
| "context_name REPL = ''repl''"
| "context_name VARIABLES = ''variables''"
| "context_name WATCH = ''watch''"

definition thread_or_active :: "int \<Rightarrow> 'cb Client \<Rightarrow> int" where
  \<comment> \<open>\<open>threadId == wxNOT_FOUND ? GetActiveThreadId() : threadId\<close>\<close>
  "thread_or_active threadId cl = (if threadId = wxNOT_FOUND then m_active_thread_id cl else threadId)"

definition Client_Initialize :: "'d fp \<Rightarrow> InitializeRequestArguments option \<Rightarrow> 'cb Client \<Rightarrow> 'cb Client" where
  "Client_Initialize F initArgs cl =
     (let (req, cl) = MakeRequest InitializeRequest_new cl;
          req = (case initArgs of
              Some a \<Rightarrow> req\<lparr> ir_arguments := a \<rparr>
            | None \<Rightarrow> req\<lparr> ir_arguments := (ir_arguments req)\<lparr> ia_clientID := ''wxdap'', ia_clientName := ''wxdap'' \<rparr> \<rparr>);
          cl = snd (SendRequest F (Rq_Initialize req) cl)
      in cl\<lparr> m_handshake_state := kInProgress \<rparr>)"

definition SetBreakpointsFile :: "'d fp \<Rightarrow> (string \<Rightarrow> string) \<Rightarrow> string \<Rightarrow> SourceBreakpoint list \<Rightarrow> 'cb Client \<Rightarrow> 'cb Client" where
  \<comment> \<open>the second argument is \<open>wxFileName(file).GetFullName()\<close>\<close>
  "SetBreakpointsFile F GetFullName file lines cl =
     (let (req, cl) = MakeRequest_twice SetBreakpointsRequest_new cl;
          req = req\<lparr> gr_arguments := (gr_arguments req)\<lparr> ga_breakpoints := lines,
            ga_source := (ga_source (gr_arguments req))\<lparr> src_path := file, src_name := GetFullName file \<rparr> \<rparr> \<rparr>;
          cl = cl\<lparr> m_source_breakpoints_queue := m_source_breakpoints_queue cl @ [file] \<rparr>
      in snd (SendRequest F (Rq_SetBreakpoints req) cl))"

definition ConfigurationDone :: "'d fp \<Rightarrow> 'cb Client \<Rightarrow> 'cb Client" where
  "ConfigurationDone F cl =
     (let (req, cl) = MakeRequest_twice ConfigurationDoneRequest_new cl
      in snd (SendRequest F (Rq_ConfigurationDone req) cl))"

definition Launch :: "'d fp \<Rightarrow> string list \<Rightarrow> string \<Rightarrow> Environment \<Rightarrow> 'cb Client \<Rightarrow> 'cb Client option" where
  \<comment> \<open>\<open>None\<close>: \<open>cmd[0]\<close> of an empty vector\<close>
  "Launch F cmd workingDirectory env cl =
     (case cmd of
        [] \<Rightarrow> None
      | program # args \<Rightarrow>
          (let cl = cl\<lparr> m_active_thread_id := wxNOT_FOUND \<rparr>;
               (req, cl) = MakeRequest_twice LaunchRequest_new cl;
               req = req\<lparr> lr_arguments := (lr_arguments req)\<lparr> la_program := program, la_args := args,
                 la_cwd := workingDirectory, la_env := env \<rparr> \<rparr>
           in Some (snd (SendRequest F (Rq_Launch req) cl))))"

definition GetThreads :: "'d fp \<Rightarrow> 'cb Client \<Rightarrow> 'cb Client" where
  "GetThreads F cl =
     (let (req, cl) = MakeRequest_twice ThreadsRequest_new cl
      in snd (SendRequest F (Rq_Threads req) cl))"

definition GetScopes :: "'d fp \<Rightarrow> int \<Rightarrow> 'cb Client \<Rightarrow> 'cb Client" where
  "GetScopes F frameId cl =
     (let (req, cl) = MakeRequest_twice ScopesRequest_new cl;
          req = req\<lparr> cq_arguments := (cq_arguments req)\<lparr> pa_frameId := frameId \<rparr> \<rparr>;
          cl = cl\<lparr> m_get_scopes_queue := m_get_scopes_queue cl @ [frameId] \<rparr>
      in snd (SendRequest F (Rq_Scopes req) cl))"

definition GetFrames :: "'d fp \<Rightarrow> int \<Rightarrow> int \<Rightarrow> int \<Rightarrow> 'cb Client \<Rightarrow> 'cb Client" where
  "GetFrames F threadId starting_frame frame_count cl =
     (let (req, cl) = MakeRequest StackTraceRequest_new cl;
          req = req\<lparr> kq_arguments := (kq_arguments req)\<lparr> ka_threadId := thread_or_active threadId cl,
            ka_levels := frame_count, ka_startFrame := starting_frame \<rparr> \<rparr>;
          cl = cl\<lparr> m_get_frames_queue := m_get_frames_queue cl @ [ka_threadId (kq_arguments req)] \<rparr>
      in snd (SendRequest F (Rq_StackTrace req) cl))"

definition Next :: "'d fp \<Rightarrow> int \<Rightarrow> bool \<Rightarrow> SteppingGranularity \<Rightarrow> 'cb Client \<Rightarrow> 'cb Client" where
  "Next F threadId singleThread granularity cl =
     (let (req, cl) = MakeRequest NextRequest_new cl;
          req = req\<lparr> nr_arguments := (nr_arguments req)\<lparr> na_threadId := thread_or_active threadId cl,
            na_singleThread := singleThread, na_granularity := granularity_name granularity \<rparr> \<rparr>
      in snd (SendRequest F (Rq_Next req) cl))"

definition Continue :: "'d fp \<Rightarrow> int \<Rightarrow> bool \<Rightarrow> 'cb Client \<Rightarrow> 'cb Client" where
  "Continue F threadId all_threads cl =
     (let (req, cl) = MakeRequest ContinueRequest_new cl;
          req = req\<lparr> co_arguments := (co_arguments req)\<lparr> ca_threadId := thread_or_active threadId cl,
            ca_singleThread := (\<not> all_threads \<or> thread_or_active threadId cl = wxNOT_FOUND) \<rparr> \<rparr>
      in snd (SendRequest F (Rq_Continue req) cl))"

definition SetExceptionBreakpoints :: "'d fp \<Rightarrow> string list \<Rightarrow> 'cb Client \<Rightarrow> 'cb Client" where
  "SetExceptionBreakpoints F exceptionFilters cl =
     (let (req, cl) = MakeRequest SetExceptionBreakpointsRequest_new cl;
          req = req\<lparr> xr_arguments := (xr_arguments req)\<lparr> xa_filters := exceptionFilters \<rparr> \<rparr>
      in snd (SendRequest F (Rq_SetExceptionBreakpoints req) cl))"

definition SetFunctionBreakpoints :: "'d fp \<Rightarrow> FunctionBreakpoint list \<Rightarrow> 'cb Client \<Rightarrow> 'cb Client" where
  "SetFunctionBreakpoints F breakpoints cl =
     (let (req, cl) = MakeRequest SetFunctionBreakpointsRequest_new cl;
          req = req\<lparr> fr_arguments := (fr_arguments req)\<lparr> fa_breakpoints := breakpoints \<rparr> \<rparr>
      in snd (SendRequest F (Rq_SetFunctionBreakpoints req) cl))"

definition StepIn :: "'d fp \<Rightarrow> int \<Rightarrow> bool \<Rightarrow> SteppingGranularity \<Rightarrow> 'cb Client \<Rightarrow> 'cb Client" where
  "StepIn F threadId singleThread granularity cl =
     (let (req, cl) = MakeRequest StepInRequest_new cl;
          req = req\<lparr> sr_arguments := (sr_arguments req)\<lparr> sa_threadId := thread_or_active threadId cl,
            sa_singleThread := singleThread, sa_granularity := granularity_name granularity \<rparr> \<rparr>
      in snd (SendRequest F (Rq_StepIn req) cl))"

definition StepOut :: "'d fp \<Rightarrow> int \<Rightarrow> bool \<Rightarrow> 'cb Client \<Rightarrow> 'cb Client" where
  "StepOut F threadId singleThread cl =
     (let (req, cl) = MakeRequest StepOutRequest_new cl;
          req = req\<lparr> sr_arguments := (sr_arguments req)\<lparr> sa_threadId := thread_or_active threadId cl,
            sa_singleThread := singleThread \<rparr> \<rparr>
      in snd (SendRequest F (Rq_StepOut req) cl))"

definition GetChildrenVariables ::
  "'d fp \<Rightarrow> int \<Rightarrow> EvaluateContext \<Rightarrow> 64 word \<Rightarrow> ValueDisplayFormat \<Rightarrow> 'cb Client \<Rightarrow> int \<times> 'cb Client" where
  \<comment> \<open>\<open>count\<close> is a \<open>size_t\<close> stored in an \<open>int\<close>\<close>
  "GetChildrenVariables F variablesReference context count format cl =
     (let (req, cl) = MakeRequest VariablesRequest_new cl;
          req = req\<lparr> vq_arguments := (vq_arguments req)\<lparr> va_variablesReference := variablesReference,
            va_count := wrap32 (uint count), va_format := \<lparr> vf_hex = (format = HEX) \<rparr> \<rparr> \<rparr>;
          cl = cl\<lparr> m_get_variables_queue := m_get_variables_queue cl @ [(variablesReference, context)] \<rparr>
      in (pm_seq req, snd (SendRequest F (Rq_Variables req) cl)))"

definition Pause :: "'d fp \<Rightarrow> int \<Rightarrow> 'cb Client \<Rightarrow> 'cb Client" where
  "Pause F threadId cl =
     (let (req, cl) = MakeRequest PauseRequest_new cl;
          req = req\<lparr> uq_arguments := (uq_arguments req)\<lparr> ua_threadId := thread_or_active threadId cl \<rparr> \<rparr>
      in snd (SendRequest F (Rq_Pause req) cl))"

definition BreakpointLocations :: "'d fp \<Rightarrow> string \<Rightarrow> int \<Rightarrow> int \<Rightarrow> 'cb Client \<Rightarrow> 'cb Client" where
  "BreakpointLocations F filepath start_line end_line cl =
     (if \<not> IsSupported ''supportsBreakpointLocationsRequest'' cl then cl
      else
        (let (req, cl) = MakeRequest BreakpointLocationsRequest_new cl;
             req = req\<lparr> br_arguments := (br_arguments req)\<lparr>
               ba_source := (ba_source (br_arguments req))\<lparr> src_path := filepath \<rparr>,
               ba_line := start_line, ba_endLine := end_line \<rparr> \<rparr>;
             cl = snd (SendRequest F (Rq_BreakpointLocations req) cl);
             k = word_of_int (pm_seq req)
         in if m_requestIdToFilepath cl k = None
            then cl\<lparr> m_requestIdToFilepath := (m_requestIdToFilepath cl)(k \<mapsto> filepath) \<rparr> else cl))"

definition ReadMemory :: "'d fp \<Rightarrow> string \<Rightarrow> int \<Rightarrow> int \<Rightarrow> 'cb Client \<Rightarrow> 'cb Client" where
  "ReadMemory F memoryReference offset count cl =
     (if \<not> IsSupported ''supportsReadMemoryRequest'' cl then cl
      else
        (let (req, cl) = MakeRequest ReadMemoryRequest_new cl;
             req = req\<lparr> mq_arguments := (mq_arguments req)\<lparr> ma_memoryReference := memoryReference,
               ma_offset := offset, ma_count := count \<rparr> \<rparr>
         in snd (SendRequest F (Rq_ReadMemory req) cl)))"

fun show_hex :: "nat \<Rightarrow> string" where
  \<comment> \<open>the conversion \<open>%llx\<close>\<close>
  "show_hex n = (if n < 16 then [hex_digit n] else show_hex (n div 16) @ [hex_digit (n mod 16)])"

definition GetDisassemble :: "'d fp \<Rightarrow> 64 word \<Rightarrow> int \<Rightarrow> int \<Rightarrow> int \<Rightarrow> bool \<Rightarrow> 'cb Client \<Rightarrow> 'cb Client" where
  \<comment> \<open>the argument \<open>resolveSymbols\<close> is not used\<close>
  "GetDisassemble F memAddr offset instructionOffset instructionCount resolveSymbols cl =
     (let (req, cl) = MakeRequest DisassembleRequest_new cl;
          req = req\<lparr> dq_arguments := (dq_arguments req)\<lparr> da_memoryReference := ''0x'' @ show_hex (unat memAddr),
            da_offset := offset, da_instructionOffset := instructionOffset,
            da_instructionCount := instructionCount, da_resolveSymbols := True \<rparr> \<rparr>
      in snd (SendRequest F (Rq_Disassemble req) cl))"

definition GetVariableInfo :: "'d fp \<Rightarrow> int \<Rightarrow> string \<Rightarrow> int \<Rightarrow> int \<Rightarrow> ValueDisplayFormat \<Rightarrow> 'cb Client \<Rightarrow> 'cb Client" where
  \<comment> \<open>\<open>start\<close> is not used, and nothing is queued\<close>
  "GetVariableInfo F variablesReference vfilter start count format cl =
     (let (req, cl) = MakeRequest VariablesRequest_new cl;
          req = req\<lparr> vq_arguments := (vq_arguments req)\<lparr> va_variablesReference := variablesReference,
            va_count := count, va_format := \<lparr> vf_hex = (format = HEX) \<rparr>, va_filter := vfilter \<rparr> \<rparr>
      in snd (SendRequest F (Rq_Variables req) cl))"

definition Goto :: "'d fp \<Rightarrow> int \<Rightarrow> int \<Rightarrow> 'cb Client \<Rightarrow> 'cb Client" where
  "Goto F threadId targetId cl =
     (let (req, cl) = MakeRequest GotoRequest_new cl;
          req = req\<lparr> gq_arguments := (gq_arguments req)\<lparr> gn_threadId := threadId, gn_targetId := targetId \<rparr> \<rparr>
      in snd (SendRequest F (Rq_Goto req) cl))"

definition GotoTarget :: "'d fp \<Rightarrow> (string \<Rightarrow> string) \<Rightarrow> string \<Rightarrow> int \<Rightarrow> int \<Rightarrow> 'cb Client \<Rightarrow> 'cb Client" where
  \<comment> \<open>the second argument is \<open>wxFileName(source).GetFullPath()\<close>\<close>
  "GotoTarget F GetFullPath source line column cl =
     (if \<not> IsSupported ''supportsGotoTargetsRequest'' cl then cl
      else
        (let (req, cl) = MakeRequest GotoTargetsRequest_new cl;
             req = req\<lparr> tt_arguments := (tt_arguments req)\<lparr>
               tg_source := (tg_source (tt_arguments req))\<lparr> src_name := GetFullPath source,
                 src_path := GetFullPath source \<rparr>,
               tg_line := line, tg_column := column \<rparr> \<rparr>
         in snd (SendRequest F (Rq_GotoTargets req) cl)))"

definition LoadSource :: "'d fp \<Rightarrow> Source \<Rightarrow> 'cb \<Rightarrow> 'cb Client \<Rightarrow> bool \<times> 'cb Client" where
  "LoadSource F source callback cl =
     (if src_sourceReference source > 0 then
        (let cl = cl\<lparr> m_load_sources_queue := m_load_sources_queue cl @ [callback] \<rparr>;
             (req, cl) = MakeRequest SourceRequest_new cl;
             req = req\<lparr> oq_arguments := (oq_arguments req)\<lparr> oa_source := source,
               oa_sourceReference := src_sourceReference source \<rparr> \<rparr>
         in (True, snd (SendRequest F (Rq_Source req) cl)))
      else (False, cl))"

definition EvaluateExpression ::
  "'d fp \<Rightarrow> string \<Rightarrow> int \<Rightarrow> EvaluateContext \<Rightarrow> 'cb \<Rightarrow> ValueDisplayFormat \<Rightarrow> 'cb Client \<Rightarrow> 'cb Client" where
  "EvaluateExpression F expression frameId context callback format cl =
     (let cl = cl\<lparr> m_evaluate_queue := m_evaluate_queue cl @ [callback] \<rparr>;
          (req, cl) = MakeRequest EvaluateRequest_new cl;
          req = req\<lparr> eq_arguments := (eq_arguments req)\<lparr> ea_frameId := frameId, ea_expression := expression,
            ea_format := \<lparr> vf_hex = (format = HEX) \<rparr>, ea_context := context_name context \<rparr> \<rparr>
      in snd (SendRequest F (Rq_Evaluate req) cl))"

definition Attach :: "'d fp \<Rightarrow> int \<Rightarrow> int \<Rightarrow> string list \<Rightarrow> 'cb Client \<Rightarrow> 'cb Client" where
  \<comment> \<open>the second argument is the value of \<open>pid\<close> before it is set; the arguments are not used\<close>
  "Attach F uninit pid arguments cl =
     (let (req, cl) = MakeRequest (AttachRequest_new uninit) cl;
          req = req\<lparr> ar_arguments := (ar_arguments req)\<lparr> aa_pid := pid \<rparr> \<rparr>
      in snd (SendRequest F (Rq_Attach req) cl))"

definition Disconnect :: "'d fp \<Rightarrow> bool \<Rightarrow> bool \<Rightarrow> 'cb Client \<Rightarrow> 'cb Client" where
  "Disconnect F terminate restart cl =
     (let (req, cl) = MakeRequest DisconnectRequest_new cl;
          req = req\<lparr> dr_terminateDebuggee := terminate, dr_restart := restart \<rparr>
      in snd (SendRequest F (Rq_Disconnect req) cl))"

definition Terminate :: "'d fp \<Rightarrow> bool \<Rightarrow> 'cb Client \<Rightarrow> 'cb Client" where
  "Terminate F restart cl =
     (let (req, cl) = MakeRequest TerminateRequest_new cl;
          req = req\<lparr> tr_arguments := (tr_arguments req)\<lparr> ta_restart := restart \<rparr> \<rparr>
      in snd (SendRequest F (Rq_Terminate req) cl))"

section \<open>Messages from the adapter\<close>

text \<open>The header of a message, as the base class sees it.\<close>

primrec DapResponse_base :: "DapResponse \<Rightarrow> Response" where
  "DapResponse_base (Rs_Initialize x) = Response.truncate x"
| "DapResponse_base (Rs_Cancel x) = Response.truncate x"
| "DapResponse_base (Rs_EmptyAck x) = Response.truncate x"
| "DapResponse_base (Rs_ConfigurationDone x) = Response.truncate x"
| "DapResponse_base (Rs_Launch x) = Response.truncate x"
| "DapResponse_base (Rs_Disconnect x) = Response.truncate x"
| "DapResponse_base (Rs_Terminate x) = Response.truncate x"
| "DapResponse_base (Rs_BreakpointLocations x) = Response.truncate x"
| "DapResponse_base (Rs_SetBreakpoints x) = Response.truncate x"
| "DapResponse_base (Rs_SetExceptionBreakpoints x) = Response.truncate x"
| "DapResponse_base (Rs_SetFunctionBreakpoints x) = Response.truncate x"
| "DapResponse_base (Rs_Continue x) = Response.truncate x"
| "DapResponse_base (Rs_Next x) = Response.truncate x"
| "DapResponse_base (Rs_StepIn x) = Response.truncate x"
| "DapResponse_base (Rs_StepOut x) = Response.truncate x"
| "DapResponse_base (Rs_Threads x) = Response.truncate x"
| "DapResponse_base (Rs_Scopes x) = Response.truncate x"
| "DapResponse_base (Rs_StackTrace x) = Response.truncate x"
| "DapResponse_base (Rs_Variables x) = Response.truncate x"
| "DapResponse_base (Rs_Pause x) = Response.truncate x"
| "DapResponse_base (Rs_RunInTerminal x) = Response.truncate x"
| "DapResponse_base (Rs_Source x) = Response.truncate x"
| "DapResponse_base (Rs_Evaluate x) = Response.truncate x"
| "DapResponse_base (Rs_Attach x) = Response.truncate x"
| "DapResponse_base (Rs_Disassemble x) = Response.truncate x"
| "DapResponse_base (Rs_Goto x) = Response.truncate x"
| "DapResponse_base (Rs_GotoTargets x) = Response.truncate x"
| "DapResponse_base (Rs_ReadMemory x) = Response.truncate x"
| "DapResponse_base (Rs_Step x) = Response.truncate x"

primrec DapEvent_base :: "DapEvent \<Rightarrow> Event" where
  "DapEvent_base (Ev_Initialized x) = Event.truncate x"
| "DapEvent_base (Ev_Stopped x) = Event.truncate x"
| "DapEvent_base (Ev_Continued x) = Event.truncate x"
| "DapEvent_base (Ev_Exited x) = Event.truncate x"
| "DapEvent_base (Ev_Terminated x) = Event.truncate x"
| "DapEvent_base (Ev_Thread x) = Event.truncate x"
| "DapEvent_base (Ev_Output x) = Event.truncate x"
| "DapEvent_base (Ev_Breakpoint x) = Event.truncate x"
| "DapEvent_base (Ev_Process x) = Event.truncate x"
| "DapEvent_base (Ev_Module x) = Event.truncate x"
| "DapEvent_base (Ev_DebugpyWaitingForServer x) = Event.truncate x"

primrec DapRequest_base :: "DapRequest \<Rightarrow> Request" where
  "DapRequest_base (Rq_Cancel x) = Request.truncate x"
| "DapRequest_base (Rq_Initialize x) = Request.truncate x"
| "DapRequest_base (Rq_BreakpointLocations x) = Request.truncate x"
| "DapRequest_base (Rq_ConfigurationDone x) = Request.truncate x"
| "DapRequest_base (Rq_Launch x) = Request.truncate x"
| "DapRequest_base (Rq_Disconnect x) = Request.truncate x"
| "DapRequest_base (Rq_Terminate x) = Request.truncate x"
| "DapRequest_base (Rq_SetBreakpoints x) = Request.truncate x"
| "DapRequest_base (Rq_SetExceptionBreakpoints x) = Request.truncate x"
| "DapRequest_base (Rq_SetFunctionBreakpoints x) = Request.truncate x"
| "DapRequest_base (Rq_Continue x) = Request.truncate x"
| "DapRequest_base (Rq_Next x) = Request.truncate x"
| "DapRequest_base (Rq_Step x) = Request.truncate x"
| "DapRequest_base (Rq_StepIn x) = Request.truncate x"
| "DapRequest_base (Rq_StepOut x) = Request.truncate x"
| "DapRequest_base (Rq_Threads x) = Request.truncate x"
| "DapRequest_base (Rq_Scopes x) = Request.truncate x"
| "DapRequest_base (Rq_StackTrace x) = Request.truncate x"
| "DapRequest_base (Rq_Pause x) = Request.truncate x"
| "DapRequest_base (Rq_RunInTerminal x) = Request.truncate x"
| "DapRequest_base (Rq_Source x) = Request.truncate x"
| "DapRequest_base (Rq_Evaluate x) = Request.truncate x"
| "DapRequest_base (Rq_Attach x) = Request.truncate x"
| "DapRequest_base (Rq_Disassemble x) = Request.truncate x"
| "DapRequest_base (Rq_Goto x) = Request.truncate x"
| "DapRequest_base (Rq_GotoTargets x) = Request.truncate x"
| "DapRequest_base (Rq_ReadMemory x) = Request.truncate x"
| "DapRequest_base (Rq_Variables x) = Request.truncate x"

definition AsEvent :: "DapMessage \<Rightarrow> Event option" where
  "AsEvent msg =
     (case msg of MEvent e \<Rightarrow> (if pm_type (DapEvent_base e) \<noteq> ''event'' then None else Some (DapEvent_base e))
      | _ \<Rightarrow> None)"

definition AsResponse :: "DapMessage \<Rightarrow> Response option" where
  "AsResponse msg =
     (case msg of MResponse r \<Rightarrow> (if pm_type (DapResponse_base r) \<noteq> ''response'' then None else Some (DapResponse_base r))
      | _ \<Rightarrow> None)"

definition AsRequest :: "DapMessage \<Rightarrow> Request option" where
  "AsRequest msg =
     (case msg of MRequest r \<Rightarrow> (if pm_type (DapRequest_base r) \<noteq> ''request'' then None else Some (DapRequest_base r))
      | _ \<Rightarrow> None)"

definition error_string :: "string \<Rightarrow> string" where
  \<comment> \<open>what \<open>SendDAPEvent\<close> cuts out of the text of a message with an error\<close>
  "error_string jsonStr =
     (case find_sub (CHR 0x22 # ''error'' @ CHR 0x22 # '':{'' @ CHR 0x22 # ''format'' @ CHR 0x22 # '':'') jsonStr of
        None \<Rightarrow> []
      | Some posn \<Rightarrow>
          (let rest = drop (posn + 18) jsonStr in
           case find_sub [CHR 0x22, CHR '',''] rest of
             Some ending \<Rightarrow> take (ending + 1) rest
           | None \<Rightarrow> takeWhile (\<lambda>c. c \<noteq> CHR 0x0A) rest))"

definition SendDAPEvent :: "'d fp \<Rightarrow> wxEventType \<Rightarrow> DapMessage \<Rightarrow> 'd Json \<Rightarrow> 'cb Client \<Rightarrow> 'cb Client" where
  \<comment> \<open>without an \<open>owner\<close>, as every call; the type \<open>wxEVT_DAP_STOPPED_EVENT\<close> comes with a \<open>StoppedEvent\<close>\<close>
  "SendDAPEvent F type dap_message json cl =
     (let ptr = DapMessage_From F json dap_message;
          cl = (if type = wxEVT_DAP_STOPPED_EVENT then
                  (case ptr of MEvent (Ev_Stopped e) \<Rightarrow> cl\<lparr> m_active_thread_id := se_threadId e \<rparr> | _ \<Rightarrow> cl)
                else cl)
      in emit (Fired \<lparr> de_type = type, de_object = Some ptr,
           de_string = error_string (Json_ToString F False json) \<rparr>) cl)"

definition HandleEvaluateResponse :: "'d fp \<Rightarrow> 'd Json \<Rightarrow> 'cb Client \<Rightarrow> 'cb Client" where
  "HandleEvaluateResponse F json cl =
     (case m_evaluate_queue cl of
        [] \<Rightarrow> cl
      | callback # rest \<Rightarrow>
          (let response = EvaluateResponse_From F json EvaluateResponse_new;
               cl = cl\<lparr> m_evaluate_queue := rest \<rparr>
           in emit (Evaluated callback (rs_success response) (es_result response) (es_type response)
                (es_variablesReference response)) cl))"

definition HandleSourceResponse :: "'d fp \<Rightarrow> 'd Json \<Rightarrow> 'cb Client \<Rightarrow> 'cb Client" where
  "HandleSourceResponse F json cl =
     (case m_load_sources_queue cl of
        [] \<Rightarrow> cl
      | callback # rest \<Rightarrow>
          (let response = SourceResponse_From F json SourceResponse_new;
               cl = cl\<lparr> m_load_sources_queue := rest \<rparr>
           in emit (SourceLoaded callback (rs_success response) (os_content response) (os_mimeType response)) cl))"


text \<open>
  The responses that are tied to a request: the new response object with what was kept for the
  request, which leaves its queue.
\<close>

definition StackTrace_reply :: "'cb Client \<Rightarrow> StackTraceResponse \<times> 'cb Client" where
  "StackTrace_reply cl =
     (case m_get_frames_queue cl of
        [] \<Rightarrow> (StackTraceResponse_new, cl)
      | refId # rest \<Rightarrow> (StackTraceResponse_new\<lparr> ks_refId := refId \<rparr>, cl\<lparr> m_get_frames_queue := rest \<rparr>))"

definition Scopes_reply :: "'cb Client \<Rightarrow> ScopesResponse \<times> 'cb Client" where
  "Scopes_reply cl =
     (case m_get_scopes_queue cl of
        [] \<Rightarrow> (ScopesResponse_new, cl)
      | refId # rest \<Rightarrow> (ScopesResponse_new\<lparr> ps_refId := refId \<rparr>, cl\<lparr> m_get_scopes_queue := rest \<rparr>))"

definition Variables_reply :: "'cb Client \<Rightarrow> VariablesResponse \<times> 'cb Client" where
  "Variables_reply cl =
     (case m_get_variables_queue cl of
        [] \<Rightarrow> (VariablesResponse_new, cl)
      | (refId, context) # rest \<Rightarrow>
          (VariablesResponse_new\<lparr> vs_refId := refId, vs_context := context \<rparr>, cl\<lparr> m_get_variables_queue := rest \<rparr>))"

definition SetBreakpoints_reply :: "'cb Client \<Rightarrow> SetBreakpointsResponse \<times> 'cb Client" where
  "SetBreakpoints_reply cl =
     (case m_source_breakpoints_queue cl of
        [] \<Rightarrow> (SetBreakpointsResponse_new, cl)
      | file # rest \<Rightarrow>
          (SetBreakpointsResponse_new\<lparr> gs_originSource := file \<rparr>, cl\<lparr> m_source_breakpoints_queue := rest \<rparr>))"

definition BreakpointLocations_reply :: "int \<Rightarrow> 'cb Client \<Rightarrow> BreakpointLocationsResponse \<times> 'cb Client" where
  "BreakpointLocations_reply request_seq cl =
     (let k = word_of_int request_seq in
      case m_requestIdToFilepath cl k of
        Some filepath \<Rightarrow> (BreakpointLocationsResponse_new\<lparr> bk_filepath := filepath \<rparr>,
          cl\<lparr> m_requestIdToFilepath := (m_requestIdToFilepath cl)(k := None) \<rparr>)
      | None \<Rightarrow> (BreakpointLocationsResponse_new, cl))"

definition OnEvent :: "'d fp \<Rightarrow> Event \<Rightarrow> 'd Json \<Rightarrow> 'cb Client \<Rightarrow> 'cb Client" where
  \<comment> \<open>the branch \<open>if(as_event)\<close> of \<open>OnMessage\<close>\<close>
  "OnEvent F as_event json cl =
     (if ev_event as_event = ''stopped'' then
        SendDAPEvent F wxEVT_DAP_STOPPED_EVENT (MEvent (Ev_Stopped StoppedEvent_new)) json
          (cl\<lparr> m_can_interact := True \<rparr>)
      else if ev_event as_event = ''process'' then
        SendDAPEvent F wxEVT_DAP_PROCESS_EVENT (MEvent (Ev_Process ProcessEvent_new)) json cl
      else if ev_event as_event = ''exited'' then
        SendDAPEvent F wxEVT_DAP_EXITED_EVENT (MEvent (Ev_Exited ExitedEvent_new)) json cl
      else if ev_event as_event = ''terminated'' then
        SendDAPEvent F wxEVT_DAP_TERMINATED_EVENT (MEvent (Ev_Terminated TerminatedEvent_new)) json cl
      else if ev_event as_event = ''initialized'' then
        SendDAPEvent F wxEVT_DAP_INITIALIZED_EVENT (MEvent (Ev_Initialized InitializedEvent_new)) json cl
      else if ev_event as_event = ''output'' then
        SendDAPEvent F wxEVT_DAP_OUTPUT_EVENT (MEvent (Ev_Output OutputEvent_new)) json cl
      else if ev_event as_event = ''breakpoint'' then
        SendDAPEvent F wxEVT_DAP_BREAKPOINT_EVENT (MEvent (Ev_Breakpoint BreakpointEvent_new)) json cl
      else if ev_event as_event = ''continued'' then
        SendDAPEvent F wxEVT_DAP_CONTINUED_EVENT (MEvent (Ev_Continued ContinuedEvent_new)) json
          (cl\<lparr> m_can_interact := False \<rparr>)
      else if ev_event as_event = ''module'' then
        SendDAPEvent F wxEVT_DAP_MODULE_EVENT (MEvent (Ev_Module ModuleEvent_new)) json cl
      else cl)"

definition OnResponse :: "'d fp \<Rightarrow> Response \<Rightarrow> 'd Json \<Rightarrow> 'cb Client \<Rightarrow> 'cb Client" where
  \<comment> \<open>the branch \<open>else if(as_response)\<close> of \<open>OnMessage\<close>\<close>
  "OnResponse F as_response json cl =
     (let command = rs_command as_response in
      if command = ''stackTrace'' then
        (let (ptr, cl) = StackTrace_reply cl
         in SendDAPEvent F wxEVT_DAP_STACKTRACE_RESPONSE (MResponse (Rs_StackTrace ptr)) json cl)
      else if command = ''scopes'' then
        (let (ptr, cl) = Scopes_reply cl
         in SendDAPEvent F wxEVT_DAP_SCOPES_RESPONSE (MResponse (Rs_Scopes ptr)) json cl)
      else if command = ''variables'' then
        (let (ptr, cl) = Variables_reply cl
         in SendDAPEvent F wxEVT_DAP_VARIABLES_RESPONSE (MResponse (Rs_Variables ptr)) json cl)
      else if command = ''stepIn'' \<or> command = ''stepOut'' \<or> command = ''next'' \<or> command = ''continue'' then
        cl\<lparr> m_can_interact := False \<rparr>
      else if command = ''breakpointLocations'' then
        (let (ptr, cl) = BreakpointLocations_reply (rs_request_seq as_response) cl
         in SendDAPEvent F wxEVT_DAP_BREAKPOINT_LOCATIONS_RESPONSE (MResponse (Rs_BreakpointLocations ptr)) json cl)
      else if command = ''setFunctionBreakpoints'' then
        SendDAPEvent F wxEVT_DAP_SET_FUNCTION_BREAKPOINT_RESPONSE
          (MResponse (Rs_SetFunctionBreakpoints SetFunctionBreakpointsResponse_new)) json cl
      else if command = ''setExceptionBreakpoints'' then
        SendDAPEvent F wxEVT_DAP_SET_EXCEPTION_BREAKPOINT_RESPONSE
          (MResponse (Rs_SetExceptionBreakpoints SetExceptionBreakpointsResponse_new)) json cl
      else if command = ''setBreakpoints'' then
        (let (ptr, cl) = SetBreakpoints_reply cl
         in SendDAPEvent F wxEVT_DAP_SET_SOURCE_BREAKPOINT_RESPONSE (MResponse (Rs_SetBreakpoints ptr)) json cl)
      else if command = ''configurationDone'' then
        SendDAPEvent F wxEVT_DAP_CONFIGURARIONE_DONE_RESPONSE
          (MResponse (Rs_ConfigurationDone ConfigurationDoneResponse_new)) json cl
      else if command = ''launch'' then
        SendDAPEvent F wxEVT_DAP_LAUNCH_RESPONSE (MResponse (Rs_Launch LaunchResponse_new)) json cl
      else if command = ''threads'' then
        SendDAPEvent F wxEVT_DAP_THREADS_RESPONSE (MResponse (Rs_Threads ThreadsResponse_new)) json cl
      else if command = ''disassemble'' then
        SendDAPEvent F wxEVT_DAP_DISASSEMBLE_RESPONSE (MResponse (Rs_Disassemble DisassembleResponse_new)) json cl
      else if command = ''readMemory'' then
        SendDAPEvent F wxEVT_DAP_READ_MEMORY_RESPONSE (MResponse (Rs_ReadMemory ReadMemoryResponse_new)) json cl
      else if command = ''source'' then HandleSourceResponse F json cl
      else if command = ''evaluate'' then HandleEvaluateResponse F json cl
      else if command = ''gotoTargets'' then
        SendDAPEvent F wxEVT_DAP_GOTOTARGETS_RESPONSE (MResponse (Rs_GotoTargets GotoTargetsResponse_new)) json cl
      else if command = ''attach'' then
        SendDAPEvent F wxEVT_DAP_ATTACH_RESPONSE_EVENT
          (MResponse (Rs_Attach (AttachResponse_new\<lparr> ak_jsonDump := Json_ToString F False json \<rparr>))) json cl
      else if command = [] then
        (let jsonDump = Json_ToString F False json in
         if find_sub (CHR 0x22 # ''success'' @ CHR 0x22 # '':false'') jsonDump \<noteq> None
            \<and> find_sub (CHR 0x22 # ''message'' @ CHR 0x22 # '':'' @ CHR 0x22 # ''Could not attach:'') jsonDump \<noteq> None
         then SendDAPEvent F wxEVT_DAP_ATTACH_RESPONSE_EVENT
                (MResponse (Rs_Attach (AttachResponse_new\<lparr> ak_jsonDump := jsonDump \<rparr>))) json cl
         else cl)
      else cl)"

definition OnRequest :: "'d fp \<Rightarrow> Request \<Rightarrow> 'd Json \<Rightarrow> 'cb Client \<Rightarrow> 'cb Client" where
  \<comment> \<open>the branch \<open>else if(as_request)\<close> of \<open>OnMessage\<close>\<close>
  "OnRequest F as_request json cl =
     (if rq_command as_request = ''runInTerminal'' then
        SendDAPEvent F wxEVT_DAP_RUN_IN_TERMINAL_REQUEST
          (MRequest (Rq_RunInTerminal RunInTerminalRequest_new)) json cl
      else cl)"

definition is_initialize_response :: "DapMessage option \<Rightarrow> bool" where
  \<comment> \<open>the condition that ends the handshake; \<open>As<Response>()\<close> of a message that says it is a
      response and was made from the pool of responses\<close>
  "is_initialize_response msg \<longleftrightarrow>
     (case msg of
        Some (MResponse r) \<Rightarrow> pm_type (DapResponse_base r) = ''response'' \<and> rs_command (DapResponse_base r) = ''initialize''
      | _ \<Rightarrow> False)"

definition OnMessage :: "'d fp \<Rightarrow> ObjGenerator \<Rightarrow> 'd Json \<Rightarrow> 'cb Client \<Rightarrow> 'cb Client" where
  "OnMessage F g json cl0 =
     (let cl = log_event (''<-- '' @ Json_ToString F False json) cl0;
          msg = ObjGenerator_FromJSON F g json
      in if m_handshake_state cl \<noteq> kCompleted then
           (if is_initialize_response msg then
              (let cl = cl\<lparr> m_handshake_state := kCompleted \<rparr>;
                   cl = fold (ENABLE_FEATURE (Json_member json ''body'')) enabled_features cl
               in SendDAPEvent F wxEVT_DAP_INITIALIZE_RESPONSE
                    (MResponse (Rs_Initialize InitializeResponse_new)) json cl)
            else cl)
         else
           (case msg of
              None \<Rightarrow> cl
            | Some m \<Rightarrow>
                (case AsEvent m of
                   Some as_event \<Rightarrow> OnEvent F as_event json cl
                 | None \<Rightarrow>
                     (case AsResponse m of
                        Some as_response \<Rightarrow> OnResponse F as_response json cl
                      | None \<Rightarrow>
                          (case AsRequest m of
                             Some as_request \<Rightarrow> OnRequest F as_request json cl
                           | None \<Rightarrow> cl)))))"

section \<open>What the handlers leave alone\<close>

text \<open>
  Handling a message never touches the connection: the buffer, the transport, the reader thread,
  the queue of pending calls, the sequence counter. \<open>same_link\<close> collects these fields, so that
  each handler has one fact about them.
\<close>

definition link :: "'cb Client \<Rightarrow> bool \<times> string \<times> bool \<times> bool \<times> reader_thread \<times> 64 word \<times> bool \<times> pending_call list" where
  "link cl = (m_transport cl, m_rpc cl, m_shutdown cl, m_terminated cl, m_readerThread cl,
     m_requestSeuqnce cl, m_wants_log_events cl, cl_pending cl)"

lemma link_eqs:
  "link cl' = link cl \<Longrightarrow> m_transport cl' = m_transport cl"
  "link cl' = link cl \<Longrightarrow> m_rpc cl' = m_rpc cl"
  "link cl' = link cl \<Longrightarrow> m_shutdown cl' = m_shutdown cl"
  "link cl' = link cl \<Longrightarrow> m_terminated cl' = m_terminated cl"
  "link cl' = link cl \<Longrightarrow> m_readerThread cl' = m_readerThread cl"
  "link cl' = link cl \<Longrightarrow> m_requestSeuqnce cl' = m_requestSeuqnce cl"
  "link cl' = link cl \<Longrightarrow> m_wants_log_events cl' = m_wants_log_events cl"
  "link cl' = link cl \<Longrightarrow> cl_pending cl' = cl_pending cl"
  by (simp_all add: link_def)

lemma link_emit [simp]: "link (emit x cl) = link cl"
  by (simp add: link_def emit_def)

lemma link_log_event [simp]: "link (log_event s cl) = link cl"
  by (simp add: log_event_def)

lemma link_updates [simp]:
  "link (cl\<lparr> m_can_interact := b \<rparr>) = link cl"
  "link (cl\<lparr> m_active_thread_id := i \<rparr>) = link cl"
  "link (cl\<lparr> m_handshake_state := h \<rparr>) = link cl"
  "link (cl\<lparr> m_features := w \<rparr>) = link cl"
  "link (cl\<lparr> m_requestIdToFilepath := m \<rparr>) = link cl"
  "link (cl\<lparr> m_get_frames_queue := q \<rparr>) = link cl"
  "link (cl\<lparr> m_get_scopes_queue := q \<rparr>) = link cl"
  "link (cl\<lparr> m_get_variables_queue := q' \<rparr>) = link cl"
  "link (cl\<lparr> m_load_sources_queue := q'' \<rparr>) = link cl"
  "link (cl\<lparr> m_evaluate_queue := q'' \<rparr>) = link cl"
  "link (cl\<lparr> m_source_breakpoints_queue := q''' \<rparr>) = link cl"
  by (simp_all add: link_def)

lemma link_ENABLE_FEATURE [simp]: "link (ENABLE_FEATURE body f cl) = link cl"
  by (simp add: ENABLE_FEATURE_def)

lemma link_features [simp]: "link (fold (ENABLE_FEATURE body) fs cl) = link cl"
  by (induction fs arbitrary: cl) simp_all

lemma link_SendDAPEvent [simp]: "link (SendDAPEvent F ty m json cl) = link cl"
  by (simp add: SendDAPEvent_def Let_def split: DapMessage.split DapEvent.split)

lemmas reply_defs = StackTrace_reply_def Scopes_reply_def Variables_reply_def SetBreakpoints_reply_def
  BreakpointLocations_reply_def

lemma link_replies [simp]:
  "link (snd (StackTrace_reply cl)) = link cl"
  "link (snd (Scopes_reply cl)) = link cl"
  "link (snd (Variables_reply cl)) = link cl"
  "link (snd (SetBreakpoints_reply cl)) = link cl"
  "link (snd (BreakpointLocations_reply i cl)) = link cl"
  by (simp_all add: reply_defs Let_def split: list.split option.split)

lemma link_handlers [simp]:
  "link (HandleEvaluateResponse F json cl) = link cl"
  "link (HandleSourceResponse F json cl) = link cl"
  by (simp_all add: HandleEvaluateResponse_def HandleSourceResponse_def Let_def split: list.split)

lemma link_OnEvent [simp]: "link (OnEvent F e json cl) = link cl"
  by (simp add: OnEvent_def)

lemma link_OnResponse [simp]: "link (OnResponse F r json cl) = link cl"
  by (simp add: OnResponse_def Let_def case_prod_beta)

lemma link_OnRequest [simp]: "link (OnRequest F r json cl) = link cl"
  by (simp add: OnRequest_def)

lemma link_OnMessage [simp]: "link (OnMessage F g json cl) = link cl"
  by (simp add: OnMessage_def Let_def split: option.split)

section \<open>Incoming data\<close>

function drain_rpc :: "'d fp \<Rightarrow> wx \<Rightarrow> ObjGenerator \<Rightarrow> 'cb Client \<Rightarrow> 'cb Client option" where
  \<comment> \<open>\<open>m_rpc.ProcessBuffer(StaticOnDataRead, this)\<close>: the loop reads the buffer of the client
      again after each message\<close>
  "drain_rpc F W g cl =
     (case DoProcessBuffer F W (m_rpc cl) of
        None \<Rightarrow> None
      | Some (None, b) \<Rightarrow> Some (cl\<lparr> m_rpc := b \<rparr>)
      | Some (Some json, b) \<Rightarrow> drain_rpc F W g (OnMessage F g (Some json) (cl\<lparr> m_rpc := b \<rparr>)))"
  by pat_completeness auto
termination
proof (relation "measure (\<lambda>(F, W, g, cl). length (m_rpc cl))")
  fix F :: "'d fp" and W g and cl :: "'cb Client" and x p json b
  assume "DoProcessBuffer F W (m_rpc cl) = Some x" "(p, b) = x" "p = Some json"
  then have "length b < length (m_rpc cl)" using DoProcessBuffer_shrinks by metis
  moreover have "m_rpc (OnMessage F g (Some json) (cl\<lparr> m_rpc := b \<rparr>)) = b"
    by (simp add: link_eqs(2) [OF link_OnMessage])
  ultimately show "((F, W, g, OnMessage F g (Some json) (cl\<lparr> m_rpc := b \<rparr>)), F, W, g, cl)
      \<in> measure (\<lambda>(F, W, g, cl). length (m_rpc cl))" by simp
qed simp

declare drain_rpc.simps [simp del]

definition OnDataRead :: "'d fp \<Rightarrow> wx \<Rightarrow> ObjGenerator \<Rightarrow> string \<Rightarrow> 'cb Client \<Rightarrow> 'cb Client option" where
  "OnDataRead F W g buffer cl =
     (if buffer = [] then Some cl
      else drain_rpc F W g (cl\<lparr> m_rpc := AppendBuffer (m_rpc cl) buffer \<rparr>))"

definition dispatch_pending :: "'d fp \<Rightarrow> wx \<Rightarrow> ObjGenerator \<Rightarrow> 'cb Client \<Rightarrow> 'cb Client option" where
  \<comment> \<open>the event loop runs the oldest call that the reader thread queued with \<open>CallAfter\<close>\<close>
  "dispatch_pending F W g cl =
     (case cl_pending cl of
        [] \<Rightarrow> Some cl
      | DataRead content # rest \<Rightarrow> OnDataRead F W g content (cl\<lparr> cl_pending := rest \<rparr>)
      | ConnectionError # rest \<Rightarrow> Some (OnConnectionError (cl\<lparr> cl_pending := rest \<rparr>)))"

section \<open>The buffer does not matter to the handlers\<close>

lemma rpc_emit [simp]: "emit x (cl\<lparr> m_rpc := b \<rparr>) = (emit x cl)\<lparr> m_rpc := b \<rparr>"
  by (simp add: emit_def)

lemma rpc_log_event [simp]: "log_event s (cl\<lparr> m_rpc := b \<rparr>) = (log_event s cl)\<lparr> m_rpc := b \<rparr>"
  by (simp add: log_event_def)

lemma rpc_ENABLE_FEATURE [simp]:
  "ENABLE_FEATURE body f (cl\<lparr> m_rpc := b \<rparr>) = (ENABLE_FEATURE body f cl)\<lparr> m_rpc := b \<rparr>"
  by (simp add: ENABLE_FEATURE_def)

lemma rpc_features [simp]:
  "fold (ENABLE_FEATURE body) fs (cl\<lparr> m_rpc := b \<rparr>) = (fold (ENABLE_FEATURE body) fs cl)\<lparr> m_rpc := b \<rparr>"
  by (induction fs arbitrary: cl) simp_all

lemma rpc_commute [simp]:
  "cl\<lparr> m_rpc := b, m_can_interact := v1 \<rparr> = cl\<lparr> m_can_interact := v1, m_rpc := b \<rparr>"
  "cl\<lparr> m_rpc := b, m_active_thread_id := v2 \<rparr> = cl\<lparr> m_active_thread_id := v2, m_rpc := b \<rparr>"
  "cl\<lparr> m_rpc := b, m_handshake_state := v3 \<rparr> = cl\<lparr> m_handshake_state := v3, m_rpc := b \<rparr>"
  "cl\<lparr> m_rpc := b, m_requestIdToFilepath := v4 \<rparr> = cl\<lparr> m_requestIdToFilepath := v4, m_rpc := b \<rparr>"
  "cl\<lparr> m_rpc := b, m_get_frames_queue := v5 \<rparr> = cl\<lparr> m_get_frames_queue := v5, m_rpc := b \<rparr>"
  "cl\<lparr> m_rpc := b, m_get_scopes_queue := v6 \<rparr> = cl\<lparr> m_get_scopes_queue := v6, m_rpc := b \<rparr>"
  "cl\<lparr> m_rpc := b, m_get_variables_queue := v7 \<rparr> = cl\<lparr> m_get_variables_queue := v7, m_rpc := b \<rparr>"
  "cl\<lparr> m_rpc := b, m_load_sources_queue := v8 \<rparr> = cl\<lparr> m_load_sources_queue := v8, m_rpc := b \<rparr>"
  "cl\<lparr> m_rpc := b, m_evaluate_queue := v9 \<rparr> = cl\<lparr> m_evaluate_queue := v9, m_rpc := b \<rparr>"
  "cl\<lparr> m_rpc := b, m_source_breakpoints_queue := v10 \<rparr> = cl\<lparr> m_source_breakpoints_queue := v10, m_rpc := b \<rparr>"
  by simp_all

lemma rpc_SendDAPEvent [simp]:
  "SendDAPEvent F ty m json (cl\<lparr> m_rpc := b \<rparr>) = (SendDAPEvent F ty m json cl)\<lparr> m_rpc := b \<rparr>"
  by (simp add: SendDAPEvent_def Let_def split: DapMessage.split DapEvent.split)

lemma rpc_replies [simp]:
  "StackTrace_reply (cl\<lparr> m_rpc := b \<rparr>) = (fst (StackTrace_reply cl), (snd (StackTrace_reply cl))\<lparr> m_rpc := b \<rparr>)"
  "Scopes_reply (cl\<lparr> m_rpc := b \<rparr>) = (fst (Scopes_reply cl), (snd (Scopes_reply cl))\<lparr> m_rpc := b \<rparr>)"
  "Variables_reply (cl\<lparr> m_rpc := b \<rparr>) = (fst (Variables_reply cl), (snd (Variables_reply cl))\<lparr> m_rpc := b \<rparr>)"
  "SetBreakpoints_reply (cl\<lparr> m_rpc := b \<rparr>)
     = (fst (SetBreakpoints_reply cl), (snd (SetBreakpoints_reply cl))\<lparr> m_rpc := b \<rparr>)"
  "BreakpointLocations_reply i (cl\<lparr> m_rpc := b \<rparr>)
     = (fst (BreakpointLocations_reply i cl), (snd (BreakpointLocations_reply i cl))\<lparr> m_rpc := b \<rparr>)"
  by (simp_all add: reply_defs Let_def split: list.split option.split)

lemma rpc_handlers [simp]:
  "HandleEvaluateResponse F json (cl\<lparr> m_rpc := b \<rparr>) = (HandleEvaluateResponse F json cl)\<lparr> m_rpc := b \<rparr>"
  "HandleSourceResponse F json (cl\<lparr> m_rpc := b \<rparr>) = (HandleSourceResponse F json cl)\<lparr> m_rpc := b \<rparr>"
  by (simp_all add: HandleEvaluateResponse_def HandleSourceResponse_def Let_def split: list.split)

lemma rpc_OnEvent [simp]: "OnEvent F e json (cl\<lparr> m_rpc := b \<rparr>) = (OnEvent F e json cl)\<lparr> m_rpc := b \<rparr>"
  by (simp add: OnEvent_def)

lemma rpc_OnResponse [simp]:
  "OnResponse F r json (cl\<lparr> m_rpc := b \<rparr>) = (OnResponse F r json cl)\<lparr> m_rpc := b \<rparr>"
  unfolding OnResponse_def Let_def case_prod_beta rpc_replies rpc_handlers rpc_SendDAPEvent rpc_commute
    fst_conv snd_conv if_distrib [of "m_rpc_update f" for f]
  by (rule refl)

lemma rpc_OnRequest [simp]: "OnRequest F r json (cl\<lparr> m_rpc := b \<rparr>) = (OnRequest F r json cl)\<lparr> m_rpc := b \<rparr>"
  by (simp add: OnRequest_def)

lemma rpc_OnMessage [simp]:
  "OnMessage F g json (cl\<lparr> m_rpc := b \<rparr>) = (OnMessage F g json cl)\<lparr> m_rpc := b \<rparr>"
proof -
  have h: "m_handshake_state (log_event s cl) = m_handshake_state cl" for s
    by (simp add: log_event_def emit_def)
  show ?thesis by (simp add: OnMessage_def Let_def h split: option.split)
qed

text \<open>
  So the client's loop refines \<open>ProcessBuffer\<close>: it handles the messages that \<open>ProcessBuffer\<close>
  delivers, in order, and keeps the buffer that \<open>ProcessBuffer\<close> leaves.
\<close>

lemma drain_rpc_refines:
  "drain_rpc F W g (cl\<lparr> m_rpc := b \<rparr>) =
     map_option (\<lambda>(js, b'). (fold (OnMessage F g) (map Some js) cl)\<lparr> m_rpc := b' \<rparr>) (ProcessBuffer F W b)"
proof (induction F W b arbitrary: cl rule: ProcessBuffer.induct)
  case (1 F W b)
  consider (undef) "DoProcessBuffer F W b = None" | (stop) b' where "DoProcessBuffer F W b = Some (None, b')"
    | (more) json b' where "DoProcessBuffer F W b = Some (Some json, b')" by (metis not_Some_eq prod.exhaust)
  then show ?case
  proof cases
    case undef
    then show ?thesis by (simp add: drain_rpc.simps [of _ _ _ "cl\<lparr>m_rpc := b\<rparr>"] ProcessBuffer.simps [of _ _ b])
  next
    case stop
    then show ?thesis by (simp add: drain_rpc.simps [of _ _ _ "cl\<lparr>m_rpc := b\<rparr>"] ProcessBuffer.simps [of _ _ b])
  next
    case more
    have "drain_rpc F W g (cl\<lparr> m_rpc := b \<rparr>) = drain_rpc F W g ((OnMessage F g (Some json) cl)\<lparr> m_rpc := b' \<rparr>)"
      by (subst drain_rpc.simps) (simp add: more)
    also have "\<dots> = map_option (\<lambda>(js, b''). (fold (OnMessage F g) (map Some js) (OnMessage F g (Some json) cl))\<lparr> m_rpc := b'' \<rparr>)
        (ProcessBuffer F W b')" by (rule "1.IH" [OF more refl refl])
    also have "\<dots> = map_option (\<lambda>(js, b'). (fold (OnMessage F g) (map Some js) cl)\<lparr> m_rpc := b' \<rparr>) (ProcessBuffer F W b)"
      by (subst ProcessBuffer.simps [of _ _ b]) (simp add: more split: option.split prod.split)
    finally show ?thesis .
  qed
qed

end
