(* ===== verification/Dap_ClientRun.thy ===== *)
theory Dap_ClientRun
  imports Dap_Client
begin

text \<open>
  Sessions of the client: reading a stream, and the operations as a transition relation. The locale
  \<open>client_invariant\<close> is the contract of an invariant of every session; the connection and the
  handshake are its instances.
\<close>

section \<open>Reading a stream\<close>

primrec read_all :: "'d fp \<Rightarrow> wx \<Rightarrow> ObjGenerator \<Rightarrow> string list \<Rightarrow> 'cb Client \<Rightarrow> 'cb Client option" where
  "read_all F W g [] cl = Some cl"
| "read_all F W g (c # cs) cl =
     (case OnDataRead F W g c cl of None \<Rightarrow> None | Some cl' \<Rightarrow> read_all F W g cs cl')"

lemma read_all_feed:
  assumes "list_all (\<lambda>c. c \<noteq> []) chunks"
  shows "read_all F W g chunks (cl\<lparr> m_rpc := b \<rparr>) =
    map_option (\<lambda>(js, b'). (fold (OnMessage F g) (map Some js) cl)\<lparr> m_rpc := b' \<rparr>)
      (feed (ProcessBuffer F W) chunks b)"
  using assms
proof (induction chunks arbitrary: cl b)
  case Nil
  show ?case by simp
next
  case (Cons c cs)
  have read: "OnDataRead F W g c (cl\<lparr> m_rpc := b \<rparr>)
      = map_option (\<lambda>(js, b'). (fold (OnMessage F g) (map Some js) cl)\<lparr> m_rpc := b' \<rparr>)
          (ProcessBuffer F W (AppendBuffer b c))"
    using Cons.prems drain_rpc_refines [of F W g "AppendBuffer b c" cl] by (simp add: OnDataRead_def)
  show ?case
  proof (cases "ProcessBuffer F W (AppendBuffer b c)")
    case None
    then show ?thesis by (simp add: read)
  next
    case (Some p)
    obtain js b' where p: "p = (js, b')" by fastforce
    have cs: "list_all (\<lambda>c. c \<noteq> []) cs" using Cons.prems by simp
    show ?thesis
      using Cons.IH [OF cs, of b' "fold (OnMessage F g) (map Some js) cl"]
      by (simp add: read Some p option.map_comp comp_def split: option.split prod.split)
  qed
qed

lemma read_all_stream:
  assumes "list_all (sendable F W) ms"
    "concat chunks = concat (map (\<lambda>c. JsonRPC_frame (payload_of F c)) ms)"
    "list_all (\<lambda>c. c \<noteq> []) chunks" "m_rpc cl = []"
  shows "read_all F W g chunks cl = Some (fold (OnMessage F g) (map (\<lambda>c. Some (norm_json c)) ms) cl)"
proof -
  have cl: "cl = cl\<lparr> m_rpc := [] \<rparr>" using assms(4) by simp
  have rpc: "m_rpc (fold (OnMessage F g) js cl) = m_rpc cl" for js :: "'a Json list"
    by (induction js arbitrary: cl) (simp_all add: link_eqs(2) [OF link_OnMessage])
  have "read_all F W g chunks (cl\<lparr> m_rpc := [] \<rparr>)
      = Some ((fold (OnMessage F g) (map Some (map norm_json ms)) cl)\<lparr> m_rpc := [] \<rparr>)"
    using read_all_feed [OF assms(3), of F W g "[]" cl] rpc.feed_stream [OF assms(1,2)] by simp
  also have "(fold (OnMessage F g) (map Some (map norm_json ms)) cl)\<lparr> m_rpc := [] \<rparr>
      = fold (OnMessage F g) (map (\<lambda>c. Some (norm_json c)) ms) cl"
    using rpc [of "map Some (map norm_json ms)"] assms(4) by (simp add: comp_def)
  finally show ?thesis using cl by simp
qed

text \<open>C1: the whole receiving side. Whatever messages an adapter frames and writes, and however the
  bytes are cut into reads, the client handles exactly these messages with \<open>OnMessage\<close>, each once
  and in order, and its buffer is empty afterwards.\<close>

theorem client_receives:
  assumes "list_all (sendable F W) ms"
    "concat chunks = concat (map (\<lambda>c. JsonRPC_frame (payload_of F c)) ms)"
    "list_all (\<lambda>c. c \<noteq> []) chunks" "m_rpc cl = []"
  shows "read_all F W g chunks cl = Some (fold (OnMessage F g) (map (\<lambda>c. Some (norm_json c)) ms) cl)"
  by (rule read_all_stream [OF assms])

theorem client_receives_witness:
  "read_all fp_int wx_std (Initialize 0 ObjGenerator_empty)
      [take 5 (JsonRPC_frame (payload_of fp_int sample_node)),
       drop 5 (JsonRPC_frame (payload_of fp_int sample_node)) @ JsonRPC_frame (payload_of fp_int sample_node)]
      (Client_new :: nat Client)
    = Some (fold (OnMessage fp_int (Initialize 0 ObjGenerator_empty))
        (map (\<lambda>c. Some (norm_json c)) [sample_node, sample_node]) Client_new)"
  by (rule client_receives) (simp_all add: sample_sendable Client_new_def JsonRPC_frame_def)

section \<open>Operations and reachable states\<close>

record 'd host =
  \<comment> \<open>what the client gets from outside: floating point, \<open>wxString\<close>, the registry, \<open>wxFileName\<close>, and
      the value of the integer that \<open>AttachRequestArguments\<close> does not initialise\<close>
  h_fp :: "'d fp"
  h_wx :: wx
  h_gen :: ObjGenerator
  h_full_name :: "string \<Rightarrow> string"
  h_full_path :: "string \<Rightarrow> string"
  h_uninit :: int

datatype 'cb client_op =
    Op_SetTransport bool | Op_Reset | Op_SetWantsLogEvents bool
  | Op_Reader bool string   \<comment> \<open>a turn of the reader thread\<close>
  | Op_Dispatch   \<comment> \<open>a turn of the event loop\<close>
  | Op_SendResponse DapResponse
  | Op_Initialize "InitializeRequestArguments option"
  | Op_SetBreakpointsFile string "SourceBreakpoint list"
  | Op_ConfigurationDone | Op_Launch "string list" string Environment
  | Op_GetThreads | Op_GetScopes int | Op_GetFrames int int int
  | Op_Next int bool SteppingGranularity | Op_Continue int bool
  | Op_SetExceptionBreakpoints "string list" | Op_SetFunctionBreakpoints "FunctionBreakpoint list"
  | Op_StepIn int bool SteppingGranularity | Op_StepOut int bool
  | Op_GetChildrenVariables int EvaluateContext "64 word" ValueDisplayFormat
  | Op_Pause int | Op_BreakpointLocations string int int | Op_ReadMemory string int int
  | Op_GetDisassemble "64 word" int int int bool
  | Op_GetVariableInfo int string int int ValueDisplayFormat
  | Op_Goto int int | Op_GotoTarget string int int | Op_LoadSource Source 'cb
  | Op_EvaluateExpression string int EvaluateContext 'cb ValueDisplayFormat
  | Op_Attach int "string list" | Op_Disconnect bool bool | Op_Terminate bool

primrec client_apply :: "'d host \<Rightarrow> 'cb client_op \<Rightarrow> 'cb Client \<Rightarrow> 'cb Client option" where
  "client_apply H (Op_SetTransport t) cl = Some (SetTransport t cl)"
| "client_apply H Op_Reset cl = Some (Client_Reset cl)"
| "client_apply H (Op_SetWantsLogEvents b) cl = Some (SetWantsLogEvents b cl)"
| "client_apply H (Op_Reader success content) cl = Some (reader_loop success content cl)"
| "client_apply H Op_Dispatch cl = dispatch_pending (h_fp H) (h_wx H) (h_gen H) cl"
| "client_apply H (Op_SendResponse r) cl = Some (snd (SendResponse (h_fp H) r cl))"
| "client_apply H (Op_Initialize a) cl = Some (Client_Initialize (h_fp H) a cl)"
| "client_apply H (Op_SetBreakpointsFile file lines) cl =
     Some (SetBreakpointsFile (h_fp H) (h_full_name H) file lines cl)"
| "client_apply H Op_ConfigurationDone cl = Some (ConfigurationDone (h_fp H) cl)"
| "client_apply H (Op_Launch cmd wd env) cl = Launch (h_fp H) cmd wd env cl"
| "client_apply H Op_GetThreads cl = Some (GetThreads (h_fp H) cl)"
| "client_apply H (Op_GetScopes i) cl = Some (GetScopes (h_fp H) i cl)"
| "client_apply H (Op_GetFrames t s n) cl = Some (GetFrames (h_fp H) t s n cl)"
| "client_apply H (Op_Next t s gr) cl = Some (Next (h_fp H) t s gr cl)"
| "client_apply H (Op_Continue t a) cl = Some (Continue (h_fp H) t a cl)"
| "client_apply H (Op_SetExceptionBreakpoints fs) cl = Some (SetExceptionBreakpoints (h_fp H) fs cl)"
| "client_apply H (Op_SetFunctionBreakpoints bs) cl = Some (SetFunctionBreakpoints (h_fp H) bs cl)"
| "client_apply H (Op_StepIn t s gr) cl = Some (StepIn (h_fp H) t s gr cl)"
| "client_apply H (Op_StepOut t s) cl = Some (StepOut (h_fp H) t s cl)"
| "client_apply H (Op_GetChildrenVariables r c n f) cl = Some (snd (GetChildrenVariables (h_fp H) r c n f cl))"
| "client_apply H (Op_Pause t) cl = Some (Pause (h_fp H) t cl)"
| "client_apply H (Op_BreakpointLocations p a b) cl = Some (BreakpointLocations (h_fp H) p a b cl)"
| "client_apply H (Op_ReadMemory r a b) cl = Some (ReadMemory (h_fp H) r a b cl)"
| "client_apply H (Op_GetDisassemble m a b c d) cl = Some (GetDisassemble (h_fp H) m a b c d cl)"
| "client_apply H (Op_GetVariableInfo r s a b f) cl = Some (GetVariableInfo (h_fp H) r s a b f cl)"
| "client_apply H (Op_Goto t i) cl = Some (Goto (h_fp H) t i cl)"
| "client_apply H (Op_GotoTarget s a b) cl = Some (GotoTarget (h_fp H) (h_full_path H) s a b cl)"
| "client_apply H (Op_LoadSource s cb) cl = Some (snd (LoadSource (h_fp H) s cb cl))"
| "client_apply H (Op_EvaluateExpression e i c cb f) cl = Some (EvaluateExpression (h_fp H) e i c cb f cl)"
| "client_apply H (Op_Attach p as) cl = Some (Attach (h_fp H) (h_uninit H) p as cl)"
| "client_apply H (Op_Disconnect t r) cl = Some (Disconnect (h_fp H) t r cl)"
| "client_apply H (Op_Terminate r) cl = Some (Terminate (h_fp H) r cl)"

inductive session :: "'d host \<Rightarrow> 'cb client_op list \<Rightarrow> 'cb Client \<Rightarrow> bool" for H where
  start: "session H [] Client_new"
| step: "session H ops cl \<Longrightarrow> client_apply H op cl = Some cl' \<Longrightarrow> session H (ops @ [op]) cl'"


section \<open>Invariants\<close>

text \<open>
  What an invariant of sessions has to respect: the primitive changes that the operations are made
  of. The lemmas lift it to every operation, and to every state a session reaches.
\<close>

locale client_invariant =
  fixes P :: "'cb Client \<Rightarrow> bool" and H :: "'d host"
  assumes new: "P Client_new"
    and seq: "P cl \<Longrightarrow> P (cl\<lparr> m_requestSeuqnce := n \<rparr>)"
    and frames: "P cl \<Longrightarrow> P (cl\<lparr> m_get_frames_queue := q1 \<rparr>)"
    and scopes: "P cl \<Longrightarrow> P (cl\<lparr> m_get_scopes_queue := q2 \<rparr>)"
    and variables: "P cl \<Longrightarrow> P (cl\<lparr> m_get_variables_queue := q3 \<rparr>)"
    and sources: "P cl \<Longrightarrow> P (cl\<lparr> m_load_sources_queue := q4 \<rparr>)"
    and evaluates: "P cl \<Longrightarrow> P (cl\<lparr> m_evaluate_queue := q5 \<rparr>)"
    and source_breakpoints: "P cl \<Longrightarrow> P (cl\<lparr> m_source_breakpoints_queue := q6 \<rparr>)"
    and filepaths: "P cl \<Longrightarrow> P (cl\<lparr> m_requestIdToFilepath := m \<rparr>)"
    and no_thread: "P cl \<Longrightarrow> P (cl\<lparr> m_active_thread_id := wxNOT_FOUND \<rparr>)"
    and in_progress: "P cl \<Longrightarrow> P (cl\<lparr> m_handshake_state := kInProgress \<rparr>)"
    and wants_log: "P cl \<Longrightarrow> P (cl\<lparr> m_wants_log_events := b \<rparr>)"
    and buffer: "P cl \<Longrightarrow> P (cl\<lparr> m_rpc := buf \<rparr>)"
    and pending: "P cl \<Longrightarrow> P (cl\<lparr> cl_pending := calls \<rparr>)"
    and sent: "P cl \<Longrightarrow> P (emit (Sent s) cl)"
    and log: "P cl \<Longrightarrow> P (log_event s cl)"
    and message: "P cl \<Longrightarrow> P (OnMessage (h_fp H) (h_gen H) json cl)"
    and error: "P cl \<Longrightarrow> P (OnConnectionError cl)"
    and reset: "P cl \<Longrightarrow> P (Client_Reset cl)"
    and transport: "P cl \<Longrightarrow> P (SetTransport t cl)"
    and reader: "P cl \<Longrightarrow> P (reader_loop success content cl)"
begin

lemmas updates = seq frames scopes variables sources evaluates source_breakpoints filepaths no_thread
  in_progress wants_log buffer pending

lemma MakeRequest: "P cl \<Longrightarrow> P (snd (MakeRequest r cl))" "P cl \<Longrightarrow> P (snd (MakeRequest_twice r cl))"
  by (simp_all add: MakeRequest_twice_def MakeRequest_def GetNextSequence_def Let_def seq case_prod_beta)

lemma send_message: "P cl \<Longrightarrow> P (snd (send_message F json cl))"
  by (auto simp: send_message_def error log sent split: sum.split)

lemma SendRequest: "P cl \<Longrightarrow> P (snd (SendRequest F r cl))"
  by (simp add: SendRequest_def send_message)

lemma drain_rpc: "P cl \<Longrightarrow> drain_rpc (h_fp H) W (h_gen H) cl = Some cl' \<Longrightarrow> P cl'"
proof (induction "h_fp H" W "h_gen H" cl rule: drain_rpc.induct)
  case (1 W cl)
  consider b where "DoProcessBuffer (h_fp H) W (m_rpc cl) = Some (None, b)"
    | json b where "DoProcessBuffer (h_fp H) W (m_rpc cl) = Some (Some json, b)"
    using "1.prems"(2) by (subst (asm) drain_rpc.simps) (auto split: option.splits)
  then show ?case
  proof cases
    case (1 b)
    with "1.prems" show ?thesis by (subst (asm) drain_rpc.simps) (auto simp: buffer)
  next
    case (2 json b)
    have "P (OnMessage (h_fp H) (h_gen H) (Some json) (cl\<lparr> m_rpc := b \<rparr>))"
      using "1.prems"(1) by (intro message buffer)
    moreover have "drain_rpc (h_fp H) W (h_gen H) (OnMessage (h_fp H) (h_gen H) (Some json) (cl\<lparr> m_rpc := b \<rparr>)) = Some cl'"
      using "1.prems"(2) 2 by (subst (asm) drain_rpc.simps) simp
    ultimately show ?thesis using "1.hyps" [OF 2 refl refl] by blast
  qed
qed

lemma dispatch: "P cl \<Longrightarrow> dispatch_pending (h_fp H) W (h_gen H) cl = Some cl' \<Longrightarrow> P cl'"
  by (auto simp: dispatch_pending_def OnDataRead_def buffer pending error
      split: list.splits pending_call.splits if_splits intro: drain_rpc [rotated])

lemma P_SetBreakpointsFile: "P cl \<Longrightarrow> P (SetBreakpointsFile F n f ls cl)"
  unfolding SetBreakpointsFile_def Let_def case_prod_beta by (intro SendRequest updates MakeRequest)

lemma P_ConfigurationDone: "P cl \<Longrightarrow> P (ConfigurationDone F cl)"
  unfolding ConfigurationDone_def Let_def case_prod_beta by (intro SendRequest updates MakeRequest)

lemma P_GetThreads: "P cl \<Longrightarrow> P (GetThreads F cl)"
  unfolding GetThreads_def Let_def case_prod_beta by (intro SendRequest updates MakeRequest)

lemma P_GetScopes: "P cl \<Longrightarrow> P (GetScopes F i cl)"
  unfolding GetScopes_def Let_def case_prod_beta by (intro SendRequest updates MakeRequest)

lemma P_GetFrames: "P cl \<Longrightarrow> P (GetFrames F i a b cl)"
  unfolding GetFrames_def Let_def case_prod_beta by (intro SendRequest updates MakeRequest)

lemma P_Next: "P cl \<Longrightarrow> P (Next F i s gr cl)"
  unfolding Next_def Let_def case_prod_beta by (intro SendRequest updates MakeRequest)

lemma P_Continue: "P cl \<Longrightarrow> P (Continue F i a cl)"
  unfolding Continue_def Let_def case_prod_beta by (intro SendRequest updates MakeRequest)

lemma P_SetExceptionBreakpoints: "P cl \<Longrightarrow> P (SetExceptionBreakpoints F fs cl)"
  unfolding SetExceptionBreakpoints_def Let_def case_prod_beta by (intro SendRequest updates MakeRequest)

lemma P_SetFunctionBreakpoints: "P cl \<Longrightarrow> P (SetFunctionBreakpoints F bs cl)"
  unfolding SetFunctionBreakpoints_def Let_def case_prod_beta by (intro SendRequest updates MakeRequest)

lemma P_StepIn: "P cl \<Longrightarrow> P (StepIn F i s gr cl)"
  unfolding StepIn_def Let_def case_prod_beta by (intro SendRequest updates MakeRequest)

lemma P_StepOut: "P cl \<Longrightarrow> P (StepOut F i s cl)"
  unfolding StepOut_def Let_def case_prod_beta by (intro SendRequest updates MakeRequest)

lemma P_Pause: "P cl \<Longrightarrow> P (Pause F i cl)"
  unfolding Pause_def Let_def case_prod_beta by (intro SendRequest updates MakeRequest)

lemma P_GetDisassemble: "P cl \<Longrightarrow> P (GetDisassemble F w i a b c cl)"
  unfolding GetDisassemble_def Let_def case_prod_beta by (intro SendRequest updates MakeRequest)

lemma P_GetVariableInfo: "P cl \<Longrightarrow> P (GetVariableInfo F i f a b vf cl)"
  unfolding GetVariableInfo_def Let_def case_prod_beta by (intro SendRequest updates MakeRequest)

lemma P_Goto: "P cl \<Longrightarrow> P (Goto F i a cl)"
  unfolding Goto_def Let_def case_prod_beta by (intro SendRequest updates MakeRequest)

lemma P_EvaluateExpression: "P cl \<Longrightarrow> P (EvaluateExpression F e i c cb vf cl)"
  unfolding EvaluateExpression_def Let_def case_prod_beta by (intro SendRequest updates MakeRequest)

lemma P_Attach: "P cl \<Longrightarrow> P (Attach F i a as cl)"
  unfolding Attach_def Let_def case_prod_beta by (intro SendRequest updates MakeRequest)

lemma P_Disconnect: "P cl \<Longrightarrow> P (Disconnect F a b cl)"
  unfolding Disconnect_def Let_def case_prod_beta by (intro SendRequest updates MakeRequest)

lemma P_Terminate: "P cl \<Longrightarrow> P (Terminate F a cl)"
  unfolding Terminate_def Let_def case_prod_beta by (intro SendRequest updates MakeRequest)

lemma P_Client_Initialize: "P cl \<Longrightarrow> P (Client_Initialize F ia cl)"
  unfolding Client_Initialize_def Let_def case_prod_beta by (intro SendRequest updates MakeRequest)

lemma P_GetChildrenVariables: "P cl \<Longrightarrow> P (snd (GetChildrenVariables F i c n vf cl))"
  unfolding GetChildrenVariables_def Let_def case_prod_beta snd_conv by (intro SendRequest updates MakeRequest)

lemma P_LoadSource: "P cl \<Longrightarrow> P (snd (LoadSource F s cb cl))"
  unfolding LoadSource_def Let_def case_prod_beta
  by (cases "src_sourceReference s > 0") (simp_all, intro SendRequest updates MakeRequest)

lemma P_ReadMemory: "P cl \<Longrightarrow> P (ReadMemory F r a b cl)"
  unfolding ReadMemory_def Let_def case_prod_beta
  by (cases "IsSupported ''supportsReadMemoryRequest'' cl") (simp_all, intro SendRequest updates MakeRequest)

lemma P_GotoTarget: "P cl \<Longrightarrow> P (GotoTarget F n s a b cl)"
  unfolding GotoTarget_def Let_def case_prod_beta
  by (cases "IsSupported ''supportsGotoTargetsRequest'' cl") (simp_all, intro SendRequest updates MakeRequest)

lemma P_BreakpointLocations: "P cl \<Longrightarrow> P (BreakpointLocations F p a b cl)"
proof (cases "IsSupported ''supportsBreakpointLocationsRequest'' cl")
  case True
  assume "P cl"
  then have "P (snd (SendRequest F (Rq_BreakpointLocations r) (snd (MakeRequest BreakpointLocationsRequest_new cl))))" for r
    by (intro SendRequest MakeRequest)
  with True show ?thesis by (simp add: BreakpointLocations_def Let_def case_prod_beta filepaths)
qed (simp add: BreakpointLocations_def)

lemma P_SetWantsLogEvents: "P cl \<Longrightarrow> P (SetWantsLogEvents b cl)"
  unfolding SetWantsLogEvents_def by (rule wants_log)

lemma P_SendResponse: "P cl \<Longrightarrow> P (snd (SendResponse F r cl))"
  unfolding SendResponse_def by (rule send_message)

lemma P_Launch: "P cl \<Longrightarrow> Launch F cmd wd env cl = Some cl' \<Longrightarrow> P cl'"
proof (cases cmd)
  case (Cons program args)
  assume P: "P cl" and L: "Launch F cmd wd env cl = Some cl'"
  have "P (snd (SendRequest F (Rq_Launch r) (snd (MakeRequest_twice LaunchRequest_new (cl\<lparr> m_active_thread_id := wxNOT_FOUND \<rparr>)))))" for r
    using P by (intro SendRequest MakeRequest no_thread)
  with L Cons show ?thesis by (auto simp: Launch_def Let_def case_prod_beta)
qed (simp add: Launch_def)

lemmas P_operations = P_SetBreakpointsFile P_ConfigurationDone P_GetThreads P_GetScopes P_GetFrames P_Next P_Continue P_SetExceptionBreakpoints P_SetFunctionBreakpoints P_StepIn P_StepOut P_Pause P_GetDisassemble P_GetVariableInfo P_Goto P_EvaluateExpression P_Attach P_Disconnect P_Terminate P_Client_Initialize
  P_GetChildrenVariables P_LoadSource P_ReadMemory P_GotoTarget P_BreakpointLocations
  P_SetWantsLogEvents P_SendResponse transport reset reader

lemma preserved: "client_apply H op cl = Some cl' \<Longrightarrow> P cl \<Longrightarrow> P cl'"
  by (cases op) (auto simp: P_operations intro: dispatch P_Launch)

lemma session_inv: "session H ops cl \<Longrightarrow> P cl"
  by (induction rule: session.induct) (auto intro: new preserved)

end

subsection \<open>The connection\<close>

definition connection_inv :: "'cb Client \<Rightarrow> bool" where
  "connection_inv cl \<longleftrightarrow> \<not> m_shutdown cl \<and> (m_readerThread cl = NoThread \<longleftrightarrow> \<not> m_transport cl)
     \<and> (m_terminated cl \<longleftrightarrow> m_readerThread cl = Exited)"

lemma Client_Reset_eq:
  "Client_Reset cl = Client_new\<lparr> m_wants_log_events := m_wants_log_events cl,
     cl_pending := cl_pending cl, cl_trace := cl_trace cl \<rparr>"
  by (cases cl) (simp add: Client_Reset_def StopReaderThread_def Client_new_def Let_def)

lemma connection_inv_Reset: "connection_inv (Client_Reset cl)"
  by (simp add: Client_Reset_eq Client_new_def connection_inv_def)

interpretation conn: client_invariant connection_inv H for H
proof unfold_locales
  fix cl :: "'cb Client" and t success content
  show "connection_inv (Client_new :: 'cb Client)" by (simp add: connection_inv_def Client_new_def)
  show "connection_inv (SetTransport t cl)"
    using connection_inv_Reset [of cl]
    by (simp add: SetTransport_def StartReaderThread_def Let_def connection_inv_def Client_Reset_eq Client_new_def)
  show "connection_inv cl \<Longrightarrow> connection_inv (reader_loop success content cl)"
    by (auto simp: reader_loop_def connection_inv_def)
  show "connection_inv (OnConnectionError cl)" by (simp add: OnConnectionError_def connection_inv_Reset)
qed (simp_all add: connection_inv_Reset,
     simp_all add: connection_inv_def emit_def log_event_def link_eqs(1,3,4,5) [OF link_OnMessage])

text \<open>C17: in every state a session reaches, the reader thread exists exactly when there is a
  transport, no shutdown is pending, and \<open>IsConnected\<close> holds exactly while the thread is in its
  loop: after \<open>SetTransport\<close> and before \<open>Read\<close> reports an error.\<close>

theorem session_connection:
  assumes "session H ops cl"
  shows "(IsConnected cl \<longleftrightarrow> m_readerThread cl = Looping)
    \<and> (m_readerThread cl \<noteq> NoThread \<longleftrightarrow> m_transport cl) \<and> \<not> m_shutdown cl"
proof -
  have "connection_inv cl" by (rule conn.session_inv [OF assms])
  then show ?thesis
    by (cases "m_readerThread cl") (auto simp: connection_inv_def IsConnected_def)
qed

definition sample_host :: "int host" where
  "sample_host = \<lparr> h_fp = fp_int, h_wx = wx_std, h_gen = Initialize 0 ObjGenerator_empty,
     h_full_name = (\<lambda>f. f), h_full_path = (\<lambda>f. f), h_uninit = 0 \<rparr>"

lemma session_append:
  "session H ops cl \<Longrightarrow> client_apply H op cl = Some cl' \<Longrightarrow> ops' = ops @ [op] \<Longrightarrow> session H ops' cl'"
  by (simp add: step)

theorem session_connection_witness:
  "\<exists>cl :: nat Client. session sample_host [Op_SetTransport True] cl
    \<and> (IsConnected cl \<longleftrightarrow> m_readerThread cl = Looping)
    \<and> (m_readerThread cl \<noteq> NoThread \<longleftrightarrow> m_transport cl) \<and> \<not> m_shutdown cl"
proof -
  obtain cl :: "nat Client" where "session sample_host [Op_SetTransport True] cl"
    using session_append [OF start, of sample_host "Op_SetTransport True"] by auto
  with session_connection show ?thesis by blast
qed

subsection \<open>Nothing before the handshake\<close>

definition idle_inv :: "'cb Client \<Rightarrow> bool" where
  "idle_inv cl \<longleftrightarrow> (m_handshake_state cl = kNotPerformed \<longrightarrow>
     m_features cl = 0 \<and> \<not> m_can_interact cl \<and> m_active_thread_id cl = wxNOT_FOUND)"

definition protocol_out :: "'cb client_out \<Rightarrow> bool" where
  \<comment> \<open>an event or callback that carries a message of the debug session\<close>
  "protocol_out x =
     (case x of
        Fired e \<Rightarrow> de_type e \<noteq> wxEVT_DAP_LOG_EVENT \<and> de_type e \<noteq> wxEVT_DAP_LOST_CONNECTION
          \<and> de_type e \<noteq> wxEVT_DAP_INITIALIZE_RESPONSE
      | Sent _ \<Rightarrow> False
      | SourceLoaded _ _ _ _ \<Rightarrow> True
      | Evaluated _ _ _ _ _ \<Rightarrow> True)"

definition handshake_out :: "'cb client_out \<Rightarrow> bool" where
  "handshake_out x = (case x of Fired e \<Rightarrow> de_type e = wxEVT_DAP_INITIALIZE_RESPONSE | _ \<Rightarrow> False)"

definition lost_out :: "'cb client_out \<Rightarrow> bool" where
  "lost_out x = (case x of Fired e \<Rightarrow> de_type e = wxEVT_DAP_LOST_CONNECTION | _ \<Rightarrow> False)"

fun shaken :: "bool \<Rightarrow> 'cb client_out list \<Rightarrow> bool" where
  \<comment> \<open>whether a handshake was reported after the last loss of the connection\<close>
  "shaken b [] = b"
| "shaken b (x # xs) = shaken ((b \<or> handshake_out x) \<and> \<not> lost_out x) xs"

fun guarded :: "bool \<Rightarrow> 'cb client_out list \<Rightarrow> bool" where
  \<comment> \<open>no message of the session before the handshake\<close>
  "guarded b [] = True"
| "guarded b (x # xs) = ((protocol_out x \<longrightarrow> b) \<and> guarded ((b \<or> handshake_out x) \<and> \<not> lost_out x) xs)"

lemma shaken_append [simp]: "shaken b (xs @ ys) = shaken (shaken b xs) ys"
  by (induction xs arbitrary: b) simp_all

lemma guarded_append [simp]: "guarded b (xs @ ys) \<longleftrightarrow> guarded b xs \<and> guarded (shaken b xs) ys"
  by (induction xs arbitrary: b) simp_all

definition handshake_inv :: "'cb Client \<Rightarrow> bool" where
  "handshake_inv cl \<longleftrightarrow> guarded False (cl_trace cl)
     \<and> (m_handshake_state cl = kCompleted \<longrightarrow> shaken False (cl_trace cl)) \<and> idle_inv cl"

definition talks :: "'cb Client \<Rightarrow> 'cb Client \<Rightarrow> bool" where
  \<comment> \<open>the second state has only more messages of the session in its trace, and the handshake and
      the features of the first\<close>
  "talks cl cl' \<longleftrightarrow> m_handshake_state cl' = m_handshake_state cl \<and> m_features cl' = m_features cl
     \<and> (\<exists>xs. cl_trace cl' = cl_trace cl @ xs \<and> list_all (\<lambda>x. protocol_out x \<and> \<not> lost_out x) xs)"

lemma talks_refl: "talks cl cl"
  by (simp add: talks_def)

lemma talks_if: "talks cl a \<Longrightarrow> talks cl b \<Longrightarrow> talks cl (if c then a else b)"
  by simp

lemma talks_updates:
  "talks cl cl' \<Longrightarrow> talks cl (cl'\<lparr> m_can_interact := b \<rparr>)"
  "talks cl cl' \<Longrightarrow> talks cl (cl'\<lparr> m_evaluate_queue := q \<rparr>)"
  "talks cl cl' \<Longrightarrow> talks cl (cl'\<lparr> m_load_sources_queue := q \<rparr>)"
  by (simp_all add: talks_def)

lemma talks_emit: "protocol_out x \<Longrightarrow> \<not> lost_out x \<Longrightarrow> talks cl cl' \<Longrightarrow> talks cl (emit x cl')"
  by (auto simp: talks_def emit_def)

definition session_type :: "wxEventType \<Rightarrow> bool" where
  "session_type ty \<longleftrightarrow> ty \<noteq> wxEVT_DAP_LOG_EVENT \<and> ty \<noteq> wxEVT_DAP_LOST_CONNECTION \<and> ty \<noteq> wxEVT_DAP_INITIALIZE_RESPONSE"

lemma talks_SendDAPEvent: "session_type ty \<Longrightarrow> talks cl cl' \<Longrightarrow> talks cl (SendDAPEvent F ty m json cl')"
  unfolding SendDAPEvent_def Let_def
  by (rule talks_emit)
    (auto simp: protocol_out_def lost_out_def session_type_def talks_def split: DapMessage.split DapEvent.split)

lemma talks_replies:
  "talks cl (snd (StackTrace_reply cl))" "talks cl (snd (Scopes_reply cl))"
  "talks cl (snd (Variables_reply cl))" "talks cl (snd (SetBreakpoints_reply cl))"
  "talks cl (snd (BreakpointLocations_reply i cl))"
  by (simp_all add: reply_defs talks_def Let_def split: list.split option.split)

lemma talks_callbacks:
  "talks cl (HandleEvaluateResponse F json cl)" "talks cl (HandleSourceResponse F json cl)"
  by (auto simp: HandleEvaluateResponse_def HandleSourceResponse_def Let_def talks_refl
      intro!: talks_emit talks_updates simp: protocol_out_def lost_out_def split: list.split)

lemma session_types:
  "session_type wxEVT_DAP_STOPPED_EVENT" "session_type wxEVT_DAP_PROCESS_EVENT"
  "session_type wxEVT_DAP_EXITED_EVENT" "session_type wxEVT_DAP_TERMINATED_EVENT"
  "session_type wxEVT_DAP_INITIALIZED_EVENT" "session_type wxEVT_DAP_OUTPUT_EVENT"
  "session_type wxEVT_DAP_BREAKPOINT_EVENT" "session_type wxEVT_DAP_CONTINUED_EVENT"
  "session_type wxEVT_DAP_MODULE_EVENT" "session_type wxEVT_DAP_STACKTRACE_RESPONSE"
  "session_type wxEVT_DAP_SCOPES_RESPONSE" "session_type wxEVT_DAP_VARIABLES_RESPONSE"
  "session_type wxEVT_DAP_BREAKPOINT_LOCATIONS_RESPONSE"
  "session_type wxEVT_DAP_SET_FUNCTION_BREAKPOINT_RESPONSE"
  "session_type wxEVT_DAP_SET_EXCEPTION_BREAKPOINT_RESPONSE"
  "session_type wxEVT_DAP_SET_SOURCE_BREAKPOINT_RESPONSE"
  "session_type wxEVT_DAP_CONFIGURARIONE_DONE_RESPONSE" "session_type wxEVT_DAP_LAUNCH_RESPONSE"
  "session_type wxEVT_DAP_THREADS_RESPONSE" "session_type wxEVT_DAP_DISASSEMBLE_RESPONSE"
  "session_type wxEVT_DAP_READ_MEMORY_RESPONSE" "session_type wxEVT_DAP_GOTOTARGETS_RESPONSE"
  "session_type wxEVT_DAP_ATTACH_RESPONSE_EVENT" "session_type wxEVT_DAP_RUN_IN_TERMINAL_REQUEST"
  by (simp_all add: session_type_def)

lemmas talks_intros = talks_if talks_SendDAPEvent session_types talks_replies talks_callbacks talks_updates
  talks_refl

lemma talks_OnEvent: "talks cl (OnEvent F e json cl)"
  unfolding OnEvent_def by (intro talks_intros)

lemma talks_OnResponse: "talks cl (OnResponse F r json cl)"
  unfolding OnResponse_def Let_def case_prod_beta by (intro talks_intros)

lemma talks_OnRequest: "talks cl (OnRequest F r json cl)"
  unfolding OnRequest_def by (intro talks_intros)

lemma spoken:
  "list_all (\<lambda>x. protocol_out x \<and> \<not> lost_out x) xs \<Longrightarrow> shaken True xs \<and> guarded True xs"
  by (induction xs) simp_all

lemma log_quiet:
  "guarded b (cl_trace (log_event s cl)) = guarded b (cl_trace cl)"
  "shaken b (cl_trace (log_event s cl)) = shaken b (cl_trace cl)"
  by (simp_all add: log_event_def emit_def protocol_out_def handshake_out_def lost_out_def)

lemma log_fields [simp]:
  "m_handshake_state (log_event s cl) = m_handshake_state cl" "m_features (log_event s cl) = m_features cl"
  "m_can_interact (log_event s cl) = m_can_interact cl"
  "m_active_thread_id (log_event s cl) = m_active_thread_id cl"
  by (simp_all add: log_event_def emit_def)

lemma handshake_log: "handshake_inv (log_event s cl) = handshake_inv cl"
  by (simp add: handshake_inv_def log_quiet idle_inv_def)

lemma handshake_talks:
  assumes "handshake_inv cl" "m_handshake_state cl = kCompleted" "talks cl cl'"
  shows "handshake_inv cl'"
proof -
  obtain xs where "cl_trace cl' = cl_trace cl @ xs" "list_all (\<lambda>x. protocol_out x \<and> \<not> lost_out x) xs"
      "m_handshake_state cl' = kCompleted"
    using assms(2,3) by (auto simp: talks_def)
  then show ?thesis using assms(1,2) spoken [of xs] by (simp add: handshake_inv_def idle_inv_def)
qed

lemma features_trace [simp]:
  "cl_trace (fold (ENABLE_FEATURE body) fs cl) = cl_trace cl"
  "m_handshake_state (fold (ENABLE_FEATURE body) fs cl) = m_handshake_state cl"
  by (induction fs arbitrary: cl) (simp_all add: ENABLE_FEATURE_def)

lemma handshake_message: "handshake_inv cl \<Longrightarrow> handshake_inv (OnMessage F g json cl)"
proof -
  let ?l = "log_event (''<-- '' @ Json_ToString F False json) cl"
  assume "handshake_inv cl"
  then have l: "handshake_inv ?l" by (simp add: handshake_log)
  show ?thesis
  proof (cases "m_handshake_state cl = kCompleted")
    case True
    then have c: "m_handshake_state ?l = kCompleted" by simp
    have "talks ?l (OnMessage F g json cl)"
      by (simp add: OnMessage_def Let_def True talks_OnEvent talks_OnResponse talks_OnRequest talks_refl
          split: option.split)
    then show ?thesis by (rule handshake_talks [OF l c])
  next
    case False
    show ?thesis
    proof (cases "is_initialize_response (ObjGenerator_FromJSON F g json)")
      case True
      with l False show ?thesis
        by (simp add: OnMessage_def Let_def SendDAPEvent_def emit_def handshake_inv_def protocol_out_def
            handshake_out_def lost_out_def idle_inv_def)
    next
      case False': False
      with l False show ?thesis by (simp add: OnMessage_def Let_def)
    qed
  qed
qed

lemma handshake_Reset: "guarded False (cl_trace cl) \<Longrightarrow> handshake_inv (Client_Reset cl)"
  by (simp add: Client_Reset_eq Client_new_def handshake_inv_def idle_inv_def)

interpretation shake: client_invariant handshake_inv H for H
proof unfold_locales
  fix cl :: "'cb Client" and t success content
  show "handshake_inv (Client_new :: 'cb Client)" by (simp add: handshake_inv_def idle_inv_def Client_new_def)
  show "handshake_inv cl \<Longrightarrow> handshake_inv (Client_Reset cl)"
    by (rule handshake_Reset) (simp add: handshake_inv_def)
  then show "handshake_inv cl \<Longrightarrow> handshake_inv (SetTransport t cl)"
    by (simp add: SetTransport_def StartReaderThread_def Let_def handshake_inv_def idle_inv_def)
  show "handshake_inv cl \<Longrightarrow> handshake_inv (OnConnectionError cl)"
    unfolding OnConnectionError_def
    by (rule handshake_Reset) (simp add: emit_def handshake_inv_def protocol_out_def)
  show "handshake_inv cl \<Longrightarrow> handshake_inv (reader_loop success content cl)"
    by (simp add: reader_loop_def handshake_inv_def idle_inv_def)
qed (simp_all add: handshake_message handshake_log,
     simp_all add: handshake_inv_def idle_inv_def emit_def protocol_out_def handshake_out_def lost_out_def)

text \<open>C2: nothing of the debug session reaches the plugin before the handshake. In every session,
  each event or callback that carries a message of the session comes after an
  \<open>wxEVT_DAP_INITIALIZE_RESPONSE\<close> that was fired since the connection was last lost; and until
  \<open>Initialize\<close> is called no feature is enabled, the debugger cannot be interacted with and there
  is no active thread.\<close>

theorem session_handshake:
  assumes "session H ops cl"
  shows "guarded False (cl_trace cl)
    \<and> (m_handshake_state cl = kNotPerformed \<longrightarrow>
        m_features cl = 0 \<and> \<not> m_can_interact cl \<and> m_active_thread_id cl = wxNOT_FOUND)"
  using shake.session_inv [OF assms] by (simp add: handshake_inv_def idle_inv_def)

theorem session_handshake_witness:
  "\<exists>cl :: nat Client. session sample_host [Op_SetTransport True, Op_Initialize None] cl
    \<and> guarded False (cl_trace cl)"
proof -
  obtain cl :: "nat Client" where "session sample_host [Op_SetTransport True, Op_Initialize None] cl"
    using session_append [OF session_append [OF start, of sample_host "Op_SetTransport True"],
        of _ "[Op_SetTransport True]" "Op_Initialize None"] by auto
  with session_handshake show ?thesis by blast
qed

end
