(* ===== verification/Dap_ClientPairing.thy ===== *)
theory Dap_ClientPairing
  imports Dap_ClientRun
begin

text \<open>
  Which request a response belongs to. The client keeps the requests of a kind in a queue and
  gives each response of that kind the oldest entry. The locale \<open>pairing\<close> is the contract of such a
  queue; frames, scopes, variables, breakpoints, evaluations and sources are its instances.
\<close>

section \<open>Queues of outstanding requests\<close>

definition turn :: "('q \<Rightarrow> 's \<Rightarrow> 's) \<Rightarrow> ('r \<Rightarrow> 's \<Rightarrow> 's) \<Rightarrow> 'q + 'r \<Rightarrow> 's \<Rightarrow> 's" where
  \<comment> \<open>a request is made, or a response arrives\<close>
  "turn request respond x = (case x of Inl q \<Rightarrow> request q | Inr r \<Rightarrow> respond r)"

fun admitted :: "('q \<Rightarrow> bool) \<Rightarrow> ('r \<Rightarrow> bool) \<Rightarrow> nat \<Rightarrow> ('q + 'r) list \<Rightarrow> bool" where
  \<comment> \<open>with \<open>n\<close> requests outstanding: every response answers one\<close>
  "admitted sane answer n [] = True"
| "admitted sane answer n (Inl q # xs) = (sane q \<and> admitted sane answer (Suc n) xs)"
| "admitted sane answer n (Inr r # xs) = (answer r \<and> n > 0 \<and> admitted sane answer (n - 1) xs)"

definition keys :: "('q \<Rightarrow> 'k) \<Rightarrow> ('q + 'r) list \<Rightarrow> 'k list" where
  "keys key xs = concat (map (\<lambda>x. case x of Inl q \<Rightarrow> [key q] | Inr r \<Rightarrow> []) xs)"

locale pairing =
  fixes request :: "'q \<Rightarrow> 's \<Rightarrow> 's" and key :: "'q \<Rightarrow> 'k" and sane :: "'q \<Rightarrow> bool"
    and respond :: "'r \<Rightarrow> 's \<Rightarrow> 's" and answer :: "'r \<Rightarrow> bool"
    and queue :: "'s \<Rightarrow> 'k list" and given :: "'s \<Rightarrow> 'k list" and ok :: "'s \<Rightarrow> bool"
  assumes request_ok: "ok s \<Longrightarrow> ok (request q s)"
    and request_queue: "ok s \<Longrightarrow> sane q \<Longrightarrow> queue (request q s) = queue s @ [key q]"
    and request_given: "ok s \<Longrightarrow> given (request q s) = given s"
    and respond_ok: "ok s \<Longrightarrow> answer r \<Longrightarrow> ok (respond r s)"
    and respond_queue: "ok s \<Longrightarrow> answer r \<Longrightarrow> queue s \<noteq> [] \<Longrightarrow> queue (respond r s) = tl (queue s)"
    and respond_given: "ok s \<Longrightarrow> answer r \<Longrightarrow> queue s \<noteq> [] \<Longrightarrow> given (respond r s) = given s @ [hd (queue s)]"
begin

lemma fifo:
  "ok s \<Longrightarrow> admitted sane answer (length (queue s)) xs \<Longrightarrow>
    given (fold (turn request respond) xs s) @ queue (fold (turn request respond) xs s)
      = given s @ queue s @ keys key xs"
proof (induction xs arbitrary: s)
  case Nil
  then show ?case by (simp add: keys_def)
next
  case (Cons x xs)
  show ?case
  proof (cases x)
    case (Inl q)
    then show ?thesis
      using Cons by (simp add: turn_def keys_def request_ok request_queue request_given)
  next
    case (Inr r)
    then have "answer r" "queue s \<noteq> []" "admitted sane answer (length (tl (queue s))) xs"
      using Cons.prems by auto
    then show ?thesis
      using Inr Cons by (simp add: turn_def keys_def respond_ok respond_queue respond_given)
  qed
qed

end

section \<open>A session in progress\<close>

definition in_session :: "'cb Client \<Rightarrow> bool" where
  "in_session cl \<longleftrightarrow> m_transport cl \<and> m_handshake_state cl = kCompleted"

definition answers :: "'d fp \<Rightarrow> ObjGenerator \<Rightarrow> string \<Rightarrow> 'd Json \<Rightarrow> bool" where
  \<comment> \<open>the text is a response to the command\<close>
  "answers F g command json \<longleftrightarrow>
     (case ObjGenerator_FromJSON F g json of
        None \<Rightarrow> False
      | Some m \<Rightarrow> (case AsResponse m of None \<Rightarrow> False | Some hdr \<Rightarrow> rs_command hdr = command))"

lemma OnMessage_answer:
  assumes "m_handshake_state cl = kCompleted" "answers F g command json"
  obtains hdr where "rs_command hdr = command"
    "OnMessage F g json cl = OnResponse F hdr json (log_event (''<-- '' @ Json_ToString F False json) cl)"
proof -
  obtain m hdr where m: "ObjGenerator_FromJSON F g json = Some m" "AsResponse m = Some hdr" "rs_command hdr = command"
    using assms(2) by (auto simp: answers_def split: option.splits)
  moreover have "AsEvent m = None" using m(2) by (auto simp: AsEvent_def AsResponse_def split: DapMessage.splits)
  ultimately have "OnMessage F g json cl = OnResponse F hdr json (log_event (''<-- '' @ Json_ToString F False json) cl)"
    using assms(1) by (simp add: OnMessage_def Let_def)
  with m(3) show ?thesis by (rule that)
qed

lemma in_session_message:
  assumes "in_session cl"
  shows "in_session (OnMessage F g json cl)"
proof -
  let ?l = "log_event (''<-- '' @ Json_ToString F False json) cl"
  have "talks ?l (OnMessage F g json cl)"
    using assms by (simp add: in_session_def OnMessage_def Let_def talks_OnEvent talks_OnResponse
        talks_OnRequest talks_refl split: option.split)
  then show ?thesis
    using assms link_eqs(1) [OF link_OnMessage, of F g json cl] by (simp add: in_session_def talks_def)
qed

lemma send_in_session:
  "m_transport cl \<Longrightarrow> snd (SendRequest F r cl)
     = log_event (''--> '' @ Json_ToString F False (DapRequest_To F r))
         (emit (Sent (JsonRPC_frame (Json_ToString F False (DapRequest_To F r)))) cl)"
  by (simp add: SendRequest_def send_message_def JsonRPC_Send_def)

lemma MakeRequest_state:
  "snd (MakeRequest r cl) = cl\<lparr> m_requestSeuqnce := m_requestSeuqnce cl + 1 \<rparr>"
  "snd (MakeRequest_twice r cl) = cl\<lparr> m_requestSeuqnce := m_requestSeuqnce cl + 2 \<rparr>"
  by (simp_all add: MakeRequest_def MakeRequest_twice_def GetNextSequence_def Let_def add.assoc)

text \<open>What the plugin was given, read off the trace.\<close>

definition outputs :: "('cb client_out \<Rightarrow> 'k list) \<Rightarrow> 'cb Client \<Rightarrow> 'k list" where
  "outputs f cl = concat (map f (cl_trace cl))"

definition fired :: "(DapResponse \<Rightarrow> 'k list) \<Rightarrow> 'cb client_out \<Rightarrow> 'k list" where
  \<comment> \<open>of the responses that events carry\<close>
  "fired f x = (case x of Fired e \<Rightarrow> (case de_object e of Some (MResponse r) \<Rightarrow> f r | _ \<Rightarrow> []) | _ \<Rightarrow> [])"

definition frames_given :: "'cb client_out \<Rightarrow> int list" where
  "frames_given = fired (\<lambda>r. case r of Rs_StackTrace x \<Rightarrow> [ks_refId x] | _ \<Rightarrow> [])"

definition scopes_given :: "'cb client_out \<Rightarrow> int list" where
  "scopes_given = fired (\<lambda>r. case r of Rs_Scopes x \<Rightarrow> [ps_refId x] | _ \<Rightarrow> [])"

definition variables_given :: "'cb client_out \<Rightarrow> (int \<times> EvaluateContext) list" where
  "variables_given = fired (\<lambda>r. case r of Rs_Variables x \<Rightarrow> [(vs_refId x, vs_context x)] | _ \<Rightarrow> [])"

definition breakpoints_given :: "'cb client_out \<Rightarrow> string list" where
  "breakpoints_given = fired (\<lambda>r. case r of Rs_SetBreakpoints x \<Rightarrow> [gs_originSource x] | _ \<Rightarrow> [])"

definition evaluates_given :: "'cb client_out \<Rightarrow> 'cb list" where
  "evaluates_given x = (case x of Evaluated cb _ _ _ _ \<Rightarrow> [cb] | _ \<Rightarrow> [])"

definition sources_given :: "'cb client_out \<Rightarrow> 'cb list" where
  "sources_given x = (case x of SourceLoaded cb _ _ _ \<Rightarrow> [cb] | _ \<Rightarrow> [])"

lemmas given_defs = outputs_def fired_def frames_given_def scopes_given_def variables_given_def
  breakpoints_given_def evaluates_given_def sources_given_def

lemma outputs_emit [simp]: "outputs f (emit x cl) = outputs f cl @ f x"
  by (simp add: outputs_def emit_def)

lemma outputs_sent [simp]:
  "frames_given (Sent s) = []" "scopes_given (Sent s) = []" "variables_given (Sent s) = []"
  "breakpoints_given (Sent s) = []" "evaluates_given (Sent s) = []" "sources_given (Sent s) = []"
  by (simp_all add: given_defs)

lemma outputs_log [simp]:
  "outputs frames_given (log_event s cl) = outputs frames_given cl"
  "outputs scopes_given (log_event s cl) = outputs scopes_given cl"
  "outputs variables_given (log_event s cl) = outputs variables_given cl"
  "outputs breakpoints_given (log_event s cl) = outputs breakpoints_given cl"
  "outputs evaluates_given (log_event s cl) = outputs evaluates_given cl"
  "outputs sources_given (log_event s cl) = outputs sources_given cl"
  by (simp_all add: log_event_def given_defs emit_def)

lemma queues_emit [simp]:
  "m_get_frames_queue (emit x cl) = m_get_frames_queue cl"
  "m_get_scopes_queue (emit x cl) = m_get_scopes_queue cl"
  "m_get_variables_queue (emit x cl) = m_get_variables_queue cl"
  "m_source_breakpoints_queue (emit x cl) = m_source_breakpoints_queue cl"
  "m_evaluate_queue (emit x cl) = m_evaluate_queue cl"
  "m_load_sources_queue (emit x cl) = m_load_sources_queue cl"
  "m_handshake_state (emit x cl) = m_handshake_state cl"
  "m_transport (emit x cl) = m_transport cl"
  by (simp_all add: emit_def)

lemma queues_log [simp]:
  "m_get_frames_queue (log_event s cl) = m_get_frames_queue cl"
  "m_get_scopes_queue (log_event s cl) = m_get_scopes_queue cl"
  "m_get_variables_queue (log_event s cl) = m_get_variables_queue cl"
  "m_source_breakpoints_queue (log_event s cl) = m_source_breakpoints_queue cl"
  "m_evaluate_queue (log_event s cl) = m_evaluate_queue cl"
  "m_load_sources_queue (log_event s cl) = m_load_sources_queue cl"
  "m_transport (log_event s cl) = m_transport cl"
  by (simp_all add: log_event_def)

lemma outputs_updates [simp]:
  "outputs f (cl\<lparr> m_requestSeuqnce := n \<rparr>) = outputs f cl"
  "outputs f (cl\<lparr> m_get_frames_queue := q1 \<rparr>) = outputs f cl"
  "outputs f (cl\<lparr> m_get_scopes_queue := q2 \<rparr>) = outputs f cl"
  "outputs f (cl\<lparr> m_get_variables_queue := q3 \<rparr>) = outputs f cl"
  "outputs f (cl\<lparr> m_source_breakpoints_queue := q4 \<rparr>) = outputs f cl"
  "outputs f (cl\<lparr> m_evaluate_queue := q5 \<rparr>) = outputs f cl"
  "outputs f (cl\<lparr> m_load_sources_queue := q6 \<rparr>) = outputs f cl"
  by (simp_all add: outputs_def)

lemmas request_step = Let_def case_prod_beta MakeRequest_state send_in_session in_session_def

section \<open>The six queues\<close>

lemma From_keeps:
  "ks_refId (StackTraceResponse_From F json x) = ks_refId x"
  "ps_refId (ScopesResponse_From F json y) = ps_refId y"
  "vs_refId (VariablesResponse_From F json z) = vs_refId z"
  "vs_context (VariablesResponse_From F json z) = vs_context z"
  "gs_originSource (SetBreakpointsResponse_From F json w) = gs_originSource w"
  by (simp_all add: StackTraceResponse_From_def ScopesResponse_From_def VariablesResponse_From_def
      SetBreakpointsResponse_From_def Response_From_def ProtocolMessage_From_def Let_def)

lemmas answer_step = OnResponse_def Let_def case_prod_beta reply_defs SendDAPEvent_def From_keeps

lemma fired_given [simp]:
  "frames_given (Fired \<lparr> de_type = ty, de_object = Some (MResponse (Rs_StackTrace x1)), de_string = s \<rparr>) = [ks_refId x1]"
  "scopes_given (Fired \<lparr> de_type = ty, de_object = Some (MResponse (Rs_Scopes x2)), de_string = s \<rparr>) = [ps_refId x2]"
  "variables_given (Fired \<lparr> de_type = ty, de_object = Some (MResponse (Rs_Variables x3)), de_string = s \<rparr>)
     = [(vs_refId x3, vs_context x3)]"
  "breakpoints_given (Fired \<lparr> de_type = ty, de_object = Some (MResponse (Rs_SetBreakpoints x4)), de_string = s \<rparr>)
     = [gs_originSource x4]"
  "evaluates_given (Evaluated cb b s1 s2 i) = [cb]"
  "sources_given (SourceLoaded cb b s1 s2) = [cb]"
  by (simp_all add: given_defs)

lemma frames_request:
  "in_session cl \<Longrightarrow> in_session (GetFrames F t start n cl)"
  "in_session cl \<Longrightarrow> t \<noteq> wxNOT_FOUND \<Longrightarrow> m_get_frames_queue (GetFrames F t start n cl) = m_get_frames_queue cl @ [t]"
  "in_session cl \<Longrightarrow> outputs frames_given (GetFrames F t start n cl) = outputs frames_given cl"
  by (simp_all add: GetFrames_def request_step thread_or_active_def)

lemma frames_answer:
  assumes "in_session cl" "answers F g ''stackTrace'' json" "m_get_frames_queue cl \<noteq> []"
  shows "m_get_frames_queue (OnMessage F g json cl) = tl (m_get_frames_queue cl)
    \<and> outputs frames_given (OnMessage F g json cl) = outputs frames_given cl @ [hd (m_get_frames_queue cl)]"
proof -
  obtain hdr where "rs_command hdr = ''stackTrace''"
    "OnMessage F g json cl = OnResponse F hdr json (log_event (''<-- '' @ Json_ToString F False json) cl)"
    using OnMessage_answer assms by (metis in_session_def)
  with assms(3) show ?thesis
    by (cases "m_get_frames_queue cl") (auto simp: answer_step)
qed

interpretation frames: pairing
  "\<lambda>(t, start, n) cl. GetFrames F t start n cl" "\<lambda>(t, start, n). t" "\<lambda>(t, start, n). t \<noteq> wxNOT_FOUND"
  "OnMessage F g" "answers F g ''stackTrace''" m_get_frames_queue "outputs frames_given" in_session for F g
  by unfold_locales (auto simp: frames_request frames_answer in_session_message)

lemma scopes_request:
  "in_session cl \<Longrightarrow> in_session (GetScopes F frameId cl)"
  "in_session cl \<Longrightarrow> m_get_scopes_queue (GetScopes F frameId cl) = m_get_scopes_queue cl @ [frameId]"
  "in_session cl \<Longrightarrow> outputs scopes_given (GetScopes F frameId cl) = outputs scopes_given cl"
  by (simp_all add: GetScopes_def request_step)

lemma scopes_answer:
  assumes "in_session cl" "answers F g ''scopes'' json" "m_get_scopes_queue cl \<noteq> []"
  shows "m_get_scopes_queue (OnMessage F g json cl) = tl (m_get_scopes_queue cl)
    \<and> outputs scopes_given (OnMessage F g json cl) = outputs scopes_given cl @ [hd (m_get_scopes_queue cl)]"
proof -
  obtain hdr where "rs_command hdr = ''scopes''"
    "OnMessage F g json cl = OnResponse F hdr json (log_event (''<-- '' @ Json_ToString F False json) cl)"
    using OnMessage_answer assms by (metis in_session_def)
  with assms(3) show ?thesis
    by (cases "m_get_scopes_queue cl") (auto simp: answer_step)
qed

interpretation scopes: pairing
  "\<lambda>frameId cl. GetScopes F frameId cl" "\<lambda>frameId. frameId" "\<lambda>frameId. True"
  "OnMessage F g" "answers F g ''scopes''" m_get_scopes_queue "outputs scopes_given" in_session for F g
  by unfold_locales (auto simp: scopes_request scopes_answer in_session_message)

lemma variables_request:
  "in_session cl \<Longrightarrow> in_session (snd (GetChildrenVariables F r context count format cl))"
  "in_session cl \<Longrightarrow> m_get_variables_queue (snd (GetChildrenVariables F r context count format cl)) = m_get_variables_queue cl @ [(r, context)]"
  "in_session cl \<Longrightarrow> outputs variables_given (snd (GetChildrenVariables F r context count format cl)) = outputs variables_given cl"
  by (simp_all add: GetChildrenVariables_def request_step)

lemma variables_answer:
  assumes "in_session cl" "answers F g ''variables'' json" "m_get_variables_queue cl \<noteq> []"
  shows "m_get_variables_queue (OnMessage F g json cl) = tl (m_get_variables_queue cl)
    \<and> outputs variables_given (OnMessage F g json cl) = outputs variables_given cl @ [hd (m_get_variables_queue cl)]"
proof -
  obtain hdr where "rs_command hdr = ''variables''"
    "OnMessage F g json cl = OnResponse F hdr json (log_event (''<-- '' @ Json_ToString F False json) cl)"
    using OnMessage_answer assms by (metis in_session_def)
  with assms(3) show ?thesis
    by (cases "m_get_variables_queue cl") (auto simp: answer_step)
qed

interpretation variables: pairing
  "\<lambda>(r, context, count, format) cl. snd (GetChildrenVariables F r context count format cl)" "\<lambda>(r, context, count, format). (r, context)" "\<lambda>(r, context, count, format). True"
  "OnMessage F g" "answers F g ''variables''" m_get_variables_queue "outputs variables_given" in_session for F g
  by unfold_locales (auto simp: variables_request variables_answer in_session_message)

lemma breakpoints_request:
  "in_session cl \<Longrightarrow> in_session (SetBreakpointsFile F GetFullName file lines cl)"
  "in_session cl \<Longrightarrow> m_source_breakpoints_queue (SetBreakpointsFile F GetFullName file lines cl) = m_source_breakpoints_queue cl @ [file]"
  "in_session cl \<Longrightarrow> outputs breakpoints_given (SetBreakpointsFile F GetFullName file lines cl) = outputs breakpoints_given cl"
  by (simp_all add: SetBreakpointsFile_def request_step)

lemma breakpoints_answer:
  assumes "in_session cl" "answers F g ''setBreakpoints'' json" "m_source_breakpoints_queue cl \<noteq> []"
  shows "m_source_breakpoints_queue (OnMessage F g json cl) = tl (m_source_breakpoints_queue cl)
    \<and> outputs breakpoints_given (OnMessage F g json cl) = outputs breakpoints_given cl @ [hd (m_source_breakpoints_queue cl)]"
proof -
  obtain hdr where "rs_command hdr = ''setBreakpoints''"
    "OnMessage F g json cl = OnResponse F hdr json (log_event (''<-- '' @ Json_ToString F False json) cl)"
    using OnMessage_answer assms by (metis in_session_def)
  with assms(3) show ?thesis
    by (cases "m_source_breakpoints_queue cl") (auto simp: answer_step)
qed

interpretation breakpoints: pairing
  "\<lambda>(file, lines) cl. SetBreakpointsFile F GetFullName file lines cl" "\<lambda>(file, lines). file" "\<lambda>(file, lines). True"
  "OnMessage F g" "answers F g ''setBreakpoints''" m_source_breakpoints_queue "outputs breakpoints_given" in_session for F GetFullName g
  by unfold_locales (auto simp: breakpoints_request breakpoints_answer in_session_message)

lemma evaluates_request:
  "in_session cl \<Longrightarrow> in_session (EvaluateExpression F expression frameId context callback format cl)"
  "in_session cl \<Longrightarrow> m_evaluate_queue (EvaluateExpression F expression frameId context callback format cl) = m_evaluate_queue cl @ [callback]"
  "in_session cl \<Longrightarrow> outputs evaluates_given (EvaluateExpression F expression frameId context callback format cl) = outputs evaluates_given cl"
  by (simp_all add: EvaluateExpression_def request_step)

lemma evaluates_answer:
  assumes "in_session cl" "answers F g ''evaluate'' json" "m_evaluate_queue cl \<noteq> []"
  shows "m_evaluate_queue (OnMessage F g json cl) = tl (m_evaluate_queue cl)
    \<and> outputs evaluates_given (OnMessage F g json cl) = outputs evaluates_given cl @ [hd (m_evaluate_queue cl)]"
proof -
  obtain hdr where "rs_command hdr = ''evaluate''"
    "OnMessage F g json cl = OnResponse F hdr json (log_event (''<-- '' @ Json_ToString F False json) cl)"
    using OnMessage_answer assms by (metis in_session_def)
  with assms(3) show ?thesis
    by (cases "m_evaluate_queue cl") (auto simp: answer_step HandleEvaluateResponse_def HandleSourceResponse_def)
qed

interpretation evaluates: pairing
  "\<lambda>(expression, frameId, context, callback, format) cl. EvaluateExpression F expression frameId context callback format cl" "\<lambda>(expression, frameId, context, callback, format). callback" "\<lambda>(expression, frameId, context, callback, format). True"
  "OnMessage F g" "answers F g ''evaluate''" m_evaluate_queue "outputs evaluates_given" in_session for F g
  by unfold_locales (auto simp: evaluates_request evaluates_answer in_session_message)

lemma sources_request:
  "in_session cl \<Longrightarrow> in_session (snd (LoadSource F source callback cl))"
  "in_session cl \<Longrightarrow> src_sourceReference source > 0 \<Longrightarrow> m_load_sources_queue (snd (LoadSource F source callback cl)) = m_load_sources_queue cl @ [callback]"
  "in_session cl \<Longrightarrow> outputs sources_given (snd (LoadSource F source callback cl)) = outputs sources_given cl"
  by (simp_all add: LoadSource_def request_step)

lemma sources_answer:
  assumes "in_session cl" "answers F g ''source'' json" "m_load_sources_queue cl \<noteq> []"
  shows "m_load_sources_queue (OnMessage F g json cl) = tl (m_load_sources_queue cl)
    \<and> outputs sources_given (OnMessage F g json cl) = outputs sources_given cl @ [hd (m_load_sources_queue cl)]"
proof -
  obtain hdr where "rs_command hdr = ''source''"
    "OnMessage F g json cl = OnResponse F hdr json (log_event (''<-- '' @ Json_ToString F False json) cl)"
    using OnMessage_answer assms by (metis in_session_def)
  with assms(3) show ?thesis
    by (cases "m_load_sources_queue cl") (auto simp: answer_step HandleEvaluateResponse_def HandleSourceResponse_def)
qed

interpretation sources: pairing
  "\<lambda>(source, callback) cl. snd (LoadSource F source callback cl)" "\<lambda>(source, callback). callback" "\<lambda>(source, callback). src_sourceReference source > 0"
  "OnMessage F g" "answers F g ''source''" m_load_sources_queue "outputs sources_given" in_session for F g
  by unfold_locales (auto simp: sources_request sources_answer in_session_message)

section \<open>What the plugin can rely on\<close>


definition sample_client :: "nat Client" where
  "sample_client = Client_new\<lparr> m_transport := True, m_handshake_state := kCompleted \<rparr>"

definition sample_gen :: ObjGenerator where
  "sample_gen = Initialize 0 ObjGenerator_empty"

lemma sample_in_session: "in_session sample_client"
  by (simp add: in_session_def sample_client_def)

definition sample_response :: "string \<Rightarrow> int Json" where
  \<comment> \<open>a successful response to the command, with no body\<close>
  "sample_response c = Response_To fp_int \<lparr> pm_seq = 9, pm_type = ''response'', rs_request_seq = 2,
     rs_success = True, rs_command = c, rs_message = [] \<rparr>"

lemma object_is_ok: "Json_IsObject j \<Longrightarrow> Json_IsOK j"
  by (auto simp: Json_IsObject_def Json_IsOK_def split: option.splits)

lemma sample_answers:
  "answers fp_int sample_gen ''stackTrace'' (sample_response ''stackTrace'')"
  "answers fp_int sample_gen ''variables'' (sample_response ''variables'')"
  "answers fp_int sample_gen ''evaluate'' (sample_response ''evaluate'')"
  "answers fp_int sample_gen ''setBreakpoints'' (sample_response ''setBreakpoints'')"
  by (simp_all add: answers_def sample_gen_def sample_response_def ObjGenerator_FromJSON_def ObjGenerator_New_def
      Initialize_pools response_classes_def Response_To_def ProtocolMessage_To_def Let_def msg_build msg_read
      object_is_ok AsResponse_def Response.truncate_def StackTraceResponse_From_def VariablesResponse_From_def
      EvaluateResponse_From_def SetBreakpointsResponse_From_def Response_From_def ProtocolMessage_From_def
      StackTraceResponse_new_def VariablesResponse_new_def EvaluateResponse_new_def SetBreakpointsResponse_new_def)


text \<open>variables. In the same way, without \<open>GetVariableInfo\<close>, the \<open>n\<close>-th \<open>variables\<close> response is
  given the parent reference and the context of the \<open>n\<close>-th call of \<open>GetChildrenVariables\<close>.\<close>

lemma variables_fifo:
  assumes "in_session cl"
    "admitted (\<lambda>_. True) (answers F g ''variables'') (length (m_get_variables_queue cl)) xs"
  shows "let cl' = fold (turn (\<lambda>(r, context, count, format) cl. snd (GetChildrenVariables F r context count format cl))
        (OnMessage F g)) xs cl
    in outputs variables_given cl' @ m_get_variables_queue cl'
         = outputs variables_given cl @ m_get_variables_queue cl @ keys (\<lambda>(r, context, count, format). (r, context)) xs"
  using variables.fifo [of cl F g xs] assms by (simp add: Let_def case_prod_unfold)

text \<open>A call of \<open>GetVariableInfo\<close> shifts the pairing. It sends a \<open>variables\<close> request too, but puts
  nothing into the queue: if \<open>GetChildrenVariables r\<close> is called after it, the response to
  \<open>GetVariableInfo\<close> is given to the plugin as the children of \<open>r\<close>, and the response with the
  children of \<open>r\<close> has no parent (\<open>wxNOT_FOUND\<close>, and the default context).\<close>

lemma GetVariableInfo_shifts:
  assumes "in_session cl" "m_get_variables_queue cl = []"
    "answers F g ''variables'' info" "answers F g ''variables'' children"
  shows "outputs variables_given
      (OnMessage F g children (OnMessage F g info
        (snd (GetChildrenVariables F r context n fmt (GetVariableInfo F i s a b fmt' cl)))))
    = outputs variables_given cl @ [(r, context), (wxNOT_FOUND, VARIABLES)]"
proof -
  let ?cl = "snd (GetChildrenVariables F r context n fmt (GetVariableInfo F i s a b fmt' cl))"
  have 1: "in_session (GetVariableInfo F i s a b fmt' cl)"
    "m_get_variables_queue (GetVariableInfo F i s a b fmt' cl) = []"
    "outputs variables_given (GetVariableInfo F i s a b fmt' cl) = outputs variables_given cl"
    using assms(1,2) by (simp_all add: GetVariableInfo_def request_step)
  have 2: "in_session ?cl" "m_get_variables_queue ?cl = [(r, context)]"
    "outputs variables_given ?cl = outputs variables_given cl"
    using variables_request [OF 1(1), of F r "context" n fmt] 1(2,3) by simp_all
  have 3: "m_get_variables_queue (OnMessage F g info ?cl) = []"
    "outputs variables_given (OnMessage F g info ?cl) = outputs variables_given cl @ [(r, context)]"
    using variables_answer [OF 2(1) assms(3)] 2(2,3) by simp_all
  have 4: "m_handshake_state (OnMessage F g info ?cl) = kCompleted"
    using in_session_message [OF 2(1), of F g info] by (simp add: in_session_def)
  obtain hdr where "rs_command hdr = ''variables''"
    "OnMessage F g children (OnMessage F g info ?cl)
       = OnResponse F hdr children (log_event (''<-- '' @ Json_ToString F False children) (OnMessage F g info ?cl))"
    using OnMessage_answer [OF 4 assms(4)] by metis
  then show ?thesis using 3 by (simp add: answer_step VariablesResponse_new_def)
qed



text \<open>Breakpoints of files. The \<open>n\<close>-th \<open>setBreakpoints\<close> response is given the file of the
  \<open>n\<close>-th call of \<open>SetBreakpointsFile\<close>.\<close>

lemma breakpoints_fifo:
  assumes "in_session cl"
    "admitted (\<lambda>_. True) (answers F g ''setBreakpoints'') (length (m_source_breakpoints_queue cl)) xs"
  shows "let cl' = fold (turn (\<lambda>(file, lines). SetBreakpointsFile F GetFullName file lines) (OnMessage F g)) xs cl
    in outputs breakpoints_given cl' @ m_source_breakpoints_queue cl'
         = outputs breakpoints_given cl @ m_source_breakpoints_queue cl @ keys fst xs"
  using breakpoints.fifo [of cl F g xs GetFullName] assms by (simp add: Let_def case_prod_unfold)

end
