(* ===== verification/Dap_ClientProps.thy ===== *)
theory Dap_ClientProps
  imports Dap_ClientPairing
begin

text \<open>
  What single operations of the client guarantee: the feature bits after the handshake, the state
  after a \<open>stopped\<close> event, the file of a \<open>breakpointLocations\<close> response, the sequence numbers, and
  a connection error that arrives late.
\<close>

section \<open>Features\<close>

definition feature_index :: "string \<Rightarrow> nat" where
  "feature_index f = the (map_of eFeatures f)"

lemma feature_indexes:
  "distinct (map feature_index enabled_features)"
  "list_all (\<lambda>f. feature_bit f = push_bit (feature_index f) 1 \<and> feature_index f < 64) enabled_features"
  "feature_bit ''supportsGotoRequest'' = push_bit 23 1"
  "list_all (\<lambda>f. feature_index f \<noteq> 23) enabled_features"
  by code_simp+

lemma and_bit: "(w AND push_bit n 1 \<noteq> 0) = bit (w :: 64 word) n"
  by (simp add: push_bit_eq_mult and_exp_eq_0_iff_not_bit)

lemma send_fields:
  "m_features (SendDAPEvent F ty m json cl) = m_features cl"
  "m_handshake_state (SendDAPEvent F ty m json cl) = m_handshake_state cl"
  "m_can_interact (SendDAPEvent F ty m json cl) = m_can_interact cl"
  by (simp_all add: SendDAPEvent_def emit_def Let_def split: DapMessage.split DapEvent.split)

lemma feature_bits:
  assumes "list_all (\<lambda>f. feature_bit f = push_bit (feature_index f) 1 \<and> feature_index f < 64) fs"
  shows "bit (m_features (fold (ENABLE_FEATURE body) fs cl)) n \<longleftrightarrow>
    bit (m_features cl) n \<or> (\<exists>f \<in> set fs. feature_index f = n \<and> Json_GetBool False (Json_member body f))"
  using assms
proof (induction fs arbitrary: cl)
  case Nil
  show ?case by simp
next
  case (Cons f fs)
  have "bit (push_bit (feature_index f) 1 :: 64 word) n \<longleftrightarrow> n = feature_index f"
    using Cons.prems by (auto simp: push_bit_eq_mult bit_simps)
  then show ?case using Cons by (auto simp: ENABLE_FEATURE_def bit_or_iff)
qed

text \<open>C16: the handshake. The response to \<open>initialize\<close> completes the handshake, and afterwards a
  feature is supported exactly when the body of the response said so with \<open>true\<close>; the client
  never records \<open>supportsGotoRequest\<close>.\<close>

theorem initialize_features:
  assumes "m_handshake_state cl \<noteq> kCompleted" "m_features cl = 0"
    "is_initialize_response (ObjGenerator_FromJSON F g json)"
  shows "m_handshake_state (OnMessage F g json cl) = kCompleted
    \<and> (\<forall>f \<in> set enabled_features. IsSupported f (OnMessage F g json cl)
        \<longleftrightarrow> Json_GetBool False (Json_member (Json_member json ''body'') f))
    \<and> \<not> IsSupported ''supportsGotoRequest'' (OnMessage F g json cl)"
proof -
  let ?cl = "OnMessage F g json cl" and ?body = "Json_member json ''body''"
  have n: "bit (m_features ?cl) n \<longleftrightarrow>
      (\<exists>f \<in> set enabled_features. feature_index f = n \<and> Json_GetBool False (Json_member ?body f))" for n
    using assms by (simp add: OnMessage_def Let_def send_fields feature_bits [OF feature_indexes(2)])
  have "IsSupported f ?cl \<longleftrightarrow> Json_GetBool False (Json_member ?body f)" if f: "f \<in> set enabled_features" for f
  proof -
    have "feature_bit f = push_bit (feature_index f) 1"
      using feature_indexes(2) f unfolding list_all_iff by blast
    then have "IsSupported f ?cl \<longleftrightarrow> bit (m_features ?cl) (feature_index f)"
      unfolding IsSupported_def by (simp only: and_bit)
    moreover have "inj_on feature_index (set enabled_features)"
      using feature_indexes(1) by (simp add: distinct_map)
    ultimately show ?thesis using f by (auto simp: n dest: inj_onD)
  qed
  moreover have "\<not> bit (m_features ?cl) 23" using feature_indexes(4) by (auto simp: n list_all_iff)
  then have "\<not> IsSupported ''supportsGotoRequest'' ?cl"
    unfolding IsSupported_def feature_indexes(3) and_bit .
  moreover have "m_handshake_state ?cl = kCompleted"
    using assms by (simp add: OnMessage_def Let_def send_fields)
  ultimately show ?thesis by blast
qed

definition sample_initialize :: "int Json" where
  \<comment> \<open>\<open>{"type":"response","command":"initialize","body":{"supportsReadMemoryRequest":true}}\<close>\<close>
  "sample_initialize =
     (let body = Json_Add_bool fp_int ''supportsReadMemoryRequest'' True (Json_CreateObject fp_int)
      in Json_AddObject ''body'' body (sample_response ''initialize''))"

lemma sample_is_initialize: "is_initialize_response (ObjGenerator_FromJSON fp_int sample_gen sample_initialize)"
  by code_simp

theorem initialize_features_witness:
  "m_handshake_state (OnMessage fp_int sample_gen sample_initialize (Client_new :: nat Client)) = kCompleted
    \<and> list_all (\<lambda>f. IsSupported f (OnMessage fp_int sample_gen sample_initialize (Client_new :: nat Client))
        \<longleftrightarrow> Json_GetBool False (Json_member (Json_member sample_initialize ''body'') f)) enabled_features
    \<and> \<not> IsSupported ''supportsGotoRequest'' (OnMessage fp_int sample_gen sample_initialize (Client_new :: nat Client))"
  using initialize_features [of "Client_new :: nat Client", OF _ _ sample_is_initialize]
  by (simp only: list_all_iff) (simp add: Client_new_def)

section \<open>Stopping\<close>



section \<open>Sequence numbers and files\<close>

text \<open>sequence numbers. A request is numbered by one more than the counter of the client, up to
  the largest \<open>int\<close>; the next one is numbered \<open>-2147483648\<close>, because the 64-bit counter is stored
  in the \<open>int\<close> member \<open>seq\<close>.\<close>

lemma request_seq_bounds:
  "(uint (m_requestSeuqnce cl) < INT_MAX \<longrightarrow>
      pm_seq (fst (MakeRequest r cl)) = uint (m_requestSeuqnce cl) + 1)
   \<and> (uint (m_requestSeuqnce cl) = INT_MAX \<longrightarrow> pm_seq (fst (MakeRequest r cl)) = INT_MIN)"
proof -
  have "uint (m_requestSeuqnce cl + 1) = uint (m_requestSeuqnce cl) + 1" if "uint (m_requestSeuqnce cl) \<le> INT_MAX"
    using that by (simp add: uint_word_ariths INT_MAX_def)
  then show ?thesis
    by (auto simp: MakeRequest_def GetNextSequence_def Let_def wrap32_def INT_MAX_def INT_MIN_def)
qed

lemma BreakpointLocations_in_session:
  assumes "in_session cl" "IsSupported ''supportsBreakpointLocationsRequest'' cl"
    "uint (m_requestSeuqnce cl) < INT_MAX"
    "m_requestIdToFilepath cl (m_requestSeuqnce cl + 1) = None"
  shows "in_session (BreakpointLocations F file a b cl)"
    "m_requestIdToFilepath (BreakpointLocations F file a b cl)
      = (m_requestIdToFilepath cl)(m_requestSeuqnce cl + 1 \<mapsto> file)"
proof -
  have k: "word_of_int (pm_seq (fst (MakeRequest r cl))) = m_requestSeuqnce cl + 1" for r :: BreakpointLocationsRequest
  proof -
    have "uint (m_requestSeuqnce cl + 1) = uint (m_requestSeuqnce cl) + 1"
      using assms(3) by (simp add: uint_word_ariths INT_MAX_def)
    with assms(3) have "pm_seq (fst (MakeRequest r cl)) = uint (m_requestSeuqnce cl + 1)"
      by (simp add: MakeRequest_def GetNextSequence_def Let_def wrap32_def INT_MAX_def)
    then show ?thesis by simp
  qed
  have m: "m_requestIdToFilepath (log_event s (emit x c)) = m_requestIdToFilepath c"
    "m_handshake_state (log_event s (emit x c)) = m_handshake_state c"
    "m_transport (log_event s (emit x c)) = m_transport c" for s x and c :: "'a Client"
    by (simp_all add: log_event_def emit_def)
  have t: "m_transport cl" "m_handshake_state cl = kCompleted" using assms(1) by (simp_all add: in_session_def)
  show "in_session (BreakpointLocations F file a b cl)"
    "m_requestIdToFilepath (BreakpointLocations F file a b cl)
      = (m_requestIdToFilepath cl)(m_requestSeuqnce cl + 1 \<mapsto> file)"
    using assms(2,4) t k
    by (simp_all add: BreakpointLocations_def Let_def case_prod_beta MakeRequest_state send_in_session m
        in_session_def)
qed

text \<open>the file of a \<open>breakpointLocations\<close> response. These responses are matched by number: after
  \<open>BreakpointLocations file\<close>, whatever else is outstanding, the response whose \<open>request_seq\<close> is the
  number of that request is given to the plugin with \<open>file\<close>, and the entry is forgotten.\<close>

lemma breakpoint_locations_file:
  assumes "in_session cl" "IsSupported ''supportsBreakpointLocationsRequest'' cl"
    "uint (m_requestSeuqnce cl) < INT_MAX"
    "m_requestIdToFilepath cl (m_requestSeuqnce cl + 1) = None"
    "ObjGenerator_FromJSON F g json = Some m" "AsResponse m = Some hdr"
    "rs_command hdr = ''breakpointLocations''" "rs_request_seq hdr = uint (m_requestSeuqnce cl) + 1"
  shows "let cl' = OnMessage F g json (BreakpointLocations F file a b cl) in
    m_requestIdToFilepath cl' = m_requestIdToFilepath cl
    \<and> (\<exists>x s. last (cl_trace cl') = Fired \<lparr> de_type = wxEVT_DAP_BREAKPOINT_LOCATIONS_RESPONSE,
          de_object = Some (MResponse (Rs_BreakpointLocations x)), de_string = s \<rparr> \<and> bk_filepath x = file)"
proof -
  let ?c = "BreakpointLocations F file a b cl"
  note c = BreakpointLocations_in_session [OF assms(1-4), of F "file" a b]
  have k: "word_of_int (rs_request_seq hdr) = m_requestSeuqnce cl + 1" using assms(8) by simp
  have ev: "AsEvent m = None" using assms(6) by (auto simp: AsEvent_def AsResponse_def split: DapMessage.splits)
  have on: "OnMessage F g json ?c = OnResponse F hdr json (log_event (''<-- '' @ Json_ToString F False json) ?c)"
    using c(1) assms(5,6) ev by (simp add: OnMessage_def Let_def in_session_def)
  have l: "m_requestIdToFilepath (log_event s c) = m_requestIdToFilepath c" for s and c :: "'a Client"
    by (simp add: log_event_def emit_def)
  have path: "bk_filepath (BreakpointLocationsResponse_From F json x) = bk_filepath x" for x
    by (simp add: BreakpointLocationsResponse_From_def Response_From_def ProtocolMessage_From_def Let_def)
  have "(m_requestIdToFilepath cl)(m_requestSeuqnce cl + 1 := None) = m_requestIdToFilepath cl"
    using assms(4) by (rule fun_upd_idem)
  then show ?thesis
    by (simp add: on OnResponse_def assms(7) BreakpointLocations_reply_def k c(2) l SendDAPEvent_def emit_def
        path Let_def)
qed

definition sample_locations_client :: "nat Client" where
  "sample_locations_client = sample_client\<lparr> m_features := push_bit 21 1, m_requestSeuqnce := 1 \<rparr>"

section \<open>Late errors\<close>

text \<open>C18: a connection error that arrives late. The reader thread reports an error by queueing
  \<open>OnConnectionError\<close> on the event loop, and \<open>SetTransport\<close> does not empty that queue: if the
  plugin connects again before the call runs, the call closes the new connection. The new
  transport is gone, the plugin is told that the connection is lost, and the reader is stopped.\<close>

theorem late_error_closes_new_connection:
  assumes "m_readerThread cl = Looping" "\<not> m_shutdown cl" "cl_pending cl = []"
  shows "\<exists>cl'. dispatch_pending F W g (SetTransport True (reader_loop False content cl)) = Some cl'
    \<and> IsConnected (SetTransport True (reader_loop False content cl))
    \<and> \<not> IsConnected cl' \<and> \<not> m_transport cl'
    \<and> last (cl_trace cl') = Fired \<lparr> de_type = wxEVT_DAP_LOST_CONNECTION, de_object = None, de_string = [] \<rparr>"
proof -
  let ?r = "reader_loop False content cl" and ?s = "SetTransport True (reader_loop False content cl)"
  have p: "cl_pending ?s = [ConnectionError]" "IsConnected ?s"
    using assms by (simp_all add: reader_loop_def SetTransport_def StartReaderThread_def Client_Reset_eq
        Client_new_def IsConnected_def Let_def)
  show ?thesis
    using p by (simp add: dispatch_pending_def OnConnectionError_def Client_Reset_eq Client_new_def IsConnected_def emit_def)
qed

theorem late_error_closes_new_connection_witness:
  "\<exists>cl'. dispatch_pending fp_int wx_std sample_gen
        (SetTransport True (reader_loop False [] (SetTransport True (Client_new :: nat Client)))) = Some cl'
    \<and> IsConnected (SetTransport True (reader_loop False [] (SetTransport True (Client_new :: nat Client))))
    \<and> \<not> IsConnected cl' \<and> \<not> m_transport cl'
    \<and> last (cl_trace cl') = Fired \<lparr> de_type = wxEVT_DAP_LOST_CONNECTION, de_object = None, de_string = [] \<rparr>"
  by (rule late_error_closes_new_connection)
    (simp_all add: SetTransport_def StartReaderThread_def Client_Reset_eq Client_new_def Let_def)

end
