(* ===== verification/Dap_Definitions.thy ===== *)
theory Dap_Definitions
  imports Dap_Client
begin

text \<open>
  \<open>definitions.h\<close> and \<open>definitions.cpp\<close>: the plugin's breakpoints and watches and how they are
  written to and read from the elements of the state file. An element is \<open>xml\<close>: its name, its text
  and its children. \<open>wxString::ToLong\<close> and \<open>ToULongLong\<close> belong to wxWidgets: they are the record
  \<open>wx_num\<close>, with \<open>None\<close> where the conversion fails; the code reads its result all the same, an
  indeterminate value, and so the result of reading is an option. Texts are ASCII; signed
  overflow is undefined in the source and outside the model.
\<close>

section \<open>Elements of the state file\<close>

datatype xml = Elem (xml_name: string) (xml_text: string) (xml_children: "xml list")

definition IsSameAs_nocase :: "string \<Rightarrow> string \<Rightarrow> bool" where
  \<comment> \<open>\<open>IsSameAs(s, false)\<close>\<close>
  "IsSameAs_nocase s t \<longleftrightarrow> map tolower s = map tolower t"

definition BoolTowxString :: "bool \<Rightarrow> string" where
  "BoolTowxString b = (if b then ''True'' else ''False'')"

definition wxStringToBool :: "string \<Rightarrow> bool" where
  "wxStringToBool s = (if IsSameAs_nocase s ''True'' then True else False)"

definition AddChildNode :: "string \<Rightarrow> string \<Rightarrow> xml \<Rightarrow> xml" where
  "AddChildNode name v parent =
     (case parent of Elem n t cs \<Rightarrow> Elem n t (cs @ [Elem name v []]))"

definition AddChildNode_int :: "string \<Rightarrow> int \<Rightarrow> xml \<Rightarrow> xml" where
  \<comment> \<open>the overloads for \<open>int\<close> and \<open>long\<close>\<close>
  "AddChildNode_int name v = AddChildNode name (show_int v)"

definition AddChildNode_uint64 :: "string \<Rightarrow> 64 word \<Rightarrow> xml \<Rightarrow> xml" where
  "AddChildNode_uint64 name v = AddChildNode name (show_nat (unat v))"

definition hex_text :: "bool \<Rightarrow> 64 word \<Rightarrow> string" where
  \<comment> \<open>\<open>%#018llx\<close> on a 64 bit platform, \<open>%#10llx\<close> otherwise; \<open>#\<close> adds no prefix to zero\<close>
  "hex_text bits64 v =
     (let h = show_hex (unat v)
      in if bits64
         then (if v = 0 then replicate 18 CHR ''0'' else ''0x'' @ replicate (16 - length h) CHR ''0'' @ h)
         else (let s = (if v = 0 then h else ''0x'' @ h) in replicate (10 - length s) CHR '' '' @ s))"

definition AddChildNodeHex :: "bool \<Rightarrow> string \<Rightarrow> 64 word \<Rightarrow> xml \<Rightarrow> xml" where
  "AddChildNodeHex bits64 name v = AddChildNode name (hex_text bits64 v)"

definition AddChildNode_bool :: "string \<Rightarrow> bool \<Rightarrow> xml \<Rightarrow> xml" where
  "AddChildNode_bool name v = AddChildNode name (BoolTowxString v)"

record wx_num =
  wx_ToLong :: "string \<Rightarrow> int option"   \<comment> \<open>\<open>ToLong(&result, 10)\<close>\<close>
  wx_ToULongLong :: "nat \<Rightarrow> string \<Rightarrow> 64 word option"   \<comment> \<open>the first argument is the base\<close>

definition FirstChildElement :: "string \<Rightarrow> xml \<Rightarrow> xml option" where
  "FirstChildElement name e = find (\<lambda>c. xml_name c = name) (xml_children e)"

definition ReadChildNodewxString :: "xml \<Rightarrow> string \<Rightarrow> string" where
  "ReadChildNodewxString e name =
     (case FirstChildElement name e of Some c \<Rightarrow> xml_text c | None \<Rightarrow> [])"

definition ReadChildNodeInt :: "wx_num \<Rightarrow> xml \<Rightarrow> string \<Rightarrow> int option" where
  "ReadChildNodeInt N e name = map_option wrap32 (wx_ToLong N (ReadChildNodewxString e name))"

definition ReadChildNodeLong :: "wx_num \<Rightarrow> xml \<Rightarrow> string \<Rightarrow> int option" where
  "ReadChildNodeLong N e name = wx_ToLong N (ReadChildNodewxString e name)"

definition ReadChildNodeUint64 :: "wx_num \<Rightarrow> xml \<Rightarrow> string \<Rightarrow> 64 word option" where
  "ReadChildNodeUint64 N e name = wx_ToULongLong N 10 (ReadChildNodewxString e name)"

definition ReadChildNodeHex :: "wx_num \<Rightarrow> xml \<Rightarrow> string \<Rightarrow> 64 word option" where
  "ReadChildNodeHex N e name = wx_ToULongLong N 16 (ReadChildNodewxString e name)"

definition ReadChildNodeBool :: "xml \<Rightarrow> string \<Rightarrow> bool" where
  "ReadChildNodeBool e name = wxStringToBool (ReadChildNodewxString e name)"

section \<open>Breakpoints\<close>

datatype BreakpointType = bptCode | bptFunction | bptData

record DAPBreakpoint =
  db_type :: BreakpointType
  db_project :: nat   \<comment> \<open>the project's address, 0 for \<open>nullptr\<close>\<close>
  db_filename :: string
  db_line :: int
  db_ID :: int
  db_temporary :: bool
  db_enabled :: bool
  db_active :: bool
  db_useIgnoreCount :: bool
  db_ignoreCount :: int
  db_useCondition :: bool
  db_wantsCondition :: bool
  db_condition :: string
  db_function :: string
  db_address :: "64 word"
  db_alreadySet :: bool
  db_lineText :: string
  db_breakAddress :: string
  db_breakOnRead :: bool
  db_breakOnWrite :: bool

definition DAPBreakpoint_new :: "nat \<Rightarrow> string \<Rightarrow> int \<Rightarrow> int \<Rightarrow> DAPBreakpoint" where
  "DAPBreakpoint_new project filename line ID = \<lparr> db_type = bptCode, db_project = project,
     db_filename = filename, db_line = line, db_ID = ID, db_temporary = False, db_enabled = True,
     db_active = True, db_useIgnoreCount = False, db_ignoreCount = 0, db_useCondition = False,
     db_wantsCondition = False, db_condition = [], db_function = [], db_address = 0,
     db_alreadySet = False, db_lineText = [], db_breakAddress = [], db_breakOnRead = False,
     db_breakOnWrite = True \<rparr>"

definition DAPBreakpoint_default :: "nat \<Rightarrow> DAPBreakpoint" where
  \<comment> \<open>the constructor without a place\<close>
  "DAPBreakpoint_default project = DAPBreakpoint_new project [] (- 1) (- 1)"

definition SetShiftLines :: "int \<Rightarrow> DAPBreakpoint \<Rightarrow> DAPBreakpoint" where
  "SetShiftLines linesToShift b = b\<lparr> db_line := db_line b + linesToShift \<rparr>"

definition GetLocation :: "DAPBreakpoint \<Rightarrow> string" where
  "GetLocation b = (case db_type b of
     bptCode \<Rightarrow> db_filename b | bptFunction \<Rightarrow> db_filename b | bptData \<Rightarrow> db_breakAddress b)"

primrec GetTypewxString :: "BreakpointType \<Rightarrow> string" where
  "GetTypewxString bptCode = ''bptCode''"
| "GetTypewxString bptFunction = ''bptFunction''"
| "GetTypewxString bptData = ''bptData''"

definition SetType :: "string \<Rightarrow> DAPBreakpoint \<Rightarrow> DAPBreakpoint" where
  "SetType s b =
     (if IsSameAs_nocase s ''bptCode'' then b\<lparr> db_type := bptCode \<rparr>
      else if IsSameAs_nocase s ''bptFunction'' then b\<lparr> db_type := bptFunction \<rparr>
      else if IsSameAs_nocase s ''bptData'' then b\<lparr> db_type := bptData \<rparr> else b)"

definition GetInfo :: "DAPBreakpoint \<Rightarrow> string" where
  "GetInfo b = (case db_type b of bptCode \<Rightarrow> [] | bptFunction \<Rightarrow> []
     | bptData \<Rightarrow> (if db_breakOnRead b then (if db_breakOnWrite b then ''read and write'' else ''read only'')
                   else ''write only''))"

definition SaveBreakpointToXML :: "bool \<Rightarrow> string \<Rightarrow> DAPBreakpoint \<Rightarrow> xml" where
  \<comment> \<open>the element inserted at the end of the parent; the second argument is the project's title\<close>
  "SaveBreakpointToXML bits64 title b =
     (let e = Elem ''Breakpoint'' [] [];
          e = AddChildNode ''type'' (GetTypewxString (db_type b)) e;
          e = AddChildNode ''projectTitle'' title e;
          e = AddChildNode ''filename'' (db_filename b) e;
          e = AddChildNode_int ''line'' (db_line b) e;
          e = AddChildNode_bool ''temporary'' (db_temporary b) e;
          e = AddChildNode_bool ''enabled'' (db_enabled b) e;
          e = AddChildNode_bool ''active'' (db_active b) e;
          e = AddChildNode_bool ''useIgnoreCount'' (db_useIgnoreCount b) e;
          e = AddChildNode_int ''ignoreCount'' (db_ignoreCount b) e;
          e = AddChildNode_bool ''useCondition'' (db_useCondition b) e;
          e = AddChildNode_bool ''wantsCondition'' (db_wantsCondition b) e;
          e = AddChildNode ''condition'' (db_condition b) e;
          e = AddChildNode ''function'' (db_function b) e;
          e = AddChildNodeHex bits64 ''address'' (db_address b) e;
          e = AddChildNode_bool ''alreadySet'' (db_alreadySet b) e;
          e = AddChildNode ''lineText'' (db_lineText b) e;
          e = AddChildNode ''breakAddress'' (db_breakAddress b) e;
          e = AddChildNode_bool ''breakOnRead'' (db_breakOnRead b) e;
          e = AddChildNode_bool ''breakOnWrite'' (db_breakOnWrite b) e
      in e)"

datatype load_action = UpdateOrAdd string int bool int | EditorAdd string int

definition LoadBreakpointFromXML ::
  "wx_num \<Rightarrow> (string \<Rightarrow> bool) \<Rightarrow> xml \<Rightarrow> DAPBreakpoint \<Rightarrow> (DAPBreakpoint \<times> load_action) option" where
  \<comment> \<open>the second argument tells the files open in an editor; the action is the last call\<close>
  "LoadBreakpointFromXML N is_open e b0 =
     (case (ReadChildNodeInt N e ''line'', ReadChildNodeInt N e ''ignoreCount'', ReadChildNodeHex N e ''address'') of
        (Some line, Some ignoreCount, Some address) \<Rightarrow>
          (let b = SetType (ReadChildNodewxString e ''type'') b0;
               b = b\<lparr> db_filename := ReadChildNodewxString e ''filename'' \<rparr>;
               b = b\<lparr> db_line := line \<rparr>;
               b = b\<lparr> db_temporary := ReadChildNodeBool e ''temporary'' \<rparr>;
               b = b\<lparr> db_enabled := ReadChildNodeBool e ''enabled'' \<rparr>;
               b = b\<lparr> db_active := ReadChildNodeBool e ''active'' \<rparr>;
               b = b\<lparr> db_useIgnoreCount := ReadChildNodeBool e ''useIgnoreCount'' \<rparr>;
               b = b\<lparr> db_ignoreCount := ignoreCount \<rparr>;
               b = b\<lparr> db_useCondition := ReadChildNodeBool e ''useCondition'' \<rparr>;
               b = b\<lparr> db_wantsCondition := ReadChildNodeBool e ''wantsCondition'' \<rparr>;
               b = b\<lparr> db_condition := ReadChildNodewxString e ''condition'' \<rparr>;
               b = b\<lparr> db_function := ReadChildNodewxString e ''function'' \<rparr>;
               b = b\<lparr> db_address := address \<rparr>;
               b = b\<lparr> db_alreadySet := ReadChildNodeBool e ''alreadySet'' \<rparr>;
               b = b\<lparr> db_lineText := ReadChildNodewxString e ''lineText'' \<rparr>;
               b = b\<lparr> db_breakAddress := ReadChildNodewxString e ''breakAddress'' \<rparr>;
               b = b\<lparr> db_breakOnRead := ReadChildNodeBool e ''breakOnRead'' \<rparr>;
               b = b\<lparr> db_breakOnWrite := ReadChildNodeBool e ''breakOnWrite'' \<rparr>
           in Some (b, if is_open (db_filename b) then EditorAdd (db_filename b) (db_line b - 1)
                       else UpdateOrAdd (db_filename b) (db_line b) (db_enabled b) (- 1)))
      | _ \<Rightarrow> None)"

definition CleanStringValue :: "string \<Rightarrow> string" where
  \<comment> \<open>the loop takes off the last character while it is a backslash\<close>
  "CleanStringValue v = rev (dropWhile (\<lambda>c. c = CHR 0x5C) (rev v))"

section \<open>Watches\<close>

datatype WatchFormat = Undefined | Decimal | Unsigned | Hex | Binary | CharFormat | Float | Last | Any

primrec GetWatchFormatTowxString :: "WatchFormat \<Rightarrow> string" where
  "GetWatchFormatTowxString Undefined = ''Undefined''"
| "GetWatchFormatTowxString Decimal = ''Decimal''"
| "GetWatchFormatTowxString Unsigned = ''Unsigned''"
| "GetWatchFormatTowxString Hex = ''Hex''"
| "GetWatchFormatTowxString Binary = ''Binary''"
| "GetWatchFormatTowxString CharFormat = ''Char''"
| "GetWatchFormatTowxString Float = ''Float''"
| "GetWatchFormatTowxString Last = ''Last''"
| "GetWatchFormatTowxString Any = ''Any''"

definition GetWatchFormatFromwxString :: "string \<Rightarrow> WatchFormat" where
  "GetWatchFormatFromwxString s =
     (if IsSameAs_nocase s ''Undefined'' then Undefined
      else if IsSameAs_nocase s ''Decimal'' then Decimal
      else if IsSameAs_nocase s ''Unsigned'' then Unsigned
      else if IsSameAs_nocase s ''Hex'' then Hex
      else if IsSameAs_nocase s ''Binary'' then Binary
      else if IsSameAs_nocase s ''Char'' then CharFormat
      else if IsSameAs_nocase s ''Float'' then Float
      else if IsSameAs_nocase s ''Last'' then Last
      else if IsSameAs_nocase s ''Any'' then Any
      else Undefined)"

record DAPWatch =
  dw_DAPWatchClassName :: string
  dw_project :: nat
  dw_DAPVariableReference :: "64 word"
  dw_DAPChildVariableRequestSequence :: int
  dw_symbol :: string
  dw_address :: "64 word"
  dw_type :: string
  dw_format :: WatchFormat
  dw_debug_string :: string
  dw_has_been_expanded :: bool
  dw_for_tooltip :: bool
  dw_delete_on_collapse :: bool
  dw_array_start :: int
  dw_array_end :: int
  dw_is_array :: bool
  dw_forTooltip :: bool
  dw_value :: string
  dw_ValueErrorMessage :: bool

definition DAPWatch_new :: "nat \<Rightarrow> string \<Rightarrow> bool \<Rightarrow> bool \<Rightarrow> DAPWatch" where
  "DAPWatch_new project symbol for_tooltip delete_on_collapse = \<lparr> dw_DAPWatchClassName = ''DAPWatch'',
     dw_project = project, dw_DAPVariableReference = 0, dw_DAPChildVariableRequestSequence = 0,
     dw_symbol = symbol, dw_address = 0, dw_type = [], dw_format = Undefined, dw_debug_string = [],
     dw_has_been_expanded = False, dw_for_tooltip = for_tooltip,
     dw_delete_on_collapse = delete_on_collapse, dw_array_start = - 1, dw_array_end = - 1,
     dw_is_array = False, dw_forTooltip = False, dw_value = [], dw_ValueErrorMessage = False \<rparr>"

definition SaveWatchToXML :: "string \<Rightarrow> DAPWatch \<Rightarrow> xml" where
  "SaveWatchToXML title w =
     (let e = Elem ''Watch'' [] [];
          e = AddChildNode ''DAPWatchClassName'' (dw_DAPWatchClassName w) e;
          e = AddChildNode ''projectTitle'' title e;
          e = AddChildNode ''symbol'' (dw_symbol w) e;
          e = AddChildNode ''type'' (dw_type w) e;
          e = AddChildNode ''format'' (GetWatchFormatTowxString (dw_format w)) e;
          e = AddChildNode ''debug_string'' (dw_debug_string w) e;
          e = AddChildNode_bool ''has_been_expanded'' (dw_has_been_expanded w) e;
          e = AddChildNode_bool ''for_tooltip'' (dw_for_tooltip w) e;
          e = AddChildNode_bool ''delete_on_collapse'' (dw_delete_on_collapse w) e;
          e = AddChildNode_int ''array_start'' (dw_array_start w) e;
          e = AddChildNode_int ''array_end'' (dw_array_end w) e;
          e = AddChildNode_bool ''is_array'' (dw_is_array w) e;
          e = AddChildNode_bool ''forTooltip'' (dw_forTooltip w) e
      in e)"

definition LoadWatchFromXML :: "wx_num \<Rightarrow> xml \<Rightarrow> DAPWatch \<Rightarrow> DAPWatch option" where
  \<comment> \<open>\<open>is_array\<close> is written as a truth value and read as a number\<close>
  "LoadWatchFromXML N e w0 =
     (case (ReadChildNodeInt N e ''array_start'', ReadChildNodeLong N e ''array_end'', ReadChildNodeLong N e ''is_array'') of
        (Some array_start, Some array_end, Some is_array) \<Rightarrow>
          (let w = w0\<lparr> dw_DAPWatchClassName := ReadChildNodewxString e ''DAPWatchClassName'' \<rparr>;
               w = w\<lparr> dw_symbol := ReadChildNodewxString e ''symbol'' \<rparr>;
               w = w\<lparr> dw_value := ReadChildNodewxString e ''value'' \<rparr>;
               w = w\<lparr> dw_type := ReadChildNodewxString e ''type'' \<rparr>;
               w = w\<lparr> dw_format := GetWatchFormatFromwxString (ReadChildNodewxString e ''format'') \<rparr>;
               w = w\<lparr> dw_debug_string := ReadChildNodewxString e ''debug_string'' \<rparr>;
               w = w\<lparr> dw_has_been_expanded := ReadChildNodeBool e ''has_been_expanded'' \<rparr>;
               w = w\<lparr> dw_for_tooltip := ReadChildNodeBool e ''for_tooltip'' \<rparr>;
               w = w\<lparr> dw_delete_on_collapse := ReadChildNodeBool e ''delete_on_collapse'' \<rparr>;
               w = w\<lparr> dw_array_start := array_start \<rparr>;
               w = w\<lparr> dw_array_end := array_end \<rparr>;
               w = w\<lparr> dw_is_array := (is_array \<noteq> 0) \<rparr>;
               w = w\<lparr> dw_forTooltip := ReadChildNodeBool e ''forTooltip'' \<rparr>
           in Some w)
      | _ \<Rightarrow> None)"

record DAPMemoryRangeWatch =
  dr_project :: nat
  dr_DAPWatchClassName :: string
  dr_address :: "64 word"
  dr_size :: "64 word"
  dr_symbol :: string
  dr_value :: string

definition DAPMemoryRangeWatch_new :: "nat \<Rightarrow> 64 word \<Rightarrow> 64 word \<Rightarrow> string \<Rightarrow> DAPMemoryRangeWatch" where
  "DAPMemoryRangeWatch_new project address sz symbol = \<lparr> dr_project = project,
     dr_DAPWatchClassName = ''DAPMemoryRangeWatch'', dr_address = address, dr_size = sz,
     dr_symbol = symbol, dr_value = [] \<rparr>"

definition MemoryRange_SetValue :: "string \<Rightarrow> DAPMemoryRangeWatch \<Rightarrow> bool \<times> DAPMemoryRangeWatch" where
  \<comment> \<open>with whether the watch was marked as changed\<close>
  "MemoryRange_SetValue v w = (if dr_value w \<noteq> v then (True, w\<lparr> dr_value := v \<rparr>) else (False, w))"

definition MakeSymbolToAddress :: "DAPMemoryRangeWatch \<Rightarrow> string" where
  "MakeSymbolToAddress w = CHR ''&'' # dr_symbol w"

definition SaveMemoryRangeToXML :: "string \<Rightarrow> DAPMemoryRangeWatch \<Rightarrow> xml" where
  "SaveMemoryRangeToXML title w =
     (let e = Elem ''MemoryRangeWatch'' [] [];
          e = AddChildNode ''DAPMemoryRangeWatch'' (dr_DAPWatchClassName w) e;
          e = AddChildNode ''projectTitle'' title e;
          e = AddChildNode_uint64 ''address'' (dr_address w) e;
          e = AddChildNode_uint64 ''size'' (dr_size w) e;
          e = AddChildNode ''symbol'' (dr_symbol w) e
      in e)"

definition LoadMemoryRangeFromXML :: "wx_num \<Rightarrow> xml \<Rightarrow> DAPMemoryRangeWatch \<Rightarrow> DAPMemoryRangeWatch option" where
  "LoadMemoryRangeFromXML N e w0 =
     (case (ReadChildNodeUint64 N e ''address'', ReadChildNodeUint64 N e ''size'') of
        (Some address, Some sz) \<Rightarrow>
          (let w = w0\<lparr> dr_DAPWatchClassName := ReadChildNodewxString e ''DAPMemoryRangeWatch'' \<rparr>;
               w = w\<lparr> dr_address := address \<rparr>;
               w = w\<lparr> dr_size := sz \<rparr>;
               w = w\<lparr> dr_symbol := ReadChildNodewxString e ''symbol'' \<rparr>
           in Some w)
      | _ \<Rightarrow> None)"

section \<open>The current frame\<close>

record DAPCurrentFrame =
  cf_filename :: string
  cf_line :: int
  cf_stack_frame :: int
  cf_user_selected_stack_frame :: int
  cf_thread :: int

definition DAPCurrentFrame_new :: DAPCurrentFrame where
  "DAPCurrentFrame_new = \<lparr> cf_filename = [], cf_line = - 1, cf_stack_frame = - 1,
     cf_user_selected_stack_frame = - 1, cf_thread = - 1 \<rparr>"

definition CurrentFrame_Reset :: "DAPCurrentFrame \<Rightarrow> DAPCurrentFrame" where
  "CurrentFrame_Reset f = f\<lparr> cf_stack_frame := - 1, cf_user_selected_stack_frame := - 1 \<rparr>"

definition DAPSwitchToFrame :: "int \<Rightarrow> DAPCurrentFrame \<Rightarrow> DAPCurrentFrame" where
  "DAPSwitchToFrame n f = f\<lparr> cf_stack_frame := n, cf_user_selected_stack_frame := n \<rparr>"

definition SetFrame :: "int \<Rightarrow> DAPCurrentFrame \<Rightarrow> DAPCurrentFrame" where
  "SetFrame n f =
     (if cf_user_selected_stack_frame f \<ge> 0
      then f\<lparr> cf_stack_frame := cf_user_selected_stack_frame f \<rparr> else f\<lparr> cf_stack_frame := n \<rparr>)"

definition SetThreadId :: "int \<Rightarrow> DAPCurrentFrame \<Rightarrow> DAPCurrentFrame" where
  "SetThreadId n f = f\<lparr> cf_thread := n \<rparr>"

definition SetPosition :: "string \<Rightarrow> int \<Rightarrow> DAPCurrentFrame \<Rightarrow> DAPCurrentFrame" where
  "SetPosition filename line f = f\<lparr> cf_filename := filename, cf_line := line \<rparr>"

end
