(* ===== verification/Dap_State.thy ===== *)
theory Dap_State
  imports "HOL-Library.Word"
begin

unbundle bit_operations_syntax

text \<open>
  \<open>DAP_Debugger_State.cpp\<close>: the global word of state flags \<open>DAPDebuggerState\<close> with its operations,
  the abstract state it stands for, and what the plugin's handlers can make of it. The word is an
  argument and a result of the operations; \<open>dbg_op\<close> is one call from outside.
\<close>

section \<open>The flags\<close>

datatype eDAPState = NotConnected | Connected | Stopped | Running

primrec flag :: "eDAPState \<Rightarrow> 32 word" where
  "flag NotConnected = 0x1"
| "flag Connected = 0x2"
| "flag Stopped = 0x4"
| "flag Running = 0x8"

definition DAPDebuggerState_init :: "32 word" where
  "DAPDebuggerState_init = flag NotConnected"

definition IsRunning :: "32 word \<Rightarrow> bool" where
  "IsRunning w \<longleftrightarrow> w AND flag Running \<noteq> 0"

definition IsStopped :: "32 word \<Rightarrow> bool" where
  "IsStopped w \<longleftrightarrow> w AND flag Stopped \<noteq> 0"

definition dbg_IsConnected :: "32 word \<Rightarrow> bool" where
  "dbg_IsConnected w \<longleftrightarrow> w AND flag Connected \<noteq> 0"

definition IsBusy :: "32 word \<Rightarrow> bool" where
  "IsBusy w \<longleftrightarrow> w AND flag Connected \<noteq> 0 \<and> w AND flag Running \<noteq> 0 \<and> \<not> (w AND flag Stopped \<noteq> 0)"

definition HasState :: "eDAPState \<Rightarrow> 32 word \<Rightarrow> bool" where
  "HasState st w \<longleftrightarrow> w AND flag st \<noteq> 0"

definition RemoveState :: "eDAPState \<Rightarrow> 32 word \<Rightarrow> 32 word" where
  "RemoveState stateToRemove w0 =
     (let w = w0 AND NOT (flag stateToRemove)
      in if stateToRemove = Connected then (w AND NOT (flag Running)) OR flag Stopped else w)"

definition AddState :: "eDAPState \<Rightarrow> 32 word \<Rightarrow> 32 word" where
  \<comment> \<open>the first condition tests the constant \<open>NotConnected\<close>, which is not zero\<close>
  "AddState newState w0 =
     (let w = w0 OR flag newState;
          w = (if dbg_IsConnected w \<and> flag NotConnected \<noteq> 0 then RemoveState NotConnected w else w);
          w = (if \<not> dbg_IsConnected w
               then RemoveState Running (RemoveState Connected w) OR flag Stopped else w)
      in if IsBusy w then RemoveState Stopped w else w)"

section \<open>The four bits\<close>

text \<open>A word given by its four flags; every operation is a computation on them.\<close>

definition flags :: "bool \<Rightarrow> bool \<Rightarrow> bool \<Rightarrow> bool \<Rightarrow> 32 word" where
  "flags n c s r = (if n then flag NotConnected else 0) OR (if c then flag Connected else 0)
     OR (if s then flag Stopped else 0) OR (if r then flag Running else 0)"

lemma flags_tests [simp]:
  "IsRunning (flags n c s r) = r" "IsStopped (flags n c s r) = s"
  "dbg_IsConnected (flags n c s r) = c" "IsBusy (flags n c s r) = (c \<and> r \<and> \<not> s)"
  by (cases n; cases c; cases s; cases r;
      simp add: IsRunning_def IsStopped_def dbg_IsConnected_def IsBusy_def flags_def)+

lemma flags_HasState [simp]:
  "HasState st (flags n c s r) = (case st of NotConnected \<Rightarrow> n | Connected \<Rightarrow> c | Stopped \<Rightarrow> s | Running \<Rightarrow> r)"
  by (cases st; cases n; cases c; cases s; cases r; simp add: HasState_def flags_def)

lemma flags_RemoveState [simp]:
  "RemoveState NotConnected (flags n c s r) = flags False c s r"
  "RemoveState Connected (flags n c s r) = flags n False True False"
  "RemoveState Stopped (flags n c s r) = flags n c False r"
  "RemoveState Running (flags n c s r) = flags n c s False"
  by (cases n; cases c; cases s; cases r; simp add: RemoveState_def flags_def Let_def)+

lemma flags_or [simp]:
  "flags n c s r OR flag NotConnected = flags True c s r"
  "flags n c s r OR flag Connected = flags n True s r"
  "flags n c s r OR flag Stopped = flags n c True r"
  "flags n c s r OR flag Running = flags n c s True"
  by (cases n; cases c; cases s; cases r; simp add: flags_def)+

lemma flags_or' [simp]:
  "flags n c s r OR 1 = flags True c s r" "flags n c s r OR 2 = flags n True s r"
  "flags n c s r OR 4 = flags n c True r" "flags n c s r OR 8 = flags n c s True"
  using flags_or [of n c s r] by simp_all

lemma flags_AddState [simp]:
  "AddState NotConnected (flags n c s r) = (if c then flags False c s r else flags True False True False)"
  "AddState Connected (flags n c s r) = flags False True s r"
  "AddState Stopped (flags n c s r) = (if c then flags False c True r else flags n False True False)"
  "AddState Running (flags n c s r) = (if c then flags False c s True else flags n False True False)"
  by (cases c; cases r; cases s; simp add: AddState_def Let_def)+

section \<open>The abstract state\<close>

text \<open>
  What the flags are for: a session is disconnected, or connected with a program that is
  not started, running or stopped. The operations as this state has them.
\<close>

datatype dbg_op = Add eDAPState | Remove eDAPState

primrec dbg_step :: "dbg_op \<Rightarrow> 32 word \<Rightarrow> 32 word" where
  "dbg_step (Add st) w = AddState st w"
| "dbg_step (Remove st) w = RemoveState st w"

definition dbg_run :: "dbg_op list \<Rightarrow> 32 word \<Rightarrow> 32 word" where
  "dbg_run ops w = fold dbg_step ops w"

record session_view =
  sv_connected :: bool
  sv_started :: bool
  sv_stopped :: bool

definition view :: "32 word \<Rightarrow> session_view" where
  "view w = \<lparr> sv_connected = dbg_IsConnected w, sv_started = IsRunning w, sv_stopped = IsStopped w \<rparr>"

fun view_step :: "dbg_op \<Rightarrow> session_view \<Rightarrow> session_view" where
  "view_step (Add Connected) v = v\<lparr> sv_connected := True \<rparr>"
| "view_step (Remove Connected) v = \<lparr> sv_connected = False, sv_started = False, sv_stopped = True \<rparr>"
| "view_step (Remove Stopped) v = v\<lparr> sv_stopped := False \<rparr>"
| "view_step (Remove Running) v = v\<lparr> sv_started := False \<rparr>"
| "view_step (Remove NotConnected) v = v"
| "view_step (Add st) v =
     (if sv_connected v
      then case st of Stopped \<Rightarrow> v\<lparr> sv_stopped := True \<rparr> | Running \<Rightarrow> v\<lparr> sv_started := True \<rparr> | _ \<Rightarrow> v
      else \<lparr> sv_connected = False, sv_started = False, sv_stopped = True \<rparr>)"

definition dbg_inv :: "32 word \<Rightarrow> bool" where
  \<comment> \<open>only the four flags, never both connection flags, and running only while connected\<close>
  "dbg_inv w \<longleftrightarrow> (\<exists>n c s r. w = flags n c s r \<and> \<not> (n \<and> c) \<and> (r \<longrightarrow> c))"

lemma dbg_inv_flags: "\<lbrakk> \<not> (n \<and> c); r \<longrightarrow> c \<rbrakk> \<Longrightarrow> dbg_inv (flags n c s r)"
  unfolding dbg_inv_def by blast

lemma dbg_invE:
  assumes "dbg_inv w"
  obtains n c s r where "w = flags n c s r" "\<not> (n \<and> c)" "r \<longrightarrow> c"
  using assms unfolding dbg_inv_def by blast

lemma dbg_inv_init: "dbg_inv DAPDebuggerState_init"
  using dbg_inv_flags [of True False False False] by (simp add: DAPDebuggerState_init_def flags_def)

lemma dbg_inv_AddState: "dbg_inv w \<Longrightarrow> dbg_inv (AddState st w)"
  by (elim dbg_invE, cases st) (auto intro!: dbg_inv_flags)

lemma dbg_inv_RemoveState: "dbg_inv w \<Longrightarrow> dbg_inv (RemoveState st w)"
  by (elim dbg_invE, cases st) (auto intro!: dbg_inv_flags)

lemma dbg_inv_step: "dbg_inv w \<Longrightarrow> dbg_inv (dbg_step op w)"
  by (cases op) (simp_all add: dbg_inv_AddState dbg_inv_RemoveState)

lemma dbg_inv_run: "dbg_inv w \<Longrightarrow> dbg_inv (dbg_run ops w)"
  by (induction ops arbitrary: w) (auto simp: dbg_run_def dbg_inv_step)

lemma view_dbg_step:
  assumes "dbg_inv w"
  shows "view (dbg_step op w) = view_step op (view w)"
proof -
  obtain n c s r where w: "w = flags n c s r" and nc: "\<not> (n \<and> c)" "r \<longrightarrow> c"
    using assms by (rule dbg_invE)
  show ?thesis
    using nc unfolding w by (cases op; rename_tac st; case_tac st) (auto simp: view_def)
qed

lemma view_dbg_run: "dbg_inv w \<Longrightarrow> view (dbg_run ops w) = fold view_step ops (view w)"
  by (induction ops arbitrary: w) (auto simp: dbg_run_def view_dbg_step dbg_inv_step)

text \<open>C30: after any sequence of calls of \<open>AddState\<close> and \<open>RemoveState\<close> the flag word is below 16, has never
  both \<open>NotConnected\<close> and \<open>Connected\<close>, has \<open>Running\<close> only with \<open>Connected\<close>, and its view (connected,
  started, stopped) is what the same calls make of the abstract session; in particular
  \<open>IsBusy\<close> holds exactly when the abstract session is started and not stopped.
\<close>
theorem state_refines:
  fixes ops :: "dbg_op list"
  defines "w \<equiv> dbg_run ops DAPDebuggerState_init"
  shows "w < 16 \<and> \<not> (HasState NotConnected w \<and> HasState Connected w)
    \<and> (IsRunning w \<longrightarrow> dbg_IsConnected w)
    \<and> view w = fold view_step ops \<lparr> sv_connected = False, sv_started = False, sv_stopped = False \<rparr>
    \<and> (IsBusy w \<longleftrightarrow> sv_started (view w) \<and> \<not> sv_stopped (view w))"
proof -
  have inv: "dbg_inv w" unfolding w_def by (intro dbg_inv_run dbg_inv_init)
  then obtain n c s r where f: "w = flags n c s r" and nc: "\<not> (n \<and> c)" "r \<longrightarrow> c"
    unfolding dbg_inv_def by blast
  have "view DAPDebuggerState_init = \<lparr> sv_connected = False, sv_started = False, sv_stopped = False \<rparr>"
    by (simp add: view_def DAPDebuggerState_init_def dbg_IsConnected_def IsRunning_def IsStopped_def)
  then have v: "view w = fold view_step ops \<lparr> sv_connected = False, sv_started = False, sv_stopped = False \<rparr>"
    unfolding w_def by (simp add: view_dbg_run dbg_inv_init)
  have "flags n c s r < 16" by (cases n; cases c; cases s; cases r; simp add: flags_def)
  then show ?thesis using nc unfolding v [symmetric] by (auto simp: f view_def)
qed

theorem state_refines_witness:
  "view (dbg_run [Remove Connected, Add Connected, Add Running, Remove Stopped] DAPDebuggerState_init)
     = \<lparr> sv_connected = True, sv_started = True, sv_stopped = False \<rparr>
   \<and> IsBusy (dbg_run [Remove Connected, Add Connected, Add Running, Remove Stopped] DAPDebuggerState_init)"
  using state_refines [of "[Remove Connected, Add Connected, Add Running, Remove Stopped]"] by simp

section \<open>The calls of the plugin\<close>

text \<open>
  The calls in \<open>plugin.cpp\<close>: the constructor removes \<open>Connected\<close>; afterwards the handlers add \<open>Stopped\<close>
  (\<open>OnProjectOpened\<close>, \<open>OnAttachToProcessResponse\<close>, \<open>OnStopped\<close>), add \<open>Connected\<close> (\<open>StartDebugger\<close>), add
  \<open>Running\<close> (\<open>OnAttachToProcessResponse\<close>, \<open>OnInitializeResponse\<close>) and remove \<open>Connected\<close> (\<open>OnExited\<close>,
  \<open>DAPDebuggerResetData\<close>).
\<close>

definition plugin_start :: "32 word" where
  "plugin_start = RemoveState Connected DAPDebuggerState_init"

definition plugin_ops :: "dbg_op list" where
  "plugin_ops = [Add Stopped, Add Connected, Add Running, Remove Connected]"

lemma plugin_start_stopped: "dbg_inv plugin_start \<and> IsStopped plugin_start"
proof -
  have "plugin_start = flags True False True False"
    using flags_RemoveState(2) [of True False False False]
    by (simp add: plugin_start_def DAPDebuggerState_init_def flags_def)
  then show ?thesis unfolding dbg_inv_def by (metis flags_tests(2))
qed

lemma stopped_step:
  assumes "op \<in> set plugin_ops" "dbg_inv w" "IsStopped w"
  shows "IsStopped (dbg_step op w)"
proof -
  obtain n c s r where "w = flags n c s r" using assms(2) unfolding dbg_inv_def by blast
  then show ?thesis using assms by (auto simp: plugin_ops_def)
qed

text \<open>\<open>IsStopped\<close> always holds and \<open>IsBusy\<close> never: whatever the plugin's handlers do after its
  constructor, in any order and number, the flag \<open>Stopped\<close> stays set, also after the program was
  continued. No handler removes it, and the line of \<open>AddState\<close> that would remove it runs only when
  it is not set.
\<close>
lemma plugin_always_stopped:
  assumes "set ops \<subseteq> set plugin_ops"
  shows "IsStopped (dbg_run ops plugin_start) \<and> \<not> IsBusy (dbg_run ops plugin_start)"
proof -
  have "dbg_inv w \<and> IsStopped w \<Longrightarrow> set ops \<subseteq> set plugin_ops \<Longrightarrow> IsStopped (dbg_run ops w)" for w
    by (induction ops arbitrary: w) (auto simp: dbg_run_def dbg_inv_step stopped_step)
  then have "IsStopped (dbg_run ops plugin_start)" using plugin_start_stopped assms by blast
  then show ?thesis by (simp add: IsBusy_def IsStopped_def)
qed

end
