(* ===== verification/Dap_Breakpoints.thy ===== *)
theory Dap_Breakpoints
  imports Dap_Definitions Dap_State "HOL-Library.Char_ord" "HOL-Library.List_Lexorder" "HOL-Library.AList"
begin

text \<open>
  \<open>DAP_Breakpoints.cpp\<close>: the plugin's breakpoints. The objects are shared between \<open>m_breakpoints\<close>, the
  lists of \<open>m_map_filebreakpoints\<close> and the caller, so they live in a store: a \<open>shared_ptr\<close> is an
  address, \<open>b_heap\<close> gives its object and \<open>b_next\<close> is the next free address. A \<open>std::map\<close> with file
  names as keys is an association list in the order of the keys. The global flag word and the client
  are part of the state. Calls to the log and to the breakpoint dialog, which only show, are left
  out; \<open>SyncEditor\<close> appends to \<open>b_synced\<close>. The result \<open>Inl PastEnd\<close> is the dereference of an \<open>end()\<close>
  iterator and \<open>Inl Invalidated\<close> that of an iterator that an insertion has made invalid, both undefined
  in C++, and \<open>Inl OutOfRange\<close> is the exception of \<open>substr\<close>.

  The record \<open>cb_env\<close> holds what Code::Blocks, wxWidgets and the configuration answer.
\<close>

section \<open>Maps keyed by file names\<close>

fun smap_insert :: "string \<Rightarrow> 'v \<Rightarrow> (string \<times> 'v) list \<Rightarrow> (string \<times> 'v) list" where
  \<comment> \<open>\<open>std::map::insert\<close>: an existing entry stays\<close>
  "smap_insert k v [] = [(k, v)]"
| "smap_insert k v ((k', v') # m) =
     (if k < k' then (k, v) # (k', v') # m
      else if k = k' then (k', v') # m else (k', v') # smap_insert k v m)"

definition erase_first :: "('a \<Rightarrow> bool) \<Rightarrow> 'a list \<Rightarrow> 'a list" where
  "erase_first P xs = takeWhile (Not \<circ> P) xs @ tl (dropWhile (Not \<circ> P) xs)"

section \<open>State\<close>

datatype eDebugTestingOptions =
    UseNativePaths | UseLinuxPathsOnWindowsWithDriveLetter | UseLinuxPathsOnWindowsWithNoCollen
  | UseLinuxPathsOnWindowsWithNoDriveLetter | UseWindowsPathsWithDriveLetterRemoved
  | UseRelativePathComparedToTheExecutable

datatype StartType = StartTypeUnknown | StartTypeStepInto | StartTypeOther   \<comment> \<open>the source names two\<close>

datatype ResetDataType = ResetData_Normal | ResetData_Startup | ResetData_All

record cb_env =
  ce_FindProjectForFile :: "string \<Rightarrow> nat"
  ce_UnixFilename :: "bool \<Rightarrow> string \<Rightarrow> string"   \<comment> \<open>with \<open>wxPATH_UNIX\<close>?\<close>
  ce_relative :: "string \<Rightarrow> string \<Rightarrow> string option"
    \<comment> \<open>the file relative to the directory of the debuggee, if it exists\<close>
  ce_GetFullName :: "string \<Rightarrow> string"
  ce_num :: wx_num
  ce_DebugTestingOption :: eDebugTestingOptions
  ce_ExceptionCatch :: bool
  ce_ExceptionThrow :: bool
  ce_PersistDebugElements :: bool

datatype bp_error = PastEnd | Invalidated | OutOfRange

record 'cb Breakpoints =
  b_heap :: "nat \<Rightarrow> DAPBreakpoint"
  b_next :: nat
  m_pProject :: nat
  m_debuggee :: string
  m_breakpoints :: "nat list"
  m_map_filebreakpoints :: "(string \<times> nat list) list"
  m_map_fileSystemDap :: "(string \<times> string) list"
  m_temporary_breakpoints :: "nat list"
  vExceptionBreakpointFilters :: "ExceptionBreakpointsFilter list"
  m_start_type :: StartType
  DAPDebuggerState :: "32 word"
  m_pDAPClient :: "'cb Client"
  b_synced :: "(string \<times> int) list"

definition Breakpoints_new :: "'cb Client \<Rightarrow> 'cb Breakpoints" where
  "Breakpoints_new cl = \<lparr> b_heap = (\<lambda>_. DAPBreakpoint_default 0), b_next = 0, m_pProject = 0,
     m_debuggee = [], m_breakpoints = [], m_map_filebreakpoints = [], m_map_fileSystemDap = [],
     m_temporary_breakpoints = [], vExceptionBreakpointFilters = [], m_start_type = StartTypeUnknown,
     DAPDebuggerState = plugin_start, m_pDAPClient = cl, b_synced = [] \<rparr>"

definition obj :: "'cb Breakpoints \<Rightarrow> nat \<Rightarrow> DAPBreakpoint" where
  "obj S r = b_heap S r"

definition set_obj :: "nat \<Rightarrow> (DAPBreakpoint \<Rightarrow> DAPBreakpoint) \<Rightarrow> 'cb Breakpoints \<Rightarrow> 'cb Breakpoints" where
  "set_obj r f S = S\<lparr> b_heap := (b_heap S)(r := f (b_heap S r)) \<rparr>"

definition new_obj :: "DAPBreakpoint \<Rightarrow> 'cb Breakpoints \<Rightarrow> nat \<times> 'cb Breakpoints" where
  "new_obj b S = (b_next S, S\<lparr> b_heap := (b_heap S)(b_next S := b), b_next := Suc (b_next S) \<rparr>)"

definition with_client :: "('cb Client \<Rightarrow> 'cb Client) \<Rightarrow> 'cb Breakpoints \<Rightarrow> 'cb Breakpoints" where
  "with_client f S = S\<lparr> m_pDAPClient := f (m_pDAPClient S) \<rparr>"

definition bind_err :: "'e + 'a \<Rightarrow> ('a \<Rightarrow> 'e + 'b) \<Rightarrow> 'e + 'b" where
  "bind_err x f = (case x of Inl e \<Rightarrow> Inl e | Inr a \<Rightarrow> f a)"

lemma bind_err_simps [simp]: "bind_err (Inl e) f = Inl e" "bind_err (Inr a) f = f a"
  by (simp_all add: bind_err_def)

section \<open>Looking up\<close>

definition GetBreakpointsCount :: "'cb Breakpoints \<Rightarrow> nat" where
  "GetBreakpointsCount S = length (m_breakpoints S)"

definition GetBreakpoint :: "nat \<Rightarrow> 'cb Breakpoints \<Rightarrow> nat" where
  \<comment> \<open>called with an index below the count\<close>
  "GetBreakpoint i S = m_breakpoints S ! i"

definition GetBreakpointByID :: "int \<Rightarrow> 'cb Breakpoints \<Rightarrow> nat option" where
  "GetBreakpointByID ID S = find (\<lambda>r. db_ID (obj S r) = ID) (m_breakpoints S)"

definition FindBreakpoint :: "nat \<Rightarrow> string \<Rightarrow> int \<Rightarrow> 'cb Breakpoints \<Rightarrow> nat option" where
  "FindBreakpoint project filename line S =
     find (\<lambda>r. db_project (obj S r) = project \<and> db_filename (obj S r) = filename \<and> db_line (obj S r) = line)
       (m_breakpoints S)"

section \<open>The map of files and the debugger's lists\<close>

definition UpdateMapFileBreakPoints :: "string \<Rightarrow> nat \<Rightarrow> bool \<Rightarrow> 'cb Breakpoints \<Rightarrow> 'cb Breakpoints" where
  "UpdateMapFileBreakPoints filename bp bAddBreakpoint S =
     (let m = m_map_filebreakpoints S; P = (\<lambda>r. db_line (obj S r) = db_line (obj S bp))
      in case map_of m filename of
        None \<Rightarrow> (if bAddBreakpoint then S\<lparr> m_map_filebreakpoints := smap_insert filename [bp] m \<rparr> else S)
      | Some v \<Rightarrow>
          (if list_ex P v
           then (if bAddBreakpoint then S
                 else if length v = 1
                 then (if length m = 1 then S\<lparr> m_map_filebreakpoints := [] \<rparr>
                       else S\<lparr> m_map_filebreakpoints := AList.delete filename m \<rparr>)
                 else S\<lparr> m_map_filebreakpoints := AList.update filename (erase_first P v) m \<rparr>)
           else (if bAddBreakpoint then S\<lparr> m_map_filebreakpoints := AList.update filename (v @ [bp]) m \<rparr>
                 else S)))"

definition dap_filename :: "cb_env \<Rightarrow> string \<Rightarrow> string \<Rightarrow> string" where
  "dap_filename E debuggee filename =
     (case ce_DebugTestingOption E of
        UseNativePaths \<Rightarrow> ce_UnixFilename E False filename
      | UseLinuxPathsOnWindowsWithDriveLetter \<Rightarrow> ce_UnixFilename E True filename
      | UseLinuxPathsOnWindowsWithNoCollen \<Rightarrow>
          (let fn = ce_UnixFilename E True filename
           in if find_char CHR '':'' fn = Some 1 then CHR ''/'' # take 1 fn @ drop 2 fn else fn)
      | UseLinuxPathsOnWindowsWithNoDriveLetter \<Rightarrow>
          (let fn = ce_UnixFilename E True filename
           in if find_char CHR '':'' fn = Some 1 then drop 2 fn else fn)
      | UseWindowsPathsWithDriveLetterRemoved \<Rightarrow>
          (let fn = ce_UnixFilename E False filename
           in if find_char CHR '':'' fn = Some 1 then drop 2 fn else fn)
      | UseRelativePathComparedToTheExecutable \<Rightarrow>
          (let fn = ce_UnixFilename E False filename
           in case ce_relative E fn debuggee of Some p \<Rightarrow> p | None \<Rightarrow> fn))"

definition enabled_lines :: "'cb Breakpoints \<Rightarrow> nat list \<Rightarrow> SourceBreakpoint list" where
  "enabled_lines S v =
     map (\<lambda>r. \<lparr> sb_line = db_line (obj S r), sb_condition = [] \<rparr>) (filter (\<lambda>r. db_enabled (obj S r)) v)"

definition UpdateDAPSetBreakpointsByFileName ::
  "'d fp \<Rightarrow> cb_env \<Rightarrow> string \<Rightarrow> 'cb Breakpoints \<Rightarrow> bp_error + 'cb Breakpoints" where
  "UpdateDAPSetBreakpointsByFileName F E filename S =
     (if IsRunning (DAPDebuggerState S) \<and> IsStopped (DAPDebuggerState S)
      then bind_err
        (if 0 < length (m_map_filebreakpoints S)
         then (case map_of (m_map_filebreakpoints S) filename of
                 None \<Rightarrow> Inl PastEnd
               | Some filebreakpoints \<Rightarrow> Inr (enabled_lines S filebreakpoints))
         else Inr [])
        (\<lambda>vlines.
           let fn = dap_filename E (m_debuggee S) filename;
               S = S\<lparr> m_map_fileSystemDap := smap_insert filename fn (m_map_fileSystemDap S) \<rparr>
           in Inr (with_client (SetBreakpointsFile F (ce_GetFullName E) fn vlines) S))
      else Inr S)"

section \<open>Adding and removing\<close>

definition local_filename :: "string \<Rightarrow> 'cb Breakpoints \<Rightarrow> string" where
  \<comment> \<open>the first loop of \<open>UpdateOrAddBreakpoint\<close> and \<open>ShiftAllFileBreakpoints\<close>\<close>
  "local_filename filename S =
     (case find (\<lambda>(k, v). v = filename) (m_map_fileSystemDap S) of Some (k, _) \<Rightarrow> k | None \<Rightarrow> filename)"

definition set_enabled_in_dap ::
  "'d fp \<Rightarrow> cb_env \<Rightarrow> string \<Rightarrow> bool \<Rightarrow> nat \<Rightarrow> 'cb Breakpoints \<Rightarrow> bp_error + nat \<times> 'cb Breakpoints" where
  \<comment> \<open>the two places of \<open>UpdateOrAddBreakpoint\<close> that change an existing breakpoint and return it\<close>
  "set_enabled_in_dap F E filename bEnable r S =
     (if db_enabled (obj S r) \<noteq> bEnable
      then bind_err (UpdateDAPSetBreakpointsByFileName F E filename (set_obj r (db_enabled_update (\<lambda>_. bEnable)) S))
             (\<lambda>S. Inr (r, S))
      else Inr (r, S))"

definition add_new_breakpoint ::
  "'d fp \<Rightarrow> cb_env \<Rightarrow> nat \<Rightarrow> string \<Rightarrow> int \<Rightarrow> int \<Rightarrow> 'cb Breakpoints \<Rightarrow> bp_error + nat \<times> 'cb Breakpoints" where
  \<comment> \<open>the last block of \<open>UpdateOrAddBreakpoint\<close>\<close>
  "add_new_breakpoint F E project filename line ID S =
     (let (r, S) = new_obj (DAPBreakpoint_new project filename line ID) S;
          S = UpdateMapFileBreakPoints filename r True S;
          S = S\<lparr> m_breakpoints := m_breakpoints S @ [r] \<rparr>
      in bind_err (UpdateDAPSetBreakpointsByFileName F E filename S) (\<lambda>S. Inr (r, S)))"

definition UpdateOrAddBreakpoint ::
  "'d fp \<Rightarrow> cb_env \<Rightarrow> string \<Rightarrow> int \<Rightarrow> bool \<Rightarrow> int \<Rightarrow> 'cb Breakpoints \<Rightarrow> bp_error + nat \<times> 'cb Breakpoints" where
  "UpdateOrAddBreakpoint F E filename line bEnable ID S =
     (let filenameBRK = local_filename filename S
      in case (if ID \<noteq> - 1 then GetBreakpointByID ID S else None) of
        Some r \<Rightarrow> set_enabled_in_dap F E filenameBRK bEnable r S
      | None \<Rightarrow>
          (let project = ce_FindProjectForFile E filenameBRK
           in case FindBreakpoint project filenameBRK line S of
             Some r \<Rightarrow> set_enabled_in_dap F E filenameBRK bEnable r
                         (if ID \<noteq> - 1 then set_obj r (db_ID_update (\<lambda>_. ID)) S else S)
           | None \<Rightarrow> add_new_breakpoint F E project filenameBRK line ID S))"

definition AddBreakpoint ::
  "'d fp \<Rightarrow> cb_env \<Rightarrow> string \<Rightarrow> int \<Rightarrow> 'cb Breakpoints \<Rightarrow> bp_error + nat \<times> 'cb Breakpoints" where
  "AddBreakpoint F E filename line S = UpdateOrAddBreakpoint F E filename line True (- 1) S"

definition DeleteBreakpoint ::
  "'d fp \<Rightarrow> cb_env \<Rightarrow> nat \<Rightarrow> 'cb Breakpoints \<Rightarrow> bp_error + 'cb Breakpoints" where
  "DeleteBreakpoint F E bp S =
     (if bp \<in> set (m_breakpoints S) \<and> db_type (obj S bp) = bptCode
      then let brkFileName = GetLocation (obj S bp);
               S = UpdateMapFileBreakPoints brkFileName bp False S;
               S = S\<lparr> m_breakpoints := remove1 bp (m_breakpoints S) \<rparr>
           in UpdateDAPSetBreakpointsByFileName F E brkFileName S
      else Inr S)"

definition DeleteAllBreakpoints :: "'d fp \<Rightarrow> cb_env \<Rightarrow> 'cb Breakpoints \<Rightarrow> 'cb Breakpoints" where
  "DeleteAllBreakpoints F E S =
     (let S = (if IsRunning (DAPDebuggerState S)
               then fold (\<lambda>(f, _). with_client (SetBreakpointsFile F (ce_GetFullName E) f []))
                      (m_map_filebreakpoints S) S
               else S)
      in S\<lparr> m_map_filebreakpoints := [], m_map_fileSystemDap := [], m_breakpoints := [] \<rparr>)"

record data_answer =   \<comment> \<open>what the data breakpoint dialog returns after OK\<close>
  da_enabled :: bool
  da_expression :: string
  da_selection :: int

definition AddDataBreakpoint ::
  "'d fp \<Rightarrow> cb_env \<Rightarrow> data_answer option \<Rightarrow> 'cb Breakpoints \<Rightarrow> bp_error + nat option \<times> 'cb Breakpoints" where
  "AddDataBreakpoint F E dlg S =
     (case dlg of
        Some a \<Rightarrow>
          (let (bp, S) = new_obj (DAPBreakpoint_default (m_pProject S)) S;
               S = set_obj bp (\<lambda>b. b\<lparr> db_type := bptData, db_enabled := da_enabled a,
                     db_breakAddress := da_expression a, db_breakOnRead := (da_selection a \<noteq> 1),
                     db_breakOnWrite := (da_selection a \<noteq> 0) \<rparr>) S
           in bind_err (AddBreakpoint F E (db_filename (obj S bp)) (db_line (obj S bp)) S)
                (\<lambda>(_, S). Inr (Some bp, S)))
      | None \<Rightarrow> Inr (None, S))"

definition EnableBreakpoint ::
  "'d fp \<Rightarrow> cb_env \<Rightarrow> nat \<Rightarrow> bool \<Rightarrow> 'cb Breakpoints \<Rightarrow> bp_error + 'cb Breakpoints" where
  "EnableBreakpoint F E bp bEnable S =
     (if bp \<in> set (m_breakpoints S)
      then if db_enabled (obj S bp) = bEnable then Inr S
           else bind_err
             (if IsRunning (DAPDebuggerState S)
              then bind_err (UpdateOrAddBreakpoint F E (GetLocation (obj S bp)) (db_line (obj S bp)) bEnable
                     (db_ID (obj S bp)) S)
                     (\<lambda>(_, S'). if m_breakpoints S' = m_breakpoints S then Inr S' else Inl Invalidated)
              else Inr S)
             (\<lambda>S. Inr (set_obj bp (db_enabled_update (\<lambda>_. bEnable)) S))
      else Inr S)"

record edit_answer =   \<comment> \<open>what the breakpoint editor returns after OK\<close>
  ea_enabled :: bool
  ea_useIgnoreCount :: bool
  ea_ignoreCount :: int
  ea_useCondition :: bool
  ea_condition :: string

definition EditBreakpointDlg_EndModal :: "edit_answer \<Rightarrow> DAPBreakpoint \<Rightarrow> DAPBreakpoint" where
  "EditBreakpointDlg_EndModal a b = b\<lparr> db_enabled := ea_enabled a,
     db_useIgnoreCount := ea_useIgnoreCount a, db_ignoreCount := ea_ignoreCount a,
     db_useCondition := ea_useCondition a, db_condition := CleanStringValue (ea_condition a) \<rparr>"

definition UpdateBreakpoint ::
  "'d fp \<Rightarrow> cb_env \<Rightarrow> edit_answer option \<Rightarrow> data_answer option \<Rightarrow> nat \<Rightarrow> 'cb Breakpoints
     \<Rightarrow> bp_error + 'cb Breakpoints" where
  "UpdateBreakpoint F E edit data bp S =
     (if bp \<notin> set (m_breakpoints S) then Inr S
      else
        (let (reset, S) =
               (case db_type (obj S bp) of
                  bptCode \<Rightarrow> (case edit of Some a \<Rightarrow> (True, set_obj bp (EditBreakpointDlg_EndModal a) S)
                              | None \<Rightarrow> (False, S))
                | bptData \<Rightarrow> (case data of
                      Some a \<Rightarrow> (True, set_obj bp (\<lambda>b. b\<lparr> db_enabled := da_enabled a,
                        db_breakOnRead := (da_selection a \<noteq> 1), db_breakOnWrite := (da_selection a \<noteq> 0),
                        db_breakAddress := da_expression a \<rparr>) S)
                    | None \<Rightarrow> (False, S))
                | bptFunction \<Rightarrow> (False, S))
         in if reset then
              (let debuggerIsStopped = IsStopped (DAPDebuggerState S);
                   S = (if \<not> debuggerIsStopped then with_client (Pause F wxNOT_FOUND) S else S)
               in bind_err (DeleteBreakpoint F E bp S) (\<lambda>S.
                    bind_err (AddBreakpoint F E (db_filename (obj S bp)) (db_line (obj S bp)) S) (\<lambda>(_, S).
                      Inr (if debuggerIsStopped then with_client (Continue F wxNOT_FOUND True) S else S))))
            else Inr S))"

definition shift_one :: "int \<Rightarrow> int \<Rightarrow> nat \<Rightarrow> nat list \<times> 'cb Breakpoints \<Rightarrow> nat list \<times> 'cb Breakpoints" where
  \<comment> \<open>the body of the loop for a breakpoint of the file at or after \<open>startline\<close>\<close>
  "shift_one startline lines r x =
     (let (remove, S) = x; brkline = db_line (obj S r)
      in if lines < 0
         then if brkline > startline - lines - 1 then (remove, set_obj r (SetShiftLines lines) S)
              else if brkline \<ge> startline \<and> brkline \<le> startline - lines - 1 then (remove @ [r], S)
              else (remove, S)
         else (remove, set_obj r (SetShiftLines lines) S))"

fun delete_each :: "'d fp \<Rightarrow> cb_env \<Rightarrow> nat list \<Rightarrow> 'cb Breakpoints \<Rightarrow> bp_error + 'cb Breakpoints" where
  "delete_each F E [] S = Inr S"
| "delete_each F E (r # rs) S = bind_err (DeleteBreakpoint F E r S) (delete_each F E rs)"

definition ShiftAllFileBreakpoints ::
  "'d fp \<Rightarrow> cb_env \<Rightarrow> string \<Rightarrow> int \<Rightarrow> int \<Rightarrow> 'cb Breakpoints \<Rightarrow> bp_error + 'cb Breakpoints" where
  "ShiftAllFileBreakpoints F E editorFilename startline lines S =
     (let filenameBRK = local_filename editorFilename S;
          project = ce_FindProjectForFile E filenameBRK;
          (brksToRemove, S) = fold (\<lambda>r x.
             if db_project (obj (snd x) r) = project \<and> db_filename (obj (snd x) r) = filenameBRK
                \<and> db_line (obj (snd x) r) \<ge> startline
             then shift_one startline lines r x else x) (m_breakpoints S) ([], S)
      in delete_each F E brksToRemove S)"

definition RunToCursor ::
  "'d fp \<Rightarrow> cb_env \<Rightarrow> string \<Rightarrow> int \<Rightarrow> 'cb Breakpoints \<Rightarrow> bp_error + 'cb Breakpoints" where
  "RunToCursor F E filename line S =
     (if IsRunning (DAPDebuggerState S)
      then if IsStopped (DAPDebuggerState S)
           then bind_err (AddBreakpoint F E filename line S) (\<lambda>(bp, S).
                  Inr (with_client (Continue F wxNOT_FOUND True) (set_obj bp (db_temporary_update (\<lambda>_. True)) S)))
           else Inr S
      else bind_err (AddBreakpoint F E filename line S) (\<lambda>(bp, S).
             Inr (set_obj bp (db_temporary_update (\<lambda>_. True)) S)))"

section \<open>Start and end of a session\<close>

fun update_each :: "'d fp \<Rightarrow> cb_env \<Rightarrow> string list \<Rightarrow> 'cb Breakpoints \<Rightarrow> bp_error + 'cb Breakpoints" where
  "update_each F E [] S = Inr S"
| "update_each F E (f # fs) S = bind_err (UpdateDAPSetBreakpointsByFileName F E f S) (update_each F E fs)"

definition map_each :: "cb_env \<Rightarrow> nat list \<Rightarrow> 'cb Breakpoints \<Rightarrow> 'cb Breakpoints" where
  "map_each E rs S = fold (\<lambda>r S.
     case wx_ToLong (ce_num E) (show_int (db_line (obj S r))) of
       Some _ \<Rightarrow> UpdateMapFileBreakPoints (db_filename (obj S r)) r True S
     | None \<Rightarrow> S) rs S"

definition CreateStartBreakpoints :: "'d fp \<Rightarrow> cb_env \<Rightarrow> 'cb Breakpoints \<Rightarrow> bp_error + 'cb Breakpoints" where
  "CreateStartBreakpoints F E S =
     (let S = map_each E (m_breakpoints S) S;
          S = map_each E (m_temporary_breakpoints S) S
      in bind_err (update_each F E (map fst (m_map_filebreakpoints S)) S)
           (\<lambda>S. Inr (S\<lparr> m_temporary_breakpoints := [] \<rparr>)))"

definition CompilerFinished :: "bool \<Rightarrow> StartType \<Rightarrow> 'cb Breakpoints \<Rightarrow> 'cb Breakpoints" where
  "CompilerFinished compilerFailed startType S =
     (if compilerFailed \<or> startType = StartTypeUnknown then S\<lparr> m_temporary_breakpoints := [] \<rparr> else S)"

definition SetDebuggee :: "string \<Rightarrow> 'cb Breakpoints \<Rightarrow> 'cb Breakpoints" where
  "SetDebuggee debuggee S = S\<lparr> m_debuggee := debuggee \<rparr>"

definition SetProject :: "nat \<Rightarrow> 'cb Breakpoints \<Rightarrow> 'cb Breakpoints" where
  "SetProject project S = S\<lparr> m_pProject := project \<rparr>"

definition DAPDebuggerResetData :: "ResetDataType \<Rightarrow> 'cb Breakpoints \<Rightarrow> 'cb Breakpoints" where
  "DAPDebuggerResetData bClearAllData S =
     (let S = (if bClearAllData = ResetData_All then S\<lparr> m_breakpoints := [] \<rparr> else S)
      in if bClearAllData = ResetData_Startup \<or> bClearAllData = ResetData_All
         then S\<lparr> m_map_filebreakpoints := [], m_map_fileSystemDap := [] \<rparr> else S)"

definition CleanupWhenProjectClosed :: "'cb Breakpoints \<Rightarrow> 'cb Breakpoints" where
  \<comment> \<open>after \<open>SaveStateToFile\<close>, which does not change the state\<close>
  "CleanupWhenProjectClosed S =
     S\<lparr> m_breakpoints := [], m_map_filebreakpoints := [], m_map_fileSystemDap := [] \<rparr>"

section \<open>The state file\<close>

definition SaveStateToFile :: "bool \<Rightarrow> string \<Rightarrow> string \<Rightarrow> string \<Rightarrow> nat \<Rightarrow> 'cb Breakpoints \<Rightarrow> xml" where
  \<comment> \<open>the root element that is written, for a project with a file name; the arguments before the
    project are its title and the compiler's name and configuration\<close>
  "SaveStateToFile bits64 title compiler dbgconfig project S =
     Elem ''Debugger_layout_file'' []
       [AddChildNode ''DBGconfig'' dbgconfig (AddChildNode ''CompilerName'' compiler (Elem ''CompilerInfo'' [] [])),
        Elem ''BreakpointsList'' []
          (map (\<lambda>r. SaveBreakpointToXML bits64 title (obj S r))
             (filter (\<lambda>r. db_project (obj S r) = project) (m_breakpoints S)))]"

definition update_matching :: "DAPBreakpoint \<Rightarrow> 'cb Breakpoints \<Rightarrow> 'cb Breakpoints" where
  \<comment> \<open>the inner loop of \<open>LoadStateFromFile\<close>; the getters used are those of a non-const object\<close>
  "update_matching bpNew S = fold (\<lambda>r S.
     if db_project (obj S r) = db_project bpNew \<and> db_filename (obj S r) = db_filename bpNew
        \<and> db_line (obj S r) = db_line bpNew
     then set_obj r (\<lambda>b. b\<lparr> db_enabled := db_enabled bpNew, db_useIgnoreCount := db_useIgnoreCount bpNew,
            db_ignoreCount := db_ignoreCount bpNew, db_useCondition := db_useCondition bpNew,
            db_condition := db_condition bpNew \<rparr>) S
     else S) (m_breakpoints S) S"

definition LoadStateFromFile :: "xml \<Rightarrow> nat \<Rightarrow> 'cb Breakpoints \<Rightarrow> 'cb Breakpoints" where
  \<comment> \<open>for the root element of a file that was read; the call that would fill \<open>bpNew\<close> from the
    element is commented out in the source\<close>
  "LoadStateFromFile root project S =
     (case FirstChildElement ''BreakpointsList'' root of
        None \<Rightarrow> S
      | Some pBreakpointList \<Rightarrow>
          fold (\<lambda>_ S. update_matching (DAPBreakpoint_default project) S)
            (dropWhile (\<lambda>e. xml_name e \<noteq> ''Breakpoint'') (xml_children pBreakpointList)) S)"

section \<open>Events of the client\<close>

definition hit_text :: string where
  "hit_text = ''hitBreakpointIds'' @ CHR 0x22 # '': [''"

definition hit_id :: "string \<Rightarrow> bp_error + string" where
  \<comment> \<open>\<open>brkID\<close> of a description that is not empty; without the text only \<open>substr\<close> is called\<close>
  "hit_id brkDescription =
     (case find_sub hit_text brkDescription of
        Some brkLookupIndexStart \<Rightarrow>
          (let brkLookup = drop (brkLookupIndexStart + length hit_text) brkDescription
           in Inr (case find_char CHR '']'' brkLookup of None \<Rightarrow> brkLookup | Some n \<Rightarrow> take n brkLookup))
      | None \<Rightarrow> (if find_char CHR '' '' brkDescription = None then Inl OutOfRange else Inr []))"

definition OnProcessBreakpointData ::
  "'d fp \<Rightarrow> cb_env \<Rightarrow> string \<Rightarrow> 'cb Breakpoints \<Rightarrow> bp_error + 'cb Breakpoints" where
  "OnProcessBreakpointData F E brkDescription S =
     bind_err
       (if brkDescription = [] then Inr S
        else bind_err (hit_id brkDescription) (\<lambda>brkID.
          if brkID = [] then Inr S
          else case wx_ToLong (ce_num E) brkID of
            None \<Rightarrow> Inr S
          | Some n \<Rightarrow>
              (case GetBreakpointByID (wrap32 n) S of
                 None \<Rightarrow> Inr S
               | Some bp \<Rightarrow>
                   (if db_filename (obj S bp) \<noteq> []
                    then let S = S\<lparr> b_synced := b_synced S @ [(db_filename (obj S bp), db_line (obj S bp) + 1)] \<rparr>
                         in if db_temporary (obj S bp) then DeleteBreakpoint F E bp S else Inr S
                    else Inr S))))
       (\<lambda>S. Inr (with_client (GetThreads F) (with_client (GetFrames F wxNOT_FOUND 0 0) S)))"

definition OnInitializedEvent :: "'d fp \<Rightarrow> cb_env \<Rightarrow> 'cb Breakpoints \<Rightarrow> bp_error + 'cb Breakpoints" where
  "OnInitializedEvent F E S =
     bind_err (CreateStartBreakpoints F E S) (\<lambda>S.
       let S = (if m_start_type S = StartTypeStepInto
                then (with_client (SetFunctionBreakpoints F [\<lparr> fb_name = ''main'', fb_condition = [] \<rparr>]) S)
                       \<lparr> m_start_type := StartTypeUnknown \<rparr>
                else S)
       in if ce_ExceptionCatch E \<or> ce_ExceptionThrow E
          then let vExceptionFilters = map ef_filter (filter (\<lambda>x.
                       IsSameAs_nocase (ef_filter x) ''cpp_catch'' \<and> ce_ExceptionCatch E
                     \<or> IsSameAs_nocase (ef_filter x) ''cpp_throw'' \<and> ce_ExceptionThrow E)
                     (vExceptionBreakpointFilters S))
               in Inr (if vExceptionFilters \<noteq> [] then with_client (SetExceptionBreakpoints F vExceptionFilters) S else S)
          else Inr S)"

definition OnInitializeResponse :: "InitializeResponse option \<Rightarrow> 'cb Breakpoints \<Rightarrow> 'cb Breakpoints" where
  "OnInitializeResponse response_data S =
     (case response_data of
        Some x \<Rightarrow> (if rs_success x
          then (case cp_exceptionBreakpointFilters (ip_capabilities x) of
                  Some fs \<Rightarrow> S\<lparr> vExceptionBreakpointFilters := fs \<rparr> | None \<Rightarrow> S)
          else S)
      | None \<Rightarrow> S)"

definition match_line ::
  "'d fp \<Rightarrow> cb_env \<Rightarrow> int \<Rightarrow> int \<Rightarrow> nat \<Rightarrow> 'cb Breakpoints \<Rightarrow> bp_error + 'cb Breakpoints" where
  \<comment> \<open>the loop over the breakpoints for an answer without a path: body for index \<open>ii\<close>\<close>
  "match_line F E line ID ii S =
     (let pBreakpoint = GetBreakpoint ii S; filePath = GetLocation (obj S pBreakpoint)
      in if filePath \<noteq> [] \<and> db_line (obj S pBreakpoint) = line
         then bind_err (UpdateOrAddBreakpoint F E filePath line True ID S) (\<lambda>(_, S). Inr S)
         else Inr S)"

fun match_lines ::
  "'d fp \<Rightarrow> cb_env \<Rightarrow> int \<Rightarrow> int \<Rightarrow> nat list \<Rightarrow> 'cb Breakpoints \<Rightarrow> bp_error + 'cb Breakpoints" where
  "match_lines F E line ID [] S = Inr S"
| "match_lines F E line ID (ii # is) S = bind_err (match_line F E line ID ii S) (match_lines F E line ID is)"

definition breakpoint_set ::
  "'d fp \<Rightarrow> cb_env \<Rightarrow> Breakpoint \<Rightarrow> 'cb Breakpoints \<Rightarrow> bp_error + 'cb Breakpoints" where
  \<comment> \<open>the body of the loop of \<open>OnBreakpointDataSet\<close>\<close>
  "breakpoint_set F E bp S =
     (if bp_line bp \<noteq> - 1 \<and> bp_verified bp \<and> src_path (bp_source bp) \<noteq> []
      then bind_err (UpdateOrAddBreakpoint F E (src_path (bp_source bp)) (bp_line bp) True (bp_id bp) S)
             (\<lambda>(_, S). Inr S)
      else if bp_line bp \<noteq> - 1 \<and> bp_verified bp
      then match_lines F E (bp_line bp) (bp_id bp) [0..<GetBreakpointsCount S] S
      else Inr S)"

fun breakpoints_set ::
  "'d fp \<Rightarrow> cb_env \<Rightarrow> Breakpoint list \<Rightarrow> 'cb Breakpoints \<Rightarrow> bp_error + 'cb Breakpoints" where
  "breakpoints_set F E [] S = Inr S"
| "breakpoints_set F E (bp # bps) S = bind_err (breakpoint_set F E bp S) (breakpoints_set F E bps)"

definition OnBreakpointDataSet ::
  "'d fp \<Rightarrow> cb_env \<Rightarrow> SetBreakpointsResponse option \<Rightarrow> 'cb Breakpoints \<Rightarrow> bp_error + 'cb Breakpoints" where
  "OnBreakpointDataSet F E resp S =
     (case resp of Some x \<Rightarrow> breakpoints_set F E (gs_breakpoints x) S | None \<Rightarrow> Inr S)"

end
