(* ===== verification/Dap_BreakpointTable.thy ===== *)
theory Dap_BreakpointTable
  imports Dap_Breakpoints
begin

text \<open>
  Sequences of calls of the breakpoint manager and what stays true in them. The locale
  \<open>table_invariant\<close> lists the primitive changes the operations are made of; an invariant that
  respects them holds in every session, and the interpretations give three: the list and the map
  of files describe the same breakpoints, the debugger state always has \<open>Stopped\<close>, and no
  breakpoint is ever kept as temporary list entry.
\<close>

section \<open>Ordered maps\<close>

lemma smap_insert_keys: "set (map fst (smap_insert k v m)) = insert k (set (map fst m))"
  by (induction k v m rule: smap_insert.induct) auto

lemma smap_insert_sorted:
  "sorted_wrt (<) (map fst m) \<Longrightarrow> sorted_wrt (<) (map fst (smap_insert k v m))"
proof (induction k v m rule: smap_insert.induct)
  case (2 k v k' v' m)
  then show ?case
    using smap_insert_keys [of k v m] by (auto simp: less_le_not_le intro: order.strict_trans)
qed simp

lemma map_of_above: "\<forall>k' \<in> set (map fst m). k < k' \<Longrightarrow> map_of m (k :: string) = None"
  by (induction m) auto

lemma map_of_smap_insert:
  "sorted_wrt (<) (map fst m) \<Longrightarrow>
     map_of (smap_insert k v m) = (if map_of m k = None then (map_of m)(k \<mapsto> v) else map_of m)"
proof (induction k v m rule: smap_insert.induct)
  case (2 k v k' v' m)
  show ?case
  proof (cases "k < k'")
    case True
    then have "map_of ((k', v') # m) k = None"
      using "2.prems" by (intro map_of_above) (auto intro: order.strict_trans)
    then show ?thesis using True by auto
  qed (use 2 in \<open>auto simp: fun_eq_iff split: if_splits\<close>)
qed simp

lemma sorted_update:
  "sorted_wrt (<) (map fst m) \<Longrightarrow> map_of m k \<noteq> None \<Longrightarrow> sorted_wrt (<) (map fst (AList.update k v m))"
  by (auto simp: update_keys map_of_eq_None_iff simp del: list.set_map)

lemma sorted_delete: "sorted_wrt (<) (map fst m) \<Longrightarrow> sorted_wrt (<) (map fst (AList.delete k m))"
  by (simp add: delete_keys removeAll_filter_not_eq sorted_wrt_filter)

lemma erase_first_unique: "(\<And>x. x \<in> set v \<Longrightarrow> P x = (x = r)) \<Longrightarrow> erase_first P v = remove1 r v"
proof (induction v)
  case Nil
  then show ?case by (simp add: erase_first_def)
next
  case (Cons x v)
  have "erase_first P v = remove1 r v" by (rule Cons.IH) (simp add: Cons.prems)
  moreover have "P x = (x = r)" by (rule Cons.prems) simp
  ultimately show ?case by (simp add: erase_first_def)
qed

section \<open>What the invariants look at\<close>

definition place :: "DAPBreakpoint \<Rightarrow> BreakpointType \<times> nat \<times> string \<times> int" where
  "place b = (db_type b, db_project b, db_filename b, db_line b)"

definition core where
  "core S = (m_breakpoints S, m_map_filebreakpoints S, b_next S, place \<circ> b_heap S, DAPDebuggerState S,
     m_temporary_breakpoints S)"

lemma new_fields [simp]:
  "db_type (DAPBreakpoint_new p f l i) = bptCode" "db_project (DAPBreakpoint_new p f l i) = p"
  "db_filename (DAPBreakpoint_new p f l i) = f" "db_line (DAPBreakpoint_new p f l i) = l"
  "db_ID (DAPBreakpoint_new p f l i) = i" "db_enabled (DAPBreakpoint_new p f l i)"
  by (simp_all add: DAPBreakpoint_new_def)

lemma core_set_obj: "(\<And>b. place (f b) = place b) \<Longrightarrow> core (set_obj r f S) = core S"
  by (auto simp: core_def set_obj_def fun_eq_iff)

lemma core_flags [simp]:
  "core (set_obj r (db_enabled_update f) S) = core S" "core (set_obj r (db_ID_update g) S) = core S"
  "core (set_obj r (db_temporary_update f) S) = core S"
  "core (set_obj r (EditBreakpointDlg_EndModal a) S) = core S"
  by (simp_all add: core_set_obj place_def EditBreakpointDlg_EndModal_def)

definition data_edited :: "data_answer \<Rightarrow> DAPBreakpoint \<Rightarrow> DAPBreakpoint" where
  \<comment> \<open>the change of a data breakpoint in \<open>UpdateBreakpoint\<close>\<close>
  "data_edited a = (\<lambda>b. b\<lparr> db_enabled := da_enabled a, db_breakOnRead := (da_selection a \<noteq> 1),
     db_breakOnWrite := (da_selection a \<noteq> 0), db_breakAddress := da_expression a \<rparr>)"

definition matched :: "DAPBreakpoint \<Rightarrow> DAPBreakpoint \<Rightarrow> DAPBreakpoint" where
  \<comment> \<open>the change of a breakpoint in \<open>LoadStateFromFile\<close>\<close>
  "matched bn = (\<lambda>b. b\<lparr> db_enabled := db_enabled bn, db_useIgnoreCount := db_useIgnoreCount bn,
     db_ignoreCount := db_ignoreCount bn, db_useCondition := db_useCondition bn,
     db_condition := db_condition bn \<rparr>)"

lemma core_edits [simp]:
  "core (set_obj r (data_edited a) S) = core S" "core (set_obj r (matched bn) S) = core S"
  by (simp_all add: core_set_obj place_def data_edited_def matched_def)

lemma set_new_obj: "set_obj (b_next S) f (snd (new_obj b S)) = snd (new_obj (f b) S)" "fst (new_obj b S) = b_next S"
  by (simp_all add: set_obj_def new_obj_def)

lemma core_updates [simp]:
  "core (with_client h S) = core S" "core (S\<lparr> m_map_fileSystemDap := m \<rparr>) = core S"
  "core (S\<lparr> b_synced := y \<rparr>) = core S" "core (S\<lparr> m_start_type := t \<rparr>) = core S"
  "core (S\<lparr> m_debuggee := d \<rparr>) = core S" "core (S\<lparr> m_pProject := p \<rparr>) = core S"
  "core (S\<lparr> vExceptionBreakpointFilters := fs \<rparr>) = core S" "core (S\<lparr> m_pDAPClient := c \<rparr>) = core S"
  by (simp_all add: core_def with_client_def)

lemma coreD:
  assumes "core S' = core S"
  shows "m_breakpoints S' = m_breakpoints S" "m_map_filebreakpoints S' = m_map_filebreakpoints S"
    "b_next S' = b_next S" "DAPDebuggerState S' = DAPDebuggerState S"
    "m_temporary_breakpoints S' = m_temporary_breakpoints S"
    "db_type (obj S' r) = db_type (obj S r)" "db_project (obj S' r) = db_project (obj S r)"
    "db_filename (obj S' r) = db_filename (obj S r)" "db_line (obj S' r) = db_line (obj S r)"
  using assms by (auto simp: core_def fun_eq_iff place_def obj_def)

lemma bind_err_Inr: "bind_err x f = Inr b \<longleftrightarrow> (\<exists>a. x = Inr a \<and> f a = Inr b)"
  by (cases x) auto

lemma map_sum_Inr: "map_sum id g x = Inr b \<longleftrightarrow> (\<exists>a. x = Inr a \<and> g a = b)"
  by (cases x) auto

lemma UpdateDAP_not_running:
  "\<not> IsRunning (DAPDebuggerState S) \<Longrightarrow> UpdateDAPSetBreakpointsByFileName F E f S = Inr S"
  by (simp add: UpdateDAPSetBreakpointsByFileName_def)

lemma UpdateDAP_core:
  "UpdateDAPSetBreakpointsByFileName F E f S = Inr S' \<Longrightarrow> core S' = core S"
  by (auto simp: UpdateDAPSetBreakpointsByFileName_def bind_err_def Let_def
      split: if_splits sum.splits option.splits)

lemma set_enabled_core:
  "set_enabled_in_dap F E f e r S = Inr (r', S') \<Longrightarrow> core S' = core S \<and> r' = r"
  by (auto simp: set_enabled_in_dap_def bind_err_def dest!: UpdateDAP_core split: if_splits sum.splits)

lemma find_cong_core:
  assumes "core S' = core S"
  shows "FindBreakpoint p f line S' = FindBreakpoint p f line S"
  by (simp add: FindBreakpoint_def coreD [OF assms])

lemma UpdateMap_frame:
  "m_breakpoints (UpdateMapFileBreakPoints f r a S) = m_breakpoints S"
  "obj (UpdateMapFileBreakPoints f r a S) = obj S"
  "b_next (UpdateMapFileBreakPoints f r a S) = b_next S"
  "DAPDebuggerState (UpdateMapFileBreakPoints f r a S) = DAPDebuggerState S"
  "m_temporary_breakpoints (UpdateMapFileBreakPoints f r a S) = m_temporary_breakpoints S"
  "m_debuggee (UpdateMapFileBreakPoints f r a S) = m_debuggee S"
  "m_pDAPClient (UpdateMapFileBreakPoints f r a S) = m_pDAPClient S"
  "m_map_fileSystemDap (UpdateMapFileBreakPoints f r a S) = m_map_fileSystemDap S"
  by (auto simp: UpdateMapFileBreakPoints_def obj_def fun_eq_iff Let_def split: option.splits)

lemma map_each_frame:
  "m_temporary_breakpoints (map_each E rs S) = m_temporary_breakpoints S"
  "m_breakpoints (map_each E rs S) = m_breakpoints S" "obj (map_each E rs S) = obj S"
  "DAPDebuggerState (map_each E rs S) = DAPDebuggerState S" "m_debuggee (map_each E rs S) = m_debuggee S"
  "m_pDAPClient (map_each E rs S) = m_pDAPClient S"
  by (induction rs arbitrary: S) (simp_all add: map_each_def UpdateMap_frame split: option.splits)

lemma map_each_Nil [simp]: "map_each E [] S = S"
  by (simp add: map_each_def)

section \<open>The primitive changes\<close>

definition add_entry :: "nat \<Rightarrow> string \<Rightarrow> int \<Rightarrow> int \<Rightarrow> 'cb Breakpoints \<Rightarrow> 'cb Breakpoints" where
  "add_entry project f line ID S =
     (let (r, S) = new_obj (DAPBreakpoint_new project f line ID) S;
          S = UpdateMapFileBreakPoints f r True S
      in S\<lparr> m_breakpoints := m_breakpoints S @ [r] \<rparr>)"

lemma add_new_breakpoint_eq:
  "add_new_breakpoint F E project f line ID S =
     bind_err (UpdateDAPSetBreakpointsByFileName F E f (add_entry project f line ID S)) (\<lambda>S'. Inr (b_next S, S'))"
  by (simp add: add_new_breakpoint_def add_entry_def Let_def case_prod_beta set_new_obj)

definition remove_entry :: "nat \<Rightarrow> 'cb Breakpoints \<Rightarrow> 'cb Breakpoints" where
  "remove_entry bp S =
     (let S = UpdateMapFileBreakPoints (db_filename (obj S bp)) bp False S
      in S\<lparr> m_breakpoints := remove1 bp (m_breakpoints S) \<rparr>)"

definition shift_loop :: "nat \<Rightarrow> string \<Rightarrow> int \<Rightarrow> int \<Rightarrow> 'cb Breakpoints \<Rightarrow> nat list \<times> 'cb Breakpoints" where
  "shift_loop project f startline lines S = fold (\<lambda>r x.
     if db_project (obj (snd x) r) = project \<and> db_filename (obj (snd x) r) = f
        \<and> db_line (obj (snd x) r) \<ge> startline
     then shift_one startline lines r x else x) (m_breakpoints S) ([], S)"

datatype 'cb bp_op =
    B_Add string int
  | B_UpdateOrAdd string int bool int
  | B_Delete nat
  | B_DeleteAll
  | B_Enable nat bool
  | B_Update "edit_answer option" "data_answer option" nat
  | B_AddData "data_answer option"
  | B_Shift string int int
  | B_RunToCursor string int
  | B_Initialized
  | B_InitializeResponse "InitializeResponse option"
  | B_DataSet "SetBreakpointsResponse option"
  | B_Process string
  | B_Reset ResetDataType
  | B_ProjectClosed
  | B_Load xml nat
  | B_CompilerFinished bool StartType
  | B_SetDebuggee string
  | B_SetProject nat
  | B_SetStartType StartType
  | B_State dbg_op
  | B_Client "'cb Client \<Rightarrow> 'cb Client"   \<comment> \<open>what other parts of the plugin do with the client\<close>

primrec bp_apply :: "'d fp \<Rightarrow> cb_env \<Rightarrow> 'cb bp_op \<Rightarrow> 'cb Breakpoints \<Rightarrow> bp_error + 'cb Breakpoints" where
  "bp_apply F E (B_Add f line) S = map_sum id snd (AddBreakpoint F E f line S)"
| "bp_apply F E (B_UpdateOrAdd f line e ID) S = map_sum id snd (UpdateOrAddBreakpoint F E f line e ID S)"
| "bp_apply F E (B_Delete r) S = DeleteBreakpoint F E r S"
| "bp_apply F E B_DeleteAll S = Inr (DeleteAllBreakpoints F E S)"
| "bp_apply F E (B_Enable r e) S = EnableBreakpoint F E r e S"
| "bp_apply F E (B_Update edit data r) S = UpdateBreakpoint F E edit data r S"
| "bp_apply F E (B_AddData dlg) S = map_sum id snd (AddDataBreakpoint F E dlg S)"
| "bp_apply F E (B_Shift f start n) S = ShiftAllFileBreakpoints F E f start n S"
| "bp_apply F E (B_RunToCursor f line) S = RunToCursor F E f line S"
| "bp_apply F E B_Initialized S = OnInitializedEvent F E S"
| "bp_apply F E (B_InitializeResponse x) S = Inr (OnInitializeResponse x S)"
| "bp_apply F E (B_DataSet x) S = OnBreakpointDataSet F E x S"
| "bp_apply F E (B_Process s) S = OnProcessBreakpointData F E s S"
| "bp_apply F E (B_Reset t) S = Inr (DAPDebuggerResetData t S)"
| "bp_apply F E B_ProjectClosed S = Inr (CleanupWhenProjectClosed S)"
| "bp_apply F E (B_Load root p) S = Inr (LoadStateFromFile root p S)"
| "bp_apply F E (B_CompilerFinished failed t) S = Inr (CompilerFinished failed t S)"
| "bp_apply F E (B_SetDebuggee d) S = Inr (SetDebuggee d S)"
| "bp_apply F E (B_SetProject p) S = Inr (SetProject p S)"
| "bp_apply F E (B_SetStartType t) S = Inr (S\<lparr> m_start_type := t \<rparr>)"
| "bp_apply F E (B_State op) S = Inr (S\<lparr> DAPDebuggerState := dbg_step op (DAPDebuggerState S) \<rparr>)"
| "bp_apply F E (B_Client g) S = Inr (with_client g S)"

definition op_ok :: "'cb bp_op \<Rightarrow> bool" where
  \<comment> \<open>state changes as the plugin makes them, and no removal of lines\<close>
  "op_ok op \<longleftrightarrow> (case op of B_State st \<Rightarrow> st \<in> set plugin_ops | B_Shift _ _ n \<Rightarrow> 0 \<le> n | _ \<Rightarrow> True)"

inductive bp_session :: "'d fp \<Rightarrow> cb_env \<Rightarrow> 'cb bp_op list \<Rightarrow> 'cb Breakpoints \<Rightarrow> bool" for F E where
  bp_start: "bp_session F E [] (Breakpoints_new cl)"
| bp_step: "bp_session F E ops S \<Longrightarrow> op_ok op \<Longrightarrow> bp_apply F E op S = Inr S' \<Longrightarrow> bp_session F E (ops @ [op]) S'"

section \<open>Invariants\<close>

locale table_invariant =
  fixes P :: "'cb Breakpoints \<Rightarrow> bool" and E :: cb_env
  assumes frame: "P S \<Longrightarrow> core S' = core S \<Longrightarrow> P S'"
    and start: "P (Breakpoints_new cl)"
    and temporaries: "P S \<Longrightarrow> m_temporary_breakpoints S = []"
    and alloc: "P S \<Longrightarrow> P (snd (new_obj b S))"
    and add: "P S \<Longrightarrow> project = ce_FindProjectForFile E f \<Longrightarrow> FindBreakpoint project f line S = None
      \<Longrightarrow> P (add_entry project f line ID S)"
    and remove: "P S \<Longrightarrow> bp \<in> set (m_breakpoints S) \<Longrightarrow> db_type (obj S bp) = bptCode \<Longrightarrow> P (remove_entry bp S)"
    and remap: "P S \<Longrightarrow> r \<in> set (m_breakpoints S)
      \<Longrightarrow> P (UpdateMapFileBreakPoints (db_filename (obj S r)) r True S)"
    and clear_map: "P S \<Longrightarrow> P (S\<lparr> m_map_filebreakpoints := [] \<rparr>)"
    and clear_all: "P S \<Longrightarrow> P (S\<lparr> m_breakpoints := [], m_map_filebreakpoints := [] \<rparr>)"
    and shift: "P S \<Longrightarrow> 0 \<le> n \<Longrightarrow> P (snd (shift_loop project f start n S))"
    and state: "P S \<Longrightarrow> op \<in> set plugin_ops \<Longrightarrow> P (S\<lparr> DAPDebuggerState := dbg_step op (DAPDebuggerState S) \<rparr>)"
begin

lemma keeps:
  "P S \<Longrightarrow> P (set_obj r (db_enabled_update f) S)" "P S \<Longrightarrow> P (set_obj r (db_temporary_update f) S)"
  "P S \<Longrightarrow> P (set_obj r (EditBreakpointDlg_EndModal a) S)" "P S \<Longrightarrow> P (with_client h S)"
  "P S \<Longrightarrow> P (S\<lparr> m_map_fileSystemDap := m \<rparr>)" "P S \<Longrightarrow> P (S\<lparr> b_synced := y \<rparr>)"
  "P S \<Longrightarrow> P (S\<lparr> m_start_type := t \<rparr>)" "P S \<Longrightarrow> P (S\<lparr> m_debuggee := d \<rparr>)"
  "P S \<Longrightarrow> P (S\<lparr> m_pProject := p \<rparr>)" "P S \<Longrightarrow> P (S\<lparr> vExceptionBreakpointFilters := fs \<rparr>)"
  "P S \<Longrightarrow> P (set_obj r (data_edited da) S)" "P S \<Longrightarrow> P (set_obj r (matched bn) S)"
  by (erule frame; simp)+

lemma UpdateDAP: "P S \<Longrightarrow> UpdateDAPSetBreakpointsByFileName F E f S = Inr S' \<Longrightarrow> P S'"
  using frame UpdateDAP_core by blast

lemma UpdateOrAdd:
  assumes "P S" "UpdateOrAddBreakpoint F E f line e ID S = Inr (r, S')"
  shows "P S'"
proof -
  let ?f = "local_filename f S" and ?S = "\<lambda>r. if ID \<noteq> - 1 then set_obj r (db_ID_update (\<lambda>_. ID)) S else S"
  consider (old) r0 S0 where "core S0 = core S" "set_enabled_in_dap F E ?f e r0 S0 = Inr (r, S')"
    | (new) "FindBreakpoint (ce_FindProjectForFile E ?f) ?f line S = None"
        "add_new_breakpoint F E (ce_FindProjectForFile E ?f) ?f line ID S = Inr (r, S')"
    using assms(2) unfolding UpdateOrAddBreakpoint_def Let_def
    by (auto split: option.splits if_splits) (metis core_flags(2))
  then show ?thesis
  proof cases
    case old
    then show ?thesis using set_enabled_core [OF old(2)] frame [OF assms(1)] by metis
  next
    case new
    have "P (add_entry (ce_FindProjectForFile E ?f) ?f line ID S)" using assms(1) new(1) by (blast intro: add)
    then show ?thesis using new(2) UpdateDAP
      by (auto simp: add_new_breakpoint_def add_entry_def Let_def bind_err_def case_prod_beta split: sum.splits)
  qed
qed

lemma AddBreakpoint: "P S \<Longrightarrow> AddBreakpoint F E f line S = Inr (r, S') \<Longrightarrow> P S'"
  unfolding AddBreakpoint_def by (rule UpdateOrAdd)

lemma DeleteBreakpoint:
  assumes "P S" "DeleteBreakpoint F E bp S = Inr S'"
  shows "P S'"
proof (cases "bp \<in> set (m_breakpoints S) \<and> db_type (obj S bp) = bptCode")
  case True
  then have "UpdateDAPSetBreakpointsByFileName F E (db_filename (obj S bp)) (remove_entry bp S) = Inr S'"
    using assms(2) by (simp add: DeleteBreakpoint_def remove_entry_def GetLocation_def Let_def)
  then show ?thesis using True UpdateDAP [OF remove [OF assms(1)]] by blast
qed (use assms in \<open>auto simp: DeleteBreakpoint_def\<close>)

lemma delete_each: "P S \<Longrightarrow> delete_each F E rs S = Inr S' \<Longrightarrow> P S'"
  by (induction rs arbitrary: S) (auto simp: bind_err_def dest: DeleteBreakpoint split: sum.splits)

lemma update_each: "P S \<Longrightarrow> update_each F E fs S = Inr S' \<Longrightarrow> P S'"
  by (induction fs arbitrary: S) (auto simp: bind_err_def dest: UpdateDAP split: sum.splits)

lemma map_each: "P S \<Longrightarrow> set rs \<subseteq> set (m_breakpoints S) \<Longrightarrow> P (map_each E rs S)"
proof (induction rs arbitrary: S)
  case (Cons r rs)
  let ?S = "UpdateMapFileBreakPoints (db_filename (obj S r)) r True S"
  have "P ?S" using Cons.prems by (simp add: remap)
  then have "P (map_each E rs ?S)"
    using Cons by (auto simp: UpdateMap_frame)
  moreover have "P (map_each E rs S)" using Cons by simp
  ultimately show ?case by (simp add: map_each_def split: option.splits)
qed (simp add: map_each_def)

lemma CreateStart:
  assumes "P S" "CreateStartBreakpoints F E S = Inr S'"
  shows "P S'"
proof -
  let ?S = "map_each E (m_breakpoints S) S"
  have t: "m_temporary_breakpoints ?S = []" by (simp add: map_each_frame temporaries [OF assms(1)])
  have "P ?S" using map_each [OF assms(1)] by simp
  moreover obtain S1 where u: "update_each F E (map fst (m_map_filebreakpoints ?S)) ?S = Inr S1"
    and S': "S' = S1\<lparr> m_temporary_breakpoints := [] \<rparr>"
    using assms(2) by (auto simp: CreateStartBreakpoints_def Let_def t bind_err_def split: sum.splits)
  ultimately have P: "P S1" using update_each by blast
  have "S' = S1" using temporaries [OF P] by (simp add: S')
  then show ?thesis using P by simp
qed

lemma ShiftAll:
  assumes "P S" "0 \<le> n" "ShiftAllFileBreakpoints F E f start n S = Inr S'"
  shows "P S'"
  using shift [OF assms(1,2)] assms(3) unfolding ShiftAllFileBreakpoints_def Let_def
    shift_loop_def [symmetric] case_prod_beta by (rule delete_each)

lemmas called = AddBreakpoint [rotated] UpdateOrAdd [rotated] DeleteBreakpoint [rotated] CreateStart [rotated]

lemma AddData:
  assumes "P S" "AddDataBreakpoint F E dlg S = Inr (r, S')"
  shows "P S'"
  using assms alloc [OF assms(1)]
  by (cases dlg) (auto simp: AddDataBreakpoint_def case_prod_beta Let_def set_new_obj bind_err_Inr dest: called)

lemma Enable: "P S \<Longrightarrow> EnableBreakpoint F E r e S = Inr S' \<Longrightarrow> P S'"
  by (auto simp: EnableBreakpoint_def bind_err_Inr intro!: keeps dest: called split: if_splits)

lemma replace:
  assumes "bind_err (DeleteBreakpoint F E bp S) (\<lambda>S.
       bind_err (AddBreakpoint F E (db_filename (obj S bp)) (db_line (obj S bp)) S) (\<lambda>(_, S). Inr (h S))) = Inr S'"
    "P S" "\<And>S. P S \<Longrightarrow> P (h S)"
  shows "P S'"
proof -
  obtain S1 r S2 where "DeleteBreakpoint F E bp S = Inr S1"
    "AddBreakpoint F E (db_filename (obj S1 bp)) (db_line (obj S1 bp)) S1 = Inr (r, S2)" "S' = h S2"
    using assms(1) by (auto simp: bind_err_Inr)
  then show ?thesis using called assms(2,3) by metis
qed

lemmas replace_plain = replace [where h = "\<lambda>S. S"]

lemma Update: "P S \<Longrightarrow> UpdateBreakpoint F E edit data bp S = Inr S' \<Longrightarrow> P S'"
  unfolding UpdateBreakpoint_def Let_def data_edited_def [symmetric]
  by (auto intro!: keeps elim!: replace_plain replace split: if_splits option.splits BreakpointType.splits)

lemma RunTo: "P S \<Longrightarrow> RunToCursor F E f line S = Inr S' \<Longrightarrow> P S'"
  by (auto simp: RunToCursor_def bind_err_Inr intro!: keeps dest: called split: if_splits)

lemma fold_client: "P S \<Longrightarrow> P (fold (\<lambda>(f, _). with_client (g f)) xs S)"
  by (induction xs arbitrary: S) (auto intro: keeps)

lemma cleared_all:
  "P S \<Longrightarrow> P (S\<lparr> m_map_filebreakpoints := [], m_map_fileSystemDap := [], m_breakpoints := [] \<rparr>)"
  "P S \<Longrightarrow> P (S\<lparr> m_breakpoints := [], m_map_filebreakpoints := [], m_map_fileSystemDap := [] \<rparr>)"
  by (rule frame [OF clear_all], assumption, simp add: core_def)+

lemma cleared_map: "P S \<Longrightarrow> P (S\<lparr> m_map_filebreakpoints := [], m_map_fileSystemDap := [] \<rparr>)"
  by (rule frame [OF clear_map], assumption, simp add: core_def)

lemma cleared_temporary: "P S \<Longrightarrow> P (S\<lparr> m_temporary_breakpoints := [] \<rparr>)"
  using temporaries [of S] by (auto intro: frame simp: core_def)

lemmas cleared = cleared_all cleared_map cleared_temporary

lemma DeleteAll: "P S \<Longrightarrow> P (DeleteAllBreakpoints F E S)"
  by (auto simp: DeleteAllBreakpoints_def Let_def intro!: cleared fold_client)

lemma Initialized: "P S \<Longrightarrow> OnInitializedEvent F E S = Inr S' \<Longrightarrow> P S'"
  by (auto simp: OnInitializedEvent_def bind_err_Inr Let_def intro!: keeps dest: called split: if_splits)

lemma match_lines: "P S \<Longrightarrow> match_lines F E line ID is S = Inr S' \<Longrightarrow> P S'"
  by (induction "is" arbitrary: S)
    (auto simp: bind_err_Inr match_line_def Let_def dest: called split: if_splits)

lemma breakpoints_set: "P S \<Longrightarrow> breakpoints_set F E bps S = Inr S' \<Longrightarrow> P S'"
  by (induction bps arbitrary: S)
    (auto simp: bind_err_Inr breakpoint_set_def dest: called match_lines split: if_splits)

lemma DataSet: "P S \<Longrightarrow> OnBreakpointDataSet F E x S = Inr S' \<Longrightarrow> P S'"
  by (auto simp: OnBreakpointDataSet_def dest: breakpoints_set split: option.splits)

lemma Process: "P S \<Longrightarrow> OnProcessBreakpointData F E s S = Inr S' \<Longrightarrow> P S'"
  by (auto simp: OnProcessBreakpointData_def bind_err_Inr Let_def intro!: keeps dest: called
      split: if_splits option.splits)

lemma update_matching: "P S \<Longrightarrow> P (update_matching bn S)"
proof -
  have "P S \<Longrightarrow> P (fold (\<lambda>r S. if db_project (obj S r) = db_project bn \<and> db_filename (obj S r) = db_filename bn
        \<and> db_line (obj S r) = db_line bn then set_obj r (matched bn) S else S) rs S)" for rs
    by (induction rs arbitrary: S) (auto intro: keeps)
  then show "P S \<Longrightarrow> P (update_matching bn S)" unfolding update_matching_def matched_def [symmetric] .
qed

lemma Load: "P S \<Longrightarrow> P (LoadStateFromFile root p S)"
proof -
  have "P S \<Longrightarrow> P (fold (\<lambda>_ S. update_matching b S) xs S)" for b and xs :: "xml list"
    by (induction xs arbitrary: S) (auto intro: update_matching)
  then show "P S \<Longrightarrow> P (LoadStateFromFile root p S)" by (simp add: LoadStateFromFile_def split: option.split)
qed

lemma ResetData: "P S \<Longrightarrow> P (DAPDebuggerResetData t S)" "P S \<Longrightarrow> P (CleanupWhenProjectClosed S)"
  by (auto simp: DAPDebuggerResetData_def CleanupWhenProjectClosed_def Let_def intro: cleared)

lemma Compiler: "P S \<Longrightarrow> P (CompilerFinished failed t S)"
  by (auto simp: CompilerFinished_def intro: cleared)

lemma InitializeResponse: "P S \<Longrightarrow> P (OnInitializeResponse x S)"
  by (auto simp: OnInitializeResponse_def intro: keeps split: option.split)

lemma apply_inv:
  assumes "P S" "op_ok op" "bp_apply F E op S = Inr S'"
  shows "P S'"
  using assms DeleteAll ResetData Load Compiler InitializeResponse keeps state
  by (cases op) (auto simp: op_ok_def map_sum_Inr SetDebuggee_def SetProject_def
      dest: called Enable Update AddData ShiftAll RunTo Initialized DataSet Process)

theorem bp_session_inv: "bp_session F E ops S \<Longrightarrow> P S"
  by (induction rule: bp_session.induct) (auto intro: start apply_inv)

end

section \<open>The list and the map of files\<close>

definition file_line :: "'cb Breakpoints \<Rightarrow> nat \<Rightarrow> string \<times> int" where
  "file_line S r = (db_filename (obj S r), db_line (obj S r))"

definition map_ok :: "nat set \<Rightarrow> 'cb Breakpoints \<Rightarrow> bool" where
  \<comment> \<open>an ordered map of lists of breakpoints of their file, without repetition and not empty\<close>
  "map_ok B S \<longleftrightarrow> sorted_wrt (<) (map fst (m_map_filebreakpoints S)) \<and>
     (\<forall>f l. map_of (m_map_filebreakpoints S) f = Some l \<longrightarrow>
        l \<noteq> [] \<and> distinct l \<and> (\<forall>r \<in> set l. r \<in> B \<and> db_filename (obj S r) = f))"

definition bps_inv :: "cb_env \<Rightarrow> 'cb Breakpoints \<Rightarrow> bool" where
  "bps_inv E S \<longleftrightarrow> m_temporary_breakpoints S = [] \<and> distinct (m_breakpoints S)
     \<and> (\<forall>r \<in> set (m_breakpoints S). r < b_next S \<and> db_type (obj S r) = bptCode
          \<and> db_project (obj S r) = ce_FindProjectForFile E (db_filename (obj S r)))
     \<and> inj_on (file_line S) (set (m_breakpoints S))
     \<and> map_ok (set (m_breakpoints S)) S"

lemma map_okD:
  assumes "map_ok B S"
  shows "sorted_wrt (<) (map fst (m_map_filebreakpoints S))"
    "map_of (m_map_filebreakpoints S) f = Some l \<Longrightarrow> l \<noteq> []"
    "map_of (m_map_filebreakpoints S) f = Some l \<Longrightarrow> distinct l"
    "map_of (m_map_filebreakpoints S) f = Some l \<Longrightarrow> r \<in> set l \<Longrightarrow> r \<in> B"
    "map_of (m_map_filebreakpoints S) f = Some l \<Longrightarrow> r \<in> set l \<Longrightarrow> db_filename (obj S r) = f"
  using assms unfolding map_ok_def by blast+

lemma map_ok_change:
  \<comment> \<open>one entry of the map changes, the others keep to the smaller set\<close>
  assumes "map_ok B S" "obj S' = obj S" "sorted_wrt (<) (map fst (m_map_filebreakpoints S'))"
    "\<And>f'. f' \<noteq> f \<Longrightarrow> map_of (m_map_filebreakpoints S') f' = map_of (m_map_filebreakpoints S) f'"
    "\<And>l. map_of (m_map_filebreakpoints S') f = Some l \<Longrightarrow>
       l \<noteq> [] \<and> distinct l \<and> (\<forall>r \<in> set l. r \<in> B' \<and> db_filename (obj S r) = f)"
    "\<And>r. r \<in> B \<Longrightarrow> db_filename (obj S r) \<noteq> f \<Longrightarrow> r \<in> B'"
  shows "map_ok B' S'"
  unfolding map_ok_def
proof (intro conjI allI impI)
  fix f' l assume l: "map_of (m_map_filebreakpoints S') f' = Some l"
  have "l \<noteq> [] \<and> distinct l \<and> (\<forall>r \<in> set l. r \<in> B' \<and> db_filename (obj S' r) = f')"
  proof (cases "f' = f")
    case True
    then show ?thesis using assms(5) l by (simp add: assms(2))
  next
    case False
    then have "map_of (m_map_filebreakpoints S) f' = Some l" using l assms(4) by simp
    then show ?thesis
      using False map_okD(2-5) [OF assms(1), of f' l] assms(6) by (simp add: assms(2))
  qed
  then show "l \<noteq> []" "distinct l" "\<forall>r \<in> set l. r \<in> B' \<and> db_filename (obj S' r) = f'" by blast+
qed (rule assms(3))

lemma map_ok_cong:
  assumes "map_ok B S" "m_map_filebreakpoints S' = m_map_filebreakpoints S"
    "\<And>r. r \<in> B \<Longrightarrow> db_filename (obj S' r) = db_filename (obj S r)"
  shows "map_ok B S'"
  using map_okD [OF assms(1)] assms(3) unfolding map_ok_def assms(2) by metis

lemma bps_inv_frame:
  assumes "bps_inv E S" "core S' = core S"
  shows "bps_inv E S'"
proof -
  have "file_line S' = file_line S" by (simp add: file_line_def fun_eq_iff coreD [OF assms(2)])
  moreover have "map_ok B S \<Longrightarrow> map_ok B S'" for B by (rule map_ok_cong) (simp_all add: coreD [OF assms(2)])
  ultimately show ?thesis using assms(1) unfolding bps_inv_def by (simp add: coreD [OF assms(2)])
qed

lemma UpdateMap_add_ok:
  assumes ok: "map_ok B S" and r: "r \<in> B" "db_filename (obj S r) = f"
  shows "map_ok B (UpdateMapFileBreakPoints f r True S)"
proof (cases "map_of (m_map_filebreakpoints S) f")
  case None
  then have "UpdateMapFileBreakPoints f r True S
      = S\<lparr> m_map_filebreakpoints := smap_insert f [r] (m_map_filebreakpoints S) \<rparr>"
    by (simp add: UpdateMapFileBreakPoints_def Let_def)
  then show ?thesis
    using r None by (intro map_ok_change [OF ok, of _ f])
      (auto simp: map_okD(1) [OF ok] smap_insert_sorted map_of_smap_insert obj_def fun_eq_iff)
next
  case (Some v)
  show ?thesis
  proof (cases "list_ex (\<lambda>q. db_line (obj S q) = db_line (obj S r)) v")
    case True
    then show ?thesis using Some ok by (simp add: UpdateMapFileBreakPoints_def Let_def)
  next
    case False
    then have eq: "UpdateMapFileBreakPoints f r True S
        = S\<lparr> m_map_filebreakpoints := AList.update f (v @ [r]) (m_map_filebreakpoints S) \<rparr>"
      using Some by (simp add: UpdateMapFileBreakPoints_def Let_def)
    have "r \<notin> set v" using False by (auto simp: list_ex_iff)
    then show ?thesis
      unfolding eq using r Some map_okD(3-5) [OF ok Some]
      by (intro map_ok_change [OF ok, of _ f])
        (auto simp: map_okD(1) [OF ok] sorted_update update_conv' obj_def fun_eq_iff)
  qed
qed

lemma UpdateMap_remove:
  assumes ok: "map_ok B S" and bp: "bp \<in> B" "db_filename (obj S bp) = f" and inj: "inj_on (file_line S) B"
    and v: "map_of (m_map_filebreakpoints S) f = Some v"
  shows "UpdateMapFileBreakPoints f bp False S =
    (if bp \<in> set v then S\<lparr> m_map_filebreakpoints :=
       if length v = 1 then AList.delete f (m_map_filebreakpoints S)
       else AList.update f (remove1 bp v) (m_map_filebreakpoints S) \<rparr> else S)"
proof -
  let ?m = "m_map_filebreakpoints S" and ?P = "\<lambda>q. db_line (obj S q) = db_line (obj S bp)"
  have P: "?P q = (q = bp)" if "q \<in> set v" for q
    using inj_onD [OF inj, of q bp] map_okD(4,5) [OF ok v that] bp by (auto simp: file_line_def)
  then have "list_ex ?P v \<longleftrightarrow> bp \<in> set v" "erase_first ?P v = remove1 bp v"
    by (auto simp: list_ex_iff intro: erase_first_unique)
  moreover have "AList.delete f ?m = []" if "length ?m = 1"
    using v that by (cases ?m) (auto split: if_splits)
  ultimately show ?thesis using v by (simp add: UpdateMapFileBreakPoints_def Let_def)
qed

lemma UpdateMap_remove_ok:
  assumes ok: "map_ok B S" and bp: "bp \<in> B" "db_filename (obj S bp) = f" and inj: "inj_on (file_line S) B"
  shows "map_ok (B - {bp}) (UpdateMapFileBreakPoints f bp False S)"
proof -
  let ?m = "m_map_filebreakpoints S"
  note change = map_ok_change [OF ok, of _ f "B - {bp}"]
  have unchanged: "map_ok (B - {bp}) S" if "\<And>l. map_of ?m f = Some l \<Longrightarrow> bp \<notin> set l"
    using that map_okD(2-5) [OF ok] bp(2) by (intro change) (auto simp: map_okD(1) [OF ok])
  show ?thesis
  proof (cases "map_of ?m f")
    case None
    then have "UpdateMapFileBreakPoints f bp False S = S" by (simp add: UpdateMapFileBreakPoints_def Let_def)
    then show ?thesis using unchanged None by simp
  next
    case (Some v)
    note eq = UpdateMap_remove [OF ok bp inj Some]
    show ?thesis
    proof (cases "bp \<in> set v")
      case False
      then show ?thesis using eq unchanged Some by simp
    next
      case True
      have "remove1 bp v \<noteq> []" if "length v \<noteq> 1"
        using that True length_remove1 [of bp v] by (cases v) auto
      then show ?thesis
        unfolding eq using True map_okD(1) [OF ok] map_okD(3-5) [OF ok Some] bp(2) Some
        by (intro change)
          (auto simp: sorted_delete sorted_update delete_conv' update_conv' obj_def fun_eq_iff split: if_splits)
    qed
  qed
qed

lemma bps_invD:
  assumes "bps_inv E S"
  shows "m_temporary_breakpoints S = []" "distinct (m_breakpoints S)"
    "r \<in> set (m_breakpoints S) \<Longrightarrow> r < b_next S"
    "r \<in> set (m_breakpoints S) \<Longrightarrow> db_type (obj S r) = bptCode"
    "r \<in> set (m_breakpoints S) \<Longrightarrow> db_project (obj S r) = ce_FindProjectForFile E (db_filename (obj S r))"
    "inj_on (file_line S) (set (m_breakpoints S))" "map_ok (set (m_breakpoints S)) S"
  using assms unfolding bps_inv_def by blast+

lemma map_ok_mono: "map_ok B S \<Longrightarrow> B \<subseteq> B' \<Longrightarrow> map_ok B' S"
  unfolding map_ok_def by blast

lemma FindBreakpoint_None:
  assumes "bps_inv E S" "FindBreakpoint (ce_FindProjectForFile E f) f line S = None" "r \<in> set (m_breakpoints S)"
  shows "file_line S r \<noteq> (f, line)"
  using assms(2,3) bps_invD(5) [OF assms(1,3)]
  by (auto simp: FindBreakpoint_def find_None_iff file_line_def)

lemma bps_inv_alloc:
  assumes inv: "bps_inv E S"
  shows "bps_inv E (snd (new_obj b S))"
proof -
  let ?S = "snd (new_obj b S)"
  have same: "obj ?S r = obj S r" if "r \<in> set (m_breakpoints S)" for r
    using bps_invD(3) [OF inv that] by (simp add: new_obj_def obj_def)
  have "inj_on (file_line ?S) (set (m_breakpoints S))"
    using bps_invD(6) [OF inv] same by (simp add: inj_on_def file_line_def)
  moreover have "map_ok (set (m_breakpoints S)) ?S"
    using bps_invD(7) [OF inv] by (rule map_ok_cong) (simp add: new_obj_def, rule arg_cong [OF same])
  moreover have "m_breakpoints ?S = m_breakpoints S" "b_next ?S = Suc (b_next S)"
    "m_temporary_breakpoints ?S = m_temporary_breakpoints S" by (simp_all add: new_obj_def)
  ultimately show ?thesis
    using bps_invD(1-5) [OF inv] same unfolding bps_inv_def by (auto intro: less_SucI)
qed

lemma bps_inv_add:
  assumes inv: "bps_inv E S" and p: "project = ce_FindProjectForFile E f"
    and new: "FindBreakpoint project f line S = None"
  shows "bps_inv E (add_entry project f line ID S)"
proof -
  let ?r = "b_next S" and ?S1 = "snd (new_obj (DAPBreakpoint_new project f line ID) S)"
  let ?S2 = "UpdateMapFileBreakPoints f ?r True ?S1" and ?B = "set (m_breakpoints S)"
  note inv1 = bps_inv_alloc [OF inv, of "DAPBreakpoint_new project f line ID"]
  have S1: "m_breakpoints ?S1 = m_breakpoints S" "b_next ?S1 = Suc ?r" "obj ?S1 ?r = DAPBreakpoint_new project f line ID"
    by (simp_all add: new_obj_def obj_def)
  have fresh: "?r \<notin> ?B" using bps_invD(3) [OF inv] by blast
  have old: "obj ?S1 q = obj S q" if "q \<in> ?B" for q
    using bps_invD(3) [OF inv that] by (simp add: new_obj_def obj_def)
  have line: "file_line ?S1 ?r = (f, line)"  by (simp add: file_line_def S1(3))
  have "file_line ?S1 q \<noteq> (f, line)" if "q \<in> ?B" for q
    using FindBreakpoint_None [OF inv, of f line q] new that old [OF that] by (simp add: p file_line_def)
  then have inj: "inj_on (file_line ?S1) (insert ?r ?B)"
    using bps_invD(6) [OF inv1] fresh by (simp add: S1 line image_iff) metis
  have "map_ok (insert ?r ?B) ?S1" using bps_invD(7) [OF inv1] by (rule map_ok_mono) (auto simp: S1)
  then have map: "map_ok (insert ?r ?B) ?S2" by (rule UpdateMap_add_ok) (simp_all add: S1)
  have eq: "add_entry project f line ID S = ?S2\<lparr> m_breakpoints := m_breakpoints S @ [?r] \<rparr>"
    by (simp add: add_entry_def Let_def case_prod_beta new_obj_def UpdateMap_frame)
  have o: "obj (add_entry project f line ID S) = obj ?S1"
    unfolding eq using UpdateMap_frame(2) [of f ?r True ?S1] by (simp add: obj_def fun_eq_iff)
  have "map_ok (insert ?r ?B) (add_entry project f line ID S)"
    using map by (rule map_ok_cong) (simp_all add: o UpdateMap_frame, simp add: eq)
  moreover have "file_line (add_entry project f line ID S) = file_line ?S1"
    using o by (simp add: file_line_def fun_eq_iff)
  moreover have "m_temporary_breakpoints (add_entry project f line ID S) = []"
    "m_breakpoints (add_entry project f line ID S) = m_breakpoints S @ [?r]"
    "b_next (add_entry project f line ID S) = Suc ?r"
    using bps_invD(1) [OF inv1] by (simp_all add: eq UpdateMap_frame S1)
  moreover have "db_type (obj ?S1 ?r) = bptCode" "db_filename (obj ?S1 ?r) = f"
    "db_project (obj ?S1 ?r) = ce_FindProjectForFile E f"
    unfolding S1(3) by (simp_all add: p)
  ultimately show ?thesis
    using bps_invD(2) [OF inv] bps_invD(3-5) [OF inv1] fresh inj
    unfolding bps_inv_def o by (auto simp: S1(1,2))
qed

lemma bps_inv_remove:
  assumes inv: "bps_inv E S" and bp: "bp \<in> set (m_breakpoints S)"
  shows "bps_inv E (remove_entry bp S)"
proof -
  let ?f = "db_filename (obj S bp)" and ?B = "set (m_breakpoints S)"
  let ?S1 = "UpdateMapFileBreakPoints ?f bp False S"
  have eq: "remove_entry bp S = ?S1\<lparr> m_breakpoints := remove1 bp (m_breakpoints S) \<rparr>"
    by (simp add: remove_entry_def Let_def UpdateMap_frame)
  have o: "obj (remove_entry bp S) = obj S"
    unfolding eq using UpdateMap_frame(2) [of ?f bp False S] by (simp add: obj_def fun_eq_iff)
  have fl: "file_line (remove_entry bp S) = file_line S" by (simp add: file_line_def fun_eq_iff o)
  have "map_ok (?B - {bp}) ?S1"
    using bps_invD(7) [OF inv] bp by (rule UpdateMap_remove_ok) (simp_all add: bps_invD(6) [OF inv])
  then have map: "map_ok (?B - {bp}) (remove_entry bp S)"
    by (rule map_ok_cong) (simp_all add: o UpdateMap_frame, simp add: eq)
  have B: "m_breakpoints (remove_entry bp S) = remove1 bp (m_breakpoints S)" "b_next (remove_entry bp S) = b_next S"
    "m_temporary_breakpoints (remove_entry bp S) = []"
    using bps_invD(1) [OF inv] by (simp_all add: eq UpdateMap_frame)
  have s: "set (remove1 bp (m_breakpoints S)) = ?B - {bp}" using bps_invD(2) [OF inv] by (rule set_remove1_eq)
  show ?thesis
    unfolding bps_inv_def B s o fl
    using map bps_invD(2-5) [OF inv] inj_on_diff [OF bps_invD(6) [OF inv]] by (simp add: distinct_remove1)
qed

lemma bps_inv_map:
  assumes inv: "bps_inv E S" and "obj S' = obj S" "m_breakpoints S' = m_breakpoints S" "b_next S' = b_next S"
    "m_temporary_breakpoints S' = m_temporary_breakpoints S" "map_ok (set (m_breakpoints S)) S'"
  shows "bps_inv E S'"
proof -
  have "file_line S' = file_line S" by (simp add: file_line_def fun_eq_iff assms(2))
  then show ?thesis using assms unfolding bps_inv_def by simp
qed

lemma shift_fold:
  assumes "distinct rs" "0 \<le> n"
  shows "fold (\<lambda>r x. if db_project (obj (snd x) r) = project \<and> db_filename (obj (snd x) r) = f
        \<and> db_line (obj (snd x) r) \<ge> start then shift_one start n r x else x) rs (rem, S)
     = (rem, S\<lparr> b_heap := (\<lambda>r. if r \<in> set rs \<and> db_project (obj S r) = project \<and> db_filename (obj S r) = f
          \<and> db_line (obj S r) \<ge> start then SetShiftLines n (obj S r) else obj S r) \<rparr>)"
  using assms
proof (induction rs arbitrary: S)
  case Nil
  then show ?case by (simp add: obj_def)
next
  case (Cons r rs)
  then show ?case
    by (auto simp: shift_one_def Let_def set_obj_def obj_def SetShiftLines_def fun_eq_iff
        intro!: arg_cong [where f = "\<lambda>h. S\<lparr> b_heap := h \<rparr>"])
qed

lemma bps_inv_shift:
  assumes inv: "bps_inv E S" and n: "0 \<le> n"
  shows "bps_inv E (snd (shift_loop project f start n S))"
proof -
  let ?S = "snd (shift_loop project f start n S)"
  have eq: "?S = S\<lparr> b_heap := (\<lambda>r. if r \<in> set (m_breakpoints S) \<and> db_project (obj S r) = project
      \<and> db_filename (obj S r) = f \<and> db_line (obj S r) \<ge> start then SetShiftLines n (obj S r) else obj S r) \<rparr>"
    unfolding shift_loop_def shift_fold [OF bps_invD(2) [OF inv] n] by simp
  have o: "db_type (obj ?S r) = db_type (obj S r)" "db_project (obj ?S r) = db_project (obj S r)"
    "db_filename (obj ?S r) = db_filename (obj S r)" for r
    by (simp_all add: eq obj_def SetShiftLines_def)
  have "inj_on (file_line ?S) (set (m_breakpoints S))"
  proof (rule inj_onI)
    fix x y assume xy: "x \<in> set (m_breakpoints S)" "y \<in> set (m_breakpoints S)" "file_line ?S x = file_line ?S y"
    then have "db_filename (obj S x) = db_filename (obj S y)" "db_project (obj S x) = db_project (obj S y)"
      using bps_invD(5) [OF inv] o by (simp_all add: file_line_def)
    then have "file_line S x = file_line S y"
      using xy n by (auto simp: eq file_line_def obj_def SetShiftLines_def split: if_splits)
    then show "x = y" using inj_onD [OF bps_invD(6) [OF inv]] xy(1,2) by blast
  qed
  moreover have "map_ok (set (m_breakpoints S)) ?S"
    using bps_invD(7) [OF inv] by (rule map_ok_cong) (simp add: eq, rule o)
  moreover have "m_breakpoints ?S = m_breakpoints S" "b_next ?S = b_next S" "m_temporary_breakpoints ?S = []"
    using bps_invD(1) [OF inv] by (simp_all add: eq)
  ultimately show ?thesis using bps_invD(2-5) [OF inv] unfolding bps_inv_def by (simp add: o)
qed

lemma bps_inv_more:
  "bps_inv E (Breakpoints_new cl)"
  "bps_inv E S \<Longrightarrow> r \<in> set (m_breakpoints S) \<Longrightarrow> bps_inv E (UpdateMapFileBreakPoints (db_filename (obj S r)) r True S)"
  "bps_inv E S \<Longrightarrow> bps_inv E (S\<lparr> m_map_filebreakpoints := [] \<rparr>)"
  "bps_inv E S \<Longrightarrow> bps_inv E (S\<lparr> m_breakpoints := [], m_map_filebreakpoints := [] \<rparr>)"
  "bps_inv E S \<Longrightarrow> bps_inv E (S\<lparr> DAPDebuggerState := w \<rparr>)"
proof -
  show "bps_inv E (Breakpoints_new cl)" by (simp add: bps_inv_def map_ok_def Breakpoints_new_def)
  assume inv: "bps_inv E S"
  show "bps_inv E (S\<lparr> m_map_filebreakpoints := [] \<rparr>)"
    by (rule bps_inv_map [OF inv]) (simp_all add: obj_def fun_eq_iff map_ok_def)
  show "bps_inv E (S\<lparr> m_breakpoints := [], m_map_filebreakpoints := [] \<rparr>)"
    using bps_invD(1) [OF inv] by (simp add: bps_inv_def map_ok_def)
  show "bps_inv E (S\<lparr> DAPDebuggerState := w \<rparr>)"
  proof (rule bps_inv_map [OF inv])
    show "map_ok (set (m_breakpoints S)) (S\<lparr> DAPDebuggerState := w \<rparr>)"
      using bps_invD(7) [OF inv] by (rule map_ok_cong) (simp_all add: obj_def)
  qed (simp_all add: obj_def fun_eq_iff)
  assume r: "r \<in> set (m_breakpoints S)"
  show "bps_inv E (UpdateMapFileBreakPoints (db_filename (obj S r)) r True S)"
    by (rule bps_inv_map [OF inv]) (simp_all add: UpdateMap_frame UpdateMap_add_ok bps_invD(7) [OF inv] r)
qed

interpretation bps: table_invariant "bps_inv E" E for E
  by unfold_locales
    (rule bps_inv_frame bps_inv_alloc bps_inv_add bps_inv_remove bps_inv_shift bps_invD(1) bps_inv_more; assumption)+

section \<open>The state flags\<close>

definition always_stopped :: "'cb Breakpoints \<Rightarrow> bool" where
  "always_stopped S \<longleftrightarrow> m_temporary_breakpoints S = []
     \<and> dbg_inv (DAPDebuggerState S) \<and> IsStopped (DAPDebuggerState S)"

lemma add_entry_frame:
  "m_temporary_breakpoints (add_entry p f line ID S) = m_temporary_breakpoints S"
  "DAPDebuggerState (add_entry p f line ID S) = DAPDebuggerState S"
  "m_temporary_breakpoints (remove_entry r S) = m_temporary_breakpoints S"
  "DAPDebuggerState (remove_entry r S) = DAPDebuggerState S"
  by (simp_all add: add_entry_def remove_entry_def new_obj_def Let_def UpdateMap_frame)

lemma shift_loop_frame:
  "m_temporary_breakpoints (snd (shift_loop p f start n S)) = m_temporary_breakpoints S
   \<and> DAPDebuggerState (snd (shift_loop p f start n S)) = DAPDebuggerState S"
proof -
  have "m_temporary_breakpoints (snd (fold (\<lambda>r x. if c r x then shift_one start n r x else x) rs x))
      = m_temporary_breakpoints (snd x)
    \<and> DAPDebuggerState (snd (fold (\<lambda>r x. if c r x then shift_one start n r x else x) rs x))
      = DAPDebuggerState (snd x)" for rs c and x :: "nat list \<times> 'a Breakpoints"
    by (induction rs arbitrary: x) (auto simp: shift_one_def Let_def case_prod_beta set_obj_def)
  then show ?thesis by (simp add: shift_loop_def)
qed

lemma always_stopped_cong:
  "always_stopped S \<Longrightarrow> m_temporary_breakpoints S' = m_temporary_breakpoints S
     \<Longrightarrow> DAPDebuggerState S' = DAPDebuggerState S \<Longrightarrow> always_stopped S'"
  by (simp add: always_stopped_def)

lemma always_stopped_frame: "always_stopped S \<Longrightarrow> core S' = core S \<Longrightarrow> always_stopped S'"
  by (erule always_stopped_cong) (erule coreD)+

lemma always_stopped_keep:
  "always_stopped S \<Longrightarrow> always_stopped (snd (new_obj b S))"
  "always_stopped S \<Longrightarrow> always_stopped (add_entry p f line ID S)"
  "always_stopped S \<Longrightarrow> always_stopped (remove_entry r S)"
  "always_stopped S \<Longrightarrow> always_stopped (UpdateMapFileBreakPoints f r a S)"
  "always_stopped S \<Longrightarrow> always_stopped (S\<lparr> m_map_filebreakpoints := m \<rparr>)"
  "always_stopped S \<Longrightarrow> always_stopped (S\<lparr> m_breakpoints := l, m_map_filebreakpoints := m \<rparr>)"
  "always_stopped S \<Longrightarrow> always_stopped (snd (shift_loop p f start n S))"
  by (simp_all add: always_stopped_def add_entry_frame UpdateMap_frame shift_loop_frame)
    (simp add: new_obj_def)

lemma always_stopped_plugin:
  "always_stopped (Breakpoints_new cl)" "always_stopped S \<Longrightarrow> m_temporary_breakpoints S = []"
  "always_stopped S \<Longrightarrow> op \<in> set plugin_ops
     \<Longrightarrow> always_stopped (S\<lparr> DAPDebuggerState := dbg_step op (DAPDebuggerState S) \<rparr>)"
  using plugin_start_stopped
  by (simp_all add: always_stopped_def Breakpoints_new_def dbg_inv_step stopped_step)

interpretation stop: table_invariant always_stopped E for E
  by unfold_locales
    (rule always_stopped_plugin always_stopped_keep always_stopped_frame; assumption)+

end
