(* ===== verification/Dap_Persist.thy ===== *)
theory Dap_Persist
  imports Dap_Definitions
begin

text \<open>
  What is read back from the state file. \<open>wx_num_ok\<close> states what is documented of \<open>ToLong\<close> and
  \<open>ToULongLong\<close>: they read what \<open>Format\<close> prints, and fail on text that is not a number;
  \<open>wx_num_std\<close> is an instance that computes.
\<close>

definition wx_num_ok :: "wx_num \<Rightarrow> bool" where
  "wx_num_ok N \<longleftrightarrow> (\<forall>i. wx_ToLong N (show_int i) = Some i)
     \<and> wx_ToLong N ''True'' = None \<and> wx_ToLong N ''False'' = None
     \<and> (\<forall>w. wx_ToULongLong N 10 (show_nat (unat w)) = Some w)
     \<and> (\<forall>w bits64. wx_ToULongLong N 16 (hex_text bits64 w) = Some w)"

section \<open>An instance\<close>

definition to_long :: "string \<Rightarrow> int option" where
  "to_long s = (let t = (if peek s = CHR ''-'' then tl s else s)
     in if t \<noteq> [] \<and> list_all is_digit t then Some (atol s) else None)"

definition base_val :: "nat \<Rightarrow> nat \<Rightarrow> string \<Rightarrow> nat" where
  "base_val b acc s = foldl (\<lambda>n c. n * b + (case hex_val c of Some d \<Rightarrow> d | None \<Rightarrow> 0)) acc s"

definition to_ulonglong :: "nat \<Rightarrow> string \<Rightarrow> 64 word option" where
  "to_ulonglong b s =
     (let t = dropWhile is_space s; t = (if b = 16 \<and> starts_with ''0x'' t then drop 2 t else t)
      in if t \<noteq> [] \<and> list_all (\<lambda>c. hex_val c \<noteq> None) t then Some (of_nat (base_val b 0 t)) else None)"

definition wx_num_std :: wx_num where
  "wx_num_std = \<lparr> wx_ToLong = to_long, wx_ToULongLong = to_ulonglong \<rparr>"

lemma atol_show_int: "atol (show_int i) = i"
proof (cases "i < 0")
  case True
  have "list_all is_digit (show_nat (nat (- i)))" by (rule show_nat_digits)
  then have "takeWhile is_digit (show_nat (nat (- i))) = show_nat (nat (- i))"
    by (simp add: list_all_iff)
  then show ?thesis
    using True by (simp add: atol_def show_int_def Let_def digits_val_show_nat is_space_def peek_def
        del: takeWhile_eq_all_conv)
qed (simp add: show_int_def atol_show_nat)

lemma to_long_show_int: "to_long (show_int i) = Some i"
proof (cases "i < 0")
  case True
  then show ?thesis
    using show_nat_digits [of "nat (- i)"] show_nat_nonempty [of "nat (- i)"] atol_show_int [of i]
    by (simp add: to_long_def show_int_def Let_def)
next
  case False
  obtain d ds where d: "show_nat (nat i) = d # ds" using show_nat_nonempty by (meson neq_Nil_conv)
  have "is_digit d" using show_nat_digits [of "nat i"] d by simp
  then have "d \<noteq> CHR ''-''" by (auto simp: is_digit_def)
  then show ?thesis
    using False d show_nat_digits [of "nat i"] atol_show_int [of i]
    by (simp add: to_long_def show_int_def Let_def)
qed

lemma base_val_append: "base_val b a (s @ t) = base_val b (base_val b a s) t"
  by (simp add: base_val_def)

lemma hex_val_digit_char: "d < 10 \<Longrightarrow> hex_val (digit_char d) = Some d"
  by (simp add: hex_val_def code_digit_char)

lemma base_val_show_nat: "base_val 10 0 (show_nat n) = n \<and> list_all (\<lambda>c. hex_val c \<noteq> None) (show_nat n)"
proof (induction n rule: show_nat.induct)
  case (1 n)
  show ?case
  proof (cases "n < 10")
    case True
    then show ?thesis by (simp add: show_nat.simps [of n] base_val_def hex_val_digit_char)
  next
    case False
    then show ?thesis
      using 1 by (simp add: show_nat.simps [of n] base_val_append) (simp add: base_val_def hex_val_digit_char)
  qed
qed

declare show_hex.simps [simp del]

lemma base_val_show_hex: "base_val 16 0 (show_hex n) = n \<and> list_all (\<lambda>c. hex_val c \<noteq> None) (show_hex n)
    \<and> show_hex n \<noteq> []"
proof (induction n rule: show_hex.induct)
  case (1 n)
  show ?case
  proof (cases "n < 16")
    case True
    then show ?thesis by (simp add: show_hex.simps [of n] base_val_def hex_val_hex_digit)
  next
    case False
    then show ?thesis
      using 1 by (simp add: show_hex.simps [of n] base_val_append) (simp add: base_val_def hex_val_hex_digit)
  qed
qed

lemma base_val_zeros: "base_val b 0 (replicate n CHR ''0'' @ s) = base_val b 0 s"
  by (induction n) (simp_all add: base_val_def hex_val_def)

lemma to_ulonglong_0x:
  assumes "list_all (\<lambda>c. hex_val c \<noteq> None) t" "t \<noteq> []"
  shows "to_ulonglong 16 (replicate n CHR '' '' @ ''0x'' @ t) = Some (of_nat (base_val 16 0 t))"
proof -
  have "dropWhile is_space (replicate n CHR '' '' @ ''0x'' @ t) = ''0x'' @ t"
    by (induction n) (simp_all add: is_space_def)
  then show ?thesis using assms by (simp add: to_ulonglong_def Let_def)
qed

lemma to_ulonglong_hex: "to_ulonglong 16 (hex_text bits64 w) = Some w"
proof (cases "w = 0")
  case True
  have "show_hex 0 = ''0''" by code_simp
  then show ?thesis
    using True by (cases bits64) (simp_all add: hex_text_def to_ulonglong_def is_space_def
        hex_val_def base_val_def eval_nat_numeral)
next
  case False
  let ?h = "show_hex (unat w)"
  note h = base_val_show_hex [of "unat w"]
  have "list_all (\<lambda>c. hex_val c \<noteq> None) (replicate n CHR ''0'')" for n
    by (simp add: list_all_iff hex_val_def)
  then have "to_ulonglong 16 (replicate 0 CHR '' '' @ ''0x'' @ replicate n CHR ''0'' @ ?h) = Some w" for n
    using h by (subst to_ulonglong_0x) (simp_all add: base_val_zeros)
  moreover have "to_ulonglong 16 (replicate n CHR '' '' @ ''0x'' @ ?h) = Some w" for n
    using h by (subst to_ulonglong_0x) simp_all
  ultimately show ?thesis using False by (simp add: hex_text_def Let_def)
qed

lemma wx_num_ok_std: "wx_num_ok wx_num_std"
proof -
  have "dropWhile is_space (show_nat n) = show_nat n" for n
    using show_nat_digits [of n] by (cases "show_nat n") (auto simp: is_digit_def is_space_def)
  then have "to_ulonglong 10 (show_nat (unat w)) = Some w" for w
    using base_val_show_nat [of "unat w"] show_nat_nonempty by (simp add: to_ulonglong_def Let_def)
  then show ?thesis
    by (simp add: wx_num_ok_def wx_num_std_def to_long_show_int to_ulonglong_hex)
      (simp add: to_long_def peek_def is_digit_def)
qed

section \<open>Round trips\<close>

lemma FirstChild_add:
  "FirstChildElement name (AddChildNode n v e) =
     (case FirstChildElement name e of Some c \<Rightarrow> Some c | None \<Rightarrow> if n = name then Some (Elem n v []) else None)"
  by (cases e) (auto simp: FirstChildElement_def AddChildNode_def find_append split: option.split)

lemma Read_add:
  "ReadChildNodewxString (AddChildNode n v e) name =
     (if FirstChildElement name e = None \<and> n = name then v else ReadChildNodewxString e name)"
  by (auto simp: ReadChildNodewxString_def FirstChild_add split: option.split)

lemma bool_text: "wxStringToBool (BoolTowxString b) = b"
  by (simp add: wxStringToBool_def BoolTowxString_def IsSameAs_nocase_def tolower_def)

lemma type_text: "SetType (GetTypewxString t) b = b\<lparr> db_type := t \<rparr>"
  by (cases t) (simp_all add: SetType_def IsSameAs_nocase_def tolower_def)

lemma format_text: "GetWatchFormatFromwxString (GetWatchFormatTowxString f) = f"
  by (cases f) (simp_all add: GetWatchFormatFromwxString_def IsSameAs_nocase_def tolower_def)

lemmas xml_adds = AddChildNode_int_def AddChildNode_bool_def AddChildNodeHex_def AddChildNode_uint64_def

lemmas xml_reads = ReadChildNodeInt_def ReadChildNodeLong_def ReadChildNodeHex_def ReadChildNodeUint64_def
  ReadChildNodeBool_def Read_add FirstChild_add

text \<open>C31: saving and loading. What \<open>SaveBreakpointToXML\<close> writes, \<open>LoadBreakpointFromXML\<close> reads back: every member
  but the project and the adapter's number, on both platform sizes, for lines and counts that fit
  an \<open>int\<close>; the place of the breakpoint is then handed to the editor that shows the file, or else to
  the plugin. The same holds for a memory range.
\<close>
theorem state_file_roundtrip:
  assumes "wx_num_ok N" "int32 (db_line b)" "int32 (db_ignoreCount b)"
  shows "LoadBreakpointFromXML N is_open (SaveBreakpointToXML bits64 title b) b0
      = Some (b\<lparr> db_project := db_project b0, db_ID := db_ID b0 \<rparr>,
          if is_open (db_filename b) then EditorAdd (db_filename b) (db_line b - 1)
          else UpdateOrAdd (db_filename b) (db_line b) (db_enabled b) (- 1))
    \<and> LoadMemoryRangeFromXML N (SaveMemoryRangeToXML title m) m0
      = Some (m\<lparr> dr_project := dr_project m0, dr_value := dr_value m0 \<rparr>)"
  using assms
  by (auto simp: LoadBreakpointFromXML_def SaveBreakpointToXML_def LoadMemoryRangeFromXML_def SaveMemoryRangeToXML_def
      Let_def xml_adds xml_reads wx_num_ok_def bool_text type_text FirstChildElement_def [of _ "Elem _ _ []"]
      ReadChildNodewxString_def [of "Elem _ _ []"])

definition sample_breakpoint :: DAPBreakpoint where
  "sample_breakpoint = (DAPBreakpoint_new 3 ''a.c'' 7 2)\<lparr> db_enabled := False, db_address := 255,
     db_useCondition := True, db_condition := ''x > 1'' \<rparr>"

theorem state_file_roundtrip_witness:
  "LoadBreakpointFromXML wx_num_std (\<lambda>_. False) (SaveBreakpointToXML True ''p'' sample_breakpoint) (DAPBreakpoint_default 9)
     = Some (sample_breakpoint\<lparr> db_project := 9, db_ID := - 1 \<rparr>, UpdateOrAdd ''a.c'' 7 False (- 1))"
proof -
  have f: "db_line sample_breakpoint = 7" "db_ignoreCount sample_breakpoint = 0"
    "db_filename sample_breakpoint = ''a.c''" "\<not> db_enabled sample_breakpoint"
    "db_project (DAPBreakpoint_default 9) = 9" "db_ID (DAPBreakpoint_default 9) = - 1"
    by (simp_all add: sample_breakpoint_def DAPBreakpoint_new_def DAPBreakpoint_default_def)
  have "int32 (db_line sample_breakpoint)" "int32 (db_ignoreCount sample_breakpoint)"
    by (simp_all add: f int32_def INT_MAX_def INT_MIN_def)
  from conjunct1 [OF state_file_roundtrip [OF wx_num_ok_std this]] show ?thesis by (simp add: f)
qed

text \<open>A saved watch cannot be loaded. \<open>is_array\<close> is written as \<open>True\<close> or \<open>False\<close> and read as a number; the
  conversion fails and the variable that is used as its result was never set.
\<close>
lemma saved_watch_indeterminate:
  assumes "wx_num_ok N"
  shows "LoadWatchFromXML N (SaveWatchToXML title w) w0 = None"
  using assms
  by (auto simp: LoadWatchFromXML_def SaveWatchToXML_def Let_def xml_adds xml_reads wx_num_ok_def BoolTowxString_def
      FirstChildElement_def [of _ "Elem _ _ []"] split: option.split)

end
