(* ===== verification/Dap_BreakpointProps.thy ===== *)
theory Dap_BreakpointProps
  imports Dap_BreakpointTable Dap_Persist
begin

text \<open>
  What the breakpoint manager does in every session: the table it keeps, the requests it sends, and
  where the code goes wrong. The samples at the head are used by the witnesses.
\<close>

definition files_of :: "'cb Breakpoints \<Rightarrow> string \<Rightarrow> nat list" where
  "files_of S f = (case map_of (m_map_filebreakpoints S) f of None \<Rightarrow> [] | Some v \<Rightarrow> v)"

section \<open>Samples\<close>

definition sample_env :: cb_env where
  "sample_env = \<lparr> ce_FindProjectForFile = (\<lambda>_. 1), ce_UnixFilename = (\<lambda>_ f. f), ce_relative = (\<lambda>_ _. None),
     ce_GetFullName = (\<lambda>f. f), ce_num = wx_num_std, ce_DebugTestingOption = UseNativePaths,
     ce_ExceptionCatch = False, ce_ExceptionThrow = False, ce_PersistDebugElements = False \<rparr>"

definition sample_running :: "nat Breakpoints" where
  "sample_running = (Breakpoints_new Client_new)\<lparr> DAPDebuggerState :=
     dbg_step (Add Running) (dbg_step (Add Connected) plugin_start) \<rparr>"

lemma sample_session:
  "bp_session F sample_env [B_State (Add Connected), B_State (Add Running)] sample_running"
proof -
  have "bp_session F sample_env ([] @ [B_State (Add Connected)]) ((Breakpoints_new Client_new)\<lparr> DAPDebuggerState :=
      dbg_step (Add Connected) plugin_start \<rparr>)"
    by (rule bp_step [OF bp_start [where cl = Client_new]])
      (simp_all add: op_ok_def plugin_ops_def Breakpoints_new_def)
  from bp_step [OF this, of "B_State (Add Running)"] show ?thesis
    by (simp add: op_ok_def plugin_ops_def Breakpoints_new_def sample_running_def)
qed

lemma sample_is_running: "IsRunning (DAPDebuggerState sample_running)"
  unfolding sample_running_def by code_simp

definition sample_idle :: "string \<Rightarrow> int \<Rightarrow> string \<Rightarrow> int \<Rightarrow> nat Breakpoints" where
  \<comment> \<open>before any program runs: two breakpoints\<close>
  "sample_idle f k g l = (Breakpoints_new Client_new)\<lparr>
     b_heap := (\<lambda>_. DAPBreakpoint_default 0)(0 := DAPBreakpoint_new 1 f k (- 1), 1 := DAPBreakpoint_new 1 g l (- 1)),
     b_next := 2, m_breakpoints := [0, 1],
     m_map_filebreakpoints := (if f = g then [(f, [0, 1])] else if f < g then [(f, [0]), (g, [1])] else [(g, [1]), (f, [0])]) \<rparr>"

definition sample_two :: "nat Breakpoints" where
  "sample_two = (sample_idle ''a.c'' 5 ''b.c'' 7)\<lparr> DAPDebuggerState :=
     dbg_step (Add Running) (dbg_step (Add Connected) plugin_start) \<rparr>"

lemma add_not_running:
  assumes "\<not> IsRunning (DAPDebuggerState S)" "m_map_fileSystemDap S = []"
    "FindBreakpoint (ce_FindProjectForFile E f) f line S = None"
  shows "AddBreakpoint F E f line S = Inr (b_next S, add_entry (ce_FindProjectForFile E f) f line (- 1) S)"
proof -
  have "\<not> IsRunning (DAPDebuggerState (add_entry p f line ID S))" for p ID
    using assms(1) by (simp add: add_entry_frame)
  then show ?thesis
    using assms by (simp add: AddBreakpoint_def UpdateOrAddBreakpoint_def local_filename_def Let_def
        add_new_breakpoint_eq UpdateDAP_not_running)
qed

lemma sample_idle_session:
  assumes "f \<noteq> g \<or> k \<noteq> l"
  shows "bp_session F sample_env [B_Add f k, B_Add g l] (sample_idle f k g l)"
proof -
  let ?S0 = "Breakpoints_new Client_new :: nat Breakpoints"
  let ?S1 = "add_entry 1 f k (- 1) ?S0" let ?S2 = "add_entry 1 g l (- 1) ?S1"
  have no: "\<not> IsRunning plugin_start" by code_simp
  have "AddBreakpoint F sample_env f k ?S0 = Inr (0, ?S1)"
    by (subst add_not_running) (simp_all add: no Breakpoints_new_def FindBreakpoint_def sample_env_def)
  then have one: "bp_session F sample_env ([] @ [B_Add f k]) ?S1"
    by (intro bp_step [OF bp_start [where cl = Client_new]]) (simp_all add: op_ok_def)
  have "AddBreakpoint F sample_env g l ?S1 = Inr (1, ?S2)"
    using assms by (subst add_not_running) (auto simp: no Breakpoints_new_def FindBreakpoint_def sample_env_def
        add_entry_def new_obj_def UpdateMapFileBreakPoints_def obj_def Let_def)
  then have "bp_session F sample_env (([] @ [B_Add f k]) @ [B_Add g l]) ?S2"
    by (intro bp_step [OF one]) (simp_all add: op_ok_def)
  moreover have "?S2 = sample_idle f k g l"
    using assms by (auto simp: sample_idle_def Breakpoints_new_def add_entry_def new_obj_def Let_def
        UpdateMapFileBreakPoints_def obj_def)
  ultimately show ?thesis by simp
qed

lemma sample_two_session:
  "bp_session F sample_env [B_Add ''a.c'' 5, B_Add ''b.c'' 7, B_State (Add Connected), B_State (Add Running)] sample_two"
proof -
  have idle: "bp_session F sample_env [B_Add ''a.c'' 5, B_Add ''b.c'' 7] (sample_idle ''a.c'' 5 ''b.c'' 7)"
    by (rule sample_idle_session) simp
  from bp_step [OF bp_step [OF idle, of "B_State (Add Connected)"], of _ "B_State (Add Running)"]
  show ?thesis by (simp add: op_ok_def plugin_ops_def sample_two_def sample_idle_def Breakpoints_new_def)
qed

lemma sample_two_is_running: "IsRunning (DAPDebuggerState sample_two)"
  using sample_is_running by (simp add: sample_two_def sample_running_def)

lemmas sample_defs = sample_two_def sample_idle_def Breakpoints_new_def sample_env_def files_of_def

section \<open>The table\<close>


section \<open>Adding\<close>

definition tells :: "'d fp \<Rightarrow> cb_env \<Rightarrow> string \<Rightarrow> nat list \<Rightarrow> 'cb Breakpoints \<Rightarrow> 'cb Client \<Rightarrow> 'cb Client" where
  \<comment> \<open>the request that replaces the lines of a file in the adapter by the enabled ones of a list\<close>
  "tells F E f v S = SetBreakpointsFile F (ce_GetFullName E) (dap_filename E (m_debuggee S) f) (enabled_lines S v)"

lemma enabled_lines_map [simp]:
  "enabled_lines (S\<lparr> m_map_filebreakpoints := m, m_breakpoints := l \<rparr>) = enabled_lines S"
  "enabled_lines (S\<lparr> m_map_fileSystemDap := d \<rparr>) = enabled_lines S"
  "enabled_lines (with_client h S) = enabled_lines S" "m_debuggee (with_client h S) = m_debuggee S"
  "obj (with_client h S) = obj S" "obj (S\<lparr> m_map_fileSystemDap := d \<rparr>) = obj S"
  "obj (S\<lparr> m_temporary_breakpoints := l \<rparr>) = obj S" "m_pDAPClient (with_client h S) = h (m_pDAPClient S)"
  by (simp_all add: enabled_lines_def fun_eq_iff obj_def with_client_def)

lemma UpdateDAP_running:
  assumes "IsRunning (DAPDebuggerState S)" "IsStopped (DAPDebuggerState S)"
  shows "UpdateDAPSetBreakpointsByFileName F E f S =
    (if m_map_filebreakpoints S = [] then Inr (with_client (tells F E f [] S)
          (S\<lparr> m_map_fileSystemDap := smap_insert f (dap_filename E (m_debuggee S) f) (m_map_fileSystemDap S) \<rparr>))
     else case map_of (m_map_filebreakpoints S) f of None \<Rightarrow> Inl PastEnd
     | Some v \<Rightarrow> Inr (with_client (tells F E f v S)
          (S\<lparr> m_map_fileSystemDap := smap_insert f (dap_filename E (m_debuggee S) f) (m_map_fileSystemDap S) \<rparr>)))"
  using assms by (auto simp: UpdateDAPSetBreakpointsByFileName_def tells_def enabled_lines_def Let_def split: option.split)

lemma files_ofD:
  assumes "bps_inv E S" "q \<in> set (files_of S f)"
  shows "q \<in> set (m_breakpoints S)" "db_filename (obj S q) = f"
  using assms map_okD(4,5) [OF bps_invD(7) [OF assms(1)]]
  by (cases "map_of (m_map_filebreakpoints S) f"; simp add: files_of_def)+

lemma UpdateMap_add_files:
  assumes "sorted_wrt (<) (map fst (m_map_filebreakpoints S))"
    "\<forall>q \<in> set (files_of S f). db_line (obj S q) \<noteq> db_line (obj S r)"
  shows "map_of (m_map_filebreakpoints (UpdateMapFileBreakPoints f r True S))
    = (map_of (m_map_filebreakpoints S))(f \<mapsto> files_of S f @ [r])"
  using assms
  by (auto simp: UpdateMapFileBreakPoints_def Let_def files_of_def map_of_smap_insert update_conv' list_ex_iff
      split: option.splits)

lemma add_entry_result:
  fixes S :: "'cb Breakpoints"
  defines "r \<equiv> b_next S"
  assumes inv: "bps_inv E S" and p: "project = ce_FindProjectForFile E f"
    and new: "FindBreakpoint project f line S = None"
  shows "map_of (m_map_filebreakpoints (add_entry project f line ID S)) f = Some (files_of S f @ [r])"
    "m_breakpoints (add_entry project f line ID S) = m_breakpoints S @ [r]"
    "obj (add_entry project f line ID S) = (obj S)(r := DAPBreakpoint_new project f line ID)"
    "DAPDebuggerState (add_entry project f line ID S) = DAPDebuggerState S"
    "m_map_fileSystemDap (add_entry project f line ID S) = m_map_fileSystemDap S"
    "m_debuggee (add_entry project f line ID S) = m_debuggee S"
    "m_pDAPClient (add_entry project f line ID S) = m_pDAPClient S"
proof -
  let ?S1 = "snd (new_obj (DAPBreakpoint_new project f line ID) S)"
  have S1: "obj ?S1 = (obj S)(r := DAPBreakpoint_new project f line ID)" "files_of ?S1 = files_of S"
    "m_map_filebreakpoints ?S1 = m_map_filebreakpoints S"
    by (auto simp: new_obj_def obj_def fun_eq_iff r_def files_of_def)
  have eq: "add_entry project f line ID S
      = (UpdateMapFileBreakPoints f r True ?S1)\<lparr> m_breakpoints := m_breakpoints S @ [r] \<rparr>"
    by (simp add: add_entry_def Let_def case_prod_beta new_obj_def UpdateMap_frame r_def)
  have "db_line (obj ?S1 q) \<noteq> line" if q: "q \<in> set (files_of S f)" for q
  proof -
    note q = files_ofD [OF inv q]
    have "q \<noteq> r" using bps_invD(3) [OF inv q(1)] by (simp add: r_def)
    then have "obj ?S1 q = obj S q" by (simp add: S1)
    then show ?thesis
      using FindBreakpoint_None [OF inv new [unfolded p] q(1)] q(2) by (simp add: file_line_def)
  qed
  then have m: "map_of (m_map_filebreakpoints (UpdateMapFileBreakPoints f r True ?S1))
      = (map_of (m_map_filebreakpoints S))(f \<mapsto> files_of S f @ [r])"
    using UpdateMap_add_files [of ?S1 f r] map_okD(1) [OF bps_invD(7) [OF inv]]
    by (simp add: S1)
  show "map_of (m_map_filebreakpoints (add_entry project f line ID S)) f = Some (files_of S f @ [r])"
    by (simp add: eq m)
  show "obj (add_entry project f line ID S) = (obj S)(r := DAPBreakpoint_new project f line ID)"
    using UpdateMap_frame(2) [of f r True ?S1] S1(1) by (simp add: eq obj_def fun_eq_iff)
  show "m_breakpoints (add_entry project f line ID S) = m_breakpoints S @ [r]" by (simp add: eq)
  show "DAPDebuggerState (add_entry project f line ID S) = DAPDebuggerState S"
    "m_map_fileSystemDap (add_entry project f line ID S) = m_map_fileSystemDap S"
    "m_debuggee (add_entry project f line ID S) = m_debuggee S"
    "m_pDAPClient (add_entry project f line ID S) = m_pDAPClient S"
    by (auto simp: eq new_obj_def UpdateMapFileBreakPoints_def Let_def split: option.split)
qed

lemma add_tells:
  assumes "bp_session F E ops S" "IsRunning (DAPDebuggerState S)" "local_filename f S = f"
  shows "case FindBreakpoint (ce_FindProjectForFile E f) f line S of
      Some r \<Rightarrow> db_enabled (obj S r) \<longrightarrow> AddBreakpoint F E f line S = Inr (r, S)
    | None \<Rightarrow> \<exists>r S'. AddBreakpoint F E f line S = Inr (r, S')
        \<and> m_breakpoints S' = m_breakpoints S @ [r]
        \<and> obj S' r = DAPBreakpoint_new (ce_FindProjectForFile E f) f line (- 1)
        \<and> (\<forall>q \<in> set (m_breakpoints S). obj S' q = obj S q)
        \<and> m_pDAPClient S' = SetBreakpointsFile F (ce_GetFullName E) (dap_filename E (m_debuggee S) f)
            (enabled_lines S (files_of S f) @ [\<lparr> sb_line = line, sb_condition = [] \<rparr>]) (m_pDAPClient S)"
proof (cases "FindBreakpoint (ce_FindProjectForFile E f) f line S")
  case (Some r)
  then show ?thesis
    by (simp add: AddBreakpoint_def UpdateOrAddBreakpoint_def Let_def assms(3) set_enabled_in_dap_def)
next
  case None
  have inv: "bps_inv E S" by (rule bps.bp_session_inv [OF assms(1)])
  have stopped: "IsStopped (DAPDebuggerState S)"
    using stop.bp_session_inv [OF assms(1)] by (simp add: always_stopped_def)
  let ?S = "add_entry (ce_FindProjectForFile E f) f line (- 1) S" and ?r = "b_next S"
  note r = add_entry_result [OF inv refl None, of "- 1"]
  have old: "obj ?S q = obj S q" if "q \<in> set (m_breakpoints S)" for q
    using bps_invD(3) [OF inv that] by (simp add: r)
  have "enabled_lines ?S (files_of S f) = enabled_lines S (files_of S f)"
    unfolding enabled_lines_def using old files_ofD(1) [OF inv] by (intro map_cong filter_cong) auto
  then have lines: "enabled_lines ?S (files_of S f @ [?r])
      = enabled_lines S (files_of S f) @ [\<lparr> sb_line = line, sb_condition = [] \<rparr>]"
    by (simp add: enabled_lines_def r(3))
  have ne: "m_map_filebreakpoints ?S \<noteq> []" using r(1) by auto
  let ?S' = "with_client (tells F E f (files_of S f @ [?r]) ?S)
    (?S\<lparr> m_map_fileSystemDap := smap_insert f (dap_filename E (m_debuggee S) f) (m_map_fileSystemDap S) \<rparr>)"
  have "AddBreakpoint F E f line S = Inr (?r, ?S')"
    using None assms(2) stopped ne
    by (simp add: AddBreakpoint_def UpdateOrAddBreakpoint_def Let_def assms(3) add_new_breakpoint_eq
        UpdateDAP_running r)
  moreover have "obj ?S' = obj ?S" by (simp add: obj_def with_client_def fun_eq_iff)
  ultimately show ?thesis
    using None old by (auto simp: with_client_def r tells_def lines)
qed

text \<open>C24: adding a breakpoint while the program is debugged. At a place without a breakpoint the manager makes
  a new enabled one without condition at the end of the list, and the client sends one
  \<open>setBreakpoints\<close> request for the file with the lines of its enabled breakpoints, the
  new line last. Adding at a place that has an enabled breakpoint changes nothing and sends nothing.
\<close>
theorem AddBreakpoint_tells:
  assumes "bp_session F E ops S" "IsRunning (DAPDebuggerState S)" "local_filename f S = f"
  shows "case FindBreakpoint (ce_FindProjectForFile E f) f line S of
      Some r \<Rightarrow> db_enabled (obj S r) \<longrightarrow> AddBreakpoint F E f line S = Inr (r, S)
    | None \<Rightarrow> \<exists>r S'. AddBreakpoint F E f line S = Inr (r, S')
        \<and> m_breakpoints S' = m_breakpoints S @ [r]
        \<and> obj S' r = DAPBreakpoint_new (ce_FindProjectForFile E f) f line (- 1)
        \<and> (\<forall>q \<in> set (m_breakpoints S). obj S' q = obj S q)
        \<and> m_pDAPClient S' = SetBreakpointsFile F (ce_GetFullName E) (dap_filename E (m_debuggee S) f)
            (enabled_lines S (files_of S f) @ [\<lparr> sb_line = line, sb_condition = [] \<rparr>]) (m_pDAPClient S)"
  by (rule add_tells [OF assms])

theorem AddBreakpoint_tells_witness:
  "\<exists>r S'. AddBreakpoint fp_int sample_env ''a.c'' 5 sample_running = Inr (r, S')
    \<and> m_breakpoints S' = [r] \<and> obj S' r = DAPBreakpoint_new 1 ''a.c'' 5 (- 1)
    \<and> m_pDAPClient S' = SetBreakpointsFile fp_int (\<lambda>f. f) ''a.c'' [\<lparr> sb_line = 5, sb_condition = [] \<rparr>] Client_new"
  using AddBreakpoint_tells [OF sample_session sample_is_running, of "''a.c''" fp_int 5]
  by (simp add: local_filename_def sample_running_def Breakpoints_new_def FindBreakpoint_def sample_env_def
      files_of_def enabled_lines_def dap_filename_def)


section \<open>Deleting\<close>

text \<open>C25: deleting the last breakpoint of a file. While the program is debugged, deleting a breakpoint
  that is in the list of its file \<open>f\<close> dereferences an \<open>end()\<close> iterator exactly when it is the only one
  of its file and there are breakpoints in other files: the entry of \<open>f\<close> is erased and then looked
  up again. In every other case the client sends \<open>setBreakpoints\<close> for \<open>f\<close> with the lines of the
  enabled breakpoints that are left.
\<close>
theorem DeleteBreakpoint_tells:
  assumes "bp_session F E ops S" "IsRunning (DAPDebuggerState S)" "bp \<in> set (m_breakpoints S)"
    "bp \<in> set (files_of S f)"
  shows "(DeleteBreakpoint F E bp S = Inl PastEnd
      \<longleftrightarrow> files_of S f = [bp] \<and> length (m_map_filebreakpoints S) \<noteq> 1)
    \<and> (DeleteBreakpoint F E bp S \<noteq> Inl PastEnd \<longrightarrow>
        (\<exists>S'. DeleteBreakpoint F E bp S = Inr S' \<and> m_breakpoints S' = remove1 bp (m_breakpoints S)
          \<and> m_pDAPClient S' = SetBreakpointsFile F (ce_GetFullName E) (dap_filename E (m_debuggee S) f)
              (enabled_lines S (remove1 bp (files_of S f))) (m_pDAPClient S)))"
proof -
  have inv: "bps_inv E S" by (rule bps.bp_session_inv [OF assms(1)])
  have stopped: "IsStopped (DAPDebuggerState S)"
    using stop.bp_session_inv [OF assms(1)] by (simp add: always_stopped_def)
  note bp = files_ofD [OF inv assms(4)] bps_invD(4) [OF inv assms(3)]
  let ?m = "m_map_filebreakpoints S" and ?v = "files_of S f"
  have v: "map_of ?m f = Some ?v"
    using assms(4) by (cases "map_of ?m f") (simp_all add: files_of_def)
  let ?m' = "if length ?v = 1 then AList.delete f ?m else AList.update f (remove1 bp ?v) ?m"
  let ?S = "S\<lparr> m_map_filebreakpoints := ?m', m_breakpoints := remove1 bp (m_breakpoints S) \<rparr>"
  have D: "DeleteBreakpoint F E bp S = UpdateDAPSetBreakpointsByFileName F E f ?S"
    using assms(3,4) bp(2,3) UpdateMap_remove [OF bps_invD(7) [OF inv] bp(1,2) bps_invD(6) [OF inv] v]
    by (simp add: DeleteBreakpoint_def GetLocation_def Let_def)
  have run: "IsRunning (DAPDebuggerState ?S)" "IsStopped (DAPDebuggerState ?S)" using assms(2) stopped by simp_all
  have one: "length ?v = 1 \<longleftrightarrow> ?v = [bp]" using assms(4) by (cases ?v) auto
  have "distinct (map fst ?m)" "f \<in> set (map fst ?m)"
    using map_okD(1) [OF bps_invD(7) [OF inv]] map_of_SomeD [OF v] by (force simp: strict_sorted_iff)+
  then have "length (map fst (AList.delete f ?m)) = length (map fst ?m) - 1" "map fst ?m \<noteq> []"
    by (auto simp: delete_keys distinct_remove1_removeAll [symmetric] length_remove1)
  then have empty: "AList.delete f ?m = [] \<longleftrightarrow> length ?m = 1"
    by (cases ?m; cases "AList.delete f ?m") auto
  show ?thesis
  proof (cases "?v = [bp]")
    case True
    then show ?thesis
      unfolding D UpdateDAP_running [OF run]
      by (auto simp: empty delete_conv' with_client_def tells_def enabled_lines_def)
  next
    case False
    then show ?thesis
      unfolding D UpdateDAP_running [OF run] using one
      by (auto simp: update_conv' with_client_def tells_def)
  qed
qed

theorem DeleteBreakpoint_tells_witness:
  "DeleteBreakpoint fp_int sample_env 0 sample_two = Inl PastEnd"
  using DeleteBreakpoint_tells [OF sample_two_session, of 0 "''a.c''" fp_int]
  by (simp add: sample_two_is_running) (simp add: sample_defs)

section \<open>The start of a session\<close>

lemma UpdateMap_add_sorted:
  "sorted_wrt (<) (map fst (m_map_filebreakpoints S)) \<Longrightarrow>
     sorted_wrt (<) (map fst (m_map_filebreakpoints (UpdateMapFileBreakPoints f r True S)))"
  by (auto simp: UpdateMapFileBreakPoints_def Let_def smap_insert_sorted sorted_update split: option.split)

definition in_file :: "'cb Breakpoints \<Rightarrow> string \<Rightarrow> nat list \<Rightarrow> nat list" where
  "in_file S f = filter (\<lambda>r. db_filename (obj S r) = f)"

lemma map_each_files:
  assumes "sorted_wrt (<) (map fst (m_map_filebreakpoints S))"
    "\<And>f. distinct (map (\<lambda>r. db_line (obj S r)) (files_of S f @ in_file S f rs))"
    "\<And>f. map_of (m_map_filebreakpoints S) f \<noteq> Some []" "\<And>i. wx_ToLong (ce_num E) (show_int i) \<noteq> None"
  shows "sorted_wrt (<) (map fst (m_map_filebreakpoints (map_each E rs S)))
    \<and> map_of (m_map_filebreakpoints (map_each E rs S)) f
        = (if files_of S f @ in_file S f rs = [] then None else Some (files_of S f @ in_file S f rs))"
  using assms(1-3)
proof (induction rs arbitrary: S)
  case Nil
  then show ?case by (cases "map_of (m_map_filebreakpoints S) f") (auto simp: files_of_def in_file_def)
next
  case (Cons r rs)
  let ?f = "db_filename (obj S r)"
  let ?S = "UpdateMapFileBreakPoints ?f r True S"
  have o: "obj ?S = obj S" by (rule UpdateMap_frame)
  have "db_line (obj S r) \<notin> (\<lambda>q. db_line (obj S q)) ` set (files_of S ?f)"
    using Cons.prems(2) [of ?f] by (simp add: in_file_def)
  then have "\<forall>q \<in> set (files_of S ?f). db_line (obj S q) \<noteq> db_line (obj S r)" by (metis image_eqI)
  then have m: "map_of (m_map_filebreakpoints ?S) = (map_of (m_map_filebreakpoints S))(?f \<mapsto> files_of S ?f @ [r])"
    by (rule UpdateMap_add_files [OF Cons.prems(1)])
  then have v: "files_of ?S f' @ in_file ?S f' rs = files_of S f' @ in_file S f' (r # rs)" for f'
    by (simp add: files_of_def in_file_def o)
  have "map_each E (r # rs) S = map_each E rs ?S"
    using assms(4) [of "db_line (obj S r)"] by (auto simp: map_each_def)
  moreover have "map_of (m_map_filebreakpoints ?S) f' \<noteq> Some []" for f' using Cons.prems(3) by (simp add: m)
  ultimately show ?case
    using Cons.IH [of ?S] Cons.prems(2) UpdateMap_add_sorted [OF Cons.prems(1)] by (simp add: v o)
qed

lemma update_each_running:
  assumes "IsRunning (DAPDebuggerState S)" "IsStopped (DAPDebuggerState S)"
    "\<And>f. f \<in> set fs \<Longrightarrow> map_of (m_map_filebreakpoints S) f = Some (v f)"
  shows "\<exists>S'. update_each F E fs S = Inr S' \<and> core S' = core S \<and> obj S' = obj S
    \<and> m_pDAPClient S' = fold (\<lambda>f. tells F E f (v f) S) fs (m_pDAPClient S)"
  using assms
proof (induction fs arbitrary: S)
  case (Cons f fs)
  let ?S = "with_client (tells F E f (v f) S)
    (S\<lparr> m_map_fileSystemDap := smap_insert f (dap_filename E (m_debuggee S) f) (m_map_fileSystemDap S) \<rparr>)"
  have "m_map_filebreakpoints S \<noteq> []" using Cons.prems(3) by fastforce
  then have u: "UpdateDAPSetBreakpointsByFileName F E f S = Inr ?S"
    using Cons.prems(3) [of f] by (simp add: UpdateDAP_running [OF Cons.prems(1,2)])
  have c: "core ?S = core S" "obj ?S = obj S" by simp_all
  have t: "tells F E f' (v f') ?S = tells F E f' (v f') S" for f'
    by (simp add: tells_def)
  have "\<exists>S'. update_each F E fs ?S = Inr S' \<and> core S' = core ?S \<and> obj S' = obj ?S
      \<and> m_pDAPClient S' = fold (\<lambda>f. tells F E f (v f) ?S) fs (m_pDAPClient ?S)"
    by (rule Cons.IH) (use Cons.prems in \<open>simp_all add: coreD [OF c(1)]\<close>)
  then show ?case unfolding t by (simp add: u)
qed auto

text \<open>C23: the start of a debug session. \<open>OnInitializedEvent\<close> calls \<open>CreateStartBreakpoints\<close> with the map of files
  cleared. When the program is marked as running, it rebuilds the map, with exactly the files that
  have breakpoints in the order of their names and for each its breakpoints in the order of the
  list, and the client sends one \<open>setBreakpoints\<close> request per file, in that order, with the lines of
  the file's enabled breakpoints.
\<close>
theorem CreateStartBreakpoints_tells:
  assumes "bp_session F E ops S" "IsRunning (DAPDebuggerState S)" "m_map_filebreakpoints S = []"
    "\<And>i. wx_ToLong (ce_num E) (show_int i) = Some i"
  defines "files \<equiv> sorted_list_of_set (db_filename ` obj S ` set (m_breakpoints S))"
    and "in_f \<equiv> \<lambda>f. filter (\<lambda>r. db_filename (obj S r) = f) (m_breakpoints S)"
  shows "\<exists>S'. CreateStartBreakpoints F E S = Inr S'
    \<and> map fst (m_map_filebreakpoints S') = files
    \<and> list_all (\<lambda>f. map_of (m_map_filebreakpoints S') f = Some (in_f f)) files
    \<and> m_pDAPClient S' = fold (\<lambda>f. SetBreakpointsFile F (ce_GetFullName E) (dap_filename E (m_debuggee S) f)
          (enabled_lines S (in_f f))) files (m_pDAPClient S)"
proof -
  have inv: "bps_inv E S" by (rule bps.bp_session_inv [OF assms(1)])
  have stopped: "IsStopped (DAPDebuggerState S)"
    using stop.bp_session_inv [OF assms(1)] by (simp add: always_stopped_def)
  let ?S = "map_each E (m_breakpoints S) S"
  let ?m = "m_map_filebreakpoints ?S"
  have lines: "distinct (map (\<lambda>r. db_line (obj S r)) (files_of S f @ in_file S f (m_breakpoints S)))" for f
  proof -
    have "inj_on (\<lambda>r. db_line (obj S r)) {r \<in> set (m_breakpoints S). db_filename (obj S r) = f}"
      using bps_invD(6) [OF inv] by (auto simp: inj_on_def file_line_def)
    then show ?thesis
      using bps_invD(2) [OF inv] by (simp add: files_of_def assms(3) in_file_def distinct_map)
  qed
  have m: "sorted_wrt (<) (map fst ?m)" "map_of ?m f = (if in_f f = [] then None else Some (in_f f))" for f
    using map_each_files [where S = S and E = E and rs = "m_breakpoints S" and f = f] lines assms(4)
    by (simp_all add: assms(3) files_of_def in_file_def in_f_def)
  have "set (map fst ?m) = dom (map_of ?m)" by (simp add: dom_map_of_conv_image_fst)
  also have "\<dots> = db_filename ` obj S ` set (m_breakpoints S)"
    by (auto simp: dom_def m(2) in_f_def filter_empty_conv image_iff split: if_splits)
  finally have files: "map fst ?m = files"
    using m(1) by (simp add: files_def strict_sorted_equal_Uniq [unfolded Uniq_def] sorted_list_of_set.idem_if_sorted_distinct)
  have t: "m_temporary_breakpoints ?S = []" by (simp add: map_each_frame bps_invD(1) [OF inv])
  have some: "map_of ?m f = Some (in_f f)" if "f \<in> set files" for f
  proof -
    have "map_of ?m f \<noteq> None" using that by (simp add: files [symmetric] map_of_eq_None_iff)
    then show ?thesis using m(2) by (simp split: if_splits)
  qed
  obtain S1 where S1: "update_each F E files ?S = Inr S1" "core S1 = core ?S"
    "m_pDAPClient S1 = fold (\<lambda>f. tells F E f (in_f f) ?S) files (m_pDAPClient ?S)"
    using update_each_running [of ?S files in_f F E] assms(2) stopped some by (auto simp: map_each_frame)
  have "tells F E f (in_f f) ?S = tells F E f (in_f f) S" for f
    by (simp add: tells_def enabled_lines_def map_each_frame)
  then have "m_pDAPClient S1 = fold (\<lambda>f. tells F E f (in_f f) S) files (m_pDAPClient S)"
    by (simp add: S1(3) map_each_frame)
  moreover have "CreateStartBreakpoints F E S = Inr (S1\<lparr> m_temporary_breakpoints := [] \<rparr>)"
    by (simp add: CreateStartBreakpoints_def Let_def t files S1(1))
  ultimately show ?thesis
    using files some coreD(2) [OF S1(2)] by (auto simp: list_all_iff tells_def)
qed

definition sample_start :: "nat Breakpoints" where
  "sample_start = sample_two\<lparr> m_map_filebreakpoints := [], m_map_fileSystemDap := [] \<rparr>"

lemma sample_start_session:
  "bp_session F sample_env [B_Add ''a.c'' 5, B_Add ''b.c'' 7, B_State (Add Connected), B_State (Add Running),
     B_Reset ResetData_Startup] sample_start"
  using bp_step [OF sample_two_session, of "B_Reset ResetData_Startup"]
  by (simp add: op_ok_def DAPDebuggerResetData_def sample_start_def)

lemma sample_start_is:
  "IsRunning (DAPDebuggerState sample_start)" "m_map_filebreakpoints sample_start = []"
  "sorted_list_of_set (db_filename ` obj sample_start ` set (m_breakpoints sample_start)) = [''a.c'', ''b.c'']"
  "enabled_lines sample_start (filter (\<lambda>r. db_filename (obj sample_start r) = ''a.c'') (m_breakpoints sample_start))
     = [\<lparr> sb_line = 5, sb_condition = [] \<rparr>]"
  "enabled_lines sample_start (filter (\<lambda>r. db_filename (obj sample_start r) = ''b.c'') (m_breakpoints sample_start))
     = [\<lparr> sb_line = 7, sb_condition = [] \<rparr>]"
  "m_pDAPClient sample_start = Client_new"
  using sample_two_is_running by (simp_all add: sample_start_def) (simp_all add: sample_defs obj_def enabled_lines_def)

theorem CreateStartBreakpoints_tells_witness:
  "\<exists>S'. CreateStartBreakpoints fp_int sample_env sample_start = Inr S'
    \<and> map fst (m_map_filebreakpoints S') = [''a.c'', ''b.c'']
    \<and> m_pDAPClient S' = SetBreakpointsFile fp_int (\<lambda>f. f) ''b.c'' [\<lparr> sb_line = 7, sb_condition = [] \<rparr>]
        (SetBreakpointsFile fp_int (\<lambda>f. f) ''a.c'' [\<lparr> sb_line = 5, sb_condition = [] \<rparr>] Client_new)"
proof -
  have "wx_ToLong (ce_num sample_env) (show_int i) = Some i" for i
    by (simp add: sample_env_def wx_num_std_def to_long_show_int)
  moreover have "dap_filename sample_env d f = f" "ce_GetFullName sample_env = (\<lambda>f. f)" for d f
    by (simp_all add: sample_env_def dap_filename_def)
  ultimately show ?thesis
    using CreateStartBreakpoints_tells [OF sample_start_session sample_start_is(1,2), of fp_int]
    unfolding sample_start_is(3) by (auto simp: sample_start_is)
qed

section \<open>Answers of the adapter\<close>

lemma UpdateDAP_heap: "UpdateDAPSetBreakpointsByFileName F E f S = Inr S' \<Longrightarrow> b_heap S' = b_heap S"
  by (auto simp: UpdateDAPSetBreakpointsByFileName_def bind_err_Inr Let_def with_client_def
      split: if_splits option.splits)

lemma match_lines_known:
  assumes "GetBreakpointByID ID S = Some r" "db_enabled (obj S r)" "ID \<noteq> - 1"
  shows "match_lines F E line ID is S = Inr S"
proof (induction "is")
  case (Cons i "is")
  have "match_line F E line ID i S = Inr S"
    using assms by (simp add: match_line_def Let_def UpdateOrAddBreakpoint_def set_enabled_in_dap_def)
  then show ?case using Cons by simp
qed simp

text \<open>an answer without a path goes to the wrong breakpoint. When the adapter answers
  \<open>setBreakpoints\<close> for some file with a verified breakpoint that has a line but no source path, the
  manager gives the number to the first breakpoint of its list with that line, whatever its file, and
  enables it, also when the user had disabled it; the other breakpoints, with the one that was
  meant, get nothing.
\<close>
lemma pathless_answer_misses:
  assumes "bp_session F E ops S" "m_breakpoints S = r # rs"
    "db_filename (obj S r) \<noteq> []" "local_filename (db_filename (obj S r)) S = db_filename (obj S r)"
    "db_line (obj S r) = bp_line bp" "bp_verified bp" "bp_line bp \<noteq> - 1" "src_path (bp_source bp) = []"
    "bp_id bp \<noteq> - 1" "GetBreakpointByID (bp_id bp) S = None"
    "breakpoint_set F E bp S = Inr S'"
  shows "db_ID (obj S' r) = bp_id bp \<and> db_enabled (obj S' r) \<and> list_all (\<lambda>q. obj S' q = obj S q) rs"
proof -
  have inv: "bps_inv E S" by (rule bps.bp_session_inv [OF assms(1)])
  let ?f = "db_filename (obj S r)" and ?id = "bp_id bp"
  let ?S0 = "set_obj r (db_ID_update (\<lambda>_. ?id)) S"
  have r: "db_project (obj S r) = ce_FindProjectForFile E ?f" "db_type (obj S r) = bptCode"
    using bps_invD(4,5) [OF inv] assms(2) by simp_all
  have u: "UpdateOrAddBreakpoint F E ?f (bp_line bp) True ?id S = set_enabled_in_dap F E ?f True r ?S0"
    using assms r by (simp add: UpdateOrAddBreakpoint_def Let_def FindBreakpoint_def)
  have n: "[0..<GetBreakpointsCount S] = 0 # [1..<GetBreakpointsCount S]"
    using upt_conv_Cons [of 0 "GetBreakpointsCount S"] by (simp add: GetBreakpointsCount_def assms(2) del: upt_Suc)
  obtain S1 r1 where S1: "set_enabled_in_dap F E ?f True r ?S0 = Inr (r1, S1)"
    and rest: "match_lines F E (bp_line bp) ?id [1..<GetBreakpointsCount S] S1 = Inr S'"
    using assms(3,5-8,11) u r(2)
    by (auto simp: breakpoint_set_def n match_line_def GetBreakpoint_def assms(2) GetLocation_def Let_def bind_err_Inr
        simp del: upt_Suc)
  have heap: "b_heap S1 = (b_heap S)(r := (obj S r)\<lparr> db_ID := ?id, db_enabled := True \<rparr>)"
    using S1 by (auto simp: set_enabled_in_dap_def bind_err_Inr set_obj_def obj_def dest!: UpdateDAP_heap split: if_splits)
  have "m_breakpoints S1 = r # rs" using set_enabled_core [OF S1] assms(2) by (auto simp: core_def set_obj_def)
  then have "GetBreakpointByID ?id S1 = Some r" "db_enabled (obj S1 r)"
    by (simp_all add: GetBreakpointByID_def obj_def heap)
  then have "S' = S1" using rest match_lines_known [of ?id S1 r F E] assms(9) by simp
  moreover have "r \<notin> set rs" using bps_invD(2) [OF inv] assms(2) by simp
  ultimately show ?thesis by (auto simp: obj_def heap list_all_iff)
qed

definition sample_disabled :: "nat Breakpoints" where
  \<comment> \<open>the same line in two files, the first breakpoint disabled\<close>
  "sample_disabled = set_obj 0 (db_enabled_update (\<lambda>_. False)) (sample_idle ''a.c'' 5 ''b.c'' 5)"

definition sample_answer :: Breakpoint where
  "sample_answer = Breakpoint_new\<lparr> bp_id := 9, bp_verified := True, bp_line := 5 \<rparr>"

lemma sample_idle_not_running: "\<not> IsRunning (DAPDebuggerState (sample_idle f k g l))"
proof -
  have "\<not> IsRunning plugin_start" by code_simp
  then show ?thesis by (simp add: sample_idle_def Breakpoints_new_def)
qed

lemma sample_disabled_session:
  "bp_session F sample_env [B_Add ''a.c'' 5, B_Add ''b.c'' 5, B_Enable 0 False] sample_disabled"
proof -
  have idle: "bp_session F sample_env [B_Add ''a.c'' 5, B_Add ''b.c'' 5] (sample_idle ''a.c'' 5 ''b.c'' 5)"
    by (rule sample_idle_session) simp
  have "EnableBreakpoint F sample_env 0 False (sample_idle ''a.c'' 5 ''b.c'' 5) = Inr sample_disabled"
    using sample_idle_not_running [of "''a.c''" 5 "''b.c''" 5]
    by (simp add: EnableBreakpoint_def sample_disabled_def) (simp add: sample_idle_def obj_def)
  then show ?thesis using bp_step [OF idle, of "B_Enable 0 False"] by (simp add: op_ok_def)
qed

lemma sample_disabled_answer:
  "\<exists>S'. breakpoint_set fp_int sample_env sample_answer sample_disabled = Inr S'"
proof -
  have no: "\<not> IsRunning plugin_start" by code_simp
  show ?thesis
    by (simp add: sample_disabled_def sample_idle_def Breakpoints_new_def breakpoint_set_def sample_answer_def
        Breakpoint_new_def Source_new_def GetBreakpointsCount_def match_line_def GetBreakpoint_def
        GetLocation_def Let_def UpdateOrAddBreakpoint_def local_filename_def GetBreakpointByID_def
        FindBreakpoint_def set_enabled_in_dap_def UpdateDAP_not_running no set_obj_def obj_def sample_env_def
        upt_conv_Cons numeral_2_eq_2)
qed

section \<open>Editing\<close>

lemma local_filename_self:
  "(\<And>k. (k, f) \<in> set (m_map_fileSystemDap S) \<Longrightarrow> k = f) \<Longrightarrow> local_filename f S = f"
  by (auto simp: local_filename_def find_Some_iff split: option.split) (metis nth_mem)

lemma smap_insert_in: "x \<in> set (smap_insert k v m) \<Longrightarrow> x = (k, v) \<or> x \<in> set m"
  by (induction k v m rule: smap_insert.induct) (auto split: if_splits)

lemma UpdateDAP_files:
  "UpdateDAPSetBreakpointsByFileName F E f S = Inr S' \<Longrightarrow> (k, v) \<in> set (m_map_fileSystemDap S')
     \<Longrightarrow> k = f \<or> (k, v) \<in> set (m_map_fileSystemDap S)"
  by (auto simp: UpdateDAPSetBreakpointsByFileName_def bind_err_Inr Let_def with_client_def
      dest!: smap_insert_in split: if_splits option.splits)

text \<open>Editing loses the edit and resumes the program. When the user confirms the breakpoint editor, the
  breakpoint is removed and a fresh one is added at its place: the enabled flag, the ignore count and
  the condition from the editor are gone. The last thing done is \<open>Continue\<close>, in every state of every
  session, because \<open>IsStopped\<close> always holds.
\<close>
lemma edit_is_lost:
  assumes "bp_session F E ops S" "bp \<in> set (m_breakpoints S)"
    "\<And>k. (k, db_filename (obj S bp)) \<in> set (m_map_fileSystemDap S) \<Longrightarrow> k = db_filename (obj S bp)"
    "UpdateBreakpoint F E (Some edit) data bp S = Inr S'"
  shows "\<exists>r cl. m_breakpoints S' = remove1 bp (m_breakpoints S) @ [r]
    \<and> obj S' r = DAPBreakpoint_new (db_project (obj S bp)) (db_filename (obj S bp)) (db_line (obj S bp)) (- 1)
    \<and> m_pDAPClient S' = Continue F wxNOT_FOUND True cl"
proof -
  let ?f = "db_filename (obj S bp)" and ?l = "db_line (obj S bp)"
  let ?S0 = "set_obj bp (EditBreakpointDlg_EndModal edit) S"
  have c0: "core ?S0 = core S" by simp
  note c0 = coreD [OF c0]
  have inv: "bps_inv E S" by (rule bps.bp_session_inv [OF assms(1)])
  have inv0: "bps_inv E ?S0" using bps.keeps(3) [OF inv] .
  have bp: "db_type (obj S bp) = bptCode" "db_project (obj S bp) = ce_FindProjectForFile E ?f"
    using bps_invD(4,5) [OF inv assms(2)] .
  have "IsStopped (DAPDebuggerState S)"
    using stop.bp_session_inv [OF assms(1)] by (simp add: always_stopped_def)
  then obtain S1 r S2 where S1: "DeleteBreakpoint F E bp ?S0 = Inr S1"
    and S2: "AddBreakpoint F E (db_filename (obj S1 bp)) (db_line (obj S1 bp)) S1 = Inr (r, S2)"
    and S': "S' = with_client (Continue F wxNOT_FOUND True) S2"
    using assms(2,4) bp(1) by (auto simp: UpdateBreakpoint_def c0 Let_def bind_err_Inr)
  have D: "UpdateDAPSetBreakpointsByFileName F E ?f (remove_entry bp ?S0) = Inr S1"
    using S1 assms(2) bp(1) by (simp add: DeleteBreakpoint_def remove_entry_def GetLocation_def Let_def c0)
  note c1 = coreD [OF UpdateDAP_core [OF D]]
  have inv1: "bps_inv E S1" by (rule bps.DeleteBreakpoint [OF inv0 S1])
  have o1: "db_filename (obj S1 q) = db_filename (obj S q)" "db_line (obj S1 q) = db_line (obj S q)" for q
    unfolding c1 remove_entry_def Let_def using c0(8,9) [of q] UpdateMap_frame(2) [of "db_filename (obj ?S0 bp)" bp False ?S0]
    by (simp_all add: obj_def fun_eq_iff)
  have list: "m_breakpoints S1 = remove1 bp (m_breakpoints S)"
    by (simp add: c1 remove_entry_def Let_def UpdateMap_frame c0)
  have "file_line S q \<noteq> (?f, ?l)" if "q \<in> set (m_breakpoints S1)" for q
    using that inj_onD [OF bps_invD(6) [OF inv], of q bp] assms(2) bps_invD(2) [OF inv]
    by (auto simp: list file_line_def)
  then have none: "FindBreakpoint (ce_FindProjectForFile E ?f) ?f ?l S1 = None"
    by (auto simp: FindBreakpoint_def find_None_iff file_line_def o1)
  have "(k, v) \<in> set (m_map_fileSystemDap S1) \<Longrightarrow> k = ?f \<or> (k, v) \<in> set (m_map_fileSystemDap S)" for k v
    using UpdateDAP_files [OF D] by (auto simp: remove_entry_def Let_def UpdateMap_frame set_obj_def)
  then have "local_filename ?f S1 = ?f" using assms(3) by (intro local_filename_self) blast
  then have A: "UpdateDAPSetBreakpointsByFileName F E ?f (add_entry (ce_FindProjectForFile E ?f) ?f ?l (- 1) S1) = Inr S2"
    "r = b_next S1"
    using S2 by (simp_all add: o1 AddBreakpoint_def UpdateOrAddBreakpoint_def Let_def none add_new_breakpoint_eq bind_err_Inr)
  have "obj S2 r = DAPBreakpoint_new (ce_FindProjectForFile E ?f) ?f ?l (- 1)"
    using add_entry_result(3) [OF inv1 refl none, of "- 1"] UpdateDAP_heap [OF A(1)] A(2)
    by (simp add: obj_def fun_eq_iff)
  moreover have "m_breakpoints S2 = m_breakpoints S1 @ [r]"
    using add_entry_result(2) [OF inv1 refl none, of "- 1"] coreD(1) [OF UpdateDAP_core [OF A(1)]] A(2) by simp
  ultimately show ?thesis unfolding bp(2) by (auto simp: S' list obj_def with_client_def)
qed

definition sample_edit :: edit_answer where
  "sample_edit = \<lparr> ea_enabled = False, ea_useIgnoreCount = False, ea_ignoreCount = 0,
     ea_useCondition = True, ea_condition = ''x > 1'' \<rparr>"

lemma sample_edit_result:
  "\<exists>S'. UpdateBreakpoint fp_int sample_env (Some sample_edit) None 0 (sample_idle ''a.c'' 5 ''b.c'' 7) = Inr S'"
proof -
  have no: "\<not> IsRunning plugin_start" "IsStopped plugin_start" using plugin_start_stopped by (code_simp, blast)
  show ?thesis
    by (simp add: sample_idle_def Breakpoints_new_def UpdateBreakpoint_def DeleteBreakpoint_def AddBreakpoint_def
        UpdateOrAddBreakpoint_def local_filename_def FindBreakpoint_def add_new_breakpoint_def new_obj_def
        UpdateMapFileBreakPoints_def UpdateDAP_not_running no set_obj_def obj_def GetLocation_def Let_def
        EditBreakpointDlg_EndModal_def bind_err_def)
qed

section \<open>Lines that are removed\<close>

lemma UpdateDAP_total:
  assumes "IsStopped (DAPDebuggerState S)" "map_of (m_map_filebreakpoints S) f = Some v"
  shows "\<exists>S'. UpdateDAPSetBreakpointsByFileName F E f S = Inr S'"
proof (cases "IsRunning (DAPDebuggerState S)")
  case True
  moreover have "m_map_filebreakpoints S \<noteq> []" using assms(2) by auto
  ultimately show ?thesis using assms by (simp add: UpdateDAP_running)
qed (simp add: UpdateDAP_not_running)

text \<open>removing lines can keep the wrong breakpoint for the debugger. In a file with breakpoints
  \<open>a\<close> and \<open>b\<close>, \<open>a\<close> first in the list and \<open>k\<close> lines below \<open>b\<close>, the removal of \<open>k\<close> lines from that of \<open>b\<close> on
  moves \<open>a\<close> to the line of \<open>b\<close> and deletes \<open>b\<close>; the map of files, searched by line, then loses
  \<open>a\<close> and keeps the deleted \<open>b\<close>. From then on the debugger is told about \<open>b\<close> and never about \<open>a\<close>.
\<close>
lemma removed_lines_swap:
  assumes "bp_session F E ops S" "m_breakpoints S = [a, b]" "files_of S f = [a, b]"
    "local_filename f S = f" "db_line (obj S a) = db_line (obj S b) + k" "0 < k"
  shows "\<exists>S'. ShiftAllFileBreakpoints F E f (db_line (obj S b)) (- k) S = Inr S'
    \<and> m_breakpoints S' = [a] \<and> files_of S' f = [b]"
proof -
  have inv: "bps_inv E S" by (rule bps.bp_session_inv [OF assms(1)])
  have stopped: "IsStopped (DAPDebuggerState S)"
    using stop.bp_session_inv [OF assms(1)] by (simp add: always_stopped_def)
  have f: "db_filename (obj S a) = f" "db_filename (obj S b) = f"
    using files_ofD(2) [OF inv, of _ f] by (simp_all add: assms(3))
  have "db_type (obj S b) = bptCode" "db_project (obj S a) = ce_FindProjectForFile E f"
    "db_project (obj S b) = ce_FindProjectForFile E f" "a \<noteq> b"
    using bps_invD(2,4,5) [OF inv] f by (simp_all add: assms(2))
  note ab = this
  let ?l = "db_line (obj S b)"
  let ?S1 = "set_obj a (SetShiftLines (- k)) S"
  have v: "map_of (m_map_filebreakpoints S) f = Some [a, b]"
    using assms(3) by (cases "map_of (m_map_filebreakpoints S) f") (simp_all add: files_of_def)
  let ?S2 = "?S1\<lparr> m_map_filebreakpoints := AList.update f [b] (m_map_filebreakpoints S), m_breakpoints := [a] \<rparr>"
  have shift: "ShiftAllFileBreakpoints F E f ?l (- k) S = DeleteBreakpoint F E b ?S1"
    using assms(5,6) ab f
    by (simp add: ShiftAllFileBreakpoints_def Let_def assms(2,4) shift_one_def obj_def set_obj_def SetShiftLines_def
        bind_err_def split: sum.split)
  have delete: "DeleteBreakpoint F E b ?S1 = UpdateDAPSetBreakpointsByFileName F E f ?S2"
    using ab f v assms(2,5)
    by (simp add: DeleteBreakpoint_def GetLocation_def UpdateMapFileBreakPoints_def Let_def obj_def set_obj_def
        SetShiftLines_def erase_first_def)
  obtain S' where S': "UpdateDAPSetBreakpointsByFileName F E f ?S2 = Inr S'"
    using UpdateDAP_total [of ?S2 f "[b]" F E] stopped by (auto simp: set_obj_def update_conv')
  note c = coreD(1,2) [OF UpdateDAP_core [OF S']]
  show ?thesis by (simp add: shift delete S' c files_of_def update_conv')
qed

lemma sample_same_session:
  "bp_session F sample_env [B_Add ''a.c'' 6, B_Add ''a.c'' 5] (sample_idle ''a.c'' 6 ''a.c'' 5)"
  by (rule sample_idle_session) simp

section \<open>Loading\<close>

lemma fold_if_none: "\<forall>r \<in> set rs. \<not> c r S \<Longrightarrow> fold (\<lambda>r S. if c r S then g r S else S) rs S = S"
  by (induction rs) auto

text \<open>Loading the state file restores nothing. Whatever the file holds, \<open>LoadStateFromFile\<close> leaves the
  state as it is in every session whose breakpoints have file names.
\<close>
lemma load_restores_nothing:
  assumes "list_all (\<lambda>r. db_filename (obj S r) \<noteq> []) (m_breakpoints S)"
  shows "LoadStateFromFile root project S = S"
proof -
  have "update_matching (DAPBreakpoint_default project) S = S"
    using assms by (auto simp: update_matching_def list_all_iff DAPBreakpoint_default_def intro!: fold_if_none)
  then have "fold (\<lambda>_ S. update_matching (DAPBreakpoint_default project) S) xs S = S" for xs :: "xml list"
    by (induction xs) simp_all
  then show ?thesis by (simp add: LoadStateFromFile_def split: option.split)
qed

end
