(* ===== verification/Dap_Server.thy ===== *)
theory Dap_Server
  imports Dap_ClientPairing Dap_StringUtils
begin

text \<open>
  The ends of the connection: \<open>ConnectionString.cpp\<close>, \<open>Queue.hpp\<close>, sending and reading in
  \<open>Socket.cpp\<close>, and \<open>ServerProtocol.cpp\<close>, the adapter's side of the protocol. What the system
  calls return (\<open>select\<close>, \<open>recv\<close>, \<open>send\<close>) is given to the definitions as a list of answers, one
  for every turn of a loop. The last section joins client and server: the handshake.
\<close>

section \<open>Connection strings\<close>

datatype eProtocol = kTcp | kUnixLocalSocket

record ConnectionString =
  cs_protocol :: "eProtocol option"   \<comment> \<open>\<open>None\<close>: the constructor does not set it\<close>
  cs_host :: string
  cs_port :: int
  cs_path :: string
  cs_isOK :: bool

datatype cs_error = SubstrThrows | LongOverflow

definition parse_address :: "eProtocol \<Rightarrow> string \<Rightarrow> ConnectionString \<Rightarrow> cs_error + ConnectionString" where
  \<comment> \<open>\<open>DoParse\<close> from the line that takes the address on\<close>
  "parse_address protocol connectionString cs =
     (let address = AfterFirst connectionString CHR '':''
      in if length address < 2 then Inl SubstrThrows
      else let address = drop 2 address
      in case protocol of
           kUnixLocalSocket \<Rightarrow>
             Inr (cs\<lparr> cs_protocol := Some protocol, cs_path := address, cs_isOK := (address \<noteq> []) \<rparr>)
         | kTcp \<Rightarrow>
             (let host = BeforeFirst address CHR '':''; port = AfterFirst address CHR '':'';
                  n = (if port \<noteq> [] then atol port else cs_port cs)
              in if \<bar>n\<bar> > LONG_MAX then Inl LongOverflow
                 else Inr (cs\<lparr> cs_protocol := Some protocol, cs_host := host, cs_port := n,
                        cs_isOK := (host \<noteq> [] \<and> n \<noteq> - 1) \<rparr>)))"

definition DoParse :: "bool \<Rightarrow> string \<Rightarrow> ConnectionString \<Rightarrow> cs_error + ConnectionString" where
  "DoParse win32 connectionString cs0 =
     (let cs = cs0\<lparr> cs_isOK := False \<rparr>;
          protocol = BeforeFirst connectionString CHR '':''
      in if protocol = ''tcp'' then parse_address kTcp connectionString cs
         else if protocol = ''unix'' then
           (if win32 then Inr cs else parse_address kUnixLocalSocket connectionString cs)
         else Inr cs)"

definition ConnectionString_make :: "bool \<Rightarrow> string \<Rightarrow> cs_error + ConnectionString" where
  "ConnectionString_make win32 connectionString = DoParse win32 connectionString
     \<lparr> cs_protocol = None, cs_host = [], cs_port = - 1, cs_path = [], cs_isOK = False \<rparr>"

datatype connect_result = ConnectThrows cs_error | Unsupported | Connected_is bool

definition SocketClient_Connect :: "(string \<Rightarrow> int \<Rightarrow> bool) \<Rightarrow> bool \<Rightarrow> string \<Rightarrow> connect_result" where
  \<comment> \<open>the first argument is \<open>ConnectRemote\<close>, whose port is an \<open>int\<close>\<close>
  "SocketClient_Connect ConnectRemote win32 connectionString =
     (case ConnectionString_make win32 connectionString of
        Inl e \<Rightarrow> ConnectThrows e
      | Inr cs \<Rightarrow>
          (if \<not> cs_isOK cs then Connected_is False
           else if cs_protocol cs = Some kUnixLocalSocket then Unsupported
           else Connected_is (ConnectRemote (cs_host cs) (wrap32 (cs_port cs)))))"

text \<open>connection strings. \<open>tcp://host:port\<close> with a host that is not empty and has no colon is
  accepted and gives back the host and the port, for every port that fits a \<open>long\<close>; the client
  connects to that host with the port cut to an \<open>int\<close>. Without a port the string is refused.
  A string whose protocol is \<open>tcp\<close> and that has fewer than two characters after its first colon
  (such as \<open>tcp\<close> or \<open>tcp:\<close>) is not refused: \<open>substr\<close> throws.\<close>

lemma ConnectionString_tcp:
  assumes "host \<noteq> []" "CHR '':'' \<notin> set host" "int port \<le> LONG_MAX" "length rest < 2"
  shows "ConnectionString_make win32 (''tcp://'' @ host @ '':'' @ show_nat port)
      = Inr \<lparr> cs_protocol = Some kTcp, cs_host = host, cs_port = int port, cs_path = [], cs_isOK = True \<rparr>
    \<and> SocketClient_Connect cr win32 (''tcp://'' @ host @ '':'' @ show_nat port)
      = Connected_is (cr host (wrap32 (int port)))
    \<and> SocketClient_Connect cr win32 (''tcp://'' @ host) = Connected_is False
    \<and> SocketClient_Connect cr win32 ''tcp'' = ConnectThrows SubstrThrows
    \<and> SocketClient_Connect cr win32 (''tcp:'' @ rest) = ConnectThrows SubstrThrows"
proof -
  have p: "find_char CHR '':'' (host @ CHR '':'' # show_nat port) = Some (length host)"
    using assms(2) by (rule find_char_append_notin)
  have n: "find_char CHR '':'' host = None" using assms(2) by (simp add: find_char_None)
  have d: "show_nat port \<noteq> []" "atol (show_nat port) = int port"
    by (simp add: show_nat.simps [of port]) (rule atol_show_nat)
  have make: "ConnectionString_make win32 (''tcp://'' @ host @ '':'' @ show_nat port)
      = Inr \<lparr> cs_protocol = Some kTcp, cs_host = host, cs_port = int port, cs_path = [], cs_isOK = True \<rparr>"
    using assms d by (simp add: ConnectionString_make_def DoParse_def parse_address_def BeforeFirst_def AfterFirst_def p Let_def)
  moreover have "SocketClient_Connect cr win32 (''tcp://'' @ host @ '':'' @ show_nat port)
      = Connected_is (cr host (wrap32 (int port)))"
    unfolding SocketClient_Connect_def make by simp
  moreover have "SocketClient_Connect cr win32 (''tcp://'' @ host) = Connected_is False"
    by (simp add: SocketClient_Connect_def ConnectionString_make_def DoParse_def parse_address_def BeforeFirst_def
        AfterFirst_def n Let_def LONG_MAX_def)
  moreover have "SocketClient_Connect cr win32 ''tcp'' = ConnectThrows SubstrThrows"
    "SocketClient_Connect cr win32 (''tcp:'' @ rest) = ConnectThrows SubstrThrows"
    using assms(4) by (simp_all add: SocketClient_Connect_def ConnectionString_make_def DoParse_def parse_address_def
        BeforeFirst_def AfterFirst_def Let_def)
  ultimately show ?thesis by blast
qed

section \<open>The queue and the socket\<close>

definition Queue_push :: "'a \<Rightarrow> 'a list \<Rightarrow> 'a list" where
  "Queue_push x Q = Q @ [x]"

definition Queue_pop :: "'a \<Rightarrow> 'a list \<Rightarrow> 'a \<times> 'a list" where
  \<comment> \<open>when \<open>wait_for\<close> ends; the first argument is \<open>T()\<close>\<close>
  "Queue_pop dflt Q = (case Q of [] \<Rightarrow> (dflt, []) | x # Q' \<Rightarrow> (x, Q'))"

datatype send_answer = SelectWriteTimeout | SelectWriteFails | SendReturns int

datatype send_result = SendDone string | SendThrows string | SendLoops string   \<comment> \<open>with the bytes written\<close>

primrec send_loop :: "send_answer list \<Rightarrow> string \<Rightarrow> int \<Rightarrow> string \<Rightarrow> send_result" where
  \<comment> \<open>the loop of \<open>Socket::Send\<close>: answers of the system, \<open>pdata\<close>, \<open>bytesLeft\<close>, bytes written so far\<close>
  "send_loop [] pdata bytesLeft out = (if bytesLeft = 0 then SendDone out else SendLoops out)"
| "send_loop (e # es) pdata bytesLeft out =
     (if bytesLeft = 0 then SendDone out
      else case e of
          SelectWriteTimeout \<Rightarrow> send_loop es pdata bytesLeft out
        | SelectWriteFails \<Rightarrow> SendThrows out
        | SendReturns bytesSent \<Rightarrow>
            (if bytesSent \<le> 0 then SendThrows out
             else send_loop es (drop (nat bytesSent) pdata) (bytesLeft - bytesSent) (out @ take (nat bytesSent) pdata)))"

definition Socket_Send :: "(string \<Rightarrow> string) \<Rightarrow> bool \<Rightarrow> send_answer list \<Rightarrow> string \<Rightarrow> send_result" where
  \<comment> \<open>the first argument is \<open>mb_str(wxConvUTF8)\<close>, the second whether the socket is valid\<close>
  "Socket_Send mb_str valid es msg =
     (if \<not> valid then SendThrows []
      else if msg = [] then SendDone []
      else send_loop es (mb_str msg) (int (length msg)) [])"

datatype read_result = kSuccess string | kTimeout | ReadThrows

datatype recv_answer = WouldBlock | RecvFails | Received string

definition Socket_Read :: "recv_answer \<Rightarrow> read_result" where
  \<comment> \<open>\<open>Read(wxString&)\<close>; \<open>recv\<close> returns at most 4095 bytes, none at the end of the stream; the buffer is
      read as a C string\<close>
  "Socket_Read answer =
     (case answer of WouldBlock \<Rightarrow> kTimeout | RecvFails \<Rightarrow> ReadThrows
      | Received bytes \<Rightarrow> (if bytes = [] then ReadThrows else kSuccess (c_str bytes)))"

primrec sent_bytes :: "send_answer \<Rightarrow> int" where
  "sent_bytes SelectWriteTimeout = 0" | "sent_bytes SelectWriteFails = 0" | "sent_bytes (SendReturns n) = n"

lemma send_loop_done:
  assumes "list_all (\<lambda>e. case e of SendReturns n \<Rightarrow> 0 < n | SelectWriteTimeout \<Rightarrow> True | _ \<Rightarrow> False) es"
    "sum_list (map sent_bytes es) = int k"
  shows "send_loop es pdata (int k) out = SendDone (out @ take k pdata)"
  using assms
proof (induction es arbitrary: pdata k out)
  case Nil
  then show ?case by simp
next
  case (Cons e es)
  show ?case
  proof (cases e)
    case SelectWriteTimeout
    with Cons show ?thesis by simp
  next
    case SelectWriteFails
    with Cons.prems show ?thesis by simp
  next
    case (SendReturns n)
    with Cons.prems have n: "0 < n" by simp
    have "0 \<le> sum_list (map sent_bytes es)"
      using Cons.prems(1) by (induction es) (auto split: send_answer.splits)
    with SendReturns Cons.prems n have s: "sum_list (map sent_bytes es) = int (k - nat n)" "nat n \<le> k"
      by (simp_all add: of_nat_diff)
    then have "send_loop es (drop (nat n) pdata) (int (k - nat n)) (out @ take (nat n) pdata)
        = SendDone (out @ take k pdata)"
      using Cons.IH [of "k - nat n"] Cons.prems(1) by (simp add: take_add [symmetric])
    moreover have "int (k - nat n) = int k - n" using s n by (simp add: of_nat_diff)
    ultimately show ?thesis using SendReturns n s by simp
  qed
qed

text \<open>what \<open>Socket::Send\<close> writes. However the system splits the writes, and with any number of
  timeouts in between, the bytes that reach the peer are the first \<open>n\<close> bytes of the UTF-8 text, where
  \<open>n\<close> is the number of characters of the message: all of an ASCII message, and never the end of a
  message with another character, although the call returns normally.\<close>

lemma Socket_Send_writes:
  assumes "list_all (\<lambda>e. case e of SendReturns n \<Rightarrow> 0 < n | SelectWriteTimeout \<Rightarrow> True | _ \<Rightarrow> False) es"
    "sum_list (map sent_bytes es) = int (length msg)"
  shows "Socket_Send mb_str True es msg = SendDone (if msg = [] then [] else take (length msg) (mb_str msg))
    \<and> (mb_str msg = msg \<longrightarrow> Socket_Send mb_str True es msg = SendDone msg)
    \<and> (length msg < length (mb_str msg) \<longrightarrow> Socket_Send mb_str True es msg \<noteq> SendDone (mb_str msg))"
  using send_loop_done [OF assms, of "mb_str msg" "[]"]
  by (auto simp: Socket_Send_def dest: arg_cong [of _ _ length])

section \<open>The adapter's side\<close>

text \<open>
  \<open>ServerProtocol\<close>: its \<open>JsonRPC\<close> buffer and what it wrote to the connection. \<open>state\<close> is the local
  variable of \<open>Initialize\<close>; a turn of its loop gets the answers of \<open>SelectReadMS\<close> and \<open>Read\<close>.
\<close>

datatype init_state = kWaitingInitRequest | kDone | Thrown   \<comment> \<open>the last for an exception that leaves \<open>Initialize\<close>\<close>

datatype conn_turn = SelectReadTimeout | SelectReadThrows | Readable read_result

record ServerProtocol =
  sp_rpc :: string
  sp_sent :: "string list"
  sp_state :: init_state

definition ServerProtocol_new :: ServerProtocol where
  "ServerProtocol_new = \<lparr> sp_rpc = [], sp_sent = [], sp_state = kWaitingInitRequest \<rparr>"

definition is_initialize_request :: "DapMessage option \<Rightarrow> bool" where
  "is_initialize_request request =
     (case request of Some (MRequest (Rq_Initialize r)) \<Rightarrow> pm_type r = ''request'' | _ \<Rightarrow> False)"

definition server_send :: "(string \<Rightarrow> bool) \<Rightarrow> string \<Rightarrow> ServerProtocol \<Rightarrow> ServerProtocol" where
  \<comment> \<open>\<open>m_rpc.Send\<close>; the first argument says whether \<open>Socket::Send\<close> returns\<close>
  "server_send writes payload S =
     (let S' = S\<lparr> sp_sent := sp_sent S @ [JsonRPC_frame payload] \<rparr>
      in if sp_state S = Thrown then S
         else if writes (JsonRPC_frame payload) then S' else S\<lparr> sp_state := Thrown \<rparr>)"

definition init_message :: "'d fp \<Rightarrow> ObjGenerator \<Rightarrow> (string \<Rightarrow> bool) \<Rightarrow> 'd cJsonDap \<Rightarrow> ServerProtocol \<Rightarrow> ServerProtocol" where
  \<comment> \<open>the callback of \<open>Initialize\<close>; an exception ends the run over the buffer\<close>
  "init_message F g writes json S =
     (if sp_state S = Thrown then S
      else if is_initialize_request (ObjGenerator_FromJSON F g (Some json)) then
        (let S = server_send writes (Json_ToString F False (InitializeResponse_To F InitializeResponse_new)) S;
             S = server_send writes (Json_ToString F False (InitializedEvent_To F InitializedEvent_new)) S
         in if sp_state S = Thrown then S else S\<lparr> sp_state := kDone \<rparr>)
      else S)"

definition init_turn :: "'d fp \<Rightarrow> wx \<Rightarrow> ObjGenerator \<Rightarrow> (string \<Rightarrow> bool) \<Rightarrow> conn_turn \<Rightarrow> ServerProtocol \<Rightarrow> ServerProtocol option" where
  "init_turn F W g writes t S =
     (case t of
        SelectReadTimeout \<Rightarrow> Some S
      | SelectReadThrows \<Rightarrow> Some (S\<lparr> sp_state := Thrown \<rparr>)
      | Readable ReadThrows \<Rightarrow> Some (S\<lparr> sp_state := Thrown \<rparr>)
      | Readable kTimeout \<Rightarrow> Some S
      | Readable (kSuccess network_buffer) \<Rightarrow>
          (case ProcessBuffer F W (AppendBuffer (sp_rpc S) network_buffer) of
             None \<Rightarrow> None
           | Some (jsons, rest) \<Rightarrow> Some (fold (init_message F g writes) jsons (S\<lparr> sp_rpc := rest \<rparr>))))"

primrec Server_Initialize :: "'d fp \<Rightarrow> wx \<Rightarrow> ObjGenerator \<Rightarrow> (string \<Rightarrow> bool) \<Rightarrow> conn_turn list \<Rightarrow> ServerProtocol
    \<Rightarrow> ServerProtocol option" where
  \<comment> \<open>the loop, for as many turns as are given; \<open>None\<close> is an undefined run of the parser\<close>
  "Server_Initialize F W g writes [] S = Some S"
| "Server_Initialize F W g writes (t # ts) S =
     (if sp_state S \<noteq> kWaitingInitRequest then Some S
      else Option.bind (init_turn F W g writes t S) (Server_Initialize F W g writes ts))"

datatype 'a check_result = CheckUndefined | CheckThrows | CheckReturns 'a

definition Server_Check :: "'d fp \<Rightarrow> wx \<Rightarrow> ObjGenerator \<Rightarrow> bool \<Rightarrow> conn_turn \<Rightarrow> ServerProtocol
    \<Rightarrow> (DapMessage list \<times> ServerProtocol) check_result" where
  \<comment> \<open>with the messages given to \<open>m_onNetworkMessage\<close>, which is set if the fourth argument says so\<close>
  "Server_Check F W g registered t S =
     (if \<not> registered then CheckReturns ([], S)
      else case t of
          SelectReadThrows \<Rightarrow> CheckThrows
        | Readable ReadThrows \<Rightarrow> CheckThrows
        | _ \<Rightarrow>
            (let buffer = (case t of Readable (kSuccess content) \<Rightarrow> AppendBuffer (sp_rpc S) content | _ \<Rightarrow> sp_rpc S)
             in case ProcessBuffer F W buffer of
                  None \<Rightarrow> CheckUndefined
                | Some (jsons, rest) \<Rightarrow>
                    CheckReturns (List.map_filter (\<lambda>json. ObjGenerator_FromJSON F g (Some json)) jsons,
                      S\<lparr> sp_rpc := rest \<rparr>)))"

primrec DapMessage_To :: "'d fp \<Rightarrow> DapMessage \<Rightarrow> 'd Json" where
  "DapMessage_To F (MRequest r) = DapRequest_To F r"
| "DapMessage_To F (MResponse r) = DapResponse_To F r"
| "DapMessage_To F (MEvent e) = DapEvent_To F e"

definition ProcessGdbMessage :: "'d fp \<Rightarrow> (string \<Rightarrow> bool) \<Rightarrow> DapMessage \<Rightarrow> ServerProtocol \<Rightarrow> ServerProtocol" where
  "ProcessGdbMessage F writes message S = server_send writes (Json_ToString F False (DapMessage_To F message)) S"

section \<open>The handshake of client and adapter\<close>

primrec quiet :: "conn_turn \<Rightarrow> bool" where
  "quiet SelectReadTimeout = True" | "quiet SelectReadThrows = False" | "quiet (Readable r) = (r \<noteq> ReadThrows)"

primrec received :: "conn_turn \<Rightarrow> string list" where
  "received SelectReadTimeout = []" | "received SelectReadThrows = []"
| "received (Readable r) = (case r of kSuccess c \<Rightarrow> [c] | _ \<Rightarrow> [])"

definition replies :: "'d fp \<Rightarrow> string list" where
  "replies F = [JsonRPC_frame (Json_ToString F False (InitializeResponse_To F InitializeResponse_new)),
     JsonRPC_frame (Json_ToString F False (InitializedEvent_To F InitializedEvent_new))]"

lemma Initialize_finished: "sp_state S \<noteq> kWaitingInitRequest \<Longrightarrow> Server_Initialize F W g writes ts S = Some S"
  by (cases ts) simp_all

lemma Server_Initialize_feed:
  assumes "feed (ProcessBuffer F W) (concat (map received ts)) (sp_rpc S) = Some ([m], b)"
    "list_all quiet ts" "is_initialize_request (ObjGenerator_FromJSON F g (Some m))"
    "sp_state S = kWaitingInitRequest"
  shows "\<exists>S'. Server_Initialize F W g (\<lambda>_. True) ts S = Some S' \<and> sp_state S' = kDone \<and> sp_sent S' = sp_sent S @ replies F"
  using assms
proof (induction ts arbitrary: S)
  case Nil
  then show ?case by simp
next
  case (Cons t ts)
  consider "received t = []" "init_turn F W g (\<lambda>_. True) t S = Some S" | c where "t = Readable (kSuccess c)"
  proof (cases t)
    case (Readable r)
    with Cons.prems(2) that show ?thesis by (cases r) (simp_all add: init_turn_def)
  qed (use Cons.prems(2) that in \<open>simp_all add: init_turn_def\<close>)
  then show ?case
  proof cases
    case 1
    with Cons show ?thesis by simp
  next
    case 2
    with Cons.prems(1) obtain js b' where read: "ProcessBuffer F W (AppendBuffer (sp_rpc S) c) = Some (js, b')"
      by (auto split: option.splits prod.splits)
    show ?thesis
    proof (cases js)
      case Nil
      have "init_turn F W g (\<lambda>_. True) t S = Some (S\<lparr> sp_rpc := b' \<rparr>)"
        using 2 read Nil by (simp add: init_turn_def)
      then show ?thesis using Cons.IH [of "S\<lparr> sp_rpc := b' \<rparr>"] Cons.prems 2 read Nil
        by (auto split: option.splits prod.splits)
    next
      case (Cons j js')
      with Cons.prems(1) 2 read have "j = m" "js' = []" by (auto split: option.splits prod.splits)
      with Cons 2 read Cons.prems(3,4) show ?thesis
        by (simp add: init_turn_def init_message_def server_send_def Let_def Initialize_finished replies_def)
    qed
  qed
qed

lemma read_type: "pm_type (InitializeRequest_From F j x) = Json_GetString [] (Json_member j ''type'')"
  by (simp add: InitializeRequest_From_def Request_From_def ProtocolMessage_From_def)

lemma request_recognised:
  assumes "fp_ok F" "InitializeRequest_ok r" "pm_type r = ''request''" "rq_command r = ''initialize''"
  shows "is_initialize_request (ObjGenerator_FromJSON F (Initialize u ObjGenerator_empty) (norm_j (InitializeRequest_To F r)))"
proof -
  let ?j = "norm_j (InitializeRequest_To F r)"
  have obj: "obj_ok F (InitializeRequest_To F r)" by (rule InitializeRequest_To_ok [OF assms(1,2)])
  have ok: "Json_IsOK ?j" using obj_val(1) [OF obj] by (simp add: val_ok_def Json_IsOK_def norm_j_def)
  have "Json_GetString [] (Json_member ?j ''type'') = ''request''"
    "Json_GetString [] (Json_member ?j ''command'') = ''initialize''"
    using assms(3,4)
    by (simp_all add: InitializeRequest_To_def Request_To_def ProtocolMessage_To_def Let_def msg_build msg_read)
  then show ?thesis using ok
    by (simp add: is_initialize_request_def ObjGenerator_FromJSON_def ObjGenerator_New_def Initialize_pools
        request_classes_def Let_def read_type)
qed

lemma InitializeResponse_To_obj: "fp_ok F \<Longrightarrow> obj_ok F (InitializeResponse_To F InitializeResponse_new)"
  by (auto simp: InitializeResponse_To_def InitializeResponse_new_def Response_To_def ProtocolMessage_To_def
      int32_def INT_MAX_def INT_MIN_def Let_def msg_build intro!: msg_wf intro: msg_wf_leaf)

lemma InitializedEvent_new_ok: "InitializedEvent_ok InitializedEvent_new"
  by (simp add: InitializedEvent_ok_def InitializedEvent_new_def Event_ok_def ProtocolMessage_ok_def
      int32_def INT_MAX_def INT_MIN_def)

lemma response_recognised:
  assumes "fp_ok F"
  shows "\<exists>x. ObjGenerator_FromJSON F (Initialize u ObjGenerator_empty)
      (norm_j (InitializeResponse_To F InitializeResponse_new)) = Some (MResponse (Rs_Initialize x))
    \<and> pm_type x = ''response'' \<and> rs_command x = ''initialize''"
proof -
  let ?j = "norm_j (InitializeResponse_To F InitializeResponse_new)"
  have ok: "Json_IsOK ?j"
    using obj_val(1) [OF InitializeResponse_To_obj [OF assms]] by (simp add: val_ok_def Json_IsOK_def norm_j_def)
  have "Json_GetString [] (Json_member ?j ''type'') = ''response''"
    "Json_GetString [] (Json_member ?j ''command'') = ''initialize''"
    by (simp_all add: InitializeResponse_To_def InitializeResponse_new_def Response_To_def ProtocolMessage_To_def
        Let_def msg_build msg_read)
  then show ?thesis using ok
    by (simp add: ObjGenerator_FromJSON_def ObjGenerator_New_def Initialize_pools response_classes_def Let_def
        InitializeResponse_From_def Response_From_def ProtocolMessage_From_def)
qed

lemma event_recognised:
  assumes "fp_ok F"
  shows "ObjGenerator_FromJSON F (Initialize u ObjGenerator_empty) (norm_j (InitializedEvent_To F InitializedEvent_new))
    = Some (MEvent (Ev_Initialized InitializedEvent_new))"
proof -
  let ?j = "norm_j (InitializedEvent_To F InitializedEvent_new)"
  have obj: "obj_ok F (InitializedEvent_To F InitializedEvent_new)"
    by (rule ser_InitializedEvent.To_ok [OF assms InitializedEvent_new_ok])
  have ok: "Json_IsOK ?j" using obj_val(1) [OF obj] by (simp add: val_ok_def Json_IsOK_def norm_j_def)
  have from_j: "InitializedEvent_From F ?j InitializedEvent_new = InitializedEvent_new"
    using ser_InitializedEvent.From_To [OF assms InitializedEvent_new_ok, of None] named_None_obj [OF obj] by simp
  have "Json_GetString [] (Json_member ?j ''type'') = ''event''" "Json_GetString [] (Json_member ?j ''event'') = ''initialized''"
    by (simp_all add: InitializedEvent_To_def InitializedEvent_new_def Event_To_def ProtocolMessage_To_def
        Let_def msg_build msg_read)
  then show ?thesis using ok from_j
    by (simp add: ObjGenerator_FromJSON_def ObjGenerator_New_def Initialize_pools event_classes_def Let_def)
qed

lemma client_handshake:
  assumes "fp_ok F" "m_handshake_state cl = kInProgress" "\<not> m_wants_log_events cl"
  shows "\<exists>x s s'. let cl' = OnMessage F (Initialize u ObjGenerator_empty) (norm_j (InitializedEvent_To F InitializedEvent_new))
        (OnMessage F (Initialize u ObjGenerator_empty) (norm_j (InitializeResponse_To F InitializeResponse_new)) cl)
      in m_handshake_state cl' = kCompleted
        \<and> cl_trace cl' = cl_trace cl
            @ [Fired \<lparr> de_type = wxEVT_DAP_INITIALIZE_RESPONSE, de_object = Some (MResponse (Rs_Initialize x)), de_string = s \<rparr>,
               Fired \<lparr> de_type = wxEVT_DAP_INITIALIZED_EVENT,
                 de_object = Some (MEvent (Ev_Initialized InitializedEvent_new)), de_string = s' \<rparr>]"
proof -
  let ?g = "Initialize u ObjGenerator_empty"
  let ?j1 = "norm_j (InitializeResponse_To F InitializeResponse_new)" and ?j2 = "norm_j (InitializedEvent_To F InitializedEvent_new)"
  obtain x0 where x0: "ObjGenerator_FromJSON F ?g ?j1 = Some (MResponse (Rs_Initialize x0))"
    "pm_type x0 = ''response''" "rs_command x0 = ''initialize''"
    using response_recognised [OF assms(1)] by blast
  define cl1 where "cl1 = OnMessage F ?g ?j1 cl"
  have quiet: "log_event s c = c" if "m_wants_log_events c = m_wants_log_events cl" for s and c :: "'b Client"
    using that assms(3) by (simp add: log_event_def)
  have obj: "obj_ok F (InitializedEvent_To F InitializedEvent_new)"
    by (rule ser_InitializedEvent.To_ok [OF assms(1) InitializedEvent_new_ok])
  have from_j: "InitializedEvent_From F ?j2 InitializedEvent_new = InitializedEvent_new"
    using ser_InitializedEvent.From_To [OF assms(1) InitializedEvent_new_ok, of None] named_None_obj [OF obj] by simp
  have features: "m_wants_log_events (fold (ENABLE_FEATURE b) fs c) = m_wants_log_events c
      \<and> m_handshake_state (fold (ENABLE_FEATURE b) fs c) = m_handshake_state c" for b :: "'a Json" and fs and c :: "'b Client"
    by (induction fs arbitrary: c) (simp_all add: ENABLE_FEATURE_def)
  have "cl1 = SendDAPEvent F wxEVT_DAP_INITIALIZE_RESPONSE (MResponse (Rs_Initialize InitializeResponse_new)) ?j1
      (fold (ENABLE_FEATURE (Json_member ?j1 ''body'')) enabled_features (cl\<lparr> m_handshake_state := kCompleted \<rparr>))"
    using x0 assms(2) quiet [of cl]
    by (simp add: cl1_def OnMessage_def Let_def is_initialize_response_def Response.truncate_def)
  then obtain x s where s1: "m_handshake_state cl1 = kCompleted" "\<not> m_wants_log_events cl1"
    "cl_trace cl1 = cl_trace cl @ [Fired \<lparr> de_type = wxEVT_DAP_INITIALIZE_RESPONSE,
       de_object = Some (MResponse (Rs_Initialize x)), de_string = s \<rparr>]"
    using assms(3) features by (simp add: SendDAPEvent_def emit_def Let_def)
  have q: "log_event t cl1 = cl1" for t using s1(2) by (simp add: log_event_def)
  have "OnMessage F ?g ?j2 cl1 = OnEvent F InitializedEvent_new ?j2 cl1"
    using s1(1) event_recognised [OF assms(1), of u]
    by (simp add: OnMessage_def Let_def q AsEvent_def Event.truncate_def InitializedEvent_new_def)
  moreover have "ev_event InitializedEvent_new = ''initialized''" by (simp add: InitializedEvent_new_def)
  ultimately show ?thesis using s1 from_j
    by (auto simp: Let_def cl1_def [symmetric] OnEvent_def SendDAPEvent_def emit_def)
qed

definition initialize_request :: "InitializeRequestArguments option \<Rightarrow> 'cb Client \<Rightarrow> InitializeRequest" where
  \<comment> \<open>the request that \<open>Client::Initialize\<close> sends\<close>
  "initialize_request initArgs cl =
     (let req = fst (MakeRequest InitializeRequest_new cl)
      in case initArgs of
           Some a \<Rightarrow> req\<lparr> ir_arguments := a \<rparr>
         | None \<Rightarrow> req\<lparr> ir_arguments := (ir_arguments req)\<lparr> ia_clientID := ''wxdap'', ia_clientName := ''wxdap'' \<rparr> \<rparr>)"

lemma Client_Initialize_sends:
  assumes "m_transport cl" "\<not> m_wants_log_events cl"
  shows "Client_Initialize F a cl = cl\<lparr> m_requestSeuqnce := m_requestSeuqnce cl + 1, m_handshake_state := kInProgress,
    cl_trace := cl_trace cl @ [Sent (JsonRPC_frame (Json_ToString F False (InitializeRequest_To F (initialize_request a cl))))] \<rparr>"
  using assms
  by (simp add: Client_Initialize_def initialize_request_def MakeRequest_def GetNextSequence_def SendRequest_def
      send_message_def JsonRPC_Send_def emit_def log_event_def Let_def split: option.split)

lemma initialize_request_ok:
  assumes "int (unat (m_requestSeuqnce cl + 1)) \<le> INT_MAX" "pred_option InitializeRequestArguments_ok a"
  shows "InitializeRequest_ok (initialize_request a cl)"
    "pm_type (initialize_request a cl) = ''request''" "rq_command (initialize_request a cl) = ''initialize''"
proof -
  let ?n = "uint (m_requestSeuqnce cl + 1)"
  have n: "0 \<le> ?n" "?n \<le> INT_MAX" using assms(1) by simp_all
  then have w: "wrap32 ?n = ?n" "int32 ?n"
    using order_trans [OF _ n(1), of INT_MIN] by (simp_all add: wrap32_def int32_def INT_MAX_def INT_MIN_def)
  show "InitializeRequest_ok (initialize_request a cl)"
    using assms(2) w
    by (auto simp: initialize_request_def MakeRequest_def GetNextSequence_def InitializeRequest_new_def
        InitializeRequestArguments_new_def InitializeRequest_ok_def Request_ok_def ProtocolMessage_ok_def
        InitializeRequestArguments_ok_def Let_def split: option.split)
  show "pm_type (initialize_request a cl) = ''request''" "rq_command (initialize_request a cl) = ''initialize''"
    by (simp_all add: initialize_request_def MakeRequest_def GetNextSequence_def InitializeRequest_new_def Let_def
        split: option.split)
qed


definition server_start :: "nat Client" where
  "server_start = SetTransport True Client_new"

definition sample_initialize_request :: InitializeRequest where
  "sample_initialize_request = InitializeRequest_new\<lparr> pm_seq := 1, ir_arguments :=
     InitializeRequestArguments_new\<lparr> ia_clientID := ''wxdap'', ia_clientName := ''wxdap'' \<rparr> \<rparr>"

definition sample_bytes :: string where
  "sample_bytes = JsonRPC_frame (Json_ToString fp_int False (InitializeRequest_To fp_int sample_initialize_request))"

lemma sample_initialize_request: "initialize_request None server_start = sample_initialize_request"
  by (simp add: initialize_request_def server_start_def SetTransport_def StartReaderThread_def Client_Reset_eq Client_new_def
      MakeRequest_def GetNextSequence_def wrap32_def sample_initialize_request_def InitializeRequest_new_def Let_def)

lemma frame_length_le: "length payload < 1000 \<Longrightarrow> int (length (JsonRPC_frame payload)) \<le> LONG_MAX"
  by (simp add: JsonRPC_frame_def CRLF2_def LONG_MAX_def show_nat.simps [of "length payload"]
      show_nat.simps [of "length payload div 10"] show_nat.simps [of "length payload div 10 div 10"])

lemma sample_lengths:
  "length (Json_ToString fp_int False (InitializeRequest_To fp_int sample_initialize_request)) = 470"
  "length (Json_ToString fp_int False (InitializeResponse_To fp_int InitializeResponse_new)) = 106"
  "length (Json_ToString fp_int False (InitializedEvent_To fp_int InitializedEvent_new)) = 47"
  by code_simp+


section \<open>Requests that come too early\<close>

lemma init_message_ignores:
  assumes "list_all (\<lambda>m. \<not> is_initialize_request (ObjGenerator_FromJSON F g (Some m))) ms"
  shows "fold (init_message F g writes) ms S = S"
  using assms by (induction ms) (simp_all add: init_message_def)

text \<open>C38: requests sent early are lost. What a client writes after its \<open>initialize\<close> request, and what
  arrives in the same read, is taken out of the buffer by \<open>Initialize\<close> and dropped: the adapter
  answers the handshake, its buffer is empty, and the next \<open>Check\<close> hands nothing to the
  application.\<close>

theorem early_requests_lost:
  assumes "list_all (sendable F W) (c # ms)" "is_initialize_request (ObjGenerator_FromJSON F g (Some (norm_json c)))"
    "list_all (\<lambda>m. \<not> is_initialize_request (ObjGenerator_FromJSON F g (Some (norm_json m)))) ms"
    "text = concat (map (\<lambda>c. JsonRPC_frame (payload_of F c)) (c # ms))"
  shows "\<exists>S. Server_Initialize F W g (\<lambda>_. True) [Readable (kSuccess text)] ServerProtocol_new = Some S
    \<and> sp_state S = kDone \<and> sp_sent S = replies F \<and> sp_rpc S = []
    \<and> Server_Check F W g True SelectReadTimeout S = CheckReturns ([], S)"
proof -
  have "feed (ProcessBuffer F W) [text] [] = Some (map norm_json (c # ms), [])"
    by (rule rpc.feed_stream [OF assms(1)]) (simp add: assms(4))
  then have read: "ProcessBuffer F W text = Some (norm_json c # map norm_json ms, [])"
    by (auto simp: AppendBuffer_def split: option.splits prod.splits)
  have rest: "fold (init_message F g (\<lambda>_. True)) (map norm_json ms) S = S" for S
    by (rule init_message_ignores) (use assms(3) in \<open>simp add: list_all_iff\<close>)
  have "Server_Initialize F W g (\<lambda>_. True) [Readable (kSuccess text)] ServerProtocol_new
      = Some \<lparr> sp_rpc = [], sp_sent = replies F, sp_state = kDone \<rparr>"
    using assms(2) rest
    by (simp add: init_turn_def AppendBuffer_def read init_message_def server_send_def ServerProtocol_new_def
        replies_def Let_def)
  moreover have "ProcessBuffer F W [] = Some ([], [])" by (subst ProcessBuffer.simps) (simp add: DoProcessBuffer_def)
  ultimately show ?thesis by (auto simp: Server_Check_def Let_def List.map_filter_simps)
qed

theorem early_requests_lost_witness:
  "\<exists>S. Server_Initialize fp_int wx_std sample_gen (\<lambda>_. True)
      [Readable (kSuccess (sample_bytes @ JsonRPC_frame (payload_of fp_int sample_node)))] ServerProtocol_new = Some S
    \<and> sp_state S = kDone \<and> sp_sent S = replies fp_int \<and> sp_rpc S = []
    \<and> Server_Check fp_int wx_std sample_gen True SelectReadTimeout S = CheckReturns ([], S)"
proof -
  have ok: "InitializeRequest_ok sample_initialize_request" "pm_type sample_initialize_request = ''request''"
    "rq_command sample_initialize_request = ''initialize''"
    using initialize_request_ok [of server_start None] unfolding sample_initialize_request
    by (simp_all add: server_start_def SetTransport_def StartReaderThread_def Client_Reset_eq Client_new_def INT_MAX_def)
  obtain c where c: "InitializeRequest_To fp_int sample_initialize_request = Some c"
    using obj_val(1) [OF InitializeRequest_To_ok [OF fp_ok_int ok(1)]] unfolding val_ok_def by blast
  have "sendable fp_int wx_std c"
    using obj_val(1) [OF InitializeRequest_To_ok [OF fp_ok_int ok(1)]] sample_lengths(1)
    by (simp add: sendable_def fp_ok_int wx_ok_std c frame_length_le payload_of_def)
  then have s: "list_all (sendable fp_int wx_std) [c, sample_node]" by (simp add: sample_sendable)
  have r: "is_initialize_request (ObjGenerator_FromJSON fp_int sample_gen (Some (norm_json c)))"
    using request_recognised [OF fp_ok_int ok, of 0] by (simp add: c norm_j_def sample_gen_def)
  have "\<not> is_initialize_request (ObjGenerator_FromJSON fp_int sample_gen (Some (norm_json sample_node)))"
    by code_simp
  then show ?thesis
    by (intro early_requests_lost [OF s r]) (simp_all add: sample_bytes_def payload_of_def c)
qed

end
