(* ===== verification/Dap_CallStack.thy ===== *)
theory Dap_CallStack
  imports Dap_Definitions Dap_State Dap_Client
begin

text \<open>
  The call stack of the plugin: \<open>DAP_CallStack.cpp\<close> with \<open>cbStackFrameXtn\<close> of \<open>definitions.h\<close>. The state
  flags and the client belong to the plugin and are passed in. \<open>None\<close> is an access outside
  \<open>m_backtrace\<close>. Repainting of the dialogs and logging are left out.
\<close>

section \<open>State\<close>

record cbStackFrame =
  bf_number :: int
  bf_file :: string
  bf_line :: string
  bf_symbol :: string
  bf_address :: "64 word option"   \<comment> \<open>\<open>None\<close>: never set to a definite value\<close>
  bf_DAPStackId :: int
  bf_valid :: bool

record cbThread =
  ct_active :: bool
  ct_number :: int
  ct_info :: string

record CallStack =
  k_threads :: "cbThread list"
  k_current_frame :: DAPCurrentFrame
  k_backtrace :: "cbStackFrame list"
  k_first_valid :: int
  k_old_active_frame :: int
  k_currentThreadID :: int
  k_synced :: "(string \<times> int option) list"   \<comment> \<open>calls of \<open>SyncEditor\<close>\<close>

definition CallStack_new :: CallStack where
  "CallStack_new = \<lparr> k_threads = [], k_current_frame = DAPCurrentFrame_new, k_backtrace = [],
     k_first_valid = - 1, k_old_active_frame = 0, k_currentThreadID = 0, k_synced = [] \<rparr>"

record call_env =
  \<comment> \<open>what the call stack gets from outside\<close>
  ke_num :: wx_num
  ke_ToLongLong16 :: "string \<Rightarrow> int option"   \<comment> \<open>\<open>None\<close>: the result is not assigned\<close>
  ke_AutoSwitchFrame :: bool
  ke_BacktraceDialog :: bool   \<comment> \<open>whether there is one\<close>

section \<open>Operations\<close>

definition HexStrToBinary :: "(string \<Rightarrow> int option) \<Rightarrow> string \<Rightarrow> int option" where
  "HexStrToBinary ToLongLong16 hexString =
     (let cleanHexString = (if starts_with ''0x'' hexString then drop 2 hexString else hexString)
      in ToLongLong16 cleanHexString)"

definition GetStackFrameCount :: "CallStack \<Rightarrow> nat" where
  "GetStackFrameCount S = length (k_backtrace S)"

definition GetStackFrame :: "int \<Rightarrow> CallStack \<Rightarrow> cbStackFrame option" where
  "GetStackFrame index S =
     (if 0 \<le> index \<and> index < int (length (k_backtrace S)) then Some (k_backtrace S ! nat index) else None)"

definition SwitchToFrame :: "wx_num \<Rightarrow> 32 word \<Rightarrow> int \<Rightarrow> CallStack \<Rightarrow> CallStack option" where
  "SwitchToFrame N w number S =
     (if IsRunning w \<and> IsStopped w \<and> number < int (length (k_backtrace S))
      then case GetStackFrame number S of
          None \<Rightarrow> None
        | Some frameToSwitch \<Rightarrow>
            Some (S\<lparr> k_synced := k_synced S @ [(bf_file frameToSwitch, wx_ToLong N (bf_line frameToSwitch))],
                     k_current_frame := DAPSwitchToFrame number (k_current_frame S) \<rparr>)
      else Some S)"

definition GetActiveStackFrame :: "CallStack \<Rightarrow> int" where
  "GetActiveStackFrame S = cf_stack_frame (k_current_frame S)"

definition GetThreadsCount :: "CallStack \<Rightarrow> nat" where
  "GetThreadsCount S = length (k_threads S)"

definition ClearThreads :: "CallStack \<Rightarrow> CallStack" where
  "ClearThreads S = S\<lparr> k_threads := [] \<rparr>"

definition SetCurrentThreadID :: "int \<Rightarrow> CallStack \<Rightarrow> CallStack" where
  "SetCurrentThreadID threadID S = S\<lparr> k_currentThreadID := threadID \<rparr>"

definition OnThreadsResponse :: "ThreadsResponse option \<Rightarrow> CallStack \<Rightarrow> CallStack" where
  "OnThreadsResponse threads_data S =
     (let current_thread_id = k_currentThreadID S
      in S\<lparr> k_threads := (case threads_data of
              Some x \<Rightarrow> map (\<lambda>t. \<lparr> ct_active = (th_id t = current_thread_id), ct_number = th_id t,
                                   ct_info = th_name t \<rparr>) (ts_threads x)
            | None \<Rightarrow> []) \<rparr>)"

definition SwitchToThread :: "'d fp \<Rightarrow> 32 word \<Rightarrow> int \<Rightarrow> CallStack \<times> 'cb Client \<Rightarrow> bool \<times> CallStack \<times> 'cb Client" where
  "SwitchToThread F w thread_number x =
     (let (S, cl) = x
      in if IsRunning w \<and> IsStopped w
         then (True, S\<lparr> k_current_frame := SetThreadId thread_number (CurrentFrame_Reset (k_current_frame S)) \<rparr>,
               GetFrames F thread_number 0 0 cl)
         else (False, S, cl))"

definition CallStack_ResetData :: "CallStack \<Rightarrow> CallStack" where
  \<comment> \<open>\<open>DAPDebuggerResetData\<close>, whatever its argument\<close>
  "CallStack_ResetData S = S\<lparr> k_backtrace := [], k_current_frame := CurrentFrame_Reset (k_current_frame S) \<rparr>"

definition stack_frame :: "call_env \<Rightarrow> nat \<times> StackFrame \<Rightarrow> cbStackFrame" where
  \<comment> \<open>the body of the loop of \<open>OnStackTrace\<close>, with \<open>stackID\<close>\<close>
  "stack_frame E x =
     (let (stackID, stack) = x
      in \<lparr> bf_number = int stackID, bf_file = src_path (sf_source stack), bf_line = show_int (sf_line stack),
           bf_symbol = sf_name stack,
           bf_address = map_option word_of_int
             (HexStrToBinary (ke_ToLongLong16 E) (sf_instructionPointerReference stack)),
           bf_DAPStackId = sf_id stack, bf_valid = True \<rparr>)"

fun first_valid :: "int \<Rightarrow> cbStackFrame list \<Rightarrow> int" where
  \<comment> \<open>\<open>m_first_valid\<close> after the loop, with \<open>cnt\<close> of its first turn\<close>
  "first_valid cnt [] = - 1"
| "first_valid cnt (s # fs) = (if bf_valid s then cnt else first_valid (cnt + 1) fs)"

definition OnStackTrace :: "call_env \<Rightarrow> 32 word \<Rightarrow> StackTraceResponse option \<Rightarrow> CallStack \<Rightarrow> CallStack option" where
  "OnStackTrace E w stack_trace_data S =
     (case stack_trace_data of
        None \<Rightarrow> Some S
      | Some x \<Rightarrow>
          (let fs = map (stack_frame E) (enumerate 0 (ks_stackFrames x));
               S = S\<lparr> k_backtrace := fs, k_first_valid := first_valid 0 fs \<rparr>
           in if ke_BacktraceDialog E \<and> fs \<noteq> []
              then let frame = cf_user_selected_stack_frame (k_current_frame S);
                       frame = (if frame < 0 \<and> ke_AutoSwitchFrame E then k_first_valid S else frame);
                       frame = (if frame < 0 then 0 else frame);
                       S = S\<lparr> k_current_frame := SetFrame frame (k_current_frame S) \<rparr>
                   in case GetStackFrame frame S of
                        None \<Rightarrow> None
                      | Some s \<Rightarrow>
                          (if k_old_active_frame S \<noteq> bf_number s then SwitchToFrame (ke_num E) w (bf_number s) S
                           else Some S)
              else Some S))"

section \<open>Sessions\<close>

text \<open>
  Every call with the flags at that time. A stack trace \<open>fits\<close> when it has more frames than the one
  that is selected; the frame numbers of \<open>SwitchToFrame\<close> come from the dialog and are not negative.
\<close>

datatype cs_op =
    Op_StackTrace "StackTraceResponse option" | Op_SwitchToFrame int | Op_SwitchToThread int
  | Op_ThreadsResponse "ThreadsResponse option" | Op_ClearThreads | Op_CallStackReset | Op_SetCurrentThreadID int

primrec cs_apply :: "call_env \<Rightarrow> 32 word \<Rightarrow> cs_op \<Rightarrow> CallStack \<Rightarrow> CallStack option" where
  "cs_apply E w (Op_StackTrace x) S = OnStackTrace E w x S"
| "cs_apply E w (Op_SwitchToFrame n) S = SwitchToFrame (ke_num E) w n S"
| "cs_apply E w (Op_SwitchToThread t) S = Some (fst (snd (SwitchToThread fp_int w t (S, Client_new :: nat Client))))"
| "cs_apply E w (Op_ThreadsResponse x) S = Some (OnThreadsResponse x S)"
| "cs_apply E w Op_ClearThreads S = Some (ClearThreads S)"
| "cs_apply E w Op_CallStackReset S = Some (CallStack_ResetData S)"
| "cs_apply E w (Op_SetCurrentThreadID t) S = Some (SetCurrentThreadID t S)"

definition fits :: "cs_op \<Rightarrow> CallStack \<Rightarrow> bool" where
  "fits op S \<longleftrightarrow> (case op of
      Op_StackTrace (Some x) \<Rightarrow>
        cf_user_selected_stack_frame (k_current_frame S) < int (length (ks_stackFrames x))
        \<and> (ks_stackFrames x \<noteq> [] \<or> GetActiveStackFrame S < 0)
    | Op_SwitchToFrame n \<Rightarrow> 0 \<le> n
    | _ \<Rightarrow> True)"

inductive fitting_session :: "call_env \<Rightarrow> (32 word \<times> cs_op) list \<Rightarrow> CallStack \<Rightarrow> bool" for E where
  fitting_start: "fitting_session E [] CallStack_new"
| fitting_step: "fitting_session E ops S \<Longrightarrow> fits op S \<Longrightarrow> cs_apply E w op S = Some S' \<Longrightarrow>
    fitting_session E (ops @ [(w, op)]) S'"

text \<open>What every operation keeps: the selected and the active frame are in the list, numbered by place.\<close>

definition frame_inv :: "CallStack \<Rightarrow> bool" where
  "frame_inv S \<longleftrightarrow>
     (let f = k_current_frame S; n = int (length (k_backtrace S))
      in cf_stack_frame f < n \<and> cf_user_selected_stack_frame f < n
         \<and> (if 0 \<le> cf_user_selected_stack_frame f then cf_stack_frame f = cf_user_selected_stack_frame f
             else cf_stack_frame f \<le> 0)
         \<and> k_old_active_frame S = 0 \<and> map bf_number (k_backtrace S) = map int [0..<length (k_backtrace S)])"

lemma frame_number: "frame_inv S \<Longrightarrow> GetStackFrame n S = Some s \<Longrightarrow> bf_number s = n"
proof -
  assume inv: "frame_inv S" and s: "GetStackFrame n S = Some s"
  then have n: "nat n < length (k_backtrace S)" "0 \<le> n" "s = k_backtrace S ! nat n"
    by (auto simp: GetStackFrame_def split: if_splits)
  then have "bf_number s = map bf_number (k_backtrace S) ! nat n" by simp
  also have "\<dots> = map int [0..<length (k_backtrace S)] ! nat n" using inv by (simp add: frame_inv_def Let_def)
  finally show ?thesis using n by simp
qed

lemma frame_inv_SwitchToFrame:
  assumes "frame_inv S" "SwitchToFrame N w n S = Some S'" "0 \<le> n"
  shows "frame_inv S'"
  using assms by (auto simp: SwitchToFrame_def frame_inv_def DAPSwitchToFrame_def Let_def split: if_splits option.splits)

lemma SwitchToFrame_again:
  assumes "GetStackFrame n S = Some s" "GetActiveStackFrame S = n"
  shows "\<exists>S'. SwitchToFrame N w n S = Some S' \<and> length (k_backtrace S') = length (k_backtrace S)
    \<and> GetActiveStackFrame S' = n"
  using assms by (simp add: SwitchToFrame_def GetActiveStackFrame_def DAPSwitchToFrame_def)

lemma numbers_of_trace: "map bf_number (map (stack_frame E) (enumerate 0 xs)) = map int [0..<length xs]"
  by (rule nth_equalityI) (simp_all add: stack_frame_def nth_enumerate_eq)

lemma first_valid_trace: "first_valid n (map (stack_frame E) (enumerate k xs)) = (if xs = [] then - 1 else n)"
  by (cases xs) (simp_all add: stack_frame_def)

lemma StackTrace_shows:
  assumes "frame_inv S" "cf_user_selected_stack_frame (k_current_frame S) < int (length (ks_stackFrames x))"
    "ks_stackFrames x \<noteq> []"
  shows "\<exists>S'. OnStackTrace E w (Some x) S = Some S' \<and> frame_inv S' \<and> length (k_backtrace S') = length (ks_stackFrames x)
    \<and> (ke_BacktraceDialog E \<longrightarrow> 0 \<le> GetActiveStackFrame S')"
proof -
  let ?fs = "map (stack_frame E) (enumerate 0 (ks_stackFrames x))" and ?u = "cf_user_selected_stack_frame (k_current_frame S)"
  define S1 where "S1 = S\<lparr> k_backtrace := ?fs, k_first_valid := 0 \<rparr>"
  have fs: "?fs \<noteq> []" "length ?fs = length (ks_stackFrames x)" using assms(3) by (simp_all add: enumerate_eq_zip)
  define frame where "frame = (if ?u < 0 then 0 else ?u)"
  define S2 where "S2 = S1\<lparr> k_current_frame := SetFrame frame (k_current_frame S1) \<rparr>"
  have nums: "map bf_number ?fs = map int [0..<length ?fs]" using numbers_of_trace [of E "ks_stackFrames x"] fs(2) by simp
  have inv1: "cf_stack_frame (k_current_frame S2) = frame" "0 \<le> frame" "frame < int (length ?fs)"
    using assms fs by (auto simp: S2_def S1_def frame_def SetFrame_def)
  have inv2: "frame_inv S2"
    using assms(1,2) fs nums inv1 by (auto simp: frame_inv_def Let_def S2_def S1_def SetFrame_def frame_def)
  obtain s where s: "GetStackFrame frame S2 = Some s" using inv1 by (simp add: GetStackFrame_def S2_def S1_def)
  have n: "bf_number s = frame" by (rule frame_number [OF inv2 s])
  show ?thesis
  proof (cases "ke_BacktraceDialog E")
    case False
    then have "OnStackTrace E w (Some x) S = Some S1"
      using fs(1) assms(3) by (simp add: OnStackTrace_def Let_def first_valid_trace S1_def)
    moreover obtain k where "length (ks_stackFrames x) = Suc k" using assms(3) by (cases "ks_stackFrames x") auto
    then have "frame_inv S1" using assms(1,2) fs nums by (auto simp: frame_inv_def Let_def S1_def)
    ultimately show ?thesis using False fs by (simp add: S1_def)
  next
    case True
    have "OnStackTrace E w (Some x) S
        = (if 0 \<noteq> frame then SwitchToFrame (ke_num E) w frame S2 else Some S2)"
      using True fs(1) assms(1,3) n s
      by (cases "?u < 0"; cases "ke_AutoSwitchFrame E")
        (simp_all add: OnStackTrace_def Let_def first_valid_trace S2_def S1_def frame_def frame_inv_def)
    moreover have act: "length (k_backtrace S2) = length ?fs" "GetActiveStackFrame S2 = frame"
      using inv1 by (simp_all add: S2_def S1_def GetActiveStackFrame_def)
    moreover obtain S3 where "SwitchToFrame (ke_num E) w frame S2 = Some S3"
        "length (k_backtrace S3) = length ?fs" "GetActiveStackFrame S3 = frame"
      using SwitchToFrame_again [OF s act(2)] act(1) by metis
    ultimately show ?thesis
      using inv2 inv1 fs frame_inv_SwitchToFrame [OF inv2] by (cases "frame = 0") auto
  qed
qed

lemma frame_inv_step:
  assumes "frame_inv S" "fits op S" "cs_apply E w op S = Some S'"
  shows "frame_inv S'"
proof (cases op)
  case (Op_StackTrace r)
  show ?thesis
  proof (cases r)
    case None
    with assms Op_StackTrace show ?thesis by (simp add: OnStackTrace_def)
  next
    case (Some x)
    show ?thesis
    proof (cases "ks_stackFrames x = []")
      case True
      with assms Op_StackTrace Some show ?thesis
        by (auto simp: OnStackTrace_def fits_def frame_inv_def GetActiveStackFrame_def Let_def)
    next
      case False
      with assms Op_StackTrace Some show ?thesis using StackTrace_shows [of S x E w] by (auto simp: fits_def)
    qed
  qed
next
  case (Op_SwitchToFrame n)
  with assms show ?thesis by (auto simp: fits_def intro: frame_inv_SwitchToFrame)
qed (use assms in \<open>auto simp: frame_inv_def Let_def SwitchToThread_def OnThreadsResponse_def ClearThreads_def
    CallStack_ResetData_def SetCurrentThreadID_def CurrentFrame_Reset_def SetThreadId_def\<close>)

lemma frame_inv_start: "frame_inv CallStack_new"
  by (simp add: frame_inv_def CallStack_new_def DAPCurrentFrame_new_def)

lemma fitting_session_inv: "fitting_session E ops S \<Longrightarrow> frame_inv S"
  by (induction rule: fitting_session.induct) (auto intro: frame_inv_start frame_inv_step)

text \<open>C20: the active frame exists. In every session in which each stack trace is longer than the number
  of the frame the user selected, the active frame, which the plugin uses as an index when it asks
  for scopes, disassembly or an evaluation, is inside the list and carries its own number; and the
  next such stack trace that is not empty is shown completely, with an active frame.\<close>

theorem active_frame_exists:
  assumes "fitting_session E ops S"
  shows "(0 \<le> GetActiveStackFrame S \<longrightarrow>
        (\<exists>s. GetStackFrame (GetActiveStackFrame S) S = Some s \<and> bf_number s = GetActiveStackFrame S))
    \<and> (fits (Op_StackTrace (Some x)) S \<and> ks_stackFrames x \<noteq> [] \<and> ke_BacktraceDialog E \<longrightarrow>
        (\<exists>S'. OnStackTrace E w (Some x) S = Some S' \<and> GetStackFrameCount S' = length (ks_stackFrames x)
          \<and> 0 \<le> GetActiveStackFrame S'))"
proof (intro conjI impI)
  note inv = fitting_session_inv [OF assms]
  assume "0 \<le> GetActiveStackFrame S"
  with inv obtain s where "GetStackFrame (GetActiveStackFrame S) S = Some s"
    by (auto simp: frame_inv_def GetActiveStackFrame_def GetStackFrame_def Let_def)
  with frame_number [OF inv this] show "\<exists>s. GetStackFrame (GetActiveStackFrame S) S = Some s \<and> bf_number s = GetActiveStackFrame S"
    by blast
next
  note inv = fitting_session_inv [OF assms]
  assume "fits (Op_StackTrace (Some x)) S \<and> ks_stackFrames x \<noteq> [] \<and> ke_BacktraceDialog E"
  then show "\<exists>S'. OnStackTrace E w (Some x) S = Some S' \<and> GetStackFrameCount S' = length (ks_stackFrames x)
      \<and> 0 \<le> GetActiveStackFrame S'"
    using StackTrace_shows [OF inv, of x E w] by (auto simp: fits_def GetStackFrameCount_def)
qed

definition sample_call_env :: call_env where
  "sample_call_env = \<lparr> ke_num = \<lparr> wx_ToLong = (\<lambda>_. None), wx_ToULongLong = (\<lambda>_ _. None) \<rparr>,
     ke_ToLongLong16 = (\<lambda>_. None), ke_AutoSwitchFrame = True, ke_BacktraceDialog = True \<rparr>"

definition sample_trace :: "nat \<Rightarrow> StackTraceResponse" where
  "sample_trace n = StackTraceResponse_new\<lparr> ks_stackFrames := replicate n StackFrame_new \<rparr>"

lemma sample_fitting:
  "fitting_session sample_call_env [(flags False True True True, Op_StackTrace (Some (sample_trace 2))),
      (flags False True True True, Op_SwitchToFrame 1)]
     (the (SwitchToFrame (ke_num sample_call_env) (flags False True True True) 1
       (the (OnStackTrace sample_call_env (flags False True True True) (Some (sample_trace 2)) CallStack_new))))"
proof -
  let ?w = "flags False True True True"
  have 1: "fitting_session sample_call_env ([] @ [(?w, Op_StackTrace (Some (sample_trace 2)))])
      (the (OnStackTrace sample_call_env ?w (Some (sample_trace 2)) CallStack_new))"
    by (rule fitting_step [OF fitting_start])
      (simp_all add: fits_def sample_trace_def CallStack_new_def DAPCurrentFrame_new_def OnStackTrace_def
        GetStackFrame_def sample_call_env_def stack_frame_def numeral_2_eq_2 Let_def SetFrame_def)
  have "fitting_session sample_call_env (([] @ [(?w, Op_StackTrace (Some (sample_trace 2)))]) @ [(?w, Op_SwitchToFrame 1)])
     (the (SwitchToFrame (ke_num sample_call_env) ?w 1
       (the (OnStackTrace sample_call_env ?w (Some (sample_trace 2)) CallStack_new))))"
    by (rule fitting_step [OF 1])
      (simp_all add: fits_def sample_trace_def CallStack_new_def DAPCurrentFrame_new_def OnStackTrace_def
        GetStackFrame_def sample_call_env_def stack_frame_def numeral_2_eq_2 Let_def SetFrame_def SwitchToFrame_def)
  then show ?thesis by simp
qed

theorem active_frame_exists_witness:
  "let S = the (SwitchToFrame (ke_num sample_call_env) (flags False True True True) 1
       (the (OnStackTrace sample_call_env (flags False True True True) (Some (sample_trace 2)) CallStack_new)))
   in GetActiveStackFrame S = 1 \<and> (\<exists>s. GetStackFrame 1 S = Some s \<and> bf_number s = 1)"
proof -
  let ?S = "the (SwitchToFrame (ke_num sample_call_env) (flags False True True True) 1
       (the (OnStackTrace sample_call_env (flags False True True True) (Some (sample_trace 2)) CallStack_new)))"
  have "GetActiveStackFrame ?S = 1"
    by (simp add: sample_trace_def CallStack_new_def DAPCurrentFrame_new_def OnStackTrace_def GetActiveStackFrame_def
        GetStackFrame_def sample_call_env_def stack_frame_def numeral_2_eq_2 Let_def SetFrame_def SwitchToFrame_def
        DAPSwitchToFrame_def)
  with active_frame_exists [OF sample_fitting] show ?thesis by (simp add: Let_def)
qed

text \<open>C21: a late stack trace. The user switches to another thread and, before the adapter has answered,
  selects a frame of the list that is still shown; the answer, with fewer frames, makes \<open>OnStackTrace\<close>
  read outside the list. An answer without frames leaves the active frame without a list.\<close>

theorem late_stack_trace:
  assumes "IsRunning w" "IsStopped w" "0 \<le> n" "n < int (GetStackFrameCount S)" "ke_BacktraceDialog E"
    "int (length (ks_stackFrames x)) \<le> n"
  shows "\<exists>S1 S2. SwitchToThread F w t (S, cl) = (True, S1, GetFrames F t 0 0 cl)
    \<and> SwitchToFrame (ke_num E) w n S1 = Some S2
    \<and> (if ks_stackFrames x \<noteq> [] then OnStackTrace E w (Some x) S2 = None
       else \<exists>S3. OnStackTrace E w (Some x) S2 = Some S3 \<and> GetActiveStackFrame S3 = n \<and> GetStackFrame n S3 = None)"
  using assms
  by (auto simp: SwitchToThread_def SwitchToFrame_def GetStackFrame_def GetStackFrameCount_def OnStackTrace_def
      DAPSwitchToFrame_def GetActiveStackFrame_def Let_def enumerate_eq_zip)

theorem late_stack_trace_witness:
  "\<exists>S1 S2. SwitchToThread fp_int (flags False True True True) 7
      (CallStack_new\<lparr> k_backtrace := replicate 3 (stack_frame sample_call_env (0, StackFrame_new)) \<rparr>, Client_new :: nat Client)
      = (True, S1, GetFrames fp_int 7 0 0 Client_new)
    \<and> SwitchToFrame (ke_num sample_call_env) (flags False True True True) 2 S1 = Some S2
    \<and> (if ks_stackFrames (sample_trace 1) \<noteq> []
       then OnStackTrace sample_call_env (flags False True True True) (Some (sample_trace 1)) S2 = None
       else \<exists>S3. OnStackTrace sample_call_env (flags False True True True) (Some (sample_trace 1)) S2 = Some S3
         \<and> GetActiveStackFrame S3 = 2 \<and> GetStackFrame 2 S3 = None)"
  by (rule late_stack_trace) (simp_all add: GetStackFrameCount_def sample_call_env_def sample_trace_def)

end
