(* ===== verification/Dap_ObjTypes.thy ===== *)
theory Dap_ObjTypes
  imports Dap_ObjGen
begin

text \<open>
  The class of a message against its text: \<open>class_of\<close> is the kind and the name that the protocol gives
  a class, written down independently of the registry, and the property says that the object made
  from a text is of the class the text names. The handlers rely on it: they cast by the name alone.
\<close>

primrec request_name :: "DapRequest \<Rightarrow> string" where
  "request_name (Rq_Cancel x) = ''cancel''"
| "request_name (Rq_Initialize x) = ''initialize''"
| "request_name (Rq_BreakpointLocations x) = ''breakpointLocations''"
| "request_name (Rq_ConfigurationDone x) = ''configurationDone''"
| "request_name (Rq_Launch x) = ''launch''"
| "request_name (Rq_Disconnect x) = ''disconnect''"
| "request_name (Rq_Terminate x) = ''terminate''"
| "request_name (Rq_SetBreakpoints x) = ''setBreakpoints''"
| "request_name (Rq_SetExceptionBreakpoints x) = ''setExceptionBreakpoints''"
| "request_name (Rq_SetFunctionBreakpoints x) = ''setFunctionBreakpoints''"
| "request_name (Rq_Continue x) = ''continue''"
| "request_name (Rq_Next x) = ''next''"
| "request_name (Rq_Step x) = ''step''"
| "request_name (Rq_StepIn x) = ''stepIn''"
| "request_name (Rq_StepOut x) = ''stepOut''"
| "request_name (Rq_Threads x) = ''threads''"
| "request_name (Rq_Scopes x) = ''scopes''"
| "request_name (Rq_StackTrace x) = ''stackTrace''"
| "request_name (Rq_Pause x) = ''pause''"
| "request_name (Rq_RunInTerminal x) = ''runInTerminal''"
| "request_name (Rq_Source x) = ''source''"
| "request_name (Rq_Evaluate x) = ''evaluate''"
| "request_name (Rq_Attach x) = ''attach''"
| "request_name (Rq_Disassemble x) = ''disassemble''"
| "request_name (Rq_Goto x) = ''goto''"
| "request_name (Rq_GotoTargets x) = ''gotoTargets''"
| "request_name (Rq_ReadMemory x) = ''readMemory''"
| "request_name (Rq_Variables x) = ''variables''"

primrec response_name :: "DapResponse \<Rightarrow> string" where
  "response_name (Rs_Initialize x) = ''initialize''"
| "response_name (Rs_Cancel x) = ''cancel''"
| "response_name (Rs_EmptyAck x) = []"
| "response_name (Rs_ConfigurationDone x) = ''configurationDone''"
| "response_name (Rs_Launch x) = ''launch''"
| "response_name (Rs_Disconnect x) = ''disconnect''"
| "response_name (Rs_Terminate x) = ''terminate''"
| "response_name (Rs_BreakpointLocations x) = ''breakpointLocations''"
| "response_name (Rs_SetBreakpoints x) = ''setBreakpoints''"
| "response_name (Rs_SetExceptionBreakpoints x) = ''setExceptionBreakpoints''"
| "response_name (Rs_SetFunctionBreakpoints x) = ''setFunctionBreakpoints''"
| "response_name (Rs_Continue x) = ''continue''"
| "response_name (Rs_Next x) = ''next''"
| "response_name (Rs_StepIn x) = ''stepIn''"
| "response_name (Rs_StepOut x) = ''stepOut''"
| "response_name (Rs_Threads x) = ''threads''"
| "response_name (Rs_Scopes x) = ''scopes''"
| "response_name (Rs_StackTrace x) = ''stackTrace''"
| "response_name (Rs_Variables x) = ''variables''"
| "response_name (Rs_Pause x) = ''pause''"
| "response_name (Rs_RunInTerminal x) = ''runInTerminal''"
| "response_name (Rs_Source x) = ''source''"
| "response_name (Rs_Evaluate x) = ''evaluate''"
| "response_name (Rs_Attach x) = ''attach''"
| "response_name (Rs_Disassemble x) = ''disassemble''"
| "response_name (Rs_Goto x) = ''goto''"
| "response_name (Rs_GotoTargets x) = ''gotoTargets''"
| "response_name (Rs_ReadMemory x) = ''readMemory''"
| "response_name (Rs_Step x) = ''step''"

primrec event_name :: "DapEvent \<Rightarrow> string" where
  "event_name (Ev_Initialized x) = ''initialized''"
| "event_name (Ev_Stopped x) = ''stopped''"
| "event_name (Ev_Continued x) = ''continued''"
| "event_name (Ev_Exited x) = ''exited''"
| "event_name (Ev_Terminated x) = ''terminated''"
| "event_name (Ev_Thread x) = ''thread''"
| "event_name (Ev_Output x) = ''output''"
| "event_name (Ev_Breakpoint x) = ''breakpoint''"
| "event_name (Ev_Process x) = ''process''"
| "event_name (Ev_Module x) = ''module''"
| "event_name (Ev_DebugpyWaitingForServer x) = ''debugpyWaitingForServer''"

primrec class_of :: "DapMessage \<Rightarrow> string \<times> string" where
  "class_of (MRequest x) = (''request'', request_name x)"
| "class_of (MResponse x) = (''response'', response_name x)"
| "class_of (MEvent x) = (''event'', event_name x)"

text \<open>Reading the members does not change the class.\<close>

lemma class_of_From: "class_of (DapMessage_From F j m) = class_of m"
proof (cases m)
  case (MRequest x)
  then show ?thesis by (cases x) simp_all
next
  case (MResponse x)
  then show ?thesis by (cases x) simp_all
next
  case (MEvent x)
  then show ?thesis by (cases x) simp_all
qed

lemma registered_names:
  "map_of response_classes n = Some r \<Longrightarrow> response_name r = n \<and> n \<noteq> ''step''"
  "map_of (request_classes u) n = Some q \<Longrightarrow> request_name q = n \<and> n \<noteq> ''variables''"
  "map_of (event_classes u) n = Some e \<Longrightarrow> event_name e = n \<or> n = [] \<and> event_name e = ''debugpyWaitingForServer''"
proof -
  have "\<forall>(k, v) \<in> set response_classes. response_name v = k \<and> k \<noteq> ''step''"
    by (simp add: response_classes_def)
  then show "map_of response_classes n = Some r \<Longrightarrow> response_name r = n \<and> n \<noteq> ''step''"
    by (auto dest: map_of_SomeD)
  have "\<forall>(k, v) \<in> set (request_classes u). request_name v = k \<and> k \<noteq> ''variables''"
    by (simp add: request_classes_def)
  then show "map_of (request_classes u) n = Some q \<Longrightarrow> request_name q = n \<and> n \<noteq> ''variables''"
    by (auto dest: map_of_SomeD)
  have "\<forall>(k, v) \<in> set (event_classes u). event_name v = k \<or> k = [] \<and> event_name v = ''debugpyWaitingForServer''"
    by (simp add: event_classes_def)
  then show "map_of (event_classes u) n = Some e \<Longrightarrow> event_name e = n \<or> n = [] \<and> event_name e = ''debugpyWaitingForServer''"
    by (auto dest: map_of_SomeD)
qed

lemma names_registered:
  "response_name r \<noteq> ''step'' \<Longrightarrow> map_of response_classes (response_name r) \<noteq> None"
  "request_name q \<noteq> ''variables'' \<Longrightarrow> map_of (request_classes u) (request_name q) \<noteq> None"
  "event_name e \<noteq> ''debugpyWaitingForServer'' \<Longrightarrow> map_of (event_classes u) (event_name e) \<noteq> None"
proof -
  show "response_name r \<noteq> ''step'' \<Longrightarrow> map_of response_classes (response_name r) \<noteq> None"
    by (cases r) (simp_all add: response_classes_def)
  show "request_name q \<noteq> ''variables'' \<Longrightarrow> map_of (request_classes u) (request_name q) \<noteq> None"
    by (cases q) (simp_all add: request_classes_def)
  show "event_name e \<noteq> ''debugpyWaitingForServer'' \<Longrightarrow> map_of (event_classes u) (event_name e) \<noteq> None"
    by (cases e) (simp_all add: event_classes_def)
qed

lemma New_class:
  assumes "ObjGenerator_New (Initialize u ObjGenerator_empty) ty n = Some m"
  shows "fst (class_of m) = ty \<and> (snd (class_of m) = n \<or> n = [] \<and> class_of m = (''event'', ''debugpyWaitingForServer''))
    \<and> class_of m \<noteq> (''response'', ''step'') \<and> class_of m \<noteq> (''request'', ''variables'')"
  using assms registered_names(1,2) registered_names(3) [of u n]
  by (auto simp: ObjGenerator_New_def Initialize_pools split: if_splits)

text \<open>C14: the object made from a message has the type that the message names. After \<open>Initialize\<close>, if \<open>FromJSON\<close>
  makes an object, its class is of the kind in \<open>type\<close> and has the name in \<open>command\<close> or
  \<open>event\<close>; the exception is an event without a name, which makes a debugpy event. And every class of the
  protocol is made from its own name, but the \<open>variables\<close> request, the \<open>step\<close> response and the debugpy
  event.\<close>

theorem objects_typed:
  assumes "ObjGenerator_FromJSON F (Initialize u ObjGenerator_empty) j = Some m"
    "class_of m' \<notin> {(''response'', ''step''), (''request'', ''variables''), (''event'', ''debugpyWaitingForServer'')}"
  shows "let ty = Json_GetString [] (Json_member j ''type'');
      n = Json_GetString [] (Json_member j (if ty = ''event'' then ''event'' else ''command''))
    in Json_IsOK j \<and> fst (class_of m) = ty
      \<and> (snd (class_of m) = n \<or> n = [] \<and> class_of m = (''event'', ''debugpyWaitingForServer''))
      \<and> class_of m \<noteq> (''response'', ''step'') \<and> class_of m \<noteq> (''request'', ''variables'')
      \<and> (\<exists>x. ObjGenerator_New (Initialize u ObjGenerator_empty) (fst (class_of m')) (snd (class_of m')) = Some x
          \<and> class_of x = class_of m')"
proof -
  let ?g = "Initialize u ObjGenerator_empty"
  let ?ty = "Json_GetString [] (Json_member j ''type'')"
  let ?n = "Json_GetString [] (Json_member j (if ?ty = ''event'' then ''event'' else ''command''))"
  obtain x where x: "Json_IsOK j" "ObjGenerator_New ?g ?ty ?n = Some x" "m = DapMessage_From F j x"
    using assms(1) by (auto simp: ObjGenerator_FromJSON_def Let_def split: if_splits)
  have "ObjGenerator_New ?g (fst (class_of m')) (snd (class_of m')) \<noteq> None"
    using assms(2) names_registered by (cases m') (auto simp: ObjGenerator_New_def Initialize_pools)
  then obtain y where y: "ObjGenerator_New ?g (fst (class_of m')) (snd (class_of m')) = Some y" by blast
  have "snd (class_of m') = [] \<Longrightarrow> fst (class_of m') \<noteq> ''event''"
    by (cases m'; cases "the (case m' of MEvent e \<Rightarrow> Some e | _ \<Rightarrow> None)") auto
  with New_class [OF y] have "class_of y = class_of m'" by (metis fst_conv prod.collapse)
  with y New_class [OF x(2)] x(1,3) show ?thesis by (simp add: Let_def class_of_From)
qed

theorem objects_typed_witness:
  "\<exists>m. ObjGenerator_FromJSON fp_int (Initialize 0 ObjGenerator_empty) (StoppedEvent_To fp_int sample_StoppedEvent) = Some m
    \<and> class_of m = (''event'', ''stopped'')
    \<and> (\<exists>x. ObjGenerator_New (Initialize 0 ObjGenerator_empty) ''response'' ''stackTrace'' = Some x
      \<and> class_of x = (''response'', ''stackTrace''))"
proof -
  let ?j = "StoppedEvent_To fp_int sample_StoppedEvent"
  have ok: "StoppedEvent_ok sample_StoppedEvent"
    by (simp add: sample_StoppedEvent_def StoppedEvent_new_def StoppedEvent_ok_def Event_ok_def
        ProtocolMessage_ok_def int32_def INT_MAX_def INT_MIN_def)
  have j: "Json_IsOK ?j" using obj_val(1) [OF ser_StoppedEvent.To_ok [OF fp_ok_int ok]] by (simp add: val_ok_def Json_IsOK_def)
  have n: "Json_GetString [] (Json_member ?j ''type'') = ''event''" "Json_GetString [] (Json_member ?j ''event'') = ''stopped''"
    by (simp_all add: sample_StoppedEvent_def StoppedEvent_new_def StoppedEvent_To_def Event_To_def ProtocolMessage_To_def Let_def
        msg_build msg_read)
  obtain m where m: "ObjGenerator_FromJSON fp_int (Initialize 0 ObjGenerator_empty) ?j = Some m"
    using j n by (simp add: ObjGenerator_FromJSON_def Let_def ObjGenerator_New_def Initialize_pools event_classes_def)
  from objects_typed [OF this, of "MResponse (Rs_StackTrace StackTraceResponse_new)"] n m show ?thesis
    by (auto simp: Let_def prod_eq_iff)
qed

end
