(* ===== verification/Dap_Watches.thy ===== *)
theory Dap_Watches
  imports Dap_Breakpoints Dap_CallStack
begin

text \<open>
  The watches of the plugin and the registers: \<open>DAP_Watches.cpp\<close>, \<open>DAP_Watches.h\<close> and the watch editor
  \<open>dlg_WatchEdit.cpp\<close>. Watches are shared pointers and live in a heap. The tree of watches belongs to
  the base class \<open>cbWatch\<close> of the SDK: it is a value of the parameter type \<open>'t\<close>, read and changed by
  the operations of \<open>watch_sdk\<close>, whose documented behaviour is \<open>watch_sdk_ok\<close>. Dialogs, windows and
  the configuration are in \<open>watch_env\<close>; what is shown is recorded in \<open>wt_calls\<close>. Logging is left out.
\<close>

section \<open>The watch tree of the SDK\<close>

record 't watch_sdk =
  wk_empty :: 't
  wk_AddChild :: "nat \<Rightarrow> nat \<Rightarrow> 't \<Rightarrow> 't"   \<comment> \<open>parent, child\<close>
  wk_RemoveChildren :: "nat \<Rightarrow> 't \<Rightarrow> 't"
  wk_children :: "'t \<Rightarrow> nat \<Rightarrow> nat list"   \<comment> \<open>\<open>GetChildCount\<close> and \<open>GetChild\<close>\<close>
  wk_GetParent :: "'t \<Rightarrow> nat \<Rightarrow> nat option"
  wk_GetRootWatch :: "'t \<Rightarrow> nat \<Rightarrow> nat"   \<comment> \<open>\<open>cbGetRootWatch\<close>\<close>

definition watch_sdk_ok :: "'t watch_sdk \<Rightarrow> bool" where
  "watch_sdk_ok K \<longleftrightarrow>
     (\<forall>p. wk_children K (wk_empty K) p = []) \<and>
     (\<forall>p c t q. wk_children K (wk_AddChild K p c t) q
        = (if q = p then wk_children K t p @ [c] else wk_children K t q)) \<and>
     (\<forall>p t q. wk_children K (wk_RemoveChildren K p t) q = (if q = p then [] else wk_children K t q)) \<and>
     (\<forall>p. wk_GetParent K (wk_empty K) p = None) \<and>
     (\<forall>p c t q. wk_GetParent K (wk_AddChild K p c t) q = (if q = c then Some p else wk_GetParent K t q)) \<and>
     (\<forall>p t q. q \<notin> set (wk_children K t p) \<longrightarrow> wk_GetParent K (wk_RemoveChildren K p t) q = wk_GetParent K t q) \<and>
     (\<forall>t q. wk_GetParent K t q = None \<longrightarrow> wk_GetRootWatch K t q = q)"

section \<open>State\<close>

datatype DebugWindows =   \<comment> \<open>the windows named in the source\<close>
    W_Backtrace | W_Threads | W_CPURegisters | W_Disassembly | W_ExamineMemory | W_MemoryRange | W_Watches | W_Other

datatype plugin_callback =   \<comment> \<open>the functions given to \<open>EvaluateExpression\<close>, with what they capture\<close>
    Cb_Watch string nat | Cb_Tooltip string | Cb_Memory string | Cb_Command string bool

datatype gui_call =
    Gui_Updated DebugWindows   \<comment> \<open>\<open>cbEVT_DEBUGGER_UPDATED\<close>\<close>
  | Gui_AddWatch nat | Gui_AddSpecialWatch nat
  | Gui_SetRegisterValue string string

datatype DAPWatchType = Watch_Normal | Watch_MemoryRange

datatype watch_error =
    NoReturn   \<comment> \<open>the recursion does not end\<close>
  | NoFrame   \<comment> \<open>an access outside the call stack\<close>
  | InvalidArgument   \<comment> \<open>thrown by \<open>std::bitset\<close>\<close>
  | Uninitialised

record 't Watches =
  wt_heap :: "nat \<Rightarrow> DAPWatch"
  wt_next :: nat
  wt_tree :: 't
  wt_pProject :: nat
  m_DAP_watches :: "nat list"
  m_mapWatchesToType :: "(nat \<times> DAPWatchType) list"
  m_WatchLocalsandArgs :: "nat option"
  m_stackdapvariables :: "Variable list"
  m_RequestedGPRegs :: bool
  m_RequestedFloats :: bool
  m_disassemblyFlavor :: string
  m_parsed_reg_names :: bool
  m_parsed_reg_values :: bool
  regNames :: "string list"
  regValues :: "string list"
  wt_calls :: "gui_call list"

record 't watch_env =
  we_sdk :: "'t watch_sdk"
  we_num :: wx_num
  we_DialogRemoves :: "nat \<Rightarrow> bool"   \<comment> \<open>whether \<open>cbWatchesDlg::RemoveWatch\<close> calls \<open>DeleteWatch\<close> back\<close>
  we_CPURegistersShown :: bool
  we_DisassemblyShown :: bool
  we_MemoryShown :: bool
  we_WatchFuncLocalsArgs :: bool

definition Watches_new :: "'t watch_sdk \<Rightarrow> 't Watches" where
  "Watches_new K = \<lparr> wt_heap = (\<lambda>_. DAPWatch_new 0 [] False True), wt_next = 0, wt_tree = wk_empty K,
     wt_pProject = 0, m_DAP_watches = [], m_mapWatchesToType = [], m_WatchLocalsandArgs = None,
     m_stackdapvariables = [], m_RequestedGPRegs = False, m_RequestedFloats = False,
     m_disassemblyFlavor = [], m_parsed_reg_names = False, m_parsed_reg_values = False,
     regNames = [], regValues = [], wt_calls = [] \<rparr>"

definition watch :: "'t Watches \<Rightarrow> nat \<Rightarrow> DAPWatch" where
  "watch S r = wt_heap S r"

definition set_watch :: "nat \<Rightarrow> (DAPWatch \<Rightarrow> DAPWatch) \<Rightarrow> 't Watches \<Rightarrow> 't Watches" where
  "set_watch r f S = S\<lparr> wt_heap := (wt_heap S)(r := f (wt_heap S r)) \<rparr>"

definition new_watch :: "DAPWatch \<Rightarrow> 't Watches \<Rightarrow> nat \<times> 't Watches" where
  "new_watch w S = (wt_next S, S\<lparr> wt_heap := (wt_heap S)(wt_next S := w), wt_next := Suc (wt_next S) \<rparr>)"

definition AddChild :: "'t watch_env \<Rightarrow> nat \<Rightarrow> nat \<Rightarrow> 't Watches \<Rightarrow> 't Watches" where
  "AddChild E p c S = S\<lparr> wt_tree := wk_AddChild (we_sdk E) p c (wt_tree S) \<rparr>"

definition RemoveChildren :: "'t watch_env \<Rightarrow> nat \<Rightarrow> 't Watches \<Rightarrow> 't Watches" where
  "RemoveChildren E p S = S\<lparr> wt_tree := wk_RemoveChildren (we_sdk E) p (wt_tree S) \<rparr>"

definition GetRootWatch :: "'t watch_env \<Rightarrow> 't Watches \<Rightarrow> nat \<Rightarrow> nat" where
  "GetRootWatch E S r = wk_GetRootWatch (we_sdk E) (wt_tree S) r"

definition gui :: "gui_call \<Rightarrow> 't Watches \<Rightarrow> 't Watches" where
  "gui c S = S\<lparr> wt_calls := wt_calls S @ [c] \<rparr>"

section \<open>Watches\<close>

definition SetProject_watches :: "nat \<Rightarrow> 't Watches \<Rightarrow> 't Watches" where
  "SetProject_watches pProject S = S\<lparr> wt_pProject := pProject \<rparr>"

definition DAPWatch_Reset :: "'t watch_env \<Rightarrow> nat \<Rightarrow> 't Watches \<Rightarrow> 't Watches" where
  "DAPWatch_Reset E r S =
     (let S = set_watch r (\<lambda>w. w\<lparr> dw_DAPVariableReference := 0, dw_DAPChildVariableRequestSequence := 0,
            dw_type := [], dw_value := [], dw_ValueErrorMessage := False, dw_has_been_expanded := False \<rparr>) S;
          S = RemoveChildren E r S
      in set_watch r (\<lambda>w. w\<lparr> dw_array_start := - 1, dw_array_end := - 1 \<rparr>) S)"

definition CreateStartWatches :: "'t watch_env \<Rightarrow> 't Watches \<Rightarrow> 't Watches" where
  "CreateStartWatches E S =
     (let S = fold (DAPWatch_Reset E) (m_DAP_watches S) S
      in if m_DAP_watches S \<noteq> [] then gui (Gui_Updated W_Watches) S else S)"

type_synonym 's updater = "DebugWindows \<Rightarrow> 's \<Rightarrow> watch_error + 's"   \<comment> \<open>\<open>RequestUpdate\<close> of the plugin\<close>

definition UpdateDAPWatches ::
  "'t watch_env \<Rightarrow> 'c updater \<Rightarrow> DebugWindows \<Rightarrow> 't Watches \<times> 'c \<Rightarrow> watch_error + 't Watches \<times> 'c" where
  "UpdateDAPWatches E R updateType x =
     (let (S, cl) = x; S = gui (Gui_Updated updateType) S
      in bind_err (if we_DisassemblyShown E then R W_Disassembly cl else Inr cl) (\<lambda>cl.
         bind_err (if we_MemoryShown E then R W_ExamineMemory cl else Inr cl) (\<lambda>cl. Inr (S, cl))))"

definition SetFromVariable :: "'t watch_env \<Rightarrow> nat \<Rightarrow> Variable \<Rightarrow> 't Watches \<Rightarrow> 't Watches" where
  \<comment> \<open>the lines that \<open>AddWatch\<close> and \<open>AddWatchChildByRequestSequence\<close> share\<close>
  "SetFromVariable E r var S =
     (let S = set_watch r (\<lambda>w. w\<lparr> dw_value := vr_value var,
            dw_DAPVariableReference := word_of_int (vr_variablesReference var), dw_type := vr_type var \<rparr>) S
      in if vr_variablesReference var > 0
         then let S = set_watch r (\<lambda>w. w\<lparr> dw_has_been_expanded := False, dw_array_start := 0,
                    dw_array_end := vr_variablesReference var \<rparr>) S;
                  (child, S) = new_watch (DAPWatch_new (wt_pProject S) ''updating...'' False True) S
              in AddChild E r child S
         else S)"

definition AddWatch_symbol :: "'t watch_env \<Rightarrow> string \<Rightarrow> 't Watches \<Rightarrow> nat \<times> 't Watches" where
  "AddWatch_symbol E symbol S =
     (let (r, S) = new_watch (DAPWatch_new (wt_pProject S) symbol False True) S;
          S = (case find (\<lambda>var. symbol = vr_name var) (m_stackdapvariables S) of
                 Some var \<Rightarrow> SetFromVariable E r var S
               | None \<Rightarrow> S)
      in (r, S\<lparr> m_DAP_watches := m_DAP_watches S @ [r] \<rparr>))"

definition DeleteWatch :: "'t watch_env \<Rightarrow> nat \<Rightarrow> 't Watches \<Rightarrow> 't Watches" where
  "DeleteWatch E r S =
     (let root_watch = GetRootWatch E S r
      in if root_watch \<notin> set (m_DAP_watches S) then S
         else if length (m_DAP_watches S) = 1 then S\<lparr> m_DAP_watches := [] \<rparr>
         else S\<lparr> m_DAP_watches := remove1 root_watch (m_DAP_watches S) \<rparr>)"

definition dialog_RemoveWatch :: "'t watch_env \<Rightarrow> nat \<Rightarrow> 't Watches \<Rightarrow> 't Watches" where
  \<comment> \<open>\<open>cbWatchesDlg::RemoveWatch\<close>, which may call the plugin's \<open>DeleteWatch\<close>\<close>
  "dialog_RemoveWatch E r S = (if we_DialogRemoves E r then DeleteWatch E r S else S)"

definition ExpandWatch ::
  "'d fp \<Rightarrow> 't watch_env \<Rightarrow> 32 word \<Rightarrow> nat \<Rightarrow> 't Watches \<times> 'cb Client \<Rightarrow> 't Watches \<times> 'cb Client" where
  "ExpandWatch F E w r x =
     (let (S, cl) = x
      in if \<not> IsStopped w \<or> \<not> IsRunning w then (S, cl)
         else if GetRootWatch E S r \<in> set (m_DAP_watches S) \<and> \<not> dw_has_been_expanded (watch S r)
         then let S = RemoveChildren E r S;
                  (seq, cl) = GetChildrenVariables F (wrap32 (uint (dw_DAPVariableReference (watch S r)))) VARIABLES 0 NATIVE cl
              in (set_watch r (\<lambda>v. v\<lparr> dw_DAPChildVariableRequestSequence := seq \<rparr>) S, cl)
         else (S, cl))"

definition same_watch :: "DAPWatch \<Rightarrow> DAPWatch \<Rightarrow> bool" where
  "same_watch v u \<longleftrightarrow> dw_symbol v = dw_symbol u \<and> dw_project v = dw_project u \<and> dw_type v = dw_type u"

definition AddWatch_watch ::
  "'d fp \<Rightarrow> 't watch_env \<Rightarrow> 32 word \<Rightarrow> nat \<Rightarrow> 't Watches \<times> 'cb Client \<Rightarrow> 't Watches \<times> 'cb Client" where
  "AddWatch_watch F E w r x =
     (let (S, cl) = x;
          S = (case find (\<lambda>q. same_watch (watch S r) (watch S q)) (m_DAP_watches S) of
                 Some q \<Rightarrow> dialog_RemoveWatch E q S
               | None \<Rightarrow> S);
          S = S\<lparr> m_DAP_watches := m_DAP_watches S @ [r] \<rparr>;
          S = gui (Gui_AddWatch r) S
      in ExpandWatch F E w r (S, cl))"

definition HasWatch :: "nat \<Rightarrow> 't Watches \<Rightarrow> bool" where
  "HasWatch r S \<longleftrightarrow> m_WatchLocalsandArgs S = Some r \<or> r \<in> set (m_DAP_watches S)"

definition IsMemoryRangeWatch :: "nat \<Rightarrow> 't Watches \<Rightarrow> bool" where
  "IsMemoryRangeWatch r S \<longleftrightarrow> map_of (m_mapWatchesToType S) r = Some Watch_MemoryRange"

definition AddMemoryRange :: "64 word \<Rightarrow> 64 word \<Rightarrow> string \<Rightarrow> 't Watches \<Rightarrow> DAPMemoryRangeWatch" where
  \<comment> \<open>the object is returned and put nowhere\<close>
  "AddMemoryRange llAddress llSize symbol S = DAPMemoryRangeWatch_new (wt_pProject S) llAddress llSize symbol"

definition DoWatches :: "'t watch_env \<Rightarrow> 32 word \<Rightarrow> 't Watches \<Rightarrow> 't Watches" where
  "DoWatches E w S =
     (if \<not> IsRunning w then S
      else let S = (if we_WatchFuncLocalsArgs E \<and> m_WatchLocalsandArgs S = None
                    then let (r, S) = new_watch (DAPWatch_new (wt_pProject S) ''Function locals and arguments'' False True) S
                         in gui (Gui_AddSpecialWatch r) (S\<lparr> m_WatchLocalsandArgs := Some r \<rparr>)
                    else S)
           in gui (Gui_Updated W_Watches) S)"

record watch_answer =   \<comment> \<open>what the watch editor returns after OK\<close>
  wa_symbol :: string
  wa_format :: WatchFormat
  wa_is_array :: bool
  wa_start :: int
  wa_count :: int

definition EditWatchDlg_EndModal :: "watch_answer \<Rightarrow> DAPWatch \<Rightarrow> DAPWatch" where
  "EditWatchDlg_EndModal a v = v\<lparr> dw_symbol := CleanStringValue (wa_symbol a), dw_format := wa_format a,
     dw_is_array := wa_is_array a, dw_array_start := wa_start a, dw_array_end := wa_start a + wa_count a \<rparr>"

definition ShowWatchProperties ::
  "'t watch_env \<Rightarrow> 32 word \<Rightarrow> watch_answer option \<Rightarrow> nat \<Rightarrow> 't Watches \<Rightarrow> 't Watches" where
  "ShowWatchProperties E w dlg r S =
     (if wk_GetParent (we_sdk E) (wt_tree S) r \<noteq> None \<or> IsMemoryRangeWatch r S then S
      else case dlg of
        Some a \<Rightarrow> DoWatches E w (set_watch r (EditWatchDlg_EndModal a) S)
      | None \<Rightarrow> S)"

definition SetWatchValue :: "'t watch_env \<Rightarrow> 32 word \<Rightarrow> nat \<Rightarrow> 't Watches \<Rightarrow> bool" where
  "SetWatchValue E w r S \<longleftrightarrow> IsStopped w \<and> IsRunning w \<and> GetRootWatch E S r \<in> set (m_DAP_watches S)"

section \<open>Evaluating a watch\<close>

definition active_stack_id :: "CallStack \<Rightarrow> watch_error + int option" where
  \<comment> \<open>the lines that fetch the id of the active frame; \<open>None\<close> when no frame is active\<close>
  "active_stack_id C =
     (let activeStackFrame = GetActiveStackFrame C
      in if activeStackFrame < 0 then Inr None
         else case GetStackFrame activeStackFrame C of
           None \<Rightarrow> Inl NoFrame
         | Some s \<Rightarrow> Inr (Some (bf_DAPStackId s)))"

definition EvaluateWatchWithCallback ::
  "'d fp \<Rightarrow> CallStack \<Rightarrow> nat \<Rightarrow> 't Watches \<times> plugin_callback Client
     \<Rightarrow> watch_error + 't Watches \<times> plugin_callback Client" where
  "EvaluateWatchWithCallback F C r x =
     (let (S, cl) = x
      in bind_err (active_stack_id C) (\<lambda>i. case i of
           None \<Rightarrow> Inr (S, cl)
         | Some stackID \<Rightarrow>
             (let token = dw_symbol (watch S r)
              in Inr (S, EvaluateExpression F token stackID WATCH (Cb_Watch token r) NATIVE cl))))"

definition UpdateWatch ::
  "'d fp \<Rightarrow> 32 word \<Rightarrow> CallStack \<Rightarrow> nat \<Rightarrow> 't Watches \<times> plugin_callback Client
     \<Rightarrow> watch_error + 't Watches \<times> plugin_callback Client" where
  "UpdateWatch F w C r x =
     (let (S, cl) = x
      in if r \<in> set (m_DAP_watches S) \<and> IsRunning w
         then EvaluateWatchWithCallback F C r
                (S, GetVariableInfo F (dw_DAPChildVariableRequestSequence (watch S r)) [] 0 1 NATIVE cl)
         else Inr (S, cl))"

definition EvaluateWatchCallback ::
  "'t watch_env \<Rightarrow> 'c updater \<Rightarrow> bool \<Rightarrow> string \<Rightarrow> string \<Rightarrow> nat \<Rightarrow> 't Watches \<times> 'c \<Rightarrow> watch_error + 't Watches \<times> 'c" where
  "EvaluateWatchCallback E R success result type real_watch x =
     (if \<not> success then Inr x
      else let (S, cl) = x; S = set_watch real_watch (\<lambda>w. w\<lparr> dw_value := result, dw_type := type \<rparr>) S
           in UpdateDAPWatches E R W_Watches (S, cl))"

section \<open>Projects and the state file\<close>

definition remove_project_watch :: "'t watch_env \<Rightarrow> nat \<Rightarrow> nat \<Rightarrow> 't Watches \<Rightarrow> 't Watches" where
  \<comment> \<open>the body of the loop of \<open>CleanupWhenProjectClosed\<close>\<close>
  "remove_project_watch E pProject ii S =
     (let r = m_DAP_watches S ! ii
      in if dw_project (watch S r) = pProject then dialog_RemoveWatch E r S else S)"

definition CleanupWhenProjectClosed_watches :: "'t watch_env \<Rightarrow> nat \<Rightarrow> 't Watches \<Rightarrow> 't Watches" where
  \<comment> \<open>after \<open>SaveStateToFile\<close>, which does not change the state\<close>
  "CleanupWhenProjectClosed_watches E pProject S =
     fold (remove_project_watch E pProject) (rev [0..<length (m_DAP_watches S)]) S"

definition SaveStateToFile_watches :: "string \<Rightarrow> string \<Rightarrow> string \<Rightarrow> nat \<Rightarrow> 't Watches \<Rightarrow> xml" where
  \<comment> \<open>the root element that is written, for a project with a file name; the arguments before the
    project are its title and the compiler's name and configuration\<close>
  "SaveStateToFile_watches title compiler dbgconfig project S =
     Elem ''Debugger_layout_file'' []
       [AddChildNode ''DBGconfig'' dbgconfig (AddChildNode ''CompilerName'' compiler (Elem ''CompilerInfo'' [] [])),
        Elem ''WatchesList'' []
          (map (\<lambda>r. SaveWatchToXML title (watch S r))
             (filter (\<lambda>r. dw_project (watch S r) = project \<and> \<not> dw_for_tooltip (watch S r)) (m_DAP_watches S)))]"

fun load_watches ::
  "'d fp \<Rightarrow> 't watch_env \<Rightarrow> 32 word \<Rightarrow> nat \<Rightarrow> xml list \<Rightarrow> 't Watches \<times> 'cb Client
     \<Rightarrow> watch_error + 't Watches \<times> 'cb Client" where
  "load_watches F E w project [] x = Inr x"
| "load_watches F E w project (pWatchElement # es) x =
     bind_err
       (if ReadChildNodewxString pWatchElement ''DAPWatchClassName'' = ''DAPWatch''
        then case LoadWatchFromXML (we_num E) pWatchElement (DAPWatch_new project [] False True) of
            None \<Rightarrow> Inl Uninitialised
          | Some v \<Rightarrow>
              (if dw_symbol v \<noteq> []
               then let (S, cl) = x; (r, S) = new_watch v S in Inr (AddWatch_watch F E w r (S, cl))
               else Inr x)
        else Inr x)
       (load_watches F E w project es)"

definition LoadStateFromFile_watches ::
  "'d fp \<Rightarrow> 't watch_env \<Rightarrow> 32 word \<Rightarrow> xml \<Rightarrow> nat \<Rightarrow> 't Watches \<times> 'cb Client
     \<Rightarrow> watch_error + 't Watches \<times> 'cb Client" where
  \<comment> \<open>for the root element of a file that was read\<close>
  "LoadStateFromFile_watches F E w root project x =
     (case FirstChildElement ''WatchesList'' root of
        None \<Rightarrow> Inr x
      | Some pElementWatchesList \<Rightarrow>
          load_watches F E w project (dropWhile (\<lambda>e. xml_name e \<noteq> ''Watch'') (xml_children pElementWatchesList)) x)"

section \<open>Events of the client\<close>

definition OnInitializedEvent_watches :: "'t watch_env \<Rightarrow> InitializeResponse option \<Rightarrow> 't Watches \<Rightarrow> 't Watches" where
  \<comment> \<open>the argument is \<open>GetDapResponse()->As<InitializeResponse>()\<close> of the event\<close>
  "OnInitializedEvent_watches E response_data S =
     (case response_data of
        Some r \<Rightarrow> (if rs_success r then CreateStartWatches E S else S)
      | None \<Rightarrow> S)"

definition request_scope ::
  "'d fp \<Rightarrow> 't watch_env \<Rightarrow> Scope \<Rightarrow> 'cb Client \<Rightarrow> 'cb Client" where
  \<comment> \<open>the body of the loop of \<open>OnScopes\<close>\<close>
  "request_scope F E scope cl =
     (if IsSameAs_nocase (sc_name scope) ''Globals'' \<or> IsSameAs_nocase (sc_name scope) ''Registers''
      then if IsSameAs_nocase (sc_name scope) ''Registers'' \<and> we_CPURegistersShown E
           then snd (GetChildrenVariables F (sc_variablesReference scope) VARIABLES 0 NATIVE cl)
           else cl
      else snd (GetChildrenVariables F (sc_variablesReference scope) VARIABLES 0 NATIVE cl))"

definition OnScopes ::
  "'d fp \<Rightarrow> 't watch_env \<Rightarrow> ScopesResponse option \<Rightarrow> 't Watches \<times> 'cb Client \<Rightarrow> 't Watches \<times> 'cb Client" where
  "OnScopes F E resp x =
     (let (S, cl) = x; S = S\<lparr> m_RequestedGPRegs := False, m_RequestedFloats := False \<rparr>
      in case resp of
        None \<Rightarrow> (S, cl)
      | Some r \<Rightarrow> (S\<lparr> m_stackdapvariables := [] \<rparr>, fold (request_scope F E) (ps_scopes r) cl))"

definition anonymous :: "Variable \<Rightarrow> Variable" where
  "anonymous var = (if vr_name var = [] then var\<lparr> vr_name := ''anonymous'' \<rparr> else var)"

definition add_watch_child :: "'t watch_env \<Rightarrow> nat \<Rightarrow> Variable \<Rightarrow> 't Watches \<Rightarrow> 't Watches" where
  \<comment> \<open>the first branch of \<open>AddWatchChildByRequestSequence\<close>, for a variable with a name\<close>
  "add_watch_child E pWatch var S =
     (let (childWatch, S) = new_watch (DAPWatch_new (wt_pProject S) (vr_name var) False True) S;
          S = SetFromVariable E childWatch var S
      in AddChild E pWatch childWatch S)"

definition AppendNullChild :: "'t watch_env \<Rightarrow> nat \<Rightarrow> 't Watches \<Rightarrow> 't Watches" where
  \<comment> \<open>nothing calls it; the arguments of the last call are swapped in the source\<close>
  "AppendNullChild E r S =
     (let (childWatch, S) = new_watch (DAPWatch_new (wt_pProject S) ''...'' False True) S;
          S = set_watch childWatch (\<lambda>w. w\<lparr> dw_value := ''Updating...'', dw_has_been_expanded := False \<rparr>) S
      in AddChild E childWatch r S)"

text \<open>
  The recursion over the children is bounded by fuel; \<open>Dap_WatchProps\<close> shows that the fuel
  that \<open>OnVariablesCheck\<close> gives is enough. The name of the variable is changed through a
  \<open>const_cast\<close>, so the variable is returned.
\<close>

fun AddWatchChildByRequestSequence ::
  "nat \<Rightarrow> 't watch_env \<Rightarrow> int \<Rightarrow> nat \<Rightarrow> Variable \<times> 't Watches \<Rightarrow> watch_error + bool \<times> Variable \<times> 't Watches"
and watch_children ::
  "nat \<Rightarrow> 't watch_env \<Rightarrow> int \<Rightarrow> nat list \<Rightarrow> Variable \<times> 't Watches \<Rightarrow> watch_error + bool \<times> Variable \<times> 't Watches" where
  "AddWatchChildByRequestSequence 0 E requestSeq pWatch x = Inl NoReturn"
| "AddWatchChildByRequestSequence (Suc n) E requestSeq pWatch x =
     (let (var, S) = x
      in if dw_DAPChildVariableRequestSequence (watch S pWatch) = requestSeq
         then let var = anonymous var in Inr (True, var, add_watch_child E pWatch var S)
         else watch_children n E requestSeq (wk_children (we_sdk E) (wt_tree S) pWatch) (var, S))"
| "watch_children n E requestSeq [] x = Inr (False, x)"
| "watch_children n E requestSeq (cWatch # cs) x =
     (let (var, S) = x
      in bind_err (AddWatchChildByRequestSequence n E requestSeq cWatch (anonymous var, S))
           (\<lambda>(found, y). if found then Inr (True, y) else watch_children n E requestSeq cs y))"

definition check_variable ::
  "'t watch_env \<Rightarrow> int \<Rightarrow> nat \<Rightarrow> Variable \<times> 't Watches \<Rightarrow> watch_error + Variable \<times> 't Watches" where
  \<comment> \<open>the body of the inner loop of \<open>OnVariablesCheck\<close>; \<open>symbol\<close> was read before that loop\<close>
  "check_variable E request_seq r x =
     (let (var, S) = x;
          S = (if dw_symbol (watch S r) = vr_name var
               then set_watch r (\<lambda>w. w\<lparr> dw_value := (if vr_value var = [] then [CHR 0x22, CHR 0x22] else vr_value var),
                      dw_type := vr_type var, dw_DAPVariableReference := word_of_int (vr_variablesReference var),
                      dw_DAPChildVariableRequestSequence := request_seq \<rparr>) S
               else S)
      in if vr_variablesReference var \<noteq> 0
         then bind_err (AddWatchChildByRequestSequence (wt_next S) E request_seq r (var, S)) (\<lambda>(_, y). Inr y)
         else Inr (var, S))"

fun check_variables ::
  "'t watch_env \<Rightarrow> int \<Rightarrow> nat \<Rightarrow> Variable list \<Rightarrow> 't Watches \<Rightarrow> watch_error + Variable list \<times> 't Watches" where
  "check_variables E request_seq r [] S = Inr ([], S)"
| "check_variables E request_seq r (var # vars) S =
     bind_err (check_variable E request_seq r (var, S)) (\<lambda>(var, S).
       bind_err (check_variables E request_seq r vars S) (\<lambda>(vars, S). Inr (var # vars, S)))"

fun check_watches ::
  "'t watch_env \<Rightarrow> int \<Rightarrow> nat list \<Rightarrow> Variable list \<times> 't Watches \<Rightarrow> watch_error + Variable list \<times> 't Watches" where
  "check_watches E request_seq [] x = Inr x"
| "check_watches E request_seq (r # rs) x =
     bind_err (check_variables E request_seq r (fst x) (snd x)) (check_watches E request_seq rs)"

definition OnVariablesCheck ::
  "'t watch_env \<Rightarrow> 'c updater \<Rightarrow> VariablesResponse option \<Rightarrow> 't Watches \<times> 'c \<Rightarrow> watch_error + 't Watches \<times> 'c" where
  "OnVariablesCheck E R resp x =
     (case resp of
        None \<Rightarrow> Inr x
      | Some v \<Rightarrow>
          (let (S, cl) = x;
               S = S\<lparr> m_stackdapvariables := m_stackdapvariables S @ vs_variables v \<rparr>
           in bind_err (check_watches E (rs_request_seq v) (m_DAP_watches S) (vs_variables v, S)) (\<lambda>(_, S).
                UpdateDAPWatches E R W_Watches (S, cl))))"

section \<open>Registers\<close>

fun pad_nibbles :: "nat \<Rightarrow> string \<Rightarrow> string" where
  \<comment> \<open>the \<open>while\<close> loop that makes the length a multiple of four: at most three turns\<close>
  "pad_nibbles 0 binary = binary"
| "pad_nibbles (Suc n) binary = (if length binary mod 4 \<noteq> 0 then pad_nibbles n (CHR ''0'' # binary) else binary)"

definition bitset4 :: "string \<Rightarrow> watch_error + nat" where
  \<comment> \<open>\<open>std::bitset<4>(nibble).to_ulong()\<close>\<close>
  "bitset4 nibble =
     (if list_all (\<lambda>c. c = CHR ''0'' \<or> c = CHR ''1'') nibble
      then Inr (foldl (\<lambda>n c. 2 * n + (if c = CHR ''1'' then 1 else 0)) 0 nibble)
      else Inl InvalidArgument)"

definition upper_hex_digit :: "nat \<Rightarrow> char" where   \<comment> \<open>\<open>%X\<close> of a number below 16\<close>
  "upper_hex_digit n = ''0123456789ABCDEF'' ! n"

fun hex_nibbles :: "string \<Rightarrow> string \<Rightarrow> watch_error + string" where
  "hex_nibbles (a # b # c # d # rest) hexStr =
     bind_err (bitset4 [a, b, c, d]) (\<lambda>n. hex_nibbles rest (hexStr @ [upper_hex_digit n]))"
| "hex_nibbles nibble hexStr = Inr hexStr"   \<comment> \<open>the end: the length is a multiple of four\<close>

definition BinStrToHexStr :: "string \<Rightarrow> watch_error + string" where
  "BinStrToHexStr binaryStr =
     (if \<not> starts_with ''0b'' binaryStr then Inr []
      else hex_nibbles (pad_nibbles 3 (drop 2 binaryStr)) ''0x'')"

fun set_register_values :: "(string \<times> string) list \<Rightarrow> 't Watches \<Rightarrow> watch_error + 't Watches" where
  "set_register_values [] S = Inr S"
| "set_register_values ((name, addr) # regs) S =
     (let S = gui (Gui_SetRegisterValue name addr) S
      in bind_err
           (if name = ''eflags''
            then bind_err (BinStrToHexStr addr) (\<lambda>hexStr.
                   Inr (if hexStr \<noteq> [] then gui (Gui_SetRegisterValue name hexStr) S else S))
            else Inr S)
           (set_register_values regs))"

definition OnVarCPURegisters :: "(string \<times> string) list \<Rightarrow> 't Watches \<Rightarrow> watch_error + 't Watches" where
  "OnVarCPURegisters registerVariablesMap S =
     (let S = (if registerVariablesMap \<noteq> []
               then let S = S\<lparr> m_parsed_reg_names := True, m_parsed_reg_values := True \<rparr>
                    in if m_disassemblyFlavor S = ''set disassembly-flavor or32'' then S
                       else S\<lparr> regNames := map fst registerVariablesMap, regValues := map snd registerVariablesMap \<rparr>
               else S)
      in if m_parsed_reg_names S \<and> m_parsed_reg_values S
         then set_register_values (zip (regNames S) (regValues S)) S
         else Inr S)"

fun smap_set :: "string \<Rightarrow> 'v \<Rightarrow> (string \<times> 'v) list \<Rightarrow> (string \<times> 'v) list" where
  \<comment> \<open>\<open>map[k] = v\<close>\<close>
  "smap_set k v [] = [(k, v)]"
| "smap_set k v ((k', v') # m) =
     (if k < k' then (k, v) # (k', v') # m
      else if k = k' then (k, v) # m else (k', v') # smap_set k v m)"

definition ends_with :: "string \<Rightarrow> string \<Rightarrow> bool" where
  "ends_with suffix s \<longleftrightarrow> starts_with (rev suffix) (rev s)"

definition sort_variable ::
  "'d fp \<Rightarrow> Variable \<Rightarrow> ((string \<times> string) list \<times> (string \<times> string) list) \<times> 't Watches \<times> 'cb Client
     \<Rightarrow> ((string \<times> string) list \<times> (string \<times> string) list) \<times> 't Watches \<times> 'cb Client" where
  \<comment> \<open>the body of the loop of \<open>OnVariables\<close>\<close>
  "sort_variable F var x =
     (let ((localVariables, cpuRegisterVariables), S, cl) = x;
          value = (if vr_value var = [] then [CHR 0x22, CHR 0x22] else vr_value var);
          (S, cl) =
            (if ends_with ''Registers'' (vr_name var) \<or> vh_kind (vr_presentationHint var) = ''register''
             then if vr_name var = ''General Purpose Registers''
                  then (S\<lparr> m_RequestedGPRegs := True \<rparr>,
                        snd (GetChildrenVariables F (vr_variablesReference var) VARIABLES 0 NATIVE cl))
                  else if vr_name var = ''Floating Point Registers''
                  then (S\<lparr> m_RequestedFloats := True \<rparr>,
                        snd (GetChildrenVariables F (vr_variablesReference var) VARIABLES 0 NATIVE cl))
                  else (S, cl)
             else (S, cl))
      in if m_RequestedGPRegs S \<or> m_RequestedFloats S
         then ((localVariables,
                if vr_value var \<noteq> [] then smap_set (vr_name var) value cpuRegisterVariables else cpuRegisterVariables), S, cl)
         else ((smap_set (vr_name var) value localVariables, cpuRegisterVariables), S, cl))"

definition OnVariables ::
  "'d fp \<Rightarrow> 't watch_env \<Rightarrow> 'cb Client updater \<Rightarrow> VariablesResponse option \<Rightarrow> 't Watches \<times> 'cb Client
     \<Rightarrow> watch_error + 't Watches \<times> 'cb Client" where
  "OnVariables F E R resp x =
     (case resp of
        None \<Rightarrow> Inr x
      | Some v \<Rightarrow>
          (let ((localVariables, cpuRegisterVariables), S, cl) = fold (sort_variable F) (vs_variables v) (([], []), x)
           in bind_err (if localVariables \<noteq> [] then OnVariablesCheck E R (Some v) (S, cl) else Inr (S, cl)) (\<lambda>(S, cl).
                bind_err (if cpuRegisterVariables \<noteq> [] then OnVarCPURegisters cpuRegisterVariables S else Inr S) (\<lambda>S.
                  Inr (S, cl)))))"

end
