(* ===== verification/Dap_Helpers.thy ===== *)
theory Dap_Helpers
  imports Dap_Watches Dap_Persist
begin

text \<open>
  The helpers of the plugin: the port search and the help text of the adapter (\<open>helpers.cpp\<close>), and the
  functions of \<open>plugin.cpp\<close> on paths and on the output of the memory command. What
  \<open>wxExecute\<close>, \<open>UnixFilename\<close>, \<open>wxFileName::GetShortPath\<close>, \<open>wxRegEx\<close> and \<open>ToULong\<close> return are
  parameters. \<open>None\<close> is an access outside a string.
\<close>

section \<open>Functions\<close>

definition contains :: "string \<Rightarrow> string \<Rightarrow> bool" where   \<comment> \<open>\<open>s.Contains(pat)\<close>\<close>
  "contains pat s \<longleftrightarrow> find_sub pat s \<noteq> None"

function find_port :: "string list \<Rightarrow> int \<Rightarrow> int \<Rightarrow> string \<Rightarrow> string" where
  \<comment> \<open>the loop of \<open>Find_available_port\<close>: \<open>portStr\<close> after it\<close>
  "find_port out port end_port portStr =
     (if port < end_port
      then let portStr = show_int port;
               portStr = (if list_ex (contains portStr) out then [] else portStr)
           in if portStr \<noteq> [] then portStr else find_port out (port + 1) end_port portStr
      else portStr)"
  by pat_completeness auto
termination by (relation "measure (\<lambda>(out, port, end_port, portStr). nat (end_port - port))") auto

declare find_port.simps [simp del]

definition Find_available_port :: "string list \<Rightarrow> int \<Rightarrow> int \<Rightarrow> int" where
  \<comment> \<open>the first argument is the output of the command that lists the sockets\<close>
  "Find_available_port out start_port end_port =
     (if out = [] then - 1
      else let portStr = find_port out start_port end_port []
           in if portStr \<noteq> [] then atol portStr else - 1)"

definition port_patterns :: "string list" where
  "port_patterns = [''--port <port>'', ''--connection listen://localhost:<port>'']"

definition FindPortArgFormat :: "int \<times> string list \<Rightarrow> bool \<times> string" where
  \<comment> \<open>the argument is the exit code and the output of the program with \<open>--help\<close>; the second result is
    \<open>ArgFormat\<close>\<close>
  "FindPortArgFormat x =
     (let (exitCode, out) = x
      in if exitCode \<noteq> 0 \<or> out = [] then (False, [])
         else let helpText = concat (map (\<lambda>l. l @ [CHR 0x0A]) out)
              in case find (\<lambda>p. contains (map tolower p) (map tolower helpText)) port_patterns of
                   Some p \<Rightarrow> (True, p)
                 | None \<Rightarrow> (False, []))"

definition StripQuotes :: "string \<Rightarrow> string option" where
  "StripQuotes str =
     (if str = [] then None
      else if hd str = CHR 0x22 \<and> last str = CHR 0x22 then Some (take (length str - 2) (drop 1 str)) else Some str)"

fun replace_double :: "string \<Rightarrow> string" where   \<comment> \<open>\<open>Replace("//", "/")\<close>\<close>
  "replace_double (c # d # s) = (if c = CHR ''/'' \<and> d = CHR ''/'' then CHR ''/'' # replace_double s
     else c # replace_double (d # s))"
| "replace_double s = s"

lemma replace_double_length: "length (replace_double s) \<le> length s"
  by (induction s rule: replace_double.induct) auto

lemma replace_double_shorter: "contains ''//'' s \<Longrightarrow> length (replace_double s) < length s"
proof (induction s rule: replace_double.induct)
  case (1 c d s)
  show ?case
  proof (cases "c = CHR ''/'' \<and> d = CHR ''/''")
    case True
    then show ?thesis using replace_double_length [of s] by simp
  next
    case False
    then have "contains ''//'' (d # s)" using "1.prems" by (auto simp: contains_def split: if_splits)
    then show ?thesis using "1.IH"(2) [OF False] False by auto
  qed
qed (auto simp: contains_def split: if_splits)

function squeeze :: "string \<Rightarrow> string" where   \<comment> \<open>\<open>while (str.Replace("//", "/"));\<close>\<close>
  "squeeze s = (if contains ''//'' s then squeeze (replace_double s) else s)"
  by pat_completeness auto
termination by (relation "measure length") (auto intro: replace_double_shorter)

declare squeeze.simps [simp del]

definition ConvertToDAPFriendly :: "(string \<Rightarrow> string) \<Rightarrow> string \<Rightarrow> string option" where
  "ConvertToDAPFriendly UnixFilename str =
     (if str = [] then Some []
      else let str = UnixFilename str;
               str = map (\<lambda>c. if c = CHR 0x5C then CHR ''/'' else c) str;
               str = squeeze str
           in if CHR '' '' \<in> set str
              then if hd str \<noteq> CHR 0x22 then Some (CHR 0x22 # str @ [CHR 0x22]) else Some str
              else Some str)"

definition before_first :: "char \<Rightarrow> string \<Rightarrow> string" where
  "before_first c s = takeWhile (\<lambda>d. d \<noteq> c) s"

definition after_first :: "char \<Rightarrow> string \<Rightarrow> string" where
  "after_first c s = tl (dropWhile (\<lambda>d. d \<noteq> c) s)"

lemma after_first_shorter:
  assumes "s \<noteq> []"
  shows "length (after_first c s) < length s"
proof -
  have "length (dropWhile (\<lambda>d. d \<noteq> c) s) \<le> length s" "0 < length s"
    using assms by (simp_all add: length_dropWhile_le)
  then show ?thesis unfolding after_first_def length_tl by linarith
qed

function strip_common :: "string \<Rightarrow> string \<Rightarrow> string \<times> string" where
  \<comment> \<open>the loop that drops equal components; without a slash \<open>AfterFirst\<close> is empty, as the code has it\<close>
  "strip_common str base =
     (if base \<noteq> [] \<and> str \<noteq> [] \<and> before_first CHR ''/'' str = before_first CHR ''/'' base
      then strip_common (after_first CHR ''/'' str) (after_first CHR ''/'' base)
      else (str, base))"
  by pat_completeness auto
termination by (relation "measure (length \<circ> fst)") (auto intro: after_first_shorter)

declare strip_common.simps [simp del]

function climb :: "string \<Rightarrow> string \<Rightarrow> string" where   \<comment> \<open>\<open>../\<close> for each component of \<open>base\<close> that is left\<close>
  "climb str base = (if base \<noteq> [] then climb (''../'' @ str) (after_first CHR ''/'' base) else str)"
  by pat_completeness auto
termination by (relation "measure (length \<circ> snd)") (auto intro: after_first_shorter)

declare climb.simps [simp del]

definition drop_root :: "string \<Rightarrow> string" where
  "drop_root s = (if hd s = CHR ''/'' then drop 1 s else if hd s = CHR ''~'' then drop 2 s else s)"

definition drop_drive :: "string \<Rightarrow> string" where
  "drop_drive s = (case find_char CHR '':'' s of Some n \<Rightarrow> drop (n + 2) s | None \<Rightarrow> s)"

definition to_relative :: "bool \<Rightarrow> string \<Rightarrow> string \<Rightarrow> string" where
  \<comment> \<open>the block for \<open>relative\<close>; \<open>windows\<close> is \<open>platform::windows\<close>\<close>
  "to_relative windows str base =
     (let str = (if windows then drop_drive str else drop_root str);
          base = (if windows then drop_drive base else drop_root base);
          (str, base) = strip_common str base
      in climb str base)"

definition bind_opt :: "'a option \<Rightarrow> ('a \<Rightarrow> 'b option) \<Rightarrow> 'b option" where
  "bind_opt x f = (case x of None \<Rightarrow> None | Some a \<Rightarrow> f a)"

lemma bind_opt_simps [simp]: "bind_opt None f = None" "bind_opt (Some a) f = f a"
  by (simp_all add: bind_opt_def)

definition ConvertToDAPDirectory ::
  "bool \<Rightarrow> (string \<Rightarrow> string) \<Rightarrow> (string \<Rightarrow> string) \<Rightarrow> string \<Rightarrow> string \<Rightarrow> bool \<Rightarrow> string option" where
  "ConvertToDAPDirectory windows UnixFilename GetShortPath str base relative =
     (if str = [] then Some []
      else
        bind_opt (ConvertToDAPFriendly UnixFilename str) (\<lambda>str.
        bind_opt (StripQuotes str) (\<lambda>str.
        bind_opt (if base \<noteq> [] then bind_opt (ConvertToDAPFriendly UnixFilename base) StripQuotes else Some base) (\<lambda>base.
        bind_opt
          (if windows
           then let ColonLocation = find_char CHR '':'' str
                in if ColonLocation = None \<and> base \<noteq> [] \<and> (str = [] \<or> hd str \<noteq> CHR ''/'')
                   then None   \<comment> \<open>\<open>base.GetChar(base.Length())\<close>\<close>
                   else
                     (let str = (if ColonLocation \<noteq> None \<and> CHR '' '' \<in> set str
                                 then (let path_83 = GetShortPath str in if path_83 \<noteq> [] then path_83 else str)
                                 else str)
                      in Some (str, if ColonLocation = None \<or> base = [] then False else relative))
           else if str = [] then None
           else Some (str, if hd str \<noteq> CHR ''/'' \<and> hd str \<noteq> CHR ''~'' \<or> base = [] then False else relative))
          (\<lambda>(str, relative).
             ConvertToDAPFriendly UnixFilename (if relative then to_relative windows str base else str))))))"

function hex_bytes :: "(string \<Rightarrow> nat option) \<Rightarrow> string \<Rightarrow> nat \<Rightarrow> 8 word list option" where
  \<comment> \<open>the loop of \<open>ParseExamineMemoryLine\<close>, at \<open>pos\<close>\<close>
  "hex_bytes ToULong16 memory pos =
     (case find_char CHR ''x'' (drop pos memory) of
        None \<Rightarrow> Some []
      | Some n \<Rightarrow>
          (let pos = pos + n
           in if length memory \<le> pos + 2 then None
              else case ToULong16 [memory ! (pos + 1), memory ! (pos + 2)] of
                     None \<Rightarrow> None   \<comment> \<open>\<open>value\<close> is not initialised\<close>
                   | Some v \<Rightarrow> map_option (\<lambda>vs. of_nat v # vs) (hex_bytes ToULong16 memory (pos + 1))))"
  by pat_completeness auto
termination by (relation "measure (\<lambda>(f, memory, pos). length memory - pos)") auto

declare hex_bytes.simps [simp del]

definition ParseExamineMemoryLine ::
  "(string \<Rightarrow> (string \<times> string) option) \<Rightarrow> (string \<Rightarrow> nat option) \<Rightarrow> string \<Rightarrow> (bool \<times> string \<times> 8 word list) option" where
  \<comment> \<open>the result with \<open>resultAddr\<close> and \<open>resultValues\<close>; the first argument matches
    \<open>reExamineMemoryLine\<close> and gives its two groups\<close>
  "ParseExamineMemoryLine re ToULong16 outputLine =
     (if starts_with ''Cannot access memory at address '' outputLine then Some (False, [], [])
      else case re outputLine of
        Some (addr, memory) \<Rightarrow> map_option (\<lambda>vs. (True, addr, vs)) (hex_bytes ToULong16 memory 0)
      | None \<Rightarrow>
          (if find_char CHR '':'' outputLine = None then Some (False, [], [])
           else map_option (\<lambda>vs. (True, before_first CHR '':'' outputLine, vs))
                  (hex_bytes ToULong16 (after_first CHR '':'' outputLine) 0)))"

section \<open>The port search\<close>

lemma show_int_nonempty: "show_int i \<noteq> []"
  by (simp add: show_int_def show_nat_nonempty)

lemma find_port_first:
  "find_port out p e [] = (case find (\<lambda>p. \<not> list_ex (contains (show_int p)) out) [p..e - 1] of
     Some q \<Rightarrow> show_int q | None \<Rightarrow> [])"
proof (induction "nat (e - p)" arbitrary: p)
  case 0
  then show ?case by (simp add: find_port.simps [of out p])
next
  case (Suc n)
  then have "[p..e - 1] = p # [p + 1..e - 1]" by (simp add: upto_rec1)
  moreover have "find_port out (p + 1) e [] = (case find (\<lambda>p. \<not> list_ex (contains (show_int p)) out) [p + 1..e - 1] of
     Some q \<Rightarrow> show_int q | None \<Rightarrow> [])"
    by (rule Suc.hyps(1)) (use Suc.hyps(2) in simp)
  moreover have "p < e" using Suc.hyps(2) by simp
  ultimately show ?case by (simp add: find_port.simps [of out p] show_int_nonempty Let_def)
qed

text \<open>C40: the port search finds the first port of the range whose number occurs nowhere in the list of sockets,
  and none when every number occurs; when the command lists no socket at all, which is when every port
  is free, it reports that there is none.\<close>

theorem Find_available_port_first:
  "Find_available_port out start_port end_port
     = (if out = [] then - 1
        else case find (\<lambda>p. \<not> list_ex (contains (show_int p)) out) [start_port..end_port - 1] of
               Some p \<Rightarrow> p | None \<Rightarrow> - 1)"
  by (simp add: Find_available_port_def find_port_first Let_def show_int_nonempty atol_show_int split: option.split)

section \<open>Registers in binary\<close>

lemma pad_nibbles_three: "pad_nibbles 3 s = pad_nibbles (Suc (Suc (Suc 0))) s"
  by (rule arg_cong [where f = "\<lambda>n. pad_nibbles n s"]) simp

lemma pad_nibbles_zeros:
  "\<exists>k. pad_nibbles 3 s = replicate k CHR ''0'' @ s \<and> (k + length s) mod 4 = 0 \<and> k < 4"
proof -
  consider "length s mod 4 = 0" | "length s mod 4 = 1" | "length s mod 4 = 2" | "length s mod 4 = 3"
    using mod_less_divisor [of 4 "length s"] by fastforce
  then show ?thesis
  proof cases
    case 1
    then show ?thesis by (intro exI [of _ 0]) (simp add: pad_nibbles_three)
  next
    case 2
    then have "Suc (length s) mod 4 = 2" "Suc (Suc (length s)) mod 4 = 3" "Suc (Suc (Suc (length s))) mod 4 = 0" by presburger+
    with 2 show ?thesis by (intro exI [of _ "Suc (Suc (Suc 0))"]) (simp add: pad_nibbles_three)
  next
    case 3
    then have "Suc (length s) mod 4 = 3" "Suc (Suc (length s)) mod 4 = 0" by presburger+
    with 3 show ?thesis by (intro exI [of _ "Suc (Suc 0)"]) (simp add: pad_nibbles_three)
  next
    case 4
    then have "Suc (length s) mod 4 = 0" by presburger
    with 4 show ?thesis by (intro exI [of _ "Suc 0"]) (simp add: pad_nibbles_three)
  qed
qed

definition binary :: "string \<Rightarrow> bool" where
  "binary s \<longleftrightarrow> list_all (\<lambda>c. c = CHR ''0'' \<or> c = CHR ''1'') s"

lemma upper_hex: "n < 16 \<Longrightarrow> hex_val (upper_hex_digit n) = Some n"
proof -
  assume "n < 16"
  then have "n \<in> set [0..<16]" by simp
  then show ?thesis by (simp add: upt_conv_Cons) (auto simp: upper_hex_digit_def hex_val_def)
qed

lemma hex_val_bit: "hex_val CHR ''0'' = Some 0" "hex_val CHR ''1'' = Some 1"
  by (simp_all add: hex_val_def)

lemma bitset4_value:
  "binary [a, b, c, d] \<Longrightarrow> \<exists>n < 16. bitset4 [a, b, c, d] = Inr n \<and> base_val 2 m [a, b, c, d] = 16 * m + n"
  by (auto simp: binary_def bitset4_def base_val_def hex_val_bit)

lemma hex_nibbles_value:
  "binary s \<Longrightarrow> length s mod 4 = 0 \<Longrightarrow>
    \<exists>h. hex_nibbles s acc = Inr (acc @ h) \<and> base_val 16 m h = base_val 2 m s \<and> length h = length s div 4"
proof (induction s acc arbitrary: m rule: hex_nibbles.induct)
  case (1 a b c d rest acc)
  obtain n where n: "n < 16" "bitset4 [a, b, c, d] = Inr n" "base_val 2 m [a, b, c, d] = 16 * m + n"
    using bitset4_value [of a b c d m] "1.prems"(1) by (auto simp: binary_def)
  have "length rest mod 4 = 0" using "1.prems"(2) by simp
  then obtain h where h: "hex_nibbles rest (acc @ [upper_hex_digit n]) = Inr ((acc @ [upper_hex_digit n]) @ h)"
      "base_val 16 (16 * m + n) h = base_val 2 (16 * m + n) rest" "length h = length rest div 4"
    using "1.IH" [of n "16 * m + n"] "1.prems"(1) by (auto simp: binary_def)
  have "base_val 2 m ([a, b, c, d] @ rest) = base_val 2 (16 * m + n) rest" by (simp only: base_val_append n(3))
  moreover have "base_val 16 m (upper_hex_digit n # h) = base_val 16 (16 * m + n) h"
    by (simp add: base_val_def upper_hex [OF n(1)] mult.commute)
  ultimately have "base_val 16 m (upper_hex_digit n # h) = base_val 2 m (a # b # c # d # rest)" using h(2) by simp
  then show ?case using h(1,3) n(2) by (intro exI [of _ "upper_hex_digit n # h"]) simp
qed (auto simp: base_val_def)

lemma hex_nibbles_throws: "\<not> binary s \<Longrightarrow> length s mod 4 = 0 \<Longrightarrow> hex_nibbles s acc = Inl InvalidArgument"
proof (induction s acc rule: hex_nibbles.induct)
  case (1 a b c d rest acc)
  show ?case
  proof (cases "binary [a, b, c, d]")
    case True
    then obtain n where "bitset4 [a, b, c, d] = Inr n" using bitset4_value by blast
    then show ?thesis using 1 True by (auto simp: binary_def)
  next
    case False
    then have "bitset4 [a, b, c, d] = Inl InvalidArgument" by (simp only: bitset4_def binary_def if_False)
    then show ?thesis by simp
  qed
qed (auto simp: binary_def)

text \<open>The flags register. The hexadecimal text made of a register that is given in binary denotes the
  same number, with as few digits as its bits need; a text with another character throws.\<close>

lemma BinStrToHexStr_value:
  "if binary bits
   then \<exists>h. BinStrToHexStr (''0b'' @ bits) = Inr (''0x'' @ h) \<and> base_val 16 0 h = base_val 2 0 bits
     \<and> length h = (length bits + 3) div 4
   else BinStrToHexStr (''0b'' @ bits) = Inl InvalidArgument"
proof -
  obtain k where k: "pad_nibbles 3 bits = replicate k CHR ''0'' @ bits" "(k + length bits) mod 4 = 0" "k < 4"
    using pad_nibbles_zeros [of bits] by (elim exE conjE) (rule that)
  have eq: "BinStrToHexStr (''0b'' @ bits) = hex_nibbles (replicate k CHR ''0'' @ bits) ''0x''"
    by (simp add: BinStrToHexStr_def k(1))
  have zeros: "base_val 2 0 (replicate k CHR ''0'') = 0" for k by (induction k) (simp_all add: base_val_def hex_val_bit)
  show ?thesis
  proof (cases "binary bits")
    case True
    then have "binary (replicate k CHR ''0'' @ bits)" by (auto simp: binary_def list_all_iff set_replicate_conv_if)
    then obtain h where h: "hex_nibbles (replicate k CHR ''0'' @ bits) ''0x'' = Inr (''0x'' @ h)"
        "base_val 16 0 h = base_val 2 0 (replicate k CHR ''0'' @ bits)" "length h = (k + length bits) div 4"
      using hex_nibbles_value [of "replicate k CHR ''0'' @ bits" "''0x''" 0] k(2) by auto
    have "base_val 16 0 h = base_val 2 0 bits" unfolding h(2) base_val_append zeros ..
    moreover have "(k + length bits) div 4 = (length bits + 3) div 4" using k(2,3) by presburger
    ultimately show ?thesis using h(1,3) True by (simp only: eq if_True) blast
  next
    case False
    then have "\<not> binary (replicate k CHR ''0'' @ bits)" by (simp add: binary_def)
    from hex_nibbles_throws [OF this, of "''0x''"] k(2) False show ?thesis by (simp only: eq if_False) simp
  qed
qed

end
