(* ===== verification/Dap_Plugin.thy ===== *)
theory Dap_Plugin
  imports Dap_Helpers Dap_BreakpointTable
begin

text \<open>
  The plugin itself: \<open>plugin.cpp\<close>, built for Linux. Its state holds the states of its parts: the
  breakpoints (with the client and the debugger state flags, which they share), the call stack and
  the watches. The record \<open>plugin_env\<close> holds what Code::Blocks, the configuration, the file system
  and the dialogs answer; what the plugin tells them is appended to \<open>pg_calls\<close>. A project is a
  number, zero is the null pointer. Logging and the repainting of dialogs are left out.
  \<open>plugin_error\<close> lists what is undefined in C++.
\<close>

section \<open>State\<close>

datatype plugin_error =
    Bp_error bp_error | Watch_error watch_error
  | Bad_frame   \<comment> \<open>an access outside the call stack\<close>
  | Null_pointer
  | No_command   \<comment> \<open>the first element of an empty vector\<close>
  | Not_set   \<comment> \<open>a variable that has no value yet is used\<close>

datatype memory_call = Mem_Error string | Mem_Byte string string

datatype plugin_call =
    Kill int   \<comment> \<open>\<open>wxKill(m_dapPid, wxSIGKILL, NULL, wxKILL_CHILDREN)\<close>\<close>
  | MessageBox string
  | Execute string string "string \<Rightarrow> string option"   \<comment> \<open>command, working directory and environment\<close>
  | SetPortNumber string
  | SetWorkingDirectory string
  | DebuggingLayout | PreviousLayout | MarkStopped | ClearActiveMark | DebuggerFinished | ShowDisassembly
  | SyncEditor string int | SetDebugLine int
  | SkipEvent
  | AppendTerminal string
  | ShowMemory memory_call
  | AddSourceLine int string | AddAssemblerLine int string
  | Tooltip string string string   \<comment> \<open>symbol, value and type of the watch shown\<close>
  | UpdateDialogs bool

datatype target_type = ttCommandsOnly | ttConsoleOnly | ttOther

record build_target =
  bt_title :: string
  bt_type :: target_type
  bt_CompilerID :: string
  bt_ExecutionParameters :: string

record 't Plugin =
  pg_bps :: "plugin_callback Breakpoints"
  pg_stack :: CallStack
  pg_watches :: "'t Watches"
  pg_pProject :: nat
  pg_exit_code :: "int option"   \<comment> \<open>the constructor does not set it\<close>
  pg_timer :: bool
  m_dapPid :: int
  m_pid_attached :: int
  m_steppingIntoInstruction :: bool
  m_appShutDown :: bool
  m_DAP_DebuggeeStartCMD :: "string list"
  m_DapDebuggerPortArgFormat :: string
  m_debuggeeEnv :: "string \<Rightarrow> string option"
  m_pTerminalMgr :: bool   \<comment> \<open>whether the pointer is not null\<close>
  pg_supports :: "string \<Rightarrow> bool"   \<comment> \<open>the members named after capabilities\<close>
  vCompletionTriggerCharacters :: "string list"
  vAdditionalModuleColumns :: "ColumnDescriptor list"
  pg_files :: "string \<Rightarrow> xml option"   \<comment> \<open>the state files by name\<close>
  pg_calls :: "plugin_call list"

record 't plugin_env =
  pe_cb :: cb_env
  pe_watch :: "'t watch_env"
  pe_call :: call_env
  pe_EvalExpression :: bool
  pe_RunDAPServer :: bool
  pe_DAP_Executable :: string
  pe_DAP_PortNumber :: string
  pe_PythonHome :: string
  pe_FindPortYes :: bool   \<comment> \<open>the user lets the plugin look for a port\<close>
  pe_sockets :: "string list"   \<comment> \<open>the output of the command that lists the sockets\<close>
  pe_help :: "int \<times> string list"   \<comment> \<open>exit code and output of the adapter with \<open>--help\<close>\<close>
  pe_FileExists :: "string \<Rightarrow> bool"
  pe_DirExists :: "string \<Rightarrow> bool"
  pe_FullPath :: "string \<Rightarrow> string"   \<comment> \<open>\<open>GetFullPath\<close> after \<open>Normalize\<close>\<close>
  pe_GetPath :: "string \<Rightarrow> string"
  pe_env :: "string \<Rightarrow> string option"   \<comment> \<open>the environment of Code::Blocks\<close>
  pe_LIBRARY_ENVVAR :: string
  pe_Execute :: int   \<comment> \<open>the process id that \<open>wxExecute\<close> returns\<close>
  pe_Connect :: bool
  pe_ActiveTarget :: "nat \<Rightarrow> build_target option"   \<comment> \<open>if the active build target is valid\<close>
  pe_SelectTarget :: "nat \<Rightarrow> build_target option"   \<comment> \<open>what the user selects\<close>
  pe_GetCompiler :: "string \<Rightarrow> nat option"
  pe_DefaultCompiler :: "nat option"
  pe_LinkerSearchDirs :: "nat \<Rightarrow> nat \<Rightarrow> build_target \<Rightarrow> string"   \<comment> \<open>joined by colons\<close>
  pe_GetDebuggee :: "build_target option \<Rightarrow> string option"
  pe_ReplaceMacros :: "string \<Rightarrow> string"
  pe_Split :: "string \<Rightarrow> string list"   \<comment> \<open>\<open>wxSplit(s, ' ')\<close>\<close>
  pe_BasePath :: "nat \<Rightarrow> string"
  pe_StateFile :: "nat \<Rightarrow> string"   \<comment> \<open>the project's file name with the extension \<open>bps\<close>; empty without a name\<close>
  pe_title :: "nat \<Rightarrow> string"
  pe_CompilerName :: "nat \<Rightarrow> string"
  pe_DBGconfig :: "nat \<Rightarrow> string"
  pe_ActiveProject :: nat
  pe_BuildUpToDate :: "StartType \<Rightarrow> bool"   \<comment> \<open>\<open>EnsureBuildUpToDate\<close>\<close>
  pe_ThreadsDialog :: bool
  pe_DisassemblyDialog :: bool
  pe_MixedMode :: bool
  pe_EditorLine :: "string \<Rightarrow> int \<Rightarrow> string option"   \<comment> \<open>a line of an open editor\<close>
  pe_MemoryBase :: string
  pe_MemoryBytes :: "64 word"
  pe_Lines :: "string \<Rightarrow> string list"   \<comment> \<open>\<open>GetArrayFromString(s, '\n')\<close>\<close>
  pe_MemoryLine :: "string \<Rightarrow> (string \<times> string) option"   \<comment> \<open>the groups of \<open>reExamineMemoryLine\<close>\<close>
  pe_ToULong16 :: "string \<Rightarrow> nat option"
  pe_RunNixConsole :: int
  pe_pid :: int   \<comment> \<open>what an \<open>AttachRequest\<close> has in \<open>pid\<close> before it is set\<close>

section \<open>The parts\<close>

definition call :: "plugin_call \<Rightarrow> 't Plugin \<Rightarrow> 't Plugin" where
  "call c P = P\<lparr> pg_calls := pg_calls P @ [c] \<rparr>"

definition dbg :: "'t Plugin \<Rightarrow> 32 word" where
  "dbg P = DAPDebuggerState (pg_bps P)"

definition the_client :: "'t Plugin \<Rightarrow> plugin_callback Client" where
  "the_client P = m_pDAPClient (pg_bps P)"

definition on_state :: "dbg_op \<Rightarrow> 't Plugin \<Rightarrow> 't Plugin" where
  "on_state op P = P\<lparr> pg_bps := (pg_bps P)\<lparr> DAPDebuggerState := dbg_step op (DAPDebuggerState (pg_bps P)) \<rparr> \<rparr>"

definition on_client :: "(plugin_callback Client \<Rightarrow> plugin_callback Client) \<Rightarrow> 't Plugin \<Rightarrow> 't Plugin" where
  "on_client f P = P\<lparr> pg_bps := with_client f (pg_bps P) \<rparr>"

definition on_bps ::
  "(plugin_callback Breakpoints \<Rightarrow> bp_error + plugin_callback Breakpoints) \<Rightarrow> 't Plugin \<Rightarrow> plugin_error + 't Plugin" where
  "on_bps f P = (case f (pg_bps P) of Inl e \<Rightarrow> Inl (Bp_error e) | Inr S \<Rightarrow> Inr (P\<lparr> pg_bps := S \<rparr>))"

definition on_watches ::
  "('t Watches \<times> plugin_callback Client \<Rightarrow> watch_error + 't Watches \<times> plugin_callback Client)
     \<Rightarrow> 't Plugin \<Rightarrow> plugin_error + 't Plugin" where
  "on_watches f P =
     (case f (pg_watches P, the_client P) of
        Inl e \<Rightarrow> Inl (Watch_error e)
      | Inr (S, cl) \<Rightarrow> Inr (on_client (\<lambda>_. cl) (P\<lparr> pg_watches := S \<rparr>)))"

definition on_stack :: "(CallStack \<Rightarrow> CallStack option) \<Rightarrow> 't Plugin \<Rightarrow> plugin_error + 't Plugin" where
  "on_stack f P = (case f (pg_stack P) of None \<Rightarrow> Inl Bad_frame | Some C \<Rightarrow> Inr (P\<lparr> pg_stack := C \<rparr>))"

definition for_frame :: "(cbStackFrame \<Rightarrow> 't Plugin \<Rightarrow> plugin_error + 't Plugin) \<Rightarrow> 't Plugin \<Rightarrow> plugin_error + 't Plugin" where
  \<comment> \<open>the lines that fetch the active frame and leave when there is none\<close>
  "for_frame f P =
     (let activeStackFrame = GetActiveStackFrame (pg_stack P)
      in if activeStackFrame < 0 then Inr P
         else case GetStackFrame activeStackFrame (pg_stack P) of
           None \<Rightarrow> Inl Bad_frame
         | Some s \<Rightarrow> f s P)"

section \<open>Evaluating and updating\<close>

definition memory_expression :: "string \<Rightarrow> int \<Rightarrow> string" where
  "memory_expression tokenStr count =
     (let exprsn = ''x/'' @ show_int count @ ''xb '' @ tokenStr;
          exprsn = (if starts_with ''$$'' tokenStr then ''p/x '' @ drop 1 tokenStr else exprsn)
      in if starts_with ''?'' tokenStr \<and> length tokenStr > 1 then drop 1 tokenStr else exprsn)"

definition GetMemoryWithCallback ::
  "'d fp \<Rightarrow> CallStack \<Rightarrow> string \<Rightarrow> int \<Rightarrow> plugin_callback Client \<Rightarrow> watch_error + plugin_callback Client" where
  "GetMemoryWithCallback F C tokenStr count cl =
     bind_err (active_stack_id C) (\<lambda>i. case i of
         None \<Rightarrow> Inr cl
       | Some stackID \<Rightarrow>
           (if tokenStr = [] then Inr cl
            else let exprsn = memory_expression tokenStr count
                 in Inr (EvaluateExpression F exprsn stackID REPL (Cb_Memory exprsn) NATIVE cl)))"

definition RequestUpdate ::
  "'d fp \<Rightarrow> 't plugin_env \<Rightarrow> 32 word \<Rightarrow> CallStack \<Rightarrow> plugin_callback Client updater" where
  "RequestUpdate F E w C window cl =
     (if \<not> IsRunning w \<or> \<not> IsStopped w then Inr cl
      else case window of
        W_Backtrace \<Rightarrow> Inr (GetFrames F wxNOT_FOUND 0 0 cl)
      | W_Threads \<Rightarrow> Inr (GetThreads F cl)
      | W_CPURegisters \<Rightarrow>
          (if \<not> we_CPURegistersShown (pe_watch E) then Inr cl
           else bind_err (active_stack_id C) (\<lambda>i. case i of
               None \<Rightarrow> Inr cl
             | Some dapStackID \<Rightarrow> Inr (GetScopes F dapStackID cl)))
      | W_Disassembly \<Rightarrow>
          (if \<not> we_DisassemblyShown (pe_watch E) \<or> GetActiveStackFrame C < 0 then Inr cl
           else case GetStackFrame (GetActiveStackFrame C) C of
             None \<Rightarrow> Inl NoFrame
           | Some s \<Rightarrow>
               (case bf_address s of
                  None \<Rightarrow> Inl Uninitialised
                | Some addr \<Rightarrow> Inr (GetDisassemble F addr 0 0 16 True cl)))
      | W_ExamineMemory \<Rightarrow>
          (if \<not> we_MemoryShown (pe_watch E) \<or> pe_MemoryBase E = [] \<or> pe_MemoryBytes E = 0 then Inr cl
           else GetMemoryWithCallback F C (pe_MemoryBase E) (wrap32 (uint (pe_MemoryBytes E))) cl)
      | _ \<Rightarrow> Inr cl)"

definition updater_of :: "'d fp \<Rightarrow> 't plugin_env \<Rightarrow> 't Plugin \<Rightarrow> plugin_callback Client updater" where
  "updater_of F E P = RequestUpdate F E (dbg P) (pg_stack P)"

definition RequestUpdate_plugin :: "'d fp \<Rightarrow> 't plugin_env \<Rightarrow> DebugWindows \<Rightarrow> 't Plugin \<Rightarrow> plugin_error + 't Plugin" where
  "RequestUpdate_plugin F E window P =
     on_watches (\<lambda>(S, cl). map_sum id (Pair S) (updater_of F E P window cl)) P"

definition EvaluateExpressionWithCallback :: "'d fp \<Rightarrow> string \<Rightarrow> 't Plugin \<Rightarrow> plugin_error + 't Plugin" where
  "EvaluateExpressionWithCallback F token P =
     for_frame (\<lambda>s P. Inr (on_client (EvaluateExpression F token (bf_DAPStackId s) HOVER (Cb_Tooltip token) NATIVE) P)) P"

definition EvaluateExpressionCallback ::
  "bool \<Rightarrow> string \<Rightarrow> string \<Rightarrow> int \<Rightarrow> string \<Rightarrow> 't Plugin \<Rightarrow> 't Plugin" where
  "EvaluateExpressionCallback success result type variablesReference txt P =
     (if \<not> success then P
      else let output = txt @ '' = '' @ result @ '' ['' @ type @ '']. variablesReference: '' @ show_int variablesReference
           in call (Tooltip output result type) P)"

definition ShowValueTooltip :: "'t plugin_env \<Rightarrow> bool \<Rightarrow> 't Plugin \<Rightarrow> bool" where
  \<comment> \<open>the second argument: the style of the text under the mouse is one of the seven that are listed\<close>
  "ShowValueTooltip E style_ok P \<longleftrightarrow>
     pe_EvalExpression E \<and> style_ok \<and> m_dapPid P > 0 \<and> IsStopped (dbg P) \<and> IsRunning (dbg P) \<and> dbg_IsConnected (dbg P)"

definition memory_line :: "'t plugin_env \<Rightarrow> string \<Rightarrow> plugin_error + memory_call list" where
  \<comment> \<open>the body of the loop of \<open>GetMemoryCallback\<close>; \<open>variablesReference: \<close> is cut off with what follows\<close>
  "memory_line E line =
     (if starts_with ''error: '' (map tolower line) then Inr [Mem_Error line]
      else case ParseExamineMemoryLine (pe_MemoryLine E) (pe_ToULong16 E) line of
        None \<Rightarrow> Inl Not_set
      | Some (False, addr, values) \<Rightarrow> Inr [Mem_Error line]
      | Some (True, addr, values) \<Rightarrow>
          (if values = [] \<and> line \<noteq> []
           then Inr [Mem_Error (case find_sub ''variablesReference: '' line of Some posn \<Rightarrow> take posn line | None \<Rightarrow> line)]
           else Inr (map (\<lambda>v. Mem_Byte addr (let h = show_hex (unat v) in if length h < 2 then CHR ''0'' # h else h)) values)))"

fun memory_lines :: "'t plugin_env \<Rightarrow> string list \<Rightarrow> plugin_error + memory_call list" where
  "memory_lines E [] = Inr []"
| "memory_lines E (l # ls) = bind_err (memory_line E l) (\<lambda>cs. bind_err (memory_lines E ls) (\<lambda>ds. Inr (cs @ ds)))"

definition GetMemoryCallback ::
  "'t plugin_env \<Rightarrow> bool \<Rightarrow> string \<Rightarrow> string \<Rightarrow> string \<Rightarrow> 't Plugin \<Rightarrow> plugin_error + 't Plugin" where
  "GetMemoryCallback E success result type txt P =
     (let output = (if \<not> success then ''ERROR: failed to evaluate expression'' @ [CHR 0x0A] else []);
          output = output @ txt @ '' = '' @ result;
          output = (if type \<noteq> [] then output @ '' ['' @ type @ '']'' else output)
      in if \<not> we_MemoryShown (pe_watch E) \<or> pe_MemoryBase E = [] \<or> pe_MemoryBytes E = 0 then Inr P
         else bind_err (memory_lines E (pe_Lines E output)) (\<lambda>cs. Inr (fold (\<lambda>c. call (ShowMemory c)) cs P)))"

definition SendCommand :: "'d fp \<Rightarrow> string \<Rightarrow> 't Plugin \<Rightarrow> plugin_error + 't Plugin" where
  \<comment> \<open>with \<open>SendCommandWithCallback\<close>, which always gets \<open>true\<close>; the test of the empty text comes first\<close>
  "SendCommand F cmd P =
     (if \<not> IsRunning (dbg P) \<or> \<not> IsStopped (dbg P) \<or> cmd = [] then Inr P
      else for_frame (\<lambda>s P. Inr (on_client (EvaluateExpression F cmd (bf_DAPStackId s) REPL (Cb_Command cmd True) NATIVE) P)) P)"

definition GetCurrentPosition :: "'t Plugin \<Rightarrow> plugin_error + string \<times> int" where
  \<comment> \<open>\<open>atoi\<close> of a line that the call stack wrote as a number\<close>
  "GetCurrentPosition P =
     (if \<not> IsRunning (dbg P) \<or> \<not> IsStopped (dbg P) then Inr ([], wxNOT_FOUND)
      else let activeStackFrame = GetActiveStackFrame (pg_stack P)
           in if activeStackFrame < 0 then Inr ([], wxNOT_FOUND)
              else case GetStackFrame activeStackFrame (pg_stack P) of
                None \<Rightarrow> Inl Bad_frame
              | Some s \<Rightarrow> Inr (bf_file s, if bf_line s \<noteq> [] then atol (bf_line s) else wxNOT_FOUND))"

definition plugin_callback_result ::
  "'d fp \<Rightarrow> 't plugin_env \<Rightarrow> plugin_callback \<Rightarrow> bool \<Rightarrow> string \<Rightarrow> string \<Rightarrow> int \<Rightarrow> 't Plugin \<Rightarrow> plugin_error + 't Plugin" where
  \<comment> \<open>the functions given to \<open>EvaluateExpression\<close>; \<open>SendCommandCallback\<close> writes to the logs only\<close>
  "plugin_callback_result F E cb success result type variablesReference P =
     (case cb of
        Cb_Watch token r \<Rightarrow> on_watches (EvaluateWatchCallback (pe_watch E) (updater_of F E P) success result type r) P
      | Cb_Tooltip token \<Rightarrow> Inr (EvaluateExpressionCallback success result type variablesReference token P)
      | Cb_Memory exprsn \<Rightarrow> GetMemoryCallback E success result type exprsn P
      | Cb_Command exprsn debugLog \<Rightarrow> Inr P)"

section \<open>The state file\<close>

definition SaveStateToFile_plugin :: "'t plugin_env \<Rightarrow> nat \<Rightarrow> 't Plugin \<Rightarrow> plugin_error + bool \<times> 't Plugin" where
  \<comment> \<open>writing succeeds; all three documents go to the same file. The breakpoints are written with the
    address format of a 64 bit platform\<close>
  "SaveStateToFile_plugin E pProject P =
     (let fname = pe_StateFile E pProject;
          c = pe_CompilerName E pProject; d = pe_DBGconfig E pProject;
          doc = Elem ''Debugger_layout_file'' []
            [AddChildNode ''DBGconfig'' d (AddChildNode ''CompilerName'' c (Elem ''CompilerInfo'' [] []))];
          write = (\<lambda>d P. P\<lparr> pg_files := (pg_files P)(fname \<mapsto> d) \<rparr>)
      in if pProject = 0 then Inl Null_pointer
         else if fname = [] then Inr (False, P)
         else let P = write (SaveStateToFile True (pe_title E pProject) c d pProject (pg_bps P)) P;
                  P = write (SaveStateToFile_watches (pe_title E pProject) c d pProject (pg_watches P)) P
              in Inr (True, write doc P))"

definition load_watches_file :: "'d fp \<Rightarrow> 't plugin_env \<Rightarrow> nat \<Rightarrow> 't Plugin \<Rightarrow> plugin_error + 't Plugin" where
  \<comment> \<open>the start of \<open>DBG_DAP_Watches::LoadStateFromFile\<close>, up to the root element\<close>
  "load_watches_file F E pProject P =
     (if pProject = 0 \<or> pe_StateFile E pProject = [] then Inr P
      else case pg_files P (pe_StateFile E pProject) of
        None \<Rightarrow> Inr P
      | Some root \<Rightarrow>
          (if xml_name root \<noteq> ''Debugger_layout_file'' then Inr P
           else on_watches (LoadStateFromFile_watches F (pe_watch E) (dbg P) root pProject) P))"

definition LoadStateFromFile_plugin :: "'d fp \<Rightarrow> 't plugin_env \<Rightarrow> nat \<Rightarrow> 't Plugin \<Rightarrow> plugin_error + bool \<times> 't Plugin" where
  "LoadStateFromFile_plugin F E pProject P =
     (let fname = pe_StateFile E pProject
      in if pProject = 0 then Inl Null_pointer
         else if fname = [] then Inr (False, P)
         else case pg_files P fname of
           None \<Rightarrow> Inr (False, P)
         | Some root \<Rightarrow>
             (if xml_name root \<noteq> ''Debugger_layout_file'' then Inr (False, P)
              else bind_err (on_bps (bp_apply F (pe_cb E) (B_Load root pProject)) P) (\<lambda>P.
                     bind_err (load_watches_file F E pProject P) (\<lambda>P. Inr (True, P)))))"

section \<open>Resetting\<close>

definition kill_adapter :: "'t Plugin \<Rightarrow> 't Plugin" where
  "kill_adapter P = (if m_dapPid P \<noteq> 0 then (call (Kill (m_dapPid P)) P)\<lparr> m_dapPid := 0 \<rparr> else P)"

definition DAPDebuggerResetData_plugin :: "'t plugin_env \<Rightarrow> ResetDataType \<Rightarrow> 't Plugin \<Rightarrow> 't Plugin" where
  "DAPDebuggerResetData_plugin E bClearAllData P =
     (let P = on_state (Remove Connected) P;
          P = P\<lparr> pg_timer := False \<rparr>;
          P = P\<lparr> pg_stack := CallStack_ResetData (pg_stack P) \<rparr>;
          P = P\<lparr> pg_bps := DAPDebuggerResetData bClearAllData (pg_bps P) \<rparr>;
          P = on_client Client_Reset P;
          P = kill_adapter P;
          P = call DebuggerFinished (call MarkStopped (call ClearActiveMark P));
          P = (if \<not> m_appShutDown P then call PreviousLayout P else P)
      in if pe_ThreadsDialog E then P\<lparr> pg_stack := ClearThreads (pg_stack P) \<rparr> else P)"

definition OnReleaseReal :: "'t plugin_env \<Rightarrow> bool \<Rightarrow> 't Plugin \<Rightarrow> 't Plugin" where
  "OnReleaseReal E appShutDown P =
     (let P = (if appShutDown then P\<lparr> m_appShutDown := True \<rparr> else P);
          P = DAPDebuggerResetData_plugin E ResetData_All P;
          P = P\<lparr> pg_bps := DAPDebuggerResetData ResetData_All (pg_bps P) \<rparr>
      in P\<lparr> m_pTerminalMgr := False \<rparr>)"

definition Plugin_delete :: "'t Plugin \<Rightarrow> 't Plugin" where
  "Plugin_delete P = kill_adapter P"

definition Plugin_new :: "'t watch_sdk \<Rightarrow> bool \<Rightarrow> 't Plugin" where
  \<comment> \<open>the second argument is what \<open>m_appShutDown\<close> holds; \<open>OnAttachReal\<close> sets it\<close>
  "Plugin_new K uninit =
     on_client (SetWantsLogEvents True) (on_state (Remove Connected)
       \<lparr> pg_bps = Breakpoints_new Client_new, pg_stack = CallStack_new, pg_watches = Watches_new K, pg_pProject = 0,
         pg_exit_code = None, pg_timer = False, m_dapPid = 0, m_pid_attached = 0,
         m_steppingIntoInstruction = False, m_appShutDown = uninit, m_DAP_DebuggeeStartCMD = [],
         m_DapDebuggerPortArgFormat = [], m_debuggeeEnv = (\<lambda>_. None), m_pTerminalMgr = False,
         pg_supports = (\<lambda>_. False), vCompletionTriggerCharacters = [], vAdditionalModuleColumns = [],
         pg_files = (\<lambda>_. None), pg_calls = [] \<rparr>)"

definition OnAttachReal :: "'t Plugin \<Rightarrow> 't Plugin" where
  \<comment> \<open>the registration of the two event sinks is \<open>plugin_apply\<close>\<close>
  "OnAttachReal P = P\<lparr> m_appShutDown := False \<rparr>"

section \<open>Projects\<close>

definition OnProjectOpened :: "'d fp \<Rightarrow> 't plugin_env \<Rightarrow> nat \<Rightarrow> 't Plugin \<Rightarrow> plugin_error + 't Plugin" where
  "OnProjectOpened F E project P =
     bind_err
       (if ce_PersistDebugElements (pe_cb E) then map_sum id snd (LoadStateFromFile_plugin F E project P) else Inr P)
       (\<lambda>P. Inr (on_state (Add Stopped) P))"

definition CleanupWhenProjectClosed_plugin :: "'t plugin_env \<Rightarrow> nat \<Rightarrow> 't Plugin \<Rightarrow> plugin_error + 't Plugin" where
  \<comment> \<open>the parts save their documents once more, to the same file\<close>
  "CleanupWhenProjectClosed_plugin E project P =
     (let persist = ce_PersistDebugElements (pe_cb E); fname = pe_StateFile E project;
          c = pe_CompilerName E project; d = pe_DBGconfig E project;
          write = (\<lambda>d P. if persist \<and> fname \<noteq> [] then P\<lparr> pg_files := (pg_files P)(fname \<mapsto> d) \<rparr> else P)
      in bind_err (if persist then map_sum id snd (SaveStateToFile_plugin E project P) else Inr P) (\<lambda>P.
           let P = write (SaveStateToFile True (pe_title E project) c d project (pg_bps P)) P;
               P = P\<lparr> pg_bps := CleanupWhenProjectClosed (pg_bps P) \<rparr>;
               P = P\<lparr> pg_stack := CallStack_ResetData (pg_stack P) \<rparr>;
               P = write (SaveStateToFile_watches (pe_title E project) c d project (pg_watches P)) P;
               P = P\<lparr> pg_watches := CleanupWhenProjectClosed_watches (pe_watch E) project (pg_watches P) \<rparr>;
               P = (if project = 0 then call (UpdateDialogs True) P else P)
           in Inr (P\<lparr> m_pTerminalMgr := False \<rparr>)))"

section \<open>Starting\<close>

definition SelectCompiler ::
  "'t plugin_env \<Rightarrow> nat \<Rightarrow> int \<Rightarrow> plugin_error + bool \<times> nat option \<times> build_target option" where
  \<comment> \<open>the result with \<open>compiler\<close> and \<open>target\<close>\<close>
  "SelectCompiler E project pid_to_attach =
     (if pid_to_attach = 0
      then if project = 0 then Inl Null_pointer
           else let target = (case pe_ActiveTarget E project of Some t \<Rightarrow> Some t | None \<Rightarrow> pe_SelectTarget E project)
                in case target of
                  None \<Rightarrow> Inr (False, None, None)
                | Some t \<Rightarrow>
                    (if bt_type t = ttCommandsOnly then Inr (False, None, Some t)
                     else Inr (True, pe_GetCompiler E (bt_CompilerID t), Some t))
      else Inr (True, pe_DefaultCompiler E, None))"

definition GetLibraryPath :: "'t plugin_env \<Rightarrow> string \<Rightarrow> nat option \<Rightarrow> build_target option \<Rightarrow> nat \<Rightarrow> string" where
  "GetLibraryPath E oldLibPath compiler target project =
     (case (compiler, target) of
        (Some c, Some t) \<Rightarrow>
          (let newLibPath = ''.:'' @ pe_LinkerSearchDirs E c project t;
               newLibPath = (if last newLibPath \<noteq> CHR '':'' then newLibPath @ '':'' else newLibPath)
           in newLibPath @ oldLibPath)
      | _ \<Rightarrow> oldLibPath)"

fun replace_port :: "string \<Rightarrow> string \<Rightarrow> string" where   \<comment> \<open>\<open>Replace("<port>", port)\<close>\<close>
  "replace_port port [] = []"
| "replace_port port (c # s) =
     (if starts_with ''<port>'' (c # s) then port @ replace_port port (drop 5 s) else c # replace_port port s)"

definition adapter_env :: "'t plugin_env \<Rightarrow> nat option \<Rightarrow> build_target option \<Rightarrow> nat \<Rightarrow> string \<Rightarrow> string option" where
  \<comment> \<open>\<open>execEnv.env\<close>\<close>
  "adapter_env E compiler target project =
     (let oldLibPath = (case pe_env E (pe_LIBRARY_ENVVAR E) of Some v \<Rightarrow> v | None \<Rightarrow> []);
          newLibPath = GetLibraryPath E oldLibPath compiler target project;
          env = (pe_env E)(pe_LIBRARY_ENVVAR E \<mapsto> newLibPath);
          home = pe_PythonHome E
      in if home = [] then env
         else let env = env(''PYTHONHOME'' \<mapsto> home);
                  pythonBin = (if pe_DirExists E (home @ ''/bin'') then home @ ''/bin'' else home);
                  old = (case env (pe_LIBRARY_ENVVAR E) of Some v \<Rightarrow> v | None \<Rightarrow> [])
              in env(pe_LIBRARY_ENVVAR E \<mapsto> old @ '':'' @ pythonBin))"

definition LaunchDAPDebugger :: "'t plugin_env \<Rightarrow> nat \<Rightarrow> string \<Rightarrow> string \<Rightarrow> 't Plugin \<Rightarrow> plugin_error + 't Plugin" where
  "LaunchDAPDebugger E project dap_debugger dap_port_number P =
     bind_err (SelectCompiler E project (m_pid_attached P)) (\<lambda>(_, compiler, target).
       case FindPortArgFormat (pe_help E) of
         (False, fmt) \<Rightarrow> Inr (P\<lparr> m_DapDebuggerPortArgFormat := fmt \<rparr>)
       | (True, fmt) \<Rightarrow>
           (let P = P\<lparr> m_DapDebuggerPortArgFormat := replace_port dap_port_number fmt \<rparr>;
                dapStartCmd = dap_debugger @ '' '' @ m_DapDebuggerPortArgFormat P;
                wdir = pe_GetPath E dap_debugger;
                wdir = (if wdir = [] then if pg_pProject P \<noteq> 0 then pe_BasePath E (pg_pProject P) else ''.'' else wdir);
                P = P\<lparr> m_debuggeeEnv := pe_env E \<rparr>;
                P = call (Execute dapStartCmd wdir (adapter_env E compiler target project)) P
            in Inr (P\<lparr> m_dapPid := pe_Execute E \<rparr>)))"

definition init_args :: InitializeRequestArguments where
  "init_args = InitializeRequestArguments_new\<lparr> ia_linesStartAt1 := True, ia_clientID := ''CB_DAP_Plugin'',
     ia_clientName := ''CB_DAP_Plugin'', ia_supportsRunInTerminalRequest := True \<rparr>"

definition debuggee_command :: "'t plugin_env \<Rightarrow> string \<Rightarrow> string \<Rightarrow> string list" where
  "debuggee_command E debuggee debugeeArgs =
     debuggee # (if debugeeArgs \<noteq> [] then pe_Split E (pe_ReplaceMacros E debugeeArgs) else [])"

definition connect_failed :: "string \<Rightarrow> string" where   \<comment> \<open>the message for a port\<close>
  "connect_failed port =
     ''Failed to connect to DAP server.'' @ [CHR 0x0A] @ '' using tcp://127.0.0.1:'' @ port
     @ [CHR 0x0A] @ ''Assure PYTHONHOME environment variable set correctly''
     @ [CHR 0x0A] @ ''in Settings/Debugger configuration''
     @ [CHR 0x0A] @ ''Assure that the DAP debugger has a --port or --connect parameter.''"

definition LaunchDebugger ::
  "'d fp \<Rightarrow> 't plugin_env \<Rightarrow> nat \<Rightarrow> string \<Rightarrow> string \<Rightarrow> string \<Rightarrow> 't Plugin \<Rightarrow> plugin_error + int \<times> 't Plugin" where
  \<comment> \<open>the parameters \<open>working_dir\<close>, \<open>pid\<close>, \<open>bConsole\<close> and \<open>start_type\<close> are not used\<close>
  "LaunchDebugger F E project dap_debugger debuggee dap_port_number P =
     (let P = DAPDebuggerResetData_plugin E ResetData_Startup P
      in if dap_debugger = [] then Inr (1, P)
         else if dap_port_number = [] then Inr (2, P)
         else bind_err (if pe_RunDAPServer E then LaunchDAPDebugger E project dap_debugger dap_port_number P else Inr P) (\<lambda>P.
           if \<not> pe_Connect E then Inr (1, call (MessageBox (connect_failed dap_port_number)) (kill_adapter P))
           else
             let P = on_state (Add Connected) P;
                 P = on_client (SetTransport True) P
             in bind_err (SelectCompiler E project (m_pid_attached P)) (\<lambda>(_, compiler, target).
                  bind_err
                    (if m_pid_attached P \<noteq> 0 then Inr []
                     else case target of None \<Rightarrow> Inl Null_pointer | Some t \<Rightarrow> Inr (bt_ExecutionParameters t)) (\<lambda>debugeeArgs.
                    let P = P\<lparr> m_DAP_DebuggeeStartCMD := debuggee_command E debuggee debugeeArgs \<rparr>;
                        P = on_client (Client_Initialize F (Some init_args)) P
                    in Inr (0, P\<lparr> pg_timer := True \<rparr>)))))"

definition choose_port :: "'t plugin_env \<Rightarrow> 't Plugin \<Rightarrow> int \<times> string \<times> 't Plugin" where
  \<comment> \<open>the port number, or the code that \<open>StartDebugger\<close> returns\<close>
  "choose_port E P =
     (if pe_DAP_PortNumber E \<noteq> [] then (0, pe_DAP_PortNumber E, P)
      else if pe_FindPortYes E
      then let intResult = Find_available_port (pe_sockets E) 49152 49999
           in if intResult > 0 then (0, show_int intResult, call (SetPortNumber (show_int intResult)) P) else (6, [], P)
      else (7, [], P))"

definition StartDebugger :: "'d fp \<Rightarrow> 't plugin_env \<Rightarrow> nat \<Rightarrow> 't Plugin \<Rightarrow> plugin_error + int \<times> 't Plugin" where
  "StartDebugger F E project P =
     bind_err (SelectCompiler E project (m_pid_attached P)) (\<lambda>(_, compiler, target).
       let attached = (m_pid_attached P \<noteq> 0)
       in if compiler = None then Inr (2, P)
          else if target = None \<and> \<not> attached then Inr (3, P)
          else if \<not> pe_FileExists E (pe_DAP_Executable E) then Inr (4, P)
          else case choose_port E P of (rc, port, P) \<Rightarrow>
            if rc \<noteq> 0 then Inr (rc, P)
            else case (if attached then Some [] else pe_GetDebuggee E target) of
              None \<Rightarrow> Inr (6, P)
            | Some debuggee \<Rightarrow>
                (let debuggee = pe_FullPath E debuggee; dap_debugger = pe_FullPath E (pe_DAP_Executable E);
                     bConsole = (case target of Some t \<Rightarrow> \<not> attached \<and> bt_type t = ttConsoleOnly | None \<Rightarrow> False)
                 in bind_err (LaunchDebugger F E project dap_debugger debuggee port P) (\<lambda>(res, P).
                      if res \<noteq> 0 then Inr (res, P)
                      else
                        let P = P\<lparr> m_pTerminalMgr := (bConsole \<and> \<not> m_pTerminalMgr P) \<rparr>;
                            P = P\<lparr> pg_bps := SetDebuggee debuggee (pg_bps P) \<rparr>;
                            P = P\<lparr> pg_pProject := project \<rparr>;
                            P = P\<lparr> pg_bps := SetProject project (pg_bps P) \<rparr>;
                            P = P\<lparr> pg_watches := SetProject_watches project (pg_watches P) \<rparr>
                        in bind_err (load_watches_file F E project P) (\<lambda>P. Inr (0, P)))))"

definition CompilerFinished_plugin :: "'d fp \<Rightarrow> 't plugin_env \<Rightarrow> bool \<Rightarrow> StartType \<Rightarrow> 't Plugin \<Rightarrow> plugin_error + bool \<times> 't Plugin" where
  "CompilerFinished_plugin F E compilerFailed startType P =
     (let P = P\<lparr> pg_bps := CompilerFinished compilerFailed startType (pg_bps P) \<rparr>
      in if \<not> compilerFailed \<and> startType \<noteq> StartTypeUnknown \<and> pe_ActiveProject E \<noteq> 0
         then map_sum id (\<lambda>(res, P). (res = 0, P)) (StartDebugger F E (pe_ActiveProject E) P)
         else Inr (False, P))"

definition Debug :: "'t plugin_env \<Rightarrow> bool \<Rightarrow> 't Plugin \<Rightarrow> bool \<times> 't Plugin" where
  "Debug E breakOnEntry P =
     (let start_type = (if breakOnEntry then StartTypeStepInto else StartTypeOther)
      in (\<not> pe_BuildUpToDate E start_type, P\<lparr> pg_bps := (pg_bps P)\<lparr> m_start_type := start_type \<rparr> \<rparr>))"

section \<open>Controlling the program\<close>

definition RunToCursor_plugin :: "'d fp \<Rightarrow> 't plugin_env \<Rightarrow> string \<Rightarrow> int \<Rightarrow> 't Plugin \<Rightarrow> plugin_error + bool \<times> 't Plugin" where
  "RunToCursor_plugin F E filename line P =
     bind_err (on_bps (bp_apply F (pe_cb E) (B_RunToCursor filename line)) P) (\<lambda>P.
       Inr (if IsRunning (dbg P) then (False, P) else Debug E False P))"

definition SetNextStatement :: "'d fp \<Rightarrow> 't plugin_env \<Rightarrow> string \<Rightarrow> int \<Rightarrow> 't Plugin \<Rightarrow> 't Plugin" where
  "SetNextStatement F E filename line P =
     (if \<not> ends_with ''codelldb.exe'' (map tolower (pe_DAP_Executable E)) then P
      else if IsStopped (dbg P) then on_client (GotoTarget F (pe_FullPath E) filename line 1) P else P)"

datatype control = Do_Continue | Do_Next | Do_NextInstruction | Do_StepIntoInstruction | Do_Step | Do_StepOut | Do_Break

primrec control_apply :: "'d fp \<Rightarrow> control \<Rightarrow> 't Plugin \<Rightarrow> 't Plugin" where
  \<comment> \<open>with the default arguments of the client's functions\<close>
  "control_apply F Do_Continue P = on_client (Continue F wxNOT_FOUND True) P"
| "control_apply F Do_Next P = on_client (Next F wxNOT_FOUND True LINE) P"
| "control_apply F Do_NextInstruction P = P"
| "control_apply F Do_StepIntoInstruction P =
     on_client (StepIn F wxNOT_FOUND True INSTRUCTION) (P\<lparr> m_steppingIntoInstruction := True \<rparr>)"
| "control_apply F Do_Step P = on_client (StepIn F wxNOT_FOUND True LINE) P"
| "control_apply F Do_StepOut P = on_client (StepOut F wxNOT_FOUND True) P"
| "control_apply F Do_Break P = on_client (Pause F wxNOT_FOUND) P"

definition Stop :: "'d fp \<Rightarrow> 't plugin_env \<Rightarrow> 't Plugin \<Rightarrow> 't Plugin" where
  "Stop F E P =
     (if \<not> IsRunning (dbg P) then P
      else let P = on_client (Disconnect F True False) P;
               P = DAPDebuggerResetData_plugin E ResetData_Normal P
           in call (UpdateDialogs False) P)"

definition AttachToProcess :: "'d fp \<Rightarrow> 't plugin_env \<Rightarrow> string \<Rightarrow> 't Plugin \<Rightarrow> plugin_error + 't Plugin" where
  \<comment> \<open>the code that \<open>StartDebugger\<close> returns is not looked at\<close>
  "AttachToProcess F E pid P =
     (let P = P\<lparr> pg_pProject := 0 \<rparr>
      in case wx_ToLong (ce_num (pe_cb E)) pid of
           None \<Rightarrow> Inr P
         | Some number \<Rightarrow>
             (let P = P\<lparr> m_pid_attached := number \<rparr>
              in bind_err (StartDebugger F E (pg_pProject P) P) (\<lambda>(_, P).
                   Inr (on_client (Attach F (pe_pid E) (wrap32 number) [show_int number]) P))))"

definition DetachFromProcess :: "'d fp \<Rightarrow> 't Plugin \<Rightarrow> 't Plugin" where
  "DetachFromProcess F P =
     (if m_pid_attached P = 0 \<or> \<not> IsRunning (dbg P) then P
      else (on_client (Disconnect F False False) P)\<lparr> m_pid_attached := 0 \<rparr>)"

section \<open>What the plugin passes on\<close>

datatype bp_call =
    Bc_Add string int | Bc_UpdateOrAdd string int bool int | Bc_Delete nat | Bc_DeleteAll | Bc_AddData "data_answer option"
  | Bc_Update "edit_answer option" "data_answer option" nat | Bc_Shift string int int | Bc_Enable nat bool

primrec bp_op_of :: "bp_call \<Rightarrow> 'cb bp_op" where
  "bp_op_of (Bc_Add f l) = B_Add f l"
| "bp_op_of (Bc_UpdateOrAdd f l e i) = B_UpdateOrAdd f l e i"
| "bp_op_of (Bc_Delete r) = B_Delete r"
| "bp_op_of Bc_DeleteAll = B_DeleteAll"
| "bp_op_of (Bc_AddData a) = B_AddData a"
| "bp_op_of (Bc_Update e d r) = B_Update e d r"
| "bp_op_of (Bc_Shift f s n) = B_Shift f s n"
| "bp_op_of (Bc_Enable r e) = B_Enable r e"

datatype watch_call =
    Wc_UpdateDAPWatches DebugWindows | Wc_AddWatch string bool | Wc_Delete nat | Wc_Show "watch_answer option" nat
  | Wc_Expand nat | Wc_Update nat | Wc_Do

definition update_watch :: "'d fp \<Rightarrow> nat \<Rightarrow> 't Plugin \<Rightarrow> plugin_error + 't Plugin" where
  "update_watch F r P = on_watches (UpdateWatch F (dbg P) (pg_stack P) r) P"

primrec watch_call_apply :: "'d fp \<Rightarrow> 't plugin_env \<Rightarrow> watch_call \<Rightarrow> 't Plugin \<Rightarrow> plugin_error + 't Plugin" where
  "watch_call_apply F E (Wc_UpdateDAPWatches u) P = on_watches (UpdateDAPWatches (pe_watch E) (updater_of F E P) u) P"
| "watch_call_apply F E (Wc_AddWatch symbol update) P =
     (let (r, S) = AddWatch_symbol (pe_watch E) symbol (pg_watches P); P = P\<lparr> pg_watches := S \<rparr>
      in if update then update_watch F r P else Inr P)"
| "watch_call_apply F E (Wc_Delete r) P = Inr (P\<lparr> pg_watches := DeleteWatch (pe_watch E) r (pg_watches P) \<rparr>)"
| "watch_call_apply F E (Wc_Show a r) P =
     Inr (P\<lparr> pg_watches := ShowWatchProperties (pe_watch E) (dbg P) a r (pg_watches P) \<rparr>)"
| "watch_call_apply F E (Wc_Expand r) P = on_watches (\<lambda>x. Inr (ExpandWatch F (pe_watch E) (dbg P) r x)) P"
| "watch_call_apply F E (Wc_Update r) P = update_watch F r P"
| "watch_call_apply F E Wc_Do P = Inr (P\<lparr> pg_watches := DoWatches (pe_watch E) (dbg P) (pg_watches P) \<rparr>)"

definition SwitchToFrame_plugin :: "'t plugin_env \<Rightarrow> int \<Rightarrow> 't Plugin \<Rightarrow> plugin_error + 't Plugin" where
  "SwitchToFrame_plugin E number P = on_stack (SwitchToFrame (ke_num (pe_call E)) (dbg P) number) P"

definition SwitchToThread_plugin :: "'d fp \<Rightarrow> int \<Rightarrow> 't Plugin \<Rightarrow> bool \<times> 't Plugin" where
  "SwitchToThread_plugin F thread_number P =
     (let (b, C, cl) = SwitchToThread F (dbg P) thread_number (pg_stack P, the_client P)
      in (b, on_client (\<lambda>_. cl) (P\<lparr> pg_stack := C \<rparr>)))"

section \<open>Events of the client\<close>

definition response_of :: "DAPEvent \<Rightarrow> DapResponse option" where   \<comment> \<open>\<open>event.GetDapResponse()\<close>\<close>
  "response_of e = (case de_object e of Some (MResponse r) \<Rightarrow> Some r | _ \<Rightarrow> None)"

definition OnAttachToProcessResponse :: "DAPEvent \<Rightarrow> 't Plugin \<Rightarrow> 't Plugin" where
  "OnAttachToProcessResponse e P =
     (case response_of e of
        Some (Rs_Attach resp) \<Rightarrow>
          (if rs_success resp
           then let P = on_state (Add Running) P;
                    P = on_state (Add Stopped) P;
                    P = P\<lparr> m_dapPid := m_pid_attached P \<rparr>
                in call DebuggingLayout P
           else (call (MessageBox (''Failed to attach: '' @ rs_message resp)) P)\<lparr> m_pid_attached := 0 \<rparr>)
      | _ \<Rightarrow> P)"

definition failed :: "'t plugin_env \<Rightarrow> string \<Rightarrow> DAPEvent \<Rightarrow> bool \<Rightarrow> 't Plugin \<Rightarrow> 't Plugin" where
  \<comment> \<open>what \<open>OnLaunchResponse\<close> and \<open>OnConfigurationDoneResponse\<close> do with a response\<close>
  "failed E txt e success P =
     (if success then P
      else let errorMsg = de_string e; errorMsg = (if errorMsg = [] then ''undefined'' else errorMsg)
           in DAPDebuggerResetData_plugin E ResetData_Normal (call (MessageBox (txt @ errorMsg)) P))"

definition OnLaunchResponse :: "'t plugin_env \<Rightarrow> DAPEvent \<Rightarrow> 't Plugin \<Rightarrow> 't Plugin" where
  "OnLaunchResponse E e P =
     (case response_of e of
        Some (Rs_Launch resp) \<Rightarrow> failed E ''Failed to launch debuggee: '' e (rs_success resp) P
      | _ \<Rightarrow> P)"

definition OnConfigurationDoneResponse :: "'t plugin_env \<Rightarrow> DAPEvent \<Rightarrow> 't Plugin \<Rightarrow> 't Plugin" where
  "OnConfigurationDoneResponse E e P =
     (case response_of e of
        Some (Rs_ConfigurationDone resp) \<Rightarrow> failed E ''Failed to launch debugger: '' e (rs_success resp) P
      | _ \<Rightarrow> P)"

definition OnInitializedEvent_plugin :: "'d fp \<Rightarrow> 't plugin_env \<Rightarrow> 't Plugin \<Rightarrow> plugin_error + 't Plugin" where
  \<comment> \<open>the event carries no response\<close>
  "OnInitializedEvent_plugin F E P =
     bind_err (on_bps (bp_apply F (pe_cb E) B_Initialized) P) (\<lambda>P.
       let P = P\<lparr> pg_watches := OnInitializedEvent_watches (pe_watch E) None (pg_watches P) \<rparr>
       in Inr (on_client (ConfigurationDone F) P))"

definition capability_update :: "Capabilities \<Rightarrow> (string \<Rightarrow> bool) \<Rightarrow> string \<Rightarrow> bool" where
  \<comment> \<open>the uses of \<open>SHOW_RESPONSE_DATA\<close>; they name the members of \<open>capability_names\<close>\<close>
  "capability_update c = fold (\<lambda>n fl. case cp_flags c n of Some b \<Rightarrow> fl(n := b) | None \<Rightarrow> fl) capability_names"

definition launch_debuggee :: "'d fp \<Rightarrow> 't plugin_env \<Rightarrow> 't Plugin \<Rightarrow> plugin_error + 't Plugin" where
  \<comment> \<open>the last block of \<open>OnInitializeResponse\<close>; \<open>Launch\<close> takes the first word out of the vector\<close>
  "launch_debuggee F E P =
     (case m_DAP_DebuggeeStartCMD P of
        [] \<Rightarrow> Inl No_command
      | program # args \<Rightarrow>
          (let exeBasePath = (if pg_pProject P \<noteq> 0 then pe_BasePath E (pg_pProject P) else []);
               exeBasePath = (if pe_FileExists E (exeBasePath @ ''/'' @ ce_GetFullName (pe_cb E) program) then exeBasePath
                              else pe_GetPath E program);
               P = call (SetWorkingDirectory exeBasePath) P;
               env = Environment_new\<lparr> env_vars := (case m_debuggeeEnv P ''PATH'' of Some v \<Rightarrow> [(''PATH'', v)] | None \<Rightarrow> []) \<rparr>
           in case Launch F (m_DAP_DebuggeeStartCMD P) (ce_UnixFilename (pe_cb E) False exeBasePath) env (the_client P) of
                None \<Rightarrow> Inl No_command
              | Some cl \<Rightarrow>
                  (let P = on_client (\<lambda>_. cl) P;
                       P = P\<lparr> m_DAP_DebuggeeStartCMD := args \<rparr>
                   in Inr (on_state (Add Running) P))))"

definition OnInitializeResponse_plugin :: "'d fp \<Rightarrow> 't plugin_env \<Rightarrow> DAPEvent \<Rightarrow> 't Plugin \<Rightarrow> plugin_error + 't Plugin" where
  "OnInitializeResponse_plugin F E e P =
     (let resp = (case response_of e of Some (Rs_Initialize x) \<Rightarrow> Some x | _ \<Rightarrow> None)
      in bind_err (on_bps (bp_apply F (pe_cb E) (B_InitializeResponse resp)) P) (\<lambda>P.
           case resp of
             None \<Rightarrow> Inr P
           | Some x \<Rightarrow>
               (if \<not> rs_success x then Inr P
                else
                  let c = ip_capabilities x;
                      P = P\<lparr> pg_supports := capability_update c (pg_supports P) \<rparr>;
                      P = (case cp_completionTriggerCharacters c of
                             Some v \<Rightarrow> P\<lparr> vCompletionTriggerCharacters := v \<rparr> | None \<Rightarrow> P);
                      P = (case cp_additionalModuleColumns c of Some v \<Rightarrow> P\<lparr> vAdditionalModuleColumns := v \<rparr> | None \<Rightarrow> P)
                  in if m_pid_attached P = 0 then launch_debuggee F E P else Inr P)))"

definition OnStopped :: "'d fp \<Rightarrow> 't plugin_env \<Rightarrow> DAPEvent \<Rightarrow> 't Plugin \<Rightarrow> plugin_error + 't Plugin" where
  "OnStopped F E e P =
     (let P = on_state (Add Stopped) P;
          P = (if m_steppingIntoInstruction P
               then let P = P\<lparr> m_steppingIntoInstruction := False \<rparr>
                    in if pe_DisassemblyDialog E \<and> \<not> we_DisassemblyShown (pe_watch E) then call ShowDisassembly P else P
               else P);
          P = P\<lparr> pg_stack := CallStack_ResetData (pg_stack P) \<rparr>
      in bind_err
           (case de_object e of
              Some (MEvent (Ev_Stopped stopped_data)) \<Rightarrow>
                (if se_reason stopped_data \<in> {''breakpoint'', ''step'', ''goto''}
                 then let description = (if se_description stopped_data = [] then se_text stopped_data
                                         else se_description stopped_data)
                      in on_bps (bp_apply F (pe_cb E) (B_Process description)) P
                 else Inr (on_client (GetThreads F) (on_client (GetFrames F wxNOT_FOUND 0 0) P)))
            | _ \<Rightarrow> Inr P)
           (\<lambda>P. Inr (call MarkStopped P)))"

definition OnScopes_plugin :: "'d fp \<Rightarrow> 't plugin_env \<Rightarrow> DAPEvent \<Rightarrow> 't Plugin \<Rightarrow> plugin_error + 't Plugin" where
  "OnScopes_plugin F E e P =
     on_watches (\<lambda>x. Inr (OnScopes F (pe_watch E) (case response_of e of Some (Rs_Scopes r) \<Rightarrow> Some r | _ \<Rightarrow> None) x)) P"

definition OnVariables_plugin :: "'d fp \<Rightarrow> 't plugin_env \<Rightarrow> DAPEvent \<Rightarrow> 't Plugin \<Rightarrow> plugin_error + 't Plugin" where
  "OnVariables_plugin F E e P =
     on_watches (OnVariables F (pe_watch E) (updater_of F E P)
       (case response_of e of Some (Rs_Variables r) \<Rightarrow> Some r | _ \<Rightarrow> None)) P"

definition OnStackTrace_plugin :: "'d fp \<Rightarrow> 't plugin_env \<Rightarrow> DAPEvent \<Rightarrow> 't Plugin \<Rightarrow> plugin_error + 't Plugin" where
  "OnStackTrace_plugin F E e P =
     (let resp = (case response_of e of Some (Rs_StackTrace x) \<Rightarrow> Some x | _ \<Rightarrow> None)
      in bind_err (on_stack (OnStackTrace (pe_call E) (dbg P) resp) P) (\<lambda>P.
           case resp of
             None \<Rightarrow> Inr P
           | Some x \<Rightarrow>
               (case find (\<lambda>s. src_path (sf_source s) \<noteq> [] \<and> pe_FileExists E (src_path (sf_source s))) (ks_stackFrames x) of
                  None \<Rightarrow> Inr P
                | Some s \<Rightarrow> Inr (on_client (GetScopes F (sf_id s)) (call (SyncEditor (src_path (sf_source s)) (sf_line s)) P)))))"

definition OnExited :: "DAPEvent \<Rightarrow> 't Plugin \<Rightarrow> plugin_error + 't Plugin" where
  "OnExited e P =
     (case de_object e of
        Some (MEvent (Ev_Exited x)) \<Rightarrow> Inr (on_state (Remove Connected) P)
      | _ \<Rightarrow> Inl Null_pointer)"

definition OnTerminated :: "'t plugin_env \<Rightarrow> 't Plugin \<Rightarrow> 't Plugin" where
  "OnTerminated E P = DAPDebuggerResetData_plugin E ResetData_Normal P"

definition OnOutput :: "DAPEvent \<Rightarrow> 't Plugin \<Rightarrow> 't Plugin" where
  "OnOutput e P =
     (case de_object e of
        Some (MEvent (Ev_Output x)) \<Rightarrow> if m_pTerminalMgr P then call (AppendTerminal (oe_output x)) P else P
      | _ \<Rightarrow> P)"

definition OnConnectionError_plugin :: "'t plugin_env \<Rightarrow> 't Plugin \<Rightarrow> 't Plugin" where
  "OnConnectionError_plugin E P =
     (if \<not> IsRunning (dbg P) then P
      else let P = call SkipEvent (call (MessageBox ''Lost connection to dap server'') P)
           in DAPDebuggerResetData_plugin E ResetData_Normal P)"

definition OnBreakpointDataSet_plugin :: "'d fp \<Rightarrow> 't plugin_env \<Rightarrow> DAPEvent \<Rightarrow> 't Plugin \<Rightarrow> plugin_error + 't Plugin" where
  "OnBreakpointDataSet_plugin F E e P =
     on_bps (bp_apply F (pe_cb E)
       (B_DataSet (case response_of e of Some (Rs_SetBreakpoints x) \<Rightarrow> Some x | _ \<Rightarrow> None))) P"

definition OnRunInTerminalRequest :: "'d fp \<Rightarrow> 't plugin_env \<Rightarrow> DAPEvent \<Rightarrow> 't Plugin \<Rightarrow> 't Plugin" where
  \<comment> \<open>\<open>MakeRequest\<close> of a response takes the next number\<close>
  "OnRunInTerminalRequest F E e P =
     (case de_object e of
        Some (MRequest (Rq_RunInTerminal request)) \<Rightarrow>
          (let (n, cl) = GetNextSequence (the_client P);
               response = RunInTerminalResponse_new\<lparr> pm_seq := wrap32 (uint n), rs_request_seq := pm_seq request,
                 rs_success := (pe_RunNixConsole E \<noteq> 0), rt_processId := pe_RunNixConsole E \<rparr>
           in on_client (\<lambda>_. snd (SendResponse F (Rs_RunInTerminal response) cl)) P)
      | _ \<Rightarrow> P)"

definition OnThreadsResponse_plugin :: "DAPEvent \<Rightarrow> 't Plugin \<Rightarrow> 't Plugin" where
  "OnThreadsResponse_plugin e P =
     (let C = SetCurrentThreadID (m_active_thread_id (the_client P)) (pg_stack P)
      in P\<lparr> pg_stack := OnThreadsResponse (case response_of e of Some (Rs_Threads x) \<Rightarrow> Some x | _ \<Rightarrow> None) C \<rparr>)"

definition chomp :: "string \<Rightarrow> string" where
  "chomp s =
     (let s = (if s \<noteq> [] \<and> last s = CHR 0x0A then butlast s else s)
      in if s \<noteq> [] \<and> last s = CHR 0x0D then butlast s else s)"

fun disassembly :: "'t plugin_env \<Rightarrow> DisassembleInfo list \<Rightarrow> 't Plugin \<Rightarrow> plugin_error + 't Plugin" where
  \<comment> \<open>the loop of \<open>OnDisassembleResponse\<close>\<close>
  "disassembly E [] P = Inr P"
| "disassembly E (disasm # ds) P =
     (let P = (if pe_MixedMode E \<and> di_line disasm > 0
               then let lineno = di_line disasm - 1
                    in case pe_EditorLine E (di_path disasm) lineno of
                      Some srcString \<Rightarrow> call (AddSourceLine lineno (chomp srcString)) P
                    | None \<Rightarrow> P
               else P)
      in case HexStrToBinary (ke_ToLongLong16 (pe_call E)) (di_address disasm) of
           None \<Rightarrow> Inl Not_set
         | Some addr \<Rightarrow> disassembly E ds (call (AddAssemblerLine addr (di_instruction disasm)) P))"

definition OnDisassembleResponse :: "'t plugin_env \<Rightarrow> DAPEvent \<Rightarrow> 't Plugin \<Rightarrow> plugin_error + 't Plugin" where
  "OnDisassembleResponse E e P =
     (case response_of e of
        Some (Rs_Disassemble x) \<Rightarrow>
          (if rs_success x then for_frame (\<lambda>_. disassembly E (ds_disassembleInfo x)) P else Inr P)
      | _ \<Rightarrow> Inl Null_pointer)"

definition OnGotoTargetsResponse :: "'d fp \<Rightarrow> DAPEvent \<Rightarrow> 't Plugin \<Rightarrow> plugin_error + 't Plugin" where
  "OnGotoTargetsResponse F e P =
     (case response_of e of
        Some (Rs_GotoTargets x) \<Rightarrow>
          (if rs_success x
           then for_frame (\<lambda>_ P.
               case find (\<lambda>t. gi_line t > 0) (tz_gotoTargetsInfo x) of
                 None \<Rightarrow> Inr P
               | Some t \<Rightarrow>
                   (let threadId = m_active_thread_id (the_client P)
                    in Inr (if threadId > wxNOT_FOUND then on_client (Goto F threadId (gi_id t)) P else P))) P
           else Inr P)
      | _ \<Rightarrow> Inl Null_pointer)"

definition OnContinuedEvent :: "'t Plugin \<Rightarrow> 't Plugin" where
  "OnContinuedEvent P = (if IsStopped (dbg P) \<and> IsRunning (dbg P) then call ClearActiveMark P else P)"

definition OnEditorOpened :: "'t plugin_env \<Rightarrow> string \<Rightarrow> 't Plugin \<Rightarrow> plugin_error + 't Plugin" where
  \<comment> \<open>for a builtin editor; the argument is its file\<close>
  "OnEditorOpened E filename P =
     bind_err
       (if IsRunning (dbg P)
        then bind_err (GetCurrentPosition P) (\<lambda>(f, line).
               Inr (if pe_FullPath E f = pe_FullPath E filename \<and> line \<noteq> - 1 then call (SetDebugLine (line - 1)) P else P))
        else Inr P)
       (\<lambda>P. Inr (call SkipEvent P))"

definition plugin_event :: "'d fp \<Rightarrow> 't plugin_env \<Rightarrow> DAPEvent \<Rightarrow> 't Plugin \<Rightarrow> plugin_error + 't Plugin" where
  \<comment> \<open>the handlers the constructor binds. Those that only log are in the last line: the events of the
    log, of modules, processes, breakpoints and breakpoint locations, and the responses to
    \<open>setFunctionBreakpoints\<close> and \<open>readMemory\<close>\<close>
  "plugin_event F E e P =
     (case de_type e of
        wxEVT_DAP_STOPPED_EVENT \<Rightarrow> OnStopped F E e P
      | wxEVT_DAP_INITIALIZED_EVENT \<Rightarrow> OnInitializedEvent_plugin F E P
      | wxEVT_DAP_INITIALIZE_RESPONSE \<Rightarrow> OnInitializeResponse_plugin F E e P
      | wxEVT_DAP_EXITED_EVENT \<Rightarrow> OnExited e P
      | wxEVT_DAP_TERMINATED_EVENT \<Rightarrow> Inr (OnTerminated E P)
      | wxEVT_DAP_STACKTRACE_RESPONSE \<Rightarrow> OnStackTrace_plugin F E e P
      | wxEVT_DAP_SCOPES_RESPONSE \<Rightarrow> OnScopes_plugin F E e P
      | wxEVT_DAP_VARIABLES_RESPONSE \<Rightarrow> OnVariables_plugin F E e P
      | wxEVT_DAP_OUTPUT_EVENT \<Rightarrow> Inr (OnOutput e P)
      | wxEVT_DAP_LOST_CONNECTION \<Rightarrow> Inr (OnConnectionError_plugin E P)
      | wxEVT_DAP_SET_SOURCE_BREAKPOINT_RESPONSE \<Rightarrow> OnBreakpointDataSet_plugin F E e P
      | wxEVT_DAP_LAUNCH_RESPONSE \<Rightarrow> Inr (OnLaunchResponse E e P)
      | wxEVT_DAP_RUN_IN_TERMINAL_REQUEST \<Rightarrow> Inr (OnRunInTerminalRequest F E e P)
      | wxEVT_DAP_CONFIGURARIONE_DONE_RESPONSE \<Rightarrow> Inr (OnConfigurationDoneResponse E e P)
      | wxEVT_DAP_THREADS_RESPONSE \<Rightarrow> Inr (OnThreadsResponse_plugin e P)
      | wxEVT_DAP_CONTINUED_EVENT \<Rightarrow> Inr (OnContinuedEvent P)
      | wxEVT_DAP_DISASSEMBLE_RESPONSE \<Rightarrow> OnDisassembleResponse E e P
      | wxEVT_DAP_GOTOTARGETS_RESPONSE \<Rightarrow> OnGotoTargetsResponse F e P
      | wxEVT_DAP_ATTACH_RESPONSE_EVENT \<Rightarrow> Inr (OnAttachToProcessResponse e P)
      | _ \<Rightarrow> Inr P)"

section \<open>Sessions\<close>

datatype plugin_op =
    P_Attach | P_Release bool | P_ProjectOpened nat | P_ProjectClosed nat | P_CompilerFinished bool StartType
  | P_Debug bool | P_RunToCursor string int | P_SetNextStatement string int | P_Control control | P_Stop
  | P_SetExitCode int | P_Breakpoint bp_call | P_Watch watch_call | P_SwitchToFrame int | P_SwitchToThread int
  | P_Tooltip string | P_RequestUpdate DebugWindows | P_SendCommand string | P_AttachToProcess string | P_Detach
  | P_EditorOpened string
  | P_Event DAPEvent | P_Result plugin_callback bool string string int
  | P_Client "plugin_callback Client \<Rightarrow> plugin_callback Client"   \<comment> \<open>the client reads and handles messages\<close>

primrec plugin_apply :: "'d fp \<Rightarrow> 't plugin_env \<Rightarrow> plugin_op \<Rightarrow> 't Plugin \<Rightarrow> plugin_error + 't Plugin" where
  "plugin_apply F E P_Attach P = Inr (OnAttachReal P)"
| "plugin_apply F E (P_Release b) P = Inr (OnReleaseReal E b P)"
| "plugin_apply F E (P_ProjectOpened p) P = OnProjectOpened F E p P"
| "plugin_apply F E (P_ProjectClosed p) P = CleanupWhenProjectClosed_plugin E p P"
| "plugin_apply F E (P_CompilerFinished b t) P = map_sum id snd (CompilerFinished_plugin F E b t P)"
| "plugin_apply F E (P_Debug b) P = Inr (snd (Debug E b P))"
| "plugin_apply F E (P_RunToCursor f l) P = map_sum id snd (RunToCursor_plugin F E f l P)"
| "plugin_apply F E (P_SetNextStatement f l) P = Inr (SetNextStatement F E f l P)"
| "plugin_apply F E (P_Control c) P = Inr (control_apply F c P)"
| "plugin_apply F E P_Stop P = Inr (Stop F E P)"
| "plugin_apply F E (P_SetExitCode n) P = Inr (P\<lparr> pg_exit_code := Some n \<rparr>)"
| "plugin_apply F E (P_Breakpoint b) P = on_bps (bp_apply F (pe_cb E) (bp_op_of b)) P"
| "plugin_apply F E (P_Watch c) P = watch_call_apply F E c P"
| "plugin_apply F E (P_SwitchToFrame n) P = SwitchToFrame_plugin E n P"
| "plugin_apply F E (P_SwitchToThread t) P = Inr (snd (SwitchToThread_plugin F t P))"
| "plugin_apply F E (P_Tooltip s) P = EvaluateExpressionWithCallback F s P"
| "plugin_apply F E (P_RequestUpdate u) P = RequestUpdate_plugin F E u P"
| "plugin_apply F E (P_SendCommand s) P = SendCommand F s P"
| "plugin_apply F E (P_AttachToProcess s) P = AttachToProcess F E s P"
| "plugin_apply F E P_Detach P = Inr (DetachFromProcess F P)"
| "plugin_apply F E (P_EditorOpened f) P = OnEditorOpened E f P"
| "plugin_apply F E (P_Event e) P = plugin_event F E e P"
| "plugin_apply F E (P_Result cb b r t v) P = plugin_callback_result F E cb b r t v P"
| "plugin_apply F E (P_Client f) P = Inr (on_client f P)"

inductive plugin_session :: "'d fp \<Rightarrow> cb_env \<Rightarrow> 't watch_sdk \<Rightarrow> 't Plugin \<Rightarrow> bool" for F C K where
  \<comment> \<open>the answers of the environment may change from call to call, but not those to the breakpoints
    (\<open>pe_cb\<close>) and the tree of the watches; lines are removed in no step\<close>
  plugin_starts: "plugin_session F C K (Plugin_new K u)"
| plugin_steps: "plugin_session F C K P \<Longrightarrow> pe_cb E = C \<Longrightarrow> we_sdk (pe_watch E) = K \<Longrightarrow>
    (\<And>f s n. op = P_Breakpoint (Bc_Shift f s n) \<Longrightarrow> 0 \<le> n) \<Longrightarrow>
    plugin_apply F E op P = Inr P' \<Longrightarrow> plugin_session F C K P'"

end
