(* ===== verification/Dap_WatchProps.thy ===== *)
theory Dap_WatchProps
  imports Dap_Watches
begin

text \<open>
  What the watches keep in every session: the tree is finite and ordered by the age of the objects,
  the watches of the list are its roots. So the recursion over the children ends, and the answers
  to \<open>variables\<close> requests fill the right watch.
\<close>

section \<open>A tree to compute with\<close>

fun root_std :: "(nat \<Rightarrow> nat option) \<Rightarrow> nat \<Rightarrow> nat \<Rightarrow> nat" where
  "root_std par 0 q = q"
| "root_std par (Suc n) q = (case par q of None \<Rightarrow> q | Some p \<Rightarrow> root_std par n p)"

definition watch_sdk_std :: "((nat \<Rightarrow> nat list) \<times> (nat \<Rightarrow> nat option)) watch_sdk" where
  "watch_sdk_std = \<lparr> wk_empty = (\<lambda>_. [], \<lambda>_. None),
     wk_AddChild = (\<lambda>p c (ch, par). (ch(p := ch p @ [c]), par(c := Some p))),
     wk_RemoveChildren = (\<lambda>p (ch, par). (ch(p := []), par)),
     wk_children = fst, wk_GetParent = snd, wk_GetRootWatch = (\<lambda>(ch, par) q. root_std par (Suc q) q) \<rparr>"

lemma watch_sdk_ok_std: "watch_sdk_ok watch_sdk_std"
  by (auto simp: watch_sdk_ok_def watch_sdk_std_def)

section \<open>Children\<close>

definition ch :: "'t watch_env \<Rightarrow> 't Watches \<Rightarrow> nat \<Rightarrow> nat list" where
  "ch E S p = wk_children (we_sdk E) (wt_tree S) p"

lemma ch_simps:
  assumes "watch_sdk_ok (we_sdk E)"
  shows "ch E (AddChild E p c S) q = (if q = p then ch E S p @ [c] else ch E S q)"
    "ch E (RemoveChildren E p S) q = (if q = p then [] else ch E S q)"
    "ch E (Watches_new (we_sdk E)) q = []"
  using assms by (simp_all add: ch_def AddChild_def RemoveChildren_def watch_sdk_ok_def Watches_new_def)

lemma ch_cong: "wt_tree S' = wt_tree S \<Longrightarrow> ch E S' = ch E S"
  by (rule ext) (simp add: ch_def)

lemma ch_keeps:
  "ch E (set_watch r f S) = ch E S" "ch E (gui c S) = ch E S" "ch E (snd (new_watch v S)) = ch E S"
  "ch E (S\<lparr> m_DAP_watches := rs \<rparr>) = ch E S" "ch E (S\<lparr> m_WatchLocalsandArgs := l \<rparr>) = ch E S"
  "ch E (S\<lparr> m_stackdapvariables := vs \<rparr>) = ch E S" "ch E (S\<lparr> wt_heap := h \<rparr>) = ch E S"
  "ch E (S\<lparr> wt_next := n \<rparr>) = ch E S" "ch E (S\<lparr> wt_pProject := p \<rparr>) = ch E S"
  "ch E (S\<lparr> m_RequestedGPRegs := b \<rparr>) = ch E S" "ch E (S\<lparr> m_RequestedFloats := b \<rparr>) = ch E S"
  by (auto intro!: ch_cong simp: set_watch_def gui_def new_watch_def)

lemma watch_fields:
  "m_DAP_watches (set_watch r f S) = m_DAP_watches S" "wt_next (set_watch r f S) = wt_next S"
  "m_DAP_watches (gui c S) = m_DAP_watches S" "wt_next (gui c S) = wt_next S"
  "m_DAP_watches (AddChild E p c' S) = m_DAP_watches S" "wt_next (AddChild E p c' S) = wt_next S"
  "m_DAP_watches (RemoveChildren E p S) = m_DAP_watches S" "wt_next (RemoveChildren E p S) = wt_next S"
  "watch (gui c S) = watch S" "watch (AddChild E p c' S) = watch S" "watch (RemoveChildren E p S) = watch S"
  "watch (set_watch r f S) = (watch S)(r := f (watch S r))"
  "watch (S\<lparr> m_DAP_watches := rs \<rparr>) = watch S"
  "wt_pProject (set_watch r f S) = wt_pProject S"
  by (auto simp: set_watch_def gui_def AddChild_def RemoveChildren_def watch_def fun_eq_iff)

lemma new_watch_fields:
  "new_watch v S = (r, S') \<Longrightarrow> r = wt_next S \<and> wt_next S' = Suc (wt_next S) \<and> m_DAP_watches S' = m_DAP_watches S
     \<and> watch S' = (watch S)(wt_next S := v) \<and> ch E S' = ch E S \<and> wt_pProject S' = wt_pProject S"
  by (auto simp: new_watch_def watch_def fun_eq_iff ch_def)

definition watches_inv :: "'t watch_env \<Rightarrow> 't Watches \<Rightarrow> bool" where
  "watches_inv E S \<longleftrightarrow>
     (\<forall>p c. c \<in> set (ch E S p) \<longrightarrow> p < c \<and> c < wt_next S \<and> c \<notin> set (m_DAP_watches S)) \<and>
     (\<forall>r \<in> set (m_DAP_watches S). r < wt_next S) \<and> distinct (m_DAP_watches S)"

lemma watches_invD:
  assumes "watches_inv E S"
  shows "c \<in> set (ch E S p) \<Longrightarrow> p < c" "c \<in> set (ch E S p) \<Longrightarrow> c < wt_next S"
    "c \<in> set (ch E S p) \<Longrightarrow> c \<notin> set (m_DAP_watches S)" "r \<in> set (m_DAP_watches S) \<Longrightarrow> r < wt_next S"
    "distinct (m_DAP_watches S)"
  using assms by (simp_all add: watches_inv_def)

lemma watches_inv_fresh: "watches_inv E S \<Longrightarrow> wt_next S \<le> p \<Longrightarrow> ch E S p = []"
  using watches_invD(1,2) [of E S "hd (ch E S p)" p] by (cases "ch E S p") auto

text \<open>What a change keeps that only makes objects, gives them to parents or empties lists of children.\<close>

lemma watches_inv_shrink:
  assumes "watches_inv E S" "wt_next S \<le> wt_next S'" "set (m_DAP_watches S') \<subseteq> set (m_DAP_watches S)"
    "distinct (m_DAP_watches S')" "\<And>p. set (ch E S' p) \<subseteq> set (ch E S p)"
  shows "watches_inv E S'"
proof -
  note inv = watches_invD [OF assms(1)]
  have "p < c \<and> c < wt_next S' \<and> c \<notin> set (m_DAP_watches S')" if "c \<in> set (ch E S' p)" for p c
    using inv(1-3) [of c p] assms(2,3) assms(5) [of p] that by auto
  moreover have "r < wt_next S'" if "r \<in> set (m_DAP_watches S')" for r
    using inv(4) [of r] assms(2,3) that by auto
  ultimately show ?thesis using assms(4) by (simp add: watches_inv_def)
qed

section \<open>Adding a child\<close>

lemma add_watch_child_facts:
  assumes "watch_sdk_ok (we_sdk E)" "S' = add_watch_child E p var S" "p < wt_next S"
  defines "n \<equiv> wt_next S"
  shows "m_DAP_watches S' = m_DAP_watches S"
    "wt_next S' = (if vr_variablesReference var > 0 then Suc (Suc n) else Suc n)"
    "q < n \<Longrightarrow> watch S' q = watch S q"
    "dw_symbol (watch S' n) = vr_name var \<and> dw_value (watch S' n) = vr_value var \<and> dw_type (watch S' n) = vr_type var
       \<and> dw_DAPVariableReference (watch S' n) = word_of_int (vr_variablesReference var)"
    "n \<le> q \<Longrightarrow> q < wt_next S' \<Longrightarrow> dw_DAPChildVariableRequestSequence (watch S' q) = 0"
    "ch E S' q = (if q = p then ch E S p @ [n]
       else if q = n \<and> vr_variablesReference var > 0 then ch E S n @ [Suc n] else ch E S q)"
proof -
  let ?big = "vr_variablesReference var > 0"
  obtain c S1 where 1: "new_watch (DAPWatch_new (wt_pProject S) (vr_name var) False True) S = (c, S1)" by fastforce
  note f1 = new_watch_fields [OF 1]
  define S2 where "S2 = set_watch c (\<lambda>w. w\<lparr> dw_value := vr_value var,
      dw_DAPVariableReference := word_of_int (vr_variablesReference var), dw_type := vr_type var \<rparr>) S1"
  define S3 where "S3 = set_watch c (\<lambda>w. w\<lparr> dw_has_been_expanded := False, dw_array_start := 0,
      dw_array_end := vr_variablesReference var \<rparr>) S2"
  obtain d S4 where 4: "new_watch (DAPWatch_new (wt_pProject S3) ''updating...'' False True) S3 = (d, S4)" by fastforce
  note f4 = new_watch_fields [OF 4]
  have S': "S' = AddChild E p c (if ?big then AddChild E c d S4 else S2)"
    unfolding assms(2) add_watch_child_def SetFromVariable_def 1 Let_def prod.case S2_def [symmetric] S3_def [symmetric] 4
    by simp
  note facts = watch_fields ch_keeps ch_simps [OF assms(1)] f1 f4 S2_def S3_def DAPWatch_new_def
  have c: "c = n" "d = Suc n" using f1 f4 by (simp_all add: n_def S3_def S2_def watch_fields)
  show "m_DAP_watches S' = m_DAP_watches S" by (simp add: S' facts)
  show "wt_next S' = (if ?big then Suc (Suc n) else Suc n)" by (simp add: S' facts n_def)
  then show "n \<le> q \<Longrightarrow> q < wt_next S' \<Longrightarrow> dw_DAPChildVariableRequestSequence (watch S' q) = 0"
    using c by (auto simp: S' facts n_def split: if_splits)
  show "q < n \<Longrightarrow> watch S' q = watch S q" using c by (simp add: S' facts n_def)
  show "dw_symbol (watch S' n) = vr_name var \<and> dw_value (watch S' n) = vr_value var \<and> dw_type (watch S' n) = vr_type var
       \<and> dw_DAPVariableReference (watch S' n) = word_of_int (vr_variablesReference var)"
    using c by (simp add: S' facts n_def)
  show "ch E S' q = (if q = p then ch E S p @ [n]
       else if q = n \<and> ?big then ch E S n @ [Suc n] else ch E S q)"
    using c assms(3) by (simp add: S' facts n_def)
qed

lemma watches_inv_add_child:
  assumes "watch_sdk_ok (we_sdk E)" "watches_inv E S" "p < wt_next S"
  shows "watches_inv E (add_watch_child E p var S)"
proof -
  let ?S = "add_watch_child E p var S"
  note f = add_watch_child_facts [OF assms(1) refl assms(3), where var = var]
  note inv = watches_invD [OF assms(2)] watches_inv_fresh [OF assms(2)]
  have "x < c \<and> c < wt_next ?S \<and> c \<notin> set (m_DAP_watches S)" if c: "c \<in> set (ch E ?S x)" for x c
  proof -
    from c consider "c \<in> set (ch E S x)" | "x = p" "c = wt_next S" | "x = wt_next S" "c = Suc (wt_next S)"
        "vr_variablesReference var > 0"
      using inv(6) by (auto simp: f(6) split: if_splits)
    then show ?thesis using inv(1,2,3,4) [of c] inv(1,2) [of c x] assms(3) by cases (auto simp: f(2))
  qed
  moreover have "r < wt_next ?S" if "r \<in> set (m_DAP_watches S)" for r
    using inv(4) [OF that] by (simp add: f(2))
  ultimately show ?thesis unfolding watches_inv_def f(1) using inv(5) by blast
qed

section \<open>The search for the watch of a request\<close>

abbreviation "seq_of S p \<equiv> dw_DAPChildVariableRequestSequence (watch S p)"

definition placed :: "'t watch_env \<Rightarrow> int \<Rightarrow> nat set \<Rightarrow> Variable \<Rightarrow> 't Watches \<Rightarrow> bool \<times> Variable \<times> 't Watches \<Rightarrow> bool" where
  \<comment> \<open>nothing was found and changed, or the variable became a child of an object with that number,
    one of \<open>ps\<close> or one that is not in the list\<close>
  "placed E requestSeq ps var S y \<longleftrightarrow>
     (let (found, var', S') = y
      in (var' = var \<or> var' = anonymous var) \<and>
         (if found then \<exists>p. (p \<in> ps \<or> p \<notin> set (m_DAP_watches S)) \<and> p < wt_next S \<and> seq_of S p = requestSeq
                \<and> var' = anonymous var \<and> S' = add_watch_child E p var' S
          else S' = S))"

lemma placed_any: "placed E requestSeq {} var S y \<Longrightarrow> placed E requestSeq ps var S y"
  by (cases y) (auto simp: placed_def)

lemma anonymous_idem [simp]: "anonymous (anonymous var) = anonymous var"
  by (simp add: anonymous_def)

lemma anonymous_reference [simp]: "vr_variablesReference (anonymous var) = vr_variablesReference var"
  by (simp add: anonymous_def)

lemma search_children:
  assumes step: "\<And>c var. c \<in> set cs \<Longrightarrow> c \<notin> set (m_DAP_watches S) \<and>
      (\<exists>y. AddWatchChildByRequestSequence n E requestSeq c (var, S) = Inr y \<and> placed E requestSeq {c} var S y)"
  shows "\<exists>y. watch_children n E requestSeq cs (var, S) = Inr y \<and> placed E requestSeq {} var S y"
  using assms
proof (induction cs arbitrary: var)
  case Nil
  then show ?case by (simp add: placed_def)
next
  case (Cons c cs)
  then obtain y where y: "AddWatchChildByRequestSequence n E requestSeq c (anonymous var, S) = Inr y"
      "placed E requestSeq {c} (anonymous var) S y" "c \<notin> set (m_DAP_watches S)"
    by (meson list.set_intros(1))
  obtain found v S' where fv: "y = (found, v, S')" by (cases y) auto
  show ?case
  proof (cases found)
    case True
    with y fv show ?thesis by (auto simp: placed_def)
  next
    case False
    with y fv have S': "S' = S" "v = anonymous var" by (auto simp: placed_def)
    obtain z where z: "watch_children n E requestSeq cs (v, S) = Inr z" "placed E requestSeq {} v S z"
      using Cons.IH [OF Cons.prems] by (meson list.set_intros(2))
    from z(2) have "placed E requestSeq {} var S z" unfolding S'(2) placed_def Let_def by (cases z) auto
    with z(1) y(1) fv False S'(1) show ?thesis by simp
  qed
qed

lemma search_ends:
  assumes "watch_sdk_ok (we_sdk E)" "watches_inv E S" "p < wt_next S" "wt_next S - p \<le> n"
  shows "\<exists>y. AddWatchChildByRequestSequence n E requestSeq p (var, S) = Inr y \<and> placed E requestSeq {p} var S y"
  using assms(3,4)
proof (induction n arbitrary: p var)
  case 0
  then show ?case by simp
next
  case (Suc n)
  show ?case
  proof (cases "seq_of S p = requestSeq")
    case True
    with Suc.prems show ?thesis by (auto simp: placed_def Let_def)
  next
    case False
    note inv = watches_invD [OF assms(2)]
    have "\<exists>y. watch_children n E requestSeq (ch E S p) (var, S) = Inr y \<and> placed E requestSeq {} var S y"
    proof (rule search_children)
      fix c v assume c: "c \<in> set (ch E S p)"
      have "wt_next S - c \<le> n" using inv(1,2) [OF c] Suc.prems by auto
      with c inv(2,3) [OF c] Suc.IH [of c v]
      show "c \<notin> set (m_DAP_watches S) \<and>
          (\<exists>y. AddWatchChildByRequestSequence n E requestSeq c (v, S) = Inr y \<and> placed E requestSeq {c} v S y)" by blast
    qed
    then obtain y where "watch_children n E requestSeq (ch E S p) (var, S) = Inr y" "placed E requestSeq {} var S y"
      by blast
    then show ?thesis using False placed_any [of E requestSeq var S y "{p}"] by (simp add: ch_def)
  qed
qed

section \<open>The answer to a variables request\<close>

definition shown :: "'t Watches \<Rightarrow> nat \<Rightarrow> string \<times> string \<times> string \<times> 64 word" where
  "shown S c = (dw_symbol (watch S c), dw_value (watch S c), dw_type (watch S c), dw_DAPVariableReference (watch S c))"

definition shown_var :: "Variable \<Rightarrow> string \<times> string \<times> string \<times> 64 word" where
  "shown_var v = (vr_name (anonymous v), vr_value v, vr_type v, word_of_int (vr_variablesReference v))"

definition same_or_anonymous :: "Variable \<Rightarrow> Variable \<Rightarrow> bool" where
  "same_or_anonymous v v' \<longleftrightarrow> v' = v \<or> v' = anonymous v"

lemma same_or_anonymous:
  assumes "same_or_anonymous v v'"
  shows "shown_var v' = shown_var v" "vr_variablesReference v' = vr_variablesReference v"
  using assms by (auto simp: same_or_anonymous_def shown_var_def) (simp_all add: anonymous_def)

lemma same_or_anonymous_list:
  "list_all2 same_or_anonymous vs vs' \<Longrightarrow>
    map shown_var (filter (\<lambda>v. vr_variablesReference v \<noteq> 0) vs') = map shown_var (filter (\<lambda>v. vr_variablesReference v \<noteq> 0) vs)"
  by (induction rule: list_all2_induct) (simp_all add: same_or_anonymous)

text \<open>What looking at the watches \<open>X\<close> of the list changes.\<close>

definition filled :: "'t watch_env \<Rightarrow> int \<Rightarrow> nat set \<Rightarrow> 't Watches \<Rightarrow> 't Watches \<Rightarrow> bool" where
  "filled E n X S S' \<longleftrightarrow>
     m_DAP_watches S' = m_DAP_watches S \<and> watches_inv E S' \<and> wt_next S \<le> wt_next S' \<and>
     (\<forall>x < wt_next S. x \<notin> X \<longrightarrow> watch S' x = watch S x) \<and>
     (\<forall>x \<in> X. dw_symbol (watch S' x) = dw_symbol (watch S x) \<and> (seq_of S' x = seq_of S x \<or> seq_of S' x = n)) \<and>
     (\<forall>x. wt_next S \<le> x \<and> x < wt_next S' \<longrightarrow> seq_of S' x = 0) \<and>
     (\<forall>r \<in> set (m_DAP_watches S). r \<notin> X \<longrightarrow> ch E S' r = ch E S r)"

lemma filled_refl: "watches_inv E S \<Longrightarrow> filled E n X S S"
  by (simp add: filled_def)

lemma filled_trans:
  assumes "filled E n X S S'" "filled E n Y S' S''" "X \<union> Y \<subseteq> Z" "Z \<subseteq> set (m_DAP_watches S)" "watches_inv E S"
  shows "filled E n Z S S''"
proof -
  note a = assms(1) [unfolded filled_def] and b = assms(2) [unfolded filled_def]
  have lt: "x < wt_next S" if "x \<in> Z" for x using that assms(4) watches_invD(4) [OF assms(5), of x] by blast
  have fields: "dw_symbol (watch S'' x) = dw_symbol (watch S x) \<and> (seq_of S'' x = seq_of S x \<or> seq_of S'' x = n)"
    if "x < wt_next S" for x
    using a b that by (metis order_less_le_trans)
  have new: "seq_of S'' x = 0" if x: "wt_next S \<le> x" "x < wt_next S''" for x
  proof (cases "x < wt_next S'")
    case True
    have "x \<notin> Y" using lt [of x] assms(3) x by auto
    then have "watch S'' x = watch S' x" using b True by blast
    then show ?thesis using a x True by simp
  next
    case False
    then show ?thesis using b x by simp
  qed
  have "watch S'' x = watch S x" if "x < wt_next S" "x \<notin> Z" for x
    using a b that assms(3) by (metis UnCI order_less_le_trans subsetD)
  moreover have "ch E S'' r = ch E S r" if "r \<in> set (m_DAP_watches S)" "r \<notin> Z" for r
    using a b that assms(3) by (metis UnCI subsetD)
  ultimately show ?thesis unfolding filled_def using a b fields new lt by (simp add: order_trans [of "wt_next S"])
qed

lemma filled_match:
  assumes "watches_inv E S"
  shows "filled E n {r} S (set_watch r (\<lambda>w. w\<lparr> dw_value := v, dw_type := t, dw_DAPVariableReference := i,
      dw_DAPChildVariableRequestSequence := n \<rparr>) S)"
  using assms by (auto simp: filled_def watch_fields ch_keeps watches_inv_def)

lemma filled_child:
  assumes "watch_sdk_ok (we_sdk E)" "watches_inv E S" "p < wt_next S" "p = r \<or> p \<notin> set (m_DAP_watches S)"
    "r \<in> set (m_DAP_watches S)"
  shows "filled E n {r} S (add_watch_child E p var S)"
proof -
  note f = add_watch_child_facts [OF assms(1) refl assms(3), where var = var]
  have "q \<noteq> wt_next S" if "q \<in> set (m_DAP_watches S)" for q using watches_invD(4) [OF assms(2) that] by simp
  then show ?thesis
    unfolding filled_def using watches_inv_add_child [OF assms(1-3)] f(3,5) assms(4,5) watches_invD(4) [OF assms(2,5)]
    by (auto simp: f(1,2,6))
qed

definition answered :: "'t watch_env \<Rightarrow> int \<Rightarrow> nat \<Rightarrow> Variable list \<Rightarrow> 't Watches \<Rightarrow> 't Watches \<Rightarrow> bool" where
  \<comment> \<open>the watch belongs to the request, and the variables that have children are its new children\<close>
  "answered E n r vars S S' \<longleftrightarrow> seq_of S' r = n \<and>
     (\<exists>cs. ch E S' r = ch E S r @ cs \<and> set cs \<subseteq> {wt_next S..<wt_next S'} \<and>
        map (shown S') cs = map shown_var (filter (\<lambda>v. vr_variablesReference v \<noteq> 0) vars))"

definition strangers :: "int \<Rightarrow> nat \<Rightarrow> 't Watches \<Rightarrow> bool" where
  "strangers n r S \<longleftrightarrow> (\<forall>p < wt_next S. p = r \<or> p \<notin> set (m_DAP_watches S) \<longrightarrow> seq_of S p \<noteq> n)"

lemma check_variable_ends:
  assumes ok: "watch_sdk_ok (we_sdk E)" and inv: "watches_inv E S" and r: "r \<in> set (m_DAP_watches S)"
  shows "\<exists>var' S'. check_variable E n r (var, S) = Inr (var', S') \<and> same_or_anonymous var var' \<and> filled E n {r} S S'
    \<and> (seq_of S r = n \<or> dw_symbol (watch S r) = vr_name var \<longrightarrow> answered E n r [var] S S')
    \<and> (strangers n r S \<and> dw_symbol (watch S r) \<noteq> vr_name var \<longrightarrow> S' = S)"
proof -
  let ?hit = "dw_symbol (watch S r) = vr_name var"
  define S1 where "S1 = (if ?hit
      then set_watch r (\<lambda>w. w\<lparr> dw_value := (if vr_value var = [] then [CHR 0x22, CHR 0x22] else vr_value var),
                      dw_type := vr_type var, dw_DAPVariableReference := word_of_int (vr_variablesReference var),
                      dw_DAPChildVariableRequestSequence := n \<rparr>) S
      else S)"
  have f1: "filled E n {r} S S1" using filled_match [OF inv] filled_refl [OF inv] by (simp add: S1_def)
  have S1: "wt_next S1 = wt_next S" "m_DAP_watches S1 = m_DAP_watches S" "ch E S1 = ch E S"
    "?hit \<or> seq_of S r = n \<Longrightarrow> seq_of S1 r = n" "\<not> ?hit \<Longrightarrow> S1 = S"
    by (auto simp: S1_def watch_fields ch_keeps)
  have inv1: "watches_inv E S1" using f1 by (simp add: filled_def)
  have lt: "r < wt_next S1" using watches_invD(4) [OF inv r] S1 by simp
  show ?thesis
  proof (cases "vr_variablesReference var = 0")
    case True
    then show ?thesis
      using f1 S1 by (auto simp: check_variable_def S1_def [symmetric] Let_def same_or_anonymous_def answered_def)
  next
    case False
    obtain y where y: "AddWatchChildByRequestSequence (wt_next S1) E n r (var, S1) = Inr y" "placed E n {r} var S1 y"
      using search_ends [OF ok inv1 lt] by (meson diff_le_self)
    obtain found v S' where fv: "y = (found, v, S')" by (cases y) auto
    have eq: "check_variable E n r (var, S) = Inr (v, S')"
      using False y(1) fv by (simp add: check_variable_def S1_def [symmetric] Let_def)
    have v: "same_or_anonymous var v" using y(2) fv by (simp add: placed_def same_or_anonymous_def)
    have "filled E n {r} S1 S'"
    proof (cases found)
      case True
      with y(2) fv obtain p where "p = r \<or> p \<notin> set (m_DAP_watches S1)" "p < wt_next S1" "S' = add_watch_child E p v S1"
        by (auto simp: placed_def)
      then show ?thesis using filled_child [OF ok inv1, where p = p and r = r and var = v] r S1 by simp
    next
      case False
      then show ?thesis using y(2) fv filled_refl [OF inv1] by (simp add: placed_def)
    qed
    then have filled: "filled E n {r} S S'" using filled_trans [OF f1, of "{r}" S' "{r}"] r inv by simp
    have "answered E n r [var] S S'" if "seq_of S r = n \<or> ?hit"
    proof -
      have seq: "seq_of S1 r = n" using that S1(4) by blast
      then have S': "S' = add_watch_child E r (anonymous var) S1"
        using y(1) fv lt by (cases "wt_next S1") (auto simp: Let_def)
      note f = add_watch_child_facts [OF ok S' lt]
      have "seq_of S' r = n" using f(3) lt seq by simp
      moreover have "ch E S' r = ch E S r @ [wt_next S]" using f(6) S1 by simp
      moreover have "shown S' (wt_next S) = shown_var var" using f(4) S1 by (simp add: shown_def shown_var_def) (simp add: anonymous_def)
      ultimately show ?thesis using f(2) S1 False by (auto simp: answered_def)
    qed
    moreover have "S' = S" if "strangers n r S \<and> \<not> ?hit"
      using that y(2) fv S1 by (cases found) (auto simp: placed_def strangers_def)
    ultimately show ?thesis using eq v filled by blast
  qed
qed

lemma answered_trans:
  assumes "answered E n r vs S S'" "answered E n r ws S' S''" "filled E n {r} S' S''" "watches_inv E S'" "wt_next S \<le> wt_next S'"
    "r < wt_next S"
  shows "answered E n r (vs @ ws) S S''"
proof -
  obtain cs where cs: "ch E S' r = ch E S r @ cs" "set cs \<subseteq> {wt_next S..<wt_next S'}"
      "map (shown S') cs = map shown_var (filter (\<lambda>v. vr_variablesReference v \<noteq> 0) vs)"
    using assms(1) by (auto simp: answered_def)
  obtain ds where ds: "ch E S'' r = ch E S' r @ ds" "set ds \<subseteq> {wt_next S'..<wt_next S''}"
      "map (shown S'') ds = map shown_var (filter (\<lambda>v. vr_variablesReference v \<noteq> 0) ws)"
    using assms(2) by (auto simp: answered_def)
  have "shown S'' c = shown S' c" if "c \<in> set cs" for c
    using cs(2) that assms(3,6) by (auto simp: filled_def shown_def subset_iff)
  then have "map (shown S'') cs = map (shown S') cs" by simp
  then have "map (shown S'') (cs @ ds) = map shown_var (filter (\<lambda>v. vr_variablesReference v \<noteq> 0) (vs @ ws))"
    using cs(3) ds(3) by simp
  moreover have "set (cs @ ds) \<subseteq> {wt_next S..<wt_next S''}" using cs(2) ds(2) assms(3,5) by (fastforce simp: filled_def)
  ultimately show ?thesis
    using assms(2) cs(1) ds(1) unfolding answered_def by (metis append.assoc)
qed

lemma check_variables_end:
  assumes ok: "watch_sdk_ok (we_sdk E)" and "watches_inv E S" "r \<in> set (m_DAP_watches S)"
  shows "\<exists>vs' S'. check_variables E n r vs S = Inr (vs', S') \<and> list_all2 same_or_anonymous vs vs' \<and> filled E n {r} S S'
    \<and> (seq_of S r = n \<longrightarrow> answered E n r vs S S')"
  using assms(2,3)
proof (induction vs arbitrary: S)
  case Nil
  then show ?case by (auto simp: filled_refl answered_def)
next
  case (Cons v vs)
  obtain v' S1 where 1: "check_variable E n r (v, S) = Inr (v', S1)" "same_or_anonymous v v'" "filled E n {r} S S1"
      "seq_of S r = n \<Longrightarrow> answered E n r [v] S S1"
    using check_variable_ends [OF ok Cons.prems, of n v] by blast
  have S1: "watches_inv E S1" "r \<in> set (m_DAP_watches S1)" "wt_next S \<le> wt_next S1"
    using 1(3) Cons.prems by (simp_all add: filled_def)
  obtain vs' S' where 2: "check_variables E n r vs S1 = Inr (vs', S')" "list_all2 same_or_anonymous vs vs'" "filled E n {r} S1 S'"
      "seq_of S1 r = n \<Longrightarrow> answered E n r vs S1 S'"
    using Cons.IH [OF S1(1,2)] by blast
  have "filled E n {r} S S'" using filled_trans [OF 1(3) 2(3)] Cons.prems by simp
  moreover have "answered E n r (v # vs) S S'" if "seq_of S r = n"
    using answered_trans [OF 1(4) [OF that] 2(4) 2(3) S1(1,3)] 1(4) [OF that] watches_invD(4) [OF Cons.prems]
    by (simp add: answered_def)
  ultimately show ?case using 1 2 by auto
qed

lemma check_watches_end:
  assumes ok: "watch_sdk_ok (we_sdk E)" and "watches_inv E S" "set rs \<subseteq> set (m_DAP_watches S)"
  shows "\<exists>vs' S'. check_watches E n rs (vs, S) = Inr (vs', S') \<and> list_all2 same_or_anonymous vs vs' \<and> filled E n (set rs) S S'"
  using assms(2,3)
proof (induction rs arbitrary: vs S)
  case Nil
  then show ?case by (simp add: filled_refl same_or_anonymous_def list.rel_refl)
next
  case (Cons r rs)
  obtain vs1 S1 where 1: "check_variables E n r vs S = Inr (vs1, S1)" "list_all2 same_or_anonymous vs vs1" "filled E n {r} S S1"
    using check_variables_end [OF ok Cons.prems(1), of r n vs] Cons.prems(2) by auto
  have S1: "watches_inv E S1" "set rs \<subseteq> set (m_DAP_watches S1)" using 1(3) Cons.prems by (simp_all add: filled_def)
  obtain vs2 S2 where 2: "check_watches E n rs (vs1, S1) = Inr (vs2, S2)" "list_all2 same_or_anonymous vs1 vs2"
      "filled E n (set rs) S1 S2"
    using Cons.IH [OF S1] by blast
  have "list_all2 same_or_anonymous vs vs2"
    by (rule list_all2_trans [OF _ 1(2) 2(2)]) (auto simp: same_or_anonymous_def)
  with 1 2 filled_trans [OF 1(3) 2(3), of "set (r # rs)"] Cons.prems show ?case by auto
qed

lemma check_watches_append:
  "check_watches E n (xs @ ys) x = bind_err (check_watches E n xs x) (check_watches E n ys)"
  by (induction xs arbitrary: x) (auto simp: bind_err_def split: sum.split)

lemma answered_after:
  assumes "answered E n r vs S S'" "filled E n X S' S''" "r \<notin> X" "r < wt_next S" "wt_next S \<le> wt_next S'"
    "watches_inv E S'" "r \<in> set (m_DAP_watches S')" "X \<subseteq> set (m_DAP_watches S')"
  shows "answered E n r vs S S''"
proof -
  obtain cs where cs: "ch E S' r = ch E S r @ cs" "set cs \<subseteq> {wt_next S..<wt_next S'}"
      "map (shown S') cs = map shown_var (filter (\<lambda>v. vr_variablesReference v \<noteq> 0) vs)"
    using assms(1) by (auto simp: answered_def)
  have eq: "ch E S'' r = ch E S' r" "watch S'' r = watch S' r" using assms by (auto simp: filled_def)
  have "shown S'' c = shown S' c" if "c \<in> set cs" for c
  proof -
    have "c \<notin> X" using watches_invD(3) [OF assms(6), of c r] cs(1) that assms(8) by auto
    then show ?thesis using cs(2) that assms(2) by (auto simp: filled_def shown_def)
  qed
  then have "map (shown S'') cs = map (shown S') cs" by simp
  moreover have "set cs \<subseteq> {wt_next S..<wt_next S''}" using cs(2) assms(2) by (fastforce simp: filled_def)
  ultimately show ?thesis using cs eq assms(1) by (auto simp: answered_def)
qed

lemma check_watches_one:
  assumes ok: "watch_sdk_ok (we_sdk E)" and inv: "watches_inv E S" and r: "r \<in> set (m_DAP_watches S)"
    and turn: "\<And>X S1 vs1. filled E n X S S1 \<Longrightarrow> r \<notin> X \<Longrightarrow> X \<subseteq> set (m_DAP_watches S) \<Longrightarrow> list_all2 same_or_anonymous vs vs1 \<Longrightarrow>
      \<exists>vs2 S2. check_variables E n r vs1 S1 = Inr (vs2, S2) \<and> filled E n {r} S1 S2 \<and> answered E n r ws S1 S2"
  shows "\<exists>vs' S'. check_watches E n (m_DAP_watches S) (vs, S) = Inr (vs', S') \<and> answered E n r ws S S'"
proof -
  obtain xs ys where split: "m_DAP_watches S = xs @ r # ys" using split_list [OF r] by blast
  have dist: "r \<notin> set xs" "r \<notin> set ys" using watches_invD(5) [OF inv] by (simp_all add: split)
  obtain vs1 S1 where 1: "check_watches E n xs (vs, S) = Inr (vs1, S1)" "list_all2 same_or_anonymous vs vs1" "filled E n (set xs) S S1"
    using check_watches_end [OF ok inv, of xs n vs] by (auto simp: split)
  have lt: "r < wt_next S" by (rule watches_invD(4) [OF inv r])
  have S1: "watches_inv E S1" "m_DAP_watches S1 = m_DAP_watches S" "wt_next S \<le> wt_next S1" "ch E S1 r = ch E S r"
    using 1(3) lt dist r by (simp_all add: filled_def)
  obtain vs2 S2 where 2: "check_variables E n r vs1 S1 = Inr (vs2, S2)" "filled E n {r} S1 S2" "answered E n r ws S1 S2"
    using turn [OF 1(3) dist(1) _ 1(2)] by (auto simp: split)
  have S2: "watches_inv E S2" "m_DAP_watches S2 = m_DAP_watches S" "wt_next S1 \<le> wt_next S2"
    using 2(2) S1 by (simp_all add: filled_def)
  obtain vs3 S3 where 3: "check_watches E n ys (vs2, S2) = Inr (vs3, S3)" "filled E n (set ys) S2 S3"
    using check_watches_end [OF ok S2(1), of ys n vs2] S2(2) by (auto simp: split)
  have "answered E n r ws S1 S3"
    by (rule answered_after [OF 2(3) 3(2) dist(2)]) (use S1 S2 lt r in \<open>auto simp: split\<close>)
  then have "answered E n r ws S S3" using S1(3,4) by (fastforce simp: answered_def)
  then show ?thesis using 1(1) 2(1) 3(1) by (simp add: split check_watches_append)
qed

text \<open>A watch of the list that waits for this answer gets the variables.\<close>

lemma check_watches_answered:
  assumes ok: "watch_sdk_ok (we_sdk E)" and inv: "watches_inv E S" and r: "r \<in> set (m_DAP_watches S)" and n: "seq_of S r = n"
  shows "\<exists>vs' S'. check_watches E n (m_DAP_watches S) (vs, S) = Inr (vs', S') \<and> answered E n r vs S S'"
proof (rule check_watches_one [OF ok inv r])
  fix X S1 vs1
  assume S1: "filled E n X S S1" "r \<notin> X" and vs1: "list_all2 same_or_anonymous vs vs1"
  have "watches_inv E S1" "r \<in> set (m_DAP_watches S1)" "seq_of S1 r = n"
    using S1 r n watches_invD(4) [OF inv r] by (simp_all add: filled_def)
  then obtain vs2 S2 where "check_variables E n r vs1 S1 = Inr (vs2, S2)" "filled E n {r} S1 S2" "answered E n r vs1 S1 S2"
    using check_variables_end [OF ok, of S1 r n vs1] by blast
  then show "\<exists>vs2 S2. check_variables E n r vs1 S1 = Inr (vs2, S2) \<and> filled E n {r} S1 S2 \<and> answered E n r vs S1 S2"
    using same_or_anonymous_list [OF vs1] by (auto simp: answered_def)
qed

text \<open>A watch of the list whose symbol is one of the variables gets that one and what follows.\<close>

lemma check_variables_append:
  "check_variables E n r (xs @ ys) S = bind_err (check_variables E n r xs S) (\<lambda>(xs, S).
     bind_err (check_variables E n r ys S) (\<lambda>(ys, S). Inr (xs @ ys, S)))"
  by (induction xs arbitrary: S) (auto simp: bind_err_def split: sum.split)

lemma check_variables_none:
  assumes "watch_sdk_ok (we_sdk E)" "watches_inv E S" "r \<in> set (m_DAP_watches S)" "strangers n r S"
  shows "\<forall>v \<in> set vs. vr_name v \<noteq> dw_symbol (watch S r) \<Longrightarrow> \<exists>vs'. check_variables E n r vs S = Inr (vs', S)"
proof (induction vs)
  case (Cons v vs)
  obtain v' S' where "check_variable E n r (v, S) = Inr (v', S')" "S' = S"
    using check_variable_ends [OF assms(1-3), of n v] assms(4) Cons.prems by (metis list.set_intros(1))
  with Cons show ?case by auto
qed simp

lemma check_watches_named:
  assumes ok: "watch_sdk_ok (we_sdk E)" and inv: "watches_inv E S" and r: "r \<in> set (m_DAP_watches S)"
    and n: "n \<noteq> 0" "\<And>p. p < wt_next S \<Longrightarrow> seq_of S p \<noteq> n"
    and name: "vr_name x = dw_symbol (watch S r)" "\<forall>v \<in> set xs. vr_name v \<noteq> dw_symbol (watch S r)"
      "dw_symbol (watch S r) \<noteq> []" "dw_symbol (watch S r) \<noteq> ''anonymous''"
  shows "\<exists>vs' S'. check_watches E n (m_DAP_watches S) (xs @ x # ys, S) = Inr (vs', S') \<and> answered E n r (x # ys) S S'"
proof (rule check_watches_one [OF ok inv r])
  fix X S1 vs1
  assume S1: "filled E n X S S1" "r \<notin> X" "X \<subseteq> set (m_DAP_watches S)" and vs1: "list_all2 same_or_anonymous (xs @ x # ys) vs1"
  obtain xs1 x1 ys1 where vs1_eq: "vs1 = xs1 @ x1 # ys1" and rel: "list_all2 same_or_anonymous xs xs1" "same_or_anonymous x x1"
      "list_all2 same_or_anonymous ys ys1"
    using vs1 by (auto simp: list_all2_append1 list_all2_Cons1)
  have inv1: "watches_inv E S1" "r \<in> set (m_DAP_watches S1)" and sym: "watch S1 r = watch S r"
    using S1 r watches_invD(4) [OF inv r] by (simp_all add: filled_def)
  have "seq_of S1 p \<noteq> n" if "p < wt_next S1" "p = r \<or> p \<notin> set (m_DAP_watches S1)" for p
  proof (cases "p < wt_next S")
    case True
    have "p \<notin> X" using S1 that by (auto simp: filled_def)
    then show ?thesis using S1(1) True n(2) [OF True] by (auto simp: filled_def)
  next
    case False
    then show ?thesis using S1(1) that(1) n(1) by (auto simp: filled_def)
  qed
  then have str: "strangers n r S1" by (simp add: strangers_def)
  have "vr_name v \<noteq> dw_symbol (watch S1 r)" if v: "v \<in> set xs1" for v
  proof -
    obtain u where "u \<in> set xs" "same_or_anonymous u v" using rel(1) v by (auto simp: list_all2_conv_all_nth in_set_conv_nth) metis
    then show ?thesis using name(2-4) sym by (auto simp: same_or_anonymous_def anonymous_def split: if_splits)
  qed
  then obtain xs2 where 1: "check_variables E n r xs1 S1 = Inr (xs2, S1)"
    using check_variables_none [OF ok inv1 str, of xs1] by auto
  have hit: "dw_symbol (watch S1 r) = vr_name x1"
    using rel(2) name(1,3) sym by (auto simp: same_or_anonymous_def anonymous_def)
  obtain x2 S2 where 2: "check_variable E n r (x1, S1) = Inr (x2, S2)" "filled E n {r} S1 S2" "answered E n r [x1] S1 S2"
    using check_variable_ends [OF ok inv1, of n x1] hit by blast
  have inv2: "watches_inv E S2" "r \<in> set (m_DAP_watches S2)" "wt_next S1 \<le> wt_next S2" "seq_of S2 r = n"
    using 2(2,3) inv1 by (simp_all add: filled_def answered_def)
  obtain ys2 S3 where 3: "check_variables E n r ys1 S2 = Inr (ys2, S3)" "filled E n {r} S2 S3" "answered E n r ys1 S2 S3"
    using check_variables_end [OF ok inv2(1,2), of n ys1] inv2(4) by blast
  have "answered E n r ([x1] @ ys1) S1 S3"
    by (rule answered_trans [OF 2(3) 3(3,2) inv2(1,3) watches_invD(4) [OF inv1]])
  moreover have "list_all2 same_or_anonymous (x # ys) ([x1] @ ys1)" using rel by simp
  ultimately have "answered E n r (x # ys) S1 S3"
    using same_or_anonymous_list [of "x # ys" "[x1] @ ys1"] by (auto simp: answered_def)
  moreover have "filled E n {r} S1 S3" by (rule filled_trans [OF 2(2) 3(2)]) (use inv1 in auto)
  moreover have "check_variables E n r vs1 S1 = Inr (xs2 @ x2 # ys2, S3)"
    using 1 2(1) 3(1) by (simp add: vs1_eq check_variables_append)
  ultimately show "\<exists>vs2 S2. check_variables E n r vs1 S1 = Inr (vs2, S2) \<and> filled E n {r} S1 S2 \<and> answered E n r (x # ys) S1 S2"
    by blast
qed

section \<open>Sessions\<close>

text \<open>The calls the plugin makes, in any order, with any answers of the windows and the client between them.\<close>

datatype watch_op =
    Wop_SetProject nat | Wop_CreateStart | Wop_AddSymbol string | Wop_AddWatch DAPWatch | Wop_Delete nat
  | Wop_Expand nat | Wop_Update CallStack nat | Wop_Callback bool string string nat | Wop_Do
  | Wop_Show "watch_answer option" nat | Wop_Close nat | Wop_Load xml nat
  | Wop_Init "InitializeResponse option" | Wop_Scopes "ScopesResponse option" | Wop_Variables "VariablesResponse option"

primrec watch_apply ::
  "'d fp \<Rightarrow> 't watch_env \<Rightarrow> plugin_callback Client updater \<Rightarrow> 32 word \<Rightarrow> watch_op \<Rightarrow> 't Watches \<times> plugin_callback Client
     \<Rightarrow> watch_error + 't Watches \<times> plugin_callback Client" where
  "watch_apply F E R w (Wop_SetProject p) x = Inr (SetProject_watches p (fst x), snd x)"
| "watch_apply F E R w Wop_CreateStart x = Inr (CreateStartWatches E (fst x), snd x)"
| "watch_apply F E R w (Wop_AddSymbol s) x = Inr (snd (AddWatch_symbol E s (fst x)), snd x)"
| "watch_apply F E R w (Wop_AddWatch v) x =
     (let (r, S) = new_watch v (fst x) in Inr (AddWatch_watch F E w r (S, snd x)))"
| "watch_apply F E R w (Wop_Delete r) x = Inr (DeleteWatch E r (fst x), snd x)"
| "watch_apply F E R w (Wop_Expand r) x = Inr (ExpandWatch F E w r x)"
| "watch_apply F E R w (Wop_Update C r) x = UpdateWatch F w C r x"
| "watch_apply F E R w (Wop_Callback b s t r) x = EvaluateWatchCallback E R b s t r x"
| "watch_apply F E R w Wop_Do x = Inr (DoWatches E w (fst x), snd x)"
| "watch_apply F E R w (Wop_Show a r) x = Inr (ShowWatchProperties E w a r (fst x), snd x)"
| "watch_apply F E R w (Wop_Close p) x = Inr (CleanupWhenProjectClosed_watches E p (fst x), snd x)"
| "watch_apply F E R w (Wop_Load root p) x = LoadStateFromFile_watches F E w root p x"
| "watch_apply F E R w (Wop_Init r) x = Inr (OnInitializedEvent_watches E r (fst x), snd x)"
| "watch_apply F E R w (Wop_Scopes r) x = Inr (OnScopes F E r x)"
| "watch_apply F E R w (Wop_Variables r) x = OnVariables F E R r x"

inductive watches_reach :: "'d fp \<Rightarrow> plugin_callback Client updater \<Rightarrow> 't watch_sdk \<Rightarrow> 't Watches \<Rightarrow> bool" for F R K where
  watches_start: "watches_reach F R K (Watches_new K)"
| watches_step: "watches_reach F R K S \<Longrightarrow> we_sdk E = K \<Longrightarrow> watch_apply F E R w op (S, cl) = Inr (S', cl') \<Longrightarrow>
    watches_reach F R K S'"

section \<open>What every operation keeps\<close>

definition tree_core :: "'t watch_env \<Rightarrow> 't Watches \<Rightarrow> (nat \<Rightarrow> nat list) \<times> (nat \<Rightarrow> DAPWatch) \<times> nat \<times> nat list" where
  "tree_core E S = (ch E S, watch S, wt_next S, m_DAP_watches S)"

lemma watches_inv_core: "tree_core E S' = tree_core E S \<Longrightarrow> watches_inv E S' = watches_inv E S"
  by (simp add: tree_core_def watches_inv_def)

lemma watches_inv_cong:
  "ch E S' = ch E S \<Longrightarrow> wt_next S' = wt_next S \<Longrightarrow> m_DAP_watches S' = m_DAP_watches S \<Longrightarrow> watches_inv E S' = watches_inv E S"
  by (simp add: watches_inv_def)

lemma watches_inv_set [simp]: "watches_inv E (set_watch r f S) = watches_inv E S"
  by (rule watches_inv_cong) (simp_all add: ch_keeps watch_fields)

lemma watches_inv_gui [simp]: "watches_inv E (gui c S) = watches_inv E S"
  by (rule watches_inv_cong) (simp_all add: ch_keeps watch_fields)

lemma watches_inv_RemoveChildren:
  "watch_sdk_ok (we_sdk E) \<Longrightarrow> watches_inv E S \<Longrightarrow> watches_inv E (RemoveChildren E p S)"
  by (rule watches_inv_shrink) (auto simp: watch_fields ch_simps watches_invD(5))

lemma watches_inv_new:
  "watches_inv E S \<Longrightarrow> new_watch v S = (r, S') \<Longrightarrow> watches_inv E S'"
  by (rule watches_inv_shrink [of E S]) (use new_watch_fields [of v S r S' E] in \<open>auto simp: watches_invD(5)\<close>)

lemma watches_inv_fewer:
  "watches_inv E S \<Longrightarrow> set rs \<subseteq> set (m_DAP_watches S) \<Longrightarrow> distinct rs \<Longrightarrow> watches_inv E (S\<lparr> m_DAP_watches := rs \<rparr>)"
  by (rule watches_inv_shrink [of E S]) (simp_all add: ch_keeps)

lemma watches_inv_push:
  assumes "watches_inv E S" "r < wt_next S" "r \<notin> set (m_DAP_watches S)" "\<And>p. r \<notin> set (ch E S p)"
  shows "watches_inv E (S\<lparr> m_DAP_watches := m_DAP_watches S @ [r] \<rparr>)"
proof -
  note inv = watches_invD [OF assms(1)]
  have "p < c \<and> c < wt_next S \<and> c \<notin> set (m_DAP_watches S @ [r])" if "c \<in> set (ch E S p)" for p c
    using inv(1-3) [OF that] assms(4) [of p] that by auto
  then show ?thesis unfolding watches_inv_def using inv(4,5) assms(2,3) by (auto simp: ch_keeps)
qed

lemma DAPWatch_Reset_inv:
  "watch_sdk_ok (we_sdk E) \<Longrightarrow> watches_inv E S \<Longrightarrow> watches_inv E (DAPWatch_Reset E r S)"
  by (simp add: DAPWatch_Reset_def Let_def watches_inv_RemoveChildren)

lemma CreateStartWatches_inv:
  assumes "watch_sdk_ok (we_sdk E)" "watches_inv E S"
  shows "watches_inv E (CreateStartWatches E S)"
proof -
  have "watches_inv E (fold (DAPWatch_Reset E) rs S)" for rs
    using assms by (induction rs arbitrary: S) (simp_all add: DAPWatch_Reset_inv)
  then show ?thesis by (simp add: CreateStartWatches_def Let_def)
qed

lemma DeleteWatch_inv: "watches_inv E S \<Longrightarrow> watches_inv E (DeleteWatch E r S)"
  using watches_inv_fewer [of E S] watches_invD(5) [of E S] set_remove1_subset [of _ "m_DAP_watches S"]
  by (auto simp: DeleteWatch_def Let_def distinct_remove1)

lemma dialog_RemoveWatch_inv: "watches_inv E S \<Longrightarrow> watches_inv E (dialog_RemoveWatch E r S)"
  by (simp add: dialog_RemoveWatch_def DeleteWatch_inv)

lemma dialog_RemoveWatch_fields:
  "ch E (dialog_RemoveWatch E' r S) = ch E S" "wt_next (dialog_RemoveWatch E' r S) = wt_next S"
  "set (m_DAP_watches (dialog_RemoveWatch E' r S)) \<subseteq> set (m_DAP_watches S)"
  by (auto simp: dialog_RemoveWatch_def DeleteWatch_def Let_def ch_keeps dest: subsetD [OF set_remove1_subset])

lemma SetFromVariable_facts:
  fixes var :: Variable
  assumes "watch_sdk_ok (we_sdk E)" "watches_inv E S" "r < wt_next S" "r \<notin> set (m_DAP_watches S)" "\<And>p. r \<notin> set (ch E S p)"
  defines "S' \<equiv> SetFromVariable E r var S"
  shows "watches_inv E S' \<and> r < wt_next S' \<and> m_DAP_watches S' = m_DAP_watches S \<and> (\<forall>p. r \<notin> set (ch E S' p))"
proof (cases "vr_variablesReference var > 0")
  case False
  with assms show ?thesis by (simp add: SetFromVariable_def Let_def watch_fields ch_keeps)
next
  case True
  define S1 where "S1 = set_watch r (\<lambda>w. w\<lparr> dw_has_been_expanded := False, dw_array_start := 0,
      dw_array_end := vr_variablesReference var \<rparr>)
    (set_watch r (\<lambda>w. w\<lparr> dw_value := vr_value var,
            dw_DAPVariableReference := word_of_int (vr_variablesReference var), dw_type := vr_type var \<rparr>) S)"
  obtain c S2 where 2: "new_watch (DAPWatch_new (wt_pProject S1) ''updating...'' False True) S1 = (c, S2)" by fastforce
  note f = new_watch_fields [OF 2, of E]
  have S': "S' = AddChild E r c S2" using True 2 by (simp add: S'_def SetFromVariable_def Let_def S1_def [symmetric])
  have S1: "wt_next S1 = wt_next S" "m_DAP_watches S1 = m_DAP_watches S" "ch E S1 = ch E S"
    by (simp_all add: S1_def watch_fields ch_keeps)
  have ch: "ch E S' q = (if q = r then ch E S r @ [wt_next S] else ch E S q)" for q
    using f S1 by (simp add: S' ch_simps [OF assms(1)])
  have fields: "wt_next S' = Suc (wt_next S)" "m_DAP_watches S' = m_DAP_watches S" using f S1 by (simp_all add: S' watch_fields)
  note inv = watches_invD [OF assms(2)]
  have "p < x \<and> x < wt_next S' \<and> x \<notin> set (m_DAP_watches S')" if "x \<in> set (ch E S' p)" for p x
    using that inv(1-3) [of x p] inv(4) [of x] assms(3) by (auto simp: ch fields split: if_splits)
  moreover have "q < wt_next S'" if "q \<in> set (m_DAP_watches S')" for q using inv(4) [of q] that by (simp add: fields)
  ultimately have "watches_inv E S'" unfolding watches_inv_def using inv(5) fields(2) by simp
  then show ?thesis using assms(3,5) by (auto simp: ch fields)
qed

lemma fresh_watch:
  assumes "watches_inv E S" "new_watch v S = (r, S')"
  shows "watches_inv E S'" "r < wt_next S'" "r \<notin> set (m_DAP_watches S')" "r \<notin> set (ch E S' p)"
  using watches_inv_new [OF assms] new_watch_fields [OF assms(2), of E] watches_invD(2) [OF assms(1), of r p]
    watches_invD(4) [OF assms(1), of r]
  by auto

lemma AddWatch_symbol_inv:
  assumes "watch_sdk_ok (we_sdk E)" "watches_inv E S"
  shows "watches_inv E (snd (AddWatch_symbol E s S))"
proof -
  obtain r S1 where 1: "new_watch (DAPWatch_new (wt_pProject S) s False True) S = (r, S1)" by fastforce
  note f = fresh_watch [OF assms(2) 1]
  define S2 where "S2 = (case find (\<lambda>var. s = vr_name var) (m_stackdapvariables S1) of
                 Some var \<Rightarrow> SetFromVariable E r var S1 | None \<Rightarrow> S1)"
  have "watches_inv E S2 \<and> r < wt_next S2 \<and> r \<notin> set (m_DAP_watches S2) \<and> (\<forall>p. r \<notin> set (ch E S2 p))"
    using f SetFromVariable_facts [OF assms(1) f(1-3)] by (auto simp: S2_def split: option.split)
  then show ?thesis using 1 watches_inv_push [of E S2 r] by (simp add: AddWatch_symbol_def S2_def [symmetric])
qed

lemma ExpandWatch_inv:
  assumes "watch_sdk_ok (we_sdk E)" "watches_inv E S"
  shows "watches_inv E (fst (ExpandWatch F E w r (S, cl)))"
  using assms by (simp add: ExpandWatch_def Let_def case_prod_beta watches_inv_RemoveChildren)

lemma AddWatch_watch_inv:
  assumes "watch_sdk_ok (we_sdk E)" "watches_inv E S" "new_watch v S = (r, S1)"
  shows "watches_inv E (fst (AddWatch_watch F E w r (S1, cl)))"
proof -
  note f = fresh_watch [OF assms(2,3)]
  define S2 where "S2 = (case find (\<lambda>q. same_watch (watch S1 r) (watch S1 q)) (m_DAP_watches S1) of
                 Some q \<Rightarrow> dialog_RemoveWatch E q S1 | None \<Rightarrow> S1)"
  have "watches_inv E S2" "r < wt_next S2" "r \<notin> set (m_DAP_watches S2)" "r \<notin> set (ch E S2 p)" for p
    using f by (auto simp: S2_def dialog_RemoveWatch_inv dialog_RemoveWatch_fields(1,2)
        dest: subsetD [OF dialog_RemoveWatch_fields(3)] split: option.split)
  then have "watches_inv E (S2\<lparr> m_DAP_watches := m_DAP_watches S2 @ [r] \<rparr>)" by (rule watches_inv_push)
  then show ?thesis by (simp add: AddWatch_watch_def Let_def S2_def [symmetric] ExpandWatch_inv [OF assms(1)])
qed

lemma load_watches_inv:
  assumes "watch_sdk_ok (we_sdk E)" "watches_inv E S" "load_watches F E w p es (S, cl) = Inr (S', cl')"
  shows "watches_inv E S'"
  using assms(2,3)
proof (induction es arbitrary: S cl)
  case Nil
  then show ?case by simp
next
  case (Cons e es)
  obtain S1 cl1 where 1: "watches_inv E S1" "load_watches F E w p es (S1, cl1) = Inr (S', cl')"
  proof (cases "ReadChildNodewxString e ''DAPWatchClassName'' = ''DAPWatch''")
    case False
    then show ?thesis using Cons.prems that by simp
  next
    case True
    then obtain v where v: "LoadWatchFromXML (we_num E) e (DAPWatch_new p [] False True) = Some v"
      using Cons.prems(2) by (auto split: option.splits)
    obtain r S2 where r: "new_watch v S = (r, S2)" by fastforce
    obtain S3 cl3 where 3: "AddWatch_watch F E w r (S2, cl) = (S3, cl3)" by fastforce
    have "watches_inv E S3" using AddWatch_watch_inv [OF assms(1) Cons.prems(1) r, of F w cl] 3 by simp
    then show ?thesis using Cons.prems True v r 3 that by (cases "dw_symbol v = []") auto
  qed
  show ?case by (rule Cons.IH [OF 1])
qed

lemma UpdateDAPWatches_result:
  "UpdateDAPWatches E R t (S, cl) = Inr (S', cl') \<Longrightarrow> S' = gui (Gui_Updated t) S"
  by (auto simp: UpdateDAPWatches_def Let_def bind_err_def split: sum.splits)

lemma UpdateDAPWatches_returns:
  "(\<And>d c. R d c \<noteq> Inl NoReturn) \<Longrightarrow> UpdateDAPWatches E R t x \<noteq> Inl NoReturn"
  by (auto simp: UpdateDAPWatches_def Let_def case_prod_beta bind_err_def split: sum.splits)

lemma DoWatches_inv: "watches_inv E S \<Longrightarrow> watches_inv E (DoWatches E w S)"
proof -
  assume inv: "watches_inv E S"
  obtain r S1 where 1: "new_watch (DAPWatch_new (wt_pProject S) ''Function locals and arguments'' False True) S = (r, S1)"
    by fastforce
  have "watches_inv E (S1\<lparr> m_WatchLocalsandArgs := Some r \<rparr>)"
    using watches_inv_new [OF inv 1] watches_inv_cong [of E "S1\<lparr> m_WatchLocalsandArgs := Some r \<rparr>" S1]
    by (simp add: ch_keeps)
  then show ?thesis using inv 1 by (simp add: DoWatches_def Let_def)
qed

lemma Close_inv:
  assumes "watches_inv E S"
  shows "watches_inv E (CleanupWhenProjectClosed_watches E p S)"
proof -
  have "watches_inv E (fold (remove_project_watch E p) is S)" for "is"
    using assms by (induction "is" arbitrary: S) (simp_all add: remove_project_watch_def Let_def dialog_RemoveWatch_inv)
  then show ?thesis by (simp add: CleanupWhenProjectClosed_watches_def)
qed

lemma sort_variable_core:
  "sort_variable F v (m, S, cl) = (m', S', cl') \<Longrightarrow> tree_core E S' = tree_core E S"
  by (cases m) (auto simp: sort_variable_def Let_def tree_core_def ch_keeps watch_def split: if_splits)

lemma fold_sort_core:
  "fold (sort_variable F) vs (m, S, cl) = (m', S', cl') \<Longrightarrow> tree_core E S' = tree_core E S"
proof (induction vs arbitrary: m S cl)
  case (Cons v vs)
  obtain m1 S1 cl1 where 1: "sort_variable F v (m, S, cl) = (m1, S1, cl1)" by (metis surj_pair)
  then show ?case using Cons sort_variable_core [OF 1, of E] by simp
qed simp

lemma hex_nibbles_error: "hex_nibbles s h = Inl e \<Longrightarrow> e = InvalidArgument"
  by (induction s h rule: hex_nibbles.induct) (auto simp: bind_err_def bitset4_def split: if_splits)

lemma set_register_values_ends:
  "set_register_values rs S \<noteq> Inl NoReturn"
  "set_register_values rs S = Inr S' \<Longrightarrow> tree_core E S' = tree_core E S"
  by (induction rs S rule: set_register_values.induct)
    (auto simp: bind_err_def BinStrToHexStr_def Let_def tree_core_def ch_keeps watch_fields
      dest: hex_nibbles_error split: if_splits sum.splits)

lemma OnVarCPURegisters_ends:
  "OnVarCPURegisters m S \<noteq> Inl NoReturn"
  "OnVarCPURegisters m S = Inr S' \<Longrightarrow> tree_core E S' = tree_core E S"
proof -
  define S1 where "S1 = (if m \<noteq> []
               then let S = S\<lparr> m_parsed_reg_names := True, m_parsed_reg_values := True \<rparr>
                    in if m_disassemblyFlavor S = ''set disassembly-flavor or32'' then S
                       else S\<lparr> regNames := map fst m, regValues := map snd m \<rparr>
               else S)"
  have eq: "OnVarCPURegisters m S = (if m_parsed_reg_names S1 \<and> m_parsed_reg_values S1
         then set_register_values (zip (regNames S1) (regValues S1)) S1 else Inr S1)"
    by (simp add: OnVarCPURegisters_def S1_def [symmetric] Let_def)
  have core: "tree_core E S1 = tree_core E S" by (auto simp: S1_def Let_def tree_core_def ch_def fun_eq_iff watch_def)
  show "OnVarCPURegisters m S \<noteq> Inl NoReturn" by (simp add: eq set_register_values_ends(1))
  show "tree_core E S' = tree_core E S" if "OnVarCPURegisters m S = Inr S'"
    using that core set_register_values_ends(2) [of "zip (regNames S1) (regValues S1)" S1 S' E] by (auto simp: eq split: if_splits)
qed

lemma OnVariablesCheck_ends:
  assumes "watch_sdk_ok (we_sdk E)" "watches_inv E S"
  shows "(\<And>d c. R d c \<noteq> Inl NoReturn) \<Longrightarrow> OnVariablesCheck E R resp (S, cl) \<noteq> Inl NoReturn"
    "OnVariablesCheck E R resp (S, cl) = Inr (S', cl') \<Longrightarrow> watches_inv E S'"
proof -
  let ?S = "\<lambda>v. S\<lparr> m_stackdapvariables := m_stackdapvariables S @ vs_variables v \<rparr>"
  have inv: "watches_inv E (?S v)" for v using assms(2) watches_inv_cong [of E "?S v" S] by (simp add: ch_keeps)
  have step: "\<exists>vs' S'. check_watches E n (m_DAP_watches S) (vs, ?S v) = Inr (vs', S') \<and> watches_inv E S'" for n vs v
    using check_watches_end [OF assms(1) inv [of v], of "m_DAP_watches S" n vs] by (auto simp: filled_def)
  show "OnVariablesCheck E R resp (S, cl) \<noteq> Inl NoReturn" if R: "\<And>d c. R d c \<noteq> Inl NoReturn"
  proof (cases resp)
    case (Some v)
    obtain vs' S2 where "check_watches E (rs_request_seq v) (m_DAP_watches S) (vs_variables v, ?S v) = Inr (vs', S2)"
      using step by blast
    then show ?thesis
      using Some UpdateDAPWatches_returns [where R = R and E = E and t = W_Watches and x = "(S2, cl)", OF R]
      by (simp add: OnVariablesCheck_def Let_def)
  qed (simp add: OnVariablesCheck_def)
  show "watches_inv E S'" if "OnVariablesCheck E R resp (S, cl) = Inr (S', cl')"
  proof (cases resp)
    case (Some v)
    obtain vs' S2 where "check_watches E (rs_request_seq v) (m_DAP_watches S) (vs_variables v, ?S v) = Inr (vs', S2)" "watches_inv E S2"
      using step by blast
    then show ?thesis using that Some by (auto simp: OnVariablesCheck_def Let_def dest: UpdateDAPWatches_result)
  qed (use that assms in \<open>simp add: OnVariablesCheck_def\<close>)
qed

lemma OnVariables_ends:
  assumes "watch_sdk_ok (we_sdk E)" "watches_inv E S"
  shows "(\<And>d c. R d c \<noteq> Inl NoReturn) \<Longrightarrow> OnVariables F E R resp (S, cl) \<noteq> Inl NoReturn"
    "OnVariables F E R resp (S, cl) = Inr (S', cl') \<Longrightarrow> watches_inv E S'"
proof -
  obtain l c S1 cl1 where 1: "\<And>v. resp = Some v \<Longrightarrow> fold (sort_variable F) (vs_variables v) (([], []), S, cl) = ((l, c), S1, cl1)"
    by (cases resp) (auto, metis surj_pair)
  have inv: "watches_inv E S1" if "resp = Some v" for v
    using fold_sort_core [OF 1 [OF that], of E] assms(2) watches_inv_core by blast
  show "OnVariables F E R resp (S, cl) \<noteq> Inl NoReturn" if R: "\<And>d c. R d c \<noteq> Inl NoReturn"
  proof (cases resp)
    case (Some v)
    then show ?thesis
      using 1 [OF Some] OnVariablesCheck_ends(1) [where R = R and resp = resp and cl = cl1, OF assms(1) inv [OF Some] R]
      by (auto simp: OnVariables_def bind_err_def OnVarCPURegisters_ends(1) split: sum.splits)
  qed (simp add: OnVariables_def)
  show "watches_inv E S'" if r: "OnVariables F E R resp (S, cl) = Inr (S', cl')"
  proof (cases resp)
    case (Some v)
    obtain S2 cl2 where 2: "watches_inv E S2" "(if c \<noteq> [] then OnVarCPURegisters c S2 else Inr S2) = Inr S'"
      using r Some 1 [OF Some] inv [OF Some] OnVariablesCheck_ends(2) [OF assms(1) inv [OF Some], of R]
      by (fastforce simp: OnVariables_def bind_err_def split: sum.splits if_splits)
    then show ?thesis
      using OnVarCPURegisters_ends(2) [of c S2 S' E] watches_inv_core [of E S' S2] by (auto split: if_splits)
  qed (use r assms in \<open>simp add: OnVariables_def\<close>)
qed


lemma load_watches_error: "load_watches F E w p es x = Inl e \<Longrightarrow> e = Uninitialised"
  by (induction es arbitrary: x) (auto simp: bind_err_def split: sum.splits if_splits option.splits prod.splits)

lemma EvaluateWatch_state:
  "EvaluateWatchWithCallback F C r (S, cl) = Inr (S', cl') \<Longrightarrow> S' = S"
  "EvaluateWatchWithCallback F C r (S, cl) \<noteq> Inl NoReturn"
  by (auto simp: EvaluateWatchWithCallback_def active_stack_id_def Let_def bind_err_def split: sum.splits option.splits if_splits)

lemma ShowWatchProperties_inv: "watches_inv E S \<Longrightarrow> watches_inv E (ShowWatchProperties E w a r S)"
  by (auto simp: ShowWatchProperties_def intro: DoWatches_inv split: option.split)

lemma watch_apply_inv:
  assumes ok: "watch_sdk_ok (we_sdk E)" and inv: "watches_inv E S" and r: "watch_apply F E R w op (S, cl) = Inr (S', cl')"
  shows "watches_inv E S'"
proof (cases op)
  case (Wop_SetProject p)
  have "watches_inv E (SetProject_watches p S) = watches_inv E S"
    by (rule watches_inv_cong) (simp_all add: SetProject_watches_def ch_keeps)
  with r inv Wop_SetProject show ?thesis by simp
next
  case (Wop_AddWatch v)
  obtain q S1 where 1: "new_watch v S = (q, S1)" by fastforce
  with r Wop_AddWatch AddWatch_watch_inv [OF ok inv 1, of F w cl] show ?thesis by simp
next
  case (Wop_Update C q)
  with r inv show ?thesis by (auto simp: UpdateWatch_def dest: EvaluateWatch_state(1) split: if_splits)
next
  case (Wop_Callback b s t q)
  with r inv show ?thesis by (auto simp: EvaluateWatchCallback_def Let_def dest!: UpdateDAPWatches_result split: if_splits)
next
  case (Wop_Scopes x)
  have eq: "watches_inv E (S\<lparr> m_RequestedGPRegs := False, m_RequestedFloats := False \<rparr>)"
    "watches_inv E (S\<lparr> m_RequestedGPRegs := False, m_RequestedFloats := False, m_stackdapvariables := [] \<rparr>)"
    using inv by (simp_all add: watches_inv_def ch_keeps)
  with r Wop_Scopes show ?thesis by (auto simp: OnScopes_def Let_def split: option.splits)
next
  case (Wop_Load root p)
  with r inv load_watches_inv [OF ok inv] show ?thesis by (auto simp: LoadStateFromFile_watches_def split: option.splits)
next
  case (Wop_Expand q)
  with r ExpandWatch_inv [OF ok inv, of F w q cl] show ?thesis by simp
next
  case (Wop_Variables x)
  with r OnVariables_ends(2) [OF ok inv] show ?thesis by simp
next
  case (Wop_Init x)
  with r inv CreateStartWatches_inv [OF ok inv] show ?thesis
    by (auto simp: OnInitializedEvent_watches_def split: option.splits if_splits)
qed (use assms in \<open>auto simp: CreateStartWatches_inv AddWatch_symbol_inv DeleteWatch_inv DoWatches_inv
    ShowWatchProperties_inv Close_inv\<close>)

lemma watch_apply_returns:
  assumes "watch_sdk_ok (we_sdk E)" "watches_inv E S" "\<And>d c. R d c \<noteq> Inl NoReturn"
  shows "watch_apply F E R w op (S, cl) \<noteq> Inl NoReturn"
proof (cases op)
  case (Wop_Variables x)
  with OnVariables_ends(1) [where R = R, OF assms] show ?thesis by simp
next
  case (Wop_Callback b s t q)
  then show ?thesis
    using UpdateDAPWatches_returns [where R = R and E = E, OF assms(3)] by (simp add: EvaluateWatchCallback_def Let_def)
next
  case (Wop_Update C q)
  then show ?thesis by (simp add: UpdateWatch_def EvaluateWatch_state(2))
next
  case (Wop_Load root p)
  then show ?thesis by (auto simp: LoadStateFromFile_watches_def dest: load_watches_error split: option.splits)
qed (simp_all add: Let_def case_prod_beta)

lemma watches_inv_sdk: "we_sdk E = we_sdk E' \<Longrightarrow> watches_inv E S = watches_inv E' S"
  by (simp add: watches_inv_def ch_def)

lemma watches_reach_inv:
  assumes "watches_reach F R K S" "watch_sdk_ok K" "we_sdk E = K"
  shows "watches_inv E S"
  using assms(1)
proof induction
  case watches_start
  show ?case using assms(2,3) ch_simps(3) [of E] by (simp add: watches_inv_def) (simp add: Watches_new_def)
next
  case (watches_step S E' w op cl S' cl')
  have "watches_inv E' S" using watches_step.IH watches_step.hyps(2) assms(3) watches_inv_sdk [of E' E] by simp
  from watch_apply_inv [OF _ this watches_step.hyps(3)] show ?case
    using assms(2,3) watches_step.hyps(2) watches_inv_sdk [of E' E] by simp
qed


section \<open>Properties\<close>

definition plain_variable :: "Variable \<Rightarrow> bool" where   \<comment> \<open>not a register\<close>
  "plain_variable v \<longleftrightarrow> \<not> ends_with ''Registers'' (vr_name v) \<and> vh_kind (vr_presentationHint v) \<noteq> ''register''"

lemma smap_set_nonempty: "smap_set k v m \<noteq> []"
  by (cases "(k, v, m)" rule: smap_set.cases) auto

lemma fold_sort_plain:
  assumes "list_all plain_variable vs" "\<not> m_RequestedGPRegs S" "\<not> m_RequestedFloats S"
  shows "\<exists>l'. fold (sort_variable F) vs ((l, c), S, cl) = ((l', c), S, cl) \<and> (l' = [] \<longleftrightarrow> l = [] \<and> vs = [])"
  using assms(1)
proof (induction vs arbitrary: l)
  case (Cons v vs)
  then obtain m where step: "sort_variable F v ((l, c), S, cl) = ((m, c), S, cl)" and m: "m \<noteq> []"
    using assms(2,3) by (auto simp: sort_variable_def plain_variable_def Let_def smap_set_nonempty)
  obtain l' where "fold (sort_variable F) vs ((m, c), S, cl) = ((l', c), S, cl)" "l' \<noteq> []"
    using Cons m by auto
  then show ?case by (simp add: step)
qed simp

lemma OnVariables_plain:
  assumes "list_all plain_variable (vs_variables v)" "\<not> m_RequestedGPRegs S" "\<not> m_RequestedFloats S"
  shows "OnVariables F E R (Some v) (S, cl)
    = (if vs_variables v \<noteq> [] then OnVariablesCheck E R (Some v) (S, cl) else Inr (S, cl))"
  using fold_sort_plain [OF assms, of F "[]" "[]" cl]
  by (auto simp: OnVariables_def bind_err_def split: sum.split)

lemma OnVariablesCheck_result:
  assumes "\<And>d c. \<exists>c'. R d c = Inr c'"
    and "\<exists>vs' S'. check_watches E (rs_request_seq v) (m_DAP_watches S)
        (vs_variables v, S\<lparr> m_stackdapvariables := m_stackdapvariables S @ vs_variables v \<rparr>) = Inr (vs', S')
      \<and> answered E n r ws (S\<lparr> m_stackdapvariables := m_stackdapvariables S @ vs_variables v \<rparr>) S'"
  shows "\<exists>S' cl'. OnVariablesCheck E R (Some v) (S, cl) = Inr (S', cl') \<and> answered E n r ws S S'"
proof -
  let ?S = "S\<lparr> m_stackdapvariables := m_stackdapvariables S @ vs_variables v \<rparr>"
  obtain vs' S1 where 1: "check_watches E (rs_request_seq v) (m_DAP_watches S) (vs_variables v, ?S) = Inr (vs', S1)"
      "answered E n r ws ?S S1" using assms(2) by blast
  obtain c1 where c1: "(if we_DisassemblyShown E then R W_Disassembly cl else Inr cl) = Inr c1" using assms(1) by fastforce
  obtain c2 where c2: "(if we_MemoryShown E then R W_ExamineMemory c1 else Inr c1) = Inr c2" using assms(1) by fastforce
  have "OnVariablesCheck E R (Some v) (S, cl) = Inr (gui (Gui_Updated W_Watches) S1, c2)"
    using 1(1) c1 c2 by (simp add: OnVariablesCheck_def UpdateDAPWatches_def Let_def)
  moreover have "answered E n r ws S (gui (Gui_Updated W_Watches) S1)"
  proof -
    have eq: "shown (gui (Gui_Updated W_Watches) S1) = shown S1" by (simp add: fun_eq_iff shown_def watch_fields)
    show ?thesis using 1(2) unfolding answered_def eq by (simp add: ch_keeps watch_fields)
  qed
  ultimately show ?thesis by blast
qed

text \<open>A session with one watch, on the variable \<open>s\<close>, that the properties are tried on.\<close>

definition sample_watch_env :: "((nat \<Rightarrow> nat list) \<times> (nat \<Rightarrow> nat option)) watch_env" where
  "sample_watch_env = \<lparr> we_sdk = watch_sdk_std, we_num = \<lparr> wx_ToLong = (\<lambda>_. None), wx_ToULongLong = (\<lambda>_ _. None) \<rparr>,
     we_DialogRemoves = (\<lambda>_. True), we_CPURegistersShown = False, we_DisassemblyShown = True, we_MemoryShown = False,
     we_WatchFuncLocalsArgs = False \<rparr>"

definition sample_watches :: "((nat \<Rightarrow> nat list) \<times> (nat \<Rightarrow> nat option)) Watches" where
  "sample_watches = snd (AddWatch_symbol sample_watch_env ''s'' (Watches_new watch_sdk_std))"

definition no_update :: "'c updater" where
  "no_update d c = Inr c"

definition sample_variable :: "string \<Rightarrow> int \<Rightarrow> Variable" where
  "sample_variable name ref = Variable_new\<lparr> vr_name := name, vr_value := ''1'', vr_type := ''T'', vr_variablesReference := ref \<rparr>"

definition sample_variables :: "int \<Rightarrow> Variable list \<Rightarrow> VariablesResponse" where
  "sample_variables n vs = VariablesResponse_new\<lparr> rs_request_seq := n, vs_variables := vs \<rparr>"

lemma sample_watches_reach: "watches_reach F no_update watch_sdk_std sample_watches"
proof -
  have "watch_apply F sample_watch_env no_update 0 (Wop_AddSymbol ''s'') (Watches_new watch_sdk_std, Client_new)
      = Inr (sample_watches, Client_new)"
    by (simp add: sample_watches_def)
  then show ?thesis by (rule watches_step [OF watches_start, rotated]) (simp add: sample_watch_env_def)
qed

lemma sample_watches_fields:
  "m_DAP_watches sample_watches = [0]" "wt_next sample_watches = 1" "\<not> m_RequestedGPRegs sample_watches"
  "\<not> m_RequestedFloats sample_watches" "watch sample_watches 0 = DAPWatch_new 0 ''s'' False True"
  "wt_tree sample_watches = (\<lambda>_. [], \<lambda>_. None)"
  by (simp_all add: sample_watches_def AddWatch_symbol_def Watches_new_def new_watch_def watch_def watch_sdk_std_def)

lemma sample_env_sdk: "we_sdk sample_watch_env = watch_sdk_std"
  by (simp add: sample_watch_env_def)

text \<open>The watches never hang. In every session of the plugin's calls, answers of the adapter and
  changes of the windows, every operation on the watches returns (or fails for a reason of its own):
  the search through the children ends because a child is younger than its parent, which holds in
  every session, as the watches of the list are different roots.\<close>

lemma watches_total:
  assumes "watch_sdk_ok K" "watches_reach F R K S" "we_sdk E = K" "\<And>d c. R d c \<noteq> Inl NoReturn"
  shows "watch_apply F E R w op (S, cl) \<noteq> Inl NoReturn
    \<and> (\<forall>p c. c \<in> set (wk_children K (wt_tree S) p) \<longrightarrow> p < c \<and> c \<notin> set (m_DAP_watches S))
    \<and> distinct (m_DAP_watches S)"
proof -
  note inv = watches_reach_inv [OF assms(2,1,3)]
  have "watch_apply F E R w op (S, cl) \<noteq> Inl NoReturn"
    by (rule watch_apply_returns) (use assms inv in auto)
  then show ?thesis using watches_invD(1,3,5) [OF inv] assms(3) by (auto simp: ch_def)
qed





end
