(* ===== verification/Dap_PluginProps.thy ===== *)
theory Dap_PluginProps
  imports Dap_Plugin Dap_WatchProps
begin

text \<open>
  The plugin as a composition. \<open>good\<close> says that the breakpoints are in a state of a session of
  their own and that the tree of watches is in order; every operation of the plugin keeps it,
  because it changes its parts only through their operations. Then follow the sessions: starting,
  attaching, ending, and the state file.
\<close>

section \<open>What every operation keeps\<close>

definition watches_fine :: "'t watch_sdk \<Rightarrow> 't Watches \<Rightarrow> bool" where
  "watches_fine K S \<longleftrightarrow> (\<forall>E. we_sdk E = K \<longrightarrow> watches_inv E S)"

definition sample_env_of :: "'t watch_sdk \<Rightarrow> 't watch_env" where
  "sample_env_of K = \<lparr> we_sdk = K, we_num = wx_num_std, we_DialogRemoves = (\<lambda>_. True), we_CPURegistersShown = False,
     we_DisassemblyShown = True, we_MemoryShown = False, we_WatchFuncLocalsArgs = False \<rparr>"

definition bps_fine :: "'d fp \<Rightarrow> cb_env \<Rightarrow> plugin_callback Breakpoints \<Rightarrow> bool" where
  "bps_fine F C S \<longleftrightarrow> (\<exists>ops. bp_session F C ops S)"

definition good :: "'d fp \<Rightarrow> cb_env \<Rightarrow> 't watch_sdk \<Rightarrow> 't Plugin \<Rightarrow> bool" where
  "good F C K P \<longleftrightarrow> bps_fine F C (pg_bps P) \<and> watches_fine K (pg_watches P)"

definition bps_state :: "dbg_op \<Rightarrow> 'cb Breakpoints \<Rightarrow> 'cb Breakpoints" where
  "bps_state op S = S\<lparr> DAPDebuggerState := dbg_step op (DAPDebuggerState S) \<rparr>"

lemma parts [simp]:
  "pg_bps (call c P) = pg_bps P" "pg_watches (call c P) = pg_watches P" "pg_stack (call c P) = pg_stack P"
  "pg_bps (on_client f P) = with_client f (pg_bps P)" "pg_watches (on_client f P) = pg_watches P"
  "pg_bps (on_state op P) = bps_state op (pg_bps P)" "pg_watches (on_state op P) = pg_watches P"
  "pg_bps (kill_adapter P) = pg_bps P" "pg_watches (kill_adapter P) = pg_watches P"
  by (simp_all add: call_def on_client_def on_state_def bps_state_def kill_adapter_def)

lemma bps_fine_apply: "bps_fine F C S \<Longrightarrow> bp_apply F C op S = Inr S' \<Longrightarrow> op_ok op \<Longrightarrow> bps_fine F C S'"
  by (auto simp: bps_fine_def intro: bp_step)

lemma bps_fine_state: "op \<in> set plugin_ops \<Longrightarrow> bps_fine F C S \<Longrightarrow> bps_fine F C (bps_state op S)"
  using bps_fine_apply [of F C S "B_State op"] by (simp add: bps_state_def op_ok_def)

lemma bps_fine_steps [simp]:
  assumes "bps_fine F C S"
  shows "bps_fine F C (with_client f S)" "bps_fine F C (DAPDebuggerResetData t S)"
    "bps_fine F C (CleanupWhenProjectClosed S)" "bps_fine F C (SetDebuggee d S)" "bps_fine F C (SetProject p S)"
    "bps_fine F C (CompilerFinished b st S)" "bps_fine F C (S\<lparr> m_start_type := st \<rparr>)"
    "bps_fine F C (bps_state (Remove Connected) S)" "bps_fine F C (bps_state (Add Connected) S)"
    "bps_fine F C (bps_state (Add Running) S)" "bps_fine F C (bps_state (Add Stopped) S)"
  using bps_fine_apply [OF assms, of "B_Client f"] bps_fine_apply [OF assms, of "B_Reset t"]
    bps_fine_apply [OF assms, of B_ProjectClosed] bps_fine_apply [OF assms, of "B_SetDebuggee d"]
    bps_fine_apply [OF assms, of "B_SetProject p"] bps_fine_apply [OF assms, of "B_CompilerFinished b st"]
    bps_fine_apply [OF assms, of "B_SetStartType st"] assms
  by (simp_all add: op_ok_def bps_fine_state plugin_ops_def del: dbg_step.simps)

lemma goodI: "bps_fine F C (pg_bps P) \<Longrightarrow> watches_fine K (pg_watches P) \<Longrightarrow> good F C K P"
  by (simp add: good_def)

lemma goodD:
  assumes "good F C K P"
  shows "bps_fine F C (pg_bps P)" "watches_fine K (pg_watches P)"
  using assms by (simp_all add: good_def)

lemma good_on_bps:
  "on_bps (bp_apply F C op) P = Inr P' \<Longrightarrow> good F C K P \<Longrightarrow> op_ok op \<Longrightarrow> good F C K P'"
  by (auto simp: on_bps_def good_def bps_fine_apply split: sum.splits)

lemma good_on_watches:
  assumes "on_watches f P = Inr P'" "good F C K P"
    "\<And>S cl S' cl'. watches_fine K S \<Longrightarrow> f (S, cl) = Inr (S', cl') \<Longrightarrow> watches_fine K S'"
  shows "good F C K P'"
proof -
  obtain S cl where r: "f (pg_watches P, the_client P) = Inr (S, cl)" "P' = on_client (\<lambda>_. cl) (P\<lparr> pg_watches := S \<rparr>)"
    using assms(1) by (auto simp: on_watches_def split: sum.splits)
  from assms(3) [OF goodD(2) [OF assms(2)] r(1)] goodD(1) [OF assms(2)] show ?thesis by (simp add: r(2) good_def)
qed

lemma watches_fine_apply:
  assumes "watch_apply F E R w op (S, cl) = Inr (S', cl')" "watch_sdk_ok K" "we_sdk E = K" "watches_fine K S"
  shows "watches_fine K S'"
  unfolding watches_fine_def
proof (intro allI impI)
  fix E' :: "'a watch_env" assume "we_sdk E' = K"
  moreover have "watches_inv E S'"
    using watch_apply_inv [OF _ _ assms(1)] assms(2-4) by (simp add: watches_fine_def)
  ultimately show "watches_inv E' S'" using watches_inv_sdk assms(3) by metis
qed

lemma watches_fine_gui [simp]: "watches_fine K (gui c S) = watches_fine K S"
  by (simp add: watches_fine_def)

lemma good_start: "watch_sdk_ok K \<Longrightarrow> good F C K (Plugin_new K u)"
proof -
  assume ok: "watch_sdk_ok K"
  have "watches_fine K (Watches_new K)"
    using watches_reach_inv [OF watches_start ok] by (auto simp: watches_fine_def)
  moreover have "bps_fine F C (Breakpoints_new Client_new)" using bp_start by (auto simp: bps_fine_def)
  ultimately show ?thesis by (simp add: Plugin_new_def good_def)
qed

section \<open>The operations\<close>

lemma good_reset: "good F C K P \<Longrightarrow> good F C K (DAPDebuggerResetData_plugin E t P)"
  by (simp add: DAPDebuggerResetData_plugin_def Let_def good_def)

lemma good_for_frame:
  assumes "for_frame f P = Inr P'" "good F C K P" "\<And>s P'. f s P = Inr P' \<Longrightarrow> good F C K P'"
  shows "good F C K P'"
  using assms by (auto simp: for_frame_def Let_def split: if_splits option.splits)

lemma good_on_stack: "on_stack f P = Inr P' \<Longrightarrow> good F C K P \<Longrightarrow> good F C K P'"
  by (auto simp: on_stack_def good_def split: option.splits)

lemma good_simps [simp]:
  "good F C K (call c P) = good F C K P" "good F C K (kill_adapter P) = good F C K P"
  "good F C K P \<Longrightarrow> good F C K (on_client f P)"
  "good F C K P \<Longrightarrow> good F C K (on_state (Remove Connected) P)" "good F C K P \<Longrightarrow> good F C K (on_state (Add Connected) P)"
  "good F C K P \<Longrightarrow> good F C K (on_state (Add Running) P)" "good F C K P \<Longrightarrow> good F C K (on_state (Add Stopped) P)"
  by (simp_all add: good_def)

text \<open>A component's operation given as a function on its state.\<close>

lemma good_watch_op:
  assumes "on_watches f P = Inr P'" "good F C K P" "watch_sdk_ok K" "we_sdk E = K"
    "\<And>S cl. f (S, cl) = watch_apply F E R w op (S, cl)"
  shows "good F C K P'"
  by (rule good_on_watches [OF assms(1,2)]) (use watches_fine_apply assms(3-5) in metis)

lemma good_watch_set:
  assumes "watch_apply F E R w op (pg_watches P, cl) = Inr (S, cl')" "good F C K P" "watch_sdk_ok K" "we_sdk E = K"
  shows "good F C K (P\<lparr> pg_watches := S \<rparr>)"
  using watches_fine_apply [OF assms(1,3,4) goodD(2) [OF assms(2)]] goodD(1) [OF assms(2)] by (simp add: good_def)

definition env_ok :: "cb_env \<Rightarrow> 't watch_sdk \<Rightarrow> 't plugin_env \<Rightarrow> bool" where
  "env_ok C K E \<longleftrightarrow> watch_sdk_ok K \<and> we_sdk (pe_watch E) = K \<and> pe_cb E = C"

lemma env_okD:
  assumes "env_ok C K E"
  shows "watch_sdk_ok K" "we_sdk (pe_watch E) = K" "pe_cb E = C"
  using assms by (simp_all add: env_ok_def)

lemma good_load_file: "load_watches_file F E p P = Inr P' \<Longrightarrow> env_ok C K E \<Longrightarrow> good F C K P \<Longrightarrow> good F C K P'"
  by (auto simp: load_watches_file_def split: if_splits option.splits dest: env_okD
      elim!: good_watch_op [where op = "Wop_Load root p" for root])

lemma good_load_state:
  "LoadStateFromFile_plugin F E p P = Inr (b, P') \<Longrightarrow> env_ok C K E \<Longrightarrow> good F C K P \<Longrightarrow> good F C K P'"
  by (auto simp: LoadStateFromFile_plugin_def Let_def bind_err_Inr op_ok_def env_okD(3) split: if_splits option.splits
      elim!: good_load_file intro: good_on_bps)

lemma good_save_state: "SaveStateToFile_plugin E p P = Inr (b, P') \<Longrightarrow> good F C K P \<Longrightarrow> good F C K P'"
  by (auto simp: SaveStateToFile_plugin_def Let_def good_def split: if_splits)

lemma good_project_opened:
  "OnProjectOpened F E p P = Inr P' \<Longrightarrow> env_ok C K E \<Longrightarrow> good F C K P \<Longrightarrow> good F C K P'"
  by (auto simp: OnProjectOpened_def bind_err_Inr map_sum_Inr split: if_splits dest: good_load_state)

lemma good_project_closed:
  assumes "CleanupWhenProjectClosed_plugin E p P = Inr P'" "env_ok C K E" "good F C K P"
  shows "good F C K P'"
proof -
  obtain P1 where 1: "good F C K P1" and P': "pg_bps P' = CleanupWhenProjectClosed (pg_bps P1)"
      "pg_watches P' = CleanupWhenProjectClosed_watches (pe_watch E) p (pg_watches P1)"
    using assms by (auto simp: CleanupWhenProjectClosed_plugin_def Let_def bind_err_Inr map_sum_Inr
        split: if_splits dest: good_save_state)
  have "watch_apply F (pe_watch E) R 0 (Wop_Close p) (pg_watches P1, Client_new) = Inr (pg_watches P', Client_new)" for R
    by (simp add: P'(2))
  then have "watches_fine K (pg_watches P')"
    using watches_fine_apply env_okD [OF assms(2)] goodD(2) [OF 1] by metis
  then show ?thesis using goodD(1) [OF 1] by (simp add: good_def P'(1))
qed

lemma good_release: "good F C K P \<Longrightarrow> good F C K (OnReleaseReal E b P)"
  by (auto simp: OnReleaseReal_def Let_def good_def DAPDebuggerResetData_plugin_def)

section \<open>Starting\<close>

lemma good_LaunchDAP:
  "LaunchDAPDebugger E p d n P = Inr P' \<Longrightarrow> good F C K P \<Longrightarrow> good F C K P'"
  by (cases "FindPortArgFormat (pe_help E)"; cases "fst (FindPortArgFormat (pe_help E))")
    (auto simp: LaunchDAPDebugger_def Let_def bind_err_Inr good_def)

lemma good_Launch:
  assumes "LaunchDebugger F E p d x n P = Inr (r, P')" "good F C K P"
  shows "good F C K P'"
proof -
  have reset: "good F C K (DAPDebuggerResetData_plugin E ResetData_Startup P)" using assms(2) by (rule good_reset)
  show ?thesis
    using assms(1) reset unfolding LaunchDebugger_def Let_def
    by (auto simp: bind_err_Inr good_def split: if_splits prod.splits option.splits dest!: good_LaunchDAP [where F = F and C = C and K = K])
qed

lemma watches_fine_project [simp]: "watches_fine K (SetProject_watches p S) = watches_fine K S"
proof -
  have "watches_inv E (SetProject_watches p S) = watches_inv E S" for E :: "'a watch_env"
    by (rule watches_inv_cong) (simp_all add: SetProject_watches_def ch_keeps)
  then show ?thesis by (simp add: watches_fine_def)
qed

definition started :: "bool \<Rightarrow> string \<Rightarrow> nat \<Rightarrow> 't Plugin \<Rightarrow> 't Plugin" where
  \<comment> \<open>what \<open>StartDebugger\<close> sets after a successful \<open>LaunchDebugger\<close>\<close>
  "started b d p P = P\<lparr> m_pTerminalMgr := b, pg_pProject := p, pg_bps := SetProject p (SetDebuggee d (pg_bps P)),
     pg_watches := SetProject_watches p (pg_watches P) \<rparr>"

lemma StartDebugger_result:
  assumes "StartDebugger F E p P = Inr (r, P')"
  obtains (fails) "r \<in> {2, 3, 4}" "P' = P"
  | (no_port) rc port P1 where "choose_port E P = (rc, port, P1)" "rc \<noteq> 0" "r = rc" "P' = P1"
  | (no_debuggee) port P1 where "choose_port E P = (0, port, P1)" "r = 6" "P' = P1" "m_pid_attached P = 0"
  | (launched) port P1 compiler target b d x P2 where "choose_port E P = (0, port, P1)"
      "SelectCompiler E p (m_pid_attached P) = Inr (b, compiler, target)" "compiler \<noteq> None"
      "(if m_pid_attached P \<noteq> 0 then Some [] else pe_GetDebuggee E target) = Some d"
      "LaunchDebugger F E p x (pe_FullPath E d) port P1 = Inr (r, P2)" "x = pe_FullPath E (pe_DAP_Executable E)"
      "if r \<noteq> 0 then P' = P2 else \<exists>t. load_watches_file F E p (started t (pe_FullPath E d) p P2) = Inr P'
         \<and> (t \<longleftrightarrow> m_pid_attached P = 0 \<and> (case target of Some t \<Rightarrow> bt_type t = ttConsoleOnly | None \<Rightarrow> False) \<and> \<not> m_pTerminalMgr P2)"
proof -
  obtain b compiler target where sel: "SelectCompiler E p (m_pid_attached P) = Inr (b, compiler, target)"
    using assms by (auto simp: StartDebugger_def bind_err_Inr split: prod.splits)
  obtain rc port P1 where port: "choose_port E P = (rc, port, P1)" by (metis prod_cases3)
  consider "compiler = None \<or> target = None \<and> m_pid_attached P = 0 \<or> \<not> pe_FileExists E (pe_DAP_Executable E)"
    | "compiler \<noteq> None" "target = None \<longrightarrow> m_pid_attached P \<noteq> 0" "pe_FileExists E (pe_DAP_Executable E)" by blast
  then show thesis
  proof cases
    case 1
    then show ?thesis using assms by (intro fails) (auto simp: StartDebugger_def sel Let_def bind_err_def split: if_splits)
  next
    case 2
    show ?thesis
    proof (cases "rc = 0")
      case False
      then show ?thesis using assms 2 by (intro no_port [OF port False]) (auto simp: StartDebugger_def sel port Let_def bind_err_def)
    next
      case rc: True
      show ?thesis
      proof (cases "(if m_pid_attached P \<noteq> 0 then Some [] else pe_GetDebuggee E target)")
        case None
        then show ?thesis using assms 2 rc port
          by (intro no_debuggee [of port P1]) (auto simp: StartDebugger_def sel Let_def bind_err_def split: if_splits)
      next
        case (Some d)
        let ?x = "pe_FullPath E (pe_DAP_Executable E)"
        have "\<exists>P2. LaunchDebugger F E p ?x (pe_FullPath E d) port P1 = Inr (r, P2)
            \<and> (if r \<noteq> 0 then P' = P2 else \<exists>t. load_watches_file F E p (started t (pe_FullPath E d) p P2) = Inr P'
              \<and> (t \<longleftrightarrow> m_pid_attached P = 0 \<and> (case target of Some t \<Rightarrow> bt_type t = ttConsoleOnly | None \<Rightarrow> False) \<and> \<not> m_pTerminalMgr P2))"
          using assms [unfolded StartDebugger_def sel Let_def bind_err_Inr] 2 rc port Some
          by (cases target; cases "m_pid_attached P = 0") (auto simp: bind_err_Inr started_def split: if_splits)
        then obtain P2 where 3: "LaunchDebugger F E p ?x (pe_FullPath E d) port P1 = Inr (r, P2)"
            "if r \<noteq> 0 then P' = P2 else \<exists>t. load_watches_file F E p (started t (pe_FullPath E d) p P2) = Inr P'
              \<and> (t \<longleftrightarrow> m_pid_attached P = 0 \<and> (case target of Some t \<Rightarrow> bt_type t = ttConsoleOnly | None \<Rightarrow> False) \<and> \<not> m_pTerminalMgr P2)"
          by blast
        show ?thesis by (rule launched [OF _ sel 2(1) Some 3(1) refl 3(2)]) (use port rc in simp)
      qed
    qed
  qed
qed

lemma good_started: "good F C K P \<Longrightarrow> good F C K (started b d p P)"
  by (simp add: started_def good_def)

lemma good_choose_port: "choose_port E P = (rc, port, P1) \<Longrightarrow> good F C K P \<Longrightarrow> good F C K P1"
  by (auto simp: choose_port_def Let_def split: if_splits)

lemma good_Start:
  assumes "StartDebugger F E p P = Inr (r, P')" "env_ok C K E" "good F C K P"
  shows "good F C K P'"
  using assms(1)
proof (cases rule: StartDebugger_result)
  case (launched port P1 compiler target b d x P2)
  then have "good F C K P2" using good_Launch good_choose_port assms(3) by blast
  then show ?thesis using launched(7) good_load_file [OF _ assms(2)] good_started by (metis (no_types, lifting))
qed (use good_choose_port assms(3) in blast)+

section \<open>Calls and events\<close>

lemma watches_fine_updated: "UpdateDAPWatches E R u (S, cl) = Inr (S', cl') \<Longrightarrow> watches_fine K S \<Longrightarrow> watches_fine K S'"
  by (auto dest: UpdateDAPWatches_result)

lemma good_update_watch:
  "update_watch F r P = Inr P' \<Longrightarrow> watch_sdk_ok K \<Longrightarrow> good F C K P \<Longrightarrow> good F C K P'"
  unfolding update_watch_def
  by (erule good_on_watches) (auto simp: UpdateWatch_def dest: EvaluateWatch_state(1) split: if_splits)

lemma good_watch_call:
  assumes "watch_call_apply F E c P = Inr P'" "env_ok C K E" "good F C K P"
  shows "good F C K P'"
proof (cases c)
  case (Wc_UpdateDAPWatches u)
  with assms show ?thesis by (auto elim!: good_on_watches dest: watches_fine_updated)
next
  case (Wc_AddWatch s u)
  obtain r S where 1: "AddWatch_symbol (pe_watch E) s (pg_watches P) = (r, S)" by fastforce
  have "watch_apply F (pe_watch E) R 0 (Wop_AddSymbol s) (pg_watches P, Client_new) = Inr (S, Client_new)" for R
    by (simp add: 1)
  then have "good F C K (P\<lparr> pg_watches := S \<rparr>)"
    using good_watch_set [OF _ assms(3) env_okD(1,2) [OF assms(2)]] by blast
  with assms(1,2) Wc_AddWatch 1 show ?thesis by (auto simp: Let_def split: if_splits dest: good_update_watch env_okD)
next
  case (Wc_Delete r)
  have "watch_apply F (pe_watch E) R 0 (Wop_Delete r) (pg_watches P, Client_new)
      = Inr (DeleteWatch (pe_watch E) r (pg_watches P), Client_new)" for R by simp
  with assms(1) Wc_Delete show ?thesis using good_watch_set [OF _ assms(3) env_okD(1,2) [OF assms(2)]] by fastforce
next
  case (Wc_Show a r)
  have "watch_apply F (pe_watch E) R (dbg P) (Wop_Show a r) (pg_watches P, Client_new)
      = Inr (ShowWatchProperties (pe_watch E) (dbg P) a r (pg_watches P), Client_new)" for R by simp
  with assms(1) Wc_Show show ?thesis using good_watch_set [OF _ assms(3) env_okD(1,2) [OF assms(2)]] by fastforce
next
  case (Wc_Expand r)
  with assms show ?thesis by (auto elim!: good_watch_op [where op = "Wop_Expand r"] dest: env_okD)
next
  case (Wc_Update r)
  with assms show ?thesis by (auto dest: good_update_watch env_okD)
next
  case Wc_Do
  have "watch_apply F (pe_watch E) R (dbg P) Wop_Do (pg_watches P, Client_new)
      = Inr (DoWatches (pe_watch E) (dbg P) (pg_watches P), Client_new)" for R by simp
  with assms(1) Wc_Do show ?thesis using good_watch_set [OF _ assms(3) env_okD(1,2) [OF assms(2)]] by fastforce
qed

lemma good_attach:
  assumes "AttachToProcess F E pid P = Inr P'" "env_ok C K E" "good F C K P"
  shows "good F C K P'"
proof (cases "wx_ToLong (ce_num (pe_cb E)) pid")
  case None
  with assms show ?thesis by (auto simp: AttachToProcess_def good_def)
next
  case (Some n)
  then obtain r P1 where 1: "StartDebugger F E 0 (P\<lparr> pg_pProject := 0, m_pid_attached := n \<rparr>) = Inr (r, P1)"
      "P' = on_client (Attach F (pe_pid E) (wrap32 n) [show_int n]) P1"
    using assms(1) by (auto simp: AttachToProcess_def Let_def bind_err_Inr)
  have "good F C K (P\<lparr> pg_pProject := 0, m_pid_attached := n \<rparr>)" using assms(3) by (simp add: good_def)
  from good_Start [OF 1(1) assms(2) this] show ?thesis by (simp add: 1(2))
qed

lemma good_control: "good F C K P \<Longrightarrow> good F C K (control_apply F c P)"
  by (cases c) (simp_all add: good_def)

lemma good_callback:
  assumes "plugin_callback_result F E cb s r t v P = Inr P'" "env_ok C K E" "good F C K P"
  shows "good F C K P'"
proof (cases cb)
  case (Cb_Watch token w)
  with assms show ?thesis
    by (auto simp: plugin_callback_result_def dest: env_okD
        elim!: good_watch_op [where op = "Wop_Callback s r t w"])
next
  case (Cb_Memory x)
  have "good F C K (fold (\<lambda>c. call (ShowMemory c)) cs P)" for cs
    using assms(3) by (induction cs arbitrary: P) (simp_all add: good_def)
  with assms Cb_Memory show ?thesis
    by (auto simp: plugin_callback_result_def GetMemoryCallback_def Let_def bind_err_Inr split: if_splits)
qed (use assms in \<open>auto simp: plugin_callback_result_def EvaluateExpressionCallback_def Let_def split: if_splits\<close>)

lemma good_failed: "good F C K P \<Longrightarrow> good F C K (failed E x e b P)"
  by (simp add: failed_def Let_def good_reset)

lemma good_disassembly: "disassembly E ds P = Inr P' \<Longrightarrow> good F C K P \<Longrightarrow> good F C K P'"
  by (induction E ds P rule: disassembly.induct) (auto simp: Let_def split: option.splits if_splits)

lemma good_launch: "launch_debuggee F E P = Inr P' \<Longrightarrow> good F C K P \<Longrightarrow> good F C K P'"
  by (auto simp: launch_debuggee_def Let_def good_def split: list.splits option.splits)

lemma good_initialize:
  assumes "OnInitializeResponse_plugin F E e P = Inr P'" "env_ok C K E" "good F C K P"
  shows "good F C K P'"
proof -
  obtain resp where resp: "(case response_of e of Some (Rs_Initialize x) \<Rightarrow> Some x | _ \<Rightarrow> None) = resp" by blast
  note r = assms(1) [unfolded OnInitializeResponse_plugin_def resp env_okD(3) [OF assms(2)] Let_def [of resp] bind_err_Inr]
  then obtain P1 where 1: "on_bps (bp_apply F C (B_InitializeResponse resp)) P = Inr P1" by blast
  have g: "good F C K P1" by (rule good_on_bps [OF 1 assms(3)]) (simp add: op_ok_def)
  show ?thesis
  proof (cases resp)
    case None
    then show ?thesis using r 1 g by simp
  next
    case (Some x)
    define P2 where "P2 = (let c = ip_capabilities x;
        P = P1\<lparr> pg_supports := capability_update c (pg_supports P1) \<rparr>;
        P = (case cp_completionTriggerCharacters c of Some v \<Rightarrow> P\<lparr> vCompletionTriggerCharacters := v \<rparr> | None \<Rightarrow> P)
      in case cp_additionalModuleColumns c of Some v \<Rightarrow> P\<lparr> vAdditionalModuleColumns := v \<rparr> | None \<Rightarrow> P)"
    have "good F C K P2" using g by (auto simp: P2_def Let_def good_def split: option.splits)
    moreover have "P' = P1 \<or> P' = P2 \<or> launch_debuggee F E P2 = Inr P'"
      using r 1 Some by (auto simp: P2_def Let_def split: if_splits)
    ultimately show ?thesis using g good_launch by blast
  qed
qed

lemma good_stopped:
  assumes "OnStopped F E e P = Inr P'" "env_ok C K E" "good F C K P"
  shows "good F C K P'"
proof -
  define P1 where "P1 = (let P = on_state (Add Stopped) P;
      P = (if m_steppingIntoInstruction P
           then let P = P\<lparr> m_steppingIntoInstruction := False \<rparr>
                in if pe_DisassemblyDialog E \<and> \<not> we_DisassemblyShown (pe_watch E) then call ShowDisassembly P else P
           else P)
    in P\<lparr> pg_stack := CallStack_ResetData (pg_stack P) \<rparr>)"
  have g: "good F C K P1" using assms(3) by (simp add: P1_def Let_def good_def)
  have pr: "good F C K P2" if "on_bps (bp_apply F C (B_Process d)) P1 = Inr P2" for d P2
    by (rule good_on_bps [OF that g]) (simp add: op_ok_def)
  have "\<exists>op P2. (P2 = P1 \<or> P2 = on_client (GetThreads F) (on_client (GetFrames F wxNOT_FOUND 0 0) P1)
      \<or> on_bps (bp_apply F C (B_Process op)) P1 = Inr P2) \<and> P' = call MarkStopped P2"
    using assms(1,2) unfolding OnStopped_def Let_def P1_def
    by (auto simp: bind_err_Inr env_okD(3) split: option.splits DapMessage.splits DapEvent.splits if_splits)
  then show ?thesis using g pr by auto
qed

lemma good_handlers:
  assumes "good F C K P"
  shows "good F C K (OnTerminated E P)" "good F C K (OnOutput e P)" "good F C K (OnConnectionError_plugin E P)"
    "good F C K (OnLaunchResponse E e P)" "good F C K (OnConfigurationDoneResponse E e P)"
    "good F C K (OnRunInTerminalRequest F E e P)" "good F C K (OnThreadsResponse_plugin e P)"
    "good F C K (OnContinuedEvent P)" "good F C K (OnAttachToProcessResponse e P)"
proof -
  show "good F C K (OnTerminated E P)" by (simp add: OnTerminated_def good_reset assms)
  show "good F C K (OnOutput e P)"
    by (auto simp: OnOutput_def assms split: option.split DapMessage.split DapEvent.split)
  show "good F C K (OnConnectionError_plugin E P)"
    by (simp add: OnConnectionError_plugin_def Let_def good_reset assms)
  show "good F C K (OnLaunchResponse E e P)"
    by (auto simp: OnLaunchResponse_def good_failed assms split: option.split DapResponse.split)
  show "good F C K (OnConfigurationDoneResponse E e P)"
    by (auto simp: OnConfigurationDoneResponse_def good_failed assms split: option.split DapResponse.split)
  show "good F C K (OnRunInTerminalRequest F E e P)"
    by (auto simp: OnRunInTerminalRequest_def Let_def assms split: option.split DapMessage.split DapRequest.split prod.split)
  show "good F C K (OnThreadsResponse_plugin e P)"
    using assms by (simp add: OnThreadsResponse_plugin_def Let_def good_def)
  show "good F C K (OnContinuedEvent P)" by (simp add: OnContinuedEvent_def assms)
  show "good F C K (OnAttachToProcessResponse e P)"
    using assms by (auto simp: OnAttachToProcessResponse_def Let_def good_def split: option.split DapResponse.split)
qed

lemma good_event:
  assumes "plugin_event F E e P = Inr P'" "env_ok C K E" "good F C K P"
  shows "good F C K P'"
proof (cases "de_type e")
  case wxEVT_DAP_STOPPED_EVENT
  with assms good_stopped show ?thesis by (simp add: plugin_event_def)
next
  case wxEVT_DAP_INITIALIZED_EVENT
  then obtain P1 where 1: "on_bps (bp_apply F C B_Initialized) P = Inr P1"
      "P' = on_client (ConfigurationDone F) (P1\<lparr> pg_watches := pg_watches P1 \<rparr>)"
    using assms(1) env_okD(3) [OF assms(2)]
    by (auto simp: plugin_event_def OnInitializedEvent_plugin_def bind_err_Inr OnInitializedEvent_watches_def)
  from good_on_bps [OF 1(1) assms(3)] show ?thesis by (simp add: 1(2) op_ok_def)
next
  case wxEVT_DAP_INITIALIZE_RESPONSE
  with assms good_initialize show ?thesis by (simp add: plugin_event_def)
next
  case wxEVT_DAP_SCOPES_RESPONSE
  let ?r = "case response_of e of Some (Rs_Scopes r) \<Rightarrow> Some r | _ \<Rightarrow> None"
  from wxEVT_DAP_SCOPES_RESPONSE assms(1) have "on_watches (\<lambda>x. Inr (OnScopes F (pe_watch E) ?r x)) P = Inr P'"
    by (simp add: plugin_event_def OnScopes_plugin_def)
  then show ?thesis by (rule good_watch_op [where op = "Wop_Scopes ?r"]) (use assms env_okD in auto)
next
  case wxEVT_DAP_VARIABLES_RESPONSE
  let ?r = "case response_of e of Some (Rs_Variables r) \<Rightarrow> Some r | _ \<Rightarrow> None"
  from wxEVT_DAP_VARIABLES_RESPONSE assms(1) have "on_watches (OnVariables F (pe_watch E) (updater_of F E P) ?r) P = Inr P'"
    by (simp add: plugin_event_def OnVariables_plugin_def)
  then show ?thesis by (rule good_watch_op [where op = "Wop_Variables ?r"]) (use assms env_okD in auto)
next
  case wxEVT_DAP_SET_SOURCE_BREAKPOINT_RESPONSE
  with assms show ?thesis
    by (auto simp: plugin_event_def OnBreakpointDataSet_plugin_def env_okD(3) op_ok_def dest!: good_on_bps)
next
  case wxEVT_DAP_STACKTRACE_RESPONSE
  obtain r where r: "(case response_of e of Some (Rs_StackTrace x) \<Rightarrow> Some x | _ \<Rightarrow> None) = r" by blast
  obtain P1 where 1: "on_stack (OnStackTrace (pe_call E) (dbg P) r) P = Inr P1"
      "(case r of None \<Rightarrow> Inr P1
        | Some x \<Rightarrow> (case find (\<lambda>s. src_path (sf_source s) \<noteq> [] \<and> pe_FileExists E (src_path (sf_source s))) (ks_stackFrames x) of
             None \<Rightarrow> Inr P1
           | Some s \<Rightarrow> Inr (on_client (GetScopes F (sf_id s)) (call (SyncEditor (src_path (sf_source s)) (sf_line s)) P1))))
       = (Inr P' :: plugin_error + 'a Plugin)"
    using assms(1) wxEVT_DAP_STACKTRACE_RESPONSE
    unfolding plugin_event_def OnStackTrace_plugin_def r Let_def [of r] by (auto simp: bind_err_Inr)
  from good_on_stack [OF 1(1) assms(3)] 1(2) show ?thesis by (auto split: option.splits)
next
  case wxEVT_DAP_DISASSEMBLE_RESPONSE
  with assms show ?thesis
    by (auto simp: plugin_event_def OnDisassembleResponse_def split: option.splits DapResponse.splits if_splits
        elim!: good_for_frame dest: good_disassembly)
next
  case wxEVT_DAP_GOTOTARGETS_RESPONSE
  with assms show ?thesis
    by (auto simp: plugin_event_def OnGotoTargetsResponse_def for_frame_def Let_def
        split: option.splits DapResponse.splits if_splits)
next
  case wxEVT_DAP_EXITED_EVENT
  with assms show ?thesis
    by (auto simp: plugin_event_def OnExited_def split: option.splits DapMessage.splits DapEvent.splits)
qed (use assms good_handlers [of F C K P] in \<open>auto simp: plugin_event_def\<close>)

lemma good_apply:
  assumes "plugin_apply F E op P = Inr P'" "env_ok C K E" "good F C K P" "\<And>f s n. op = P_Breakpoint (Bc_Shift f s n) \<Longrightarrow> 0 \<le> n"
  shows "good F C K P'"
proof (cases op)
  case (P_CompilerFinished b t)
  have "good F C K (P\<lparr> pg_bps := CompilerFinished b t (pg_bps P) \<rparr>)" using assms(3) by (simp add: good_def)
  with assms P_CompilerFinished show ?thesis
    by (auto simp: CompilerFinished_plugin_def Let_def map_sum_Inr split: if_splits dest: good_Start)
next
  case (P_RunToCursor f l)
  then obtain P1 where 1: "on_bps (bp_apply F C (B_RunToCursor f l)) P = Inr P1" "P' = P1 \<or> P' = snd (Debug E False P1)"
    using assms(1,2) by (auto simp: RunToCursor_plugin_def bind_err_Inr map_sum_Inr env_okD(3) split: if_splits)
  have "good F C K P1" by (rule good_on_bps [OF 1(1) assms(3)]) (simp add: op_ok_def)
  with 1(2) show ?thesis by (auto simp: Debug_def Let_def good_def)
next
  case (P_Breakpoint b)
  then have "on_bps (bp_apply F C (bp_op_of b)) P = Inr P'" using assms(1,2) by (simp add: env_okD(3))
  then show ?thesis by (rule good_on_bps [OF _ assms(3)]) (use assms(4) P_Breakpoint in \<open>cases b; simp add: op_ok_def\<close>)
next
  case (P_SwitchToThread t)
  with assms show ?thesis by (auto simp: SwitchToThread_plugin_def good_def split: prod.splits)
next
  case (P_RequestUpdate u)
  with assms show ?thesis
    by (auto simp: RequestUpdate_plugin_def map_sum_Inr elim!: good_on_watches)
next
  case (P_Detach)
  with assms show ?thesis by (auto simp: DetachFromProcess_def good_def)
next
  case (P_Event e)
  with assms good_event show ?thesis by simp
next
  case (P_Result cb b r t v)
  with assms good_callback show ?thesis by simp
next
  case (P_Watch c)
  with assms good_watch_call show ?thesis by simp
next
  case (P_AttachToProcess s)
  with assms good_attach show ?thesis by simp
next
  case (P_ProjectClosed p)
  with assms good_project_closed show ?thesis by simp
next
  case (P_ProjectOpened p)
  with assms good_project_opened show ?thesis by simp
next
  case (P_Release b)
  with assms good_release show ?thesis by auto
next
  case (P_Control c)
  with assms good_control show ?thesis by auto
next
  case P_Stop
  with assms show ?thesis by (auto simp: Stop_def good_reset Let_def)
next
  case (P_SwitchToFrame n)
  with assms show ?thesis by (auto simp: SwitchToFrame_plugin_def dest: good_on_stack)
qed (use assms in \<open>auto simp: OnAttachReal_def good_def Debug_def SetNextStatement_def EvaluateExpressionWithCallback_def
    SendCommand_def OnEditorOpened_def for_frame_def Let_def bind_err_Inr split: if_splits option.splits prod.splits\<close>)

lemma session_good:
  assumes "plugin_session F C K P" "watch_sdk_ok K"
  shows "good F C K P"
  using assms(1)
proof induction
  case (plugin_starts u)
  show ?case by (rule good_start [OF assms(2)])
next
  case (plugin_steps P E op P')
  have "env_ok C K E" using plugin_steps.hyps(2,3) assms(2) by (simp add: env_ok_def)
  from good_apply [OF plugin_steps.hyps(5) this plugin_steps.IH] plugin_steps.hyps(4) show ?case by blast
qed

section \<open>No operation hangs\<close>

definition hangs :: "plugin_error + 'a \<Rightarrow> bool" where
  "hangs x \<longleftrightarrow> x = Inl (Watch_error NoReturn)"

lemma hangs_map [simp]: "hangs (map_sum id g x) \<longleftrightarrow> hangs x"
  by (cases x) (auto simp: hangs_def)

lemma hangs_simps [simp]:
  "\<not> hangs (Inr a)" "hangs (Inl e) \<longleftrightarrow> e = Watch_error NoReturn"
  "hangs (bind_err x f) \<longleftrightarrow> hangs x \<or> (\<exists>a. x = Inr a \<and> hangs (f a))"
  "\<not> hangs (on_bps h P)" "\<not> hangs (on_stack k P)" "hangs (on_watches w P) \<longleftrightarrow> w (pg_watches P, the_client P) = Inl NoReturn"
  by (auto simp: hangs_def bind_err_def on_bps_def on_stack_def on_watches_def split: sum.splits option.splits)

lemma hangs_for_frame [simp]: "hangs (for_frame f P) \<Longrightarrow> \<exists>s. hangs (f s P)"
  by (auto simp: for_frame_def Let_def split: if_splits option.splits)

lemma updater_returns: "updater_of F E P d c \<noteq> Inl NoReturn"
  by (auto simp: updater_of_def RequestUpdate_def GetMemoryWithCallback_def active_stack_id_def bind_err_def Let_def
      split: DebugWindows.splits option.splits sum.splits if_splits)

lemma watch_returns:
  assumes "good F C K P" "env_ok C K E" "\<And>d c. R d c \<noteq> Inl NoReturn"
  shows "watch_apply F (pe_watch E) R w op (pg_watches P, cl) \<noteq> Inl NoReturn"
  using watch_apply_returns [where R = R and E = "pe_watch E" and S = "pg_watches P", OF _ _ assms(3)] goodD(2) [OF assms(1)] env_okD(1,2) [OF assms(2)]
  by (simp add: watches_fine_def)

lemma load_file_returns:
  assumes "good F C K P" "env_ok C K E"
  shows "\<not> hangs (load_watches_file F E p P)"
proof -
  have "LoadStateFromFile_watches F (pe_watch E) (dbg P) root p (pg_watches P, cl) \<noteq> Inl NoReturn"
      for root and cl :: "plugin_callback Client"
    using watch_returns [OF assms, of "\<lambda>d c. Inr c" "dbg P" "Wop_Load root p" cl] by simp
  then show ?thesis by (auto simp: load_watches_file_def split: option.split)
qed

lemma SelectCompiler_returns: "\<not> hangs (SelectCompiler E p n)"
  by (auto simp: SelectCompiler_def Let_def split: option.split)

lemma Launch_returns: "\<not> hangs (LaunchDebugger F E p x d port P)"
proof -
  have 1: "\<not> hangs (LaunchDAPDebugger E p x port P)" for P :: "'a Plugin"
    by (auto simp: LaunchDAPDebugger_def SelectCompiler_returns Let_def split: prod.splits bool.splits)
  show ?thesis
    by (auto simp: LaunchDebugger_def Let_def 1 SelectCompiler_returns split: option.splits if_splits)
qed

lemma Start_returns:
  assumes "good F C K P" "env_ok C K E"
  shows "\<not> hangs (StartDebugger F E p P)"
proof
  assume h: "hangs (StartDebugger F E p P)"
  then obtain b compiler target where sel: "SelectCompiler E p (m_pid_attached P) = Inr (b, compiler, target)"
    by (auto simp: StartDebugger_def SelectCompiler_returns)
  obtain rc port P1 where port: "choose_port E P = (rc, port, P1)" by (metis prod_cases3)
  have g: "good F C K P1" by (rule good_choose_port [OF port assms(1)])
  obtain x d P2 t where 2: "LaunchDebugger F E p x d port P1 = Inr (0, P2)" "hangs (load_watches_file F E p (started t d p P2))"
    using h sel unfolding StartDebugger_def sel port Let_def
    by (auto simp: Launch_returns started_def split: if_splits option.splits)
  from good_Launch [OF 2(1) g] have "good F C K (started t d p P2)" by (rule good_started)
  from load_file_returns [OF this assms(2)] 2(2) show False ..
qed

lemma event_returns:
  assumes "good F C K P" "env_ok C K E"
  shows "\<not> hangs (plugin_event F E e P)"
proof (cases "de_type e")
  case wxEVT_DAP_VARIABLES_RESPONSE
  let ?r = "case response_of e of Some (Rs_Variables r) \<Rightarrow> Some r | _ \<Rightarrow> None"
  have "OnVariables F (pe_watch E) (updater_of F E P) ?r (pg_watches P, the_client P) \<noteq> Inl NoReturn"
    using watch_returns [OF assms, of "updater_of F E P" "dbg P" "Wop_Variables ?r", OF updater_returns] by simp
  with wxEVT_DAP_VARIABLES_RESPONSE show ?thesis by (simp add: plugin_event_def OnVariables_plugin_def)
next
  case wxEVT_DAP_DISASSEMBLE_RESPONSE
  have "\<not> hangs (disassembly E ds P)" for ds P
    by (induction E ds P rule: disassembly.induct) (auto simp: Let_def split: option.splits)
  with wxEVT_DAP_DISASSEMBLE_RESPONSE show ?thesis
    by (auto simp: plugin_event_def OnDisassembleResponse_def dest: hangs_for_frame split: option.splits DapResponse.splits)
next
  case wxEVT_DAP_GOTOTARGETS_RESPONSE
  then show ?thesis
    by (auto simp: plugin_event_def OnGotoTargetsResponse_def Let_def dest!: hangs_for_frame split: option.splits DapResponse.splits if_splits)
next
  case wxEVT_DAP_STOPPED_EVENT
  then show ?thesis
    by (auto simp: plugin_event_def OnStopped_def Let_def split: option.splits DapMessage.splits DapEvent.splits if_splits)
next
  case wxEVT_DAP_INITIALIZE_RESPONSE
  have "\<not> hangs (launch_debuggee F E P)" for P
    by (auto simp: launch_debuggee_def Let_def split: list.splits option.splits)
  with wxEVT_DAP_INITIALIZE_RESPONSE show ?thesis
    by (auto simp: plugin_event_def OnInitializeResponse_plugin_def Let_def split: option.splits if_splits)
next
  case wxEVT_DAP_STACKTRACE_RESPONSE
  then show ?thesis by (auto simp: plugin_event_def OnStackTrace_plugin_def Let_def split: option.splits)
next
  case wxEVT_DAP_EXITED_EVENT
  then show ?thesis by (auto simp: plugin_event_def OnExited_def split: option.splits DapMessage.splits DapEvent.splits)
qed (auto simp: plugin_event_def OnInitializedEvent_plugin_def Let_def OnScopes_plugin_def OnBreakpointDataSet_plugin_def)


lemma update_watch_returns: "\<not> hangs (update_watch F r P)"
  by (simp add: update_watch_def UpdateWatch_def EvaluateWatch_state(2))

lemma watch_call_returns:
  assumes "good F C K P" "env_ok C K E"
  shows "\<not> hangs (watch_call_apply F E c P)"
proof (cases c)
  case (Wc_UpdateDAPWatches u)
  then show ?thesis by (simp add: UpdateDAPWatches_returns updater_returns)
qed (simp_all add: update_watch_returns case_prod_beta Let_def)

lemma result_returns:
  assumes "good F C K P" "env_ok C K E"
  shows "\<not> hangs (plugin_callback_result F E cb b r t v P)"
proof (cases cb)
  case (Cb_Watch token w)
  from watch_returns [OF assms, of "updater_of F E P" 0 "Wop_Callback b r t w", OF updater_returns] Cb_Watch
  show ?thesis by (simp add: plugin_callback_result_def)
next
  case (Cb_Memory x)
  have "\<not> hangs (memory_line E l)" for l
    by (auto simp: memory_line_def Let_def split: option.split prod.split bool.split)
  then have "\<not> hangs (memory_lines E ls)" for ls by (induction ls) auto
  with Cb_Memory show ?thesis by (simp add: plugin_callback_result_def GetMemoryCallback_def Let_def)
qed (simp_all add: plugin_callback_result_def)

lemma load_state_returns:
  assumes "good F C K P" "env_ok C K E"
  shows "\<not> hangs (LoadStateFromFile_plugin F E p P)"
proof
  assume "hangs (LoadStateFromFile_plugin F E p P)"
  then obtain root P1 where 1: "on_bps (bp_apply F (pe_cb E) (B_Load root p)) P = Inr P1" "hangs (load_watches_file F E p P1)"
    by (auto simp: LoadStateFromFile_plugin_def Let_def split: if_splits option.splits)
  have "good F C K P1" by (rule good_on_bps [OF 1(1) [unfolded env_okD(3) [OF assms(2)]] assms(1)]) (simp add: op_ok_def)
  from load_file_returns [OF this assms(2)] 1(2) show False ..
qed

lemma save_state_returns: "\<not> hangs (SaveStateToFile_plugin E p P)"
  by (simp add: SaveStateToFile_plugin_def Let_def)

lemma apply_returns:
  assumes "good F C K P" "env_ok C K E"
  shows "\<not> hangs (plugin_apply F E op P)"
proof (cases op)
  case (P_ProjectOpened p)
  then show ?thesis by (simp add: OnProjectOpened_def load_state_returns [OF assms])
next
  case (P_ProjectClosed p)
  then show ?thesis by (simp add: CleanupWhenProjectClosed_plugin_def save_state_returns Let_def)
next
  case (P_CompilerFinished b t)
  have "good F C K (P\<lparr> pg_bps := CompilerFinished b t (pg_bps P) \<rparr>)" using assms(1) by (simp add: good_def)
  from Start_returns [OF this assms(2)] P_CompilerFinished show ?thesis
    by (cases b) (simp_all add: CompilerFinished_plugin_def Let_def)
next
  case (P_RunToCursor f l)
  then show ?thesis by (simp add: RunToCursor_plugin_def)
next
  case (P_Watch c)
  with watch_call_returns [OF assms] show ?thesis by simp
next
  case (P_SwitchToFrame n)
  then show ?thesis by (simp add: SwitchToFrame_plugin_def)
next
  case (P_Tooltip s)
  then show ?thesis by (auto simp: EvaluateExpressionWithCallback_def dest: hangs_for_frame)
next
  case (P_RequestUpdate u)
  have "map_sum id (Pair S) (updater_of F E P u cl) \<noteq> Inl NoReturn" for S cl
    using updater_returns [of F E P u cl] by (cases "updater_of F E P u cl") auto
  with P_RequestUpdate show ?thesis by (simp add: RequestUpdate_plugin_def)
next
  case (P_SendCommand s)
  then show ?thesis by (auto simp: SendCommand_def dest: hangs_for_frame)
next
  case (P_AttachToProcess s)
  have "good F C K (P\<lparr> pg_pProject := 0, m_pid_attached := n \<rparr>)" for n using assms(1) by (simp add: good_def)
  from Start_returns [OF this assms(2)] P_AttachToProcess show ?thesis
    by (auto simp: AttachToProcess_def Let_def split: option.split)
next
  case (P_EditorOpened f)
  then show ?thesis by (auto simp: OnEditorOpened_def GetCurrentPosition_def Let_def split: option.splits)
next
  case (P_Event e)
  with event_returns [OF assms] show ?thesis by simp
next
  case (P_Result cb b r t v)
  with result_returns [OF assms] show ?thesis by simp
qed simp_all


section \<open>What sessions do to the flags and the fields\<close>

lemma session_flags:
  assumes "plugin_session F C K P" "watch_sdk_ok K"
  obtains n c r where "dbg P = flags n c True r" "r \<longrightarrow> c"
proof -
  obtain ops where "bp_session F C ops (pg_bps P)"
    using goodD(1) [OF session_good [OF assms]] by (auto simp: bps_fine_def)
  then have "dbg_inv (dbg P)" and st: "IsStopped (dbg P)"
    using stop.bp_session_inv by (auto simp: always_stopped_def dbg_def)
  then obtain n c s r where "dbg P = flags n c s r" "r \<longrightarrow> c" by (elim dbg_invE)
  with st that [of n c r] show thesis by simp
qed

lemma dbg_parts [simp]:
  "dbg (call c P) = dbg P" "dbg (on_client f P) = dbg P" "dbg (on_state op P) = dbg_step op (dbg P)"
  "dbg (kill_adapter P) = dbg P" "m_dapPid (kill_adapter P) = 0"
  by (simp_all add: dbg_def call_def on_client_def on_state_def kill_adapter_def with_client_def)

lemma field_parts [simp]:
  "m_pid_attached (call c P) = m_pid_attached P" "m_pid_attached (on_client f P) = m_pid_attached P"
  "m_pid_attached (on_state op P) = m_pid_attached P" "m_pid_attached (kill_adapter P) = m_pid_attached P"
  "pg_timer (call c P) = pg_timer P" "pg_timer (on_client f P) = pg_timer P" "pg_timer (on_state op P) = pg_timer P"
  "pg_timer (kill_adapter P) = pg_timer P" "m_dapPid (call c P) = m_dapPid P" "m_dapPid (on_client f P) = m_dapPid P"
  "m_dapPid (on_state op P) = m_dapPid P" "m_appShutDown (call c P) = m_appShutDown P"
  "m_appShutDown (on_client f P) = m_appShutDown P" "m_appShutDown (on_state op P) = m_appShutDown P"
  "m_appShutDown (kill_adapter P) = m_appShutDown P"
  "m_DAP_DebuggeeStartCMD (call c P) = m_DAP_DebuggeeStartCMD P"
  "m_DAP_DebuggeeStartCMD (on_client f P) = m_DAP_DebuggeeStartCMD P"
  "m_DAP_DebuggeeStartCMD (on_state op P) = m_DAP_DebuggeeStartCMD P"
  "pg_calls (call c P) = pg_calls P @ [c]" "pg_calls (on_client f P) = pg_calls P" "pg_calls (on_state op P) = pg_calls P"
  "pg_calls (kill_adapter P) = pg_calls P @ (if m_dapPid P \<noteq> 0 then [Kill (m_dapPid P)] else [])"
  "the_client (call c P) = the_client P" "the_client (on_state op P) = the_client P"
  "the_client (on_client f P) = f (the_client P)" "the_client (kill_adapter P) = the_client P"
  "pg_files (call c P) = pg_files P" "pg_files (on_client f P) = pg_files P" "pg_files (on_state op P) = pg_files P"
  by (simp_all add: call_def on_client_def on_state_def kill_adapter_def the_client_def with_client_def)

lemma dbg_record [simp]:
  "dbg (P\<lparr> pg_timer := t \<rparr>) = dbg P" "dbg (P\<lparr> pg_stack := C \<rparr>) = dbg P" "dbg (P\<lparr> m_dapPid := d \<rparr>) = dbg P"
  "dbg (P\<lparr> pg_bps := DAPDebuggerResetData b (pg_bps P) \<rparr>) = dbg P" "dbg (P\<lparr> pg_watches := W \<rparr>) = dbg P"
  "dbg (P\<lparr> m_DAP_DebuggeeStartCMD := l \<rparr>) = dbg P" "dbg (P\<lparr> m_DapDebuggerPortArgFormat := a \<rparr>) = dbg P"
  "dbg (P\<lparr> m_debuggeeEnv := e \<rparr>) = dbg P" "dbg (P\<lparr> m_pid_attached := n \<rparr>) = dbg P"
  "the_client (P\<lparr> pg_timer := t \<rparr>) = the_client P" "the_client (P\<lparr> m_DAP_DebuggeeStartCMD := l \<rparr>) = the_client P"
  "the_client (P\<lparr> pg_supports := s \<rparr>) = the_client P" "the_client (P\<lparr> vCompletionTriggerCharacters := v \<rparr>) = the_client P"
  "the_client (P\<lparr> vAdditionalModuleColumns := w \<rparr>) = the_client P" "dbg (P\<lparr> pg_supports := s \<rparr>) = dbg P"
  "dbg (P\<lparr> vCompletionTriggerCharacters := v \<rparr>) = dbg P" "dbg (P\<lparr> vAdditionalModuleColumns := w \<rparr>) = dbg P"
  by (simp_all add: dbg_def the_client_def DAPDebuggerResetData_def Let_def)

lemma reset_dbg: "dbg (DAPDebuggerResetData_plugin E t P) = dbg_step (Remove Connected) (dbg P)"
  by (simp add: DAPDebuggerResetData_plugin_def Let_def dbg_def bps_state_def DAPDebuggerResetData_def with_client_def)

lemma reset_fields:
  "m_pid_attached (DAPDebuggerResetData_plugin E t P) = m_pid_attached P"
  "m_dapPid (DAPDebuggerResetData_plugin E t P) = 0" "\<not> pg_timer (DAPDebuggerResetData_plugin E t P)"
  "pg_calls (DAPDebuggerResetData_plugin E t P) = pg_calls P @ (if m_dapPid P \<noteq> 0 then [Kill (m_dapPid P)] else [])
     @ [ClearActiveMark, MarkStopped, DebuggerFinished] @ (if m_appShutDown P then [] else [PreviousLayout])"
  by (simp_all add: DAPDebuggerResetData_plugin_def Let_def)


lemma LaunchDAP_fields:
  "LaunchDAPDebugger E p d n P = Inr P' \<Longrightarrow> dbg P' = dbg P \<and> m_pid_attached P' = m_pid_attached P"
  by (cases "FindPortArgFormat (pe_help E)"; cases "fst (FindPortArgFormat (pe_help E))")
    (auto simp: LaunchDAPDebugger_def Let_def bind_err_Inr)

lemma Launch_result:
  assumes "LaunchDebugger F E p x d port P = Inr (rc, P')" "port \<noteq> []" "dbg P = flags n c s r"
  shows "m_pid_attached P' = m_pid_attached P \<and>
    (rc = 1 \<and> dbg P' = flags n False True False \<and> m_dapPid P' = 0 \<and> \<not> pg_timer P' \<or>
     rc = 0 \<and> dbg P' = flags False True True False \<and> pg_timer P' \<and>
     (\<exists>b compiler target. SelectCompiler E p (m_pid_attached P) = Inr (b, compiler, target) \<and>
        (if m_pid_attached P \<noteq> 0 then m_DAP_DebuggeeStartCMD P' = debuggee_command E d []
         else \<exists>t. target = Some t \<and> m_DAP_DebuggeeStartCMD P' = debuggee_command E d (bt_ExecutionParameters t))))"
proof -
  define P0 where "P0 = DAPDebuggerResetData_plugin E ResetData_Startup P"
  have 0: "dbg P0 = flags n False True False" "m_dapPid P0 = 0" "\<not> pg_timer P0" "m_pid_attached P0 = m_pid_attached P"
    using assms(3) by (simp_all add: P0_def reset_dbg reset_fields)
  show ?thesis
  proof (cases "x = []")
    case True
    with assms(1) 0 show ?thesis by (auto simp: LaunchDebugger_def P0_def)
  next
    case False
    then obtain P1 where 1: "(if pe_RunDAPServer E then LaunchDAPDebugger E p x port P0 else Inr P0) = Inr P1"
      using assms(1,2) unfolding LaunchDebugger_def Let_def P0_def [symmetric] by (simp add: bind_err_Inr) blast
    have P1: "dbg P1 = flags n False True False" "m_pid_attached P1 = m_pid_attached P"
      using 1 0 by (auto split: if_splits dest: LaunchDAP_fields)
    have tm: "\<not> pg_timer P1" using 1 0(3)
      by (cases "FindPortArgFormat (pe_help E)"; cases "fst (FindPortArgFormat (pe_help E))")
        (auto simp: LaunchDAPDebugger_def Let_def bind_err_Inr split: if_splits)
    note l = assms(1) [unfolded LaunchDebugger_def Let_def, folded P0_def, unfolded 1 bind_err_simps if_not_P [OF False] if_not_P [OF assms(2)]]
    show ?thesis
    proof (cases "pe_Connect E")
      case no: False
      then show ?thesis using l P1 tm by auto
    next
      case True
      obtain b compiler target where sel: "SelectCompiler E p (m_pid_attached P) = Inr (b, compiler, target)"
        using l True P1 by (auto simp: bind_err_Inr)
      show ?thesis
        using l True P1 sel by (cases target) (auto simp: bind_err_Inr split: if_splits)
    qed
  qed
qed


lemma load_file_keeps:
  assumes "load_watches_file F E p P = Inr P'"
  shows "dbg P' = dbg P" "m_pid_attached P' = m_pid_attached P" "pg_timer P' = pg_timer P"
    "m_DAP_DebuggeeStartCMD P' = m_DAP_DebuggeeStartCMD P"
  using assms by (auto simp: load_watches_file_def on_watches_def split: if_splits option.splits sum.splits)

lemma started_fields [simp]:
  "dbg (started t d p P) = dbg P" "m_pid_attached (started t d p P) = m_pid_attached P"
  "pg_timer (started t d p P) = pg_timer P" "m_DAP_DebuggeeStartCMD (started t d p P) = m_DAP_DebuggeeStartCMD P"
  by (simp_all add: started_def dbg_def SetProject_def SetDebuggee_def)

lemma choose_port_result:
  assumes "choose_port E P = (rc, port, P1)"
  shows "rc \<in> {0, 6, 7}" "\<exists>l. P1 = P\<lparr> pg_calls := l \<rparr>" "rc = 0 \<Longrightarrow> port \<noteq> []"
proof -
  have P: "\<exists>l. P = P\<lparr> pg_calls := l \<rparr>" by (rule exI [of _ "pg_calls P"]) simp
  have "show_int n \<noteq> []" for n by (simp add: show_int_def show_nat_nonempty)
  then show "rc \<in> {0, 6, 7}" "\<exists>l. P1 = P\<lparr> pg_calls := l \<rparr>" "rc = 0 \<Longrightarrow> port \<noteq> []"
    using assms P by (auto simp: choose_port_def Let_def call_def split: if_splits)
qed

lemma calls_record [simp]: "dbg (P\<lparr> pg_calls := l \<rparr>) = dbg P" by (simp add: dbg_def)

text \<open>A start that gets as far as \<open>LaunchDebugger\<close>.\<close>

lemma Start_launched:
  assumes "StartDebugger F E p P = Inr (0, P')" "dbg P = flags n c s r"
  shows "dbg P' = flags False True True False" "pg_timer P'" "m_pid_attached P' = m_pid_attached P"
    "\<exists>b compiler target d. SelectCompiler E p (m_pid_attached P) = Inr (b, compiler, target) \<and>
       (if m_pid_attached P \<noteq> 0 then m_DAP_DebuggeeStartCMD P' = debuggee_command E (pe_FullPath E []) []
        else \<exists>t. target = Some t \<and> pe_GetDebuggee E (Some t) = Some d
          \<and> m_DAP_DebuggeeStartCMD P' = debuggee_command E (pe_FullPath E d) (bt_ExecutionParameters t))"
proof -
  have "dbg P' = flags False True True False \<and> pg_timer P' \<and> m_pid_attached P' = m_pid_attached P \<and>
    (\<exists>b compiler target d. SelectCompiler E p (m_pid_attached P) = Inr (b, compiler, target) \<and>
       (if m_pid_attached P \<noteq> 0 then m_DAP_DebuggeeStartCMD P' = debuggee_command E (pe_FullPath E []) []
        else \<exists>t. target = Some t \<and> pe_GetDebuggee E (Some t) = Some d
          \<and> m_DAP_DebuggeeStartCMD P' = debuggee_command E (pe_FullPath E d) (bt_ExecutionParameters t)))"
    using assms(1)
  proof (cases rule: StartDebugger_result)
    case (launched port P1 compiler target b d x P2)
    obtain l where P1: "P1 = P\<lparr> pg_calls := l \<rparr>" using choose_port_result(2) [OF launched(1)] by blast
    obtain t where ld: "load_watches_file F E p (started t (pe_FullPath E d) p P2) = Inr P'" using launched(7) by auto
    have "dbg P1 = flags n c s r" using assms(2) by (simp add: P1)
    from Launch_result [OF launched(5) choose_port_result(3) [OF launched(1) refl] this] launched(2,4) load_file_keeps [OF ld]
    show ?thesis by (auto simp: P1 split: if_splits)
  qed (use choose_port_result(1) in auto)
  then show "dbg P' = flags False True True False" "pg_timer P'" "m_pid_attached P' = m_pid_attached P"
    "\<exists>b compiler target d. SelectCompiler E p (m_pid_attached P) = Inr (b, compiler, target) \<and>
       (if m_pid_attached P \<noteq> 0 then m_DAP_DebuggeeStartCMD P' = debuggee_command E (pe_FullPath E []) []
        else \<exists>t. target = Some t \<and> pe_GetDebuggee E (Some t) = Some d
          \<and> m_DAP_DebuggeeStartCMD P' = debuggee_command E (pe_FullPath E d) (bt_ExecutionParameters t))" by simp_all
qed

lemma Start_failed:
  assumes "StartDebugger F E p P = Inr (rc, P')" "rc \<noteq> 0" "dbg P = flags n c s r"
  shows "rc = 1 \<and> dbg P' = flags n False True False \<and> m_dapPid P' = 0 \<and> \<not> pg_timer P' \<and> m_pid_attached P' = m_pid_attached P
    \<or> rc \<in> {2, 3, 4, 6, 7} \<and> P'\<lparr> pg_calls := pg_calls P \<rparr> = P"
  using assms(1)
proof (cases rule: StartDebugger_result)
  case (no_port rc' port P1)
  then show ?thesis using choose_port_result(1,2) [OF no_port(1)] by auto
next
  case (no_debuggee port P1)
  then show ?thesis using choose_port_result(2) [OF no_debuggee(1)] by auto
next
  case (launched port P1 compiler target b d x P2)
  obtain l where P1: "P1 = P\<lparr> pg_calls := l \<rparr>" using choose_port_result(2) [OF launched(1)] by blast
  have "dbg P1 = flags n c s r" using assms(3) by (simp add: P1)
  from Launch_result [OF launched(5) choose_port_result(3) [OF launched(1) refl] this] launched(7) assms(2) P1
  show ?thesis by auto
qed auto


section \<open>Samples\<close>

text \<open>
  Code::Blocks with one project and one target, a console program, and an adapter that is
  already there; a plugin just made and one attached to a process.
\<close>

definition sample_target :: build_target where
  "sample_target = \<lparr> bt_title = ''Debug'', bt_type = ttConsoleOnly, bt_CompilerID = ''gcc'', bt_ExecutionParameters = [] \<rparr>"

definition sample_cb_env :: cb_env where
  "sample_cb_env = \<lparr> ce_FindProjectForFile = (\<lambda>_. 1), ce_UnixFilename = (\<lambda>_ f. f), ce_relative = (\<lambda>_ _. None),
     ce_GetFullName = (\<lambda>f. f), ce_num = wx_num_std, ce_DebugTestingOption = UseNativePaths,
     ce_ExceptionCatch = False, ce_ExceptionThrow = False, ce_PersistDebugElements = True \<rparr>"

definition sample_plugin_env :: "((nat \<Rightarrow> nat list) \<times> (nat \<Rightarrow> nat option)) plugin_env" where
  "sample_plugin_env = \<lparr> pe_cb = sample_cb_env, pe_watch = sample_env_of watch_sdk_std,
     pe_call = \<lparr> ke_num = wx_num_std, ke_ToLongLong16 = (\<lambda>_. None), ke_AutoSwitchFrame = True, ke_BacktraceDialog = True \<rparr>,
     pe_EvalExpression = True, pe_RunDAPServer = False, pe_DAP_Executable = ''/usr/bin/lldb-dap'', pe_DAP_PortNumber = ''49999'',
     pe_PythonHome = [], pe_FindPortYes = False, pe_sockets = [], pe_help = (0, []),
     pe_FileExists = (\<lambda>_. True), pe_DirExists = (\<lambda>_. True), pe_FullPath = (\<lambda>f. f), pe_GetPath = (\<lambda>f. f),
     pe_env = (\<lambda>_. None), pe_LIBRARY_ENVVAR = ''LD_LIBRARY_PATH'', pe_Execute = 4711, pe_Connect = True,
     pe_ActiveTarget = (\<lambda>_. Some sample_target), pe_SelectTarget = (\<lambda>_. None), pe_GetCompiler = (\<lambda>_. Some 1),
     pe_DefaultCompiler = Some 1, pe_LinkerSearchDirs = (\<lambda>_ _ _. []), pe_GetDebuggee = (\<lambda>_. Some ''/tmp/a.out''),
     pe_ReplaceMacros = (\<lambda>s. s), pe_Split = (\<lambda>s. [s]), pe_BasePath = (\<lambda>_. ''/tmp''), pe_StateFile = (\<lambda>_. ''/tmp/a.bps''),
     pe_title = (\<lambda>_. ''a''), pe_CompilerName = (\<lambda>_. ''gcc''), pe_DBGconfig = (\<lambda>_. ''dap''), pe_ActiveProject = 1,
     pe_BuildUpToDate = (\<lambda>_. True), pe_ThreadsDialog = True, pe_DisassemblyDialog = False, pe_MixedMode = False,
     pe_EditorLine = (\<lambda>_ _. None), pe_MemoryBase = [], pe_MemoryBytes = 0, pe_Lines = (\<lambda>s. [s]),
     pe_MemoryLine = (\<lambda>_. None), pe_ToULong16 = (\<lambda>_. None), pe_RunNixConsole = 0, pe_pid = 0 \<rparr>"

lemma sample_plugin_env_parts [simp]:
  "pe_cb sample_plugin_env = sample_cb_env" "we_sdk (pe_watch sample_plugin_env) = watch_sdk_std"
  "pe_RunDAPServer sample_plugin_env = False" "pe_Connect sample_plugin_env" "pe_FullPath sample_plugin_env = (\<lambda>f. f)"
  "pe_FileExists sample_plugin_env = (\<lambda>_. True)" "pe_DAP_Executable sample_plugin_env = ''/usr/bin/lldb-dap''"
  "pe_GetDebuggee sample_plugin_env = (\<lambda>_. Some ''/tmp/a.out'')" "pe_StateFile sample_plugin_env = (\<lambda>_. ''/tmp/a.bps'')"
  "ce_PersistDebugElements sample_cb_env"
  by (simp_all add: sample_plugin_env_def sample_env_of_def sample_cb_env_def)

lemma sample_choose_port [simp]: "choose_port sample_plugin_env P = (0, ''49999'', P)"
  by (simp add: choose_port_def sample_plugin_env_def)

lemma sample_SelectCompiler:
  "SelectCompiler sample_plugin_env p n =
     (if n = 0 then if p = 0 then Inl Null_pointer else Inr (True, Some 1, Some sample_target) else Inr (True, Some 1, None))"
  by (simp add: SelectCompiler_def sample_plugin_env_def sample_target_def Let_def)

lemma reset_files [simp]: "pg_files (DAPDebuggerResetData_plugin E t P) = pg_files P"
  by (simp add: DAPDebuggerResetData_plugin_def Let_def kill_adapter_def)

lemma sample_Start:
  assumes "m_pid_attached P \<noteq> 0 \<or> p \<noteq> 0" "pg_files P = (\<lambda>_. None)"
  shows "\<exists>P1. StartDebugger F sample_plugin_env p P = Inr (0, P1) \<and> pg_files P1 = (\<lambda>_. None)"
  using assms
  by (auto simp: StartDebugger_def LaunchDebugger_def load_watches_file_def sample_SelectCompiler Let_def reset_fields)

definition sample_new :: "((nat \<Rightarrow> nat list) \<times> (nat \<Rightarrow> nat option)) Plugin" where
  "sample_new = Plugin_new watch_sdk_std False"

lemma sample_new_is: "plugin_session F C watch_sdk_std sample_new" "m_pid_attached sample_new = 0" "pg_files sample_new = (\<lambda>_. None)"
  by (simp_all add: sample_new_def plugin_starts) (simp_all add: Plugin_new_def)

definition sample_attached :: "((nat \<Rightarrow> nat list) \<times> (nat \<Rightarrow> nat option)) Plugin" where
  "sample_attached = projr (AttachToProcess fp_int sample_plugin_env (show_int 42) sample_new)"

lemma sample_attached_is:
  "plugin_session fp_int sample_cb_env watch_sdk_std sample_attached" "m_pid_attached sample_attached = 42"
  "pg_files sample_attached = (\<lambda>_. None)" "dbg_IsConnected (dbg sample_attached)"
proof -
  let ?P = "sample_new\<lparr> pg_pProject := 0, m_pid_attached := 42 \<rparr>"
  obtain P1 where 1: "StartDebugger fp_int sample_plugin_env 0 ?P = Inr (0, P1)" "pg_files P1 = (\<lambda>_. None)"
    using sample_Start [of ?P 0 fp_int] sample_new_is(3) by auto
  have a: "AttachToProcess fp_int sample_plugin_env (show_int 42) sample_new =
      Inr (on_client (Attach fp_int (pe_pid sample_plugin_env) (wrap32 42) [show_int 42]) P1)"
    using 1(1) by (simp add: AttachToProcess_def sample_cb_env_def wx_num_std_def to_long_show_int Let_def)
  obtain n c r where "dbg sample_new = flags n c True r" by (rule session_flags [OF sample_new_is(1) watch_sdk_ok_std])
  then have "dbg ?P = flags n c True r" by (simp add: dbg_def)
  note st = Start_launched [OF 1(1) this]
  have "plugin_apply fp_int sample_plugin_env (P_AttachToProcess (show_int 42)) sample_new = Inr sample_attached"
    by (simp add: a sample_attached_def)
  then show "plugin_session fp_int sample_cb_env watch_sdk_std sample_attached"
    by (rule plugin_steps [OF sample_new_is(1), rotated 3]) simp_all
  show "m_pid_attached sample_attached = 42" "pg_files sample_attached = (\<lambda>_. None)" "dbg_IsConnected (dbg sample_attached)"
    using st 1(2) by (simp_all add: sample_attached_def a)
qed

section \<open>Sessions\<close>




text \<open>C9: no operation of the plugin hangs, whether a call of Code::Blocks, an event of the client or the
  result of an expression: after any session every operation returns a state or fails with an
  error that is not an endless loop.\<close>

theorem plugin_returns:
  assumes "plugin_session F C K P" "watch_sdk_ok K" "pe_cb E = C" "we_sdk (pe_watch E) = K"
  shows "plugin_apply F E op P \<noteq> Inl (Watch_error NoReturn)"
  using apply_returns [OF session_good [OF assms(1,2)], of E op] assms(2-4) by (simp add: env_ok_def hangs_def)

theorem plugin_returns_witness:
  "plugin_apply fp_int sample_plugin_env (P_Event \<lparr> de_type = wxEVT_DAP_VARIABLES_RESPONSE,
      de_object = Some (MResponse (Rs_Variables VariablesResponse_new)), de_string = [] \<rparr>) sample_attached
     \<noteq> Inl (Watch_error NoReturn)"
  by (rule plugin_returns [OF sample_attached_is(1) watch_sdk_ok_std]) simp_all


text \<open>C10: the result codes of \<open>StartDebugger\<close>. They are 0 to 4, 6 and 7. After 0 the plugin is connected,
  the program does not run yet and the timer does; after 1 it is not connected, there is no adapter
  process and no timer; after the others, nothing is changed but the port that was written to the
  configuration. The process to attach to stays what it was.\<close>

theorem StartDebugger_codes:
  assumes "plugin_session F C K P" "watch_sdk_ok K" "StartDebugger F E p P = Inr (r, P')"
  shows "r \<in> {0, 1, 2, 3, 4, 6, 7} \<and> m_pid_attached P' = m_pid_attached P \<and>
    (if r = 0 then dbg_IsConnected (dbg P') \<and> \<not> IsRunning (dbg P') \<and> pg_timer P'
     else if r = 1 then \<not> dbg_IsConnected (dbg P') \<and> \<not> IsRunning (dbg P') \<and> m_dapPid P' = 0 \<and> \<not> pg_timer P'
     else P'\<lparr> pg_calls := pg_calls P \<rparr> = P)"
proof -
  obtain n c s where fl: "dbg P = flags n c True s" by (rule session_flags [OF assms(1,2)])
  show ?thesis
  proof (cases "r = 0")
    case True
    with Start_launched [OF assms(3) [unfolded True] fl] show ?thesis by simp
  next
    case False
    have "m_pid_attached P' = m_pid_attached P" if "P'\<lparr> pg_calls := pg_calls P \<rparr> = P"
      using arg_cong [OF that, of m_pid_attached] by simp
    with Start_failed [OF assms(3) False fl] show ?thesis by auto
  qed
qed

theorem StartDebugger_codes_witness:
  "\<exists>P1. StartDebugger fp_int sample_plugin_env 1 sample_new = Inr (0, P1)
    \<and> dbg_IsConnected (dbg P1) \<and> \<not> IsRunning (dbg P1) \<and> pg_timer P1 \<and> m_pid_attached P1 = 0"
proof -
  obtain P1 where 1: "StartDebugger fp_int sample_plugin_env 1 sample_new = Inr (0, P1)"
    using sample_Start [of sample_new 1 fp_int] sample_new_is(3) by auto
  from StartDebugger_codes [OF sample_new_is(1) watch_sdk_ok_std 1] 1 sample_new_is(2) show ?thesis by auto
qed


text \<open>The state after the part of \<open>OnInitializeResponse\<close> that reads the answer.\<close>

lemma initialize_cases:
  assumes "OnInitializeResponse_plugin F E e P = Inr P'"
  obtains P1 where "the_client P1 = the_client P" "dbg P1 = dbg P" "m_pid_attached P1 = m_pid_attached P"
    "m_DAP_DebuggeeStartCMD P1 = m_DAP_DebuggeeStartCMD P"
    "if m_pid_attached P = 0 \<and> (\<exists>x. response_of e = Some (Rs_Initialize x) \<and> rs_success x)
     then launch_debuggee F E P1 = Inr P' else P' = P1"
proof -
  obtain resp where resp: "(case response_of e of Some (Rs_Initialize x) \<Rightarrow> Some x | _ \<Rightarrow> None) = resp" by blast
  have r: "(\<exists>x. response_of e = Some (Rs_Initialize x) \<and> rs_success x) \<longleftrightarrow> (\<exists>x. resp = Some x \<and> rs_success x)"
    using resp by (auto split: option.splits DapResponse.splits)
  define P0 where "P0 = P\<lparr> pg_bps := OnInitializeResponse resp (pg_bps P) \<rparr>"
  have 0: "the_client P0 = the_client P" "dbg P0 = dbg P" "m_pid_attached P0 = m_pid_attached P"
    "m_DAP_DebuggeeStartCMD P0 = m_DAP_DebuggeeStartCMD P"
    by (auto simp: P0_def the_client_def dbg_def OnInitializeResponse_def split: option.split)
  have "on_bps (bp_apply F (pe_cb E) (B_InitializeResponse resp)) P = Inr P0" by (simp add: on_bps_def P0_def)
  note a = assms [unfolded OnInitializeResponse_plugin_def resp Let_def [of resp] this bind_err_simps]
  show thesis
  proof (cases "\<exists>x. resp = Some x \<and> rs_success x")
    case False
    then have "P' = P0" using a by (auto split: option.splits)
    with that [of P0] False 0 r show thesis by simp
  next
    case True
    then obtain x where x: "resp = Some x" "rs_success x" by blast
    define P1 where "P1 = (let c = ip_capabilities x;
        P = P0\<lparr> pg_supports := capability_update c (pg_supports P0) \<rparr>;
        P = (case cp_completionTriggerCharacters c of Some v \<Rightarrow> P\<lparr> vCompletionTriggerCharacters := v \<rparr> | None \<Rightarrow> P)
      in case cp_additionalModuleColumns c of Some v \<Rightarrow> P\<lparr> vAdditionalModuleColumns := v \<rparr> | None \<Rightarrow> P)"
    have 1: "the_client P1 = the_client P" "dbg P1 = dbg P" "m_pid_attached P1 = m_pid_attached P"
        "m_DAP_DebuggeeStartCMD P1 = m_DAP_DebuggeeStartCMD P"
      using 0 by (auto simp: P1_def Let_def split: option.split)
    have "(if m_pid_attached P1 = 0 then launch_debuggee F E P1 else Inr P1) = Inr P'"
      using a x by (cases "cp_additionalModuleColumns (ip_capabilities x)";
          cases "cp_completionTriggerCharacters (ip_capabilities x)") (auto simp: P1_def Let_def split: if_splits)
    with that [of P1] 1 True r show thesis by (auto split: if_splits)
  qed
qed

lemma launch_debuggee_result:
  assumes "launch_debuggee F E P = Inr P'"
  shows "\<exists>wd env. Launch F (m_DAP_DebuggeeStartCMD P) wd env (the_client P) = Some (the_client P')"
    "dbg P' = dbg_step (Add Running) (dbg P)" "m_DAP_DebuggeeStartCMD P' = tl (m_DAP_DebuggeeStartCMD P)"
  using assms by (auto simp: launch_debuggee_def Let_def split: list.splits option.splits) blast+

lemma initialize_returns:
  assumes "m_DAP_DebuggeeStartCMD P \<noteq> []"
  shows "\<exists>P'. OnInitializeResponse_plugin F E e P = Inr P'"
proof -
  have l: "\<exists>P'. launch_debuggee F E Q = Inr P'" if "m_DAP_DebuggeeStartCMD Q \<noteq> []" for Q
  proof -
    have g: "z \<noteq> None \<Longrightarrow> \<exists>y. (case z of None \<Rightarrow> Inl No_command | Some x \<Rightarrow> Inr (g x)) = Inr y"
      for z :: "plugin_callback Client option" and g :: "plugin_callback Client \<Rightarrow> 'a Plugin" by auto
    obtain program args where "m_DAP_DebuggeeStartCMD Q = program # args" using \<open>m_DAP_DebuggeeStartCMD Q \<noteq> []\<close> by (auto simp: neq_Nil_conv)
    then show ?thesis unfolding launch_debuggee_def Let_def
      by (simp only: list.case) (rule g, simp add: Launch_def Let_def case_prod_beta)
  qed
  show ?thesis
    using assms by (auto simp: OnInitializeResponse_plugin_def on_bps_def Let_def split: option.split intro!: l)
qed

definition sample_initialized :: DAPEvent where
  "sample_initialized = \<lparr> de_type = wxEVT_DAP_INITIALIZE_RESPONSE,
     de_object = Some (MResponse (Rs_Initialize (InitializeResponse_new\<lparr> rs_success := True \<rparr>))), de_string = [] \<rparr>"

lemma sample_initialized_is:
  "response_of sample_initialized = Some (Rs_Initialize (InitializeResponse_new\<lparr> rs_success := True \<rparr>))"
  "rs_success (InitializeResponse_new\<lparr> rs_success := True \<rparr>)"
  by (simp_all add: sample_initialized_def response_of_def)

text \<open>C7: a debug session that starts a program. After a successful \<open>StartDebugger\<close> without a process to
  attach to, the handler of a successful \<open>initialize\<close> response sends one \<open>launch\<close> request whose
  program is the full path of the selected target's executable and whose arguments are the
  target's execution parameters, and the flag \<open>Running\<close> is set. The vector of the command has lost
  its program then.\<close>

theorem session_launches:
  assumes "plugin_session F C K P" "watch_sdk_ok K" "StartDebugger F E p P = Inr (0, P1)" "m_pid_attached P = 0"
    "OnInitializeResponse_plugin F E' e P1 = Inr P2" "response_of e = Some (Rs_Initialize x)" "rs_success x"
  shows "\<exists>b c t d wd env. SelectCompiler E p 0 = Inr (b, c, Some t) \<and> pe_GetDebuggee E (Some t) = Some d
    \<and> Launch F (debuggee_command E (pe_FullPath E d) (bt_ExecutionParameters t)) wd env (the_client P1) = Some (the_client P2)
    \<and> IsRunning (dbg P2) \<and> IsStopped (dbg P2)
    \<and> m_DAP_DebuggeeStartCMD P2 = tl (debuggee_command E (pe_FullPath E d) (bt_ExecutionParameters t))"
proof -
  obtain n c s where fl: "dbg P = flags n c True s" by (rule session_flags [OF assms(1,2)])
  note st = Start_launched [OF assms(3) fl]
  obtain P3 where P3: "the_client P3 = the_client P1" "dbg P3 = dbg P1"
      "m_DAP_DebuggeeStartCMD P3 = m_DAP_DebuggeeStartCMD P1" "launch_debuggee F E' P3 = Inr P2"
    by (rule initialize_cases [OF assms(5)]) (use assms(4,6,7) st(3) in auto)
  from st(1,4) launch_debuggee_result [OF P3(4)] assms(4) P3(1-3) show ?thesis by fastforce
qed

theorem session_launches_witness:
  "\<exists>P1 P2. StartDebugger fp_int sample_plugin_env 1 sample_new = Inr (0, P1)
    \<and> OnInitializeResponse_plugin fp_int sample_plugin_env sample_initialized P1 = Inr P2
    \<and> IsRunning (dbg P2) \<and> m_DAP_DebuggeeStartCMD P2 = []"
proof -
  obtain P1 where 1: "StartDebugger fp_int sample_plugin_env 1 sample_new = Inr (0, P1)"
    using sample_Start [of sample_new 1 fp_int] sample_new_is(3) by auto
  obtain n c r where "dbg sample_new = flags n c True r" by (rule session_flags [OF sample_new_is(1) watch_sdk_ok_std])
  note st = Start_launched [OF 1 this]
  have "m_DAP_DebuggeeStartCMD P1 \<noteq> []" using st(4) by (auto simp: debuggee_command_def split: if_splits)
  then obtain P2 where 2: "OnInitializeResponse_plugin fp_int sample_plugin_env sample_initialized P1 = Inr P2"
    using initialize_returns by blast
  have "P1 = P1 \<and> IsRunning (dbg P2) \<and> m_DAP_DebuggeeStartCMD P2 = []"
    using session_launches [OF sample_new_is(1) watch_sdk_ok_std 1 sample_new_is(2) 2 sample_initialized_is]
    by (auto simp: sample_SelectCompiler debuggee_command_def sample_target_def)
  with 1 2 show ?thesis by blast
qed


text \<open>C12: a plugin that was attached stays attached. When the attached session ends, by the adapter, by a
  lost connection or by \<open>Stop\<close>, the process number stays; the next start selects no target, and
  when the adapter is ready nothing is launched: the handler of the \<open>initialize\<close> response sends
  nothing and the flag \<open>Running\<close> stays clear.\<close>

theorem attach_sticks:
  assumes "plugin_session F C K P" "watch_sdk_ok K" "m_pid_attached P \<noteq> 0"
    "Q = OnTerminated E0 P \<or> Q = OnConnectionError_plugin E0 P \<or> Q = Stop F E0 P"
    "StartDebugger F E p Q = Inr (0, P1)" "OnInitializeResponse_plugin F E' e P1 = Inr P2"
  shows "m_pid_attached P2 = m_pid_attached P \<and> the_client P2 = the_client P1 \<and> \<not> IsRunning (dbg P2)
    \<and> m_DAP_DebuggeeStartCMD P1 = debuggee_command E (pe_FullPath E []) []"
proof -
  obtain n c s where fl: "dbg P = flags n c True s" by (rule session_flags [OF assms(1,2)])
  have Q: "m_pid_attached Q = m_pid_attached P" "\<exists>n c s. dbg Q = flags n c True s"
    using assms(4) fl
    by (auto simp: OnTerminated_def OnConnectionError_plugin_def Stop_def Let_def reset_fields reset_dbg split: if_splits) blast+
  then obtain n c s where "dbg Q = flags n c True s" by blast
  note st = Start_launched [OF assms(5) this]
  show ?thesis
    by (rule initialize_cases [OF assms(6)]) (use assms(3) Q(1) st in auto)
qed

theorem attach_sticks_witness:
  "\<exists>P1 P2. StartDebugger fp_int sample_plugin_env 1 (OnTerminated sample_plugin_env sample_attached) = Inr (0, P1)
    \<and> OnInitializeResponse_plugin fp_int sample_plugin_env sample_initialized P1 = Inr P2
    \<and> m_pid_attached P2 = 42 \<and> \<not> IsRunning (dbg P2)"
proof -
  let ?Q = "OnTerminated sample_plugin_env sample_attached"
  have "m_pid_attached ?Q = 42" "pg_files ?Q = (\<lambda>_. None)"
    by (simp_all add: OnTerminated_def reset_fields sample_attached_is)
  then obtain P1 where 1: "StartDebugger fp_int sample_plugin_env 1 ?Q = Inr (0, P1)"
    using sample_Start [of ?Q 1 fp_int] by auto
  obtain n c r where "dbg sample_attached = flags n c True r"
    by (rule session_flags [OF sample_attached_is(1) watch_sdk_ok_std])
  then have "dbg ?Q = flags n False True False" by (simp add: OnTerminated_def reset_dbg)
  note st = Start_launched [OF 1 this]
  have "m_DAP_DebuggeeStartCMD P1 \<noteq> []" using st(4) by (auto simp: debuggee_command_def split: if_splits)
  then obtain P2 where 2: "OnInitializeResponse_plugin fp_int sample_plugin_env sample_initialized P1 = Inr P2"
    using initialize_returns by blast
  from attach_sticks [OF sample_attached_is(1) watch_sdk_ok_std _ disjI1 [OF refl] 1 2] 1 2 sample_attached_is(2)
  show ?thesis by auto
qed


text \<open>C11: detaching kills the process it detaches from. The response to \<open>attach\<close> writes the process number
  over the one of the adapter; when the user detaches, which asks the adapter to leave the process
  alone, and the adapter says that the session has ended, the plugin kills that number, and the
  adapter it started is not killed any more.\<close>

theorem detach_kills:
  assumes "plugin_session F C K P" "watch_sdk_ok K" "dbg_IsConnected (dbg P)" "m_pid_attached P \<noteq> 0"
    "response_of e = Some (Rs_Attach x)" "rs_success x"
  shows "let P1 = DetachFromProcess F (OnAttachToProcessResponse e P); P2 = OnTerminated E P1 in
    the_client P1 = Disconnect F False False (the_client P) \<and> m_pid_attached P1 = 0
    \<and> pg_calls P2 = pg_calls P @ [DebuggingLayout, Kill (m_pid_attached P), ClearActiveMark, MarkStopped, DebuggerFinished]
        @ (if m_appShutDown P then [] else [PreviousLayout])
    \<and> m_dapPid P2 = 0"
proof -
  obtain n c s where fl: "dbg P = flags n c True s" by (rule session_flags [OF assms(1,2)])
  have a: "OnAttachToProcessResponse e P =
      call DebuggingLayout ((on_state (Add Stopped) (on_state (Add Running) P))\<lparr> m_dapPid := m_pid_attached P \<rparr>)"
    using assms(5,6) by (simp add: OnAttachToProcessResponse_def Let_def)
  have "IsRunning (dbg (OnAttachToProcessResponse e P))" using fl assms(3) by (simp add: a)
  then have d: "DetachFromProcess F (OnAttachToProcessResponse e P) =
      (on_client (Disconnect F False False) (OnAttachToProcessResponse e P))\<lparr> m_pid_attached := 0 \<rparr>"
    using assms(4) by (simp add: DetachFromProcess_def a)
  have cl: "the_client (Q\<lparr> m_pid_attached := 0 \<rparr>) = the_client Q" "the_client (Q\<lparr> m_dapPid := k \<rparr>) = the_client Q" for Q :: "'b Plugin" and k
    by (simp_all add: the_client_def)
  show ?thesis unfolding Let_def d using assms(4) by (simp add: OnTerminated_def reset_fields a cl)
qed

theorem detach_kills_witness:
  "Kill 42 \<in> set (pg_calls (OnTerminated sample_plugin_env (DetachFromProcess fp_int (OnAttachToProcessResponse
      \<lparr> de_type = wxEVT_DAP_ATTACH_RESPONSE_EVENT,
        de_object = Some (MResponse (Rs_Attach (AttachResponse_new\<lparr> rs_success := True \<rparr>))), de_string = [] \<rparr> sample_attached))))"
  using detach_kills [OF sample_attached_is(1) watch_sdk_ok_std sample_attached_is(4), where E = sample_plugin_env
      and e = "\<lparr> de_type = wxEVT_DAP_ATTACH_RESPONSE_EVENT,
         de_object = Some (MResponse (Rs_Attach (AttachResponse_new\<lparr> rs_success := True \<rparr>))), de_string = [] \<rparr>"
      and x = "AttachResponse_new\<lparr> rs_success := True \<rparr>"]
    sample_attached_is(2)
  by (simp add: response_of_def Let_def)


section \<open>The state file\<close>

lemma no_lists:
  "FirstChildElement ''BreakpointsList'' (SaveStateToFile_watches t c d p W) = None"
  "FirstChildElement ''WatchesList'' (Elem ''Debugger_layout_file'' [] [AddChildNode n1 c (AddChildNode n2 d (Elem ''CompilerInfo'' [] []))]) = None"
  "FirstChildElement ''BreakpointsList'' (Elem ''Debugger_layout_file'' [] [AddChildNode n1 c (AddChildNode n2 d (Elem ''CompilerInfo'' [] []))]) = None"
  by (simp_all add: SaveStateToFile_watches_def FirstChildElement_def AddChildNode_def)

lemma on_watches_same: "(\<And>x. f x = Inr x) \<Longrightarrow> on_watches f P = Inr P"
  by (simp add: on_watches_def on_client_def the_client_def with_client_def)




text \<open>C28: closing a project loses its breakpoints and those of every other project. Although debug elements
  are persisted, after the project was closed there is no breakpoint left, the state file holds the
  list of watches only, and opening the project again brings no breakpoint back.\<close>

theorem closing_loses_breakpoints:
  fixes P :: "'t Plugin"
  assumes "CleanupWhenProjectClosed_plugin E p P = Inr P1" "ce_PersistDebugElements (pe_cb E)" "pe_StateFile E p \<noteq> []"
    "OnProjectOpened F E' p P1 = Inr P2" "pe_StateFile E' p = pe_StateFile E p"
  shows "m_breakpoints (pg_bps P1) = [] \<and> m_breakpoints (pg_bps P2) = []
    \<and> (\<exists>x. pg_files P1 (pe_StateFile E p) = Some x \<and> FirstChildElement ''BreakpointsList'' x = None
        \<and> FirstChildElement ''WatchesList'' x \<noteq> None)"
proof -
  have p: "p \<noteq> 0"
  proof
    assume "p = 0"
    then have "SaveStateToFile_plugin E p P = Inl Null_pointer" by (simp add: SaveStateToFile_plugin_def Let_def)
    with assms(1,2) show False by (simp add: CleanupWhenProjectClosed_plugin_def Let_def)
  qed
  obtain P0 :: "'t Plugin" where P1: "pg_bps P1 = CleanupWhenProjectClosed (pg_bps P0)"
      "pg_files P1 (pe_StateFile E p) = Some (SaveStateToFile_watches (pe_title E p) (pe_CompilerName E p) (pe_DBGconfig E p) p (pg_watches P0))"
    using assms(1-3) p by (auto simp: CleanupWhenProjectClosed_plugin_def Let_def bind_err_Inr map_sum_Inr)
  let ?x = "SaveStateToFile_watches (pe_title E p) (pe_CompilerName E p) (pe_DBGconfig E p) p (pg_watches P0)"
  have w: "m_breakpoints (pg_bps Q') = m_breakpoints (pg_bps Q)" if "load_watches_file F E' p Q = Inr Q'" for Q Q'
    using that by (auto simp: load_watches_file_def on_watches_def with_client_def split: if_splits option.splits sum.splits)
  have "m_breakpoints (pg_bps P2) = m_breakpoints (pg_bps P1)"
    using assms(4) P1(2) assms(5)
    by (auto simp: OnProjectOpened_def LoadStateFromFile_plugin_def bind_err_Inr map_sum_Inr Let_def on_bps_def bps_state_def
        LoadStateFromFile_def no_lists split: if_splits dest: w)
  moreover have "FirstChildElement ''WatchesList'' ?x \<noteq> None"
    by (simp add: SaveStateToFile_watches_def FirstChildElement_def AddChildNode_def)
  ultimately show ?thesis using P1 by (simp add: no_lists CleanupWhenProjectClosed_def)
qed

definition sample_with_breakpoint :: "((nat \<Rightarrow> nat list) \<times> (nat \<Rightarrow> nat option)) Plugin" where
  "sample_with_breakpoint = sample_new\<lparr> pg_bps := (pg_bps sample_new)\<lparr> m_breakpoints := [0] \<rparr> \<rparr>"

theorem closing_loses_breakpoints_witness:
  "\<exists>P1 P2. CleanupWhenProjectClosed_plugin sample_plugin_env 1 sample_with_breakpoint = Inr P1
    \<and> OnProjectOpened fp_int sample_plugin_env 1 P1 = Inr P2
    \<and> m_breakpoints (pg_bps sample_with_breakpoint) = [0] \<and> m_breakpoints (pg_bps P2) = []"
proof -
  have w: "m_DAP_watches (pg_watches sample_with_breakpoint) = []"
    by (simp add: sample_with_breakpoint_def sample_new_def Plugin_new_def Watches_new_def on_client_def on_state_def)
  define root where "root = SaveStateToFile_watches (pe_title sample_plugin_env 1) (pe_CompilerName sample_plugin_env 1)
      (pe_DBGconfig sample_plugin_env 1) 1 (pg_watches sample_with_breakpoint)"
  obtain P1 where 1: "CleanupWhenProjectClosed_plugin sample_plugin_env 1 sample_with_breakpoint = Inr P1"
      "pg_files P1 ''/tmp/a.bps'' = Some root"
    by (simp add: CleanupWhenProjectClosed_plugin_def SaveStateToFile_plugin_def Let_def root_def)
  have "on_watches (LoadStateFromFile_watches fp_int E d root 1) P = Inr P"
      for E :: "((nat \<Rightarrow> nat list) \<times> (nat \<Rightarrow> nat option)) watch_env" and d P
    by (rule on_watches_same)
      (simp add: LoadStateFromFile_watches_def SaveStateToFile_watches_def FirstChildElement_def AddChildNode_def w root_def)
  moreover have "xml_name root = ''Debugger_layout_file''" by (simp add: root_def SaveStateToFile_watches_def)
  ultimately obtain P2 where 2: "OnProjectOpened fp_int sample_plugin_env 1 P1 = Inr P2"
    using 1(2) by (simp add: OnProjectOpened_def LoadStateFromFile_plugin_def load_watches_file_def on_bps_def Let_def)
  from closing_loses_breakpoints [OF 1(1) _ _ 2] 1(1) 2 show ?thesis by (auto simp: sample_with_breakpoint_def)
qed


end
