(* ===== verification/Dap_Settings.thy ===== *)
theory Dap_Settings
  imports Dap_PluginProps
begin

text \<open>
  The settings of the plugin (\<open>dlg_SettingsOptions.cpp\<close>) and its page among the project options
  (\<open>dlg_ProjectOptions.cpp\<close>), built for Linux. The configuration belongs to Code::Blocks: it is the
  parameter \<open>config_ops\<close> with the laws \<open>config_ok\<close>, and \<open>config_std\<close> is an instance that computes. A
  panel is the record of what its controls hold; the search for the adapter reads the file system
  through \<open>detect_env\<close>.
\<close>

section \<open>The configuration\<close>

record 'c config_ops =
  \<comment> \<open>\<open>ConfigManagerWrapper\<close>; the readers get the value to return when there is none\<close>
  cg_Read :: "string \<Rightarrow> string \<Rightarrow> 'c \<Rightarrow> string"
  cg_ReadBool :: "string \<Rightarrow> bool \<Rightarrow> 'c \<Rightarrow> bool"
  cg_ReadInt :: "string \<Rightarrow> int \<Rightarrow> 'c \<Rightarrow> int"
  cg_Write :: "string \<Rightarrow> string \<Rightarrow> 'c \<Rightarrow> 'c"
  cg_WriteBool :: "string \<Rightarrow> bool \<Rightarrow> 'c \<Rightarrow> 'c"
  cg_WriteInt :: "string \<Rightarrow> int \<Rightarrow> 'c \<Rightarrow> 'c"

definition config_ok :: "'c config_ops \<Rightarrow> bool" where
  \<comment> \<open>a value is read back as it was written, and writing a name leaves the other names alone\<close>
  "config_ok M \<longleftrightarrow>
     (\<forall>k d c v. cg_Read M k d (cg_Write M k v c) = v) \<and>
     (\<forall>k d c v. cg_ReadBool M k d (cg_WriteBool M k v c) = v) \<and>
     (\<forall>k d c v. cg_ReadInt M k d (cg_WriteInt M k v c) = v) \<and>
     (\<forall>k k' c. k \<noteq> k' \<longrightarrow>
        (\<forall>d v. cg_Read M k' d (cg_Write M k v c) = cg_Read M k' d c) \<and>
        (\<forall>d v. cg_Read M k' d (cg_WriteBool M k v c) = cg_Read M k' d c) \<and>
        (\<forall>d v. cg_Read M k' d (cg_WriteInt M k v c) = cg_Read M k' d c) \<and>
        (\<forall>d v. cg_ReadBool M k' d (cg_Write M k v c) = cg_ReadBool M k' d c) \<and>
        (\<forall>d v. cg_ReadBool M k' d (cg_WriteBool M k v c) = cg_ReadBool M k' d c) \<and>
        (\<forall>d v. cg_ReadBool M k' d (cg_WriteInt M k v c) = cg_ReadBool M k' d c) \<and>
        (\<forall>d v. cg_ReadInt M k' d (cg_Write M k v c) = cg_ReadInt M k' d c) \<and>
        (\<forall>d v. cg_ReadInt M k' d (cg_WriteBool M k v c) = cg_ReadInt M k' d c) \<and>
        (\<forall>d v. cg_ReadInt M k' d (cg_WriteInt M k v c) = cg_ReadInt M k' d c))"

datatype eFlags =
    RunDAPServer | StopOnMain | ExceptionCatch | ExceptionThrow | PersistDebugElements | WatchFuncLocalsArgs
  | EvalExpression | AddOtherProjectDirs

primrec GetFlag :: "'c config_ops \<Rightarrow> eFlags \<Rightarrow> 'c \<Rightarrow> bool" where
  "GetFlag M RunDAPServer c = cg_ReadBool M ''run_DAP_server'' True c"
| "GetFlag M StopOnMain c = cg_ReadBool M ''stop_on_main'' False c"
| "GetFlag M ExceptionCatch c = cg_ReadBool M ''exception_catch'' True c"
| "GetFlag M ExceptionThrow c = cg_ReadBool M ''exception_throw'' True c"
| "GetFlag M PersistDebugElements c = cg_ReadBool M ''persist_debug_elements'' False c"
| "GetFlag M WatchFuncLocalsArgs c = cg_ReadBool M ''watch_locals_and_args'' True c"
| "GetFlag M EvalExpression c = cg_ReadBool M ''eval_tooltip'' False c"
| "GetFlag M AddOtherProjectDirs c = cg_ReadBool M ''add_other_search_dirs'' False c"

primrec SetFlag :: "'c config_ops \<Rightarrow> eFlags \<Rightarrow> bool \<Rightarrow> 'c \<Rightarrow> 'c" where
  \<comment> \<open>a case without \<open>break\<close> goes on with the next one\<close>
  "SetFlag M RunDAPServer v c =
     (let c = cg_WriteBool M ''run_DAP_server'' v c;
          c = cg_WriteBool M ''stop_on_main'' v c
      in cg_WriteBool M ''exception_catch'' v c)"
| "SetFlag M StopOnMain v c = (let c = cg_WriteBool M ''stop_on_main'' v c in cg_WriteBool M ''exception_catch'' v c)"
| "SetFlag M ExceptionCatch v c = cg_WriteBool M ''exception_catch'' v c"
| "SetFlag M ExceptionThrow v c = cg_WriteBool M ''exception_throw'' v c"
| "SetFlag M EvalExpression v c = cg_WriteBool M ''eval_tooltip'' v c"
| "SetFlag M PersistDebugElements v c =
     (let c = cg_WriteBool M ''persist_debug_elements'' v c in cg_WriteBool M ''watch_locals_and_args'' v c)"
| "SetFlag M WatchFuncLocalsArgs v c = cg_WriteBool M ''watch_locals_and_args'' v c"
| "SetFlag M AddOtherProjectDirs v c = cg_WriteBool M ''add_other_search_dirs'' v c"

definition GetDAP_PortNumber :: "'c config_ops \<Rightarrow> 'c \<Rightarrow> string" where
  "GetDAP_PortNumber M c = cg_Read M ''port_number'' [] c"

definition SetDAP_PortNumber :: "'c config_ops \<Rightarrow> string \<Rightarrow> 'c \<Rightarrow> 'c" where
  "SetDAP_PortNumber M port c = cg_Write M ''port_number'' port c"

definition GetDAP_PythonHomeEnvSetting :: "'c config_ops \<Rightarrow> 'c \<Rightarrow> string" where
  "GetDAP_PythonHomeEnvSetting M c = cg_Read M ''python_home_env'' [] c"

definition GetDebugTestingChoiceOption :: "'c config_ops \<Rightarrow> 'c \<Rightarrow> eDebugTestingOptions option" where
  \<comment> \<open>\<open>None\<close>: a number that is none of the options\<close>
  "GetDebugTestingChoiceOption M c =
     (let n = cg_ReadInt M ''debug_testing'' 0 c;
          l = [UseNativePaths, UseLinuxPathsOnWindowsWithDriveLetter, UseLinuxPathsOnWindowsWithNoCollen,
               UseLinuxPathsOnWindowsWithNoDriveLetter, UseWindowsPathsWithDriveLetterRemoved,
               UseRelativePathComparedToTheExecutable]
      in if 0 \<le> n \<and> n < int (length l) then Some (l ! nat n) else None)"

definition GetDisassemblyFlavorCommand :: "'c config_ops \<Rightarrow> 'c \<Rightarrow> string" where
  "GetDisassemblyFlavorCommand M c =
     (let disassembly_flavour = cg_ReadInt M ''disassembly_flavor'' 0 c; flavour = ''set disassembly-flavor ''
      in if disassembly_flavour = 1 then flavour @ ''att''
         else if disassembly_flavour = 2 then flavour @ ''intel''
         else if disassembly_flavour = 3 then flavour @ cg_Read M ''instruction_set'' [] c
         else flavour @ ''intel'')"

definition GetInitialCommands :: "'c config_ops \<Rightarrow> 'c \<Rightarrow> string" where
  "GetInitialCommands M c = cg_Read M ''init_commands'' [] c"

section \<open>The search for the adapter\<close>

record detect_env =
  de_FileExists :: "string \<Rightarrow> bool"
  de_DirExists :: "string \<Rightarrow> bool"
  de_ReplaceEnvVars :: "string \<Rightarrow> string"
  de_FullPath :: "string \<Rightarrow> string \<Rightarrow> string"   \<comment> \<open>\<open>GetFullPath\<close> of a \<open>wxFileName\<close> with this path and name\<close>
  de_ProjectMasterPath :: "string option"   \<comment> \<open>of the active project's compiler, if there are both\<close>
  de_DefaultMasterPath :: "string option"   \<comment> \<open>of the default compiler, if there is one\<close>
  de_FindFileInPATH :: "string \<Rightarrow> string"   \<comment> \<open>\<open>cbFindFileInPATH\<close>: the directory, or nothing\<close>

definition trim_both :: "string \<Rightarrow> string" where   \<comment> \<open>\<open>Trim().Trim(false)\<close>\<close>
  "trim_both s = dropWhile is_space (rev (dropWhile is_space (rev s)))"

definition SearchForDebuggerExecutable :: "detect_env \<Rightarrow> string \<Rightarrow> string \<Rightarrow> string" where
  "SearchForDebuggerExecutable D pathParam exeNameParam =
     (let pathParam = trim_both pathParam;
          f = de_FullPath D pathParam exeNameParam
      in if de_FileExists D f then f
         else let f = de_FullPath D (pathParam @ ''/'' @ ''bin'') exeNameParam
              in if de_FileExists D f then f else [])"

definition DetectDebuggerExecutable :: "detect_env \<Rightarrow> string \<Rightarrow> string" where
  \<comment> \<open>for a name without a directory, which is its own \<open>GetFullName\<close>\<close>
  "DetectDebuggerExecutable D exeName =
     (let r = (case de_ProjectMasterPath D of
                 Some masterPath \<Rightarrow> if masterPath \<noteq> [] then SearchForDebuggerExecutable D masterPath exeName else []
               | None \<Rightarrow> [])
      in if r \<noteq> [] then r
         else
           let r = (case de_DefaultMasterPath D of
                      Some masterPath \<Rightarrow>
                        if masterPath \<noteq> [] \<and> de_DirExists D (masterPath @ ''/'' @ ''bin'')
                        then SearchForDebuggerExecutable D masterPath exeName else []
                    | None \<Rightarrow> [])
           in if r \<noteq> [] then r
              else
                let exePath = de_FindFileInPATH D exeName
                in if \<not> de_DirExists D exePath then [] else exePath @ ''/'' @ exeName)"

definition known_adapters :: "string list" where
  "known_adapters = [''/usr/bin/lldb-vscode-14'', ''/usr/bin/lldb-vscode-13'', ''/usr/bin/lldb-vscode-12'']"

definition linux_adapter :: "detect_env \<Rightarrow> string \<Rightarrow> string" where   \<comment> \<open>the branch for Linux\<close>
  "linux_adapter D result =
     (case find (de_FileExists D) known_adapters of
        Some f \<Rightarrow> f
      | None \<Rightarrow> if de_DirExists D ''/usr/bin/'' then ''/usr/bin/'' else result)"

definition GetDAP_Executable :: "'c config_ops \<Rightarrow> detect_env \<Rightarrow> bool \<Rightarrow> 'c \<Rightarrow> string" where
  "GetDAP_Executable M D expandMacro c =
     (let result = cg_Read M ''executable_path'' [] c;
          result = (if result = [] then DetectDebuggerExecutable D ''lldb-dap''
                    else if expandMacro then de_ReplaceEnvVars D result else result)
      in if result = [] \<or> \<not> de_FileExists D result
         then let result = DetectDebuggerExecutable D ''lldb-dap''
              in if result = [] then linux_adapter D result else result
         else result)"

section \<open>The panel\<close>

record settings_panel =
  txtDAPExecutable :: string
  pn_red :: bool   \<comment> \<open>the colour of that control\<close>
  txtPortNumber :: string
  txtPythonHome :: string
  txtInit :: string
  chkRunDAPServer :: bool
  chkExceptionCatch :: bool
  chkExceptionThrow :: bool
  chkPersistDebugElements :: bool
  choChoiceDebugTesting :: int
  chkTooltipEval :: bool
  chkAddForeignDirs :: bool
  chkWatchLocalsandArgs :: bool
  choDisassemblyFlavor :: int
  txtInstructionSet :: string

definition ValidateExecutablePath :: "detect_env \<Rightarrow> settings_panel \<Rightarrow> settings_panel" where
  "ValidateExecutablePath D p = p\<lparr> pn_red := \<not> de_FileExists D (de_ReplaceEnvVars D (txtDAPExecutable p)) \<rparr>"

definition OnBrowse :: "string option \<Rightarrow> settings_panel \<Rightarrow> settings_panel" where
  \<comment> \<open>the answer of the file dialog; \<open>ChangeValue\<close> fires no event\<close>
  "OnBrowse answer p = (case answer of Some newPath \<Rightarrow> p\<lparr> txtDAPExecutable := newPath \<rparr> | None \<Rightarrow> p)"

definition OnTextChange :: "detect_env \<Rightarrow> string \<Rightarrow> settings_panel \<Rightarrow> settings_panel" where
  \<comment> \<open>after the user has changed the text\<close>
  "OnTextChange D s p = ValidateExecutablePath D (p\<lparr> txtDAPExecutable := s \<rparr>)"

definition MakePanel :: "'c config_ops \<Rightarrow> detect_env \<Rightarrow> 'c \<Rightarrow> settings_panel" where
  \<comment> \<open>the two numbers are taken to be positions of their choices\<close>
  "MakePanel M D c = ValidateExecutablePath D
     \<lparr> txtDAPExecutable = GetDAP_Executable M D False c, pn_red = False, txtPortNumber = GetDAP_PortNumber M c,
       txtPythonHome = GetDAP_PythonHomeEnvSetting M c, txtInit = GetInitialCommands M c,
       chkRunDAPServer = GetFlag M RunDAPServer c, chkExceptionCatch = GetFlag M ExceptionCatch c,
       chkExceptionThrow = GetFlag M ExceptionThrow c, chkPersistDebugElements = GetFlag M PersistDebugElements c,
       choChoiceDebugTesting = cg_ReadInt M ''debug_testing'' 0 c, chkTooltipEval = GetFlag M EvalExpression c,
       chkAddForeignDirs = GetFlag M AddOtherProjectDirs c, chkWatchLocalsandArgs = GetFlag M WatchFuncLocalsArgs c,
       choDisassemblyFlavor = cg_ReadInt M ''disassembly_flavor'' 0 c,
       txtInstructionSet = cg_Read M ''instruction_set'' [] c \<rparr>"

definition SaveChanges :: "'c config_ops \<Rightarrow> settings_panel \<Rightarrow> 'c \<Rightarrow> 'c" where
  "SaveChanges M p c =
     (let c = cg_Write M ''executable_path'' (txtDAPExecutable p) c;
          c = cg_Write M ''python_home_env'' (txtPythonHome p) c;
          c = cg_Write M ''init_commands'' (txtInit p) c;
          c = cg_WriteBool M ''run_DAP_server'' (chkRunDAPServer p) c;
          c = cg_WriteBool M ''exception_catch'' (chkExceptionCatch p) c;
          c = cg_WriteBool M ''exception_throw'' (chkExceptionThrow p) c;
          c = cg_WriteBool M ''persist_debug_elements'' (chkPersistDebugElements p) c;
          c = cg_WriteInt M ''debug_testing'' (choChoiceDebugTesting p) c;
          c = cg_WriteBool M ''watch_locals_and_args'' (chkWatchLocalsandArgs p) c;
          c = cg_WriteBool M ''eval_tooltip'' (chkTooltipEval p) c;
          c = cg_WriteBool M ''add_other_search_dirs'' (chkAddForeignDirs p) c;
          c = cg_WriteInt M ''disassembly_flavor'' (choDisassemblyFlavor p) c
      in cg_Write M ''instruction_set'' (txtInstructionSet p) c)"

section \<open>The page of a project\<close>

record list_box =
  lb_items :: "string list"
  lb_sel :: int

definition FindString :: "string \<Rightarrow> list_box \<Rightarrow> int" where   \<comment> \<open>ignores case by default\<close>
  "FindString s b =
     (let n = length (takeWhile (\<lambda>x. \<not> IsSameAs_nocase x s) (lb_items b))
      in if n < length (lb_items b) then int n else wxNOT_FOUND)"

definition SetSelection :: "int \<Rightarrow> list_box \<Rightarrow> list_box option" where
  \<comment> \<open>\<open>None\<close>: the index is no item and not \<open>wxNOT_FOUND\<close>, which fails an assertion\<close>
  "SetSelection n b = (if n = wxNOT_FOUND \<or> 0 \<le> n \<and> n < int (length (lb_items b)) then Some (b\<lparr> lb_sel := n \<rparr>) else None)"

record ProjectDlg =
  pd_m_pProject :: nat
  m_OldPaths :: "string list"
  lstSearchDirs :: list_box
  lstTargets :: list_box
  pd_modified :: bool   \<comment> \<open>whether the project was marked as modified\<close>

definition ProjectDlg_new :: "nat \<Rightarrow> string list \<Rightarrow> ProjectDlg" where
  \<comment> \<open>the titles of the targets; what would read \<open>m_OldPaths\<close> is commented out\<close>
  "ProjectDlg_new project titles =
     \<lparr> pd_m_pProject = project, m_OldPaths = [], lstSearchDirs = \<lparr> lb_items = [], lb_sel = wxNOT_FOUND \<rparr>,
       lstTargets = \<lparr> lb_items = ''<Project>'' # titles, lb_sel = 0 \<rparr>, pd_modified = False \<rparr>"

definition select_target :: "int \<Rightarrow> list_box \<Rightarrow> ProjectDlg \<Rightarrow> ProjectDlg option" where
  "select_target idx b S = map_option (\<lambda>b. S\<lparr> lstTargets := b \<rparr>) (SetSelection idx b)"

definition OnBuildTargetRemoved :: "nat \<Rightarrow> string \<Rightarrow> ProjectDlg \<Rightarrow> ProjectDlg option" where
  \<comment> \<open>\<open>(size_t)idx\<close> of a negative index is above every count\<close>
  "OnBuildTargetRemoved project theTarget S =
     (if project \<noteq> pd_m_pProject S then Some S
      else let b = lstTargets S; idx = FindString theTarget b;
               b = (if idx > 0 then b\<lparr> lb_items := take (nat idx) (lb_items b) @ drop (Suc (nat idx)) (lb_items b) \<rparr> else b);
               idx = (if idx < 0 \<or> int (length (lb_items b)) \<le> idx then idx - 1 else idx)
           in select_target idx b S)"

definition OnBuildTargetAdded :: "nat \<Rightarrow> string \<Rightarrow> ProjectDlg \<Rightarrow> ProjectDlg option" where
  "OnBuildTargetAdded project newTarget S =
     (if project \<noteq> pd_m_pProject S then Some S
      else let b = lstTargets S; idx = FindString newTarget b
           in if idx = wxNOT_FOUND
              then select_target (int (length (lb_items b))) (b\<lparr> lb_items := lb_items b @ [newTarget] \<rparr>) S
              else select_target idx b S)"

definition OnBuildTargetRenamed :: "nat \<Rightarrow> string \<Rightarrow> string \<Rightarrow> ProjectDlg \<Rightarrow> ProjectDlg option" where
  "OnBuildTargetRenamed project newTarget oldTarget S =
     (if project \<noteq> pd_m_pProject S then Some S
      else let b = lstTargets S; idx = FindString oldTarget b
           in if idx = wxNOT_FOUND then Some S
              else select_target idx (b\<lparr> lb_items := (lb_items b)[nat idx := newTarget] \<rparr>) S)"

definition OnAdd :: "string option \<Rightarrow> ProjectDlg \<Rightarrow> ProjectDlg" where   \<comment> \<open>the path the user gives\<close>
  "OnAdd answer S =
     (case answer of
        Some path \<Rightarrow> S\<lparr> lstSearchDirs := (lstSearchDirs S)\<lparr> lb_items := lb_items (lstSearchDirs S) @ [path] \<rparr> \<rparr>
      | None \<Rightarrow> S)"

definition OnEdit :: "string option \<Rightarrow> ProjectDlg \<Rightarrow> ProjectDlg" where
  "OnEdit answer S =
     (let b = lstSearchDirs S
      in if lb_sel b < 0 then S
         else case answer of
           Some path \<Rightarrow> S\<lparr> lstSearchDirs := b\<lparr> lb_items := (lb_items b)[nat (lb_sel b) := path] \<rparr> \<rparr>
         | None \<Rightarrow> S)"

definition OnDelete :: "int \<Rightarrow> ProjectDlg \<Rightarrow> ProjectDlg" where
  \<comment> \<open>the first argument is the selection that the toolkit leaves\<close>
  "OnDelete sel' S =
     (let b = lstSearchDirs S; sel = lb_sel b
      in if sel < 0 then S
         else S\<lparr> lstSearchDirs := b\<lparr> lb_items := take (nat sel) (lb_items b) @ drop (Suc (nat sel)) (lb_items b),
                                    lb_sel := sel' \<rparr> \<rparr>)"

definition OnApply :: "ProjectDlg \<Rightarrow> ProjectDlg" where
  \<comment> \<open>the call that would store the paths is commented out\<close>
  "OnApply S = (if m_OldPaths S \<noteq> lb_items (lstSearchDirs S) then S\<lparr> pd_modified := True \<rparr> else S)"

section \<open>Flags and panel\<close>

lemma config_okD:
  assumes "config_ok M"
  shows "cg_Read M k d (cg_Write M k v c) = v" "cg_ReadBool M k e (cg_WriteBool M k b c) = b"
    "cg_ReadInt M k n (cg_WriteInt M k i c) = i"
    "k \<noteq> k' \<Longrightarrow> cg_Read M k' d (cg_Write M k v c) = cg_Read M k' d c"
    "k \<noteq> k' \<Longrightarrow> cg_Read M k' d (cg_WriteBool M k b c) = cg_Read M k' d c"
    "k \<noteq> k' \<Longrightarrow> cg_Read M k' d (cg_WriteInt M k i c) = cg_Read M k' d c"
    "k \<noteq> k' \<Longrightarrow> cg_ReadBool M k' e (cg_Write M k v c) = cg_ReadBool M k' e c"
    "k \<noteq> k' \<Longrightarrow> cg_ReadBool M k' e (cg_WriteBool M k b c) = cg_ReadBool M k' e c"
    "k \<noteq> k' \<Longrightarrow> cg_ReadBool M k' e (cg_WriteInt M k i c) = cg_ReadBool M k' e c"
    "k \<noteq> k' \<Longrightarrow> cg_ReadInt M k' n (cg_Write M k v c) = cg_ReadInt M k' n c"
    "k \<noteq> k' \<Longrightarrow> cg_ReadInt M k' n (cg_WriteBool M k b c) = cg_ReadInt M k' n c"
    "k \<noteq> k' \<Longrightarrow> cg_ReadInt M k' n (cg_WriteInt M k i c) = cg_ReadInt M k' n c"
  using assms by (simp_all add: config_ok_def)

type_synonym stored = "(string \<rightharpoonup> string) \<times> (string \<rightharpoonup> bool) \<times> (string \<rightharpoonup> int)"

definition config_std :: "stored config_ops" where
  \<comment> \<open>an instance that computes\<close>
  "config_std = \<lparr>
     cg_Read = (\<lambda>k d (s, b, i). case s k of Some v \<Rightarrow> v | None \<Rightarrow> d),
     cg_ReadBool = (\<lambda>k d (s, b, i). case b k of Some v \<Rightarrow> v | None \<Rightarrow> d),
     cg_ReadInt = (\<lambda>k d (s, b, i). case i k of Some v \<Rightarrow> v | None \<Rightarrow> d),
     cg_Write = (\<lambda>k v (s, b, i). (s(k \<mapsto> v), b, i)),
     cg_WriteBool = (\<lambda>k v (s, b, i). (s, b(k \<mapsto> v), i)),
     cg_WriteInt = (\<lambda>k v (s, b, i). (s, b, i(k \<mapsto> v))) \<rparr>"

lemma config_ok_std: "config_ok config_std"
  by (simp add: config_ok_def config_std_def case_prod_beta)

primrec touched :: "eFlags \<Rightarrow> eFlags list" where
  \<comment> \<open>the flags that \<open>SetFlag\<close> sets\<close>
  "touched RunDAPServer = [RunDAPServer, StopOnMain, ExceptionCatch]"
| "touched StopOnMain = [StopOnMain, ExceptionCatch]"
| "touched ExceptionCatch = [ExceptionCatch]"
| "touched ExceptionThrow = [ExceptionThrow]"
| "touched PersistDebugElements = [PersistDebugElements, WatchFuncLocalsArgs]"
| "touched WatchFuncLocalsArgs = [WatchFuncLocalsArgs]"
| "touched EvalExpression = [EvalExpression]"
| "touched AddOtherProjectDirs = [AddOtherProjectDirs]"

text \<open>C34: setting a flag of the configuration sets others too. After \<open>SetFlag\<close> a flag reads as the value exactly
  if it is the one that was set or one that the missing \<open>break\<close> adds: with \<open>RunDAPServer\<close> also
  \<open>StopOnMain\<close> and \<open>ExceptionCatch\<close>, with \<open>StopOnMain\<close> also \<open>ExceptionCatch\<close>, and with
  \<open>PersistDebugElements\<close> also \<open>WatchFuncLocalsArgs\<close>. Every other flag and setting keeps its value.\<close>

theorem SetFlag_touches:
  assumes "config_ok M"
  shows "GetFlag M g (SetFlag M f v c) = (if g \<in> set (touched f) then v else GetFlag M g c)
    \<and> GetDAP_PortNumber M (SetFlag M f v c) = GetDAP_PortNumber M c
    \<and> GetDisassemblyFlavorCommand M (SetFlag M f v c) = GetDisassemblyFlavorCommand M c"
proof -
  have "GetFlag M g (SetFlag M f v c) = (if g \<in> set (touched f) then v else GetFlag M g c)"
    by (cases f; cases g) (simp_all add: config_okD [OF assms] Let_def)
  moreover have "GetDAP_PortNumber M (SetFlag M f v c) = GetDAP_PortNumber M c
      \<and> GetDisassemblyFlavorCommand M (SetFlag M f v c) = GetDisassemblyFlavorCommand M c"
    by (cases f) (simp_all add: GetDAP_PortNumber_def GetDisassemblyFlavorCommand_def config_okD [OF assms] Let_def)
  ultimately show ?thesis by blast
qed

theorem SetFlag_touches_witness:
  "GetFlag config_std ExceptionCatch (SetFlag config_std RunDAPServer False (\<lambda>_. None, \<lambda>_. None, \<lambda>_. None)) = False
    \<and> GetFlag config_std ExceptionCatch (\<lambda>_. None, \<lambda>_. None, \<lambda>_. None)"
  using SetFlag_touches [OF config_ok_std, of ExceptionCatch RunDAPServer False "(\<lambda>_. None, \<lambda>_. None, \<lambda>_. None)"]
  by (simp add: config_std_def)

text \<open>C33: what the settings panel shows after it was saved. The panel that is made from the saved
  configuration holds what the saved one held, with two exceptions: the port number, which
  \<open>SaveChanges\<close> does not write, is the one of the configuration before, and the colour of the
  executable is that of its validation. The path has to be a file, or the panel shows the result of
  the search instead.\<close>

theorem settings_saved:
  assumes "config_ok M" "txtDAPExecutable p \<noteq> []" "de_FileExists D (txtDAPExecutable p)"
  shows "MakePanel M D (SaveChanges M p c) = ValidateExecutablePath D (p\<lparr> txtPortNumber := GetDAP_PortNumber M c \<rparr>)"
proof -
  have "GetDAP_Executable M D False (SaveChanges M p c) = txtDAPExecutable p"
    by (simp add: GetDAP_Executable_def SaveChanges_def Let_def config_okD [OF assms(1)] assms(2,3))
  then show ?thesis
    by (simp add: MakePanel_def SaveChanges_def ValidateExecutablePath_def GetDAP_PortNumber_def GetInitialCommands_def
        GetDAP_PythonHomeEnvSetting_def Let_def config_okD [OF assms(1)])
qed

definition sample_detect :: detect_env where
  \<comment> \<open>the adapter is in the directory of the project's compiler\<close>
  "sample_detect = \<lparr> de_FileExists = (\<lambda>f. f = ''/opt/llvm/bin/lldb-dap''), de_DirExists = (\<lambda>d. d = ''/usr/bin/''),
     de_ReplaceEnvVars = (\<lambda>s. s), de_FullPath = (\<lambda>p n. p @ ''/'' @ n), de_ProjectMasterPath = Some '' /opt/llvm '',
     de_DefaultMasterPath = None, de_FindFileInPATH = (\<lambda>_. []) \<rparr>"

definition sample_panel :: settings_panel where
  "sample_panel = MakePanel config_std sample_detect (Map.empty, Map.empty, Map.empty)"

lemma sample_panel_path: "txtDAPExecutable sample_panel = ''/opt/llvm/bin/lldb-dap''"
  by (simp add: sample_panel_def MakePanel_def ValidateExecutablePath_def GetDAP_Executable_def config_std_def sample_detect_def
      DetectDebuggerExecutable_def SearchForDebuggerExecutable_def trim_both_def is_space_def Let_def)

theorem settings_saved_witness:
  "txtPortNumber (MakePanel config_std sample_detect
       (SaveChanges config_std (sample_panel\<lparr> txtPortNumber := ''4711'' \<rparr>) (Map.empty, Map.empty, Map.empty))) = []"
  using settings_saved [OF config_ok_std, of "sample_panel\<lparr> txtPortNumber := ''4711'' \<rparr>" sample_detect "(Map.empty, Map.empty, Map.empty)"]
  by (simp add: sample_panel_path sample_detect_def ValidateExecutablePath_def GetDAP_PortNumber_def config_std_def)

section \<open>The search and the start\<close>

lemma Launch_codes: "LaunchDebugger F E p x d port P = Inr (r, P') \<Longrightarrow> r \<in> {0, 1, 2}"
  by (auto simp: LaunchDebugger_def bind_err_Inr Let_def split: prod.splits if_splits)

lemma choose_port_codes: "choose_port E P = (rc, port, P1) \<Longrightarrow> rc \<in> {0, 6, 7}"
  by (auto simp: choose_port_def Let_def split: if_splits)

lemma Start_needs_executable:
  assumes "StartDebugger F E p P = Inr (r, P')" "r \<noteq> 2" "r \<noteq> 3"
  shows "r = 4 \<longleftrightarrow> \<not> pe_FileExists E (pe_DAP_Executable E)"
proof -
  obtain b compiler target where sel: "SelectCompiler E p (m_pid_attached P) = Inr (b, compiler, target)"
    using assms(1) by (auto simp: StartDebugger_def bind_err_Inr split: prod.splits)
  note a = assms(1) [unfolded StartDebugger_def sel bind_err_simps prod.case]
  show ?thesis
  proof (cases "pe_FileExists E (pe_DAP_Executable E)")
    case False
    with a assms(2,3) show ?thesis by (simp add: Let_def split: if_splits)
  next
    case True
    obtain rc port P1 where port: "choose_port E P = (rc, port, P1)" by (metis prod_cases3)
    have "r \<in> {0, 1, 2, 6, 7}"
    proof (cases "rc = 0")
      case False
      with a True assms(2,3) choose_port_codes [OF port] show ?thesis by (auto simp: Let_def port split: if_splits)
    next
      case rc: True
      with a [unfolded Let_def] True assms(2,3) show ?thesis
        by (auto simp: port bind_err_Inr dest: Launch_codes split: if_splits option.splits)
    qed
    with True show ?thesis by auto
  qed
qed

definition configured :: "'c config_ops \<Rightarrow> detect_env \<Rightarrow> 'c \<Rightarrow> string" where
  "configured M D c =
     (let s = cg_Read M ''executable_path'' [] c in if s = [] then DetectDebuggerExecutable D ''lldb-dap'' else de_ReplaceEnvVars D s)"

lemma Search_exists: "SearchForDebuggerExecutable D d n \<noteq> [] \<Longrightarrow> de_FileExists D (SearchForDebuggerExecutable D d n)"
  by (auto simp: SearchForDebuggerExecutable_def Let_def split: if_splits)

lemma Detect_exists:
  assumes "\<And>n. de_DirExists D (de_FindFileInPATH D n) \<Longrightarrow> de_FileExists D (de_FindFileInPATH D n @ ''/'' @ n)"
    "DetectDebuggerExecutable D n \<noteq> []"
  shows "de_FileExists D (DetectDebuggerExecutable D n)"
  using assms(2) assms(1) [of n] Search_exists
  by (auto simp: DetectDebuggerExecutable_def Let_def split: option.splits if_splits)

text \<open>C13: the executable that is looked for. If \<open>cbFindFileInPATH\<close> names a directory only if it holds
  the file, and neither the empty name nor a directory is a file, then \<open>GetDAP_Executable\<close> is a file
  unless the configured path is none, the detection finds nothing and none of the known adapters is
  there; then it is empty or, although it is a directory, \<open>/usr/bin/\<close>. A start that has a compiler and a
  target returns 4 exactly in this case: it never launches what is not a file.\<close>

theorem executable_search:
  assumes "\<And>n. de_DirExists D (de_FindFileInPATH D n) \<Longrightarrow> de_FileExists D (de_FindFileInPATH D n @ ''/'' @ n)"
    "\<not> de_FileExists D []" "\<not> de_FileExists D ''/usr/bin/''"
    "pe_DAP_Executable E = GetDAP_Executable M D True c" "pe_FileExists E = de_FileExists D"
    "StartDebugger F E p P = Inr (r, P')" "r \<noteq> 2" "r \<noteq> 3"
  shows "(r = 4) = (\<not> de_FileExists D (configured M D c) \<and> DetectDebuggerExecutable D ''lldb-dap'' = []
        \<and> filter (de_FileExists D) known_adapters = [])
    \<and> (if r = 4 then GetDAP_Executable M D True c \<in> {[], ''/usr/bin/''} else de_FileExists D (GetDAP_Executable M D True c))"
proof -
  let ?x = "GetDAP_Executable M D True c"
  let ?none = "\<not> de_FileExists D (configured M D c) \<and> DetectDebuggerExecutable D ''lldb-dap'' = []
      \<and> filter (de_FileExists D) known_adapters = []"
  note d = Detect_exists [OF assms(1), of "''lldb-dap''"]
  have "(\<not> de_FileExists D ?x) = ?none"
    using d assms(2,3)
    by (auto simp: GetDAP_Executable_def configured_def linux_adapter_def known_adapters_def Let_def split: if_splits)
  moreover have "?none \<Longrightarrow> ?x \<in> {[], ''/usr/bin/''}"
    using d by (auto simp: GetDAP_Executable_def configured_def linux_adapter_def known_adapters_def Let_def split: if_splits)
  ultimately show ?thesis using Start_needs_executable [OF assms(6-8)] assms(4,5) by auto
qed

definition bare_detect :: detect_env where   \<comment> \<open>without any adapter\<close>
  "bare_detect = sample_detect\<lparr> de_FileExists := \<lambda>_. False \<rparr>"

theorem executable_search_witness:
  "StartDebugger fp_int (sample_plugin_env\<lparr> pe_DAP_Executable := ''/usr/bin/'', pe_FileExists := \<lambda>_. False \<rparr>) 1 sample_new
     = Inr (4, sample_new) \<and> GetDAP_Executable config_std bare_detect True (Map.empty, Map.empty, Map.empty) = ''/usr/bin/''
   \<and> DetectDebuggerExecutable bare_detect ''lldb-dap'' = []"
proof -
  let ?E = "sample_plugin_env\<lparr> pe_DAP_Executable := ''/usr/bin/'', pe_FileExists := \<lambda>_. False \<rparr>"
  have sel: "SelectCompiler ?E (Suc 0) 0 = Inr (True, Some 1, Some sample_target)"
    by (simp add: SelectCompiler_def sample_plugin_env_def sample_target_def Let_def)
  have 4: "StartDebugger fp_int ?E 1 sample_new = Inr (4, sample_new)"
    by (simp add: StartDebugger_def sample_new_is(2) sel Let_def)
  have x: "GetDAP_Executable config_std bare_detect True (Map.empty, Map.empty, Map.empty) = ''/usr/bin/''"
    by (simp add: GetDAP_Executable_def config_std_def bare_detect_def sample_detect_def linux_adapter_def known_adapters_def
        DetectDebuggerExecutable_def SearchForDebuggerExecutable_def Let_def)
  have b: "de_FileExists bare_detect = (\<lambda>_. False)" "de_DirExists bare_detect = (\<lambda>d. d = ''/usr/bin/'')"
      "de_FindFileInPATH bare_detect = (\<lambda>_. [])" by (simp_all add: bare_detect_def sample_detect_def)
  from executable_search [of bare_detect ?E config_std "(Map.empty, Map.empty, Map.empty)" fp_int 1 sample_new 4 sample_new] 4 x
  show ?thesis by (simp add: b)
qed

section \<open>The targets of the page\<close>

datatype target_event = Te_Added string | Te_Removed string | Te_Renamed string string

primrec page_apply :: "nat \<Rightarrow> target_event \<Rightarrow> ProjectDlg \<Rightarrow> ProjectDlg option" where
  "page_apply project (Te_Added t) S = OnBuildTargetAdded project t S"
| "page_apply project (Te_Removed t) S = OnBuildTargetRemoved project t S"
| "page_apply project (Te_Renamed new old) S = OnBuildTargetRenamed project new old S"

primrec titles_after :: "target_event \<Rightarrow> string list \<Rightarrow> string list" where
  \<comment> \<open>the targets of the project itself\<close>
  "titles_after (Te_Added t) ts = ts @ [t]"
| "titles_after (Te_Removed t) ts = remove1 t ts"
| "titles_after (Te_Renamed new old) ts = map (\<lambda>t. if t = old then new else t) ts"

primrec event_fits :: "target_event \<Rightarrow> string list \<Rightarrow> bool" where
  "event_fits (Te_Added t) ts \<longleftrightarrow> map tolower t \<notin> set (map (map tolower) (''<Project>'' # ts))"
| "event_fits (Te_Removed t) ts \<longleftrightarrow> t \<in> set ts"
| "event_fits (Te_Renamed new old) ts \<longleftrightarrow> old \<in> set ts"

definition page_shows :: "string list \<Rightarrow> ProjectDlg \<Rightarrow> bool" where
  "page_shows ts S \<longleftrightarrow> lb_items (lstTargets S) = ''<Project>'' # ts
     \<and> 0 \<le> lb_sel (lstTargets S) \<and> lb_sel (lstTargets S) \<le> int (length ts)"

lemma FindString_item:
  assumes "distinct (map (map tolower) (lb_items b))" "i < length (lb_items b)" "lb_items b ! i = t"
  shows "FindString t b = int i"
proof -
  have "takeWhile (\<lambda>x. \<not> IsSameAs_nocase x t) (lb_items b) = take i (lb_items b)"
    using assms by (intro takeWhile_eq_take_P_nth)
      (auto simp: IsSameAs_nocase_def distinct_conv_nth [of "map (map tolower) (lb_items b)"])
  with assms(2) show ?thesis by (simp add: FindString_def)
qed

lemma FindString_none:
  assumes "map tolower t \<notin> set (map (map tolower) (lb_items b))"
  shows "FindString t b = wxNOT_FOUND"
proof -
  have "takeWhile (\<lambda>x. \<not> IsSameAs_nocase x t) (lb_items b) = lb_items b"
    using assms by (auto simp: IsSameAs_nocase_def takeWhile_eq_all_conv image_iff)
  from this [THEN arg_cong, of length] show ?thesis by (simp only: FindString_def Let_def) simp
qed

lemma remove1_nth: "distinct xs \<Longrightarrow> i < length xs \<Longrightarrow> remove1 (xs ! i) xs = take i xs @ drop (Suc i) xs"
  by (induction xs arbitrary: i) (auto simp: nth_Cons split: nat.split)

lemma update_distinct: "distinct xs \<Longrightarrow> i < length xs \<Longrightarrow> xs[i := y] = map (\<lambda>x. if x = xs ! i then y else x) xs"
  by (rule nth_equalityI) (auto simp: nth_list_update nth_eq_iff_index_eq)

lemma not_listed_fails:
  \<comment> \<open>the removal of a target that the list does not have selects the item \<open>-2\<close>\<close>
  assumes "map tolower t \<notin> set (map (map tolower) (lb_items (lstTargets S)))"
  shows "OnBuildTargetRemoved (pd_m_pProject S) t S = None"
  by (simp add: OnBuildTargetRemoved_def FindString_none [OF assms] select_target_def SetSelection_def wxNOT_FOUND_def)

text \<open>C32: the page of the project options follows the project. Let the page show the project and its
  targets, whose titles differ even without their case and from the first entry. Then the events that
  tell of an added, a removed or a renamed target all succeed, the list shows the project and its new
  targets, and one of its entries is selected. The events of another project change nothing.\<close>

theorem targets_follow:
  assumes "page_shows ts S" "distinct (map (map tolower) (''<Project>'' # ts))" "event_fits e ts"
  shows "map_option (page_shows (titles_after e ts)) (page_apply (pd_m_pProject S) e S) = Some True
    \<and> (q = pd_m_pProject S \<or> page_apply q e S = Some S)"
proof -
  let ?b = "lstTargets S"
  have items: "lb_items ?b = ''<Project>'' # ts" and sel: "0 \<le> lb_sel ?b" using assms(1) by (simp_all add: page_shows_def)
  have ts: "distinct ts" using assms(2) by (simp add: distinct_map)
  have at: "FindString (ts ! i) ?b = int (Suc i)" if "i < length ts" for i
    by (rule FindString_item) (use assms(2) items that in auto)
  have "map_option (page_shows (titles_after e ts)) (page_apply (pd_m_pProject S) e S) = Some True"
  proof (cases e)
    case (Te_Added t)
    then have "FindString t ?b = wxNOT_FOUND" using assms(3) items by (intro FindString_none) simp
    with Te_Added items show ?thesis
      by (simp add: OnBuildTargetAdded_def select_target_def SetSelection_def page_shows_def wxNOT_FOUND_def)
  next
    case (Te_Removed t)
    then obtain i where i: "i < length ts" "ts ! i = t" using assms(3) by (auto simp: in_set_conv_nth)
    show ?thesis using at [OF i(1)] remove1_nth [OF ts i(1)] i Te_Removed items
      by (auto simp: OnBuildTargetRemoved_def Let_def select_target_def SetSelection_def page_shows_def nat_add_distrib)
  next
    case (Te_Renamed new old)
    then obtain i where i: "i < length ts" "ts ! i = old" using assms(3) by (auto simp: in_set_conv_nth)
    show ?thesis using at [OF i(1)] update_distinct [OF ts i(1), of new] i Te_Renamed items
      by (simp add: OnBuildTargetRenamed_def Let_def select_target_def SetSelection_def page_shows_def wxNOT_FOUND_def nat_add_distrib)
  qed
  moreover have "page_apply q e S = Some S" if "q \<noteq> pd_m_pProject S"
    using that by (cases e) (simp_all add: OnBuildTargetAdded_def OnBuildTargetRemoved_def OnBuildTargetRenamed_def)
  ultimately show ?thesis by blast
qed

theorem targets_follow_witness:
  "map_option (page_shows [''Debug'']) (page_apply 7 (Te_Removed ''Release'') (ProjectDlg_new 7 [''Debug'', ''Release''])) = Some True
    \<and> page_apply 8 (Te_Removed ''Release'') (ProjectDlg_new 7 [''Debug'', ''Release'']) = Some (ProjectDlg_new 7 [''Debug'', ''Release''])"
  using targets_follow [of "[''Debug'', ''Release'']" "ProjectDlg_new 7 [''Debug'', ''Release'']" "Te_Removed ''Release''" 8]
  by (simp add: page_shows_def ProjectDlg_new_def tolower_def)

end
