(* ===== verification/Spec2Isabelle.thy ===== *)
theory Spec2Isabelle
  imports Dap_CJsonTotal Dap_CJsonRound Dap_ClientProps Dap_BreakpointProps Dap_Server Dap_CallStack Dap_ObjTypes Dap_PluginProps Dap_Settings
begin

text \<open>
  The Debug Adapter Protocol library and debugger plugin of \<open>debugger_DAP\<close>, modelled in HOL.

  The program. \<open>src/src/DebugAdapterProtocol\<close> is a library for the Debug Adapter Protocol: a C
  JSON library (\<open>cJSON.cpp\<close>), a handle on its nodes (\<open>JSON.cpp\<close>), about seventy message structs with
  \<open>To\<close> and \<open>From\<close> (\<open>dap.hpp\<close>, \<open>dap.cpp\<close>) and a registry that makes them by name (\<open>ObjGenerator\<close>), the
  framing of messages on a byte stream (\<open>JsonRPC.cpp\<close>), string helpers (\<open>StringUtils.cpp\<close>), the client
  (\<open>Client.cpp\<close>) and the server side with its sockets. \<open>src/src/DebugAdapterClient\<close> is the
  Code::Blocks plugin on top of it: the plugin object (\<open>plugin.cpp\<close>), which owns the client, and its
  parts, the breakpoints (\<open>DAP_Breakpoints.cpp\<close>), the call stack (\<open>DAP_CallStack.cpp\<close>), the watches
  with the registers (\<open>DAP_Watches.cpp\<close>), the global word of state flags (\<open>DAP_Debugger_State.cpp\<close>)
  helpers (\<open>helpers.cpp\<close>) and the settings (\<open>dlg_SettingsOptions.cpp\<close>). Code::Blocks and the user call the plugin; the plugin passes the call
  to a part; the parts send requests through the client; the client reads the stream, pairs responses
  with requests and fires events; the plugin's handlers give each event to the parts it concerns.

  The library, bottom up.
  \<^item> \<open>Dap_Prelude\<close>: characters, C strings, searching, integer bounds; \<open>Dap_CStd\<close>: what the source
    uses of the C library (\<open>atol\<close>, \<open>sprintf\<close>, \<open>sscanf\<close>, \<open>tolower\<close>) and the record \<open>fp\<close> of the
    floating-point operations, with the laws \<open>fp_ok\<close> (integers up to \<open>2^53\<close> are exact).
  \<^item> \<open>Dap_CJson\<close>, \<open>Dap_CJsonPrint\<close>, \<open>Dap_CJsonParse\<close>: \<open>cJSON.cpp\<close>. A node is a value of the
    datatype \<open>cJsonDap\<close> with the fields of the struct; the chain of \<open>next\<close> pointers is a list.
    The parser's mutual recursion runs on fuel, twice the length of the text plus two.
  \<^item> \<open>Dap_CJsonTotal\<close>: the fuel is enough, so the parser returns for every text.
    \<open>Dap_CJsonRound\<close>: printing and parsing a well-formed tree gives it back.
  \<^item> \<open>Dap_Json\<close>: \<open>JSON.cpp\<close>; a handle is an optional node. The locale \<open>serialisable\<close> is the contract
    of a message class: \<open>To\<close> makes an object, \<open>From\<close> reads it back.
  \<^item> \<open>Dap_MsgBase\<close>, \<open>Dap_MsgArgs\<close>, \<open>Dap_MsgRequests\<close>, \<open>Dap_MsgResponses\<close>, \<open>Dap_MsgEvents\<close>: the
    structs of \<open>dap.hpp\<close>; \<open>X_new\<close> is the constructor, \<open>X_To\<close> and \<open>X_From\<close> the methods, \<open>X_ok\<close> the
    field values that survive the trip. Every class that reads what it writes is an
    interpretation of \<open>serialisable\<close>; the classes that do not have none.
  \<^item> \<open>Dap_ObjGen\<close>: the registry and the dispatch of a parsed text to a message; \<open>Dap_ObjTypes\<close>: the
    object made is of the class that the text names.
  \<^item> \<open>Dap_StringUtils\<close>: \<open>StringUtils.cpp\<close>; \<open>wxString::Trim\<close> and \<open>wxStringTokenizer\<close> are the parameter
    \<open>wx\<close> with the laws \<open>wx_ok\<close>.
  \<^item> \<open>Dap_JsonRPC\<close>: \<open>JsonRPC.cpp\<close>; the locale \<open>framing\<close> is the contract of a framed stream, and its
    interpretation on \<open>DoProcessBuffer\<close> gives delivery whatever the cuts of the stream.

  The client and its peer.
  \<^item> \<open>Dap_Client\<close>: \<open>Client.cpp\<close> as a record with one function per operation; sent messages, fired
    events and called callbacks are a list of outputs. \<open>Dap_ClientRun\<close>: sessions of any operations in
    any order and the locale \<open>client_invariant\<close>, interpreted for the connection and for the handshake.
    \<open>Dap_ClientPairing\<close>: the locale \<open>pairing\<close>, interpreted for six kinds of requests: the n-th response
    is given the n-th request. \<open>Dap_ClientProps\<close>: single operations.
  \<^item> \<open>Dap_Server\<close>: connection strings, the loops around the system calls of sockets, the queue, and
    \<open>ServerProtocol\<close>; the handshake of client and server composed over the byte streams.

  The plugin.
  \<^item> \<open>Dap_State\<close>: the flag word as a 32 bit word, refined by an abstract session state.
  \<^item> \<open>Dap_Definitions\<close>, \<open>Dap_Persist\<close>: breakpoint and watch objects and their XML, which is a tree;
    reading back what was saved, for the laws \<open>wx_num_ok\<close> of the number conversions.
  \<^item> \<open>Dap_Breakpoints\<close>: the breakpoints, with an explicit heap because the list and the map of files
    share the objects; \<open>end()\<close> dereferenced or an index out of range is an error.
    \<open>Dap_BreakpointTable\<close>: sequences of its operations and the locale \<open>table_invariant\<close>, interpreted
    for the table and for the flags. \<open>Dap_BreakpointProps\<close>: what the adapter is told.
  \<^item> \<open>Dap_CallStack\<close>: frames, threads and the selected frame.
  \<^item> \<open>Dap_Watches\<close>, \<open>Dap_WatchProps\<close>: the watches and registers. The tree of watches belongs to the SDK
    of Code::Blocks: it is the parameter \<open>watch_sdk\<close> with the laws \<open>watch_sdk_ok\<close>, and \<open>watch_sdk_std\<close>
    is an instance that computes. The recursion over the children runs on fuel, the number of objects
    made so far; it is enough because a child is younger than its parent.
  \<^item> \<open>Dap_Helpers\<close>: the port search, the adapter's help text, the path and memory line conversions of
    \<open>plugin.cpp\<close>.
  \<^item> \<open>Dap_Plugin\<close>: the plugin object; its record holds the records of the parts. \<open>plugin_env\<close> is what
    Code::Blocks, the configuration, the file system and the dialogs answer, \<open>pg_calls\<close> what they are
    told. \<open>plugin_event\<close> is the table of handlers, \<open>plugin_apply\<close> one step from outside and
    \<open>plugin_session\<close> the states that steps reach.
  \<^item> \<open>Dap_PluginProps\<close>: every step keeps the invariants of the parts and none hangs; starting, attaching,
    detaching and the state file.
  \<^item> \<open>Dap_Settings\<close>: the settings (\<open>dlg_SettingsOptions.cpp\<close>), the search for the adapter's executable
    and what it means for a start, the panel and the page of a project (\<open>dlg_ProjectOptions.cpp\<close>). The
    configuration is the parameter \<open>config_ops\<close> with the laws \<open>config_ok\<close>.

  Conventions. A string is a char list and a \<open>wxString\<close> is taken to be ASCII, so that characters
  and bytes agree, except where a theory says otherwise. Doubles are a type variable. Undefined
  behaviour is an explicit result (\<open>PUndef\<close>, \<open>None\<close>, an \<open>Inl\<close>). Allocation succeeds and the stack is
  deep enough. Handlers of events run after the operation that fires the event. The plugin is the
  build for Linux.

  Not modelled: the setting up of listening sockets, processes and logging (system calls), the terminal
  window and the dialogs of breakpoints and watches (user interface, apart from the answers the
  operations use), the enabling of controls, the branches for Windows and macOS, \<open>SupportsFeature\<close>
  and \<open>ParseSearchDirs\<close> of the plugin, \<open>AddWatch\<close> for a raw pointer, which deletes it twice, and the
  vendored \<open>tinyxml2\<close>, whose documents are taken as trees.
\<close>

end
